(* ===== verification/Go_Prelude.thy ===== *)
theory Go_Prelude
  imports Complex_Main "HOL-Library.AList" "HOL-Library.Word" "HOL-Library.Sublist" "HOL-Library.Multiset"
begin

text \<open>
  Shared prelude: how the Go constructs of the repository are rendered.

  \<^item> A call that returns an error, or that panics, is a value of \<open>'a res\<close>: \<open>Inl (Error e)\<close> is a
    returned error with its text, \<open>Inl (Panic p)\<close> a run-time panic, \<open>Inr x\<close> a normal return.
  \<^item> A Go map with string keys is an association list with distinct keys (\<open>wf_map\<close>); the list order
    stands for one iteration order of the map, \<open>map_of\<close> for its contents.
  \<^item> A Go string is a list of bytes, \<open>string\<close>.
\<close>

section \<open>Errors and panics\<close>

datatype failure = Error string | Panic string

type_synonym 'a res = "failure + 'a"

definition bindr :: "'a res \<Rightarrow> ('a \<Rightarrow> 'b res) \<Rightarrow> 'b res" where
  "bindr r f = (case r of Inl e \<Rightarrow> Inl e | Inr x \<Rightarrow> f x)"

text \<open>\<open>fmt.Errorf("msg: %w", err)\<close> adds context to an error; a panic is not caught by it.\<close>

fun wrapf :: "string \<Rightarrow> 'a res \<Rightarrow> 'a res" where
  "wrapf msg (Inl (Error e)) = Inl (Error (msg @ '': '' @ e))"
| "wrapf msg r = r"

fun map_error :: "(string \<Rightarrow> string) \<Rightarrow> 'a res \<Rightarrow> 'a res" where
  "map_error f (Inl (Error e)) = Inl (Error (f e))"
| "map_error f r = r"

text \<open>Following a pointer: a nil pointer panics.\<close>

fun deref :: "'a option \<Rightarrow> 'a res" where
  "deref None = Inl (Panic ''invalid memory address or nil pointer dereference'')"
| "deref (Some x) = Inr x"

text \<open>The \<open>value, found, _ := ...\<close> idiom: an error counts as not found.\<close>

fun found :: "'a option res \<Rightarrow> 'a option" where
  "found (Inr v) = v"
| "found (Inl e) = None"

definition is_ok :: "'a res \<Rightarrow> bool" where
  "is_ok r \<longleftrightarrow> (case r of Inr x \<Rightarrow> True | Inl e \<Rightarrow> False)"

named_theorems res_simps \<open>equations of the result type\<close>

lemma bindr_simps [simp]: "bindr (Inl e) f = Inl e" "bindr (Inr x) f = f x"
  by (simp_all add: bindr_def)

lemma bindr_Inr_iff [res_simps]: "bindr r f = Inr y \<longleftrightarrow> (\<exists>x. r = Inr x \<and> f x = Inr y)"
  by (cases r) auto

lemma bindr_Inl_iff [res_simps]:
  "bindr r f = Inl e \<longleftrightarrow> r = Inl e \<or> (\<exists>x. r = Inr x \<and> f x = Inl e)"
  by (cases r) auto

lemma bindr_assoc: "bindr (bindr r f) g = bindr r (\<lambda>x. bindr (f x) g)"
  by (cases r) auto

lemma bindr_cong [fundef_cong]:
  "r = r' \<Longrightarrow> (\<And>x. r' = Inr x \<Longrightarrow> f x = f' x) \<Longrightarrow> bindr r f = bindr r' f'"
  by (cases r) auto

lemma wrapf_Inr_iff [res_simps, simp]: "wrapf msg r = Inr x \<longleftrightarrow> r = Inr x"
  by (cases "(msg, r)" rule: wrapf.cases) auto

lemma map_error_Inr_iff [res_simps, simp]: "map_error f r = Inr x \<longleftrightarrow> r = Inr x"
  by (cases "(f, r)" rule: map_error.cases) auto

lemma map_error_Inr [simp]: "map_error f (Inr x) = Inr x"
  by simp

lemma wrapf_Inr [simp]: "wrapf msg (Inr x) = Inr x"
  by simp

lemma deref_Inr_iff [res_simps, simp]: "deref p = Inr x \<longleftrightarrow> p = Some x"
  by (cases p) auto

lemma found_Some_iff [res_simps]: "found r = Some x \<longleftrightarrow> r = Inr (Some x)"
  by (cases r) auto

lemma is_ok_simps [simp]: "is_ok (Inr x)" "\<not> is_ok (Inl e)"
  by (simp_all add: is_ok_def)

lemma is_ok_iff: "is_ok r \<longleftrightarrow> (\<exists>x. r = Inr x)"
  by (cases r) auto

lemma is_ok_bindr [simp]: "is_ok (bindr r f) \<longleftrightarrow> (\<exists>x. r = Inr x \<and> is_ok (f x))"
  by (cases r) auto

lemma is_ok_wrapf [simp]: "is_ok (wrapf msg r) = is_ok r"
  by (simp add: is_ok_iff)

section \<open>Go maps\<close>

type_synonym 'v gomap = "(string \<times> 'v) list"

definition wf_map :: "('k \<times> 'v) list \<Rightarrow> bool" where
  "wf_map m \<longleftrightarrow> distinct (map fst m)"

text \<open>\<open>m[k] = v\<close>, \<open>maps.Copy(dst, src)\<close> and \<open>len(m)\<close>.\<close>

abbreviation gset :: "'k \<Rightarrow> 'v \<Rightarrow> ('k \<times> 'v) list \<Rightarrow> ('k \<times> 'v) list" where
  "gset \<equiv> AList.update"

definition gcopy :: "('k \<times> 'v) list \<Rightarrow> ('k \<times> 'v) list \<Rightarrow> ('k \<times> 'v) list" where
  "gcopy dst src = fold (\<lambda>(k, v) m. gset k v m) src dst"

text \<open>Reading a missing key gives the zero value: the empty string, the nil slice.\<close>

definition gget :: "string gomap \<Rightarrow> string \<Rightarrow> string" where
  "gget m k = (case map_of m k of None \<Rightarrow> '''' | Some v \<Rightarrow> v)"

definition gslice :: "'v list gomap \<Rightarrow> string \<Rightarrow> 'v list" where
  "gslice m k = (case map_of m k of None \<Rightarrow> [] | Some v \<Rightarrow> v)"

text \<open>\<open>for _, x := range xs { m[key(x)] = val(x) }\<close>\<close>

definition put_all :: "('x \<Rightarrow> 'k) \<Rightarrow> ('x \<Rightarrow> 'v) \<Rightarrow> 'x list \<Rightarrow> ('k \<times> 'v) list \<Rightarrow> ('k \<times> 'v) list" where
  "put_all key val xs m = fold (\<lambda>x. gset (key x) (val x)) xs m"

text \<open>Two maps with the same contents, in whatever iteration order.\<close>

definition same_map :: "('k \<times> 'v) list \<Rightarrow> ('k \<times> 'v) list \<Rightarrow> bool" where
  "same_map m m' \<longleftrightarrow> map_of m = map_of m'"

named_theorems gomap_simps \<open>contents of maps after an operation\<close>

lemma wf_map_Nil [simp]: "wf_map []"
  by (simp add: wf_map_def)

lemma wf_map_Cons [simp]: "wf_map ((k, v) # m) \<longleftrightarrow> k \<notin> fst ` set m \<and> wf_map m"
  by (auto simp: wf_map_def)

lemma map_of_gset [gomap_simps, simp]: "map_of (gset k v m) = (map_of m)(k \<mapsto> v)"
  by (simp add: update_conv fun_eq_iff)

lemma wf_gset [simp]: "wf_map m \<Longrightarrow> wf_map (gset k v m)"
  by (simp add: wf_map_def distinct_update)

lemma gcopy_Nil [simp]: "gcopy dst [] = dst"
  by (simp add: gcopy_def)

lemma gcopy_Cons [simp]: "gcopy dst ((k, v) # src) = gcopy (gset k v dst) src"
  by (simp add: gcopy_def)

lemma wf_gcopy [simp]: "wf_map dst \<Longrightarrow> wf_map (gcopy dst src)"
  by (induction src arbitrary: dst) auto

lemma map_of_gcopy [gomap_simps]:
  "wf_map src \<Longrightarrow> map_of (gcopy dst src) = map_of dst ++ map_of src"
proof (induction src arbitrary: dst)
  case Nil
  then show ?case by simp
next
  case (Cons kv src)
  obtain k v where kv: "kv = (k, v)" by (cases kv)
  from Cons.prems kv have "map_of src k = None"
    by (auto simp: map_of_eq_None_iff)
  with Cons kv show ?case
    by (auto simp: map_add_def fun_eq_iff split: option.splits)
qed

lemma map_of_gcopy_apply [gomap_simps]:
  "wf_map src \<Longrightarrow> map_of (gcopy dst src) k =
     (case map_of src k of None \<Rightarrow> map_of dst k | Some v \<Rightarrow> Some v)"
  by (simp add: map_of_gcopy map_add_def)

lemma dom_gcopy: "wf_map src \<Longrightarrow> dom (map_of (gcopy dst src)) = dom (map_of dst) \<union> dom (map_of src)"
  by (auto simp: map_of_gcopy)

lemma length_dom: "wf_map m \<Longrightarrow> length m = card (dom (map_of m))"
  using distinct_card [of "map fst m"] by (simp add: wf_map_def dom_map_of_conv_image_fst)

lemma put_all_simps [simp]:
  "put_all key val [] m = m" "put_all key val (x # xs) m = put_all key val xs (gset (key x) (val x) m)"
  by (simp_all add: put_all_def)

lemma wf_put_all [simp]: "wf_map m \<Longrightarrow> wf_map (put_all key val xs m)"
  by (induction xs arbitrary: m) auto

lemma put_all_other: "k \<notin> key ` set xs \<Longrightarrow> map_of (put_all key val xs m) k = map_of m k"
  by (induction xs arbitrary: m) auto

lemma put_all_hit: "inj_on key (set xs) \<Longrightarrow> x \<in> set xs \<Longrightarrow> map_of (put_all key val xs m) (key x) = Some (val x)"
proof (induction xs arbitrary: m)
  case (Cons y xs)
  have inj: "inj_on key (set xs)" using Cons.prems(1) by (simp add: inj_on_insert)
  show ?case
  proof (cases "x \<in> set xs")
    case True
    with Cons.IH [OF inj] show ?thesis by simp
  next
    case False
    then have "x = y" "key x \<notin> key ` set xs" using Cons.prems by (auto simp: inj_on_def)
    then show ?thesis by (simp add: put_all_other)
  qed
qed simp

lemma put_all_dom: "dom (map_of (put_all key val xs m)) = key ` set xs \<union> dom (map_of m)"
  by (induction xs arbitrary: m) auto

lemma put_all_source:
  "map_of (put_all key val xs m) k = Some v \<Longrightarrow>
   (\<exists>x \<in> set xs. key x = k \<and> val x = v) \<or> map_of m k = Some v \<and> k \<notin> key ` set xs"
proof (induction xs arbitrary: m)
  case (Cons y xs)
  then have "map_of (put_all key val xs (gset (key y) (val y) m)) k = Some v" by simp
  from Cons.IH [OF this] show ?case by (auto split: if_splits)
qed simp

lemma same_map_refl [simp]: "same_map m m"
  by (simp add: same_map_def)

lemma same_map_sym: "same_map m m' \<Longrightarrow> same_map m' m"
  by (simp add: same_map_def)

lemma same_map_trans: "same_map a b \<Longrightarrow> same_map b c \<Longrightarrow> same_map a c"
  by (simp add: same_map_def)

lemma same_map_length: "wf_map m \<Longrightarrow> wf_map m' \<Longrightarrow> same_map m m' \<Longrightarrow> length m = length m'"
  by (simp add: length_dom same_map_def)

lemma same_map_keys: "same_map m m' \<Longrightarrow> fst ` set m = fst ` set m'"
  by (metis dom_map_of_conv_image_fst same_map_def)

lemma same_map_perm:
  assumes "wf_map m" and "mset m = mset m'"
  shows "same_map m m' \<and> wf_map m'"
proof -
  from assms(2) have s: "set m = set m'" by (metis set_mset_mset)
  from assms(2) have "mset (map fst m) = mset (map fst m')" by simp
  then have d: "distinct (map fst m) = distinct (map fst m')"
    by (metis mset_eq_imp_distinct_iff)
  have "map_of m k = map_of m' k" for k
    using assms(1) s d by (metis map_of_eq_Some_iff not_None_eq wf_map_def)
  with assms(1) d show ?thesis
    by (simp add: wf_map_def same_map_def fun_eq_iff)
qed

lemma map_of_SomeI: "wf_map m \<Longrightarrow> (k, v) \<in> set m \<Longrightarrow> map_of m k = Some v"
  by (simp add: wf_map_def)

lemma gget_simps [simp]:
  "map_of m k = Some v \<Longrightarrow> gget m k = v"
  "map_of m k = None \<Longrightarrow> gget m k = ''''"
  by (simp_all add: gget_def)

lemma gslice_simps [simp]:
  "map_of m k = Some v \<Longrightarrow> gslice m k = v"
  "map_of m k = None \<Longrightarrow> gslice m k = []"
  by (simp_all add: gslice_def)

end
