(* ===== verification/Go_Strings.thy ===== *)
theory Go_Strings
  imports Go_Prelude
begin

text \<open>
  The functions of Go's \<open>strings\<close>, \<open>path\<close>, \<open>fmt\<close> and \<open>encoding/hex\<close> packages that the
  repository uses, on byte strings. Letter case is the ASCII mapping: the code applies it to names that are
  ASCII (after transliteration, or enumerated by the API schema).
\<close>

section \<open>Characters\<close>

abbreviation code :: "char \<Rightarrow> nat" where "code c \<equiv> of_char c"

definition is_lower :: "char \<Rightarrow> bool" where "is_lower c \<longleftrightarrow> 97 \<le> code c \<and> code c \<le> 122"
definition is_upper :: "char \<Rightarrow> bool" where "is_upper c \<longleftrightarrow> 65 \<le> code c \<and> code c \<le> 90"
definition is_digit :: "char \<Rightarrow> bool" where "is_digit c \<longleftrightarrow> 48 \<le> code c \<and> code c \<le> 57"

definition lower_char :: "char \<Rightarrow> char" where
  "lower_char c = (if is_upper c then char_of (code c + 32) else c)"

text \<open>\<open>strings.ToLower\<close>.\<close>

definition to_lower :: "string \<Rightarrow> string" where
  "to_lower = map lower_char"

lemma is_upper_lower_char [simp]: "\<not> is_upper (lower_char c)"
  by (auto simp: lower_char_def is_upper_def)

lemma lower_char_id [simp]: "\<not> is_upper c \<Longrightarrow> lower_char c = c"
  by (simp add: lower_char_def)

lemma is_lower_lower_char: "is_lower c \<Longrightarrow> lower_char c = c"
  by (auto simp: lower_char_def is_lower_def is_upper_def)

lemma is_digit_lower_char: "is_digit c \<Longrightarrow> lower_char c = c"
  by (auto simp: lower_char_def is_digit_def is_upper_def)

lemma length_to_lower [simp]: "length (to_lower s) = length s"
  by (simp add: to_lower_def)

lemma to_lower_idem [simp]: "to_lower (to_lower s) = to_lower s"
  by (simp add: to_lower_def)

lemma to_lower_id: "(\<And>c. c \<in> set s \<Longrightarrow> \<not> is_upper c) \<Longrightarrow> to_lower s = s"
  by (simp add: to_lower_def map_idI)

section \<open>Prefixes and parts\<close>

text \<open>\<open>strings.HasPrefix\<close> and \<open>strings.HasSuffix\<close> are \<open>prefix\<close> and \<open>suffix\<close> of the library.\<close>

definition trim_prefix :: "string \<Rightarrow> string \<Rightarrow> string" where
  "trim_prefix s p = (if prefix p s then drop (length p) s else s)"

lemma trim_prefix_append [simp]: "trim_prefix (p @ s) p = s"
  by (simp add: trim_prefix_def)

lemma append_trim_prefix: "prefix p s \<Longrightarrow> p @ trim_prefix s p = s"
  by (auto simp: trim_prefix_def prefix_def)

text \<open>\<open>strings.Split(s, sep)\<close> for a one-byte separator: always at least one part.\<close>

fun split_on :: "char \<Rightarrow> string \<Rightarrow> string list" where
  "split_on sep [] = [[]]"
| "split_on sep (c # s) =
     (if c = sep then [] # split_on sep s
      else case split_on sep s of [] \<Rightarrow> [[c]] | p # ps \<Rightarrow> (c # p) # ps)"

text \<open>\<open>strings.Join(parts, sep)\<close>.\<close>

fun join :: "string \<Rightarrow> string list \<Rightarrow> string" where
  "join sep [] = []"
| "join sep [p] = p"
| "join sep (p # ps) = p @ sep @ join sep ps"

lemma split_on_nonempty [simp]: "split_on sep s \<noteq> []"
  by (induction s) (auto split: list.splits)

lemma split_on_no_sep: "p \<in> set (split_on sep s) \<Longrightarrow> sep \<notin> set p"
  by (induction s arbitrary: p) (auto split: if_splits list.splits)

lemma split_on_id: "sep \<notin> set s \<Longrightarrow> split_on sep s = [s]"
  by (induction s) auto

lemma split_on_append: "sep \<notin> set p \<Longrightarrow> split_on sep (p @ sep # s) = p # split_on sep s"
  by (induction p) auto

lemma join_Cons: "ps \<noteq> [] \<Longrightarrow> join sep (p # ps) = p @ sep @ join sep ps"
  by (cases ps) auto

lemma join_split_on: "join [sep] (split_on sep s) = s"
proof (induction s)
  case Nil
  then show ?case by simp
next
  case (Cons c s)
  obtain p ps where sp: "split_on sep s = p # ps"
    by (metis neq_Nil_conv split_on_nonempty)
  with Cons show ?case
    by (cases ps) auto
qed

lemma append_sep_inj: "sep \<notin> set a \<Longrightarrow> sep \<notin> set b \<Longrightarrow> x @ sep # a = y @ sep # b \<longleftrightarrow> x = y \<and> a = b"
  by (auto simp: append_eq_append_conv2 append_eq_Cons_conv Cons_eq_append_conv)

lemma split_on_join:
  "ps \<noteq> [] \<Longrightarrow> (\<And>p. p \<in> set ps \<Longrightarrow> sep \<notin> set p) \<Longrightarrow> split_on sep (join [sep] ps) = ps"
proof (induction ps rule: induct_list012)
  case 1
  then show ?case by simp
next
  case (2 p)
  then show ?case by (simp add: split_on_id)
next
  case (3 p q ps)
  then show ?case by (simp add: split_on_append)
qed

text \<open>\<open>strings.Contains(s, sub)\<close> and \<open>strings.LastIndex(s, sub)\<close>.\<close>

definition contains :: "string \<Rightarrow> string \<Rightarrow> bool" where
  "contains s sub \<longleftrightarrow> sublist sub s"

fun last_index :: "string \<Rightarrow> string \<Rightarrow> nat option" where
  "last_index [] sub = (if sub = [] then Some 0 else None)"
| "last_index (c # s) sub =
     (case last_index s sub of
        Some i \<Rightarrow> Some (Suc i)
      | None \<Rightarrow> if prefix sub (c # s) then Some 0 else None)"

lemma last_index_bound: "last_index s sub = Some i \<Longrightarrow> i + length sub \<le> length s"
  by (induction s arbitrary: i) (auto split: option.splits if_splits dest: prefix_length_le)

lemma last_index_prefix: "last_index s sub = Some i \<Longrightarrow> prefix sub (drop i s)"
  by (induction s arbitrary: i) (auto split: option.splits if_splits)

section \<open>Numbers\<close>

text \<open>\<open>%d\<close> of a natural number and of an integer.\<close>

definition digit_char :: "nat \<Rightarrow> char" where
  "digit_char d = char_of (if d < 10 then 48 + d else 87 + d)"

fun digits_rev :: "nat \<Rightarrow> nat \<Rightarrow> nat \<Rightarrow> nat list" where
  "digits_rev 0 b n = []"
| "digits_rev (Suc fuel) b n = n mod b # (if n div b = 0 then [] else digits_rev fuel b (n div b))"

text \<open>The fuel \<open>Suc n\<close> is always enough for a base of at least 2 (\<open>digits_rev_value\<close>).\<close>

definition show_base :: "nat \<Rightarrow> nat \<Rightarrow> string" where
  "show_base b n = map digit_char (rev (digits_rev (Suc n) b n))"

definition itoa :: "nat \<Rightarrow> string" where
  "itoa n = show_base 10 n"

definition show_int :: "int \<Rightarrow> string" where
  "show_int i = (if i < 0 then ''-'' @ itoa (nat (- i)) else itoa (nat i))"

fun value_rev :: "nat \<Rightarrow> nat list \<Rightarrow> nat" where
  "value_rev b [] = 0"
| "value_rev b (d # ds) = d + b * value_rev b ds"

lemma digits_rev_value: "2 \<le> b \<Longrightarrow> n < fuel \<Longrightarrow> value_rev b (digits_rev fuel b n) = n"
proof (induction fuel arbitrary: n)
  case 0
  then show ?case by simp
next
  case (Suc fuel)
  have "n div b < fuel" if nz: "n div b \<noteq> 0"
  proof -
    from nz have "0 < n" by (cases n) auto
    then have "n div b < n" using Suc.prems(1) by (simp add: div_less_dividend)
    then show ?thesis using Suc.prems(2) by simp
  qed
  moreover have "n mod b = n" if "n div b = 0"
    using mult_div_mod_eq [of b n] that by (metis add_0 mult_0_right)
  ultimately show ?case using Suc by auto
qed

lemma digits_rev_bound: "0 < b \<Longrightarrow> d \<in> set (digits_rev fuel b n) \<Longrightarrow> d < b"
  by (induction fuel arbitrary: n) (auto split: if_splits)

lemma digit_char_inj: "d < 16 \<Longrightarrow> e < 16 \<Longrightarrow> digit_char d = digit_char e \<Longrightarrow> d = e"
  by (auto simp: digit_char_def split: if_splits dest!: arg_cong [where f = "of_char :: char \<Rightarrow> nat"])

lemma show_base_inj: "2 \<le> b \<Longrightarrow> b \<le> 16 \<Longrightarrow> show_base b m = show_base b n \<Longrightarrow> m = n"
proof -
  assume b: "2 \<le> b" "b \<le> 16" and eq: "show_base b m = show_base b n"
  define ds where "ds k = rev (digits_rev (Suc k) b k)" for k
  have inj: "inj_on digit_char {d. d < 16}"
    by (auto simp: inj_on_def dest: digit_char_inj)
  have bd: "set (ds k) \<subseteq> {d. d < 16}" for k
  proof
    fix d assume "d \<in> set (ds k)"
    then have "d \<in> set (digits_rev (Suc k) b k)" unfolding ds_def set_rev .
    then have "d < b" by (rule digits_rev_bound [rotated]) (use b in linarith)
    with b show "d \<in> {d. d < 16}" by simp
  qed
  have val: "value_rev b (rev (ds k)) = k" for k
    unfolding ds_def rev_rev_ident using b(1) by (rule digits_rev_value) simp
  from eq have "map digit_char (ds m) = map digit_char (ds n)"
    unfolding show_base_def ds_def .
  moreover have "inj_on digit_char (set (ds m) \<union> set (ds n))"
    using bd [of m] bd [of n] by (intro inj_on_subset [OF inj] Un_least)
  ultimately have "ds m = ds n" by (metis inj_on_map_eq_map)
  then show "m = n" by (metis val)
qed

lemma itoa_inj: "itoa m = itoa n \<Longrightarrow> m = n"
  unfolding itoa_def by (rule show_base_inj) auto

text \<open>\<open>hex.EncodeToString\<close>: two digits for each byte.\<close>

definition hex_byte :: "nat \<Rightarrow> string" where
  "hex_byte b = [digit_char (b div 16), digit_char (b mod 16)]"

definition hex_encode :: "nat list \<Rightarrow> string" where
  "hex_encode bs = concat (map hex_byte bs)"

lemma length_hex_encode [simp]: "length (hex_encode bs) = 2 * length bs"
  by (induction bs) (auto simp: hex_encode_def hex_byte_def)

section \<open>Paths\<close>

text \<open>\<open>path.Clean\<close>: the components kept so far are a stack, innermost first.\<close>

fun clean_step :: "bool \<Rightarrow> string list \<Rightarrow> string \<Rightarrow> string list" where
  "clean_step rooted st c =
     (if c = '''' \<or> c = ''.'' then st
      else if c = ''..'' then
        (case st of
           [] \<Rightarrow> if rooted then [] else [''..'']
         | t # ts \<Rightarrow> if t = ''..'' then ''..'' # st else ts)
      else c # st)"

definition path_clean :: "string \<Rightarrow> string" where
  "path_clean p =
     (let rooted = prefix ''/'' p;
          out = join ''/'' (rev (foldl (clean_step rooted) [] (split_on (CHR ''/'') p)))
      in if rooted then ''/'' @ out else if out = [] then ''.'' else out)"

definition path_join :: "string list \<Rightarrow> string" where
  "path_join ps =
     (let qs = filter (\<lambda>p. p \<noteq> []) ps in if qs = [] then [] else path_clean (join ''/'' qs))"

text \<open>A relative path none of whose components is empty or a dot component is already clean.\<close>

definition plain_path :: "string \<Rightarrow> bool" where
  "plain_path p \<longleftrightarrow> (\<forall>c \<in> set (split_on (CHR ''/'') p). c \<noteq> [] \<and> c \<noteq> ''.'' \<and> c \<noteq> ''..'')"

lemma clean_fold_plain:
  "(\<forall>c \<in> set cs. c \<noteq> [] \<and> c \<noteq> ''.'' \<and> c \<noteq> ''..'') \<Longrightarrow> foldl (clean_step r) st cs = rev cs @ st"
  by (induction cs arbitrary: st) auto

lemma plain_path_not_rooted:
  assumes "plain_path p"
  shows "p \<noteq> [] \<and> \<not> prefix ''/'' p"
proof (cases p)
  case Nil
  with assms show ?thesis by (simp add: plain_path_def)
next
  case (Cons c s)
  have "[] \<notin> set (split_on (CHR ''/'') p)"
    using assms unfolding plain_path_def by blast
  with Cons have "c \<noteq> CHR ''/''" by auto
  with Cons show ?thesis by simp
qed

lemma path_clean_plain: "plain_path p \<Longrightarrow> path_clean p = p"
proof -
  assume p: "plain_path p"
  then have "foldl (clean_step False) [] (split_on (CHR ''/'') p) = rev (split_on (CHR ''/'') p)"
    by (simp add: plain_path_def clean_fold_plain)
  with p plain_path_not_rooted [OF p] show ?thesis
    by (simp add: path_clean_def Let_def join_split_on)
qed

lemma path_join_single: "plain_path p \<Longrightarrow> path_join ['''', p] = p"
  using plain_path_not_rooted by (auto simp: path_join_def path_clean_plain)

lemma split_on_append_sep:
  "split_on sep (p @ sep # s) = split_on sep p @ split_on sep s"
proof (induction p)
  case Nil
  then show ?case by simp
next
  case (Cons c p)
  obtain q qs where "split_on sep p = q # qs"
    by (metis neq_Nil_conv split_on_nonempty)
  with Cons show ?case by simp
qed

lemma plain_path_append: "plain_path p \<Longrightarrow> plain_path q \<Longrightarrow> plain_path (p @ ''/'' @ q)"
  using split_on_append_sep [of "CHR ''/''" p q] by (auto simp: plain_path_def)

lemma path_join_plain: "plain_path p \<Longrightarrow> plain_path q \<Longrightarrow> path_join [p, q] = p @ ''/'' @ q"
  using plain_path_not_rooted plain_path_append path_clean_plain
  by (auto simp: path_join_def)

end
