(* ===== verification/Go_Regexp.thy ===== *)
theory Go_Regexp
  imports Go_Strings
begin

text \<open>
  The part of Go's \<open>regexp\<close> package that sequence patterns use: literal characters, \<open>.\<close>,
  the star of one character, and the anchors \<open>^\<close> and \<open>$\<close>. Every pattern written in the
  repository's groups is of this form. \<open>Compile\<close> reports a misplaced star as Go does; a pattern with any
  other operator is outside the fragment and is reported as an error too. As in Go, \<open>.\<close> does not match
  a newline and \<open>MatchString\<close> looks for a match anywhere in the text.
\<close>

datatype atom = Lit char | AnyChar

datatype item = One atom | Star atom | Bol | Eol

type_synonym regexp = "item list"

fun accepts :: "atom \<Rightarrow> char \<Rightarrow> bool" where
  "accepts (Lit d) c = (c = d)"
| "accepts AnyChar c = (c \<noteq> CHR 0x0A)"

definition meta :: "char \<Rightarrow> bool" where
  "meta c \<longleftrightarrow> c \<in> set ''+?()[]{}|^$.*'' \<or> c = CHR 0x5C"

definition atom_of :: "char \<Rightarrow> atom" where
  "atom_of c = (if c = CHR ''.'' then AnyChar else Lit c)"

fun compile :: "string \<Rightarrow> regexp res" where
  "compile [] = Inr []"
| "compile (c # s) =
     (if c = CHR ''^'' then bindr (compile s) (\<lambda>r. Inr (Bol # r))
      else if c = CHR ''$'' then bindr (compile s) (\<lambda>r. Inr (Eol # r))
      else if c = CHR ''*'' then Inl (Error ''missing argument to repetition operator'')
      else if meta c \<and> c \<noteq> CHR ''.'' then Inl (Error ''operator outside the supported fragment'')
      else (case s of
              [] \<Rightarrow> Inr [One (atom_of c)]
            | d # t \<Rightarrow>
                if d = CHR ''*'' then bindr (compile t) (\<lambda>r. Inr (Star (atom_of c) # r))
                else bindr (compile (d # t)) (\<lambda>r. Inr (One (atom_of c) # r))))"

function match_here :: "regexp \<Rightarrow> bool \<Rightarrow> string \<Rightarrow> bool" where
  "match_here [] bol s = True"
| "match_here (One a # r) bol s =
     (case s of [] \<Rightarrow> False | c # t \<Rightarrow> accepts a c \<and> match_here r False t)"
| "match_here (Star a # r) bol s =
     (match_here r bol s \<or>
      (case s of [] \<Rightarrow> False | c # t \<Rightarrow> accepts a c \<and> match_here (Star a # r) False t))"
| "match_here (Bol # r) bol s = (bol \<and> match_here r bol s)"
| "match_here (Eol # r) bol s = (s = [] \<and> match_here r bol s)"
  by pat_completeness auto
termination
  by (relation "measure (\<lambda>(r, _, s). length r + length s)") auto

fun search :: "regexp \<Rightarrow> bool \<Rightarrow> string \<Rightarrow> bool" where
  "search r bol [] = match_here r bol []"
| "search r bol (c # s) = (match_here r bol (c # s) \<or> search r False s)"

definition match_string :: "regexp \<Rightarrow> string \<Rightarrow> bool" where
  "match_string r s = search r True s"

section \<open>Anchored literals and prefixes\<close>

lemma search_Bol_False [simp]: "\<not> search (Bol # r) False s"
  by (induction s) auto

lemma match_string_Bol [simp]: "match_string (Bol # r) s = match_here r True s"
  by (cases s) (auto simp: match_string_def)

definition literal :: "string \<Rightarrow> bool" where
  "literal p \<longleftrightarrow> (\<forall>c \<in> set p. \<not> meta c)"

lemma literal_simps [simp]: "literal []" "literal (c # p) \<longleftrightarrow> \<not> meta c \<and> literal p"
  by (auto simp: literal_def)

lemma literal_append [simp]: "literal (p @ q) \<longleftrightarrow> literal p \<and> literal q"
  by (auto simp: literal_def)

lemma not_meta: "\<not> meta c \<Longrightarrow> c \<noteq> CHR ''^'' \<and> c \<noteq> CHR ''$'' \<and> c \<noteq> CHR ''*'' \<and> c \<noteq> CHR ''.''"
  by (auto simp: meta_def)

text \<open>A literal compiles to itself, whatever follows it, unless a star follows directly.\<close>

lemma compile_literal:
  "literal p \<Longrightarrow> (case s of [] \<Rightarrow> True | d # t \<Rightarrow> d \<noteq> CHR ''*'') \<Longrightarrow>
   compile (p @ s) = bindr (compile s) (\<lambda>r. Inr (map (\<lambda>a. One (Lit a)) p @ r))"
proof (induction p)
  case Nil
  then show ?case by (cases "compile s") auto
next
  case (Cons c p)
  have nm: "\<not> meta c" using Cons.prems by simp
  have nx: "case p @ s of [] \<Rightarrow> True | d # t \<Rightarrow> d \<noteq> CHR ''*''"
    using Cons.prems not_meta by (cases p) auto
  from Cons have IH: "compile (p @ s) = bindr (compile s) (\<lambda>r. Inr (map (\<lambda>a. One (Lit a)) p @ r))"
    by simp
  show ?case
    using nm not_meta [OF nm] nx IH
    by (cases "p @ s"; cases "compile s") (auto simp: atom_of_def)
qed

lemma match_here_literal:
  "match_here (map (\<lambda>a. One (Lit a)) p @ r) bol s \<longleftrightarrow>
     (\<exists>t. s = p @ t \<and> match_here r (bol \<and> p = []) t)"
  by (induction p arbitrary: bol s) (auto split: list.splits)

lemma match_here_any_rest [simp]:
  "match_here [Star AnyChar, Eol] bol s \<longleftrightarrow> CHR 0x0A \<notin> set s"
  by (induction s arbitrary: bol) auto

text \<open>\<open>^p$\<close> matches exactly \<open>p\<close>; \<open>^p.*$\<close> matches what starts with \<open>p\<close>, on one line.\<close>

lemma compile_anchored_literal:
  "literal p \<Longrightarrow> compile (''^'' @ p @ ''$'') = Inr (Bol # map (\<lambda>a. One (Lit a)) p @ [Eol])"
  by (simp add: compile_literal)

lemma compile_anchored_prefix:
  "literal p \<Longrightarrow> compile (''^'' @ p @ ''.*$'') = Inr (Bol # map (\<lambda>a. One (Lit a)) p @ [Star AnyChar, Eol])"
  by (simp add: compile_literal meta_def atom_of_def)

lemma match_anchored_literal:
  "match_string (Bol # map (\<lambda>a. One (Lit a)) p @ [Eol]) s \<longleftrightarrow> s = p"
  by (auto simp: match_here_literal)

lemma match_anchored_prefix:
  "match_string (Bol # map (\<lambda>a. One (Lit a)) p @ [Star AnyChar, Eol]) s \<longleftrightarrow>
     prefix p s \<and> CHR 0x0A \<notin> set (trim_prefix s p)"
proof -
  have "match_string (Bol # map (\<lambda>a. One (Lit a)) p @ [Star AnyChar, Eol]) s \<longleftrightarrow>
      (\<exists>t. s = p @ t \<and> CHR 0x0A \<notin> set t)"
    by (simp only: match_string_Bol match_here_literal match_here_any_rest)
  then show ?thesis by (metis append_trim_prefix prefixI trim_prefix_append)
qed

end
