(* ===== verification/Unstructured.thy ===== *)
theory Unstructured
  imports Go_Strings
begin

text \<open>
  Kubernetes objects as the functions see them: Go values of type \<open>map[string]interface{}\<close>, and the
  packages outside the repository that read and write them. \<open>json\<close> is the Go value, \<open>object\<close> the
  map inside \<open>unstructured.Unstructured\<close>. The record \<open>ext\<close> holds the external functions that
  \<open>functions/common/base\<close> calls: \<open>k8s.io/apimachinery\<close> accessors, \<open>mergo.Map\<close>,
  \<open>runtime.DefaultUnstructuredConverter\<close> at the two types base converts to, and
  \<open>unidecode.Unidecode\<close>. They are parameters of every definition that uses them; the locales
  \<open>object_access\<close> and \<open>object_reads\<close> list the documented laws that the proofs rely on.
\<close>

datatype json =
    JNull
  | JBool bool
  | JInt int
  | JFloat rat
  | JStr string
  | JArr "json list"
  | JObj "(string \<times> json) list"

type_synonym object = "json gomap"

text \<open>
  A decoder is \<open>FromUnstructured\<close> at one target type: it gives the target as the call leaves it, starting
  from the zero value, and the failure of the call, if any.
\<close>

type_synonym 'e decoder = "object \<Rightarrow> 'e \<times> failure option"

record ext =
  nested_field :: "object \<Rightarrow> string list \<Rightarrow> json option res"
  nested_map :: "object \<Rightarrow> string list \<Rightarrow> object option res"
  nested_slice :: "object \<Rightarrow> string list \<Rightarrow> json list option res"
  nested_string :: "object \<Rightarrow> string list \<Rightarrow> string option res"
  nested_bool :: "object \<Rightarrow> string list \<Rightarrow> bool option res"
  nested_float :: "object \<Rightarrow> string list \<Rightarrow> rat option res"
  set_nested_map :: "object \<Rightarrow> object \<Rightarrow> string list \<Rightarrow> object res"
  get_labels :: "object \<Rightarrow> string gomap"
  set_labels :: "object \<Rightarrow> string gomap \<Rightarrow> object"
  get_annotations :: "object \<Rightarrow> string gomap"
  get_name :: "object \<Rightarrow> string"
  get_namespace :: "object \<Rightarrow> string"
  get_kind :: "object \<Rightarrow> string"
  get_api_version :: "object \<Rightarrow> string"
  set_api_version :: "object \<Rightarrow> string \<Rightarrow> object"
  set_kind :: "object \<Rightarrow> string \<Rightarrow> object"
  set_name :: "object \<Rightarrow> string \<Rightarrow> object"
  set_namespace :: "object \<Rightarrow> string \<Rightarrow> object"
  get_group :: "object \<Rightarrow> string"
  gvk_text :: "object \<Rightarrow> string"
  clear_managed_fields :: "object \<Rightarrow> object"
  merge_map :: "object \<Rightarrow> object \<Rightarrow> object res"
  namespace_labels :: "object \<Rightarrow> string gomap res"
  environment_tags :: "string option gomap decoder"
  unidecode :: "string \<Rightarrow> string"

definition str_map :: "string gomap \<Rightarrow> object" where
  "str_map m = map (\<lambda>(k, v). (k, JStr v)) m"

lemma map_of_str_map [simp]: "map_of (str_map m) k = map_option JStr (map_of m k)"
  by (induction m) (auto simp: str_map_def)

lemma wf_str_map [simp]: "wf_map (str_map m) = wf_map m"
  by (simp add: wf_map_def str_map_def comp_def case_prod_unfold)

text \<open>
  The laws of writing: labels that were set are read back, setting them changes no other top-level field, and a map
  set at a path outside the metadata is read back there and leaves the labels alone; a top-level field can
  always be set.
\<close>

locale object_access =
  fixes X :: ext
  assumes labels_wf: "wf_map (get_labels X ob)"
    and annotations_wf: "wf_map (get_annotations X ob)"
    and tags_wf: "wf_map (fst (environment_tags X ob))"
    and labels_set: "wf_map m \<Longrightarrow> map_of (get_labels X (set_labels X ob m)) = map_of m"
    and labels_frame: "f \<noteq> ''metadata'' \<Longrightarrow> nested_map X (set_labels X ob m) (f # fs) = nested_map X ob (f # fs)"
    and nested_wf: "nested_map X ob fs = Inr (Some v) \<Longrightarrow> wf_map v"
    and nested_set: "set_nested_map X ob v fs = Inr ob' \<Longrightarrow> fs \<noteq> [] \<Longrightarrow> nested_map X ob' fs = Inr (Some v)"
    and nested_labels: "set_nested_map X ob v (f # fs) = Inr ob' \<Longrightarrow> f \<noteq> ''metadata'' \<Longrightarrow>
        get_labels X ob' = get_labels X ob"
    and set_top: "wf_map v \<Longrightarrow> is_ok (set_nested_map X ob v [f])"
begin

lemmas access_laws = labels_wf annotations_wf tags_wf labels_set labels_frame nested_wf nested_set nested_labels

text \<open>Writing labels and then a map leaves both readable.\<close>

lemma labels_then_map:
  assumes "wf_map l" and "set_nested_map X (set_labels X ob l) m (f # fs) = Inr ob'"
    and "f \<noteq> ''metadata''"
  shows "map_of (get_labels X ob') = map_of l" and "nested_map X ob' (f # fs) = Inr (Some m)"
  using assms by (simp_all add: nested_labels [OF assms(2,3)] labels_set nested_set [OF assms(2)])

end

text \<open>
  How the typed accessors read: they walk down maps only (an index into a list is not a step), and give the
  value at the path when it has their type; anything else is not found or an error.
\<close>

fun json_at :: "json \<Rightarrow> string list \<Rightarrow> json option" where
  "json_at v [] = Some v"
| "json_at (JObj m) (f # fs) = (case map_of m f of None \<Rightarrow> None | Some w \<Rightarrow> json_at w fs)"
| "json_at v (f # fs) = None"

fun dest_str :: "json \<Rightarrow> string option" where
  "dest_str (JStr s) = Some s" | "dest_str v = None"
fun dest_bool :: "json \<Rightarrow> bool option" where
  "dest_bool (JBool b) = Some b" | "dest_bool v = None"

lemma json_at_append: "json_at v (p @ q) = Option.bind (json_at v p) (\<lambda>w. json_at w q)"
  by (induction v p rule: json_at.induct) (auto split: option.splits)

locale object_reads =
  fixes X :: ext
  assumes string_read: "found (nested_string X ob fs) = Option.bind (json_at (JObj ob) fs) dest_str"
    and bool_read: "found (nested_bool X ob fs) = Option.bind (json_at (JObj ob) fs) dest_bool"
begin

text \<open>Below a list nothing is found.\<close>

lemma below_list:
  assumes "json_at (JObj ob) p = Some (JArr vs)"
  shows "found (nested_string X ob (p @ f # fs)) = None" and "found (nested_bool X ob (p @ f # fs)) = None"
  by (simp_all add: string_read bool_read json_at_append assms)

lemma below_value:
  assumes "json_at (JObj ob) p = Some v"
  shows "found (nested_string X ob (p @ fs)) = Option.bind (json_at v fs) dest_str"
    and "found (nested_bool X ob (p @ fs)) = Option.bind (json_at v fs) dest_bool"
  by (simp_all add: string_read bool_read json_at_append assms)

end

section \<open>An instance of the accessors\<close>

text \<open>
  The accessors as the apimachinery documentation describes them, on the model's own objects. It
  discharges the laws and is what concrete runs evaluate; the development's definitions and properties
  hold for every \<open>ext\<close>.
\<close>

fun std_field :: "json \<Rightarrow> string list \<Rightarrow> json option res" where
  "std_field v [] = Inr (Some v)"
| "std_field JNull (f # fs) = Inr None"
| "std_field (JObj m) (f # fs) = (case map_of m f of None \<Rightarrow> Inr None | Some w \<Rightarrow> std_field w fs)"
| "std_field v (f # fs) = Inl (Error ''accessor error: not a map'')"

definition std_typed :: "(json \<Rightarrow> 'a option) \<Rightarrow> object \<Rightarrow> string list \<Rightarrow> 'a option res" where
  "std_typed g ob fs =
     bindr (std_field (JObj ob) fs)
       (\<lambda>v. case v of None \<Rightarrow> Inr None
           | Some w \<Rightarrow> (case g w of None \<Rightarrow> Inl (Error ''accessor error: wrong type'') | Some x \<Rightarrow> Inr (Some x)))"

fun dest_obj :: "json \<Rightarrow> object option" where
  "dest_obj (JObj m) = (if wf_map m then Some m else None)" | "dest_obj v = None"
fun dest_arr :: "json \<Rightarrow> json list option" where
  "dest_arr (JArr xs) = Some xs" | "dest_arr v = None"

fun dest_float :: "json \<Rightarrow> rat option" where
  "dest_float (JFloat x) = Some x" | "dest_float v = None"

fun std_set :: "object \<Rightarrow> json \<Rightarrow> string list \<Rightarrow> object res" where
  "std_set ob v [] = Inl (Panic ''index out of range'')"
| "std_set ob v [f] = Inr (gset f v ob)"
| "std_set ob v (f # g # fs) =
     (case map_of ob f of
        None \<Rightarrow> bindr (std_set [] v (g # fs)) (\<lambda>m. Inr (gset f (JObj m) ob))
      | Some (JObj m) \<Rightarrow> bindr (std_set m v (g # fs)) (\<lambda>m'. Inr (gset f (JObj m') ob))
      | Some w \<Rightarrow> Inl (Error ''value cannot be set: not a map''))"

text \<open>\<open>unstructured.NestedStringMap\<close>: every value has to be a string.\<close>

fun str_entries :: "object \<Rightarrow> string gomap option" where
  "str_entries [] = Some []"
| "str_entries ((k, JStr v) # m) = map_option (Cons (k, v)) (str_entries m)"
| "str_entries ((k, w) # m) = None"

definition std_string_map :: "string \<Rightarrow> object \<Rightarrow> string gomap" where
  "std_string_map field ob =
     (case found (std_typed dest_obj ob [''metadata'', field]) of
        None \<Rightarrow> []
      | Some m \<Rightarrow> (case str_entries m of None \<Rightarrow> [] | Some l \<Rightarrow> l))"

definition std_str :: "object \<Rightarrow> string list \<Rightarrow> string" where
  "std_str ob fs = (case found (std_typed dest_str ob fs) of None \<Rightarrow> '''' | Some s \<Rightarrow> s)"

definition metadata :: "object \<Rightarrow> object" where
  "metadata ob = (case map_of ob ''metadata'' of Some (JObj m) \<Rightarrow> m | _ \<Rightarrow> [])"

text \<open>\<open>SetName\<close> and \<open>SetNamespace\<close> remove the field for the empty string.\<close>

definition std_set_meta :: "string \<Rightarrow> object \<Rightarrow> string \<Rightarrow> object" where
  "std_set_meta f ob v =
     gset ''metadata'' (JObj (if v = '''' then AList.delete f (metadata ob) else gset f (JStr v) (metadata ob))) ob"

definition std_set_labels :: "object \<Rightarrow> string gomap \<Rightarrow> object" where
  "std_set_labels ob m =
     gset ''metadata'' (JObj (gset ''labels'' (JObj (str_map m)) (metadata ob))) ob"

definition std_merge :: "object \<Rightarrow> object \<Rightarrow> object res" where
  "std_merge dst src = Inr (gcopy src dst)"

definition std_env_tags :: "string option gomap decoder" where
  "std_env_tags ob =
     (case std_typed dest_obj ob [''tags''] of
        Inl e \<Rightarrow> ([], Some e)
      | Inr None \<Rightarrow> ([], None)
      | Inr (Some m) \<Rightarrow> (map (\<lambda>(k, v). (k, dest_str v)) m, None))"

definition std_ext :: ext where
  "std_ext = \<lparr>
     nested_field = (\<lambda>ob. std_field (JObj ob)),
     nested_map = std_typed dest_obj,
     nested_slice = std_typed dest_arr,
     nested_string = std_typed dest_str,
     nested_bool = std_typed dest_bool,
     nested_float = std_typed dest_float,
     set_nested_map = (\<lambda>ob m fs. if wf_map m then std_set ob (JObj m) fs else Inl (Error ''not a map'')),
     get_labels = std_string_map ''labels'',
     set_labels = std_set_labels,
     get_annotations = std_string_map ''annotations'',
     get_name = (\<lambda>ob. std_str ob [''metadata'', ''name'']),
     get_namespace = (\<lambda>ob. std_str ob [''metadata'', ''namespace'']),
     get_kind = (\<lambda>ob. std_str ob [''kind'']),
     get_api_version = (\<lambda>ob. std_str ob [''apiVersion'']),
     set_api_version = (\<lambda>ob v. gset ''apiVersion'' (JStr v) ob),
     set_kind = (\<lambda>ob v. gset ''kind'' (JStr v) ob),
     set_name = std_set_meta ''name'',
     set_namespace = std_set_meta ''namespace'',
     get_group = (\<lambda>ob. let p = split_on (CHR ''/'') (std_str ob [''apiVersion''])
                        in if length p = 2 then hd p else ''''),
     gvk_text = (\<lambda>ob. std_str ob [''apiVersion''] @ '', Kind='' @ std_str ob [''kind'']),
     clear_managed_fields = (\<lambda>ob. ob),
     merge_map = std_merge,
     namespace_labels = (\<lambda>ob. Inr (std_string_map ''labels'' ob)),
     environment_tags = std_env_tags,
     unidecode = (\<lambda>s. s)\<rparr>"

lemma std_ext_simps [simp]:
  "nested_field std_ext ob = std_field (JObj ob)"
  "nested_map std_ext = std_typed dest_obj"
  "nested_slice std_ext = std_typed dest_arr"
  "nested_string std_ext = std_typed dest_str"
  "nested_bool std_ext = std_typed dest_bool"
  "nested_float std_ext = std_typed dest_float"
  "set_api_version std_ext ob v = gset ''apiVersion'' (JStr v) ob"
  "set_kind std_ext ob v = gset ''kind'' (JStr v) ob"
  "set_name std_ext = std_set_meta ''name''"
  "set_namespace std_ext = std_set_meta ''namespace''"
  "set_nested_map std_ext ob m fs = (if wf_map m then std_set ob (JObj m) fs else Inl (Error ''not a map''))"
  "get_labels std_ext = std_string_map ''labels''"
  "set_labels std_ext = std_set_labels"
  "get_annotations std_ext = std_string_map ''annotations''"
  "get_name std_ext ob = std_str ob [''metadata'', ''name'']"
  "get_namespace std_ext ob = std_str ob [''metadata'', ''namespace'']"
  "get_kind std_ext ob = std_str ob [''kind'']"
  "get_api_version std_ext ob = std_str ob [''apiVersion'']"
  "clear_managed_fields std_ext ob = ob"
  "merge_map std_ext = std_merge"
  "namespace_labels std_ext ob = Inr (std_string_map ''labels'' ob)"
  "environment_tags std_ext = std_env_tags"
  "unidecode std_ext s = s"
  by (simp_all add: std_ext_def)

lemma str_entries_str_map [simp]: "str_entries (str_map m) = Some m"
  by (induction m) (auto simp: str_map_def)

lemma str_entries_keys: "str_entries m = Some l \<Longrightarrow> map fst l = map fst m"
  by (induction m arbitrary: l rule: str_entries.induct) auto

lemma dest_obj_wf: "dest_obj v = Some m \<Longrightarrow> wf_map m"
  by (cases v) (auto split: if_splits)

lemma std_typed_wf: "std_typed dest_obj ob fs = Inr (Some m) \<Longrightarrow> wf_map m"
  unfolding std_typed_def by (auto simp: res_simps dest_obj_wf split: option.splits)

lemma wf_std_string_map: "wf_map (std_string_map field ob)"
proof -
  have "wf_map l" if "found (std_typed dest_obj ob [''metadata'', field]) = Some m"
    and "str_entries m = Some l" for m l
    using std_typed_wf that(1) str_entries_keys [OF that(2)] by (auto simp: found_Some_iff wf_map_def)
  then show ?thesis by (simp add: std_string_map_def split: option.splits)
qed

lemma std_set_get: "std_set ob v fs = Inr ob' \<Longrightarrow> std_field (JObj ob') fs = Inr (Some v)"
  by (induction ob v fs arbitrary: ob' rule: std_set.induct)
    (auto simp: res_simps split: option.splits json.splits)

lemma std_set_frame:
  "std_set ob v (f # fs) = Inr ob' \<Longrightarrow> g \<noteq> f \<Longrightarrow> map_of ob' g = map_of ob g"
  by (cases fs) (auto simp: res_simps split: option.splits json.splits)

lemma std_field_top: "map_of ob f = map_of ob' f \<Longrightarrow> std_field (JObj ob) (f # fs) = std_field (JObj ob') (f # fs)"
  by simp

lemma std_typed_top:
  "map_of ob f = map_of ob' f \<Longrightarrow> std_typed g ob (f # fs) = std_typed g ob' (f # fs)"
  unfolding std_typed_def by simp

lemma wf_std_env_tags: "wf_map (fst (std_env_tags ob))"
proof (cases "std_typed dest_obj ob [''tags'']")
  case (Inr m)
  then show ?thesis
    by (cases m) (auto simp: std_env_tags_def wf_map_def comp_def case_prod_unfold dest: std_typed_wf)
qed (simp add: std_env_tags_def)

interpretation std: object_access std_ext
proof
  fix ob m assume "wf_map (m :: string gomap)"
  then show "map_of (get_labels std_ext (set_labels std_ext ob m)) = map_of m"
    by (simp add: std_string_map_def std_set_labels_def std_typed_def)
next
  fix ob ob' m fs
  assume "set_nested_map std_ext ob m fs = Inr ob'" and "fs \<noteq> []"
  then show "nested_map std_ext ob' fs = Inr (Some m)"
    by (auto simp: std_typed_def std_set_get split: if_splits)
next
  fix ob ob' m f fs
  assume "set_nested_map std_ext ob m (f # fs) = Inr ob'" and "f \<noteq> ''metadata''"
  then have "map_of ob' ''metadata'' = map_of ob ''metadata''"
    by (auto intro: std_set_frame split: if_splits)
  then show "get_labels std_ext ob' = get_labels std_ext ob"
    by (simp add: std_string_map_def std_typed_top [of ob' "''metadata''" ob])
next
  fix ob m f fs assume "f \<noteq> ''metadata''"
  then show "nested_map std_ext (set_labels std_ext ob m) (f # fs) = nested_map std_ext ob (f # fs)"
    using std_typed_top [of "std_set_labels ob m" f ob] by (simp add: std_set_labels_def)
qed (simp_all add: wf_std_string_map wf_std_env_tags std_typed_wf)

lemma std_field_at: "found (std_field v fs) = json_at v fs"
  by (induction v fs rule: std_field.induct) (auto split: option.splits)

lemma std_typed_at: "found (std_typed g ob fs) = Option.bind (json_at (JObj ob) fs) g"
  unfolding std_typed_def std_field_at [symmetric]
  by (cases "std_field (JObj ob) fs") (auto split: option.splits)

interpretation reads: object_reads std_ext
  by unfold_locales (simp_all add: std_typed_at)

end
