(* ===== verification/Base_Tag.thy ===== *)
theory Base_Tag
  imports Unstructured
begin

text \<open>
  \<open>functions/common/base/tag.go\<close>: which generated types take AWS tags, with the process-wide cache of the
  answers, and the tags and labels that an object's \<open>tags.entigo.com/\<close> labels and annotations stand for.
\<close>

abbreviation AWSTagsLimit :: nat where "AWSTagsLimit \<equiv> 44"
definition TagsPrefix :: string where "TagsPrefix = ''tags.entigo.com/''"

record ResourceTags =
  rt_zone :: string
  rt_tags :: "string gomap"
  rt_labels :: "string gomap"

section \<open>Support for the tags field\<close>

text \<open>
  A Go type as reflection shows it: a struct with the full \<open>json\<close> tag of each field, a pointer, or
  anything else. Generated objects come from packages outside the repository; \<open>objects\<close> holds what the
  code asks of them: the object map when they are \<open>*unstructured.Unstructured\<close>, their Go type, their
  group-version-kind and their conversion to an unstructured object.
\<close>

datatype gotype = TStruct "(string \<times> gotype) list" | TPtr gotype | TOther

type_synonym gvk = "string \<times> string \<times> string"

record 'o objects =
  as_unstructured :: "'o \<Rightarrow> object option"
  go_type :: "'o \<Rightarrow> gotype"
  gvk_of :: "'o \<Rightarrow> gvk"
  to_unstructured :: "'o \<Rightarrow> object res"

fun strip_ptr :: "gotype \<Rightarrow> gotype" where
  "strip_ptr (TPtr t) = strip_ptr t"
| "strip_ptr t = t"

definition tag_name :: "string \<Rightarrow> string" where
  "tag_name tag = hd (split_on (CHR '','') tag)"

fun find_field :: "(string \<times> gotype) list \<Rightarrow> string \<Rightarrow> gotype option" where
  "find_field [] name = None"
| "find_field ((tag, t) # fl) name = (if tag_name tag = name then Some (strip_ptr t) else find_field fl name)"

fun resolve_type :: "gotype \<Rightarrow> string list \<Rightarrow> bool" where
  "resolve_type t [] = True"
| "resolve_type (TStruct fl) (name # path) =
     (case find_field fl name of None \<Rightarrow> False | Some t \<Rightarrow> resolve_type t path)"
| "resolve_type t (name # path) = False"

definition resolve_field_path :: "ext \<Rightarrow> 'o objects \<Rightarrow> 'o \<Rightarrow> string list \<Rightarrow> bool" where
  "resolve_field_path X A ob path =
     (case as_unstructured A ob of
        Some u \<Rightarrow> found (nested_field X u path) \<noteq> None
      | None \<Rightarrow> resolve_type (strip_ptr (go_type A ob)) path)"

text \<open>The cache is a global of the process, keyed by group-version-kind, that outlives a request.\<close>

type_synonym cache = "(gvk \<times> bool) list"

definition supports_field :: "ext \<Rightarrow> 'o objects \<Rightarrow> 'o \<Rightarrow> string list \<Rightarrow> cache \<Rightarrow> bool \<times> cache" where
  "supports_field X A ob path c =
     (case map_of c (gvk_of A ob) of
        Some b \<Rightarrow> (b, c)
      | None \<Rightarrow> (let r = resolve_field_path X A ob path in (r, gset (gvk_of A ob) r c)))"

text \<open>
  The cache is transparent for objects whose answer depends on their group-version-kind only
  (\<open>support\<close>), as it does for every typed object.
\<close>

definition cache_ok :: "(gvk \<Rightarrow> bool) \<Rightarrow> cache \<Rightarrow> bool" where
  "cache_ok support c \<longleftrightarrow> (\<forall>k b. map_of c k = Some b \<longrightarrow> b = support k)"

lemma cache_ok_Nil [simp]: "cache_ok support []"
  by (simp add: cache_ok_def)

lemma cache_ok_lookup: "cache_ok support c \<Longrightarrow> map_of c k = Some b \<Longrightarrow> b = support k"
  unfolding cache_ok_def by blast

lemma cache_ok_gset: "cache_ok support c \<Longrightarrow> cache_ok support (gset k (support k) c)"
  by (simp add: cache_ok_def split_paired_All)

lemma supports_field_ok:
  assumes "cache_ok support c" and "resolve_field_path X A ob path = support (gvk_of A ob)"
  shows "fst (supports_field X A ob path c) = support (gvk_of A ob)"
    and "cache_ok support (snd (supports_field X A ob path c))"
  using assms cache_ok_lookup [OF assms(1)] cache_ok_gset [OF assms(1)]
  by (simp_all add: supports_field_def Let_def split: option.splits)

text \<open>Once an answer is in the cache it is the answer for every later object of that kind.\<close>

lemma supports_field_stable:
  assumes "supports_field X A ob path c = (b, c')" and "gvk_of A ob = gvk_of A ob'"
  shows "supports_field X A ob' path' c' = (b, c')"
  using assms by (auto simp: supports_field_def Let_def split: option.splits)

section \<open>Tags and labels of an object\<close>

fun extractTags_loop :: "string gomap \<Rightarrow> string gomap \<Rightarrow> string gomap" where
  "extractTags_loop [] tags = tags"
| "extractTags_loop ((key, v) # src) tags =
     (if \<not> prefix TagsPrefix key then extractTags_loop src tags
      else extractTags_loop src (gset (trim_prefix key TagsPrefix) v tags))"

definition extractTags :: "string gomap \<Rightarrow> string gomap" where
  "extractTags src = extractTags_loop src []"

fun extractLabels_loop :: "string gomap \<Rightarrow> string gomap \<Rightarrow> string gomap" where
  "extractLabels_loop [] labels = labels"
| "extractLabels_loop ((key, v) # src) labels =
     (if \<not> prefix TagsPrefix key then extractLabels_loop src labels
      else extractLabels_loop src (gset key v labels))"

definition extractLabels :: "string gomap \<Rightarrow> string gomap" where
  "extractLabels src = extractLabels_loop src []"

fun extractTagsLabels_loop :: "string gomap \<Rightarrow> string gomap \<times> string gomap \<Rightarrow> string gomap \<times> string gomap" where
  "extractTagsLabels_loop [] acc = acc"
| "extractTagsLabels_loop ((key, v) # src) (tags, labels) =
     (if \<not> prefix TagsPrefix key then extractTagsLabels_loop src (tags, labels)
      else extractTagsLabels_loop src (gset (trim_prefix key TagsPrefix) v tags, gset key v labels))"

definition extractTagsLabels :: "string gomap \<Rightarrow> string gomap \<times> string gomap" where
  "extractTagsLabels src = extractTagsLabels_loop src ([], [])"

text \<open>Annotations win over labels for the same tag; only labels become Kubernetes labels.\<close>

definition getObjectTagsLabels :: "ext \<Rightarrow> object \<Rightarrow> string gomap \<times> string gomap" where
  "getObjectTagsLabels X ob =
     (case extractTagsLabels (get_labels X ob) of
        (tags, labels) \<Rightarrow> (gcopy tags (extractTags (get_annotations X ob)), labels))"

definition GetObjectTags :: "ext \<Rightarrow> object \<Rightarrow> string gomap" where
  "GetObjectTags X ob = gcopy (extractTags (get_labels X ob)) (extractTags (get_annotations X ob))"

named_theorems tag_simps \<open>contents of the extracted tag and label maps\<close>

lemma extractTags_loop_wf: "wf_map tags \<Longrightarrow> wf_map (extractTags_loop src tags)"
  by (induction src tags rule: extractTags_loop.induct) auto

lemma extractLabels_loop_wf: "wf_map labels \<Longrightarrow> wf_map (extractLabels_loop src labels)"
  by (induction src labels rule: extractLabels_loop.induct) auto

lemma extractTagsLabels_loop_eq:
  "extractTagsLabels_loop src (tags, labels) = (extractTags_loop src tags, extractLabels_loop src labels)"
  by (induction src arbitrary: tags labels) auto

lemma extractTagsLabels_eq: "extractTagsLabels src = (extractTags src, extractLabels src)"
  by (simp add: extractTagsLabels_def extractTags_def extractLabels_def extractTagsLabels_loop_eq)

lemma trim_eq_iff: "prefix p k \<Longrightarrow> trim_prefix k p = t \<longleftrightarrow> k = p @ t"
  using append_trim_prefix by fastforce

lemma extractTags_loop_lookup:
  "wf_map src \<Longrightarrow> map_of (extractTags_loop src tags) t =
     (case map_of src (TagsPrefix @ t) of Some v \<Rightarrow> Some v | None \<Rightarrow> map_of tags t)"
proof (induction src tags rule: extractTags_loop.induct)
  case (1 tags)
  then show ?case by simp
next
  case (2 key v src tags)
  have "map_of src key = None" using 2(3) by (simp add: map_of_eq_None_iff)
  with 2 show ?case
    by (cases "prefix TagsPrefix key") (auto simp: trim_eq_iff append_trim_prefix split: option.splits)
qed

lemma extractLabels_loop_lookup:
  "wf_map src \<Longrightarrow> map_of (extractLabels_loop src labels) k =
     (if prefix TagsPrefix k then (case map_of src k of Some v \<Rightarrow> Some v | None \<Rightarrow> map_of labels k)
      else map_of labels k)"
proof (induction src labels rule: extractLabels_loop.induct)
  case (1 labels)
  then show ?case by simp
next
  case (2 key v src labels)
  have "map_of src key = None" using 2(3) by (simp add: map_of_eq_None_iff)
  with 2 show ?case by (auto split: option.splits)
qed

lemma extractTags_wf [simp]: "wf_map (extractTags src)"
  by (simp add: extractTags_def extractTags_loop_wf)

lemma extractLabels_wf [simp]: "wf_map (extractLabels src)"
  by (simp add: extractLabels_def extractLabels_loop_wf)

lemma map_of_extractTags [tag_simps]: "wf_map src \<Longrightarrow> map_of (extractTags src) t = map_of src (TagsPrefix @ t)"
  by (simp add: extractTags_def extractTags_loop_lookup split: option.splits)

lemma map_of_extractLabels [tag_simps]:
  "wf_map src \<Longrightarrow> map_of (extractLabels src) k = (if prefix TagsPrefix k then map_of src k else None)"
  by (simp add: extractLabels_def extractLabels_loop_lookup split: option.splits)

lemma getObjectTagsLabels_eq:
  "getObjectTagsLabels X ob = (GetObjectTags X ob, extractLabels (get_labels X ob))"
  by (simp add: getObjectTagsLabels_def extractTagsLabels_eq GetObjectTags_def)

lemma GetObjectTags_wf [simp]: "wf_map (GetObjectTags X ob)"
  by (simp add: GetObjectTags_def)

text \<open>A tag of an object: its annotation, else its label, under the tag prefix.\<close>

lemma map_of_GetObjectTags [tag_simps]:
  assumes "wf_map (get_labels X ob)" and "wf_map (get_annotations X ob)"
  shows "map_of (GetObjectTags X ob) t =
     (case map_of (get_annotations X ob) (TagsPrefix @ t) of
        Some v \<Rightarrow> Some v | None \<Rightarrow> map_of (get_labels X ob) (TagsPrefix @ t))"
  using assms by (simp add: GetObjectTags_def map_of_gcopy_apply tag_simps split: option.splits)

end
