(* ===== verification/Base_Group.thy ===== *)
theory Base_Group
  imports Go_Regexp Base_Tag
begin

text \<open>
  \<open>functions/common/base/group.go\<close> and \<open>set.go\<close>: the keys and API versions base uses, sequences of
  steps, resource handlers, the \<open>GroupService\<close> interface every group implements, and the set type.
\<close>

section \<open>Constants\<close>

abbreviation "AppLabel \<equiv> ''app''"
abbreviation "ResourceLabel \<equiv> ''entigo.com/resource''"
abbreviation "ResourceKindLabel \<equiv> ''entigo.com/resource-kind''"
abbreviation "EnvironmentKey \<equiv> ''Environment''"
abbreviation "EnvironmentKind \<equiv> ''EnvironmentConfig''"
abbreviation "EnvironmentApiVersion \<equiv> ''apiextensions.crossplane.io/v1beta1''"
abbreviation "KMSKeyKind \<equiv> ''Key''"
abbreviation "KMSKeyApiVersion \<equiv> ''kms.aws.m.upbound.io/v1beta1''"
abbreviation "VPCKind \<equiv> ''VPC''"
abbreviation "VPCApiVersion \<equiv> ''ec2.aws.m.upbound.io/v1beta1''"
abbreviation "VPCClusterApiVersion \<equiv> ''ec2.aws.upbound.io/v1beta1''"
abbreviation "NamespaceKey \<equiv> ''Namespace''"
abbreviation "TenancyApiVersion \<equiv> ''tenancy.entigo.com/v1alpha1''"
abbreviation "ZoneKey \<equiv> ''Zone''"
abbreviation "ZoneEnvKey \<equiv> ''ZoneEnvironment''"
abbreviation "ZoneEnvName \<equiv> ''platform-apis-zone''"
abbreviation "TenancyZoneLabel \<equiv> ''tenancy.entigo.com/zone''"
abbreviation "TenancyZoneAWSTag \<equiv> ''entigo:zone''"
abbreviation "TenancyWorkspaceLabel \<equiv> ''tenancy.entigo.com/workspace''"
abbreviation "TenancyWorkspaceAWSTag \<equiv> ''entigo:workspace''"

section \<open>Requests and their parts\<close>

text \<open>
  \<open>resource.Ready\<close> of the SDK; the empty string, which \<open>GetReadyStatus\<close> returns to fall back to
  the default, is \<open>None\<close>. A resource pointer may be nil, hence the options.
\<close>

datatype ready = ReadyUnspecified | ReadyTrue | ReadyFalse

datatype selector_match = MatchName string | MatchLabels "string gomap"

record selector =
  sel_kind :: string
  sel_api_version :: string
  sel_match :: selector_match
  sel_namespace :: "string option"

record observed_composed =
  oc_resource :: "object option"
  oc_connection :: "string gomap"

record desired_composed =
  dc_resource :: object
  dc_ready :: ready

type_synonym required = "object option list gomap"
type_synonym observed = "observed_composed gomap"
type_synonym desired = "desired_composed gomap"
type_synonym selectors = "selector gomap"

section \<open>Sequences and the group interface\<close>

record Step =
  step_objects :: "string list"

record Sequence =
  seq_regex :: bool
  seq_steps :: "Step list"

definition NewSequence :: "bool \<Rightarrow> string list list \<Rightarrow> Sequence" where
  "NewSequence regex stepObjects =
     \<lparr>seq_regex = regex,
      seq_steps = map (\<lambda>obs. \<lparr>step_objects = obs\<rparr>) (filter (\<lambda>obs. length obs > 0) stepObjects)\<rparr>"

abbreviation empty_sequence :: Sequence where
  "empty_sequence \<equiv> \<lparr>seq_regex = False, seq_steps = []\<rparr>"

text \<open>
  A handler instantiates the typed composite, which \<open>FromUnstructured\<close> fills (\<open>h_decode\<close>), and
  generates objects from it. \<open>'c\<close> is the type of typed composites, \<open>'o\<close> of generated objects.
\<close>

record ('c, 'o) ResourceHandler =
  h_decode :: "object \<Rightarrow> 'c res"
  h_generate :: "'c \<Rightarrow> required \<Rightarrow> observed \<Rightarrow> 'o gomap res"

record ('c, 'o) GroupService =
  SkipGeneration :: "object \<Rightarrow> bool"
  GetResourceHandlers :: "('c, 'o) ResourceHandler gomap"
  GetSequence :: "'c \<Rightarrow> Sequence"
  GetReadyStatus :: "object \<Rightarrow> ready option"
  GetRequiredResources :: "object \<Rightarrow> required \<Rightarrow> selectors res"
  GetObservedStatus :: "object \<Rightarrow> object res"
  PostProcessStatus :: "(object \<Rightarrow> observed \<Rightarrow> object res) option"

section \<open>Sets\<close>

text \<open>\<open>Set[T]\<close> is a map to booleans.\<close>

type_synonym 'a Set = "('a \<times> bool) list"

definition NewSet :: "'a list \<Rightarrow> 'a Set" where
  "NewSet items = fold (\<lambda>item s. gset item True s) items []"

definition ToSet :: "'a list \<Rightarrow> 'a Set" where
  "ToSet items = NewSet items"

definition set_Add :: "'a Set \<Rightarrow> 'a \<Rightarrow> 'a Set" where
  "set_Add s item = gset item True s"

definition set_Remove :: "'a Set \<Rightarrow> 'a \<Rightarrow> 'a Set" where
  "set_Remove s item = AList.delete item s"

definition set_Contains :: "'a Set \<Rightarrow> 'a \<Rightarrow> bool" where
  "set_Contains s item \<longleftrightarrow> map_of s item \<noteq> None"

definition set_Size :: "'a Set \<Rightarrow> nat" where
  "set_Size s = length s"

definition set_ToSlice :: "'a Set \<Rightarrow> 'a list" where
  "set_ToSlice s = map fst s"

definition set_String :: "string Set \<Rightarrow> string" where
  "set_String s = join '', '' (map fst s)"

text \<open>The contents of a set, and the contract of its operations.\<close>

definition elems :: "'a Set \<Rightarrow> 'a set" where
  "elems s = fst ` set s"

lemma elems_gset [simp]: "elems (gset x b s) = insert x (elems s)"
  unfolding elems_def by (metis dom_map_of_conv_image_fst dom_fun_upd map_of_gset option.distinct(1))

locale finite_set =
  fixes new :: "'a list \<Rightarrow> 's" and add :: "'s \<Rightarrow> 'a \<Rightarrow> 's" and remove :: "'s \<Rightarrow> 'a \<Rightarrow> 's"
    and has :: "'s \<Rightarrow> 'a \<Rightarrow> bool" and size_of :: "'s \<Rightarrow> nat" and slice :: "'s \<Rightarrow> 'a list"
    and contents :: "'s \<Rightarrow> 'a set" and inv :: "'s \<Rightarrow> bool"
  assumes new: "inv (new xs)" "contents (new xs) = set xs"
    and add: "inv s \<Longrightarrow> inv (add s x)" "inv s \<Longrightarrow> contents (add s x) = insert x (contents s)"
    and remove: "inv s \<Longrightarrow> inv (remove s x)" "inv s \<Longrightarrow> contents (remove s x) = contents s - {x}"
    and has: "inv s \<Longrightarrow> has s x \<longleftrightarrow> x \<in> contents s"
    and slice: "inv s \<Longrightarrow> set (slice s) = contents s" "inv s \<Longrightarrow> distinct (slice s)"
    and size_of: "inv s \<Longrightarrow> size_of s = length (slice s)"
begin

lemma size_card: "inv s \<Longrightarrow> size_of s = card (contents s)"
  by (metis distinct_card size_of slice)

lemma has_new: "has (new xs) x \<longleftrightarrow> x \<in> set xs"
  by (simp add: has new)

lemma add_remove: "inv s \<Longrightarrow> x \<notin> contents s \<Longrightarrow> contents (remove (add s x) x) = contents s"
  by (simp add: add remove)

lemma size_add: "inv s \<Longrightarrow> finite (contents s) \<Longrightarrow> size_of (add s x) = (if has s x then size_of s else Suc (size_of s))"
  by (simp add: add has insert_absorb size_card)

end

lemma NewSet_fold:
  "wf_map s \<Longrightarrow> wf_map (fold (\<lambda>item s. gset item True s) xs s)"
  "elems (fold (\<lambda>item s. gset item True s) xs s) = set xs \<union> elems s"
  by (induction xs arbitrary: s) auto

interpretation set_ops: finite_set NewSet set_Add set_Remove set_Contains set_Size set_ToSlice elems wf_map
proof
  fix s :: "'a Set" and x :: 'a
  show "wf_map s \<Longrightarrow> wf_map (set_Remove s x)"
    by (simp add: wf_map_def set_Remove_def distinct_delete)
  show "elems (set_Remove s x) = elems s - {x}"
    by (simp add: elems_def set_Remove_def delete_keys flip: set_map)
  show "set_Contains s x \<longleftrightarrow> x \<in> elems s"
    by (simp add: set_Contains_def elems_def map_of_eq_None_iff)
qed (simp_all add: NewSet_def NewSet_fold set_Add_def set_Size_def set_ToSlice_def elems_def [symmetric]
    wf_map_def [symmetric], simp_all add: elems_def)

lemma NewSequence_steps:
  "map step_objects (seq_steps (NewSequence regex sobs)) = filter (\<lambda>obs. obs \<noteq> []) sobs"
  by (simp add: NewSequence_def comp_def)

end
