(* ===== verification/Base_Util.thy ===== *)
theory Base_Util
  imports Base_Group
begin

text \<open>
  \<open>functions/common/base/util.go\<close>: hashes and names, resource selectors, environment configs, required
  resources, the tenancy zone with its tags and labels, and the default ready status.
\<close>

section \<open>Hashes\<close>

text \<open>FNV-1a on 32 bits, as \<open>hash/fnv\<close> computes it, and its lower-case hexadecimal text.\<close>

abbreviation fnv_offset :: "32 word" where "fnv_offset \<equiv> 2166136261"
abbreviation fnv_prime :: "32 word" where "fnv_prime \<equiv> 16777619"

definition fnv32a :: "string \<Rightarrow> 32 word" where
  "fnv32a bytes = foldl (\<lambda>h c. xor h (of_nat (code c)) * fnv_prime) fnv_offset bytes"

definition GenerateHash :: "string \<Rightarrow> string" where
  "GenerateHash bytes = to_lower (show_base 16 (unat (fnv32a bytes)))"

definition GenerateFNVHash :: "string \<Rightarrow> string" where
  "GenerateFNVHash uid = GenerateHash uid"

section \<open>Selectors\<close>

definition RequiredEnvironmentConfig :: "string \<Rightarrow> selector" where
  "RequiredEnvironmentConfig name = \<lparr>sel_kind = EnvironmentKind, sel_api_version = EnvironmentApiVersion,
     sel_match = MatchName name, sel_namespace = None\<rparr>"

definition RequiredKMSKey :: "string \<Rightarrow> string \<Rightarrow> selector" where
  "RequiredKMSKey name ns = \<lparr>sel_kind = KMSKeyKind, sel_api_version = KMSKeyApiVersion,
     sel_match = MatchName name, sel_namespace = Some ns\<rparr>"

definition RequiredVPC :: "string \<Rightarrow> string \<Rightarrow> selector" where
  "RequiredVPC name ns = \<lparr>sel_kind = VPCKind, sel_api_version = VPCApiVersion,
     sel_match = MatchName name, sel_namespace = Some ns\<rparr>"

definition RequiredClusterVPC :: "string \<Rightarrow> selector" where
  "RequiredClusterVPC name = \<lparr>sel_kind = VPCKind, sel_api_version = VPCClusterApiVersion,
     sel_match = MatchName name, sel_namespace = None\<rparr>"

definition RequiredNamespace :: "string \<Rightarrow> selector" where
  "RequiredNamespace name = \<lparr>sel_kind = ''Namespace'', sel_api_version = ''v1'',
     sel_match = MatchName name, sel_namespace = None\<rparr>"

definition RequiredZone :: "string \<Rightarrow> selector" where
  "RequiredZone name = \<lparr>sel_kind = ZoneKey, sel_api_version = TenancyApiVersion,
     sel_match = MatchName name, sel_namespace = None\<rparr>"

section \<open>Environment configs\<close>

text \<open>The loop of \<open>getEnvironment\<close>: the \<open>data\<close> maps of the configs, merged in order.\<close>

fun merge_data :: "ext \<Rightarrow> object option list \<Rightarrow> object \<Rightarrow> object res" where
  "merge_data X [] result = Inr result"
| "merge_data X (r # rs) result =
     bindr (deref r) (\<lambda>ob.
     bindr (nested_map X ob [''data'']) (\<lambda>d. case d of
       None \<Rightarrow> merge_data X rs result
     | Some data \<Rightarrow> bindr (merge_map X result data) (merge_data X rs)))"

text \<open>
  \<open>getEnvironment(resources, obj)\<close>: what \<open>obj\<close> holds after the call, from its zero value, and the
  failure. An empty result returns early, before the conversion and before \<open>Validate\<close>.
\<close>

definition getEnvironment ::
  "ext \<Rightarrow> 'e decoder \<Rightarrow> ('e \<Rightarrow> failure option) \<Rightarrow> 'e \<Rightarrow> object option list \<Rightarrow> 'e \<times> failure option" where
  "getEnvironment X dec Validate zero resources =
     (case merge_data X resources [] of
        Inl e \<Rightarrow> (zero, Some e)
      | Inr result \<Rightarrow>
          if length result = 0 then (zero, None)
          else (case dec result of
                  (e, Some f) \<Rightarrow> (e, Some f)
                | (e, None) \<Rightarrow> (e, Validate e)))"

definition GetEnvironment ::
  "ext \<Rightarrow> 'e decoder \<Rightarrow> ('e \<Rightarrow> failure option) \<Rightarrow> 'e \<Rightarrow> string \<Rightarrow> required \<Rightarrow> 'e res" where
  "GetEnvironment X dec Validate zero key required =
     (if length (gslice required key) = 0
      then Inl (Error (''environment config '' @ key @ '' not found''))
      else case getEnvironment X dec Validate zero (gslice required key) of
             (e, Some f) \<Rightarrow> wrapf (''cannot get environment config '' @ key) (Inl f)
           | (e, None) \<Rightarrow> Inr e)"

section \<open>Required resources\<close>

text \<open>The required map is nil (\<open>None\<close>) or a map; conversions give the target or a failure.\<close>

definition ExtractRequiredResource :: "required \<Rightarrow> string \<Rightarrow> (object \<Rightarrow> 'a res) \<Rightarrow> 'a res" where
  "ExtractRequiredResource required key conv =
     (case gslice required key of
        [] \<Rightarrow> Inl (Error (key @ '' not found in required resources''))
      | r # rs \<Rightarrow> bindr (deref r) (\<lambda>ob. wrapf (''cannot convert required resource '' @ key) (conv ob)))"

definition ExtractOptionalResource :: "required \<Rightarrow> string \<Rightarrow> (object \<Rightarrow> 'a res) \<Rightarrow> 'a option res" where
  "ExtractOptionalResource required key conv =
     (case gslice required key of
        [] \<Rightarrow> Inr None
      | r # rs \<Rightarrow> bindr (deref r) (\<lambda>ob.
          bindr (wrapf (''cannot convert required resource '' @ key) (conv ob)) (\<lambda>x. Inr (Some x))))"

fun extract_all :: "string \<Rightarrow> (object \<Rightarrow> 'a res) \<Rightarrow> object option list \<Rightarrow> 'a list res" where
  "extract_all key conv [] = Inr []"
| "extract_all key conv (r # rs) =
     bindr (deref r) (\<lambda>ob.
     bindr (wrapf (''cannot convert required resource '' @ key) (conv ob)) (\<lambda>x.
     bindr (extract_all key conv rs) (\<lambda>xs. Inr (x # xs))))"

definition ExtractResources :: "required option \<Rightarrow> string \<Rightarrow> (object \<Rightarrow> 'a res) \<Rightarrow> 'a list res" where
  "ExtractResources required key conv =
     (case required of
        None \<Rightarrow> Inl (Error (key @ '' not found in required resources''))
      | Some m \<Rightarrow> extract_all key conv (gslice m key))"

text \<open>\<open>GetNamespace\<close> drops the error; of the namespace only the labels are used.\<close>

definition GetNamespace :: "ext \<Rightarrow> required \<Rightarrow> string gomap option res" where
  "GetNamespace X required =
     (case ExtractRequiredResource required NamespaceKey (namespace_labels X) of
        Inl (Error e) \<Rightarrow> Inr None
      | Inl (Panic p) \<Rightarrow> Inl (Panic p)
      | Inr labels \<Rightarrow> Inr (Some labels))"

definition GetTenancyZone :: "ext \<Rightarrow> required \<Rightarrow> string res" where
  "GetTenancyZone X required =
     bindr (GetNamespace X required) (\<lambda>ns. case ns of
       None \<Rightarrow> Inr ''''
     | Some labels \<Rightarrow> if length labels = 0 then Inr '''' else Inr (gget labels TenancyZoneLabel))"

text \<open>The zone object, when it was fetched.\<close>

definition fetched_zone :: "required \<Rightarrow> object option" where
  "fetched_zone required = (case gslice required ZoneKey of Some z # zs \<Rightarrow> Some z | _ \<Rightarrow> None)"

definition GetResourceLabels :: "ext \<Rightarrow> string gomap \<Rightarrow> required \<Rightarrow> string gomap res" where
  "GetResourceLabels X resource_labels required =
     bindr (GetTenancyZone X required) (\<lambda>zone.
       if zone = '''' then Inr []
       else
         let labels = (case fetched_zone required of
                         Some z \<Rightarrow> gcopy [] (extractLabels (get_labels X z))
                       | None \<Rightarrow> []);
             labels = gcopy labels (extractLabels resource_labels)
         in Inr (gset TenancyZoneLabel zone labels))"

fun env_tags_loop :: "string option gomap \<Rightarrow> string gomap \<Rightarrow> string gomap" where
  "env_tags_loop [] tags = tags"
| "env_tags_loop ((key, None) # m) tags = env_tags_loop m tags"
| "env_tags_loop ((key, Some v) # m) tags = env_tags_loop m (gset key v tags)"

definition getZoneEnvironmentTags :: "ext \<Rightarrow> string \<Rightarrow> required \<Rightarrow> string gomap res" where
  "getZoneEnvironmentTags X key required =
     (case getEnvironment X (environment_tags X) (\<lambda>e. None) [] (gslice required key) of
        (tags, Some (Panic p)) \<Rightarrow> Inl (Panic p)
      | (tags, f) \<Rightarrow> Inr (env_tags_loop tags []))"

definition GetResourceTags :: "ext \<Rightarrow> object \<Rightarrow> required \<Rightarrow> ResourceTags res" where
  "GetResourceTags X composite required =
     bindr (GetTenancyZone X required) (\<lambda>zone.
       if zone = '''' then
         (case getObjectTagsLabels X composite of
            (tags, labels) \<Rightarrow> Inr \<lparr>rt_zone = zone, rt_tags = tags, rt_labels = labels\<rparr>)
       else
         bindr (getZoneEnvironmentTags X ZoneEnvKey required) (\<lambda>tags.
           let (tags, labels) =
                 (case fetched_zone required of
                    Some z \<Rightarrow> (case getObjectTagsLabels X z of
                                (zoneTags, zoneLabels) \<Rightarrow> (gcopy tags zoneTags, zoneLabels))
                  | None \<Rightarrow> (tags, []));
               (resourceTags, resourceLabels) = getObjectTagsLabels X composite
           in Inr \<lparr>rt_zone = zone, rt_tags = gcopy tags resourceTags,
                   rt_labels = gcopy labels resourceLabels\<rparr>))"

definition GetZoneTags :: "ext \<Rightarrow> object \<Rightarrow> ResourceTags" where
  "GetZoneTags X composite =
     (case getObjectTagsLabels X composite of
        (zoneTags, zoneLabels) \<Rightarrow> \<lparr>rt_zone = get_name X composite, rt_tags = zoneTags, rt_labels = zoneLabels\<rparr>)"

section \<open>Setters\<close>

text \<open>\<open>SetString\<close>, \<open>SetBool\<close> and \<open>SetFloat64\<close>: the field keeps its value when the pointer is nil.\<close>

definition set_if_present :: "'a option \<Rightarrow> 'a \<Rightarrow> 'a" where
  "set_if_present ptr field = (case ptr of None \<Rightarrow> field | Some v \<Rightarrow> v)"

definition SetString :: "string option \<Rightarrow> string \<Rightarrow> string" where "SetString = set_if_present"
definition SetBool :: "bool option \<Rightarrow> bool \<Rightarrow> bool" where "SetBool = set_if_present"
definition SetFloat64 :: "rat option \<Rightarrow> rat \<Rightarrow> rat" where "SetFloat64 = set_if_present"

section \<open>Kubernetes names\<close>

definition name_char :: "char \<Rightarrow> bool" where
  "name_char c \<longleftrightarrow> is_lower c \<or> is_digit c \<or> c = CHR ''-''"

text \<open>\<open>ReplaceAllString\<close> of the maximal runs of a character class by one dash.\<close>

fun dash_runs :: "(char \<Rightarrow> bool) \<Rightarrow> bool \<Rightarrow> string \<Rightarrow> string" where
  "dash_runs p inrun [] = []"
| "dash_runs p inrun (c # s) =
     (if p c then (if inrun then dash_runs p True s else CHR ''-'' # dash_runs p True s)
      else c # dash_runs p False s)"

definition strip_end :: "(char \<Rightarrow> bool) \<Rightarrow> string \<Rightarrow> string" where
  "strip_end p s = rev (dropWhile p (rev s))"

definition alnum :: "char \<Rightarrow> bool" where
  "alnum c \<longleftrightarrow> is_lower c \<or> is_digit c"

definition trim_spaces :: "string \<Rightarrow> string" where
  "trim_spaces s = strip_end (\<lambda>c. c = CHR '' '') (dropWhile (\<lambda>c. c = CHR '' '') s)"

text \<open>The limit is a natural number: every caller passes a positive constant.\<close>

definition GenerateEligibleKubernetesName :: "ext \<Rightarrow> string \<Rightarrow> nat \<Rightarrow> string" where
  "GenerateEligibleKubernetesName X original limit =
     (let processed = unidecode X original;
          processed = to_lower processed;
          processed = dash_runs (\<lambda>c. \<not> name_char c) False processed;
          processed = dash_runs (\<lambda>c. c = CHR ''-'') False processed;
          processed = dropWhile (\<lambda>c. \<not> is_lower c) processed;
          processed = strip_end (\<lambda>c. \<not> alnum c) processed;
          processed = trim_spaces processed;
          processed = (if length processed > limit then take limit processed else processed)
      in strip_end (\<lambda>c. \<not> alnum c) processed)"

definition GenerateEligibleKubernetesFullName :: "ext \<Rightarrow> string \<Rightarrow> string" where
  "GenerateEligibleKubernetesFullName X original = GenerateEligibleKubernetesName X original 253"

definition GenerateEligibleKubernetesLabelName :: "ext \<Rightarrow> string \<Rightarrow> string" where
  "GenerateEligibleKubernetesLabelName X original = GenerateEligibleKubernetesName X original 58"

section \<open>The default ready status\<close>

definition defaultCrossplaneReadyStatus :: "ext \<Rightarrow> object \<Rightarrow> ready" where
  "defaultCrossplaneReadyStatus X ob =
     (if contains (get_api_version X ob) ''upbound.io'' then ReadyFalse else ReadyTrue)"

text \<open>The loop over the conditions: \<open>Inl\<close> is its early return, \<open>Inr\<close> the last Ready condition.\<close>

fun condition_loop :: "json list \<Rightarrow> ready option \<Rightarrow> ready + ready option" where
  "condition_loop [] r = Inr r"
| "condition_loop (JObj m # cs) r =
     (if map_of m ''type'' = Some (JStr ''Synced'') \<and> map_of m ''status'' \<noteq> Some (JStr ''True'') then Inl ReadyFalse
      else if map_of m ''type'' \<noteq> Some (JStr ''Ready'') then condition_loop cs r
      else condition_loop cs (Some (if map_of m ''status'' = Some (JStr ''True'') then ReadyTrue else ReadyFalse)))"
| "condition_loop (c # cs) r = condition_loop cs r"

definition GetCrossplaneReadyStatus :: "ext \<Rightarrow> object \<Rightarrow> ready" where
  "GetCrossplaneReadyStatus X ob =
     (case nested_slice X ob [''status'', ''conditions''] of
        Inr (Some conditions) \<Rightarrow>
          (case condition_loop conditions None of
             Inl r \<Rightarrow> r
           | Inr (Some r) \<Rightarrow> r
           | Inr None \<Rightarrow> defaultCrossplaneReadyStatus X ob)
      | _ \<Rightarrow> defaultCrossplaneReadyStatus X ob)"

end
