(* ===== verification/Base_Util_Facts.thy ===== *)
theory Base_Util_Facts
  imports Base_Util
begin

text \<open>
  What the utilities guarantee: the alphabet and length of generated names, their stability, the hash text,
  the ready status as a function of the conditions, and the precedence of tag sources.
\<close>

section \<open>Hashes\<close>

lemma digits_rev_length: "2 \<le> b \<Longrightarrow> n < b ^ Suc k \<Longrightarrow> length (digits_rev fuel b n) \<le> Suc k"
proof (induction fuel arbitrary: n k)
  case 0
  then show ?case by simp
next
  case (Suc fuel)
  show ?case
  proof (cases "n div b = 0")
    case True
    then show ?thesis by simp
  next
    case False
    then obtain j where k: "k = Suc j"
      using Suc.prems by (cases k) auto
    with Suc.prems have "n div b < b ^ Suc j"
      by (simp add: less_mult_imp_div_less mult.commute)
    with Suc.IH Suc.prems(1) False k show ?thesis by simp
  qed
qed

lemma digits_rev_nonempty: "digits_rev (Suc k) b n \<noteq> []"
  by simp

lemma digit_char_alnum: "d < 16 \<Longrightarrow> alnum (digit_char d)"
  by (auto simp: digit_char_def alnum_def is_lower_def is_digit_def)

lemma show_hex_alnum: "c \<in> set (show_base 16 n) \<Longrightarrow> alnum c"
proof -
  assume "c \<in> set (show_base 16 n)"
  then obtain d where d: "d \<in> set (digits_rev (Suc n) 16 n)" and c: "c = digit_char d"
    unfolding show_base_def by auto
  from d have "d < 16" by (rule digits_rev_bound [rotated]) simp
  with c show ?thesis by (simp add: digit_char_alnum)
qed

lemma alnum_not_upper: "alnum c \<Longrightarrow> \<not> is_upper c"
  by (auto simp: alnum_def is_lower_def is_digit_def is_upper_def)

lemma GenerateHash_eq: "GenerateHash s = show_base 16 (unat (fnv32a s))"
  unfolding GenerateHash_def using show_hex_alnum alnum_not_upper by (intro to_lower_id) blast

lemma GenerateHash_alnum: "c \<in> set (GenerateHash s) \<Longrightarrow> alnum c"
  unfolding GenerateHash_eq by (rule show_hex_alnum)

lemma GenerateHash_length: "length (GenerateHash s) \<le> 8 \<and> GenerateHash s \<noteq> []"
proof -
  have "unat (fnv32a s) < 2 ^ 32" using unsigned_less [of "fnv32a s", where 'a = nat] by simp
  then have "unat (fnv32a s) < 16 ^ Suc 7" by simp
  from digits_rev_length [OF _ this, of "Suc (unat (fnv32a s))"]
  show ?thesis by (simp add: GenerateHash_eq show_base_def del: digits_rev.simps) simp
qed

lemma GenerateHash_inj: "GenerateHash s = GenerateHash t \<longleftrightarrow> fnv32a s = fnv32a t"
  using show_base_inj [of 16] unsigned_word_eqI by (auto simp: GenerateHash_eq)

section \<open>Names\<close>

fun no_dd :: "string \<Rightarrow> bool" where
  "no_dd (c # d # s) \<longleftrightarrow> \<not> (c = CHR ''-'' \<and> d = CHR ''-'') \<and> no_dd (d # s)"
| "no_dd s \<longleftrightarrow> True"

text \<open>
  An eligible name: empty, or a DNS label that starts with a letter: lower-case letters, digits and single
  dashes, a letter first and no dash last.
\<close>

definition eligible :: "string \<Rightarrow> bool" where
  "eligible s \<longleftrightarrow> s = [] \<or>
     (is_lower (hd s) \<and> alnum (last s) \<and> (\<forall>c \<in> set s. name_char c) \<and> no_dd s)"

lemma strip_end_prefix: "prefix (strip_end p s) s"
proof -
  have "s = rev (dropWhile p (rev s)) @ rev (takeWhile p (rev s))"
    by (metis rev_append rev_rev_ident takeWhile_dropWhile_id)
  then show ?thesis unfolding strip_end_def by (metis prefixI)
qed

lemma strip_end_last: "strip_end p s \<noteq> [] \<Longrightarrow> \<not> p (last (strip_end p s))"
  unfolding strip_end_def by (metis hd_dropWhile last_rev rev_is_Nil_conv)

lemma strip_end_id: "s = [] \<or> \<not> p (last s) \<Longrightarrow> strip_end p s = s"
  unfolding strip_end_def by (cases s rule: rev_cases) auto

lemma dropWhile_suffix: "suffix (dropWhile p s) s"
  by (simp add: suffix_dropWhile)

lemma no_dd_Cons: "no_dd (c # s) \<Longrightarrow> no_dd s"
  by (cases s) auto

lemma no_dd_suffix: "no_dd (u @ s) \<Longrightarrow> no_dd s"
  by (induction u) (auto dest: no_dd_Cons)

lemma no_dd_prefix: "no_dd (s @ u) \<Longrightarrow> no_dd s"
  by (induction s rule: no_dd.induct) auto

lemma dash_runs_class: "c \<in> set (dash_runs p b s) \<Longrightarrow> \<not> p c \<or> c = CHR ''-''"
  by (induction p b s rule: dash_runs.induct) (auto split: if_splits)

lemma dash_runs_subset: "c \<in> set (dash_runs p b s) \<Longrightarrow> c \<in> set s \<or> c = CHR ''-''"
  by (induction p b s rule: dash_runs.induct) (auto split: if_splits)

lemma dash_runs_id: "(\<forall>c \<in> set s. \<not> p c) \<Longrightarrow> dash_runs p b s = s"
  by (induction p b s rule: dash_runs.induct) auto

lemma dash_runs_head: "dash_runs (\<lambda>c. c = CHR ''-'') True s = c # t \<Longrightarrow> c \<noteq> CHR ''-''"
  by (induction s) (auto split: if_splits)

lemma dash_runs_no_dd: "no_dd (dash_runs (\<lambda>c. c = CHR ''-'') b s)"
proof (induction "\<lambda>c. c = CHR ''-''" b s rule: dash_runs.induct)
  case (1 inrun)
  then show ?case by simp
next
  case (2 inrun c s)
  then show ?case
    by (cases "dash_runs (\<lambda>c. c = CHR ''-'') True s"; cases "dash_runs (\<lambda>c. c = CHR ''-'') False s")
      (auto dest: dash_runs_head)
qed

lemma dash_runs_no_dd_id: "no_dd s \<Longrightarrow> \<not> (b \<and> s \<noteq> [] \<and> hd s = CHR ''-'') \<Longrightarrow>
    dash_runs (\<lambda>c. c = CHR ''-'') b s = s"
proof (induction s arbitrary: b)
  case Nil
  then show ?case by simp
next
  case (Cons c s)
  from Cons.prems have "no_dd s" by (blast dest: no_dd_Cons)
  moreover have "c = CHR ''-'' \<Longrightarrow> \<not> (s \<noteq> [] \<and> hd s = CHR ''-'')"
    using Cons.prems by (cases s) auto
  ultimately show ?case using Cons by auto
qed

text \<open>Cutting off a front and an end keeps the alphabet and the single dashes.\<close>

definition clean :: "string \<Rightarrow> bool" where
  "clean s \<longleftrightarrow> (\<forall>c \<in> set s. name_char c) \<and> no_dd s"

lemma clean_prefix: "prefix s t \<Longrightarrow> clean t \<Longrightarrow> clean s"
  by (auto simp: clean_def prefix_def dest: no_dd_prefix)

lemma clean_suffix: "suffix s t \<Longrightarrow> clean t \<Longrightarrow> clean s"
  by (auto simp: clean_def suffix_def dest: no_dd_suffix)

lemma hd_prefix: "prefix s t \<Longrightarrow> s \<noteq> [] \<Longrightarrow> hd s = hd t"
  by (auto simp: prefix_def)

lemma name_char_not_space: "name_char c \<Longrightarrow> c \<noteq> CHR '' '' \<and> \<not> is_upper c"
  by (auto simp: name_char_def is_lower_def is_digit_def is_upper_def)

lemma trim_spaces_clean: "(\<forall>c \<in> set s. name_char c) \<Longrightarrow> trim_spaces s = s"
proof -
  assume a: "\<forall>c \<in> set s. name_char c"
  then have "dropWhile (\<lambda>c. c = CHR '' '') s = s"
    by (cases s) (auto dest: name_char_not_space)
  moreover have "s = [] \<or> last s \<noteq> CHR '' ''"
    using a name_char_not_space last_in_set by blast
  ultimately show ?thesis by (simp add: trim_spaces_def strip_end_id)
qed

lemma processed_clean:
  "clean (dash_runs (\<lambda>c. c = CHR ''-'') False (dash_runs (\<lambda>c. \<not> name_char c) False s))"
proof -
  have dash: "name_char (CHR ''-'')" by (simp add: name_char_def)
  then have "\<forall>c \<in> set (dash_runs (\<lambda>c. \<not> name_char c) False s). name_char c"
    using dash_runs_class by blast
  then have "\<forall>c \<in> set (dash_runs (\<lambda>c. c = CHR ''-'') False (dash_runs (\<lambda>c. \<not> name_char c) False s)). name_char c"
    using dash dash_runs_subset by blast
  then show ?thesis by (simp add: clean_def dash_runs_no_dd)
qed

lemma eligible_name: "eligible (GenerateEligibleKubernetesName X original limit)
    \<and> length (GenerateEligibleKubernetesName X original limit) \<le> limit"
proof -
  define a where "a = dash_runs (\<lambda>c. c = CHR ''-'') False
    (dash_runs (\<lambda>c. \<not> name_char c) False (to_lower (unidecode X original)))"
  define b where "b = dropWhile (\<lambda>c. \<not> is_lower c) a"
  define d where "d = strip_end (\<lambda>c. \<not> alnum c) b"
  define e where "e = take limit d"
  define r where "r = strip_end (\<lambda>c. \<not> alnum c) e"
  have "clean a" unfolding a_def by (rule processed_clean)
  then have cb: "clean b" unfolding b_def using dropWhile_suffix clean_suffix by blast
  then have cd: "clean d" unfolding d_def using strip_end_prefix clean_prefix by blast
  have gen: "GenerateEligibleKubernetesName X original limit = r"
    using trim_spaces_clean cd
    by (auto simp: GenerateEligibleKubernetesName_def Let_def a_def b_def d_def e_def r_def clean_def)
  have rb: "prefix r b"
    unfolding r_def e_def d_def using strip_end_prefix take_is_prefix prefix_order.trans by meson
  have "clean r" using rb cb by (rule clean_prefix)
  moreover have "r \<noteq> [] \<Longrightarrow> is_lower (hd r)"
  proof -
    assume r: "r \<noteq> []"
    then have "b \<noteq> []" using rb by auto
    then have "is_lower (hd b)" unfolding b_def using hd_dropWhile by metis
    with hd_prefix [OF rb r] show ?thesis by simp
  qed
  moreover have "r \<noteq> [] \<Longrightarrow> alnum (last r)"
    unfolding r_def using strip_end_last by metis
  moreover have "length r \<le> limit"
    unfolding r_def using prefix_length_le [OF strip_end_prefix, of "\<lambda>c. \<not> alnum c" e] by (simp add: e_def)
  ultimately show ?thesis using gen by (auto simp: eligible_def clean_def)
qed

text \<open>A name that is eligible already, and short enough, is kept.\<close>

lemma eligible_fixed:
  assumes "eligible s" and "length s \<le> limit" and "unidecode X s = s"
  shows "GenerateEligibleKubernetesName X s limit = s"
proof (cases "s = []")
  case True
  with assms(3) show ?thesis
    by (simp add: GenerateEligibleKubernetesName_def to_lower_def trim_spaces_def strip_end_def)
next
  case False
  with assms(1) have e: "is_lower (hd s)" "alnum (last s)" "\<forall>c \<in> set s. name_char c" "no_dd s"
    by (auto simp: eligible_def)
  have "to_lower s = s" using e(3) name_char_not_space by (intro to_lower_id) blast
  moreover have "dash_runs (\<lambda>c. \<not> name_char c) False s = s" using e(3) by (intro dash_runs_id) blast
  moreover have "dash_runs (\<lambda>c. c = CHR ''-'') False s = s" using e(4) by (intro dash_runs_no_dd_id) auto
  moreover have "dropWhile (\<lambda>c. \<not> is_lower c) s = s" using e(1) by (cases s) auto
  moreover have "strip_end (\<lambda>c. \<not> alnum c) s = s" using e(2) by (intro strip_end_id) simp
  ultimately show ?thesis
    using assms(2,3) e(3) by (simp add: GenerateEligibleKubernetesName_def trim_spaces_clean)
qed

text \<open>The letters and digits of a generated name are those of the transliterated original, from its first letter on.\<close>

lemma filter_strip_end: "(\<And>c. p c \<Longrightarrow> \<not> q c) \<Longrightarrow> filter q (strip_end p s) = filter q s"
proof -
  assume pq: "\<And>c. p c \<Longrightarrow> \<not> q c"
  then have "filter q (dropWhile p xs) = filter q xs" for xs by (induction xs) auto
  then show ?thesis by (simp add: strip_end_def rev_filter [symmetric])
qed

lemma filter_dash_runs: "(\<And>c. p c \<Longrightarrow> \<not> q c) \<Longrightarrow> \<not> q (CHR ''-'') \<Longrightarrow> filter q (dash_runs p b s) = filter q s"
  by (induction s arbitrary: b) auto

lemma filter_dropWhile: "(\<And>c. p c \<Longrightarrow> q c) \<Longrightarrow> filter q (dropWhile (\<lambda>c. \<not> p c) s) = dropWhile (\<lambda>c. \<not> p c) (filter q s)"
  by (induction s) auto

lemma length_dash_runs: "length (dash_runs p b s) \<le> length s"
  by (induction s arbitrary: b) (auto intro: le_SucI)

lemma eligible_letters:
  fixes X :: ext and original :: string and limit :: nat
  defines "name \<equiv> GenerateEligibleKubernetesName X original limit"
    and "letters \<equiv> dropWhile (\<lambda>c. \<not> is_lower c) (filter alnum (to_lower (unidecode X original)))"
  shows "prefix (filter alnum name) letters"
    and "length (unidecode X original) \<le> limit \<Longrightarrow> filter alnum name = letters"
    and "0 < limit \<Longrightarrow> letters \<noteq> [] \<Longrightarrow> name \<noteq> []"
proof -
  define a where "a = dash_runs (\<lambda>c. c = CHR ''-'') False
    (dash_runs (\<lambda>c. \<not> name_char c) False (to_lower (unidecode X original)))"
  define b where "b = dropWhile (\<lambda>c. \<not> is_lower c) a"
  define d where "d = strip_end (\<lambda>c. \<not> alnum c) b"
  have na: "\<not> name_char c \<Longrightarrow> \<not> alnum c" "is_lower c \<Longrightarrow> alnum c" "\<not> alnum (CHR ''-'')" for c
    by (auto simp: name_char_def alnum_def is_lower_def is_digit_def)
  have "clean a" unfolding a_def by (rule processed_clean)
  then have cd: "\<forall>c \<in> set d. name_char c"
    unfolding b_def d_def clean_def using dropWhile_suffix strip_end_prefix
    by (metis set_mono_prefix set_mono_suffix subsetD)
  have name: "name = strip_end (\<lambda>c. \<not> alnum c) (take limit d)"
    using trim_spaces_clean [OF cd]
    by (simp add: GenerateEligibleKubernetesName_def Let_def a_def b_def d_def name_def)
  have fa: "filter alnum a = filter alnum (to_lower (unidecode X original))"
    unfolding a_def using na by (subst filter_dash_runs, auto)+
  have fd: "filter alnum d = letters"
    unfolding d_def b_def letters_def by (simp add: filter_strip_end filter_dropWhile na(2) fa)
  have fn: "filter alnum name = filter alnum (take limit d)" unfolding name by (simp add: filter_strip_end)
  show "prefix (filter alnum name) letters"
    unfolding fn fd [symmetric] using append_take_drop_id [of limit d] by (metis filter_append prefixI)
  have "length d \<le> length (unidecode X original)"
    unfolding d_def b_def a_def
    using length_dash_runs strip_end_prefix dropWhile_suffix
    by (smt (verit) le_trans length_map prefix_length_le suffix_length_le to_lower_def)
  then show "length (unidecode X original) \<le> limit \<Longrightarrow> filter alnum name = letters" by (simp add: fn fd)
  assume l: "0 < limit" "letters \<noteq> []"
  with fd have "d \<noteq> []" by auto
  moreover from this have "hd d = hd b"
    unfolding d_def using hd_prefix [OF strip_end_prefix] by blast
  moreover from \<open>d \<noteq> []\<close> have "is_lower (hd b)"
    unfolding d_def b_def using hd_dropWhile by (metis strip_end_prefix prefix_Nil)
  ultimately have "alnum (hd (take limit d))" "take limit d \<noteq> []" using l(1) na(2) by (auto simp: hd_take)
  then have "filter alnum (take limit d) \<noteq> []" by (cases "take limit d") auto
  with fn show "name \<noteq> []" by auto
qed

section \<open>Ready status\<close>

definition sync_failed :: "json \<Rightarrow> bool" where
  "sync_failed c \<longleftrightarrow> (case c of JObj m \<Rightarrow>
     map_of m ''type'' = Some (JStr ''Synced'') \<and> map_of m ''status'' \<noteq> Some (JStr ''True'') | _ \<Rightarrow> False)"

definition is_ready_condition :: "json \<Rightarrow> bool" where
  "is_ready_condition c \<longleftrightarrow> (case c of JObj m \<Rightarrow> map_of m ''type'' = Some (JStr ''Ready'') | _ \<Rightarrow> False)"

definition condition_ready :: "json \<Rightarrow> ready" where
  "condition_ready c = (case c of JObj m \<Rightarrow>
     (if map_of m ''status'' = Some (JStr ''True'') then ReadyTrue else ReadyFalse) | _ \<Rightarrow> ReadyFalse)"

lemma condition_simps [simp]:
  "sync_failed (JObj m) \<longleftrightarrow>
     map_of m ''type'' = Some (JStr ''Synced'') \<and> map_of m ''status'' \<noteq> Some (JStr ''True'')"
  "is_ready_condition (JObj m) \<longleftrightarrow> map_of m ''type'' = Some (JStr ''Ready'')"
  "condition_ready (JObj m) = (if map_of m ''status'' = Some (JStr ''True'') then ReadyTrue else ReadyFalse)"
  by (simp_all add: sync_failed_def is_ready_condition_def condition_ready_def)

lemma condition_other [simp]:
  "\<not> sync_failed JNull" "\<not> is_ready_condition JNull"
  "\<not> sync_failed (JBool b)" "\<not> is_ready_condition (JBool b)"
  "\<not> sync_failed (JInt i)" "\<not> is_ready_condition (JInt i)"
  "\<not> sync_failed (JFloat q)" "\<not> is_ready_condition (JFloat q)"
  "\<not> sync_failed (JStr s)" "\<not> is_ready_condition (JStr s)"
  "\<not> sync_failed (JArr xs)" "\<not> is_ready_condition (JArr xs)"
  by (simp_all add: sync_failed_def is_ready_condition_def)

lemma condition_loop_spec:
  "condition_loop cs r =
     (if \<exists>c \<in> set cs. sync_failed c then Inl ReadyFalse
      else case filter is_ready_condition cs of
             [] \<Rightarrow> Inr r
           | rs \<Rightarrow> Inr (Some (condition_ready (last rs))))"
proof (induction cs r rule: condition_loop.induct)
  case (2 m cs r)
  then show ?case by (cases "filter is_ready_condition cs") auto
qed auto

section \<open>Tag precedence\<close>

fun first_some :: "'a option list \<Rightarrow> 'a option" where
  "first_some [] = None"
| "first_some (Some v # vs) = Some v"
| "first_some (None # vs) = first_some vs"

lemma first_some_pair: "first_some [a, b] = (case a of Some v \<Rightarrow> Some v | None \<Rightarrow> b)"
  by (cases a; cases b) auto

lemma env_tags_loop_wf: "wf_map tags \<Longrightarrow> wf_map (env_tags_loop m tags)"
  by (induction m tags rule: env_tags_loop.induct) auto

lemma env_tags_loop_lookup:
  "wf_map m \<Longrightarrow> map_of (env_tags_loop m tags) t =
     (case map_of m t of Some (Some v) \<Rightarrow> Some v | _ \<Rightarrow> map_of tags t)"
proof (induction m tags rule: env_tags_loop.induct)
  case (1 tags)
  then show ?case by simp
next
  case (2 key m tags)
  have "map_of m key = None" using 2(2) by (simp add: map_of_eq_None_iff)
  with 2 show ?case by (auto split: option.splits)
next
  case (3 key v m tags)
  have "map_of m key = None" using 3(2) by (simp add: map_of_eq_None_iff)
  with 3 show ?case by (auto split: option.splits)
qed

text \<open>The tag sources of an object, the strongest first.\<close>

definition object_sources :: "ext \<Rightarrow> object \<Rightarrow> string \<Rightarrow> string option list" where
  "object_sources X ob t =
     [map_of (get_annotations X ob) (TagsPrefix @ t), map_of (get_labels X ob) (TagsPrefix @ t)]"

context object_access
begin

lemma GetObjectTags_sources: "map_of (GetObjectTags X ob) t = first_some (object_sources X ob t)"
  by (simp add: map_of_GetObjectTags labels_wf annotations_wf object_sources_def first_some_pair)

lemma labels_extracted:
  "map_of (extractLabels (get_labels X ob)) k = (if prefix TagsPrefix k then map_of (get_labels X ob) k else None)"
  by (simp add: map_of_extractLabels labels_wf)

lemma getEnvironment_tags_wf:
  "wf_map (fst (getEnvironment X (environment_tags X) (\<lambda>e. None) [] rs))"
  using tags_wf by (auto simp: getEnvironment_def split: sum.splits prod.splits option.splits)
    (metis fst_conv)+

lemma getZoneEnvironmentTags_wf: "getZoneEnvironmentTags X key required = Inr tags \<Longrightarrow> wf_map tags"
  by (auto simp: getZoneEnvironmentTags_def env_tags_loop_wf split: prod.splits option.splits failure.splits)

end

lemma first_some_append: "first_some (xs @ ys) = (case first_some xs of Some v \<Rightarrow> Some v | None \<Rightarrow> first_some ys)"
  by (induction xs rule: first_some.induct) auto

end
