(* ===== verification/Base_Fn.thy ===== *)
theory Base_Fn
  imports Base_Util_Facts
begin

text \<open>
  \<open>functions/common/base/fn.go\<close>: one reconciliation. A run threads the process-wide cache of
  \<open>supports_field\<close>; a step that can fail and touches the cache is a \<open>comp\<close>. Ranging over a Go map
  visits its keys in an order that the language leaves open: \<open>ord i\<close> is the order chosen at the \<open>i\<close>-th
  range of a run, any permutation of the keys (\<open>iteration\<close>).
\<close>

section \<open>Computations over the cache\<close>

type_synonym 'a comp = "cache \<Rightarrow> 'a res \<times> cache"

definition liftc :: "'a res \<Rightarrow> 'a comp" where
  "liftc r = (\<lambda>c. (r, c))"

definition bindc :: "'a comp \<Rightarrow> ('a \<Rightarrow> 'b comp) \<Rightarrow> 'b comp" where
  "bindc m f = (\<lambda>c. case m c of (Inl e, c') \<Rightarrow> (Inl e, c') | (Inr x, c') \<Rightarrow> f x c')"

definition wrapc :: "string \<Rightarrow> 'a comp \<Rightarrow> 'a comp" where
  "wrapc msg m = (\<lambda>c. case m c of (r, c') \<Rightarrow> (wrapf msg r, c'))"

type_synonym order = "nat \<Rightarrow> string list \<Rightarrow> string list"

definition iteration :: "order \<Rightarrow> bool" where
  "iteration ord \<longleftrightarrow> (\<forall>i xs. mset (ord i xs) = mset xs)"

section \<open>One desired resource\<close>

definition tags_path :: "string list" where
  "tags_path = [''spec'', ''forProvider'', ''tags'']"

definition zone_labels :: "string \<Rightarrow> ResourceTags \<Rightarrow> string gomap \<Rightarrow> string gomap" where
  "zone_labels workspace rt labels =
     (let labels = gcopy labels (rt_labels rt);
          labels = (if rt_zone rt \<noteq> '''' then gset TenancyZoneLabel (rt_zone rt) labels else labels)
      in if workspace \<noteq> '''' then gset TenancyWorkspaceLabel workspace labels else labels)"

definition zone_tags :: "string \<Rightarrow> ResourceTags \<Rightarrow> object \<Rightarrow> object" where
  "zone_tags workspace rt tags =
     (let tags = gcopy tags (str_map (rt_tags rt));
          tags = (if rt_zone rt \<noteq> '''' then gset TenancyZoneAWSTag (JStr (rt_zone rt)) tags else tags)
      in if workspace \<noteq> '''' then gset TenancyWorkspaceAWSTag (JStr workspace) tags else tags)"

text \<open>The part of \<open>injectZone\<close> after the support check.\<close>

definition inject_tags :: "ext \<Rightarrow> string \<Rightarrow> ResourceTags \<Rightarrow> object \<Rightarrow> object res" where
  "inject_tags X workspace rt u =
     (case nested_map X u tags_path of
        Inl (Error e) \<Rightarrow> Inr u
      | Inl (Panic p) \<Rightarrow> Inl (Panic p)
      | Inr t \<Rightarrow>
          let tags = zone_tags workspace rt (case t of None \<Rightarrow> [] | Some m \<Rightarrow> m) in
          if length tags > AWSTagsLimit then
            Inl (Error (''tags limit exceeded for '' @ gvk_text X u @ '' '' @ get_name X u @ '': '' @
                   itoa (length tags) @ '' tags (limit '' @ itoa AWSTagsLimit @ '')''))
          else map_error (\<lambda>e. ''cannot set tenancy zone tag for '' @ gvk_text X u @ '' '' @ get_name X u @ '' '' @ e)
                 (set_nested_map X u tags tags_path))"

definition injectZone ::
  "ext \<Rightarrow> 'o objects \<Rightarrow> string \<Rightarrow> 'o \<Rightarrow> object \<Rightarrow> ResourceTags \<Rightarrow> object comp" where
  "injectZone X A workspace ob u rt =
     (let u = set_labels X u (zone_labels workspace rt (get_labels X u)) in
      (\<lambda>c. case supports_field X A ob tags_path c of
             (supported, c') \<Rightarrow> (if \<not> supported then Inr u else inject_tags X workspace rt u, c')))"

definition getReadyStatus :: "ext \<Rightarrow> ('c, 'o) GroupService \<Rightarrow> object \<Rightarrow> ready" where
  "getReadyStatus X G ob =
     (case GetReadyStatus G ob of Some r \<Rightarrow> r | None \<Rightarrow> GetCrossplaneReadyStatus X ob)"

definition observed_ready :: "ext \<Rightarrow> ('c, 'o) GroupService \<Rightarrow> observed \<Rightarrow> string \<Rightarrow> ready res" where
  "observed_ready X G observed name =
     (case map_of observed name of
        None \<Rightarrow> Inr ReadyUnspecified
      | Some oc \<Rightarrow> bindr (deref (oc_resource oc)) (\<lambda>ob. Inr (getReadyStatus X G ob)))"

definition addDesiredResource ::
  "ext \<Rightarrow> 'o objects \<Rightarrow> ('c, 'o) GroupService \<Rightarrow> string \<Rightarrow> observed \<Rightarrow> ResourceTags \<Rightarrow>
   desired \<Rightarrow> string \<Rightarrow> 'o \<Rightarrow> desired comp" where
  "addDesiredResource X A G workspace observed rt desired name ob =
     bindc (liftc (observed_ready X G observed name)) (\<lambda>ready.
     bindc (liftc (wrapf ''cannot convert object to unstructured'' (to_unstructured A ob))) (\<lambda>u.
     bindc (injectZone X A workspace ob u rt) (\<lambda>u'.
       liftc (Inr (gset name \<lparr>dc_resource = u', dc_ready = ready\<rparr> desired)))))"

section \<open>The sequence\<close>

definition getPatternRegex :: "string \<Rightarrow> regexp res" where
  "getPatternRegex pattern =
     (let pattern = (if \<not> prefix ''^'' pattern then ''^'' @ pattern else pattern);
          pattern = (if \<not> suffix ''$'' pattern then pattern @ ''$'' else pattern)
      in compile pattern)"

fun match_keys :: "regexp \<Rightarrow> string list \<Rightarrow> string Set \<Rightarrow> string Set" where
  "match_keys regex [] names = names"
| "match_keys regex (key # keys) names =
     match_keys regex keys (if match_string regex key then gset key True names else names)"

text \<open>A failed compilation leaves the regex nil, which is what the error text prints.\<close>

fun step_names_loop :: "bool \<Rightarrow> string list \<Rightarrow> string list \<Rightarrow> string Set \<Rightarrow> string Set res" where
  "step_names_loop isRegex keys [] names = Inr names"
| "step_names_loop isRegex keys (p # ps) names =
     (if \<not> isRegex then step_names_loop isRegex keys ps (gset p True names)
      else bindr (wrapf ''cannot compile sequence regex <nil>'' (getPatternRegex p)) (\<lambda>regex.
             step_names_loop isRegex keys ps (match_keys regex keys names)))"

definition getStepResourceNames :: "Step \<Rightarrow> bool \<Rightarrow> 'o gomap \<Rightarrow> string Set res" where
  "getStepResourceNames step isRegex generated =
     step_names_loop isRegex (map fst generated) (step_objects step) []"

definition step_context :: "string \<Rightarrow> string" where
  "step_context name = ''cannot add desired resource '' @ name"

definition rest_context :: "string \<Rightarrow> string" where
  "rest_context name = ''cannot add non-sequenced desired resource '' @ name"

text \<open>The loop over the names of one step; the state is desired, processed, all ready.\<close>

fun step_loop ::
  "ext \<Rightarrow> 'o objects \<Rightarrow> ('c, 'o) GroupService \<Rightarrow> string \<Rightarrow> observed \<Rightarrow> ResourceTags \<Rightarrow> 'o gomap \<Rightarrow>
   bool \<Rightarrow> string list \<Rightarrow> desired \<times> string Set \<times> bool \<Rightarrow> (desired \<times> string Set \<times> bool) comp" where
  "step_loop X A G ws observed rt gen previous [] st = liftc (Inr st)"
| "step_loop X A G ws observed rt gen previous (name # names) (desired, processed, allReady) =
     (case map_of gen name of
        None \<Rightarrow> step_loop X A G ws observed rt gen previous names (desired, processed, allReady)
      | Some ob \<Rightarrow>
          let processed = gset name True processed in
          if map_of observed name = None \<and> \<not> previous
          then step_loop X A G ws observed rt gen previous names (desired, processed, False)
          else bindc (wrapc (step_context name)
                       (addDesiredResource X A G ws observed rt desired name ob)) (\<lambda>desired.
                 step_loop X A G ws observed rt gen previous names
                   (desired, processed,
                    allReady \<and> map_option dc_ready (map_of desired name) = Some ReadyTrue)))"

fun steps_loop ::
  "ext \<Rightarrow> 'o objects \<Rightarrow> ('c, 'o) GroupService \<Rightarrow> string \<Rightarrow> observed \<Rightarrow> ResourceTags \<Rightarrow> 'o gomap \<Rightarrow> order \<Rightarrow>
   bool \<Rightarrow> nat \<Rightarrow> bool \<Rightarrow> Step list \<Rightarrow> desired \<times> string Set \<Rightarrow> (desired \<times> string Set) comp" where
  "steps_loop X A G ws observed rt gen ord isRegex i previous [] st = liftc (Inr st)"
| "steps_loop X A G ws observed rt gen ord isRegex i previous (step # steps) (desired, processed) =
     bindc (liftc (wrapf ''cannot get step resource names'' (getStepResourceNames step isRegex gen))) (\<lambda>current.
     bindc (step_loop X A G ws observed rt gen previous (ord i (map fst current)) (desired, processed, True))
       (\<lambda>(desired, processed, allReady).
          steps_loop X A G ws observed rt gen ord isRegex (Suc i) allReady steps (desired, processed)))"

definition addDesiredSequenceResources ::
  "ext \<Rightarrow> 'o objects \<Rightarrow> ('c, 'o) GroupService \<Rightarrow> string \<Rightarrow> order \<Rightarrow> 'c \<Rightarrow> observed \<Rightarrow> desired \<Rightarrow> 'o gomap \<Rightarrow>
   ResourceTags \<Rightarrow> (desired \<times> string Set) comp" where
  "addDesiredSequenceResources X A G ws ord obj observed desired gen rt =
     (let sequence = GetSequence G obj in
      steps_loop X A G ws observed rt gen ord (seq_regex sequence) 0 True (seq_steps sequence) (desired, []))"

section \<open>All desired resources\<close>

fun rest_loop ::
  "ext \<Rightarrow> 'o objects \<Rightarrow> ('c, 'o) GroupService \<Rightarrow> string \<Rightarrow> observed \<Rightarrow> ResourceTags \<Rightarrow> 'o gomap \<Rightarrow>
   string Set \<Rightarrow> string list \<Rightarrow> desired \<Rightarrow> desired comp" where
  "rest_loop X A G ws observed rt gen processed [] desired = liftc (Inr desired)"
| "rest_loop X A G ws observed rt gen processed (name # names) desired =
     (case map_of gen name of
        None \<Rightarrow> rest_loop X A G ws observed rt gen processed names desired
      | Some ob \<Rightarrow>
          if map_of processed name = Some True
          then rest_loop X A G ws observed rt gen processed names desired
          else bindc (wrapc (rest_context name)
                       (addDesiredResource X A G ws observed rt desired name ob))
                 (rest_loop X A G ws observed rt gen processed names))"

definition resource_tags_of :: "ext \<Rightarrow> object \<Rightarrow> required \<Rightarrow> ResourceTags res" where
  "resource_tags_of X composite required =
     (if get_namespace X composite \<noteq> '''' then GetResourceTags X composite required
      else if get_kind X composite = ''Zone'' \<and> get_group X composite = ''tenancy.entigo.com''
      then Inr (GetZoneTags X composite)
      else Inr \<lparr>rt_zone = '''', rt_tags = [], rt_labels = []\<rparr>)"

text \<open>Placing a generated map: the sequence first, then what it did not process.\<close>

definition place_resources ::
  "ext \<Rightarrow> 'o objects \<Rightarrow> ('c, 'o) GroupService \<Rightarrow> string \<Rightarrow> order \<Rightarrow> 'c \<Rightarrow> observed \<Rightarrow> desired \<Rightarrow> 'o gomap \<Rightarrow>
   ResourceTags \<Rightarrow> desired comp" where
  "place_resources X A G ws ord obj observed desired gen rt =
     bindc (addDesiredSequenceResources X A G ws ord obj observed desired gen rt) (\<lambda>(desired, processed).
       rest_loop X A G ws observed rt gen processed
         (ord (length (seq_steps (GetSequence G obj))) (map fst gen)) desired)"

definition generate_desired ::
  "ext \<Rightarrow> 'o objects \<Rightarrow> ('c, 'o) GroupService \<Rightarrow> string \<Rightarrow> order \<Rightarrow> object \<Rightarrow> required \<Rightarrow> observed \<Rightarrow>
   desired \<Rightarrow> desired comp" where
  "generate_desired X A G ws ord composite required observed desired =
     (case map_of (GetResourceHandlers G) (get_kind X composite) of
        None \<Rightarrow> liftc (Inl (Error (''no resource handler found for kind '' @ get_kind X composite)))
      | Some handler \<Rightarrow>
          bindc (liftc (h_decode handler composite)) (\<lambda>obj.
          bindc (liftc (h_generate handler obj required observed)) (\<lambda>gen.
          bindc (liftc (resource_tags_of X composite required)) (\<lambda>rt.
            place_resources X A G ws ord obj observed desired gen rt))))"

section \<open>Status\<close>

fun status_loop :: "('c, 'o) GroupService \<Rightarrow> observed \<Rightarrow> string list \<Rightarrow> object \<Rightarrow> object res" where
  "status_loop G observed [] status = Inr status"
| "status_loop G observed (name # names) status =
     (case map_of observed name of
        None \<Rightarrow> status_loop G observed names status
      | Some oc \<Rightarrow>
          bindr (deref (oc_resource oc)) (\<lambda>ob.
          bindr (GetObservedStatus G ob) (\<lambda>observedStatus.
            if length observedStatus = 0 then status_loop G observed names status
            else status_loop G observed names (gcopy status observedStatus))))"

definition getCompositeResourceStatus :: "('c, 'o) GroupService \<Rightarrow> order \<Rightarrow> observed \<Rightarrow> object res" where
  "getCompositeResourceStatus G ord observed =
     bindr (status_loop G observed (ord 0 (map fst observed)) []) (\<lambda>status.
       case PostProcessStatus G of
         Some processor \<Rightarrow> processor status observed
       | None \<Rightarrow> Inr status)"

text \<open>The composite with the collected status, when there is one to write.\<close>

definition status_composite :: "ext \<Rightarrow> ('c, 'o) GroupService \<Rightarrow> order \<Rightarrow> object \<Rightarrow> observed \<Rightarrow> object option res" where
  "status_composite X G ord composite observed =
     bindr (wrapf ''cannot get composite resource status'' (getCompositeResourceStatus G ord observed)) (\<lambda>extra.
       if length extra = 0 then Inr None
       else bindr (nested_map X composite [''status'']) (\<lambda>status. case status of
              None \<Rightarrow> Inr None
            | Some status \<Rightarrow>
                bindr (wrapf ''cannot set status in composite resource''
                         (set_nested_map X composite (gcopy status extra) [''status'']))
                  (\<lambda>composite. Inr (Some composite))))"

section \<open>Required resources\<close>

text \<open>\<open>None\<close> leaves the response without requirements.\<close>

definition addRequiredResources :: "ext \<Rightarrow> ('c, 'o) GroupService \<Rightarrow> object \<Rightarrow> required \<Rightarrow> selectors option res" where
  "addRequiredResources X G composite required =
     bindr (GetRequiredResources G composite required) (\<lambda>resources.
       let namespace = get_namespace X composite in
       if length resources = 0 \<and> namespace = '''' then Inr None
       else if namespace = '''' then Inr (Some resources)
       else
         let resources = gset NamespaceKey (RequiredNamespace namespace) resources in
         if length (gslice required NamespaceKey) > 0 then
           bindr (GetTenancyZone X required) (\<lambda>zone.
             if zone \<noteq> '''' then
               Inr (Some (gset ZoneEnvKey (RequiredEnvironmentConfig ZoneEnvName)
                           (gset ZoneKey (RequiredZone zone) resources)))
             else Inr (Some resources))
         else Inr (Some resources))"

text \<open>The request's resources by key: the \<open>apiVersion\<close> and \<open>kind\<close> fields of each item.\<close>

type_synonym raw_resources = "(string \<times> string) list gomap"

fun present_loop :: "raw_resources \<Rightarrow> selectors \<Rightarrow> bool" where
  "present_loop resources [] = True"
| "present_loop resources ((key, selector) # reqs) =
     (case map_of resources key of
        None \<Rightarrow> False
      | Some items \<Rightarrow>
          (\<forall>(apiVersion, kind) \<in> set items.
             apiVersion = sel_api_version selector \<and> kind = sel_kind selector) \<and>
          present_loop resources reqs)"

definition requiredResourcesPresent :: "selectors option \<Rightarrow> raw_resources \<Rightarrow> bool" where
  "requiredResourcesPresent requirements resources =
     (case requirements of
        None \<Rightarrow> True
      | Some reqs \<Rightarrow>
          if length reqs = 0 then True
          else if length resources = 0 then False
          else present_loop resources reqs)"

section \<open>RunFunction\<close>

text \<open>
  The SDK's request and response functions, parameters of the run. \<open>'b\<close> is the response apart from its
  requirements: results, desired composite and composed resources.
\<close>

record ('req, 'b) sdk =
  sdk_to :: "'req \<Rightarrow> 'b"
  sdk_fatal :: "'b \<Rightarrow> string \<Rightarrow> 'b"
  sdk_composite :: "'req \<Rightarrow> object res"
  sdk_required :: "'req \<Rightarrow> required res"
  sdk_raw_required :: "'req \<Rightarrow> raw_resources"
  sdk_observed :: "'req \<Rightarrow> observed res"
  sdk_desired :: "'req \<Rightarrow> desired res"
  sdk_set_desired :: "'b \<Rightarrow> desired \<Rightarrow> failure option \<times> 'b"
  sdk_set_composite :: "'b \<Rightarrow> object \<Rightarrow> failure option \<times> 'b"

record 'b response =
  rsp_requirements :: "selectors option"
  rsp_body :: 'b

definition addDesiredComposedResources ::
  "ext \<Rightarrow> 'o objects \<Rightarrow> ('c, 'o) GroupService \<Rightarrow> ('req, 'b) sdk \<Rightarrow> string \<Rightarrow> order \<Rightarrow> 'b \<Rightarrow> object \<Rightarrow> required \<Rightarrow>
   observed \<Rightarrow> desired \<Rightarrow> cache \<Rightarrow> (failure option \<times> 'b) \<times> cache" where
  "addDesiredComposedResources X A G S ws ord body composite required observed desired c =
     (case generate_desired X A G ws ord composite required observed desired c of
        (Inl e, c') \<Rightarrow> ((Some e, body), c')
      | (Inr desired, c') \<Rightarrow> (sdk_set_desired S body desired, c'))"

definition addStatus ::
  "ext \<Rightarrow> ('c, 'o) GroupService \<Rightarrow> ('req, 'b) sdk \<Rightarrow> order \<Rightarrow> 'b \<Rightarrow> object \<Rightarrow> observed \<Rightarrow> failure option \<times> 'b" where
  "addStatus X G S ord body composite observed =
     (case status_composite X G ord composite observed of
        Inl e \<Rightarrow> (Some e, body)
      | Inr None \<Rightarrow> (None, body)
      | Inr (Some composite) \<Rightarrow> sdk_set_composite S body composite)"

text \<open>A returned error becomes a fatal result with its context, a recovered panic one without.\<close>

fun fail_with :: "('req, 'b) sdk \<Rightarrow> 'b response \<Rightarrow> string \<Rightarrow> failure \<Rightarrow> 'b response" where
  "fail_with S rsp msg (Error e) = rsp\<lparr>rsp_body := sdk_fatal S (rsp_body rsp) (msg @ '': '' @ e)\<rparr>"
| "fail_with S rsp msg (Panic p) = rsp\<lparr>rsp_body := sdk_fatal S (rsp_body rsp) (''panic: '' @ p)\<rparr>"

definition getObservedCompositeResource :: "ext \<Rightarrow> ('req, 'b) sdk \<Rightarrow> 'req \<Rightarrow> object res" where
  "getObservedCompositeResource X S req =
     bindr (sdk_composite S req) (\<lambda>ob. Inr (clear_managed_fields X ob))"

definition reconcile ::
  "ext \<Rightarrow> 'o objects \<Rightarrow> ('c, 'o) GroupService \<Rightarrow> ('req, 'b) sdk \<Rightarrow> string \<Rightarrow> order \<Rightarrow> 'req \<Rightarrow> object \<Rightarrow> required \<Rightarrow>
   'b response \<Rightarrow> cache \<Rightarrow> 'b response \<times> cache" where
  "reconcile X A G S ws ord req composite required rsp c =
     (case sdk_observed S req of
        Inl e \<Rightarrow> (fail_with S rsp ''cannot get observed composed resources from *v1.RunFunctionRequest'' e, c)
      | Inr observed \<Rightarrow>
     (case sdk_desired S req of
        Inl e \<Rightarrow> (fail_with S rsp ''cannot get desired resources from *v1.RunFunctionRequest'' e, c)
      | Inr desired \<Rightarrow>
     (case addDesiredComposedResources X A G S ws ord (rsp_body rsp) composite required observed desired c of
        ((Some e, body), c') \<Rightarrow>
          (fail_with S (rsp\<lparr>rsp_body := body\<rparr>) ''cannot add desired composed resources to *v1.RunFunctionResponse'' e, c')
      | ((None, body), c') \<Rightarrow>
     (case addStatus X G S ord body composite observed of
        (Some e, body) \<Rightarrow>
          (fail_with S (rsp\<lparr>rsp_body := body\<rparr>) ''cannot add status to composite resource in *v1.RunFunctionResponse'' e, c')
      | (None, body) \<Rightarrow> (rsp\<lparr>rsp_body := body\<rparr>, c')))))"

definition RunFunction ::
  "ext \<Rightarrow> 'o objects \<Rightarrow> ('c, 'o) GroupService \<Rightarrow> ('req, 'b) sdk \<Rightarrow> string \<Rightarrow> order \<Rightarrow> 'req \<Rightarrow> cache \<Rightarrow>
   'b response \<times> cache" where
  "RunFunction X A G S ws ord req c =
     (let rsp = \<lparr>rsp_requirements = None, rsp_body = sdk_to S req\<rparr> in
      case getObservedCompositeResource X S req of
        Inl e \<Rightarrow> (fail_with S rsp ''cannot get observed composite resource from *v1.RunFunctionRequest'' e, c)
      | Inr composite \<Rightarrow>
     (if SkipGeneration G composite then (rsp, c)
      else case sdk_required S req of
        Inl e \<Rightarrow> (fail_with S rsp ''could not fetch required resources'' e, c)
      | Inr required \<Rightarrow>
     (case addRequiredResources X G composite required of
        Inl e \<Rightarrow> (fail_with S rsp ''cannot add required resources to *v1.RunFunctionResponse'' e, c)
      | Inr requirements \<Rightarrow>
          let rsp = rsp\<lparr>rsp_requirements := requirements\<rparr> in
          if \<not> requiredResourcesPresent requirements (sdk_raw_required S req) then (rsp, c)
          else reconcile X A G S ws ord req composite required rsp c)))"

end
