(* ===== verification/Base_Plan.thy ===== *)
theory Base_Plan
  imports Base_Fn
begin

text \<open>
  What placing the generated resources amounts to. \<open>composed_entry\<close> is the desired entry of one
  resource, a function of that resource alone; \<open>planned\<close> says which resources are placed, from the
  sequence, the observed resources and their readiness. The loops of \<open>Base_Fn\<close> are shown to compute the
  plan for every iteration order.
\<close>

section \<open>Computations that agree with a pure result\<close>

definition yields :: "(gvk \<Rightarrow> bool) \<Rightarrow> 'a comp \<Rightarrow> 'a res \<Rightarrow> bool" where
  "yields S m r \<longleftrightarrow> (\<forall>c. cache_ok S c \<longrightarrow> (\<exists>c'. m c = (r, c') \<and> cache_ok S c'))"

lemma bindc_liftc [simp]: "bindc (liftc (Inr x)) f = f x" "bindc (liftc (Inl e)) f = liftc (Inl e)"
  by (simp_all add: bindc_def liftc_def fun_eq_iff)

lemma yields_fst: "yields S m r \<Longrightarrow> cache_ok S c \<Longrightarrow> fst (m c) = r"
  unfolding yields_def by fastforce

lemma yields_lift [intro, simp]: "yields S (liftc r) r"
  by (simp add: yields_def liftc_def)

lemma yields_bind:
  "yields S m r \<Longrightarrow> (\<And>x. r = Inr x \<Longrightarrow> yields S (f x) (g x)) \<Longrightarrow> yields S (bindc m f) (bindr r g)"
  unfolding yields_def
proof (intro allI impI)
  fix c
  assume m: "\<forall>c. cache_ok S c \<longrightarrow> (\<exists>c'. m c = (r, c') \<and> cache_ok S c')"
    and f: "\<And>x. r = Inr x \<Longrightarrow> \<forall>c. cache_ok S c \<longrightarrow> (\<exists>c'. f x c = (g x, c') \<and> cache_ok S c')"
    and c: "cache_ok S c"
  from m c obtain c1 where c1: "m c = (r, c1)" "cache_ok S c1" by blast
  show "\<exists>c'. bindc m f c = (bindr r g, c') \<and> cache_ok S c'"
    using f c1 by (cases r) (auto simp: bindc_def)
qed

lemma yields_wrap: "yields S m r \<Longrightarrow> yields S (wrapc msg m) (wrapf msg r)"
  unfolding yields_def wrapc_def by fastforce

lemma yields_bind_ok: "yields S m (Inr x) \<Longrightarrow> yields S (f x) r \<Longrightarrow> yields S (bindc m f) r"
  using yields_bind [of S m "Inr x" f "\<lambda>_. r"] by simp

lemma yields_bind_err: "yields S m (Inl e) \<Longrightarrow> yields S (bindc m f) (Inl e)"
  using yields_bind [of S m "Inl e" f "\<lambda>_. Inl e"] by simp

section \<open>Entries\<close>

definition composed_entry ::
  "ext \<Rightarrow> 'o objects \<Rightarrow> ('c, 'o) GroupService \<Rightarrow> string \<Rightarrow> observed \<Rightarrow> ResourceTags \<Rightarrow> bool \<Rightarrow> string \<Rightarrow> 'o \<Rightarrow>
   desired_composed res" where
  "composed_entry X A G ws observed rt supported name ob =
     bindr (observed_ready X G observed name) (\<lambda>ready.
     bindr (wrapf ''cannot convert object to unstructured'' (to_unstructured A ob)) (\<lambda>u.
       let u = set_labels X u (zone_labels ws rt (get_labels X u)) in
       bindr (if \<not> supported then Inr u else inject_tags X ws rt u) (\<lambda>u'.
         Inr \<lparr>dc_resource = u', dc_ready = ready\<rparr>)))"

text \<open>Every generated object's tag support is the one of its kind.\<close>

definition support_by_kind :: "ext \<Rightarrow> 'o objects \<Rightarrow> (gvk \<Rightarrow> bool) \<Rightarrow> 'o gomap \<Rightarrow> bool" where
  "support_by_kind X A S gen \<longleftrightarrow>
     (\<forall>(n, ob) \<in> set gen. resolve_field_path X A ob tags_path = S (gvk_of A ob))"

lemma support_by_kindD:
  "support_by_kind X A S gen \<Longrightarrow> map_of gen n = Some ob \<Longrightarrow> resolve_field_path X A ob tags_path = S (gvk_of A ob)"
  unfolding support_by_kind_def by (auto dest: map_of_SomeD)

lemma injectZone_yields:
  assumes "resolve_field_path X A ob tags_path = S (gvk_of A ob)"
  shows "yields S (injectZone X A ws ob u rt)
     (let u = set_labels X u (zone_labels ws rt (get_labels X u)) in
      if \<not> S (gvk_of A ob) then Inr u else inject_tags X ws rt u)"
  unfolding yields_def injectZone_def Let_def
proof (intro allI impI)
  fix c assume "cache_ok S c"
  from supports_field_ok [OF this assms]
  show "\<exists>c'. (case supports_field X A ob tags_path c of (supported, c') \<Rightarrow>
      (if \<not> supported then Inr (set_labels X u (zone_labels ws rt (get_labels X u)))
       else inject_tags X ws rt (set_labels X u (zone_labels ws rt (get_labels X u))), c')) =
     (if \<not> S (gvk_of A ob) then Inr (set_labels X u (zone_labels ws rt (get_labels X u)))
       else inject_tags X ws rt (set_labels X u (zone_labels ws rt (get_labels X u))), c') \<and> cache_ok S c'"
    by (cases "supports_field X A ob tags_path c") auto
qed

lemma addDesiredResource_yields:
  assumes "resolve_field_path X A ob tags_path = S (gvk_of A ob)"
  shows "yields S (addDesiredResource X A G ws observed rt d name ob)
     (bindr (composed_entry X A G ws observed rt (S (gvk_of A ob)) name ob) (\<lambda>e. Inr (gset name e d)))"
proof -
  have inj: "yields S (injectZone X A ws ob u rt)
     (let u = set_labels X u (zone_labels ws rt (get_labels X u)) in
      if \<not> S (gvk_of A ob) then Inr u else inject_tags X ws rt u)" for u
    by (rule injectZone_yields) (rule assms)
  show ?thesis
    unfolding addDesiredResource_def composed_entry_def Let_def bindr_assoc
    by (intro yields_bind yields_lift inj [unfolded Let_def]) simp
qed

text \<open>The entry of a name of the generated map.\<close>

definition entry_of ::
  "ext \<Rightarrow> 'o objects \<Rightarrow> ('c, 'o) GroupService \<Rightarrow> string \<Rightarrow> observed \<Rightarrow> ResourceTags \<Rightarrow> (gvk \<Rightarrow> bool) \<Rightarrow> 'o gomap \<Rightarrow>
   string \<Rightarrow> desired_composed res" where
  "entry_of X A G ws observed rt S gen n =
     (case map_of gen n of
        None \<Rightarrow> Inl (Error ''not generated'')
      | Some ob \<Rightarrow> composed_entry X A G ws observed rt (S (gvk_of A ob)) n ob)"

fun ok_of :: "'a res \<Rightarrow> 'a option" where
  "ok_of (Inr x) = Some x" | "ok_of (Inl e) = None"

lemma entry_ready:
  "entry_of X A G ws observed rt S gen n = Inr e \<Longrightarrow> observed_ready X G observed n = Inr (dc_ready e)"
  by (auto simp: entry_of_def composed_entry_def Let_def res_simps split: option.splits if_splits)

section \<open>The plan\<close>

definition wanted :: "observed \<Rightarrow> 'o gomap \<Rightarrow> bool \<Rightarrow> string \<Rightarrow> bool" where
  "wanted observed gen previous n \<longleftrightarrow> map_of gen n \<noteq> None \<and> (map_of observed n \<noteq> None \<or> previous)"

definition ready_now :: "ext \<Rightarrow> ('c, 'o) GroupService \<Rightarrow> observed \<Rightarrow> 'o gomap \<Rightarrow> string \<Rightarrow> bool" where
  "ready_now X G observed gen n \<longleftrightarrow> map_of gen n = None \<or> observed_ready X G observed n = Inr ReadyTrue"

definition step_ready :: "ext \<Rightarrow> ('c, 'o) GroupService \<Rightarrow> observed \<Rightarrow> 'o gomap \<Rightarrow> string list \<Rightarrow> bool" where
  "step_ready X G observed gen names \<longleftrightarrow> (\<forall>n \<in> set names. ready_now X G observed gen n)"

fun admitted ::
  "ext \<Rightarrow> ('c, 'o) GroupService \<Rightarrow> observed \<Rightarrow> 'o gomap \<Rightarrow> bool \<Rightarrow> string list list \<Rightarrow> string \<Rightarrow> bool" where
  "admitted X G observed gen previous [] n = False"
| "admitted X G observed gen previous (names # rest) n =
     (n \<in> set names \<and> wanted observed gen previous n \<or>
      admitted X G observed gen (step_ready X G observed gen names) rest n)"

text \<open>The names of the steps, in order, once every pattern compiles.\<close>

fun step_names :: "bool \<Rightarrow> 'o gomap \<Rightarrow> Step list \<Rightarrow> string list list res" where
  "step_names isRegex gen [] = Inr []"
| "step_names isRegex gen (s # ss) =
     bindr (wrapf ''cannot get step resource names'' (getStepResourceNames s isRegex gen)) (\<lambda>current.
     bindr (step_names isRegex gen ss) (\<lambda>rest. Inr (map fst current # rest)))"

definition sequence_names :: "('c, 'o) GroupService \<Rightarrow> 'c \<Rightarrow> 'o gomap \<Rightarrow> string list list res" where
  "sequence_names G obj gen = step_names (seq_regex (GetSequence G obj)) gen (seq_steps (GetSequence G obj))"

definition planned ::
  "ext \<Rightarrow> ('c, 'o) GroupService \<Rightarrow> observed \<Rightarrow> 'o gomap \<Rightarrow> string list list \<Rightarrow> string \<Rightarrow> bool" where
  "planned X G observed gen names n \<longleftrightarrow>
     map_of gen n \<noteq> None \<and> (n \<notin> set (concat names) \<or> admitted X G observed gen True names n)"

section \<open>Positions in the plan\<close>

lemma admitted_iff:
  "admitted X G observed gen previous names n \<longleftrightarrow>
     (\<exists>i < length names. n \<in> set (names ! i) \<and>
        wanted observed gen (if i = 0 then previous else step_ready X G observed gen (names ! (i - 1))) n)"
proof (induction names arbitrary: previous)
  case Nil
  then show ?case by simp
next
  case (Cons ns names)
  show ?case
    by (subst Ex_less_Suc2 [of "length names", folded length_Cons [of ns]])
      (auto simp: Cons.IH nth_Cons' gr0_conv_Suc split: if_splits)
qed

lemma admitted_observed:
  "n \<in> set (concat names) \<Longrightarrow> map_of gen n \<noteq> None \<Longrightarrow> map_of observed n \<noteq> None \<Longrightarrow>
   admitted X G observed gen previous names n"
  by (induction names arbitrary: previous) (auto simp: wanted_def)

lemma planned_observed:
  "map_of gen n \<noteq> None \<Longrightarrow> map_of observed n \<noteq> None \<Longrightarrow> planned X G observed gen names n"
  by (cases "n \<in> set (concat names)") (simp_all add: planned_def admitted_observed del: set_concat)

section \<open>The loops compute the plan\<close>

definition all_true :: "'a Set \<Rightarrow> bool" where
  "all_true s \<longleftrightarrow> (\<forall>x \<in> elems s. map_of s x = Some True)"

lemma all_true_simps [simp]: "all_true []" "all_true s \<Longrightarrow> all_true (gset x True s)"
  by (auto simp: all_true_def) (simp add: elems_def)

lemma all_true_iff: "all_true s \<Longrightarrow> map_of s x = Some True \<longleftrightarrow> x \<in> elems s"
  unfolding all_true_def elems_def by (metis fst_conv image_eqI map_of_SomeD)

lemma step_loop_placed:
  "map_of gen n = Some ob \<Longrightarrow> \<not> (map_of observed n = None \<and> \<not> previous) \<Longrightarrow>
   step_loop X A G ws observed rt gen previous (n # names) (d, p, b) =
     bindc (wrapc (step_context n) (addDesiredResource X A G ws observed rt d n ob)) (\<lambda>d.
       step_loop X A G ws observed rt gen previous names
         (d, gset n True p, b \<and> map_option dc_ready (map_of d n) = Some ReadyTrue))"
  by (auto simp: Let_def)

text \<open>The state after placing some names of a step, or the failure of one of them.\<close>

definition step_post ::
  "ext \<Rightarrow> ('c, 'o) GroupService \<Rightarrow> observed \<Rightarrow> 'o gomap \<Rightarrow> (string \<Rightarrow> desired_composed res) \<Rightarrow> bool \<Rightarrow> string list \<Rightarrow>
   desired \<times> string Set \<times> bool \<Rightarrow> (desired \<times> string Set \<times> bool) res \<Rightarrow> bool" where
  "step_post X G observed gen E previous names st r \<longleftrightarrow>
     (case (st, r) of
        ((d, p, b), Inl e) \<Rightarrow> (\<exists>n \<in> set names. wanted observed gen previous n \<and> \<not> is_ok (E n))
      | ((d, p, b), Inr (d', p', b')) \<Rightarrow>
          (\<forall>n \<in> set names. wanted observed gen previous n \<longrightarrow> is_ok (E n)) \<and>
          (\<forall>n. map_of d' n = (if n \<in> set names \<and> wanted observed gen previous n then ok_of (E n) else map_of d n)) \<and>
          (wf_map d \<longrightarrow> wf_map d') \<and> all_true p' \<and>
          elems p' = elems p \<union> {n \<in> set names. map_of gen n \<noteq> None} \<and>
          b' = (b \<and> step_ready X G observed gen names))"

lemma step_loop_yields:
  assumes sup: "support_by_kind X A S gen"
  shows "all_true p \<Longrightarrow> \<exists>r. yields S (step_loop X A G ws observed rt gen previous names (d, p, b)) r \<and>
    step_post X G observed gen (entry_of X A G ws observed rt S gen) previous names (d, p, b) r"
proof (induction names arbitrary: d p b)
  case Nil
  then show ?case
    by (intro exI [of _ "Inr (d, p, b)"]) (simp add: step_post_def step_ready_def)
next
  case (Cons n names)
  let ?E = "entry_of X A G ws observed rt S gen"
  show ?case
  proof (cases "map_of gen n")
    case None
    from Cons.IH [OF Cons.prems] obtain r
      where "yields S (step_loop X A G ws observed rt gen previous names (d, p, b)) r"
        and "step_post X G observed gen ?E previous names (d, p, b) r" by blast
    with None show ?thesis
      by (intro exI [of _ r]) (auto simp: step_post_def wanted_def step_ready_def ready_now_def split: sum.splits)
  next
    case (Some ob)
    have p: "all_true (gset n True p)" using Cons.prems by simp
    show ?thesis
    proof (cases "map_of observed n = None \<and> \<not> previous")
      case True
      from Cons.IH [OF p] obtain r
        where "yields S (step_loop X A G ws observed rt gen previous names (d, gset n True p, False)) r"
          and "step_post X G observed gen ?E previous names (d, gset n True p, False) r" by blast
      with Some True show ?thesis
        by (intro exI [of _ r])
          (auto simp: step_post_def wanted_def step_ready_def ready_now_def observed_ready_def split: sum.splits)
    next
      case False
      let ?add = "wrapc (step_context n) (addDesiredResource X A G ws observed rt d n ob)"
      have En: "?E n = composed_entry X A G ws observed rt (S (gvk_of A ob)) n ob"
        by (simp add: entry_of_def Some)
      have y: "yields S ?add (wrapf (step_context n) (bindr (?E n) (\<lambda>e. Inr (gset n e d))))"
        unfolding En by (intro yields_wrap addDesiredResource_yields support_by_kindD [OF sup Some])
      have w: "wanted observed gen previous n" using False Some by (auto simp: wanted_def)
      show ?thesis
      proof (cases "?E n")
        case (Inl e)
        obtain e' where "wrapf (step_context n) (Inl e :: desired res) = Inl e'"
          by (cases e) auto
        with y Inl have "yields S ?add (Inl e')" by simp
        then have "yields S (step_loop X A G ws observed rt gen previous (n # names) (d, p, b)) (Inl e')"
          unfolding step_loop_placed [OF Some False] by (rule yields_bind_err)
        then show ?thesis
          using w Inl by (intro exI [of _ "Inl e'"]) (auto simp: step_post_def)
      next
        case (Inr e)
        with y have y': "yields S ?add (Inr (gset n e d))" by simp
        let ?b = "b \<and> dc_ready e = ReadyTrue"
        from Cons.IH [OF p] obtain r
          where r: "yields S (step_loop X A G ws observed rt gen previous names (gset n e d, gset n True p, ?b)) r"
            and post: "step_post X G observed gen ?E previous names (gset n e d, gset n True p, ?b) r" by blast
        have "yields S (step_loop X A G ws observed rt gen previous (n # names) (d, p, b)) r"
          unfolding step_loop_placed [OF Some False] by (rule yields_bind_ok [OF y']) (use r in simp)
        moreover have "observed_ready X G observed n = Inr (dc_ready e)" using Inr by (rule entry_ready)
        ultimately show ?thesis
          using post w Inr Some
          by (intro exI [of _ r])
            (auto simp: step_post_def step_ready_def ready_now_def split: sum.splits)
      qed
    qed
  qed
qed

text \<open>The same for the steps of a sequence and for what they leave over.\<close>

definition steps_post ::
  "('c, 'o) GroupService \<Rightarrow> (string \<Rightarrow> desired_composed res) \<Rightarrow> (string \<Rightarrow> bool) \<Rightarrow> string set \<Rightarrow>
   desired \<times> string Set \<Rightarrow> (desired \<times> string Set) res \<Rightarrow> bool" where
  "steps_post G E placed seen st r \<longleftrightarrow>
     (case r of
        Inl e \<Rightarrow> (\<exists>n. placed n \<and> \<not> is_ok (E n))
      | Inr (d', p') \<Rightarrow>
          (\<forall>n. placed n \<longrightarrow> is_ok (E n)) \<and>
          (\<forall>n. map_of d' n = (if placed n then ok_of (E n) else map_of (fst st) n)) \<and>
          (wf_map (fst st) \<longrightarrow> wf_map d') \<and> all_true p' \<and> elems p' = elems (snd st) \<union> seen)"

lemma iteration_set [simp]: "iteration ord \<Longrightarrow> set (ord i xs) = set xs"
  unfolding iteration_def by (metis set_mset_mset)

lemma step_post_set:
  "set names = set names' \<Longrightarrow> step_post X G observed gen E previous names st r =
     step_post X G observed gen E previous names' st r"
  unfolding step_post_def step_ready_def by presburger

lemma steps_post_Cons:
  assumes one: "step_post X G observed gen E previous cur (d, p, True) (Inr (d1, p1, b1))"
    and rest: "steps_post G E (admitted X G observed gen b1 names) {n \<in> set (concat names). map_of gen n \<noteq> None}
      (d1, p1) r"
  shows "steps_post G E (admitted X G observed gen previous (cur # names))
    {n \<in> set (concat (cur # names)). map_of gen n \<noteq> None} (d, p) r"
proof (cases r)
  case (Inl e)
  from one have "b1 = step_ready X G observed gen cur" by (simp add: step_post_def)
  with rest Inl show ?thesis by (auto simp: steps_post_def)
next
  case (Inr st)
  obtain d' p' where st: "r = Inr (d', p')" using Inr by (cases st) simp
  have b1: "b1 = step_ready X G observed gen cur"
    and ok1: "n \<in> set cur \<Longrightarrow> wanted observed gen previous n \<Longrightarrow> is_ok (E n)"
    and m1: "map_of d1 n = (if n \<in> set cur \<and> wanted observed gen previous n then ok_of (E n) else map_of d n)"
    and w1: "wf_map d \<longrightarrow> wf_map d1"
    and p1: "elems p1 = elems p \<union> {n \<in> set cur. map_of gen n \<noteq> None}" for n
    using one by (auto simp: step_post_def)
  have ok2: "admitted X G observed gen b1 names n \<Longrightarrow> is_ok (E n)"
    and m2: "map_of d' n = (if admitted X G observed gen b1 names n then ok_of (E n) else map_of d1 n)"
    and w2: "wf_map d1 \<longrightarrow> wf_map d'" "all_true p'"
    and p2: "elems p' = elems p1 \<union> {n \<in> set (concat names). map_of gen n \<noteq> None}" for n
    using rest st by (auto simp: steps_post_def)
  have "elems p' = elems p \<union> {n \<in> set (concat (cur # names)). map_of gen n \<noteq> None}"
    unfolding p1 p2 by auto
  then show ?thesis
    unfolding steps_post_def st using b1 ok1 m1 w1 ok2 m2 w2 by simp
qed

lemma steps_loop_yields:
  assumes sup: "support_by_kind X A S gen" and ord: "iteration ord"
  shows "all_true p \<Longrightarrow>
    \<exists>r. yields S (steps_loop X A G ws observed rt gen ord isRegex i previous steps (d, p)) r \<and>
      (case step_names isRegex gen steps of
         Inl e \<Rightarrow> \<not> is_ok r
       | Inr names \<Rightarrow> steps_post G (entry_of X A G ws observed rt S gen) (admitted X G observed gen previous names)
           {n \<in> set (concat names). map_of gen n \<noteq> None} (d, p) r)"
proof (induction steps arbitrary: i previous d p)
  case Nil
  then show ?case by (intro exI [of _ "Inr (d, p)"]) (simp add: steps_post_def)
next
  case (Cons s steps)
  let ?E = "entry_of X A G ws observed rt S gen"
  let ?cur = "wrapf ''cannot get step resource names'' (getStepResourceNames s isRegex gen)"
  show ?case
  proof (cases ?cur)
    case (Inl e)
    then have "yields S (steps_loop X A G ws observed rt gen ord isRegex i previous (s # steps) (d, p)) (Inl e)"
      by (simp add: yields_bind_err)
    with Inl show ?thesis by (intro exI [of _ "Inl e"]) simp
  next
    case (Inr cur)
    from step_loop_yields [OF sup Cons.prems] obtain r1
      where y1: "yields S (step_loop X A G ws observed rt gen previous (ord i (map fst cur)) (d, p, True)) r1"
        and "step_post X G observed gen ?E previous (ord i (map fst cur)) (d, p, True) r1"
      by blast
    then have post1: "step_post X G observed gen ?E previous (map fst cur) (d, p, True) r1"
      using ord by (subst step_post_set [of _ "ord i (map fst cur)"]) simp_all
    show ?thesis
    proof (cases r1)
      case (Inl e)
      then have "yields S (steps_loop X A G ws observed rt gen ord isRegex i previous (s # steps) (d, p)) (Inl e)"
        using y1 \<open>?cur = Inr cur\<close> by (simp add: yields_bind_err)
      with Inl post1 \<open>?cur = Inr cur\<close> show ?thesis
        by (intro exI [of _ "Inl e"], cases "step_names isRegex gen steps")
          (fastforce simp: step_post_def steps_post_def)+
    next
      case (Inr st)
      obtain d1 p1 b1 where st: "st = (d1, p1, b1)" by (cases st)
      with post1 Inr have p1: "all_true p1" by (simp add: step_post_def)
      have b1: "b1 = step_ready X G observed gen (map fst cur)" using post1 Inr st by (simp add: step_post_def)
      from Cons.IH [OF p1] obtain r where
        y: "yields S (steps_loop X A G ws observed rt gen ord isRegex (Suc i) b1 steps (d1, p1)) r"
        and post: "case step_names isRegex gen steps of
         Inl e \<Rightarrow> \<not> is_ok r
       | Inr names \<Rightarrow> steps_post G ?E (admitted X G observed gen b1 names)
           {n \<in> set (concat names). map_of gen n \<noteq> None} (d1, p1) r" by blast
      from y y1 Inr st \<open>?cur = Inr cur\<close>
      have "yields S (steps_loop X A G ws observed rt gen ord isRegex i previous (s # steps) (d, p)) r"
        by (auto intro!: yields_bind_ok [where x = "(d1, p1, b1)"])
      moreover have "case step_names isRegex gen (s # steps) of
         Inl e \<Rightarrow> \<not> is_ok r
       | Inr names \<Rightarrow> steps_post G ?E (admitted X G observed gen previous names)
           {n \<in> set (concat names). map_of gen n \<noteq> None} (d, p) r"
        using post steps_post_Cons [OF post1 [unfolded Inr st]] \<open>?cur = Inr cur\<close>
        by (cases "step_names isRegex gen steps") (simp_all del: set_concat concat.simps admitted.simps)
      ultimately show ?thesis by blast
    qed
  qed
qed

lemma rest_loop_placed:
  "map_of gen n = Some ob \<Longrightarrow> map_of processed n \<noteq> Some True \<Longrightarrow>
   rest_loop X A G ws observed rt gen processed (n # names) d =
     bindc (wrapc (rest_context n) (addDesiredResource X A G ws observed rt d n ob))
       (rest_loop X A G ws observed rt gen processed names)"
  by simp

lemma rest_loop_yields:
  assumes sup: "support_by_kind X A S gen" and p: "all_true p"
  shows "\<exists>r. yields S (rest_loop X A G ws observed rt gen p names d) r \<and>
    (case r of
       Inl e \<Rightarrow> \<exists>n \<in> set names. map_of gen n \<noteq> None \<and> n \<notin> elems p \<and>
                  \<not> is_ok (entry_of X A G ws observed rt S gen n)
     | Inr d' \<Rightarrow>
         (\<forall>n \<in> set names. map_of gen n \<noteq> None \<longrightarrow> n \<notin> elems p \<longrightarrow>
            is_ok (entry_of X A G ws observed rt S gen n)) \<and>
         (\<forall>n. map_of d' n =
            (if n \<in> set names \<and> map_of gen n \<noteq> None \<and> n \<notin> elems p
             then ok_of (entry_of X A G ws observed rt S gen n) else map_of d n)) \<and>
         (wf_map d \<longrightarrow> wf_map d'))"
proof (induction names arbitrary: d)
  case Nil
  then show ?case by (intro exI [of _ "Inr d"]) simp
next
  case (Cons n names)
  let ?E = "entry_of X A G ws observed rt S gen"
  show ?case
  proof (cases "map_of gen n = None \<or> n \<in> elems p")
    case True
    then have "rest_loop X A G ws observed rt gen p (n # names) d = rest_loop X A G ws observed rt gen p names d"
      using all_true_iff [OF p, of n] by (auto split: option.splits)
    with Cons.IH [of d] True show ?thesis
      by (elim exE, intro exI, elim conjE, intro conjI, simp, fastforce split: sum.splits)
  next
    case False
    then obtain ob where ob: "map_of gen n = Some ob" and np: "map_of p n \<noteq> Some True"
      using all_true_iff [OF p, of n] by auto
    have En: "?E n = composed_entry X A G ws observed rt (S (gvk_of A ob)) n ob"
      by (simp add: entry_of_def ob)
    let ?add = "wrapc (rest_context n) (addDesiredResource X A G ws observed rt d n ob)"
    have y: "yields S ?add (wrapf (rest_context n) (bindr (?E n) (\<lambda>e. Inr (gset n e d))))"
      unfolding En by (intro yields_wrap addDesiredResource_yields support_by_kindD [OF sup ob])
    show ?thesis
    proof (cases "?E n")
      case (Inl e)
      obtain e' where "wrapf (rest_context n) (Inl e :: desired res) = Inl e'"
        by (cases e) auto
      with y Inl have "yields S ?add (Inl e')" by simp
      then have "yields S (rest_loop X A G ws observed rt gen p (n # names) d) (Inl e')"
        unfolding rest_loop_placed [OF ob np] by (rule yields_bind_err)
      then show ?thesis using Inl False by (intro exI [of _ "Inl e'"]) auto
    next
      case (Inr e)
      with y have y': "yields S ?add (Inr (gset n e d))" by simp
      from Cons.IH [of "gset n e d"] obtain r
        where r: "yields S (rest_loop X A G ws observed rt gen p names (gset n e d)) r" 
          and post: "case r of
       Inl e \<Rightarrow> \<exists>n \<in> set names. map_of gen n \<noteq> None \<and> n \<notin> elems p \<and> \<not> is_ok (?E n)
     | Inr d' \<Rightarrow>
         (\<forall>n \<in> set names. map_of gen n \<noteq> None \<longrightarrow> n \<notin> elems p \<longrightarrow> is_ok (?E n)) \<and>
         (\<forall>m. map_of d' m =
            (if m \<in> set names \<and> map_of gen m \<noteq> None \<and> m \<notin> elems p
             then ok_of (?E m) else map_of (gset n e d) m)) \<and>
         (wf_map (gset n e d) \<longrightarrow> wf_map d')" by blast
      have "yields S (rest_loop X A G ws observed rt gen p (n # names) d) r"
        unfolding rest_loop_placed [OF ob np] by (rule yields_bind_ok [OF y']) (rule r)
      with post Inr False ob show ?thesis
        by (intro exI [of _ r]) (auto split: sum.splits)
    qed
  qed
qed

text \<open>The placed map, or the reason why there is none.\<close>

definition place_post ::
  "ext \<Rightarrow> ('c, 'o) GroupService \<Rightarrow> 'c \<Rightarrow> observed \<Rightarrow> 'o gomap \<Rightarrow> (string \<Rightarrow> desired_composed res) \<Rightarrow>
   desired \<Rightarrow> desired res \<Rightarrow> bool" where
  "place_post X G obj observed gen E desired r \<longleftrightarrow>
     (case sequence_names G obj gen of
        Inl e \<Rightarrow> \<not> is_ok r
      | Inr names \<Rightarrow>
          (case r of
             Inl e \<Rightarrow> \<exists>n. planned X G observed gen names n \<and> \<not> is_ok (E n)
           | Inr d \<Rightarrow>
               (\<forall>n. planned X G observed gen names n \<longrightarrow> is_ok (E n)) \<and>
               (\<forall>n. map_of d n = (if planned X G observed gen names n then ok_of (E n) else map_of desired n)) \<and>
               (wf_map desired \<longrightarrow> wf_map d)))"

lemma admitted_generated:
  "admitted X G observed gen previous names n \<Longrightarrow> n \<in> set (concat names) \<and> map_of gen n \<noteq> None"
  by (induction names arbitrary: previous) (auto simp: wanted_def)

lemma planned_cases:
  "planned X G observed gen names n \<longleftrightarrow>
     admitted X G observed gen True names n \<or>
     n \<in> set (map fst gen) \<and> map_of gen n \<noteq> None \<and> n \<notin> {n \<in> set (concat names). map_of gen n \<noteq> None}"
  unfolding planned_def using admitted_generated [of X G observed gen True names n]
  by (auto simp: map_of_eq_None_iff simp del: set_concat)

lemma place_resources_yields:
  assumes sup: "support_by_kind X A S gen" and ord: "iteration ord"
  shows "\<exists>r. yields S (place_resources X A G ws ord obj observed desired gen rt) r \<and>
    place_post X G obj observed gen (entry_of X A G ws observed rt S gen) desired r"
proof -
  let ?E = "entry_of X A G ws observed rt S gen"
  let ?steps = "seq_steps (GetSequence G obj)"
  let ?run = "steps_loop X A G ws observed rt gen ord (seq_regex (GetSequence G obj)) 0 True ?steps (desired, [])"
  from steps_loop_yields [OF sup ord all_true_simps(1)] obtain r1
    where y1: "yields S ?run r1"
      and post1: "case sequence_names G obj gen of
         Inl e \<Rightarrow> \<not> is_ok r1
       | Inr names \<Rightarrow> steps_post G ?E (admitted X G observed gen True names)
           {n \<in> set (concat names). map_of gen n \<noteq> None} (desired, []) r1"
    unfolding sequence_names_def by blast
  have place: "place_resources X A G ws ord obj observed desired gen rt =
      bindc ?run (\<lambda>(d, p). rest_loop X A G ws observed rt gen p (ord (length ?steps) (map fst gen)) d)"
    by (simp add: place_resources_def addDesiredSequenceResources_def Let_def)
  show ?thesis
  proof (cases r1)
    case (Inl e)
    with y1 have "yields S (place_resources X A G ws ord obj observed desired gen rt) (Inl e)"
      unfolding place by (simp add: yields_bind_err)
    moreover have "place_post X G obj observed gen ?E desired (Inl e)"
      using post1 Inl
      by (auto simp: place_post_def steps_post_def planned_cases split: sum.splits simp del: set_concat)
    ultimately show ?thesis by blast
  next
    case (Inr st)
    obtain d1 p1 where st: "r1 = Inr (d1, p1)" using Inr by (cases st) simp
    with post1 obtain names where names: "sequence_names G obj gen = Inr names"
      by (auto split: sum.splits)
    let ?seen = "{n \<in> set (concat names). map_of gen n \<noteq> None}"
    from post1 names st have s: "steps_post G ?E (admitted X G observed gen True names) ?seen (desired, []) (Inr (d1, p1))"
      by (simp del: set_concat)
    then have p1: "all_true p1" "elems p1 = ?seen"
      by (simp_all add: steps_post_def elems_def del: set_concat)
    have ok1: "admitted X G observed gen True names n \<Longrightarrow> is_ok (?E n)"
      and m1: "map_of d1 n = (if admitted X G observed gen True names n then ok_of (?E n) else map_of desired n)"
      and w1: "wf_map desired \<longrightarrow> wf_map d1" for n
      using s by (simp_all add: steps_post_def del: set_concat)
    let ?rest = "\<lambda>n. n \<in> set (map fst gen) \<and> map_of gen n \<noteq> None \<and> n \<notin> ?seen"
    let ?names = "ord (length ?steps) (map fst gen)"
    from rest_loop_yields [OF sup p1(1)]
    obtain r where y: "yields S (rest_loop X A G ws observed rt gen p1 ?names d1) r"
      and post0: "case r of
         Inl e \<Rightarrow> \<exists>n \<in> set ?names. map_of gen n \<noteq> None \<and> n \<notin> elems p1 \<and> \<not> is_ok (?E n)
       | Inr d \<Rightarrow>
           (\<forall>n \<in> set ?names. map_of gen n \<noteq> None \<longrightarrow> n \<notin> elems p1 \<longrightarrow> is_ok (?E n)) \<and>
           (\<forall>n. map_of d n = (if n \<in> set ?names \<and> map_of gen n \<noteq> None \<and> n \<notin> elems p1 then ok_of (?E n) else map_of d1 n)) \<and>
           (wf_map d1 \<longrightarrow> wf_map d)"
      by blast
    have post: "case r of
         Inl e \<Rightarrow> \<exists>n. ?rest n \<and> \<not> is_ok (?E n)
       | Inr d \<Rightarrow> (\<forall>n. ?rest n \<longrightarrow> is_ok (?E n)) \<and>
           (\<forall>n. map_of d n = (if ?rest n then ok_of (?E n) else map_of d1 n)) \<and> (wf_map d1 \<longrightarrow> wf_map d)"
      using post0 unfolding p1(2) iteration_set [OF ord] by (cases r) (simp_all only: sum.case, blast+)
    from y1 y st have "yields S (place_resources X A G ws ord obj observed desired gen rt) r"
      unfolding place by (auto intro: yields_bind_ok [where x = "(d1, p1)"])
    moreover have "place_post X G obj observed gen ?E desired r"
    proof (cases r)
      case (Inl e)
      with post obtain n where "?rest n" and "\<not> is_ok (?E n)" unfolding Inl sum.case by blast
      with Inl show ?thesis
        unfolding place_post_def names planned_cases [of X G observed gen names] Inl sum.case by blast
    next
      case (Inr d)
      with post have ok2: "?rest n \<Longrightarrow> is_ok (?E n)"
        and m2: "map_of d n = (if ?rest n then ok_of (?E n) else map_of d1 n)"
        and w2: "wf_map d1 \<longrightarrow> wf_map d" for n
        by (simp_all only: sum.case, blast+)
      have "map_of d n = (if admitted X G observed gen True names n \<or> ?rest n then ok_of (?E n) else map_of desired n)" for n
        unfolding m2 m1 by auto
      then show ?thesis
        unfolding place_post_def names planned_cases [of X G observed gen names] Inr sum.case
        using ok1 ok2 w1 w2 by blast
    qed
    ultimately show ?thesis by blast
  qed
qed

text \<open>The refinement: what placing the generated resources leaves in the desired map.\<close>

lemma place_resources_post:
  assumes "support_by_kind X A S gen" and "iteration ord" and "cache_ok S c"
  shows "place_post X G obj observed gen (entry_of X A G ws observed rt S gen) desired
    (fst (place_resources X A G ws ord obj observed desired gen rt c))"
  using place_resources_yields [OF assms(1,2), of G ws obj observed desired rt] yields_fst [OF _ assms(3)] by metis

lemma place_postE:
  assumes "place_post X G obj observed gen E desired (Inr d)"
  obtains names where "sequence_names G obj gen = Inr names"
    and "\<And>n. planned X G observed gen names n \<Longrightarrow> is_ok (E n)"
    and "\<And>n. map_of d n = (if planned X G observed gen names n then ok_of (E n) else map_of desired n)"
    and "wf_map desired \<Longrightarrow> wf_map d"
proof (cases "sequence_names G obj gen")
  case (Inr names)
  show thesis by (rule that [OF Inr]) (use assms Inr in \<open>simp_all add: place_post_def\<close>)
qed (use assms in \<open>simp add: place_post_def\<close>)

lemma step_readyD:
  "step_ready X G observed gen names \<Longrightarrow> n \<in> set names \<Longrightarrow> map_of gen n \<noteq> None \<Longrightarrow>
   \<exists>oc ob. map_of observed n = Some oc \<and> oc_resource oc = Some ob \<and> getReadyStatus X G ob = ReadyTrue"
  by (auto simp: step_ready_def ready_now_def observed_ready_def res_simps split: option.splits)

text \<open>Where a planned resource that is not observed stands in the sequence.\<close>

lemma planned_position:
  assumes "planned X G observed gen names n" and "map_of observed n = None"
  shows "n \<notin> set (concat names) \<or> n \<in> set (names ! 0) \<or>
    (\<exists>i. Suc i < length names \<and> n \<in> set (names ! Suc i) \<and> step_ready X G observed gen (names ! i))"
proof -
  have "(\<exists>i < length names. n \<in> set (names ! i) \<and>
      wanted observed gen (if i = 0 then True else step_ready X G observed gen (names ! (i - 1))) n) \<Longrightarrow>
    n \<in> set (names ! 0) \<or> (\<exists>i. Suc i < length names \<and> n \<in> set (names ! Suc i) \<and> step_ready X G observed gen (names ! i))"
    using assms(2) unfolding wanted_def by (metis Suc_pred' neq0_conv)
  with assms(1) show ?thesis unfolding planned_def admitted_iff by blast
qed

text \<open>The gate of a sequence, for the resources a run adds.\<close>

lemma added_resource_position:
  assumes "support_by_kind X A S gen" and "iteration ord" and "cache_ok S c"
    and "fst (place_resources X A G ws ord obj observed desired gen rt c) = Inr d"
    and "sequence_names G obj gen = Inr names"
    and "map_of observed n = None" and "map_of d n \<noteq> map_of desired n"
  shows "n \<notin> set (concat names) \<or> n \<in> set (names ! 0) \<or>
    (\<exists>i. Suc i < length names \<and> n \<in> set (names ! Suc i) \<and> step_ready X G observed gen (names ! i))"
proof -
  have "planned X G observed gen names n"
    using place_resources_post [OF assms(1-3), of G obj observed ws rt desired] assms(4-7)
    by (auto elim!: place_postE split: if_splits)
  from planned_position [OF this assms(6)] show ?thesis .
qed

text \<open>A generated member of a step after a ready one is planned.\<close>

lemma planned_after_ready:
  assumes "map_of gen n \<noteq> None" and "Suc i < length names" and "n \<in> set (names ! Suc i)"
    and "step_ready X G observed gen (names ! i)"
  shows "planned X G observed gen names n"
proof -
  have "wanted observed gen (step_ready X G observed gen (names ! i)) n" using assms by (simp add: wanted_def)
  with assms show ?thesis
    unfolding planned_def admitted_iff by (intro conjI disjI2 exI [of _ "Suc i"]) auto
qed

end
