(* ===== verification/Base_Laws.thy ===== *)
theory Base_Laws
  imports Base_Plan
begin

text \<open>
  What one desired entry holds: the labels and tags that \<open>injectZone\<close> leaves in the object, where the
  tenancy zone comes from, and the demonstration group on which concrete runs are evaluated.
\<close>

section \<open>Labels and tags of a placed object\<close>

lemma zone_labels_wf [simp]: "wf_map l \<Longrightarrow> wf_map (zone_labels ws rt l)"
  by (simp add: zone_labels_def Let_def)

lemma zone_labels_lookup:
  assumes "wf_map (rt_labels rt)"
  shows "map_of (zone_labels ws rt l) k =
    (if k = TenancyWorkspaceLabel \<and> ws \<noteq> '''' then Some ws
     else if k = TenancyZoneLabel \<and> rt_zone rt \<noteq> '''' then Some (rt_zone rt)
     else case map_of (rt_labels rt) k of Some v \<Rightarrow> Some v | None \<Rightarrow> map_of l k)"
  using assms by (auto simp: zone_labels_def Let_def map_of_gcopy_apply split: option.splits)

lemma zone_tags_wf [simp]: "wf_map t \<Longrightarrow> wf_map (zone_tags ws rt t)"
  by (simp add: zone_tags_def Let_def)

lemma zone_tags_lookup:
  assumes "wf_map (rt_tags rt)"
  shows "map_of (zone_tags ws rt t) k =
    (if k = TenancyWorkspaceAWSTag \<and> ws \<noteq> '''' then Some (JStr ws)
     else if k = TenancyZoneAWSTag \<and> rt_zone rt \<noteq> '''' then Some (JStr (rt_zone rt))
     else case map_of (rt_tags rt) k of Some v \<Rightarrow> Some (JStr v) | None \<Rightarrow> map_of t k)"
  using assms by (auto simp: zone_tags_def Let_def map_of_gcopy_apply split: option.splits)

text \<open>The tags that were in the object before: none when the path is absent.\<close>

definition tags_before :: "ext \<Rightarrow> object \<Rightarrow> object" where
  "tags_before X u = (case nested_map X u tags_path of Inr (Some m) \<Rightarrow> m | _ \<Rightarrow> [])"

context object_access
begin

lemma inject_tags_ok:
  assumes "inject_tags X ws rt u = Inr u'"
  shows "get_labels X u' = get_labels X u"
    and "u' = u \<and> (\<exists>e. nested_map X u tags_path = Inl (Error e)) \<or>
       nested_map X u' tags_path = Inr (Some (zone_tags ws rt (tags_before X u))) \<and>
       length (zone_tags ws rt (tags_before X u)) \<le> AWSTagsLimit"
proof -
  have "u' = u \<and> (\<exists>e. nested_map X u tags_path = Inl (Error e)) \<or>
    set_nested_map X u (zone_tags ws rt (tags_before X u)) tags_path = Inr u' \<and>
    length (zone_tags ws rt (tags_before X u)) \<le> AWSTagsLimit"
    using assms unfolding inject_tags_def
    by (cases "nested_map X u tags_path")
      (auto simp: tags_before_def Let_def res_simps split: failure.splits option.splits if_splits)
  then show "get_labels X u' = get_labels X u"
    and "u' = u \<and> (\<exists>e. nested_map X u tags_path = Inl (Error e)) \<or>
       nested_map X u' tags_path = Inr (Some (zone_tags ws rt (tags_before X u))) \<and>
       length (zone_tags ws rt (tags_before X u)) \<le> AWSTagsLimit"
    using nested_labels [of u "zone_tags ws rt (tags_before X u)" "''spec''"] nested_set
    by (auto simp: tags_path_def)
qed

text \<open>The object of an entry, when its conversion gave \<open>u\<close>.\<close>

lemma composed_entry_ok:
  assumes "composed_entry X A G ws observed rt supported n ob = Inr e"
  obtains u where "to_unstructured A ob = Inr u"
    and "observed_ready X G observed n = Inr (dc_ready e)"
    and "map_of (get_labels X (dc_resource e)) = map_of (zone_labels ws rt (get_labels X u))"
    and "\<not> supported \<Longrightarrow> dc_resource e = set_labels X u (zone_labels ws rt (get_labels X u))"
    and "supported \<Longrightarrow> (\<exists>err. nested_map X u tags_path = Inl (Error err)) \<or>
      nested_map X (dc_resource e) tags_path = Inr (Some (zone_tags ws rt (tags_before X u))) \<and>
      length (zone_tags ws rt (tags_before X u)) \<le> AWSTagsLimit"
proof -
  from assms obtain u where u: "to_unstructured A ob = Inr u"
    and r: "observed_ready X G observed n = Inr (dc_ready e)"
    and i: "(if \<not> supported then Inr (set_labels X u (zone_labels ws rt (get_labels X u)))
       else inject_tags X ws rt (set_labels X u (zone_labels ws rt (get_labels X u)))) = Inr (dc_resource e)"
    by (auto simp: composed_entry_def Let_def res_simps)
  let ?v = "set_labels X u (zone_labels ws rt (get_labels X u))"
  have f: "nested_map X ?v tags_path = nested_map X u tags_path" by (simp add: tags_path_def labels_frame)
  then have b: "tags_before X ?v = tags_before X u" by (simp add: tags_before_def)
  have l: "map_of (get_labels X ?v) = map_of (zone_labels ws rt (get_labels X u))"
    by (simp add: labels_set labels_wf)
  show thesis
  proof (cases supported)
    case True
    with i have "inject_tags X ws rt ?v = Inr (dc_resource e)" by simp
    from inject_tags_ok [OF this] l b f True show thesis by (intro that [OF u r]) auto
  next
    case False
    with i l show thesis by (intro that [OF u r]) auto
  qed
qed

end

section \<open>The source of the zone\<close>

text \<open>Tags and labels of the fetched zone object; none when it was not fetched.\<close>

definition zone_object_tags :: "ext \<Rightarrow> required \<Rightarrow> string gomap" where
  "zone_object_tags X required = (case fetched_zone required of None \<Rightarrow> [] | Some z \<Rightarrow> GetObjectTags X z)"

definition zone_object_labels :: "ext \<Rightarrow> required \<Rightarrow> string gomap" where
  "zone_object_labels X required =
     (case fetched_zone required of None \<Rightarrow> [] | Some z \<Rightarrow> extractLabels (get_labels X z))"

lemma zone_object_wf [simp]: "wf_map (zone_object_tags X required)" "wf_map (zone_object_labels X required)"
  by (auto simp: zone_object_tags_def zone_object_labels_def split: option.splits)

lemma GetResourceTags_eq:
  "GetResourceTags X composite required =
     bindr (GetTenancyZone X required) (\<lambda>zone.
       if zone = '''' then
         Inr \<lparr>rt_zone = '''', rt_tags = GetObjectTags X composite, rt_labels = extractLabels (get_labels X composite)\<rparr>
       else bindr (getZoneEnvironmentTags X ZoneEnvKey required) (\<lambda>env.
         Inr \<lparr>rt_zone = zone,
              rt_tags = gcopy (gcopy env (zone_object_tags X required)) (GetObjectTags X composite),
              rt_labels = gcopy (zone_object_labels X required) (extractLabels (get_labels X composite))\<rparr>))"
  unfolding GetResourceTags_def
  by (rule arg_cong [where f = "bindr (GetTenancyZone X required)"], rule ext, rule if_cong)
    (auto simp: getObjectTagsLabels_eq zone_object_tags_def zone_object_labels_def fun_eq_iff
      intro!: arg_cong [where f = "bindr (getZoneEnvironmentTags X ZoneEnvKey required)"] split: option.splits)

lemma GetResourceTags_zone: "GetResourceTags X composite required = Inr rt \<Longrightarrow> GetTenancyZone X required = Inr (rt_zone rt)"
  by (auto simp: GetResourceTags_eq res_simps split: if_splits)

context object_access
begin

lemma GetResourceTags_wf:
  "GetResourceTags X composite required = Inr rt \<Longrightarrow> wf_map (rt_tags rt) \<and> wf_map (rt_labels rt)"
  by (auto simp: GetResourceTags_eq res_simps getZoneEnvironmentTags_wf split: if_splits)

lemma zone_object_sources:
  "map_of (zone_object_tags X required) t =
     first_some (case fetched_zone required of None \<Rightarrow> [] | Some z \<Rightarrow> object_sources X z t)"
  by (simp add: zone_object_tags_def GetObjectTags_sources split: option.splits)

text \<open>The tag of a resource in a zone: the first of its sources.\<close>

lemma GetResourceTags_sources:
  assumes "GetResourceTags X composite required = Inr rt" and "rt_zone rt \<noteq> ''''"
    and "getZoneEnvironmentTags X ZoneEnvKey required = Inr env"
  shows "map_of (rt_tags rt) t =
    first_some (object_sources X composite t @
      (case fetched_zone required of None \<Rightarrow> [] | Some z \<Rightarrow> object_sources X z t) @ [map_of env t])"
proof -
  from assms have "rt_tags rt = gcopy (gcopy env (zone_object_tags X required)) (GetObjectTags X composite)"
    by (auto simp: GetResourceTags_eq res_simps split: if_splits)
  then show ?thesis
    by (cases "map_of env t")
      (simp_all add: map_of_gcopy_apply zone_object_sources first_some_append GetObjectTags_sources split: option.splits)
qed

end

section \<open>From a composite to the placement\<close>

lemma generate_desired_place:
  assumes "map_of (GetResourceHandlers G) (get_kind X composite) = Some h"
    and "h_decode h composite = Inr obj" and "h_generate h obj required observed = Inr gen"
    and "resource_tags_of X composite required = Inr rt"
  shows "generate_desired X A G ws ord composite required observed desired =
    place_resources X A G ws ord obj observed desired gen rt"
  using assms by (simp add: generate_desired_def)

lemma resource_tags_of_namespaced:
  "get_namespace X composite \<noteq> '''' \<Longrightarrow> resource_tags_of X composite required = GetResourceTags X composite required"
  by (simp add: resource_tags_of_def)

lemma generate_desired_ok:
  assumes "fst (generate_desired X A G ws ord composite required observed desired c) = Inr d"
  obtains h obj gen rt where "map_of (GetResourceHandlers G) (get_kind X composite) = Some h"
    and "h_decode h composite = Inr obj" and "h_generate h obj required observed = Inr gen"
    and "resource_tags_of X composite required = Inr rt"
    and "fst (place_resources X A G ws ord obj observed desired gen rt c) = Inr d"
  using assms unfolding generate_desired_def bindc_def liftc_def
  by (auto split: option.splits sum.splits)

context object_access
begin

text \<open>The labels and tags of a resource that a run placed.\<close>

lemma placed_labels_tags:
  assumes "support_by_kind X A S gen" and "iteration ord" and "cache_ok S c"
    and "fst (place_resources X A G ws ord obj observed desired gen rt c) = Inr d"
    and "map_of gen n = Some ob" and "map_of observed n \<noteq> None \<or> map_of d n \<noteq> map_of desired n"
  obtains e u where "map_of d n = Some e" and "to_unstructured A ob = Inr u"
    and "map_of (get_labels X (dc_resource e)) = map_of (zone_labels ws rt (get_labels X u))"
    and "\<And>t. S (gvk_of A ob) \<Longrightarrow> nested_map X u tags_path = Inr t \<Longrightarrow>
      nested_map X (dc_resource e) tags_path = Inr (Some (zone_tags ws rt (tags_before X u)))"
proof -
  from place_resources_post [OF assms(1-3), of G obj observed ws rt desired] obtain names
    where ok: "\<And>n. planned X G observed gen names n \<Longrightarrow> is_ok (entry_of X A G ws observed rt S gen n)"
      and m: "\<And>n. map_of d n = (if planned X G observed gen names n
        then ok_of (entry_of X A G ws observed rt S gen n) else map_of desired n)"
    unfolding assms(4) by (elim place_postE) blast
  have p: "planned X G observed gen names n"
    using assms(5,6) m [of n] planned_observed [of gen n observed] by (cases "planned X G observed gen names n") auto
  from ok [OF p] assms(5) obtain e where e: "composed_entry X A G ws observed rt (S (gvk_of A ob)) n ob = Inr e"
    by (auto simp: is_ok_iff entry_of_def)
  have d: "map_of d n = Some e" using m [of n] p e assms(5) by (simp add: entry_of_def)
  from composed_entry_ok [OF e] obtain u where u: "to_unstructured A ob = Inr u"
    and l: "map_of (get_labels X (dc_resource e)) = map_of (zone_labels ws rt (get_labels X u))"
    and t: "S (gvk_of A ob) \<Longrightarrow> (\<exists>err. nested_map X u tags_path = Inl (Error err)) \<or>
      nested_map X (dc_resource e) tags_path = Inr (Some (zone_tags ws rt (tags_before X u))) \<and>
      length (zone_tags ws rt (tags_before X u)) \<le> AWSTagsLimit" by blast
  from that [OF d u l] t show thesis by fastforce
qed

end

end
