(* ===== verification/Base_Service.thy ===== *)
theory Base_Service
  imports Base_Laws
begin

text \<open>
  The interface between base and the groups. \<open>group_service\<close> states what base relies on: a handler
  generates a map, the patterns of the sequence compile for composites with legal names, and observed
  statuses are maps, before and after the post-processor of a group that has one. Each group's
  theory interprets it on its own service.
\<close>

section \<open>Contributions to the status\<close>

definition contributes :: "('c, 'o) GroupService \<Rightarrow> observed \<Rightarrow> string \<Rightarrow> string \<Rightarrow> json \<Rightarrow> bool" where
  "contributes G observed n k v \<longleftrightarrow>
     (\<exists>oc ob st. map_of observed n = Some oc \<and> oc_resource oc = Some ob \<and>
        GetObservedStatus G ob = Inr st \<and> map_of st k = Some v)"

text \<open>A map with exactly the contributed keys, each with a value that one of the observed resources contributes.\<close>

definition collects :: "('c, 'o) GroupService \<Rightarrow> observed \<Rightarrow> object \<Rightarrow> bool" where
  "collects G observed status \<longleftrightarrow>
     (\<forall>k. if \<exists>n v. contributes G observed n k v then \<exists>n v. map_of status k = Some v \<and> contributes G observed n k v
          else map_of status k = None)"

lemma gcopy_if: "(if length st = 0 then status_loop G observed names status
    else status_loop G observed names (gcopy status st)) = status_loop G observed names (gcopy status st)"
  by (cases st) simp_all

lemma status_loop_Cons:
  "status_loop G observed (n # names) status = Inr out \<longleftrightarrow>
     (if map_of observed n = None then status_loop G observed names status = Inr out
      else \<exists>oc ob st. map_of observed n = Some oc \<and> oc_resource oc = Some ob \<and> GetObservedStatus G ob = Inr st \<and>
             status_loop G observed names (gcopy status st) = Inr out)"
  unfolding status_loop.simps gcopy_if by (auto simp: res_simps split: option.splits)

section \<open>Sequences that compile\<close>

definition pattern_ok :: "string \<Rightarrow> bool" where
  "pattern_ok p \<longleftrightarrow> is_ok (getPatternRegex p)"

lemma step_names_loop_ok:
  "(isRegex \<longrightarrow> (\<forall>p \<in> set ps. pattern_ok p)) \<Longrightarrow> is_ok (step_names_loop isRegex keys ps names)"
  by (induction ps arbitrary: names) (auto simp: pattern_ok_def is_ok_iff res_simps)

lemma step_names_ok:
  "(isRegex \<longrightarrow> (\<forall>s \<in> set steps. \<forall>p \<in> set (step_objects s). pattern_ok p)) \<Longrightarrow> is_ok (step_names isRegex gen steps)"
proof (induction steps)
  case (Cons s steps)
  then have "is_ok (getStepResourceNames s isRegex gen)"
    by (auto simp: getStepResourceNames_def intro: step_names_loop_ok)
  moreover have "is_ok (step_names isRegex gen steps)" using Cons by auto
  ultimately show ?case by (auto simp: is_ok_iff)
qed simp

lemma sequence_names_ok:
  assumes "seq_regex (GetSequence G obj) \<Longrightarrow>
      \<forall>s \<in> set (seq_steps (GetSequence G obj)). \<forall>p \<in> set (step_objects s). pattern_ok p"
  shows "\<exists>names. sequence_names G obj gen = Inr names"
  using step_names_ok [of "seq_regex (GetSequence G obj)" "seq_steps (GetSequence G obj)" gen] assms
  by (auto simp: sequence_names_def is_ok_iff)

text \<open>
  Names of Kubernetes objects, and of what the groups derive from them, are plain patterns: as a pattern
  such a name compiles, alone or followed by \<open>.*\<close>, and matches itself.
\<close>

definition plain_char :: "char \<Rightarrow> bool" where
  "plain_char c \<longleftrightarrow> \<not> meta c \<or> c = CHR ''.''"

definition plain :: "string \<Rightarrow> bool" where
  "plain p \<longleftrightarrow> (\<forall>c \<in> set p. plain_char c)"

lemma plain_simps [simp]: "plain []" "plain (c # p) \<longleftrightarrow> plain_char c \<and> plain p" "plain (p @ q) \<longleftrightarrow> plain p \<and> plain q"
  by (auto simp: plain_def)

lemma plain_char_not: "plain_char c \<Longrightarrow> c \<noteq> CHR ''^'' \<and> c \<noteq> CHR ''$'' \<and> c \<noteq> CHR ''*''"
  by (auto simp: plain_char_def meta_def)

lemma compile_plain:
  "plain p \<Longrightarrow> (case s of [] \<Rightarrow> True | d # t \<Rightarrow> d \<noteq> CHR ''*'') \<Longrightarrow>
   compile (p @ s) = bindr (compile s) (\<lambda>r. Inr (map (\<lambda>a. One (atom_of a)) p @ r))"
proof (induction p)
  case Nil
  then show ?case by (cases "compile s") auto
next
  case (Cons c p)
  have c: "plain_char c" and p: "plain p" using Cons.prems by auto
  have nx: "case p @ s of [] \<Rightarrow> True | d # t \<Rightarrow> d \<noteq> CHR ''*''"
    using Cons.prems plain_char_not by (cases p) auto
  from Cons p have IH: "compile (p @ s) = bindr (compile s) (\<lambda>r. Inr (map (\<lambda>a. One (atom_of a)) p @ r))"
    by simp
  show ?case
    using c plain_char_not [OF c] nx IH
    by (cases "p @ s"; cases "compile s") (auto simp: plain_char_def)
qed

lemma getPatternRegex_plain:
  assumes "plain p"
  shows "getPatternRegex p = Inr (Bol # map (\<lambda>a. One (atom_of a)) p @ [Eol])"
    and "getPatternRegex (p @ ''.*'') = Inr (Bol # map (\<lambda>a. One (atom_of a)) p @ [Star AnyChar, Eol])"
proof -
  have np: "\<not> prefix ''^'' p" using assms plain_char_not by (cases p) auto
  have ns: "\<not> suffix ''$'' (''^'' @ p)"
    using assms plain_char_not by (cases p rule: rev_cases) (auto simp: suffix_def)
  have c: "compile (''^'' @ p @ ''$'') = Inr (Bol # map (\<lambda>a. One (atom_of a)) p @ [Eol])"
    using compile_plain [OF assms, of "''$''"] by simp
  show "getPatternRegex p = Inr (Bol # map (\<lambda>a. One (atom_of a)) p @ [Eol])"
    using np ns c by (simp add: getPatternRegex_def Let_def)
  have np': "\<not> prefix ''^'' (p @ ''.*'')" using assms plain_char_not by (cases p) auto
  have ns': "\<not> suffix ''$'' (''^'' @ p @ ''.*'')" by (auto simp: suffix_def)
  have "compile (''^'' @ (p @ ''.*'') @ ''$'') = Inr (Bol # map (\<lambda>a. One (atom_of a)) p @ [Star AnyChar, Eol])"
    using compile_plain [OF assms, of "''.*$''"] by (simp add: meta_def atom_of_def)
  then show "getPatternRegex (p @ ''.*'') = Inr (Bol # map (\<lambda>a. One (atom_of a)) p @ [Star AnyChar, Eol])"
    using np' ns' by (simp add: getPatternRegex_def Let_def)
qed

lemma pattern_ok_plain [intro]: "plain p \<Longrightarrow> pattern_ok p" "plain p \<Longrightarrow> pattern_ok (p @ ''.*'')"
  by (simp_all add: pattern_ok_def getPatternRegex_plain del: append_assoc)

section \<open>The members of the steps\<close>

definition matches :: "string \<Rightarrow> string \<Rightarrow> bool" where
  "matches p k \<longleftrightarrow> (case getPatternRegex p of Inr re \<Rightarrow> match_string re k | Inl e \<Rightarrow> False)"

lemma elems_match_keys: "elems (match_keys re keys names) = elems names \<union> {k \<in> set keys. match_string re k}"
  by (induction keys arbitrary: names) auto

lemma elems_step_names_loop:
  "step_names_loop True keys ps names = Inr cur \<Longrightarrow>
   elems cur = elems names \<union> {k \<in> set keys. \<exists>p \<in> set ps. matches p k}"
proof (induction ps arbitrary: names)
  case (Cons p ps)
  then obtain re where re: "getPatternRegex p = Inr re"
    and rest: "step_names_loop True keys ps (match_keys re keys names) = Inr cur" by (auto simp: res_simps)
  have "matches p k = match_string re k" for k by (simp add: matches_def re)
  with Cons.IH [OF rest] show ?case by (auto simp: elems_match_keys)
qed simp

lemma step_names_nth:
  "step_names isRegex gen steps = Inr names \<Longrightarrow> length names = length steps \<and>
     (\<forall>i < length steps. \<exists>cur. getStepResourceNames (steps ! i) isRegex gen = Inr cur \<and> names ! i = map fst cur)"
proof (induction steps arbitrary: names)
  case (Cons s steps)
  then obtain cur rest where "getStepResourceNames s isRegex gen = Inr cur" "step_names isRegex gen steps = Inr rest"
    "names = map fst cur # rest" by (auto simp: res_simps)
  with Cons.IH show ?case by (auto simp: nth_Cons split: nat.splits)
qed simp

text \<open>A step of a pattern sequence holds the generated names that one of its patterns matches.\<close>

lemma regex_step_members:
  assumes "sequence_names G obj gen = Inr names" and "seq_regex (GetSequence G obj)"
    and "i < length (seq_steps (GetSequence G obj))"
  shows "i < length names" and
    "set (names ! i) = {k \<in> fst ` set gen. \<exists>p \<in> set (step_objects (seq_steps (GetSequence G obj) ! i)). matches p k}"
proof -
  from step_names_nth [OF assms(1) [unfolded sequence_names_def]] assms(2,3) obtain cur
    where len: "length names = length (seq_steps (GetSequence G obj))"
      and cur: "getStepResourceNames (seq_steps (GetSequence G obj) ! i) True gen = Inr cur" "names ! i = map fst cur"
    by auto
  show "i < length names" using len assms(3) by simp
  show "set (names ! i) = {k \<in> fst ` set gen. \<exists>p \<in> set (step_objects (seq_steps (GetSequence G obj) ! i)). matches p k}"
    using elems_step_names_loop [OF cur(1) [unfolded getStepResourceNames_def]] cur(2) by (auto simp: elems_def)
qed

lemma match_here_plain: "CHR 0x0A \<notin> set p \<Longrightarrow> match_here (map (\<lambda>a. One (atom_of a)) p @ r) bol (p @ s) \<longleftrightarrow> match_here r (bol \<and> p = []) s"
  by (induction p arbitrary: bol) (auto simp: atom_of_def)

lemma matches_self: "plain p \<Longrightarrow> CHR 0x0A \<notin> set p \<Longrightarrow> matches p p"
  using match_here_plain [of p "[Eol]" True "[]"] by (simp add: matches_def getPatternRegex_plain)

lemma literal_plain: "literal p \<Longrightarrow> plain p"
  by (auto simp: literal_def plain_def plain_char_def)

lemma literal_atoms: "literal p \<Longrightarrow> map (\<lambda>a. One (atom_of a)) p = map (\<lambda>a. One (Lit a)) p"
  by (auto simp: literal_def atom_of_def dest: not_meta)

lemma matches_literal: "literal p \<Longrightarrow> matches p k \<longleftrightarrow> k = p"
  unfolding matches_def using match_anchored_literal [of p k]
  by (simp add: getPatternRegex_plain literal_plain literal_atoms del: match_string_Bol)

lemma matches_prefix: "literal p \<Longrightarrow> matches (p @ ''.*'') k \<longleftrightarrow> prefix p k \<and> CHR 0x0A \<notin> set (trim_prefix k p)"
  unfolding matches_def using match_anchored_prefix [of p k]
  by (simp add: getPatternRegex_plain literal_plain literal_atoms del: match_string_Bol append_assoc)

text \<open>
  The gate of a sequence: a resource that a run adds and that stands only in step \<open>i + 1\<close>, by its patterns or
  by its names, waits until every generated resource of step \<open>i\<close> is observed and ready.
\<close>

definition in_step :: "Sequence \<Rightarrow> nat \<Rightarrow> string \<Rightarrow> bool" where
  "in_step s i n \<longleftrightarrow> i < length (seq_steps s) \<and>
     (if seq_regex s then \<exists>p \<in> set (step_objects (seq_steps s ! i)). matches p n
      else n \<in> set (step_objects (seq_steps s ! i)))"

lemma elems_literal_loop:
  "step_names_loop False keys ps names = Inr cur \<Longrightarrow> elems cur = elems names \<union> set ps"
  by (induction ps arbitrary: names) (auto simp: set_Add_def)

lemma step_members:
  assumes "sequence_names G obj gen = Inr names" and "i < length (seq_steps (GetSequence G obj))" and "map_of gen k \<noteq> None"
  shows "k \<in> set (names ! i) \<longleftrightarrow> in_step (GetSequence G obj) i k"
proof (cases "seq_regex (GetSequence G obj)")
  case True
  have "k \<in> fst ` set gen" using assms(3) by (metis domIff dom_map_of_conv_image_fst)
  then show ?thesis unfolding regex_step_members(2) [OF assms(1) True assms(2)] in_step_def using True assms(2) by simp
next
  case False
  from step_names_nth [OF assms(1) [unfolded sequence_names_def]] assms(2) False obtain cur
    where cur: "getStepResourceNames (seq_steps (GetSequence G obj) ! i) False gen = Inr cur" "names ! i = map fst cur" by auto
  from elems_literal_loop [OF cur(1) [unfolded getStepResourceNames_def]] cur(2) False assms(2) show ?thesis
    by (simp add: elems_def in_step_def)
qed

lemma step_count: "sequence_names G obj gen = Inr names \<Longrightarrow> length names = length (seq_steps (GetSequence G obj))"
  unfolding sequence_names_def by (drule step_names_nth) simp

lemma step_gate:
  assumes "support_by_kind X A S gen" and "iteration ord" and "cache_ok S c"
    and "fst (place_resources X A G ws ord obj observed desired gen rt c) = Inr d"
    and "sequence_names G obj gen = Inr names"
    and "in_step (GetSequence G obj) (Suc i) n" and "\<forall>j. in_step (GetSequence G obj) j n \<longrightarrow> j = Suc i"
    and "map_of observed n = None" and "map_of d n \<noteq> map_of desired n"
    and "in_step (GetSequence G obj) i m" and "map_of gen m \<noteq> None"
  shows "\<exists>oc ob. map_of observed m = Some oc \<and> oc_resource oc = Some ob \<and> getReadyStatus X G ob = ReadyTrue"
proof -
  note mem = step_members [OF assms(5)] and len = step_count [OF assms(5)]
  have lt: "Suc i < length (seq_steps (GetSequence G obj))" using assms(6) by (simp add: in_step_def)
  have gen: "map_of gen n \<noteq> None"
    using place_resources_post [OF assms(1-3), of G obj observed ws rt desired, unfolded assms(4)] assms(9)
    by (elim place_postE) (auto simp: planned_def split: if_splits)
  have "n \<in> set (names ! Suc i)" using mem [OF lt gen] assms(6) by simp
  then have "n \<in> set (concat names)" using lt len by (auto simp: set_concat intro!: bexI [of _ "names ! Suc i"])
  moreover have "j = Suc i" if "j < length names" "n \<in> set (names ! j)" for j
    using that mem [OF _ gen, of j] assms(7) len by simp
  ultimately have "step_ready X G observed gen (names ! i)"
    using added_resource_position [OF assms(1-5,8,9)] lt len
    by (metis Suc_inject Suc_lessD less_trans_Suc nat.distinct(1) zero_less_Suc)
  then show ?thesis by (rule step_readyD) (use mem [of i m] lt assms(10,11) in simp_all)
qed

lemma step_planned:
  assumes "sequence_names G obj gen = Inr names"
    and "in_step (GetSequence G obj) (Suc i) n" and "map_of gen n \<noteq> None"
    and "\<forall>m. in_step (GetSequence G obj) i m \<longrightarrow> ready_now X G observed gen m"
  shows "planned X G observed gen names n"
proof -
  have lt: "Suc i < length (seq_steps (GetSequence G obj))" using assms(2) by (simp add: in_step_def)
  have "ready_now X G observed gen m" if "m \<in> set (names ! i)" for m
    using step_members [OF assms(1), of i m] that lt assms(4) by (cases "map_of gen m = None") (auto simp: ready_now_def)
  then have "step_ready X G observed gen (names ! i)" by (simp add: step_ready_def)
  moreover have "n \<in> set (names ! Suc i)" using step_members [OF assms(1) lt assms(3)] assms(2) by simp
  ultimately show ?thesis using planned_after_ready [OF assms(3), of i names] lt step_count [OF assms(1)] by simp
qed

section \<open>The contract of a group\<close>

locale group_service =
  fixes G :: "('c, 'o) GroupService" and named :: "'c \<Rightarrow> bool"
  assumes generated_wf: "map_of (GetResourceHandlers G) kind = Some h \<Longrightarrow>
      h_generate h obj required observed = Inr gen \<Longrightarrow> wf_map gen"
    and sequence_compiles: "named obj \<Longrightarrow> \<exists>names. sequence_names G obj gen = Inr names"
    and status_wf: "GetObservedStatus G ob = Inr st \<Longrightarrow> wf_map st"
    and processed_wf: "PostProcessStatus G = Some processor \<Longrightarrow> wf_map st \<Longrightarrow> processor st observed = Inr out \<Longrightarrow>
      wf_map out"
begin

text \<open>Placing fails only because a planned resource cannot be converted or tagged.\<close>

lemma place_fails:
  assumes "named obj" and "support_by_kind X A S gen" and "iteration ord" and "cache_ok S c"
    and "fst (place_resources X A G ws ord obj observed desired gen rt c) = Inl e"
  shows "\<exists>names n. sequence_names G obj gen = Inr names \<and> planned X G observed gen names n \<and>
    \<not> is_ok (entry_of X A G ws observed rt S gen n)"
  using place_resources_post [OF assms(2-4), of G obj observed ws rt desired] sequence_compiles [of obj gen] assms(1,5)
  by (auto simp: place_post_def)

lemma status_loop_keeps:
  "status_loop G observed names status = Inr out \<Longrightarrow> map_of status k \<noteq> None \<Longrightarrow> map_of out k \<noteq> None"
proof (induction names arbitrary: status)
  case (Cons n names)
  have "map_of (gcopy status st) k \<noteq> None" if "GetObservedStatus G ob = Inr st" for ob st
    using Cons.prems(2) by (simp add: map_of_gcopy_apply status_wf [OF that] split: option.splits)
  with Cons show ?case unfolding status_loop_Cons by (metis (lifting))
qed simp

lemma status_loop_source:
  "status_loop G observed names status = Inr out \<Longrightarrow> map_of out k = Some v \<Longrightarrow>
    (\<exists>n \<in> set names. contributes G observed n k v) \<or> map_of status k = Some v"
proof (induction names arbitrary: status)
  case (Cons n names)
  show ?case
  proof (cases "map_of observed n = None")
    case True
    with Cons show ?thesis unfolding status_loop_Cons by auto
  next
    case False
    with Cons.prems(1) obtain oc ob st where *: "map_of observed n = Some oc" "oc_resource oc = Some ob"
      "GetObservedStatus G ob = Inr st" and run: "status_loop G observed names (gcopy status st) = Inr out"
      unfolding status_loop_Cons by auto
    from Cons.IH [OF run Cons.prems(2)] show ?thesis
      using * status_wf [OF *(3)] by (auto simp: map_of_gcopy_apply contributes_def split: option.splits)
  qed
qed simp

lemma status_loop_complete:
  "status_loop G observed names status = Inr out \<Longrightarrow> n \<in> set names \<Longrightarrow> contributes G observed n k v \<Longrightarrow>
    map_of out k \<noteq> None"
proof (induction names arbitrary: status)
  case (Cons m names)
  show ?case
  proof (cases "n = m")
    case True
    with Cons.prems obtain st where st: "GetObservedStatus G (the (oc_resource (the (map_of observed n)))) = Inr st"
      "map_of st k = Some v" and run: "status_loop G observed names (gcopy status st) = Inr out"
      unfolding status_loop_Cons contributes_def by auto
    show ?thesis
      by (rule status_loop_keeps [OF run]) (simp_all add: map_of_gcopy_apply status_wf [OF st(1)] st(2))
  next
    case False
    with Cons show ?thesis unfolding status_loop_Cons by (auto split: if_splits)
  qed
qed simp

lemma status_loop_wf: "status_loop G observed names st = Inr out \<Longrightarrow> wf_map st \<Longrightarrow> wf_map out"
  by (induction names arbitrary: st) (auto simp: status_loop_Cons simp del: status_loop.simps(2) split: if_splits)

text \<open>The status a group writes is its post-processor applied to what the observed resources contribute.\<close>

lemma status_collected:
  assumes "getCompositeResourceStatus G ord observed = Inr extra" and "iteration ord"
  obtains status where "collects G observed status" and "wf_map extra"
    and "case PostProcessStatus G of None \<Rightarrow> extra = status | Some processor \<Rightarrow> processor status observed = Inr extra"
proof -
  from assms(1) obtain status where l: "status_loop G observed (ord 0 (map fst observed)) [] = Inr status"
    and p: "case PostProcessStatus G of None \<Rightarrow> extra = status | Some processor \<Rightarrow> processor status observed = Inr extra"
    by (auto simp: getCompositeResourceStatus_def res_simps split: option.splits)
  have wf: "wf_map status" using status_loop_wf [OF l] by simp
  with p have "wf_map extra" by (auto intro: processed_wf split: option.splits)
  moreover have "map_of status k \<noteq> None" if "contributes G observed n k v" for n k v
  proof -
    from that have "n \<in> set (map fst observed)"
      unfolding contributes_def by (metis map_of_SomeD fst_conv image_eqI list.set_map)
    then show ?thesis using status_loop_complete [OF l _ that] assms(2) by (simp del: not_None_eq)
  qed
  then have "collects G observed status"
    using status_loop_source [OF l] unfolding collects_def by (metis map_of.simps(1) not_None_eq)
  ultimately show thesis using that p by blast
qed

end

end
