(* ===== verification/Base_Demo.thy ===== *)
theory Base_Demo
  imports Base_Service
begin

text \<open>
  A small group on which the properties of \<open>functions/common/base\<close> are evaluated: an instance, a
  database in it and a user, generated in that order by a regular-expression sequence, with objects that
  are unstructured maps.
\<close>

definition json_objects :: "object objects" where
  "json_objects = \<lparr>as_unstructured = Some, go_type = (\<lambda>ob. TOther),
     gvk_of = (\<lambda>ob. (''demo'', std_str ob [''apiVersion''], std_str ob [''kind''])), to_unstructured = Inr\<rparr>"

lemma json_objects_simps [simp]:
  "as_unstructured json_objects ob = Some ob"
  "gvk_of json_objects ob = (''demo'', std_str ob [''apiVersion''], std_str ob [''kind''])"
  "to_unstructured json_objects ob = Inr ob"
  by (simp_all add: json_objects_def)

definition demo_object :: "string \<Rightarrow> json list \<Rightarrow> object" where
  "demo_object kind conditions =
     [(''apiVersion'', JStr ''rds.aws.m.upbound.io/v1beta1''), (''kind'', JStr kind),
      (''metadata'', JObj [(''labels'', JObj [(''app'', JStr ''demo'')])]),
      (''spec'', JObj [(''forProvider'', JObj [(''tags'', JObj [(''owner'', JStr ''team-a'')])])]),
      (''status'', JObj [(''conditions'', JArr conditions)])]"

definition ready_condition :: json where
  "ready_condition = JObj [(''type'', JStr ''Ready''), (''status'', JStr ''True'')]"

definition demo_generated :: "object gomap" where
  "demo_generated =
     [(''user'', demo_object ''User'' []), (''instance-a'', demo_object ''Instance'' []),
      (''database'', demo_object ''Database'' []), (''config'', demo_object ''Config'' [])]"

definition demo_observed :: observed where
  "demo_observed =
     [(''instance-a'', \<lparr>oc_resource = Some (demo_object ''Instance'' [ready_condition]), oc_connection = []\<rparr>)]"

definition demo_group :: "(unit, object) GroupService" where
  "demo_group = \<lparr>SkipGeneration = (\<lambda>ob. False),
     GetResourceHandlers = [(''Stack'', \<lparr>h_decode = (\<lambda>ob. Inr ()), h_generate = (\<lambda>c r ob. Inr demo_generated)\<rparr>)],
     GetSequence = (\<lambda>c. NewSequence True [[''instance.*''], [''database''], [''user'']]),
     GetReadyStatus = (\<lambda>ob. None),
     GetRequiredResources = (\<lambda>ob r. Inr []),
     GetObservedStatus = (\<lambda>ob. Inr [(''endpoint'', JStr (get_kind std_ext ob))]),
     PostProcessStatus = None\<rparr>"

definition demo_composite :: object where
  "demo_composite =
     [(''apiVersion'', JStr ''demo.entigo.com/v1''), (''kind'', JStr ''Stack''),
      (''metadata'', JObj [(''name'', JStr ''shop''), (''namespace'', JStr ''team-a''),
         (''labels'', JObj [(''tags.entigo.com/owner'', JStr ''label''), (''tags.entigo.com/tier'', JStr ''gold''),
                             (''tenancy.entigo.com/zone'', JStr ''mine'')]),
         (''annotations'', JObj [(''tags.entigo.com/owner'', JStr ''annotation'')])]),
      (''status'', JObj [(''phase'', JStr ''new'')])]"

definition demo_namespace :: object where
  "demo_namespace =
     [(''apiVersion'', JStr ''v1''), (''kind'', JStr ''Namespace''),
      (''metadata'', JObj [(''name'', JStr ''team-a''),
         (''labels'', JObj [(''tenancy.entigo.com/zone'', JStr ''zone-a'')])])]"

definition demo_zone :: object where
  "demo_zone =
     [(''apiVersion'', JStr TenancyApiVersion), (''kind'', JStr ''Zone''),
      (''metadata'', JObj [(''name'', JStr ''zone-a''),
         (''labels'', JObj [(''tags.entigo.com/tier'', JStr ''silver''), (''tags.entigo.com/cost'', JStr ''42'')])])]"

definition demo_environment :: object where
  "demo_environment = [(''apiVersion'', JStr EnvironmentApiVersion), (''kind'', JStr EnvironmentKind),
     (''data'', JObj [(''tags'', JObj [(''cost'', JStr ''0''), (''env'', JStr ''prod'')])])]"

definition demo_required :: required where
  "demo_required =
     [(NamespaceKey, [Some demo_namespace]), (ZoneKey, [Some demo_zone]), (ZoneEnvKey, [Some demo_environment])]"

abbreviation (input) in_order :: order where
  "in_order \<equiv> \<lambda>i names. names"

abbreviation (input) reversed :: order where
  "reversed \<equiv> \<lambda>i names. rev names"

lemma demo_orders [simp]: "iteration in_order" "iteration reversed"
  by (simp_all add: iteration_def)

lemma demo_support: "support_by_kind std_ext json_objects (\<lambda>k. True) demo_generated"
  by (simp add: support_by_kind_def demo_generated_def demo_object_def resolve_field_path_def tags_path_def)

definition demo_tags :: ResourceTags where
  "demo_tags = \<lparr>rt_zone = ''zone-a'', rt_tags = [(''entigo:zone'', ''mine''), (''tier'', ''gold'')],
     rt_labels = [(''tags.entigo.com/tier'', ''gold'')]\<rparr>"

text \<open>The run of the demonstration: the instance is ready, so the database joins it; the user waits.\<close>

definition demo_place :: "order \<Rightarrow> desired res" where
  "demo_place ord =
     fst (place_resources std_ext json_objects demo_group ''prod'' ord () demo_observed [] demo_generated demo_tags [])"

lemma demo_place_names:
  "(case demo_place in_order of Inr d \<Rightarrow> map fst d | Inl e \<Rightarrow> []) = [''instance-a'', ''database'', ''config'']"
  by code_simp

lemma demo_place_ok: "\<exists>d. demo_place in_order = Inr d"
  using demo_place_names by (cases "demo_place in_order") auto

lemma demo_sequence:
  "sequence_names demo_group () demo_generated = Inr [[''instance-a''], [''database''], [''user'']]"
  by code_simp

end
