(* ===== verification/Base_Props.thy ===== *)
theory Base_Props
  imports Base_Demo
begin

text \<open>
  The properties of \<open>functions/common/base\<close>: placing resources in sequence, tenancy zones, tags, names,
  readiness and the run as a whole. Each is applied to the demonstration group by its witness.
\<close>

section \<open>Placing resources\<close>

text \<open>
  C1: \<open>addDesiredComposedResources\<close> refines the plan. Whatever order the map iterations take, the run
  succeeds exactly when every pattern of the sequence compiles and every planned resource converts, and
  the desired map then holds exactly the planned resources, each with the entry computed from it alone;
  all other desired entries of the request are kept.
\<close>

theorem place_resources_refines_plan:
  fixes A :: "'o objects" and G :: "('c, 'o) GroupService" and obj :: 'c and gen :: "'o gomap"
    and ws :: string and observed :: observed and rt :: ResourceTags and desired :: desired
  assumes "support_by_kind X A S gen" and "iteration ord" and "cache_ok S c"
  defines "r \<equiv> fst (place_resources X A G ws ord obj observed desired gen rt c)"
    and "E \<equiv> entry_of X A G ws observed rt S gen"
  shows "(is_ok r \<longleftrightarrow>
      (\<exists>names. sequence_names G obj gen = Inr names \<and>
         (\<forall>n. planned X G observed gen names n \<longrightarrow> is_ok (E n)))) \<and>
    (\<forall>d names. r = Inr d \<longrightarrow> sequence_names G obj gen = Inr names \<longrightarrow>
       (\<forall>n. map_of d n = (if planned X G observed gen names n then ok_of (E n) else map_of desired n)))"
  using place_resources_post [OF assms(1-3), of G obj observed ws rt desired]
  unfolding place_post_def r_def [symmetric] E_def [symmetric]
  by (cases "sequence_names G obj gen"; cases r) auto

theorem place_resources_refines_plan_witness:
  "\<exists>d. demo_place reversed = Inr d \<and> map_of d ''user'' = None \<and> map_of d ''database'' \<noteq> None"
proof -
  have "is_ok (demo_place reversed)" by code_simp
  then obtain d where d: "demo_place reversed = Inr d" by (auto simp: is_ok_iff)
  let ?E = "entry_of std_ext json_objects demo_group ''prod'' demo_observed demo_tags (\<lambda>k. True) demo_generated"
  note refines = place_resources_refines_plan [OF demo_support demo_orders(2) cache_ok_Nil,
    where G = demo_group and ws = "''prod''" and obj = "()" and observed = demo_observed and desired = "[]" and rt = demo_tags, folded demo_place_def]
  have m: "map_of d n = (if planned std_ext demo_group demo_observed demo_generated
      [[''instance-a''], [''database''], [''user'']] n then ok_of (?E n) else map_of [] n)" for n
    using refines d demo_sequence by blast
  have "\<not> planned std_ext demo_group demo_observed demo_generated [[''instance-a''], [''database''], [''user'']] ''user''"
    by code_simp
  moreover have "planned std_ext demo_group demo_observed demo_generated [[''instance-a''], [''database''], [''user'']] ''database''"
    by code_simp
  moreover have "ok_of (?E ''database'') \<noteq> None" by code_simp
  ultimately show ?thesis using m d by simp
qed

text \<open>
  C2: the gate of a sequence. A generated resource that is not observed yet and appears in the desired
  map only because a run placed it belongs to no step, to the first step, or to a step after one whose
  generated members are all observed and ready.
\<close>

theorem unobserved_resource_waits:
  assumes "support_by_kind X A S gen" and "iteration ord" and "cache_ok S c"
    and "fst (place_resources X A G ws ord obj observed desired gen rt c) = Inr d"
    and "sequence_names G obj gen = Inr names"
    and "map_of observed n = None" and "map_of desired n = None" and "map_of d n \<noteq> None"
  shows "n \<notin> set (concat names) \<or> n \<in> set (names ! 0) \<or>
    (\<exists>i. Suc i < length names \<and> n \<in> set (names ! Suc i) \<and>
       (\<forall>m \<in> set (names ! i). map_of gen m \<noteq> None \<longrightarrow>
          (\<exists>oc ob. map_of observed m = Some oc \<and> oc_resource oc = Some ob \<and> getReadyStatus X G ob = ReadyTrue)))"
  using added_resource_position [OF assms(1-6)] assms(7,8) step_readyD [of X G observed gen]
  by (metis (no_types, lifting))

theorem unobserved_resource_waits_witness:
  "\<exists>d. demo_place reversed = Inr d \<and> map_of d ''database'' \<noteq> None \<and>
     (\<exists>oc ob. map_of demo_observed ''instance-a'' = Some oc \<and> oc_resource oc = Some ob \<and>
        getReadyStatus std_ext demo_group ob = ReadyTrue)"
proof -
  have "(case demo_place reversed of Inr d \<Rightarrow> map_of d ''database'' \<noteq> None | Inl e \<Rightarrow> False)" by code_simp
  then obtain d where d: "demo_place reversed = Inr d" and n: "map_of d ''database'' \<noteq> None"
    by (auto split: sum.splits)
  have o: "map_of demo_observed ''database'' = None" by code_simp
  from unobserved_resource_waits [OF demo_support demo_orders(2) cache_ok_Nil
      d [unfolded demo_place_def] demo_sequence o _ n]
  have "\<exists>i. Suc i < 3 \<and> ''database'' \<in> set ([[''instance-a''], [''database''], [''user'']] ! Suc i) \<and>
     (\<forall>m \<in> set ([[''instance-a''], [''database''], [''user'']] ! i). map_of demo_generated m \<noteq> None \<longrightarrow>
       (\<exists>oc ob. map_of demo_observed m = Some oc \<and> oc_resource oc = Some ob \<and>
          getReadyStatus std_ext demo_group ob = ReadyTrue))"
    by (simp add: eval_nat_numeral)
  then obtain i where i: "Suc i < 3" "''database'' \<in> set ([[''instance-a''], [''database''], [''user'']] ! Suc i)"
    and w: "\<forall>m \<in> set ([[''instance-a''], [''database''], [''user'']] ! i). map_of demo_generated m \<noteq> None \<longrightarrow>
       (\<exists>oc ob. map_of demo_observed m = Some oc \<and> oc_resource oc = Some ob \<and>
          getReadyStatus std_ext demo_group ob = ReadyTrue)" by blast
  from i have "i = 0" by (cases i) (auto simp: less_Suc_eq eval_nat_numeral)
  moreover have "map_of demo_generated ''instance-a'' \<noteq> None" by code_simp
  ultimately show ?thesis using w d n by auto
qed

text \<open>
  C3: a generated resource that is already observed is in the desired map of every successful run,
  whatever its step and the readiness of the steps before it, with the ready status of its observed
  object: a sequence never removes what exists.
\<close>

theorem observed_resource_kept:
  assumes "support_by_kind X A S gen" and "iteration ord" and "cache_ok S c"
    and "fst (place_resources X A G ws ord obj observed desired gen rt c) = Inr d"
    and "map_of gen n \<noteq> None" and "map_of observed n = Some oc"
  shows "\<exists>e ob. map_of d n = Some e \<and> oc_resource oc = Some ob \<and> dc_ready e = getReadyStatus X G ob"
proof -
  from place_resources_post [OF assms(1-3), of G obj observed ws rt desired] obtain names
    where ok: "\<And>n. planned X G observed gen names n \<Longrightarrow> is_ok (entry_of X A G ws observed rt S gen n)"
      and m: "\<And>n. map_of d n = (if planned X G observed gen names n
        then ok_of (entry_of X A G ws observed rt S gen n) else map_of desired n)"
    unfolding assms(4) by (elim place_postE) blast
  have p: "planned X G observed gen names n" using assms(5,6) by (simp add: planned_observed)
  from ok [OF p] obtain e where e: "entry_of X A G ws observed rt S gen n = Inr e" by (auto simp: is_ok_iff)
  from entry_ready [OF e] assms(6) obtain ob where "oc_resource oc = Some ob" "dc_ready e = getReadyStatus X G ob"
    by (auto simp: observed_ready_def res_simps)
  with m [of n] p e show ?thesis by simp
qed

theorem observed_resource_kept_witness:
  "\<exists>d e. demo_place reversed = Inr d \<and> map_of d ''instance-a'' = Some e"
proof -
  have "is_ok (demo_place reversed)" by code_simp
  then obtain d where d: "demo_place reversed = Inr d" by (auto simp: is_ok_iff)
  have g: "map_of demo_generated ''instance-a'' \<noteq> None" by code_simp
  obtain oc where "map_of demo_observed ''instance-a'' = Some oc" by (simp add: demo_observed_def)
  from observed_resource_kept [OF demo_support demo_orders(2) cache_ok_Nil d [unfolded demo_place_def] g this] d
  show ?thesis by blast
qed

text \<open>
  C4: the outcome does not depend on the order in which Go visits the keys of its maps, nor on which
  kinds the cache of the process already knows. For generated objects whose support for tags is decided by
  their kind (\<open>support_by_kind\<close>: the typed objects, not the unstructured ones) and two caches that hold only
  right answers for those kinds (\<open>cache_ok\<close>: the empty cache, or what requests for such objects have left),
  two runs succeed alike and give the same map.
\<close>

theorem placement_order_irrelevant:
  assumes "support_by_kind X A S gen" and "iteration ord" and "iteration ord'" and "cache_ok S c" and "cache_ok S c'"
  shows "case (fst (place_resources X A G ws ord obj observed desired gen rt c),
               fst (place_resources X A G ws ord' obj observed desired gen rt c')) of
           (Inr d, Inr d') \<Rightarrow> same_map d d'
         | (Inl e, Inl e') \<Rightarrow> True
         | _ \<Rightarrow> False"
  using place_resources_post [OF assms(1,2,4), of G obj observed ws rt desired]
    place_resources_post [OF assms(1,3,5), of G obj observed ws rt desired]
  unfolding place_post_def
  by (cases "sequence_names G obj gen";
      cases "fst (place_resources X A G ws ord obj observed desired gen rt c)";
      cases "fst (place_resources X A G ws ord' obj observed desired gen rt c')")
    (auto simp: same_map_def fun_eq_iff)

theorem placement_order_irrelevant_witness:
  "case (demo_place in_order, demo_place reversed) of
     (Inr d, Inr d') \<Rightarrow> same_map d d' | (Inl e, Inl e') \<Rightarrow> True | _ \<Rightarrow> False"
  unfolding demo_place_def
  by (rule placement_order_irrelevant [OF demo_support demo_orders cache_ok_Nil cache_ok_Nil])

text \<open>
  The gate looks at the step before only. When a step's generated members are all observed and ready
  (or when it has none), the next step is placed although a member of an earlier step is not ready, so
  "earlier steps are ready" in the README holds one step back.
\<close>

theorem gate_is_one_step_back:
  assumes "map_of gen n \<noteq> None" and "Suc i < length names" and "n \<in> set (names ! Suc i)"
    and "step_ready X G observed gen (names ! i)"
  shows "planned X G observed gen names n"
  by (rule planned_after_ready [OF assms])

definition stalled_observed :: observed where
  "stalled_observed =
     [(''instance-a'', \<lparr>oc_resource = Some (demo_object ''Instance'' []), oc_connection = []\<rparr>),
      (''database'', \<lparr>oc_resource = Some (demo_object ''Database'' [ready_condition]), oc_connection = []\<rparr>)]"

theorem gate_is_one_step_back_witness:
  "planned std_ext demo_group stalled_observed demo_generated [[''instance-a''], [''database''], [''user'']] ''user'' \<and>
   \<not> step_ready std_ext demo_group stalled_observed demo_generated [''instance-a'']"
proof
  have "map_of demo_generated ''user'' \<noteq> None" by code_simp
  moreover have "step_ready std_ext demo_group stalled_observed demo_generated
      ([[''instance-a''], [''database''], [''user'']] ! 1)" by code_simp
  ultimately show "planned std_ext demo_group stalled_observed demo_generated
      [[''instance-a''], [''database''], [''user'']] ''user''"
    by (intro gate_is_one_step_back [where i = 1]) simp_all
  show "\<not> step_ready std_ext demo_group stalled_observed demo_generated [''instance-a'']" by code_simp
qed

section \<open>Tenancy zones and tags\<close>

text \<open>
  C5: a composite in a namespace of a zone cannot leave the zone. Every resource a run places for it
  carries the zone of the namespace (and the workspace) in the tenancy labels. When its kind takes AWS tags
  and the converted object has a map or nothing at \<open>spec.forProvider.tags\<close>, the placed object has a map of
  tags there, with the zone in \<open>entigo:zone\<close> and the workspace in its tag, whatever labels, annotations and
  tags the user, the zone object or the generated object ask for.
\<close>

theorem tenancy_zone_enforced:
  assumes "object_access X" and "support_by_kind X A S gen" and "iteration ord" and "cache_ok S c"
    and "map_of (GetResourceHandlers G) (get_kind X composite) = Some h"
    and "h_decode h composite = Inr obj" and "h_generate h obj required observed = Inr gen"
    and "get_namespace X composite \<noteq> ''''" and "GetTenancyZone X required = Inr zone" and "zone \<noteq> ''''"
    and "fst (generate_desired X A G ws ord composite required observed desired c) = Inr d"
    and "map_of gen n = Some ob" and "map_of observed n \<noteq> None \<or> map_of d n \<noteq> map_of desired n"
  shows "\<exists>e u. map_of d n = Some e \<and> to_unstructured A ob = Inr u \<and>
    map_of (get_labels X (dc_resource e)) TenancyZoneLabel = Some zone \<and>
    (ws \<noteq> '''' \<longrightarrow> map_of (get_labels X (dc_resource e)) TenancyWorkspaceLabel = Some ws) \<and>
    (S (gvk_of A ob) \<longrightarrow> is_ok (nested_map X u tags_path) \<longrightarrow>
       (\<exists>tags. nested_map X (dc_resource e) tags_path = Inr (Some tags) \<and>
          map_of tags TenancyZoneAWSTag = Some (JStr zone) \<and>
          (ws \<noteq> '''' \<longrightarrow> map_of tags TenancyWorkspaceAWSTag = Some (JStr ws))))"
proof -
  from generate_desired_ok [OF assms(11)] assms(5-8) obtain rt
    where rt: "GetResourceTags X composite required = Inr rt"
      and run: "fst (place_resources X A G ws ord obj observed desired gen rt c) = Inr d"
    by (metis Inr_inject option.inject resource_tags_of_namespaced)
  have z: "rt_zone rt = zone" using GetResourceTags_zone [OF rt] assms(9) by simp
  have wf: "wf_map (rt_tags rt)" "wf_map (rt_labels rt)"
    using object_access.GetResourceTags_wf [OF assms(1) rt] by simp_all
  show ?thesis
    by (rule object_access.placed_labels_tags [OF assms(1-4) run assms(12,13)])
      (auto simp: zone_labels_lookup [OF wf(2)] zone_tags_lookup [OF wf(1)] z assms(10) is_ok_iff)
qed

text \<open>A run of the demonstration for its namespaced composite.\<close>

definition demo_run :: "order \<Rightarrow> desired res" where
  "demo_run ord = fst (generate_desired std_ext json_objects demo_group ''prod'' ord demo_composite demo_required demo_observed [] [])"

theorem tenancy_zone_enforced_witness:
  "\<exists>d e tags. demo_run in_order = Inr d \<and> map_of d ''database'' = Some e \<and>
     map_of (get_labels std_ext (dc_resource e)) TenancyZoneLabel = Some ''zone-a'' \<and>
     nested_map std_ext (dc_resource e) tags_path = Inr (Some tags) \<and>
     map_of tags TenancyZoneAWSTag = Some (JStr ''zone-a'') \<and> map_of tags TenancyWorkspaceAWSTag = Some (JStr ''prod'')"
proof -
  have run: "case demo_run in_order of Inr d \<Rightarrow> map_of d ''database'' \<noteq> None | Inl e \<Rightarrow> False" by code_simp
  then obtain d where d: "demo_run in_order = Inr d" and n: "map_of d ''database'' \<noteq> None"
    by (auto split: sum.splits)
  let ?h = "\<lparr>h_decode = (\<lambda>ob. Inr ()), h_generate = (\<lambda>c r ob. Inr demo_generated)\<rparr> :: (unit, object) ResourceHandler"
  have h: "map_of (GetResourceHandlers demo_group) (get_kind std_ext demo_composite) = Some ?h"
    by (simp add: demo_group_def demo_composite_def std_str_def std_typed_def)
  have ns: "get_namespace std_ext demo_composite \<noteq> ''''" by code_simp
  have z: "GetTenancyZone std_ext demo_required = Inr ''zone-a''" by code_simp
  have "case map_of demo_generated ''database'' of None \<Rightarrow> False | Some ob \<Rightarrow>
      (case to_unstructured json_objects ob of Inl e \<Rightarrow> False | Inr u \<Rightarrow> is_ok (nested_map std_ext u tags_path))"
    by code_simp
  then obtain ob where g: "map_of demo_generated ''database'' = Some ob"
    and r: "\<And>u. to_unstructured json_objects ob = Inr u \<Longrightarrow> is_ok (nested_map std_ext u tags_path)"
    by (auto split: option.splits sum.splits)
  have "\<exists>e u. map_of d ''database'' = Some e \<and> to_unstructured json_objects ob = Inr u \<and>
      map_of (get_labels std_ext (dc_resource e)) TenancyZoneLabel = Some ''zone-a'' \<and>
      (''prod'' \<noteq> '''' \<longrightarrow> map_of (get_labels std_ext (dc_resource e)) TenancyWorkspaceLabel = Some ''prod'') \<and>
      (True \<longrightarrow> is_ok (nested_map std_ext u tags_path) \<longrightarrow>
        (\<exists>tags. nested_map std_ext (dc_resource e) tags_path = Inr (Some tags) \<and>
          map_of tags TenancyZoneAWSTag = Some (JStr ''zone-a'') \<and>
          (''prod'' \<noteq> '''' \<longrightarrow> map_of tags TenancyWorkspaceAWSTag = Some (JStr ''prod''))))"
    by (rule tenancy_zone_enforced [OF std.object_access_axioms demo_support demo_orders(1) cache_ok_Nil h _ _ ns z _
        d [unfolded demo_run_def] g]) (use n in simp_all)
  with d r show ?thesis by simp blast
qed

text \<open>
  C6: the tag limit. Where the tags of the object can be read, \<open>injectZone\<close> fails exactly when the merged
  tags are more than \<open>AWSTagsLimit\<close> (or cannot be written back), and what it returns holds the merged tags,
  at most 44 of them.
\<close>

theorem tags_within_limit:
  fixes ws :: string and rt :: ResourceTags
  assumes "object_access X" and "fst (supports_field X A ob tags_path c)"
    and "nested_map X u tags_path = Inr t"
  defines "tags \<equiv> zone_tags ws rt (case t of None \<Rightarrow> [] | Some m \<Rightarrow> m)"
    and "v \<equiv> set_labels X u (zone_labels ws rt (get_labels X u))"
  shows "case fst (injectZone X A ws ob u rt c) of
      Inr u' \<Rightarrow> nested_map X u' tags_path = Inr (Some tags) \<and> length tags \<le> 44
    | Inl e \<Rightarrow> 44 < length tags \<or> \<not> is_ok (set_nested_map X v tags tags_path)"
proof -
  have v: "nested_map X v tags_path = Inr t"
    using assms(3) by (simp add: v_def tags_path_def object_access.labels_frame [OF assms(1)])
  have inj: "fst (injectZone X A ws ob u rt c) = inject_tags X ws rt v"
    using assms(2) by (simp add: injectZone_def v_def case_prod_unfold Let_def)
  show ?thesis
    unfolding inj using v object_access.nested_set [OF assms(1), of v tags tags_path]
    by (cases "set_nested_map X v tags tags_path")
      (auto simp: inject_tags_def tags_def [symmetric] Let_def tags_path_def split: sum.splits failure.splits)
qed

theorem tags_within_limit_witness:
  "case fst (injectZone std_ext json_objects ''prod'' (demo_object ''Database'' []) (demo_object ''Database'' []) demo_tags []) of
     Inr u \<Rightarrow> \<exists>tags. nested_map std_ext u tags_path = Inr (Some tags) \<and> length tags \<le> 44 | Inl e \<Rightarrow> False"
proof -
  let ?u = "demo_object ''Database'' []"
  have s: "fst (supports_field std_ext json_objects ?u tags_path [])" by code_simp
  have m: "nested_map std_ext ?u tags_path = Inr (Some [(''owner'', JStr ''team-a'')])" by code_simp
  have "is_ok (fst (injectZone std_ext json_objects ''prod'' ?u ?u demo_tags []))" by code_simp
  with tags_within_limit [OF std.object_access_axioms s m, of "''prod''" demo_tags]
  show ?thesis by (auto simp: is_ok_iff)
qed

text \<open>
  C7: tag precedence. For a resource in a zone the value of a tag comes from the first of: the annotations
  of the composite, its labels, the annotations of the zone, its labels (all under \<open>tags.entigo.com/\<close>), the
  tags of the zone environment.
\<close>

theorem tag_precedence:
  assumes "object_access X" and "GetResourceTags X composite required = Inr rt"
    and "GetTenancyZone X required = Inr zone" and "zone \<noteq> ''''"
    and "getZoneEnvironmentTags X ZoneEnvKey required = Inr env"
  shows "map_of (rt_tags rt) t = first_some
    ([map_of (get_annotations X composite) (TagsPrefix @ t), map_of (get_labels X composite) (TagsPrefix @ t)] @
     (case fetched_zone required of
        None \<Rightarrow> []
      | Some z \<Rightarrow> [map_of (get_annotations X z) (TagsPrefix @ t), map_of (get_labels X z) (TagsPrefix @ t)]) @
     [map_of env t])"
proof -
  have "rt_zone rt \<noteq> ''''" using GetResourceTags_zone [OF assms(2)] assms(3,4) by simp
  from object_access.GetResourceTags_sources [OF assms(1,2) this assms(5), of t]
  show ?thesis by (simp add: object_sources_def cong: option.case_cong)
qed

theorem tag_precedence_witness:
  "\<exists>rt. GetResourceTags std_ext demo_composite demo_required = Inr rt \<and>
     map_of (rt_tags rt) ''owner'' = Some ''annotation'' \<and> map_of (rt_tags rt) ''cost'' = Some ''42'' \<and>
     map_of (rt_tags rt) ''env'' = Some ''prod''"
proof -
  have "is_ok (GetResourceTags std_ext demo_composite demo_required)" by code_simp
  then obtain rt where rt: "GetResourceTags std_ext demo_composite demo_required = Inr rt" by (auto simp: is_ok_iff)
  have z: "GetTenancyZone std_ext demo_required = Inr ''zone-a''" by code_simp
  have e: "getZoneEnvironmentTags std_ext ZoneEnvKey demo_required = Inr [(''cost'', ''0''), (''env'', ''prod'')]"
    by code_simp
  note t = tag_precedence [OF std.object_access_axioms rt z _ e]
  have "map_of (rt_tags rt) ''owner'' = Some ''annotation''" by (subst t, simp, code_simp)
  moreover have "map_of (rt_tags rt) ''cost'' = Some ''42''" by (subst t, simp, code_simp)
  moreover have "map_of (rt_tags rt) ''env'' = Some ''prod''" by (subst t, simp, code_simp)
  ultimately show ?thesis using rt by blast
qed

section \<open>Names, readiness\<close>

text \<open>
  C12: \<open>GenerateEligibleKubernetesName\<close> gives a name within the limit that is empty or starts with a
  lower-case letter, ends in an alphanumeric one, and has only lower-case letters, digits and single
  dashes. Every name that is already eligible, short enough and left alone by transliteration is kept as it is.
  The letters and digits of the name are, in order, those of the transliterated and lower-cased original from its
  first letter on: all of them when the original fits the limit, an initial part otherwise, and not nothing when
  there is a letter and the limit is positive.
\<close>

theorem eligible_kubernetes_name:
  fixes X :: ext and original :: string and limit :: nat
  defines "name \<equiv> GenerateEligibleKubernetesName X original limit"
    and "letters \<equiv> dropWhile (\<lambda>c. \<not> is_lower c) (filter alnum (to_lower (unidecode X original)))"
  shows "eligible name \<and> length name \<le> limit \<and>
    (eligible original \<and> length original \<le> limit \<and> unidecode X original = original \<longrightarrow> name = original) \<and>
    prefix (filter alnum name) letters \<and>
    (length (unidecode X original) \<le> limit \<longrightarrow> filter alnum name = letters) \<and>
    (0 < limit \<and> letters \<noteq> [] \<longrightarrow> name \<noteq> [])"
  using eligible_name [of X original limit] eligible_fixed [of original limit X]
    eligible_letters [where X = X and original = original and limit = limit]
  unfolding name_def letters_def by blast

theorem eligible_kubernetes_name_witness:
  "GenerateEligibleKubernetesName std_ext ''42 My_App--Name!'' 9 = ''my-app-na'' \<and>
   GenerateEligibleKubernetesName std_ext ''my-app-na'' 9 = ''my-app-na'' \<and>
   filter alnum (GenerateEligibleKubernetesName std_ext ''42 My_App--Name!'' 63) = ''myappname'' \<and>
   GenerateEligibleKubernetesName std_ext ''A!'' 63 \<noteq> []"
proof (intro conjI)
  show n: "GenerateEligibleKubernetesName std_ext ''42 My_App--Name!'' 9 = ''my-app-na''" by code_simp
  have "eligible ''my-app-na''" using eligible_name [of std_ext "''42 My_App--Name!''" 9] by (simp add: n)
  then show "GenerateEligibleKubernetesName std_ext ''my-app-na'' 9 = ''my-app-na''"
    using eligible_kubernetes_name [where X = std_ext and original = "''my-app-na''" and limit = 9] by simp
  have l: "dropWhile (\<lambda>c. \<not> is_lower c) (filter alnum (to_lower (unidecode std_ext ''42 My_App--Name!''))) = ''myappname''"
    "dropWhile (\<lambda>c. \<not> is_lower c) (filter alnum (to_lower (unidecode std_ext ''A!''))) = ''a''"
    by code_simp+
  show "filter alnum (GenerateEligibleKubernetesName std_ext ''42 My_App--Name!'' 63) = ''myappname''"
    using eligible_kubernetes_name [where X = std_ext and original = "''42 My_App--Name!''" and limit = 63]
    unfolding l by simp
  show "GenerateEligibleKubernetesName std_ext ''A!'' 63 \<noteq> []"
    using eligible_kubernetes_name [where X = std_ext and original = "''A!''" and limit = 63] unfolding l by simp
qed

text \<open>
  \<open>GetCrossplaneReadyStatus\<close>: a resource whose conditions hold a \<open>Synced\<close> that is not \<open>True\<close> is not
  ready; otherwise the last \<open>Ready\<close> condition decides; without one (or without conditions) a resource of an
  \<open>upbound.io\<close> API is not ready and any other is.
\<close>

theorem crossplane_ready_status:
  fixes X :: ext and ob :: object
  defines "conditions \<equiv> (case found (nested_slice X ob [''status'', ''conditions'']) of None \<Rightarrow> [] | Some cs \<Rightarrow> cs)"
  shows "GetCrossplaneReadyStatus X ob =
    (if \<exists>c \<in> set conditions. sync_failed c then ReadyFalse
     else if filter is_ready_condition conditions \<noteq> [] then condition_ready (last (filter is_ready_condition conditions))
     else if contains (get_api_version X ob) ''upbound.io'' then ReadyFalse else ReadyTrue)"
  unfolding GetCrossplaneReadyStatus_def condition_loop_spec conditions_def defaultCrossplaneReadyStatus_def
  by (cases "nested_slice X ob [''status'', ''conditions'']") (auto split: option.splits list.splits)

end
