(* ===== verification/Base_Run.thy ===== *)
theory Base_Run
  imports Base_Props
begin

text \<open>
  The run as a whole (\<open>RunFunction\<close>): requirements that arrive over several calls, failures that stop a
  run, and the status written to the composite.
\<close>

section \<open>Requirements\<close>

text \<open>A requirement is met when the request has its key and every item there is of the required type.\<close>

definition requirement_met :: "raw_resources \<Rightarrow> string \<Rightarrow> selector \<Rightarrow> bool" where
  "requirement_met raw key selector \<longleftrightarrow>
     (\<exists>items. map_of raw key = Some items \<and>
        (\<forall>item \<in> set items. item = (sel_api_version selector, sel_kind selector)))"

lemma present_loop_iff: "present_loop raw reqs \<longleftrightarrow> (\<forall>(key, selector) \<in> set reqs. requirement_met raw key selector)"
  by (induction raw reqs rule: present_loop.induct) (auto simp: requirement_met_def split: option.splits)

lemma requiredResourcesPresent_iff:
  "requiredResourcesPresent (Some reqs) raw \<longleftrightarrow> (\<forall>(key, selector) \<in> set reqs. requirement_met raw key selector)"
  by (cases reqs; cases raw) (auto simp: requiredResourcesPresent_def present_loop_iff requirement_met_def)

lemma required_namespace:
  assumes "addRequiredResources X G composite required = Inr (Some reqs)" and "get_namespace X composite \<noteq> ''''"
  shows "map_of reqs NamespaceKey = Some (RequiredNamespace (get_namespace X composite))"
  using assms by (auto simp: addRequiredResources_def res_simps Let_def split: if_splits)

lemma required_zone:
  assumes "addRequiredResources X G composite required = Inr (Some reqs)" and "get_namespace X composite \<noteq> ''''"
    and "map_of required NamespaceKey = Some (ns # rest)" and "GetTenancyZone X required = Inr zone" and "zone \<noteq> ''''"
  shows "map_of reqs ZoneKey = Some (RequiredZone zone) \<and>
    map_of reqs ZoneEnvKey = Some (RequiredEnvironmentConfig ZoneEnvName)"
  using assms by (auto simp: addRequiredResources_def res_simps Let_def)

text \<open>
  C9: as long as a requirement of the composite is not met by the request (its key is missing, or an item
  under it is of another type) the run answers with the requirements only: no resource is placed and no
  status written. For a namespaced composite the namespace is always among the requirements; once the
  namespace names a zone, so are the zone and the zone environment.
\<close>

theorem unmet_requirements_stop_the_run:
  assumes "getObservedCompositeResource X S req = Inr composite" and "\<not> SkipGeneration G composite"
    and "sdk_required S req = Inr required"
    and "addRequiredResources X G composite required = Inr (Some reqs)"
    and "(key, selector) \<in> set reqs" and "\<not> requirement_met (sdk_raw_required S req) key selector"
  shows "RunFunction X A G S ws ord req c =
      (\<lparr>rsp_requirements = Some reqs, rsp_body = sdk_to S req\<rparr>, c) \<and>
    (get_namespace X composite \<noteq> '''' \<longrightarrow>
       map_of reqs NamespaceKey = Some (RequiredNamespace (get_namespace X composite)) \<and>
       (\<forall>zone ns rest. map_of required NamespaceKey = Some (ns # rest) \<longrightarrow>
          GetTenancyZone X required = Inr zone \<longrightarrow> zone \<noteq> '''' \<longrightarrow>
          map_of reqs ZoneKey = Some (RequiredZone zone) \<and>
          map_of reqs ZoneEnvKey = Some (RequiredEnvironmentConfig ZoneEnvName)))"
proof
  have "\<not> requiredResourcesPresent (Some reqs) (sdk_raw_required S req)"
    using assms(5,6) unfolding requiredResourcesPresent_iff by blast
  with assms(1-4) show "RunFunction X A G S ws ord req c =
      (\<lparr>rsp_requirements = Some reqs, rsp_body = sdk_to S req\<rparr>, c)"
    by (simp add: RunFunction_def Let_def)
  show "get_namespace X composite \<noteq> '''' \<longrightarrow>
       map_of reqs NamespaceKey = Some (RequiredNamespace (get_namespace X composite)) \<and>
       (\<forall>zone ns rest. map_of required NamespaceKey = Some (ns # rest) \<longrightarrow>
          GetTenancyZone X required = Inr zone \<longrightarrow> zone \<noteq> '''' \<longrightarrow>
          map_of reqs ZoneKey = Some (RequiredZone zone) \<and>
          map_of reqs ZoneEnvKey = Some (RequiredEnvironmentConfig ZoneEnvName))"
    using required_namespace [OF assms(4)] required_zone [OF assms(4)] by blast
qed

text \<open>A request of the demonstration: the composite with its required and observed resources.\<close>

type_synonym demo_body = "string list \<times> desired \<times> object"

definition raw_of :: "required \<Rightarrow> raw_resources" where
  "raw_of required = map (\<lambda>(k, rs). (k, map (\<lambda>r. case r of None \<Rightarrow> ('''', '''')
     | Some ob \<Rightarrow> (get_api_version std_ext ob, get_kind std_ext ob)) rs)) required"

definition demo_sdk :: "(required, demo_body) sdk" where
  "demo_sdk = \<lparr>sdk_to = (\<lambda>req. ([], [], demo_composite)), sdk_fatal = (\<lambda>(rs, d, ob) msg. (rs @ [msg], d, ob)),
     sdk_composite = (\<lambda>req. Inr demo_composite), sdk_required = Inr, sdk_raw_required = raw_of,
     sdk_observed = (\<lambda>req. Inr demo_observed), sdk_desired = (\<lambda>req. Inr []),
     sdk_set_desired = (\<lambda>(rs, d, ob) desired. (None, (rs, desired, ob))),
     sdk_set_composite = (\<lambda>(rs, d, ob) composite. (None, (rs, d, composite)))\<rparr>"

theorem unmet_requirements_stop_the_run_witness:
  "rsp_body (fst (RunFunction std_ext json_objects demo_group demo_sdk ''prod'' in_order [] [])) =
     ([], [], demo_composite)"
proof -
  let ?reqs = "[(NamespaceKey, RequiredNamespace ''team-a'')]"
  have 1: "getObservedCompositeResource std_ext demo_sdk [] = Inr demo_composite"
    by (simp add: getObservedCompositeResource_def demo_sdk_def)
  have 2: "\<not> SkipGeneration demo_group demo_composite" by (simp add: demo_group_def)
  have 3: "sdk_required demo_sdk [] = Inr []" by (simp add: demo_sdk_def)
  have 4: "addRequiredResources std_ext demo_group demo_composite [] = Inr (Some ?reqs)" by code_simp
  have 5: "(NamespaceKey, RequiredNamespace ''team-a'') \<in> set ?reqs" by simp
  have 6: "\<not> requirement_met (sdk_raw_required demo_sdk []) NamespaceKey (RequiredNamespace ''team-a'')"
    by (simp add: requirement_met_def demo_sdk_def raw_of_def)
  show ?thesis
    using unmet_requirements_stop_the_run [OF 1 2 3 4 5 6, of json_objects "''prod''" in_order "[]"]
    by (simp add: demo_sdk_def)
qed

section \<open>Failures\<close>

text \<open>
  C10: a run whose resources cannot be generated, converted or tagged reports one fatal result, with the
  error in its context or the recovered panic, and returns the response as \<open>response.To\<close> made it: no
  desired resource and no status of it is changed.
\<close>

theorem failed_generation_is_fatal:
  assumes "getObservedCompositeResource X S req = Inr composite" and "\<not> SkipGeneration G composite"
    and "sdk_required S req = Inr required"
    and "addRequiredResources X G composite required = Inr reqs"
    and "requiredResourcesPresent reqs (sdk_raw_required S req)"
    and "sdk_observed S req = Inr observed" and "sdk_desired S req = Inr desired"
    and "fst (generate_desired X A G ws ord composite required observed desired c) = Inl e"
  shows "fst (RunFunction X A G S ws ord req c) =
    \<lparr>rsp_requirements = reqs,
     rsp_body = sdk_fatal S (sdk_to S req)
       (case e of
          Error msg \<Rightarrow> ''cannot add desired composed resources to *v1.RunFunctionResponse'' @ '': '' @ msg
        | Panic p \<Rightarrow> ''panic: '' @ p)\<rparr>"
  using assms
  by (cases "generate_desired X A G ws ord composite required observed desired c"; cases e)
    (simp_all add: RunFunction_def reconcile_def addDesiredComposedResources_def)

text \<open>The demonstration with more tags on the composite than the limit allows.\<close>

definition tag_heavy_group :: "(unit, object) GroupService" where
  "tag_heavy_group = demo_group\<lparr>GetResourceHandlers := [(''Stack'', \<lparr>h_decode = (\<lambda>ob. Inr ()),
     h_generate = (\<lambda>c r ob. Inr [(''many'',
       [(''spec'', JObj [(''forProvider'', JObj [(''tags'', JObj (map (\<lambda>i. (itoa i, JNull)) [0..<45]))])])])])\<rparr>)]\<rparr>"

theorem failed_generation_is_fatal_witness:
  "\<exists>msg. rsp_body (fst (RunFunction std_ext json_objects tag_heavy_group demo_sdk ''prod'' in_order demo_required [])) =
     ([''cannot add desired composed resources to *v1.RunFunctionResponse'' @ '': '' @ msg], [], demo_composite)"
proof -
  let ?G = tag_heavy_group
  have 1: "getObservedCompositeResource std_ext demo_sdk demo_required = Inr demo_composite"
    by (simp add: getObservedCompositeResource_def demo_sdk_def)
  have 2: "\<not> SkipGeneration ?G demo_composite" by (simp add: demo_group_def tag_heavy_group_def)
  have 3: "sdk_required demo_sdk demo_required = Inr demo_required" by (simp add: demo_sdk_def)
  have "case addRequiredResources std_ext ?G demo_composite demo_required of
      Inr reqs \<Rightarrow> requiredResourcesPresent reqs (sdk_raw_required demo_sdk demo_required) | Inl e \<Rightarrow> False" by code_simp
  then obtain reqs where 4: "addRequiredResources std_ext ?G demo_composite demo_required = Inr reqs"
    and 5: "requiredResourcesPresent reqs (sdk_raw_required demo_sdk demo_required)" by (auto split: sum.splits)
  have 6: "sdk_observed demo_sdk demo_required = Inr demo_observed" "sdk_desired demo_sdk demo_required = Inr []"
    by (simp_all add: demo_sdk_def)
  have "case fst (generate_desired std_ext json_objects ?G ''prod'' in_order demo_composite demo_required demo_observed [] []) of
      Inl (Error e) \<Rightarrow> True | _ \<Rightarrow> False" by code_simp
  then obtain e where 7: "fst (generate_desired std_ext json_objects ?G ''prod'' in_order demo_composite
      demo_required demo_observed [] []) = Inl (Error e)" by (auto split: sum.splits failure.splits)
  show ?thesis
    unfolding failed_generation_is_fatal [OF 1 2 3 4 5 6 7] by (simp add: demo_sdk_def)
qed

section \<open>Status\<close>

text \<open>
  C11: what is written to the composite's status. The map collected from the observed resources has exactly
  the keys that some observed resource contributes, with a value one of them contributes, whatever the
  iteration order. The post-processor of a group that has one (the database group) is applied to it. The
  written status has the values of the outcome and keeps every other value the status of the composite had.
\<close>

theorem composite_status_sources:
  assumes "object_access X" and "group_service G named" and "iteration ord"
    and "status_composite X G ord composite observed = Inr (Some composite')"
  shows "\<exists>collected extra old new. collects G observed collected \<and>
    (case PostProcessStatus G of
       None \<Rightarrow> extra = collected
     | Some processor \<Rightarrow> processor collected observed = Inr extra) \<and>
    nested_map X composite [''status''] = Inr (Some old) \<and>
    nested_map X composite' [''status''] = Inr (Some new) \<and>
    (\<forall>k. map_of new k = (case map_of extra k of Some v \<Rightarrow> Some v | None \<Rightarrow> map_of old k))"
proof -
  from assms(4) obtain extra old where e: "getCompositeResourceStatus G ord observed = Inr extra"
    and old: "nested_map X composite [''status''] = Inr (Some old)"
    and s: "set_nested_map X composite (gcopy old extra) [''status''] = Inr composite'"
    by (auto simp: status_composite_def res_simps split: if_splits option.splits)
  from group_service.status_collected [OF assms(2) e assms(3)] obtain collected
    where c: "collects G observed collected" "wf_map extra"
      "case PostProcessStatus G of None \<Rightarrow> extra = collected | Some processor \<Rightarrow> processor collected observed = Inr extra" .
  have "nested_map X composite' [''status''] = Inr (Some (gcopy old extra))"
    using object_access.nested_set [OF assms(1) s] by simp
  with c old show ?thesis by (auto simp: map_of_gcopy_apply [OF c(2)])
qed

interpretation demo: group_service demo_group "\<lambda>c. True"
proof
  show "GetObservedStatus demo_group ob = Inr st \<Longrightarrow> wf_map st" for ob st
    by (auto simp: demo_group_def)
  show "\<exists>names. sequence_names demo_group obj gen = Inr names" for obj gen
  proof (rule sequence_names_ok)
    have "\<forall>s \<in> set (seq_steps (GetSequence demo_group ())). \<forall>p \<in> set (step_objects s). pattern_ok p" by code_simp
    then show "\<forall>s \<in> set (seq_steps (GetSequence demo_group obj)). \<forall>p \<in> set (step_objects s). pattern_ok p" by simp
  qed
qed (auto simp: demo_group_def demo_generated_def split: if_splits)

text \<open>The demonstration with a post-processor that adds the number of observed resources.\<close>

definition counting_group :: "(unit, object) GroupService" where
  "counting_group = demo_group\<lparr>PostProcessStatus :=
     Some (\<lambda>st observed. Inr (gset ''count'' (JStr (itoa (length observed))) st))\<rparr>"

lemma counting_group_service: "group_service counting_group (\<lambda>c. True)"
  using demo.group_service_axioms
  by (auto simp: group_service_def counting_group_def sequence_names_def)


theorem composite_status_sources_witness:
  "\<exists>composite' new. status_composite std_ext counting_group in_order demo_composite demo_observed = Inr (Some composite') \<and>
     nested_map std_ext composite' [''status''] = Inr (Some new) \<and> map_of new ''phase'' = Some (JStr ''new'') \<and>
     map_of new ''count'' = Some (JStr ''1'') \<and> map_of new ''endpoint'' = Some (JStr ''Instance'')"
proof -
  have "is_ok (status_composite std_ext counting_group in_order demo_composite demo_observed) \<and>
      status_composite std_ext counting_group in_order demo_composite demo_observed \<noteq> Inr None" by code_simp
  then obtain c where c: "status_composite std_ext counting_group in_order demo_composite demo_observed = Inr (Some c)"
    by (auto simp: is_ok_iff)
  have old: "nested_map std_ext demo_composite [''status''] = Inr (Some [(''phase'', JStr ''new'')])" by code_simp
  have p: "PostProcessStatus counting_group =
      Some (\<lambda>st observed. Inr (gset ''count'' (JStr (itoa (length observed))) st))" by (simp add: counting_group_def)
  have n: "contributes counting_group demo_observed n k v \<longleftrightarrow> n = ''instance-a'' \<and> k = ''endpoint'' \<and> v = JStr ''Instance''"
    for n k v
    by (auto simp: contributes_def counting_group_def demo_group_def demo_observed_def demo_object_def std_str_def std_typed_def)
  from composite_status_sources [OF std.object_access_axioms counting_group_service demo_orders(1) c] old
  obtain collected new where col: "collects counting_group demo_observed collected"
    and new: "nested_map std_ext c [''status''] = Inr (Some new)"
    and v: "\<And>k. map_of new k = (case map_of (gset ''count'' (JStr (itoa (length demo_observed))) collected) k of
      Some v \<Rightarrow> Some v | None \<Rightarrow> map_of [(''phase'', JStr ''new'')] k)"
    by (auto simp: p)
  have "\<not> contributes counting_group demo_observed m ''phase'' w" for m w by (simp add: n)
  with col have "map_of collected ''phase'' = None" unfolding collects_def by metis
  moreover have "contributes counting_group demo_observed ''instance-a'' ''endpoint'' (JStr ''Instance'')" by (simp add: n)
  with col obtain m v where "map_of collected ''endpoint'' = Some v \<and> contributes counting_group demo_observed m ''endpoint'' v"
    unfolding collects_def by metis
  then have "map_of collected ''endpoint'' = Some (JStr ''Instance'')" by (simp add: n)
  moreover have "itoa (length demo_observed) = ''1''" by code_simp
  ultimately show ?thesis using c new by (auto simp: v)
qed

end
