(* ===== verification/Go_Encoding.thy ===== *)
theory Go_Encoding
  imports Go_Strings
begin

unbundle bit_operations_syntax

text \<open>
  The encodings of Go's standard library that the repository uses: \<open>encoding/json\<close> for the documents it
  marshals, \<open>encoding/base64\<close> and \<open>crypto/sha256\<close>.
\<close>

section \<open>JSON documents\<close>

text \<open>The fields of an object are in the order in which \<open>json.Marshal\<close> writes them.\<close>

datatype doc = DBool bool | DInt int | DStr string | DArr "doc list" | DObj "(string \<times> doc) list"

definition html_or_control :: "char \<Rightarrow> bool" where
  "html_or_control c \<longleftrightarrow> code c < 32 \<or> c \<in> set ''<>&''"

definition escape_char :: "char \<Rightarrow> string" where
  "escape_char c =
     (if c = CHR 0x22 \<or> c = CHR 0x5C then [CHR 0x5C, c]
      else if c = CHR 0x08 then [CHR 0x5C, CHR ''b'']
      else if c = CHR 0x0C then [CHR 0x5C, CHR ''f'']
      else if c = CHR 0x0A then [CHR 0x5C, CHR ''n'']
      else if c = CHR 0x0D then [CHR 0x5C, CHR ''r'']
      else if c = CHR 0x09 then [CHR 0x5C, CHR ''t'']
      else if html_or_control c then [CHR 0x5C, CHR ''u'', CHR ''0'', CHR ''0''] @ hex_byte (code c)
      else [c])"

text \<open>
  The length of the UTF-8 sequence at the start of a text: 1 for ASCII, 2 to 4 for a longer one, 0 when the
  bytes there are not valid UTF-8.
\<close>

definition byte_in :: "nat \<Rightarrow> nat \<Rightarrow> string \<Rightarrow> nat \<Rightarrow> bool" where
  "byte_in lo hi s i \<longleftrightarrow> i < length s \<and> lo \<le> code (s ! i) \<and> code (s ! i) \<le> hi"

definition lead3 :: "string \<Rightarrow> bool" where
  "lead3 s \<longleftrightarrow>
     byte_in 224 224 s 0 \<and> byte_in 160 191 s 1 \<or> byte_in 225 236 s 0 \<and> byte_in 128 191 s 1 \<or>
     byte_in 237 237 s 0 \<and> byte_in 128 159 s 1 \<or> byte_in 238 239 s 0 \<and> byte_in 128 191 s 1"

definition lead4 :: "string \<Rightarrow> bool" where
  "lead4 s \<longleftrightarrow>
     byte_in 240 240 s 0 \<and> byte_in 144 191 s 1 \<or> byte_in 241 243 s 0 \<and> byte_in 128 191 s 1 \<or>
     byte_in 244 244 s 0 \<and> byte_in 128 143 s 1"

definition utf8_len :: "string \<Rightarrow> nat" where
  "utf8_len s =
     (if byte_in 0 127 s 0 then 1
      else if byte_in 194 223 s 0 \<and> byte_in 128 191 s 1 then 2
      else if lead3 s \<and> byte_in 128 191 s 2 then 3
      else if lead4 s \<and> byte_in 128 191 s 2 \<and> byte_in 128 191 s 3 then 4
      else 0)"

text \<open>An invalid byte is written as the replacement character, the two line separators are escaped.\<close>

definition escape_rune :: "string \<Rightarrow> string" where
  "escape_rune r =
     (if r = [CHR 0xE2, CHR 0x80, CHR 0xA8] then CHR 0x5C # ''u2028''
      else if r = [CHR 0xE2, CHR 0x80, CHR 0xA9] then CHR 0x5C # ''u2029'' else r)"

function escape_text :: "string \<Rightarrow> string" where
  "escape_text [] = []"
| "escape_text (c # s) =
     (if utf8_len (c # s) = 0 then CHR 0x5C # ''ufffd'' @ escape_text s
      else if utf8_len (c # s) = 1 then escape_char c @ escape_text s
      else escape_rune (take (utf8_len (c # s)) (c # s)) @ escape_text (drop (utf8_len (c # s)) (c # s)))"
  by pat_completeness auto
termination by (relation "measure length") auto

text \<open>What a reader of the document sees: invalid bytes replaced, valid text unchanged.\<close>

function sanitize :: "string \<Rightarrow> string" where
  "sanitize [] = []"
| "sanitize (c # s) =
     (if utf8_len (c # s) = 0 then [CHR 0xEF, CHR 0xBF, CHR 0xBD] @ sanitize s
      else take (utf8_len (c # s)) (c # s) @ sanitize (drop (utf8_len (c # s)) (c # s)))"
  by pat_completeness auto
termination by (relation "measure length") auto

function valid_utf8 :: "string \<Rightarrow> bool" where
  "valid_utf8 [] = True"
| "valid_utf8 (c # s) = (utf8_len (c # s) \<noteq> 0 \<and> valid_utf8 (drop (max 1 (utf8_len (c # s))) (c # s)))"
  by pat_completeness auto
termination by (relation "measure length") auto

declare escape_text.simps(2) [simp del] sanitize.simps(2) [simp del] valid_utf8.simps(2) [simp del]

lemma sanitize_valid: "valid_utf8 s \<Longrightarrow> sanitize s = s"
proof (induction s rule: sanitize.induct)
  case (2 c s)
  then have "utf8_len (c # s) \<noteq> 0" "max 1 (utf8_len (c # s)) = utf8_len (c # s)"
    "valid_utf8 (drop (utf8_len (c # s)) (c # s))"
    by (auto simp: valid_utf8.simps(2) max_def)
  with 2(2) show ?case by (simp add: sanitize.simps(2))
qed simp

lemma byte_in_0: "byte_in lo hi (c # s) 0 \<longleftrightarrow> lo \<le> code c \<and> code c \<le> hi"
  by (simp add: byte_in_def)

lemma byte_inD: "byte_in lo hi s i \<Longrightarrow> lo \<le> code (s ! i)"
  by (simp add: byte_in_def)

lemma utf8_len_index:
  assumes "i < utf8_len s" and "utf8_len s \<noteq> 1"
  shows "128 \<le> code (s ! i)"
proof -
  have "utf8_len s \<le> 4" by (simp add: utf8_len_def)
  with assms(1) consider "i = 0" | "i = 1" | "i = 2" "2 < utf8_len s" | "i = 3" "3 < utf8_len s" by linarith
  then show ?thesis
    using assms by cases (auto simp: utf8_len_def lead3_def lead4_def dest!: byte_inD split: if_splits)
qed

lemma utf8_len_long: "utf8_len s \<noteq> 0 \<Longrightarrow> utf8_len s \<noteq> 1 \<Longrightarrow> d \<in> set (take (utf8_len s) s) \<Longrightarrow> 128 \<le> code d"
  using utf8_len_index [of _ s] by (auto simp: in_set_conv_nth)

lemma utf8_len_ascii: "code c < 128 \<Longrightarrow> utf8_len (c # s) = 1"
  by (simp add: utf8_len_def byte_in_def)

definition json_quote :: "string \<Rightarrow> string" where
  "json_quote s = CHR 0x22 # escape_text s @ [CHR 0x22]"

fun marshal :: "doc \<Rightarrow> string" and marshal_items :: "doc list \<Rightarrow> string list"
  and marshal_fields :: "(string \<times> doc) list \<Rightarrow> string list" where
  "marshal (DBool b) = (if b then ''true'' else ''false'')"
| "marshal (DInt i) = show_int i"
| "marshal (DStr s) = json_quote s"
| "marshal (DArr xs) = ''['' @ join '','' (marshal_items xs) @ '']''"
| "marshal (DObj fs) = ''{'' @ join '','' (marshal_fields fs) @ ''}''"
| "marshal_items [] = []"
| "marshal_items (x # xs) = marshal x # marshal_items xs"
| "marshal_fields [] = []"
| "marshal_fields ((k, v) # fs) = (json_quote k @ '':'' @ marshal v) # marshal_fields fs"

text \<open>A field of a struct with \<open>omitempty\<close> is written only when it is not the zero value.\<close>

definition omit_empty :: "bool \<Rightarrow> string \<Rightarrow> doc \<Rightarrow> (string \<times> doc) list" where
  "omit_empty is_zero name v = (if is_zero then [] else [(name, v)])"

section \<open>Reading JSON\<close>

text \<open>
  The contents of a JSON string, from after its opening quote to its closing one, with what follows.
  Escapes are decoded, an unpaired surrogate and an invalid byte become the replacement character, a
  control character is an error.
\<close>

definition hex_digit :: "char \<Rightarrow> nat option" where
  "hex_digit c =
     (if is_digit c then Some (code c - 48)
      else if 97 \<le> code c \<and> code c \<le> 102 then Some (code c - 87)
      else if 65 \<le> code c \<and> code c \<le> 70 then Some (code c - 55) else None)"

fun hex4 :: "string \<Rightarrow> nat option" where
  "hex4 (a # b # c # d # s) =
     (case (hex_digit a, hex_digit b, hex_digit c, hex_digit d) of
        (Some w, Some x, Some y, Some z) \<Rightarrow> Some (((w * 16 + x) * 16 + y) * 16 + z)
      | _ \<Rightarrow> None)"
| "hex4 s = None"

definition utf8_encode :: "nat \<Rightarrow> string" where
  "utf8_encode u =
     map char_of
       (if u < 128 then [u]
        else if u < 2048 then [192 + u div 64, 128 + u mod 64]
        else if u < 65536 then [224 + u div 4096, 128 + u div 64 mod 64, 128 + u mod 64]
        else [240 + u div 262144, 128 + u div 4096 mod 64, 128 + u div 64 mod 64, 128 + u mod (64 :: nat)])"

definition simple_escape :: "char \<Rightarrow> char option" where
  "simple_escape e =
     (if e = CHR 0x22 \<or> e = CHR 0x5C \<or> e = CHR ''/'' then Some e
      else if e = CHR ''b'' then Some (CHR 0x08) else if e = CHR ''f'' then Some (CHR 0x0C)
      else if e = CHR ''n'' then Some (CHR 0x0A) else if e = CHR ''r'' then Some (CHR 0x0D)
      else if e = CHR ''t'' then Some (CHR 0x09) else None)"

abbreviation replacement :: string where "replacement \<equiv> [CHR 0xEF, CHR 0xBF, CHR 0xBD]"

text \<open>The character of a \<open>\u\<close> escape, and how many characters after the first four digits belong to it.\<close>

definition unicode_escape :: "nat \<Rightarrow> string \<Rightarrow> string \<times> nat" where
  "unicode_escape u s =
     (if u < 55296 \<or> 57343 < u then (utf8_encode u, 0)
      else if u < 56320 \<and> take 2 s = [CHR 0x5C, CHR ''u''] then
        (case hex4 (drop 2 s) of
           Some v \<Rightarrow> if 56320 \<le> v \<and> v \<le> 57343 then (utf8_encode (65536 + (u - 55296) * 1024 + (v - 56320)), 6)
                     else (replacement, 0)
         | None \<Rightarrow> (replacement, 0))
      else (replacement, 0))"

definition onto :: "string \<Rightarrow> (string \<times> string) option \<Rightarrow> (string \<times> string) option" where
  "onto t r = map_option (\<lambda>(u, rest). (t @ u, rest)) r"

function json_string :: "string \<Rightarrow> (string \<times> string) option" where
  "json_string [] = None"
| "json_string (c # s) =
     (if c = CHR 0x22 then Some ([], s)
      else if code c < 32 then None
      else if c = CHR 0x5C then
        (if s = [] then None
         else if hd s = CHR ''u'' then
           (case hex4 (tl s) of
              None \<Rightarrow> None
            | Some u \<Rightarrow> onto (fst (unicode_escape u (drop 5 s))) (json_string (drop (5 + snd (unicode_escape u (drop 5 s))) s)))
         else (case simple_escape (hd s) of None \<Rightarrow> None | Some d \<Rightarrow> onto [d] (json_string (tl s))))
      else if utf8_len (c # s) = 0 then onto replacement (json_string s)
      else onto (take (utf8_len (c # s)) (c # s)) (json_string (drop (utf8_len (c # s)) (c # s))))"
  by pat_completeness auto
termination by (relation "measure length") auto

declare json_string.simps(2) [simp del]

lemma onto_Some [simp]: "onto t (Some (u, rest)) = Some (t @ u, rest)"
  by (simp add: onto_def)

lemma onto_onto [simp]: "onto t (onto u r) = onto (t @ u) r"
  by (cases r) (auto simp: onto_def)

lemma onto_Nil [simp]: "onto [] r = r"
  by (cases r) (auto simp: onto_def)

lemma onto_eq_Some: "onto t r = Some (v, rest) \<longleftrightarrow> (\<exists>u. r = Some (u, rest) \<and> v = t @ u)"
  by (cases r) (auto simp: onto_def)

text \<open>Reading ends within the text, so that what follows is shorter.\<close>

lemma json_string_shorter: "json_string s = Some (t, r) \<Longrightarrow> length r < length s"
proof (induction s arbitrary: t rule: json_string.induct)
  case (2 c s)
  have step: "json_string (drop n (x # s)) = Some (v, r) \<Longrightarrow> length r < length (drop n (x # s)) \<Longrightarrow> length r < Suc (length s)" for n x v
    by simp
  show ?case
    using 2 by (auto simp: json_string.simps(2) [of c s] onto_eq_Some split: if_splits option.splits)
      (fastforce dest: less_le_trans [of _ _ "Suc (length s)"])+
qed simp

section \<open>What was written is read back\<close>

lemma json_string_end: "json_string (CHR 0x22 # s) = Some ([], s)"
  by (simp add: json_string.simps(2))

lemma json_string_simple:
  "simple_escape e = Some d \<Longrightarrow> json_string (CHR 0x5C # e # s) = onto [d] (json_string s)"
  by (subst json_string.simps(2)) (auto simp: simple_escape_def split: if_splits)

lemma json_string_unicode:
  assumes "length ds = 4" and "hex4 ds = Some u" and "u < 55296 \<or> 57343 < u"
  shows "json_string (CHR 0x5C # CHR ''u'' # ds @ s) = onto (utf8_encode u) (json_string s)"
proof -
  from assms(1) obtain a b c d where ds: "ds = [a, b, c, d]"
    by (auto simp: length_Suc_conv eval_nat_numeral)
  with assms(2) have "hex4 (ds @ s) = Some u" by simp
  then show ?thesis using assms(3) ds by (subst json_string.simps(2)) (simp add: unicode_escape_def)
qed

lemma hex_digit_char [simp]: "d < 16 \<Longrightarrow> hex_digit (digit_char d) = Some d"
  by (auto simp: hex_digit_def digit_char_def is_digit_def)

lemma json_string_ascii:
  assumes "code c < 128"
  shows "json_string (escape_char c @ s) = onto [c] (json_string s)"
proof (cases "c \<in> {CHR 0x22, CHR 0x5C, CHR 0x08, CHR 0x0C, CHR 0x0A, CHR 0x0D, CHR 0x09}")
  case True
  then show ?thesis by (auto simp: escape_char_def json_string_simple simple_escape_def)
next
  case False
  show ?thesis
  proof (cases "html_or_control c")
    case True
    let ?ds = "[CHR ''0'', CHR ''0''] @ hex_byte (code c)"
    from True False have e: "escape_char c = CHR 0x5C # CHR ''u'' # ?ds" by (simp add: escape_char_def)
    have z: "hex_digit (CHR ''0'') = Some 0" by (simp add: hex_digit_def is_digit_def)
    have "hex4 ?ds = Some (code c)" using assms by (simp add: hex_byte_def z)
    moreover have "utf8_encode (code c) = [c]" using assms by (simp add: utf8_encode_def)
    ultimately show ?thesis using json_string_unicode [of ?ds "code c" s] assms e by (simp add: hex_byte_def)
  next
    case no: False
    with False have e: "escape_char c = [c]" by (simp add: escape_char_def)
    have "\<not> code c < 32" using no by (simp add: html_or_control_def)
    then show ?thesis
      using False utf8_len_ascii [OF assms, of s] unfolding e by (simp add: json_string.simps(2))
  qed
qed

lemma byte_in_take: "i < n \<Longrightarrow> n \<le> length s \<Longrightarrow> byte_in lo hi (take n s @ t) i \<longleftrightarrow> byte_in lo hi s i"
  by (auto simp: byte_in_def nth_append)

lemma utf8_len_le: "utf8_len s \<le> length s"
proof -
  have b: "byte_in lo hi s i \<Longrightarrow> Suc i \<le> length s" for lo hi i by (simp add: byte_in_def)
  show ?thesis
    using b [of 0 127 0] b [of 128 191 1] b [of 128 191 2] b [of 128 191 3] by (auto simp: utf8_len_def)
qed

lemma utf8_len_eq:
  "utf8_len s = 1 \<longleftrightarrow> byte_in 0 127 s 0"
  "utf8_len s = 2 \<longleftrightarrow> \<not> byte_in 0 127 s 0 \<and> byte_in 194 223 s 0 \<and> byte_in 128 191 s 1"
  "utf8_len s = 3 \<longleftrightarrow> \<not> byte_in 0 127 s 0 \<and> \<not> (byte_in 194 223 s 0 \<and> byte_in 128 191 s 1) \<and>
     lead3 s \<and> byte_in 128 191 s 2"
  "utf8_len s = 4 \<longleftrightarrow> \<not> byte_in 0 127 s 0 \<and> \<not> (byte_in 194 223 s 0 \<and> byte_in 128 191 s 1) \<and>
     \<not> (lead3 s \<and> byte_in 128 191 s 2) \<and> lead4 s \<and> byte_in 128 191 s 2 \<and> byte_in 128 191 s 3"
  by (simp_all add: utf8_len_def)

lemma lead_take:
  assumes "2 \<le> n" and "n \<le> length s"
  shows "lead3 (take n s @ t) = lead3 s" and "lead4 (take n s @ t) = lead4 s"
  using assms by (simp_all add: lead3_def lead4_def byte_in_take)

lemma utf8_len_take:
  assumes "utf8_len s \<noteq> 0"
  shows "utf8_len (take (utf8_len s) s @ t) = utf8_len s"
proof -
  note le = utf8_len_le [of s]
  have "utf8_len s \<le> 4" by (simp add: utf8_len_def)
  with assms consider "utf8_len s = 1" | "utf8_len s = 2" | "utf8_len s = 3" | "utf8_len s = 4" by linarith
  then show ?thesis
  proof cases
    case 1
    with le have l: "1 \<le> length s" by simp
    have "utf8_len (take 1 s @ t) = 1"
      using 1 byte_in_take [OF zero_less_one l, of 0 127 t] unfolding utf8_len_eq by blast
    with 1 show ?thesis by simp
  next
    case 2
    with le have l: "2 \<le> length s" by simp
    have "utf8_len (take 2 s @ t) = 2"
      using 2 l by (simp only: utf8_len_eq) (simp add: byte_in_take lead_take)
    with 2 show ?thesis by simp
  next
    case 3
    with le have l: "3 \<le> length s" by simp
    have "utf8_len (take 3 s @ t) = 3"
      using 3 l by (simp only: utf8_len_eq) (simp add: byte_in_take lead_take)
    with 3 show ?thesis by simp
  next
    case 4
    with le have l: "4 \<le> length s" by simp
    have "utf8_len (take 4 s @ t) = 4"
      using 4 l by (simp only: utf8_len_eq) (auto simp: byte_in_take lead_take)
    with 4 show ?thesis by simp
  qed
qed

lemma json_string_rune:
  assumes "utf8_len s \<noteq> 0" and "utf8_len s \<noteq> 1"
  shows "json_string (escape_rune (take (utf8_len s) s) @ t) = onto (take (utf8_len s) s) (json_string t)"
proof -
  let ?r = "take (utf8_len s) s"
  consider (a) "?r = [CHR 0xE2, CHR 0x80, CHR 0xA8]" | (b) "?r = [CHR 0xE2, CHR 0x80, CHR 0xA9]"
    | (c) "escape_rune ?r = ?r" unfolding escape_rune_def by argo
  then show ?thesis
  proof cases
    case a
    have "hex4 ''2028'' = Some 8232" by (simp add: hex_digit_def is_digit_def)
    moreover have "utf8_encode 8232 = ?r" unfolding a by (simp add: utf8_encode_def char_of_eq_iff)
    ultimately show ?thesis
      using json_string_unicode [of "''2028''" 8232 t] by (simp add: escape_rune_def a)
  next
    case b
    have "hex4 ''2029'' = Some 8233" by (simp add: hex_digit_def is_digit_def)
    moreover have "utf8_encode 8233 = ?r" unfolding b by (simp add: utf8_encode_def char_of_eq_iff)
    ultimately show ?thesis
      using json_string_unicode [of "''2029''" 8233 t] by (simp add: escape_rune_def b)
  next
    case c
    have ne: "?r \<noteq> []" using assms(1) utf8_len_le [of s] by auto
    then obtain d ds where r: "?r = d # ds" by (cases ?r) auto
    have "128 \<le> code d" using utf8_len_long [OF assms, of d] r by simp
    then have d: "d \<noteq> CHR 0x22" "d \<noteq> CHR 0x5C" "\<not> code d < 32" by auto
    have len: "utf8_len (?r @ t) = utf8_len s" by (rule utf8_len_take [OF assms(1)])
    have l: "length ?r = utf8_len s" using utf8_len_le [of s] by simp
    have "json_string (?r @ t) = onto (take (utf8_len s) (?r @ t)) (json_string (drop (utf8_len s) (?r @ t)))"
      using json_string.simps(2) [of d "ds @ t"] d len assms(1) unfolding r by simp
    then show ?thesis unfolding c using l by simp
  qed
qed

lemma json_string_escape_text: "json_string (escape_text s @ rest) = onto (sanitize s) (json_string rest)"
proof (induction s rule: escape_text.induct)
  case (2 c s)
  let ?n = "utf8_len (c # s)"
  consider (invalid) "?n = 0" | (ascii) "?n = 1" | (rune) "?n \<noteq> 0" "?n \<noteq> 1" by blast
  then show ?case
  proof cases
    case invalid
    have h: "hex4 ''fffd'' = Some 65533" by (simp add: hex_digit_def is_digit_def)
    have "json_string (CHR 0x5C # CHR ''u'' # ''fffd'' @ escape_text s @ rest) =
        onto (utf8_encode 65533) (json_string (escape_text s @ rest))"
      by (rule json_string_unicode) (simp_all only: h, simp_all)
    moreover have "utf8_encode 65533 = replacement" by (simp add: utf8_encode_def char_of_eq_iff)
    ultimately show ?thesis using 2(1) [OF invalid] by (simp add: escape_text.simps(2) sanitize.simps(2) invalid)
  next
    case ascii
    then have "code c < 128" by (auto simp: utf8_len_def byte_in_def split: if_splits)
    from json_string_ascii [OF this] show ?thesis
      using 2(2) [OF _ ascii] ascii by (simp add: escape_text.simps(2) sanitize.simps(2))
  next
    case rune
    have "json_string (escape_text (c # s) @ rest) =
        json_string (escape_rune (take ?n (c # s)) @ escape_text (drop ?n (c # s)) @ rest)"
      using rune by (simp add: escape_text.simps(2))
    also have "\<dots> = onto (take ?n (c # s)) (onto (sanitize (drop ?n (c # s))) (json_string rest))"
      using json_string_rune [OF rune] 2(3) [OF rune] by simp
    finally show ?thesis using rune by (simp add: sanitize.simps(2))
  qed
qed simp

lemma json_quote_roundtrip: "json_string (tl (json_quote s @ rest)) = Some (sanitize s, rest)"
  by (simp add: json_quote_def json_string_escape_text json_string_end)

lemma json_quote_inj:
  assumes "json_quote s @ rest = json_quote s' @ rest'" and "valid_utf8 s" and "valid_utf8 s'"
  shows "s = s' \<and> rest = rest'"
  using json_quote_roundtrip [of s rest] json_quote_roundtrip [of s' rest'] assms
  by (metis Pair_inject option.inject sanitize_valid)

section \<open>An object of strings\<close>

text \<open>
  \<open>json.Unmarshal\<close> into a \<open>map[string]string\<close>: an object whose values are strings, or null for the empty
  string; null gives the nil map; anything else is an error.
\<close>

definition json_space :: "char \<Rightarrow> bool" where
  "json_space c \<longleftrightarrow> c \<in> {CHR '' '', CHR 0x09, CHR 0x0A, CHR 0x0D}"

abbreviation skip_space :: "string \<Rightarrow> string" where "skip_space \<equiv> dropWhile json_space"

definition expect :: "char \<Rightarrow> string \<Rightarrow> string option" where
  "expect c s = (case skip_space s of [] \<Rightarrow> None | d # r \<Rightarrow> if d = c then Some r else None)"

definition expect_null :: "string \<Rightarrow> string option" where
  "expect_null s = (if prefix ''null'' (skip_space s) then Some (drop 4 (skip_space s)) else None)"

definition json_text :: "string \<Rightarrow> (string \<times> string) option" where
  "json_text s = Option.bind (expect (CHR 0x22) s) json_string"

definition text_or_null :: "string \<Rightarrow> (string \<times> string) option" where
  "text_or_null s = (case expect_null s of Some r \<Rightarrow> Some ('''', r) | None \<Rightarrow> json_text s)"

definition json_member :: "string \<Rightarrow> ((string \<times> string) \<times> string) option" where
  "json_member s =
     Option.bind (json_text s) (\<lambda>(k, r).
     Option.bind (expect (CHR '':'') r) (\<lambda>r.
     map_option (\<lambda>(v, r). ((k, v), r)) (text_or_null r)))"

lemma expect_shorter: "expect c s = Some r \<Longrightarrow> length r < length s"
  using length_dropWhile_le [of json_space s] by (auto simp: expect_def split: list.splits if_splits)

lemma json_text_shorter: "json_text s = Some (t, r) \<Longrightarrow> length r < length s"
  using expect_shorter json_string_shorter by (fastforce simp: json_text_def bind_eq_Some_conv)

lemma text_or_null_shorter: "text_or_null s = Some (t, r) \<Longrightarrow> length r \<le> length s"
  using length_dropWhile_le [of json_space s] json_text_shorter [of s]
  by (fastforce simp: text_or_null_def expect_null_def split: option.splits if_splits)

lemma json_member_shorter: "json_member s = Some (kv, r) \<Longrightarrow> length r < length s"
  by (fastforce simp: json_member_def bind_eq_Some_conv
      dest: json_text_shorter expect_shorter text_or_null_shorter)

function json_members :: "string gomap \<Rightarrow> string \<Rightarrow> (string gomap \<times> string) option" where
  "json_members m s =
     (case json_member s of
        None \<Rightarrow> None
      | Some ((k, v), r) \<Rightarrow>
          (case expect (CHR '','') r of
             Some r' \<Rightarrow> json_members (gset k v m) r'
           | None \<Rightarrow> map_option (\<lambda>r'. (gset k v m, r')) (expect (CHR ''}'') r)))"
  by pat_completeness auto
termination
  by (relation "measure (\<lambda>(m, s). length s)") (auto dest!: json_member_shorter expect_shorter)

declare json_members.simps [simp del]

definition json_object :: "string \<Rightarrow> (string gomap \<times> string) option" where
  "json_object s =
     Option.bind (expect (CHR ''{'') s) (\<lambda>r.
       case expect (CHR ''}'') r of Some r' \<Rightarrow> Some ([], r') | None \<Rightarrow> json_members [] r)"

definition unmarshal_strings :: "string \<Rightarrow> string gomap option" where
  "unmarshal_strings s =
     (case (case expect_null s of Some r \<Rightarrow> Some ([], r) | None \<Rightarrow> json_object s) of
        Some (m, r) \<Rightarrow> if skip_space r = [] then Some m else None
      | None \<Rightarrow> None)"

text \<open>What \<open>marshal\<close> writes for such an object is read back.\<close>

definition string_fields :: "string gomap \<Rightarrow> (string \<times> doc) list" where
  "string_fields = map (\<lambda>(k, v). (k, DStr v))"

definition sanitized :: "string gomap \<Rightarrow> string gomap" where
  "sanitized = map (\<lambda>(k, v). (sanitize k, sanitize v))"

lemma expect_hit [simp]: "\<not> json_space c \<Longrightarrow> expect c (c # s) = Some s"
  by (simp add: expect_def)

lemma expect_miss [simp]: "\<not> json_space d \<Longrightarrow> d \<noteq> c \<Longrightarrow> expect c (d # s) = None"
  by (simp add: expect_def)

lemma json_space_simps [simp]:
  "\<not> json_space (CHR 0x22)" "\<not> json_space (CHR '','')" "\<not> json_space (CHR '':'')"
  "\<not> json_space (CHR ''{'')" "\<not> json_space (CHR ''}'')"
  by (simp_all add: json_space_def)

lemma json_text_quote [simp]: "json_text (json_quote s @ rest) = Some (sanitize s, rest)"
  by (simp add: json_text_def json_quote_def json_string_escape_text json_string_end)

lemma text_or_null_quote [simp]: "text_or_null (json_quote s @ rest) = Some (sanitize s, rest)"
  using json_text_quote [of s rest] by (simp add: text_or_null_def expect_null_def json_quote_def)

lemma json_member_quote [simp]:
  "json_member (json_quote k @ CHR '':'' # json_quote v @ rest) = Some ((sanitize k, sanitize v), rest)"
  by (simp add: json_member_def)

lemma json_members_marshal:
  assumes "fs \<noteq> []"
  shows "json_members m (join '','' (marshal_fields (string_fields fs)) @ ''}'' @ rest) =
    Some (gcopy m (sanitized fs), rest)"
  using assms
proof (induction fs arbitrary: m)
  case (Cons kv fs)
  obtain k v where kv: "kv = (k, v)" by (cases kv)
  show ?case
  proof (cases "fs = []")
    case True
    then show ?thesis
      by (simp add: kv json_members.simps [of m] string_fields_def sanitized_def gcopy_def)
  next
    case False
    then have ne: "marshal_fields (string_fields fs) \<noteq> []" by (cases fs) (auto simp: string_fields_def)
    let ?tail = "join '','' (marshal_fields (string_fields fs)) @ ''}'' @ rest"
    have e: "join '','' (marshal_fields (string_fields (kv # fs))) @ ''}'' @ rest =
        json_quote k @ CHR '':'' # json_quote v @ CHR '','' # ?tail"
      using ne by (simp add: kv string_fields_def join_Cons)
    show ?thesis
      unfolding e json_members.simps [of m "json_quote k @ _"] using Cons.IH [OF False, of "gset (sanitize k) (sanitize v) m"]
      by (simp add: kv sanitized_def gcopy_def)
  qed
qed simp

lemma unmarshal_marshal:
  "unmarshal_strings (marshal (DObj (string_fields fs))) = Some (gcopy [] (sanitized fs))"
proof (cases "fs = []")
  case True
  then show ?thesis
    by (simp add: unmarshal_strings_def expect_null_def json_object_def string_fields_def sanitized_def)
next
  case False
  have q: "\<exists>t. join '','' (marshal_fields (string_fields fs)) @ ''}'' = CHR 0x22 # t"
    using False by (cases fs; cases "tl fs") (auto simp: string_fields_def json_quote_def)
  then obtain t where t: "join '','' (marshal_fields (string_fields fs)) @ ''}'' = CHR 0x22 # t" by blast
  have "json_members [] (CHR 0x22 # t) = Some (gcopy [] (sanitized fs), [])"
    using json_members_marshal [OF False, of "[]" "[]"] t by simp
  then show ?thesis
    using t by (simp add: unmarshal_strings_def expect_null_def json_object_def)
qed

section \<open>Base64\<close>

text \<open>\<open>base64.StdEncoding\<close>.\<close>

definition b64_char :: "nat \<Rightarrow> char" where
  "b64_char n = char_of (if n < 26 then 65 + n else if n < 52 then 71 + n
     else if n < 62 then n - 4 else if n = 62 then 43 else (47 :: nat))"

definition b64_value :: "char \<Rightarrow> nat option" where
  "b64_value c =
     (if is_upper c then Some (code c - 65) else if is_lower c then Some (code c - 71)
      else if is_digit c then Some (code c + 4) else if code c = 43 then Some 62
      else if code c = 47 then Some 63 else None)"

fun b64_encode :: "string \<Rightarrow> string" where
  "b64_encode [] = []"
| "b64_encode [a] = [b64_char (code a div 4), b64_char (code a mod 4 * 16), CHR ''='', CHR ''='']"
| "b64_encode [a, b] =
     [b64_char (code a div 4), b64_char (code a mod 4 * 16 + code b div 16), b64_char (code b mod 16 * 4), CHR ''='']"
| "b64_encode (a # b # c # s) =
     [b64_char (code a div 4), b64_char (code a mod 4 * 16 + code b div 16),
      b64_char (code b mod 16 * 4 + code c div 64), b64_char (code c mod 64)] @ b64_encode s"

text \<open>Groups of four; padding may end the last one. An error is \<open>None\<close>.\<close>

fun b64_groups :: "string \<Rightarrow> string option" where
  "b64_groups [] = Some []"
| "b64_groups (p # q # r # t # s) =
     (case (b64_value p, b64_value q) of
        (Some i, Some j) \<Rightarrow>
          if t = CHR ''='' then
            (if s \<noteq> [] then None
             else if r = CHR ''='' then Some [char_of (i * 4 + j div 16)]
             else (case b64_value r of
                     Some k \<Rightarrow> Some [char_of (i * 4 + j div 16), char_of (j mod 16 * 16 + k div 4)]
                   | None \<Rightarrow> None))
          else (case (b64_value r, b64_value t, b64_groups s) of
                  (Some k, Some l, Some out) \<Rightarrow>
                    Some ([char_of (i * 4 + j div 16), char_of (j mod 16 * 16 + k div 4), char_of (k mod 4 * 64 + l)] @ out)
                | _ \<Rightarrow> None)
      | _ \<Rightarrow> None)"
| "b64_groups s = None"

definition b64_decode :: "string \<Rightarrow> string option" where
  "b64_decode s = b64_groups (filter (\<lambda>c. c \<noteq> CHR 0x0A \<and> c \<noteq> CHR 0x0D) s)"

lemma b64_value_char [simp]: "n < 64 \<Longrightarrow> b64_value (b64_char n) = Some n"
  by (auto simp: b64_char_def b64_value_def is_upper_def is_lower_def is_digit_def)

lemma b64_value_pad [simp]: "b64_value (CHR ''='') = None"
  by (simp add: b64_value_def is_upper_def is_lower_def is_digit_def)

lemma b64_char_not [simp]: "n < 64 \<Longrightarrow> b64_char n \<noteq> CHR ''=''" "n < 64 \<Longrightarrow> b64_char n \<noteq> CHR 0x0A"
  "n < 64 \<Longrightarrow> b64_char n \<noteq> CHR 0x0D"
  using b64_value_char [of n] by (force simp: b64_value_def is_upper_def is_lower_def is_digit_def)+

lemma byte_bounds: "code c div 4 < 64" "code c div 16 < 16" "code c div 64 < 4"
  using nat_of_char_less_256 [of c] by (simp_all add: div_less_iff_less_mult)

lemma six_bits [simp]:
  "code a div 4 < 64" "code a mod 4 * 16 + code b div 16 < 64" "code a mod 4 * 16 < 64"
  "code b mod 16 * 4 + code c div 64 < 64" "code b mod 16 * 4 < 64" "code c mod 64 < 64"
proof -
  have m: "code a mod 4 < 4" "code b mod 16 < 16" by simp_all
  show "code a div 4 < 64" "code c mod 64 < 64" by (simp_all add: byte_bounds)
  show "code a mod 4 * 16 + code b div 16 < 64" "code b mod 16 * 4 + code c div 64 < 64"
    "code a mod 4 * 16 < 64" "code b mod 16 * 4 < 64"
    using m byte_bounds(2) [of b] byte_bounds(3) [of c] by linarith+
qed

lemma bytes_back:
  "char_of (code a div 4 * 4 + (code a mod 4 * 16 + code b div 16) div 16) = a"
  "char_of (code a div 4 * 4 + (code a mod 4 * 16) div 16) = a"
  "char_of ((code a mod 4 * 16 + code b div 16) mod 16 * 16 + (code b mod 16 * 4 + code c div 64) div 4) = b"
  "char_of ((code a mod 4 * 16 + code b div 16) mod 16 * 16 + (code b mod 16 * 4) div 4) = b"
  "char_of ((code b mod 16 * 4 + code c div 64) mod 4 * 64 + code c mod 64) = c"
proof -
  have 1: "(x * 16 + y) div 16 = x" "(x * 16 + y) mod 16 = y" if "y < 16" for x y :: nat using that by auto
  have 2: "(x * 4 + y) div 4 = x" "(x * 4 + y) mod 4 = y" if "y < 4" for x y :: nat using that by auto
  show "char_of (code a div 4 * 4 + (code a mod 4 * 16 + code b div 16) div 16) = a"
    "char_of ((code a mod 4 * 16 + code b div 16) mod 16 * 16 + (code b mod 16 * 4 + code c div 64) div 4) = b"
    "char_of ((code a mod 4 * 16 + code b div 16) mod 16 * 16 + (code b mod 16 * 4) div 4) = b"
    "char_of ((code b mod 16 * 4 + code c div 64) mod 4 * 64 + code c mod 64) = c"
    "char_of (code a div 4 * 4 + (code a mod 4 * 16) div 16) = a"
    by (simp_all only: 1 2 byte_bounds) (simp_all add: div_mult_mod_eq)
qed

lemma b64_encode_clean: "c \<in> set (b64_encode s) \<Longrightarrow> c \<noteq> CHR 0x0A \<and> c \<noteq> CHR 0x0D"
  by (induction s rule: b64_encode.induct) auto

lemmas sextets = b64_value_char [OF six_bits(1)] b64_value_char [OF six_bits(2)] b64_value_char [OF six_bits(3)]
  b64_value_char [OF six_bits(4)] b64_value_char [OF six_bits(5)] b64_value_char [OF six_bits(6)]
  b64_char_not(1) [OF six_bits(4)] b64_char_not(1) [OF six_bits(5)] b64_char_not(1) [OF six_bits(6)]

lemma b64_groups_encode: "b64_groups (b64_encode s) = Some s"
proof (induction s rule: b64_encode.induct)
  case (4 a b c s)
  then show ?case
    by (simp only: b64_encode.simps append_Cons append_Nil b64_groups.simps sextets bytes_back
        prod.case option.case if_False)
qed (simp_all only: b64_encode.simps append_Cons append_Nil b64_groups.simps sextets bytes_back
    prod.case option.case if_True if_False refl simp_thms)

text \<open>Decoding what was encoded gives it back.\<close>

lemma b64_roundtrip: "b64_decode (b64_encode s) = Some s"
proof -
  have "filter (\<lambda>c. c \<noteq> CHR 0x0A \<and> c \<noteq> CHR 0x0D) (b64_encode s) = b64_encode s"
    using b64_encode_clean by (auto simp: filter_id_conv)
  then show ?thesis by (simp add: b64_decode_def b64_groups_encode)
qed

section \<open>SHA-256\<close>

text \<open>The round constants and the initial state, in decimal.\<close>

type_synonym word32 = "32 word"

definition sha_k :: "word32 list" where
  "sha_k =
    [1116352408, 1899447441, 3049323471, 3921009573, 961987163, 1508970993, 2453635748, 2870763221,
     3624381080, 310598401, 607225278, 1426881987, 1925078388, 2162078206, 2614888103, 3248222580,
     3835390401, 4022224774, 264347078, 604807628, 770255983, 1249150122, 1555081692, 1996064986,
     2554220882, 2821834349, 2952996808, 3210313671, 3336571891, 3584528711, 113926993, 338241895,
     666307205, 773529912, 1294757372, 1396182291, 1695183700, 1986661051, 2177026350, 2456956037,
     2730485921, 2820302411, 3259730800, 3345764771, 3516065817, 3600352804, 4094571909, 275423344,
     430227734, 506948616, 659060556, 883997877, 958139571, 1322822218, 1537002063, 1747873779,
     1955562222, 2024104815, 2227730452, 2361852424, 2428436474, 2756734187, 3204031479, 3329325298]"

definition sha_init :: "word32 list" where
  "sha_init = [1779033703, 3144134277, 1013904242, 2773480762, 1359893119, 2600822924, 528734635, 1541459225]"

definition rotr :: "nat \<Rightarrow> word32 \<Rightarrow> word32" where
  "rotr n w = drop_bit n w OR push_bit (32 - n) w"

definition big_endian :: "nat \<Rightarrow> nat \<Rightarrow> nat list" where
  "big_endian n v = map (\<lambda>i. v div 256 ^ (n - 1 - i) mod 256) [0..<n]"

definition sha_pad :: "nat list \<Rightarrow> nat list" where
  "sha_pad bs = bs @ 128 # replicate ((119 - length bs mod 64) mod 64) 0 @ big_endian 8 (8 * length bs)"

fun be_words :: "nat list \<Rightarrow> word32 list" where
  "be_words (a # b # c # d # s) = of_nat (((a * 256 + b) * 256 + c) * 256 + d) # be_words s"
| "be_words s = []"

text \<open>The message schedule, newest word first.\<close>

fun schedule :: "nat \<Rightarrow> word32 list \<Rightarrow> word32 list" where
  "schedule 0 ws = ws"
| "schedule (Suc n) ws =
     (let w2 = ws ! 1; w7 = ws ! 6; w15 = ws ! 14; w16 = ws ! 15;
          s0 = rotr 7 w15 XOR rotr 18 w15 XOR drop_bit 3 w15;
          s1 = rotr 17 w2 XOR rotr 19 w2 XOR drop_bit 10 w2
      in schedule n ((w16 + s0 + w7 + s1) # ws))"

fun sha_round :: "word32 list \<Rightarrow> word32 \<times> word32 \<Rightarrow> word32 list" where
  "sha_round [a, b, c, d, e, f, g, h] (k, w) =
     (let s1 = rotr 6 e XOR rotr 11 e XOR rotr 25 e;
          ch = (e AND f) XOR (NOT e AND g);
          t1 = h + s1 + ch + k + w;
          s0 = rotr 2 a XOR rotr 13 a XOR rotr 22 a;
          maj = (a AND b) XOR (a AND c) XOR (b AND c)
      in [t1 + s0 + maj, a, b, c, d + t1, e, f, g])"
| "sha_round st kw = st"

definition sha_block :: "word32 list \<Rightarrow> word32 list \<Rightarrow> word32 list" where
  "sha_block st ws = map2 (+) st (foldl sha_round st (zip sha_k (rev (schedule 48 (rev ws)))))"

fun sha_blocks :: "nat \<Rightarrow> word32 list \<Rightarrow> word32 list \<Rightarrow> word32 list" where
  "sha_blocks 0 st ws = st"
| "sha_blocks (Suc n) st ws = sha_blocks n (sha_block st (take 16 ws)) (drop 16 ws)"

definition sha256 :: "string \<Rightarrow> nat list" where
  "sha256 s =
     (let ws = be_words (sha_pad (map code s))
      in concat (map (\<lambda>w. big_endian 4 (unat w)) (sha_blocks (length ws div 16) sha_init ws)))"

text \<open>\<open>hex.EncodeToString(sum[:])[:8]\<close>, the suffix the code puts in names.\<close>

definition sha_suffix :: "string \<Rightarrow> string" where
  "sha_suffix s = take 8 (hex_encode (sha256 s))"

end
