(* ===== verification/Go_Random.thy ===== *)
theory Go_Random
  imports Go_Encoding
begin

text \<open>
  Random passwords, which two groups draw in the same way. \<open>rnd i\<close> is the i-th draw
  \<open>rand.Int(rand.Reader, 62)\<close>: a number below 62, or an error.
\<close>

definition password_chars :: string where
  "password_chars = ''ABCDEFGHIJKLMNOPQRSTUVWXYZabcdefghijklmnopqrstuvwxyz0123456789''"

fun draw_chars :: "(nat \<Rightarrow> nat res) \<Rightarrow> nat list \<Rightarrow> string res" where
  "draw_chars rnd [] = Inr []"
| "draw_chars rnd (i # is) =
     bindr (rnd i) (\<lambda>n. bindr (draw_chars rnd is) (\<lambda>b. Inr (password_chars ! n # b)))"

definition draws :: "(nat \<Rightarrow> nat res) \<Rightarrow> bool" where
  "draws rnd \<longleftrightarrow> (\<forall>i n. rnd i = Inr n \<longrightarrow> n < 62)"

lemma draw_chars_ok:
  assumes "draws rnd"
  shows "draw_chars rnd is = Inr p \<Longrightarrow> length p = length is \<and> set p \<subseteq> set password_chars"
proof (induction "is" arbitrary: p)
  case (Cons i "is")
  then obtain n b where *: "rnd i = Inr n" "draw_chars rnd is = Inr b" "p = password_chars ! n # b"
    by (auto simp: res_simps)
  have "n < 62" using assms *(1) unfolding draws_def by blast
  then have "n < length password_chars" by (simp add: password_chars_def)
  with Cons.IH [OF *(2)] *(3) show ?case by simp
qed simp

lemma password_char_ascii: "c \<in> set password_chars \<Longrightarrow> code c < 128"
  by (auto simp: password_chars_def)

lemma valid_utf8_ascii: "(\<forall>c \<in> set s. code c < 128) \<Longrightarrow> valid_utf8 s"
  by (induction s) (auto simp: valid_utf8.simps(2) utf8_len_ascii)

lemma password_ok:
  assumes "draws rnd" and "draw_chars rnd [0..<32] = Inr p"
  shows "length p = 32" and "set p \<subseteq> set password_chars" and "valid_utf8 p" and "p \<noteq> ''''"
proof -
  from draw_chars_ok [OF assms] show "length p = 32" and s: "set p \<subseteq> set password_chars" by simp_all
  from s show "valid_utf8 p" using password_char_ascii by (intro valid_utf8_ascii) blast
  from \<open>length p = 32\<close> show "p \<noteq> ''''" by auto
qed

lemma draw_chars_total: "(\<And>i. is_ok (rnd i)) \<Longrightarrow> \<exists>p. draw_chars rnd is = Inr p"
proof (induction "is")
  case (Cons i "is")
  from Cons.prems [of i] obtain n where "rnd i = Inr n" by (auto simp: is_ok_iff)
  with Cons show ?case by auto
qed simp

end
