(* ===== verification/Kube.thy ===== *)
theory Kube
  imports Base_Run Go_Random
begin

text \<open>
  The objects the services generate. Their Go types come from packages outside the repository (the
  providers' and Kubernetes' APIs); the code builds them as composite literals. A \<open>kobject\<close> records such a
  literal: the type, the type and object metadata, and the fields by their Go names. A field that the
  literal leaves out has its zero value; a nil pointer is \<open>VNil\<close>.
\<close>

datatype gval =
    VNil
  | VBool bool
  | VInt int
  | VFloat rat
  | VStr string
  | VList "gval list"
  | VMap "(string \<times> gval) list"
  | VObj "(string \<times> gval) list"

record kobject =
  k_type :: string
  k_apiVersion :: string
  k_kind :: string
  k_name :: string
  k_namespace :: string
  k_labels :: "string gomap"
  k_annotations :: "string gomap"
  k_fields :: "(string \<times> gval) list"

definition opt_val :: "('a \<Rightarrow> gval) \<Rightarrow> 'a option \<Rightarrow> gval" where
  "opt_val f p = (case p of None \<Rightarrow> VNil | Some x \<Rightarrow> f x)"

abbreviation str_ptr :: "string option \<Rightarrow> gval" where "str_ptr \<equiv> opt_val VStr"
abbreviation bool_ptr :: "bool option \<Rightarrow> gval" where "bool_ptr \<equiv> opt_val VBool"
abbreviation int_ptr :: "int option \<Rightarrow> gval" where "int_ptr \<equiv> opt_val VInt"

definition map_val :: "('a \<Rightarrow> gval) \<Rightarrow> 'a gomap \<Rightarrow> gval" where
  "map_val f m = VMap (map (\<lambda>(k, v). (k, f v)) m)"

abbreviation str_map_val :: "string gomap \<Rightarrow> gval" where "str_map_val \<equiv> map_val VStr"
abbreviation ptr_map_val :: "string option gomap \<Rightarrow> gval" where "ptr_map_val \<equiv> map_val str_ptr"

lemma opt_val_simps [simp]: "opt_val f None = VNil" "opt_val f (Some x) = f x"
  by (simp_all add: opt_val_def)

text \<open>Reading a field: through the fields of nested literals.\<close>

fun field_at :: "(string \<times> gval) list \<Rightarrow> string list \<Rightarrow> gval option" where
  "field_at fs [] = Some (VObj fs)"
| "field_at fs [f] = map_of fs f"
| "field_at fs (f # g # gs) =
     (case map_of fs f of
        Some (VObj fs') \<Rightarrow> field_at fs' (g # gs)
      | _ \<Rightarrow> None)"

definition kfield :: "kobject \<Rightarrow> string list \<Rightarrow> gval option" where
  "kfield ob path = field_at (k_fields ob) path"

text \<open>\<open>ManagedResourceSpec\<close> with the provider config reference that every AWS resource carries.\<close>

definition provider_config :: "string \<Rightarrow> gval" where
  "provider_config name = VObj [(''Name'', VStr name), (''Kind'', VStr ''ClusterProviderConfig'')]"

definition managed_spec :: "string \<Rightarrow> string \<times> gval" where
  "managed_spec name = (''ManagedResourceSpec'', VObj [(''ProviderConfigReference'', provider_config name)])"

text \<open>The labels that tie a generated object to its composite.\<close>

definition resource_labels :: "string \<Rightarrow> string \<Rightarrow> string gomap" where
  "resource_labels name kind = [(ResourceLabel, name), (ResourceKindLabel, kind)]"

section \<open>Required resources of the providers\<close>

text \<open>The fields that the code reads of the provider types \<open>ec2 VPC\<close> and \<open>kms Key\<close>.\<close>

record vpc =
  vpc_name :: string
  vpc_spec_region :: "string option"
  vpc_status_region :: "string option"

record kms_key =
  kms_name :: string
  kms_arn :: "string option"

section \<open>Validation\<close>

text \<open>A validation returns nil or an error; \<open>failure_of\<close> is its error result.\<close>

abbreviation valid :: "unit res" where "valid \<equiv> Inr ()"

definition reject :: "string \<Rightarrow> unit res" where "reject msg = Inl (Error msg)"

definition failure_of :: "unit res \<Rightarrow> failure option" where
  "failure_of r = (case r of Inl e \<Rightarrow> Some e | Inr u \<Rightarrow> None)"

text \<open>\<open>if bad { return errors.New(msg) }\<close> before the rest of a validation.\<close>

definition refuse :: "bool \<Rightarrow> string \<Rightarrow> unit res \<Rightarrow> unit res" where
  "refuse bad msg rest = (if bad then reject msg else rest)"

lemma failure_of_None [simp]: "failure_of r = None \<longleftrightarrow> r = valid"
  by (cases r) (auto simp: failure_of_def)

lemma reject_valid [simp]: "reject msg \<noteq> valid"
  by (simp add: reject_def)

lemma refuse_valid [simp]: "refuse bad msg rest = valid \<longleftrightarrow> \<not> bad \<and> rest = valid"
  by (simp add: refuse_def)

lemma bindr_valid [simp]: "bindr r (\<lambda>u. rest) = valid \<longleftrightarrow> r = valid \<and> rest = valid"
  by (cases r) auto

text \<open>A value that \<open>GetEnvironment\<close> returns has passed its validation, unless the configs hold no data.\<close>

lemma GetEnvironment_validated:
  assumes "GetEnvironment X dec Validate zero key required = Inr e"
  shows "Validate e = None \<or> e = zero"
  using assms by (auto simp: GetEnvironment_def getEnvironment_def split: if_splits sum.splits prod.splits option.splits)

section \<open>Concrete runs\<close>

text \<open>
  Concrete conversions for the objects of this theory, on which the groups' properties are applied: the
  kinds in the list have a tags field, the object converts to its metadata.
\<close>

definition typed_objects :: "string list \<Rightarrow> kobject objects" where
  "typed_objects kinds = \<lparr>as_unstructured = (\<lambda>ob. None),
     go_type = (\<lambda>ob. if k_kind ob \<in> set kinds
       then TPtr (TStruct [(''spec'', TStruct [(''forProvider'', TStruct [(''tags,omitempty'', TOther)])])])
       else TPtr (TStruct [])),
     gvk_of = (\<lambda>ob. ('''', k_apiVersion ob, k_kind ob)),
     to_unstructured = (\<lambda>ob. Inr [(''apiVersion'', JStr (k_apiVersion ob)), (''kind'', JStr (k_kind ob)),
       (''metadata'', JObj [(''name'', JStr (k_name ob)), (''labels'', JObj (str_map (k_labels ob)))])])\<rparr>"

definition no_tags :: ResourceTags where
  "no_tags = \<lparr>rt_zone = '''', rt_tags = [], rt_labels = []\<rparr>"

lemma typed_support: "support_by_kind std_ext (typed_objects kinds) (\<lambda>(g, v, k). k \<in> set kinds) gen"
  by (auto simp: support_by_kind_def resolve_field_path_def typed_objects_def tags_path_def tag_name_def)

lemma typed_entry_ok:
  assumes "is_ok (observed_ready std_ext G observed n)"
  shows "is_ok (composed_entry std_ext (typed_objects kinds) G '''' observed no_tags supported n ob)"
  using assms
  by (auto simp: composed_entry_def typed_objects_def is_ok_iff inject_tags_def zone_tags_def zone_labels_def no_tags_def
      std_set_labels_def std_typed_def tags_path_def str_map_def Let_def)

text \<open>Every observed resource has its object.\<close>

definition all_fetched :: "observed \<Rightarrow> bool" where
  "all_fetched observed \<longleftrightarrow> (\<forall>oc \<in> snd ` set observed. oc_resource oc \<noteq> None)"

lemma all_fetchedD: "all_fetched observed \<Longrightarrow> map_of observed n = Some oc \<Longrightarrow> oc_resource oc \<noteq> None"
  unfolding all_fetched_def by (metis image_eqI map_of_SomeD snd_conv)

lemma typed_place_ok:
  assumes "all_fetched observed"
    and "iteration ord" and "sequence_names G obj gen = Inr names"
  obtains d where
    "fst (place_resources std_ext (typed_objects kinds) G '''' ord obj observed desired gen no_tags []) = Inr d"
    and "\<And>n. planned std_ext G observed gen names n \<Longrightarrow> map_of d n \<noteq> None"
proof -
  let ?S = "\<lambda>(g, v, k). k \<in> set kinds"
  let ?E = "entry_of std_ext (typed_objects kinds) G '''' observed no_tags ?S gen"
  let ?r = "fst (place_resources std_ext (typed_objects kinds) G '''' ord obj observed desired gen no_tags [])"
  have "is_ok (observed_ready std_ext G observed n)" for n
    using all_fetchedD [OF assms(1), of n] by (cases "map_of observed n") (auto simp: observed_ready_def)
  note ready = this
  have ok: "is_ok (?E n)" if "planned std_ext G observed gen names n" for n
  proof -
    from that obtain ob where "map_of gen n = Some ob" by (auto simp: planned_def)
    then have "?E n = composed_entry std_ext (typed_objects kinds) G '''' observed no_tags (?S (gvk_of (typed_objects kinds) ob)) n ob"
      by (simp add: entry_of_def)
    then show ?thesis by (simp only: typed_entry_ok [OF ready])
  qed
  have post: "place_post std_ext G obj observed gen ?E desired ?r"
    by (rule place_resources_post [OF typed_support assms(2) cache_ok_Nil])
  then obtain d where d: "?r = Inr d"
    using ok assms(3) by (cases ?r) (auto simp: place_post_def)
  from post [unfolded d] assms(3)
  have m: "map_of d n = (if planned std_ext G observed gen names n then ok_of (?E n) else map_of desired n)" for n
    by (auto elim!: place_postE)
  show thesis
  proof (rule that [OF d])
    fix n assume p: "planned std_ext G observed gen names n"
    from ok [OF p] obtain e where "?E n = Inr e" by (auto simp: is_ok_iff)
    with m [of n] p show "map_of d n \<noteq> None" by simp
  qed
qed

lemma typed_place:
  assumes "all_fetched observed" and "iteration ord" and "sequence_names G obj gen = Inr names"
  shows "\<exists>d. fst (place_resources std_ext (typed_objects kinds) G [] ord obj observed desired gen no_tags []) = Inr d \<and>
    (\<forall>n. planned std_ext G observed gen names n \<longrightarrow> map_of d n \<noteq> None)"
  by (rule typed_place_ok [OF assms, where kinds = kinds and desired = desired]) auto

end
