(* ===== verification/Artifact_Types.thy ===== *)
theory Artifact_Types
  imports Kube
begin

text \<open>
  \<open>functions/artifact/apis\<close>: the Repository composite, its lifecycle rules with their validation, and the
  environment of the group.
\<close>

section \<open>The composite\<close>

record LifecycleRule =
  TagPrefixes :: "string list"
  TagPatterns :: "string list"
  Untagged :: bool
  KeepCount :: "int option"
  ExpireAfterDays :: "int option"

record Repository =
  rep_name :: string
  rep_namespace :: string
  rep_spec_name :: string
  rep_spec_path :: string
  rep_deletion_protection :: bool
  rep_rules :: "LifecycleRule list"

abbreviation MaxLifecycleRules :: nat where "MaxLifecycleRules \<equiv> 25"

section \<open>Validation of lifecycle rules\<close>

definition MatchesAllImages :: "LifecycleRule \<Rightarrow> bool" where
  "MatchesAllImages r \<longleftrightarrow> length (TagPrefixes r) = 0 \<and> length (TagPatterns r) = 0 \<and> \<not> Untagged r"

definition validateTagList :: "string \<Rightarrow> string list \<Rightarrow> unit res" where
  "validateTagList field values = refuse ('''' \<in> set values) (field @ '' must not contain empty values'') valid"

definition selector_count :: "LifecycleRule \<Rightarrow> nat" where
  "selector_count r =
     (if length (TagPrefixes r) > 0 then 1 else 0) + (if length (TagPatterns r) > 0 then 1 else 0) +
     (if Untagged r then 1 else 0)"

definition at_least_one :: "string \<Rightarrow> int option \<Rightarrow> unit res \<Rightarrow> unit res" where
  "at_least_one field v rest =
     (case v of
        None \<Rightarrow> rest
      | Some n \<Rightarrow> refuse (n < 1) (field @ '' must be at least 1, got '' @ show_int n) rest)"

definition rule_validate :: "LifecycleRule \<Rightarrow> unit res" where
  "rule_validate r =
     refuse (selector_count r > 1) ''only one of tagPrefixes, tagPatterns or untagged may be set''
    (bindr (validateTagList ''tagPrefixes'' (TagPrefixes r)) (\<lambda>u.
     bindr (validateTagList ''tagPatterns'' (TagPatterns r)) (\<lambda>u.
     refuse ((KeepCount r = None) = (ExpireAfterDays r = None))
       ''exactly one of keepCount or expireAfterDays must be set''
    (at_least_one ''keepCount'' (KeepCount r)
    (at_least_one ''expireAfterDays'' (ExpireAfterDays r) valid)))))"

definition rule_context :: "nat \<Rightarrow> string" where
  "rule_context i = ''lifecycleRules['' @ itoa i @ '']''"

fun validate_loop :: "nat \<Rightarrow> nat \<Rightarrow> LifecycleRule list \<Rightarrow> unit res" where
  "validate_loop n i [] = valid"
| "validate_loop n i (r # rs) =
     bindr (wrapf (rule_context i) (rule_validate r)) (\<lambda>u.
     refuse (MatchesAllImages r \<and> i \<noteq> n - 1)
       (rule_context i @ '': a rule without a selector matches all images and must be the last rule'')
    (validate_loop n (Suc i) rs))"

definition ValidateLifecycleRules :: "LifecycleRule list \<Rightarrow> unit res" where
  "ValidateLifecycleRules rules =
     refuse (length rules > MaxLifecycleRules)
       (''lifecycleRules must not contain more than '' @ itoa MaxLifecycleRules @ '' rules, got '' @ itoa (length rules))
    (validate_loop (length rules) 0 rules)"

section \<open>The environment\<close>

record artifact_Environment =
  env_AWSProvider :: string
  env_VPC :: string
  env_DataKMSKey :: string
  env_ScanOnPush :: "bool option"
  env_ImageTagMutability :: "string option"
  env_Tags :: "string option gomap"
  env_LifecycleRules :: "LifecycleRule list"

definition zero_artifact_Environment :: artifact_Environment where
  "zero_artifact_Environment = \<lparr>env_AWSProvider = '''', env_VPC = '''', env_DataKMSKey = '''', env_ScanOnPush = None,
     env_ImageTagMutability = None, env_Tags = [], env_LifecycleRules = []\<rparr>"

definition validImageTagMutability :: "string Set" where
  "validImageTagMutability =
     NewSet [''MUTABLE'', ''IMMUTABLE'', ''IMMUTABLE_WITH_EXCLUSION'', ''MUTABLE_WITH_EXCLUSION'']"

definition artifact_Environment_Validate :: "artifact_Environment \<Rightarrow> unit res" where
  "artifact_Environment_Validate e =
     refuse (env_AWSProvider e = '''') ''awsProvider is required''
    (refuse (env_VPC e = '''') ''vpc is required''
    (refuse (case env_ImageTagMutability e of None \<Rightarrow> False | Some m \<Rightarrow> \<not> set_Contains validImageTagMutability m)
       (''imageTagMutability must be either null or '' @ set_String validImageTagMutability)
    (ValidateLifecycleRules (env_LifecycleRules e))))"

section \<open>What validation guarantees\<close>

text \<open>A rule that AWS accepts: one tag filter at most, no empty tag, exactly one bound, at least one.\<close>

definition rule_ok :: "LifecycleRule \<Rightarrow> bool" where
  "rule_ok r \<longleftrightarrow> selector_count r \<le> 1 \<and> '''' \<notin> set (TagPrefixes r) \<and> '''' \<notin> set (TagPatterns r) \<and>
     (\<exists>n \<ge> 1. KeepCount r = Some n \<and> ExpireAfterDays r = None \<or> KeepCount r = None \<and> ExpireAfterDays r = Some n)"

lemma at_least_one_valid [simp]:
  "at_least_one field v rest = valid \<longleftrightarrow> (\<forall>n. v = Some n \<longrightarrow> 1 \<le> n) \<and> rest = valid"
  by (cases v) (auto simp: at_least_one_def)

lemma rule_validate_valid: "rule_validate r = valid \<longleftrightarrow> rule_ok r"
  by (cases "KeepCount r"; cases "ExpireAfterDays r") (auto simp: rule_validate_def validateTagList_def rule_ok_def)

lemma validate_loop_valid:
  "validate_loop n i rs = valid \<longleftrightarrow>
     (\<forall>j < length rs. rule_ok (rs ! j) \<and> (MatchesAllImages (rs ! j) \<longrightarrow> i + j = n - 1))"
proof (induction rs arbitrary: i)
  case (Cons r rs)
  show ?case
    unfolding validate_loop.simps bindr_valid wrapf_Inr_iff refuse_valid rule_validate_valid Cons.IH
    by (auto simp: less_Suc_eq_0_disj)
qed simp

lemma ValidateLifecycleRules_valid:
  "ValidateLifecycleRules rules = valid \<longleftrightarrow>
     length rules \<le> 25 \<and> (\<forall>r \<in> set rules. rule_ok r) \<and>
     (\<forall>i < length rules. MatchesAllImages (rules ! i) \<longrightarrow> Suc i = length rules)"
proof -
  have "i = length rules - 1 \<longleftrightarrow> Suc i = length rules" if "i < length rules" for i using that by auto
  then show ?thesis
    unfolding ValidateLifecycleRules_def refuse_valid validate_loop_valid by (auto simp: all_set_conv_all_nth)
qed

end
