(* ===== verification/Artifact_Service.thy ===== *)
theory Artifact_Service
  imports Artifact_Types
begin

text \<open>
  \<open>functions/artifact/service/repository.go\<close> and \<open>functions/artifact/group.go\<close>: an ECR repository and its
  lifecycle policy, generated from the composite, the environment, the VPC and the KMS key.
\<close>

text \<open>The conversions of \<open>FromUnstructured\<close> at the types of this group.\<close>

record artifact_ext =
  ax_repository :: "object \<Rightarrow> Repository res"
  ax_environment :: "artifact_Environment decoder"
  ax_vpc :: "object \<Rightarrow> vpc res"
  ax_kms :: "object \<Rightarrow> kms_key res"

definition LifecyclePolicyResourcePrefix :: string where "LifecyclePolicyResourcePrefix = ''lifecycle-policy-''"
abbreviation "LifecyclePolicyKind \<equiv> ''LifecyclePolicy''"
abbreviation "RepositoryApiVersion \<equiv> ''ecr.aws.m.upbound.io/v1beta1''"
abbreviation "RepositoryKind \<equiv> ''Repository''"
abbreviation "XRKindRepository \<equiv> ''Repository''"
abbreviation "KMSDataKey \<equiv> ''KMSDataKey''"
abbreviation "VPCKey \<equiv> ''VPC''"
abbreviation maxDescriptionLength :: nat where "maxDescriptionLength \<equiv> 256"

section \<open>The lifecycle policy document\<close>

record policy_selector =
  ps_TagStatus :: string
  ps_TagPrefixList :: "string list"
  ps_TagPatternList :: "string list"
  ps_CountType :: string
  ps_CountUnit :: string
  ps_CountNumber :: int

record policy_rule =
  pr_RulePriority :: nat
  pr_Description :: string
  pr_Selection :: policy_selector
  pr_ActionType :: string

definition describeImages :: "LifecycleRule \<Rightarrow> string" where
  "describeImages r =
     (if length (TagPrefixes r) > 0 then ''images tagged with prefix '' @ join '', '' (TagPrefixes r)
      else if length (TagPatterns r) > 0 then ''images matching tag pattern '' @ join '', '' (TagPatterns r)
      else if Untagged r then ''untagged images''
      else ''images'')"

definition ruleDescription :: "LifecycleRule \<Rightarrow> string res" where
  "ruleDescription r =
     bindr (case KeepCount r of
              Some n \<Rightarrow> Inr (''Keep '' @ show_int n @ '' latest '' @ describeImages r)
            | None \<Rightarrow> bindr (deref (ExpireAfterDays r)) (\<lambda>days.
                Inr (''Expire '' @ describeImages r @ '' older than '' @ show_int days @ '' days''))) (\<lambda>description.
     Inr (if length description > maxDescriptionLength then take maxDescriptionLength description else description))"

definition ruleSelector :: "LifecycleRule \<Rightarrow> policy_selector res" where
  "ruleSelector r =
     (let s = \<lparr>ps_TagStatus = ''any'', ps_TagPrefixList = [], ps_TagPatternList = [],
               ps_CountType = '''', ps_CountUnit = '''', ps_CountNumber = 0\<rparr>;
          s = (if length (TagPrefixes r) > 0 then s\<lparr>ps_TagStatus := ''tagged'', ps_TagPrefixList := TagPrefixes r\<rparr>
               else if length (TagPatterns r) > 0 then s\<lparr>ps_TagStatus := ''tagged'', ps_TagPatternList := TagPatterns r\<rparr>
               else if Untagged r then s\<lparr>ps_TagStatus := ''untagged''\<rparr> else s)
      in case KeepCount r of
           Some n \<Rightarrow> Inr (s\<lparr>ps_CountType := ''imageCountMoreThan'', ps_CountNumber := n\<rparr>)
         | None \<Rightarrow> bindr (deref (ExpireAfterDays r)) (\<lambda>days.
             Inr (s\<lparr>ps_CountType := ''sinceImagePushed'', ps_CountUnit := ''days'', ps_CountNumber := days\<rparr>)))"

fun policy_rules :: "nat \<Rightarrow> LifecycleRule list \<Rightarrow> policy_rule list res" where
  "policy_rules i [] = Inr []"
| "policy_rules i (r # rs) =
     bindr (ruleDescription r) (\<lambda>description.
     bindr (ruleSelector r) (\<lambda>selection.
     bindr (policy_rules (Suc i) rs) (\<lambda>rest.
       Inr (\<lparr>pr_RulePriority = i + 1, pr_Description = description, pr_Selection = selection,
             pr_ActionType = ''expire''\<rparr> # rest))))"

definition selector_doc :: "policy_selector \<Rightarrow> doc" where
  "selector_doc s = DObj
     ([(''tagStatus'', DStr (ps_TagStatus s))] @
      omit_empty (ps_TagPrefixList s = []) ''tagPrefixList'' (DArr (map DStr (ps_TagPrefixList s))) @
      omit_empty (ps_TagPatternList s = []) ''tagPatternList'' (DArr (map DStr (ps_TagPatternList s))) @
      [(''countType'', DStr (ps_CountType s))] @
      omit_empty (ps_CountUnit s = '''') ''countUnit'' (DStr (ps_CountUnit s)) @
      [(''countNumber'', DInt (ps_CountNumber s))])"

definition rule_doc :: "policy_rule \<Rightarrow> doc" where
  "rule_doc r = DObj
     [(''rulePriority'', DInt (int (pr_RulePriority r))), (''description'', DStr (pr_Description r)),
      (''selection'', selector_doc (pr_Selection r)), (''action'', DObj [(''type'', DStr (pr_ActionType r))])]"

definition policy_doc :: "policy_rule list \<Rightarrow> doc" where
  "policy_doc rules = DObj [(''rules'', DArr (map rule_doc rules))]"

definition BuildLifecyclePolicy :: "LifecycleRule list \<Rightarrow> string res" where
  "BuildLifecyclePolicy rules =
     bindr (ValidateLifecycleRules rules) (\<lambda>u.
     bindr (policy_rules 0 rules) (\<lambda>policy. Inr (marshal (policy_doc policy))))"

definition lifecyclePolicyResourceName :: "string \<Rightarrow> string" where
  "lifecyclePolicyResourceName policy = LifecyclePolicyResourcePrefix @ sha_suffix policy"

definition hasStaleLifecyclePolicy :: "observed \<Rightarrow> string \<Rightarrow> bool" where
  "hasStaleLifecyclePolicy observed name \<longleftrightarrow>
     (\<exists>observedName \<in> set (map fst observed).
        prefix LifecyclePolicyResourcePrefix observedName \<and> observedName \<noteq> name)"

section \<open>The generated objects\<close>

definition artifact_GetEnvironment :: "ext \<Rightarrow> artifact_ext \<Rightarrow> required \<Rightarrow> artifact_Environment res" where
  "artifact_GetEnvironment X D required =
     GetEnvironment X (ax_environment D) (\<lambda>e. failure_of (artifact_Environment_Validate e)) zero_artifact_Environment
       EnvironmentKey required"

definition getExternalRepoName :: "Repository \<Rightarrow> string" where
  "getExternalRepoName r =
     (let name = rep_name r;
          name = (if rep_spec_name r \<noteq> '''' then rep_spec_name r else name)
      in path_join [rep_spec_path r, name])"

definition newLifecyclePolicy :: "Repository \<Rightarrow> artifact_Environment \<Rightarrow> string option \<Rightarrow> string \<Rightarrow> string \<Rightarrow> kobject" where
  "newLifecyclePolicy r env region policy name =
     \<lparr>k_type = ''ecr/v1beta1.LifecyclePolicy'', k_apiVersion = RepositoryApiVersion, k_kind = LifecyclePolicyKind,
      k_name = rep_name r @ ''-'' @ trim_prefix name LifecyclePolicyResourcePrefix, k_namespace = rep_namespace r,
      k_labels = resource_labels (rep_name r) XRKindRepository, k_annotations = [],
      k_fields = [(''Spec'', VObj
        [(''ForProvider'', VObj
           [(''Region'', str_ptr region), (''Repository'', VStr (getExternalRepoName r)), (''Policy'', VStr policy)]),
         managed_spec (env_AWSProvider env)])]\<rparr>"

text \<open>The region of the VPC, and the encryption that a KMS key or its absence gives.\<close>

definition vpc_region :: "vpc \<Rightarrow> string option res" where
  "vpc_region v =
     (let region = vpc_spec_region v;
          region = (if region = None then vpc_status_region v else region)
      in if region = None then Inl (Error (''VPC '' @ vpc_name v @ '' must have a region'')) else Inr region)"

definition repository_encryption :: "kms_key option \<Rightarrow> gval res" where
  "repository_encryption kms =
     (case kms of
        None \<Rightarrow> Inr (VObj [(''EncryptionType'', VStr ''AES256'')])
      | Some key \<Rightarrow>
          (case kms_arn key of
             None \<Rightarrow> Inl (Error (''KMS key '' @ kms_name key @ '' ARN is not available''))
           | Some arn \<Rightarrow> Inr (VObj [(''EncryptionType'', VStr ''KMS''), (''KMSKey'', VStr arn)])))"

definition repository_object :: "Repository \<Rightarrow> artifact_Environment \<Rightarrow> string option \<Rightarrow> gval \<Rightarrow> kobject" where
  "repository_object r env region encryption =
     \<lparr>k_type = ''ecr/v1beta1.Repository'', k_apiVersion = RepositoryApiVersion, k_kind = RepositoryKind,
      k_name = rep_name r, k_namespace = rep_namespace r,
      k_labels = resource_labels (rep_name r) XRKindRepository,
      k_annotations = (if rep_spec_path r \<noteq> '''' \<or> rep_spec_name r \<noteq> ''''
                       then [(''crossplane.io/external-name'', getExternalRepoName r)] else []),
      k_fields = [(''Spec'', VObj
        [(''ForProvider'', VObj
           ([(''Region'', str_ptr region), (''ImageTagMutability'', str_ptr (env_ImageTagMutability env)),
             (''Tags'', ptr_map_val (env_Tags env)), (''EncryptionConfiguration'', VList [encryption]),
             (''ForceDelete'', VBool True)] @
            (case env_ScanOnPush env of
               None \<Rightarrow> []
             | Some b \<Rightarrow> [(''ImageScanningConfiguration'', VObj [(''ScanOnPush'', VBool b)])]))),
         managed_spec (env_AWSProvider env)])]\<rparr>"

definition effective_rules :: "Repository \<Rightarrow> artifact_Environment \<Rightarrow> LifecycleRule list" where
  "effective_rules r env = (if length (rep_rules r) = 0 then env_LifecycleRules env else rep_rules r)"

definition GenerateRepositoryObject ::
  "ext \<Rightarrow> artifact_ext \<Rightarrow> Repository \<Rightarrow> required \<Rightarrow> observed \<Rightarrow> kobject gomap res" where
  "GenerateRepositoryObject X D r required observed =
     bindr (artifact_GetEnvironment X D required) (\<lambda>env.
     bindr (ExtractRequiredResource required VPCKey (ax_vpc D)) (\<lambda>v.
     bindr (vpc_region v) (\<lambda>region.
     bindr (ExtractOptionalResource required KMSDataKey (ax_kms D)) (\<lambda>kms.
     bindr (repository_encryption kms) (\<lambda>encryption.
       let objects = gset (rep_name r) (repository_object r env region encryption) [];
           rules = effective_rules r env
       in if length rules > 0 then
            bindr (BuildLifecyclePolicy rules) (\<lambda>policy.
              let name = lifecyclePolicyResourceName policy in
              if \<not> hasStaleLifecyclePolicy observed name
              then Inr (gset name (newLifecyclePolicy r env region policy name) objects)
              else Inr objects)
          else Inr objects)))))"

section \<open>The group\<close>

definition artifact_GetSequence :: "Repository \<Rightarrow> Sequence" where
  "artifact_GetSequence r = NewSequence True [[rep_name r], [LifecyclePolicyResourcePrefix @ ''.*'']]"

definition artifact_GetRequiredResources :: "ext \<Rightarrow> artifact_ext \<Rightarrow> object \<Rightarrow> required \<Rightarrow> selectors res" where
  "artifact_GetRequiredResources X D composite required =
     (if get_kind X composite = XRKindRepository then
        let resources = [(EnvironmentKey, RequiredEnvironmentConfig ''platform-apis-artifact'')] in
        if map_of required EnvironmentKey = None then Inr resources
        else bindr (artifact_GetEnvironment X D required) (\<lambda>env.
          let resources = gset VPCKey (RequiredVPC (env_VPC env) (env_AWSProvider env)) resources in
          Inr (if env_DataKMSKey env \<noteq> ''''
               then gset KMSDataKey (RequiredKMSKey (env_DataKMSKey env) (env_AWSProvider env)) resources
               else resources))
      else Inr [])"

definition getRepositoryStatus :: "ext \<Rightarrow> object \<Rightarrow> object res" where
  "getRepositoryStatus X observed =
     (case nested_string X observed [''status'', ''atProvider'', ''repositoryUrl''] of
        Inr (Some uri) \<Rightarrow> Inr [(''repositoryUri'', JStr uri)]
      | _ \<Rightarrow> Inr [])"

definition artifact_GetObservedStatus :: "ext \<Rightarrow> object \<Rightarrow> object res" where
  "artifact_GetObservedStatus X observed =
     (if get_kind X observed = RepositoryKind \<and> prefix ''ecr.aws.m.upbound.io'' (get_api_version X observed)
      then getRepositoryStatus X observed else Inr [])"

definition artifact_group :: "ext \<Rightarrow> artifact_ext \<Rightarrow> (Repository, kobject) GroupService" where
  "artifact_group X D = \<lparr>SkipGeneration = (\<lambda>composite. False),
     GetResourceHandlers = [(XRKindRepository,
       \<lparr>h_decode = ax_repository D, h_generate = GenerateRepositoryObject X D\<rparr>)],
     GetSequence = artifact_GetSequence,
     GetReadyStatus = (\<lambda>observed. None),
     GetRequiredResources = artifact_GetRequiredResources X D,
     GetObservedStatus = artifact_GetObservedStatus X,
     PostProcessStatus = None\<rparr>"

end
