(* ===== verification/Artifact_Props.thy ===== *)
theory Artifact_Props
  imports Artifact_Service
begin

text \<open>
  The artifact group: what its validation admits, the lifecycle policy documents it writes, how a changed
  policy replaces the old one, and the order in which repository and policy are created.
\<close>

section \<open>The policy document\<close>

definition bound_of :: "LifecycleRule \<Rightarrow> int" where
  "bound_of r = (case KeepCount r of Some n \<Rightarrow> n | None \<Rightarrow> (case ExpireAfterDays r of Some n \<Rightarrow> n | None \<Rightarrow> 0))"

text \<open>A rule of the document against the rule it is made from.\<close>

definition rule_written :: "LifecycleRule \<Rightarrow> nat \<Rightarrow> policy_rule \<Rightarrow> bool" where
  "rule_written r i pr \<longleftrightarrow>
     pr_RulePriority pr = i \<and> length (pr_Description pr) \<le> 256 \<and> pr_ActionType pr = ''expire'' \<and>
     ps_TagPrefixList (pr_Selection pr) = TagPrefixes r \<and> ps_TagPatternList (pr_Selection pr) = TagPatterns r \<and>
     (ps_TagStatus (pr_Selection pr) = ''tagged'' \<longleftrightarrow> TagPrefixes r \<noteq> [] \<or> TagPatterns r \<noteq> []) \<and>
     (ps_TagStatus (pr_Selection pr) = ''untagged'' \<longleftrightarrow> Untagged r) \<and>
     (ps_TagStatus (pr_Selection pr) = ''any'' \<longleftrightarrow> MatchesAllImages r) \<and>
     ps_CountNumber (pr_Selection pr) = bound_of r \<and> 1 \<le> bound_of r \<and>
     ps_CountType (pr_Selection pr) = (if KeepCount r = None then ''sinceImagePushed'' else ''imageCountMoreThan'') \<and>
     ps_CountUnit (pr_Selection pr) = (if KeepCount r = None then ''days'' else '''')"

lemma selector_count_le: "selector_count r \<le> 1 \<longleftrightarrow>
    (TagPrefixes r = [] \<or> TagPatterns r = []) \<and> (TagPrefixes r = [] \<or> \<not> Untagged r) \<and> (TagPatterns r = [] \<or> \<not> Untagged r)"
  by (simp add: selector_count_def)

lemma rule_ok_written:
  assumes "rule_ok r"
  shows "\<exists>descr sel. ruleDescription r = Inr descr \<and> ruleSelector r = Inr sel \<and>
    rule_written r i \<lparr>pr_RulePriority = i, pr_Description = descr, pr_Selection = sel, pr_ActionType = ''expire''\<rparr>"
proof -
  from assms obtain n where n: "1 \<le> n"
    "KeepCount r = Some n \<and> ExpireAfterDays r = None \<or> KeepCount r = None \<and> ExpireAfterDays r = Some n"
    unfolding rule_ok_def by blast
  from assms have s: "selector_count r \<le> 1" by (simp add: rule_ok_def)
  show ?thesis
    using n s unfolding selector_count_le
    by (auto simp: ruleDescription_def ruleSelector_def rule_written_def bound_of_def MatchesAllImages_def Let_def)
qed

lemma policy_rules_ok:
  "(\<forall>r \<in> set rules. rule_ok r) \<Longrightarrow> \<exists>prs. policy_rules i rules = Inr prs \<and> length prs = length rules \<and>
     (\<forall>j < length rules. rule_written (rules ! j) (i + j + 1) (prs ! j))"
proof (induction rules arbitrary: i)
  case (Cons r rules)
  from rule_ok_written [of r "i + 1"] Cons.prems obtain descr sel where
    *: "ruleDescription r = Inr descr" "ruleSelector r = Inr sel"
      "rule_written r (i + 1) \<lparr>pr_RulePriority = i + 1, pr_Description = descr, pr_Selection = sel, pr_ActionType = ''expire''\<rparr>"
    by auto
  from Cons.IH [of "Suc i"] Cons.prems obtain prs where "policy_rules (Suc i) rules = Inr prs"
    "length prs = length rules" "\<forall>j < length rules. rule_written (rules ! j) (Suc i + j + 1) (prs ! j)" by auto
  with * show ?case by (auto simp: nth_Cons split: nat.splits)
qed simp

lemma BuildLifecyclePolicy_ok:
  assumes "ValidateLifecycleRules rules = valid"
  obtains prs where "BuildLifecyclePolicy rules = Inr (marshal (policy_doc prs))" and "length prs = length rules"
    and "\<forall>j < length rules. rule_written (rules ! j) (Suc j) (prs ! j)"
proof -
  have "\<forall>r \<in> set rules. rule_ok r" using assms by (simp add: ValidateLifecycleRules_valid)
  from policy_rules_ok [OF this, of 0] assms that show thesis by (auto simp: BuildLifecyclePolicy_def)
qed

section \<open>The generated map\<close>

lemma hex_byte_alnum: "b < 256 \<Longrightarrow> c \<in> set (hex_byte b) \<Longrightarrow> alnum c"
  using digit_char_alnum [of "b div 16"] digit_char_alnum [of "b mod 16"]
  by (auto simp: hex_byte_def div_less_iff_less_mult)

lemma sha256_bytes: "b \<in> set (sha256 s) \<Longrightarrow> b < 256"
  by (auto simp: sha256_def big_endian_def Let_def)

lemma sha_suffix_alnum: "c \<in> set (sha_suffix s) \<Longrightarrow> alnum c"
proof -
  assume "c \<in> set (sha_suffix s)"
  then have "c \<in> set (concat (map hex_byte (sha256 s)))"
    unfolding sha_suffix_def hex_encode_def by (rule in_set_takeD)
  then obtain b where "b \<in> set (sha256 s)" and "c \<in> set (hex_byte b)" by auto
  then show "alnum c" using hex_byte_alnum sha256_bytes by blast
qed

lemma alnum_newline: "\<not> alnum (CHR 0x0A)"
  by (simp add: alnum_def is_lower_def is_digit_def)

lemma GenerateRepositoryObject_ok:
  assumes "GenerateRepositoryObject X D r required observed = Inr gen"
  obtains env region encryption where "artifact_GetEnvironment X D required = Inr env"
    and "effective_rules r env = [] \<and> gen = [(rep_name r, repository_object r env region encryption)] \<or>
      (\<exists>policy. BuildLifecyclePolicy (effective_rules r env) = Inr policy \<and>
         (if hasStaleLifecyclePolicy observed (lifecyclePolicyResourceName policy)
          then gen = [(rep_name r, repository_object r env region encryption)]
          else gen = gset (lifecyclePolicyResourceName policy)
                 (newLifecyclePolicy r env region policy (lifecyclePolicyResourceName policy))
                 [(rep_name r, repository_object r env region encryption)]))"
proof -
  from assms obtain env region encryption where env: "artifact_GetEnvironment X D required = Inr env"
    and g: "(let objects = gset (rep_name r) (repository_object r env region encryption) [];
           rules = effective_rules r env
       in if length rules > 0 then
            bindr (BuildLifecyclePolicy rules) (\<lambda>policy.
              let name = lifecyclePolicyResourceName policy in
              if \<not> hasStaleLifecyclePolicy observed name
              then Inr (gset name (newLifecyclePolicy r env region policy name) objects)
              else Inr objects)
          else Inr objects) = Inr gen"
    unfolding GenerateRepositoryObject_def bindr_Inr_iff by blast
  show thesis
  proof (rule that [OF env])
    show "effective_rules r env = [] \<and> gen = [(rep_name r, repository_object r env region encryption)] \<or>
      (\<exists>policy. BuildLifecyclePolicy (effective_rules r env) = Inr policy \<and>
         (if hasStaleLifecyclePolicy observed (lifecyclePolicyResourceName policy)
          then gen = [(rep_name r, repository_object r env region encryption)]
          else gen = gset (lifecyclePolicyResourceName policy)
                 (newLifecyclePolicy r env region policy (lifecyclePolicyResourceName policy))
                 [(rep_name r, repository_object r env region encryption)]))"
      using g by (cases "BuildLifecyclePolicy (effective_rules r env)") (auto simp: Let_def split: if_splits)
  qed
qed

lemma GenerateRepositoryObject_parts:
  assumes "GenerateRepositoryObject X D r required observed = Inr gen"
    and "\<not> prefix LifecyclePolicyResourcePrefix (rep_name r)"
  obtains env v region kms encryption where "ExtractRequiredResource required VPCKey (ax_vpc D) = Inr v"
    and "vpc_region v = Inr region" and "ExtractOptionalResource required KMSDataKey (ax_kms D) = Inr kms"
    and "repository_encryption kms = Inr encryption"
    and "map_of gen (rep_name r) = Some (repository_object r env region encryption)"
proof -
  have other: "lifecyclePolicyResourceName policy \<noteq> rep_name r" for policy
    using assms(2) unfolding lifecyclePolicyResourceName_def by (metis prefixI)
  from assms(1) obtain env v region kms encryption
    where *: "ExtractRequiredResource required VPCKey (ax_vpc D) = Inr v" "vpc_region v = Inr region"
      "ExtractOptionalResource required KMSDataKey (ax_kms D) = Inr kms" "repository_encryption kms = Inr encryption"
    and g: "(let objects = gset (rep_name r) (repository_object r env region encryption) [];
           rules = effective_rules r env
       in if length rules > 0 then
            bindr (BuildLifecyclePolicy rules) (\<lambda>policy.
              let name = lifecyclePolicyResourceName policy in
              if \<not> hasStaleLifecyclePolicy observed name
              then Inr (gset name (newLifecyclePolicy r env region policy name) objects)
              else Inr objects)
          else Inr objects) = Inr gen"
    unfolding GenerateRepositoryObject_def bindr_Inr_iff by blast
  have "map_of gen (rep_name r) = Some (repository_object r env region encryption)"
    using g other by (cases "BuildLifecyclePolicy (effective_rules r env)") (auto simp: Let_def split: if_splits)
  with * show thesis by (rule that)
qed

lemma generated_names:
  assumes "GenerateRepositoryObject X D r required observed = Inr gen" and "map_of gen n \<noteq> None"
  shows "n = rep_name r \<or> (\<exists>policy. n = lifecyclePolicyResourceName policy \<and> \<not> hasStaleLifecyclePolicy observed n)"
  using assms by (auto elim!: GenerateRepositoryObject_ok split: if_splits)

lemma generated_repository:
  assumes "GenerateRepositoryObject X D r required observed = Inr gen"
  shows "map_of gen (rep_name r) \<noteq> None"
  using assms by (auto elim!: GenerateRepositoryObject_ok split: if_splits)

lemma generated_map: "GenerateRepositoryObject X D r required observed = Inr gen \<Longrightarrow> wf_map gen"
  by (auto elim!: GenerateRepositoryObject_ok split: if_splits)

section \<open>The contract of base\<close>

lemma artifact_sequence_ok: "plain (rep_name r) \<Longrightarrow> \<exists>names. sequence_names (artifact_group X D) r gen = Inr names"
  by (rule sequence_names_ok)
    (auto simp: artifact_group_def artifact_GetSequence_def NewSequence_def
      intro: pattern_ok_plain(1) pattern_ok_plain(2) [of "LifecyclePolicyResourcePrefix"] split: if_splits,
     code_simp)

interpretation artifact: group_service "artifact_group X D" "\<lambda>r. plain (rep_name r)" for X D
proof
  show "map_of (GetResourceHandlers (artifact_group X D)) kind = Some h \<Longrightarrow> h_generate h obj required observed = Inr gen \<Longrightarrow>
      wf_map gen" for kind h obj required observed gen
    by (auto simp: artifact_group_def generated_map split: if_splits)
  show "plain (rep_name obj) \<Longrightarrow> \<exists>names. sequence_names (artifact_group X D) obj gen = Inr names" for obj gen
    by (rule artifact_sequence_ok)
  show "GetObservedStatus (artifact_group X D) ob = Inr st \<Longrightarrow> wf_map st" for ob st
    by (auto simp: artifact_group_def artifact_GetObservedStatus_def getRepositoryStatus_def
        split: if_splits sum.splits option.splits)
qed (simp add: artifact_group_def)

lemma sha_suffix_no_newline: "CHR 0x0A \<notin> set (sha_suffix s)"
  using sha_suffix_alnum alnum_newline by metis

section \<open>The order of repository and policy\<close>

lemma artifact_steps:
  assumes "sequence_names (artifact_group X D) r gen = Inr names"
  shows "length names = 2"
    and "set (names ! 0) = {k \<in> fst ` set gen. matches (rep_name r) k}"
    and "set (names ! 1) = {k \<in> fst ` set gen. matches (LifecyclePolicyResourcePrefix @ ''.*'') k}"
proof -
  have s: "seq_steps (GetSequence (artifact_group X D) r) =
      [\<lparr>step_objects = [rep_name r]\<rparr>, \<lparr>step_objects = [LifecyclePolicyResourcePrefix @ ''.*'']\<rparr>]"
    and re: "seq_regex (GetSequence (artifact_group X D) r)"
    by (simp_all add: artifact_group_def artifact_GetSequence_def NewSequence_def)
  show "length names = 2"
    using step_names_nth [OF assms [unfolded sequence_names_def]] s by simp
  show "set (names ! 0) = {k \<in> fst ` set gen. matches (rep_name r) k}"
    using regex_step_members(2) [OF assms re, of 0] by (simp add: s)
  show "set (names ! 1) = {k \<in> fst ` set gen. matches (LifecyclePolicyResourcePrefix @ ''.*'') k}"
    using regex_step_members(2) [OF assms re, of 1] by (simp add: s)
qed

lemma prefix_literal: "literal LifecyclePolicyResourcePrefix"
  by (simp add: meta_def LifecyclePolicyResourcePrefix_def)

lemma policy_in_second_step: "matches (LifecyclePolicyResourcePrefix @ ''.*'') (lifecyclePolicyResourceName policy)"
  unfolding matches_prefix [OF prefix_literal] lifecyclePolicyResourceName_def trim_prefix_append
  by (rule conjI [OF prefixI [OF refl] sha_suffix_no_newline])

text \<open>A policy that a run adds waits for the repository to be observed and ready.\<close>

lemma policy_waits:
  assumes "support_by_kind X A S gen" and "iteration ord" and "cache_ok S c"
    and "GenerateRepositoryObject X D r required observed = Inr gen"
    and "literal (rep_name r)"
    and "fst (place_resources X A (artifact_group X D) ws ord r observed desired gen rt c) = Inr d"
    and "n \<noteq> rep_name r" and "map_of observed n = None" and "map_of d n \<noteq> map_of desired n"
  shows "\<exists>oc ob. map_of observed (rep_name r) = Some oc \<and> oc_resource oc = Some ob \<and>
    getReadyStatus X (artifact_group X D) ob = ReadyTrue"
proof -
  from artifact.sequence_compiles [OF literal_plain [OF assms(5)]] obtain names
    where names: "sequence_names (artifact_group X D) r gen = Inr names" by blast
  note steps = artifact_steps [OF names]
  note post = place_resources_post [OF assms(1-3), of "artifact_group X D" r observed ws rt desired, unfolded assms(6)]
  from post assms(9) have gen: "map_of gen n \<noteq> None"
    by (elim place_postE) (auto simp: planned_def split: if_splits)
  from generated_names [OF assms(4) this] assms(7) obtain policy where n: "n = lifecyclePolicyResourceName policy" by blast
  have key: "k \<in> fst ` set gen" if "map_of gen k \<noteq> None" for k
    using that by (metis domIff dom_map_of_conv_image_fst)
  have in1: "n \<in> set (names ! 1)" using steps(3) key [OF gen] policy_in_second_step n by simp
  have notin0: "n \<notin> set (names ! 0)" using steps(2) assms(5,7) by (simp add: matches_literal)
  have "n \<in> set (concat names)" using in1 steps(1) by (auto simp: set_concat intro!: bexI [of _ "names ! 1"])
  with added_resource_position [OF assms(1-3,6) names assms(8,9)] notin0 steps(1)
  have ready: "step_ready X (artifact_group X D) observed gen (names ! 0)" by auto
  have "rep_name r \<in> set (names ! 0)"
    using steps(2) key [OF generated_repository [OF assms(4)]] assms(5) by (simp add: matches_literal)
  from step_readyD [OF ready this generated_repository [OF assms(4)]] show ?thesis .
qed

section \<open>Properties\<close>

lemma validation_no_panic [simp]:
  "refuse bad msg rest = Inl (Panic p) \<longleftrightarrow> \<not> bad \<and> rest = Inl (Panic p)"
  "at_least_one field v rest = Inl (Panic p) \<longleftrightarrow> (\<forall>n. v = Some n \<longrightarrow> 1 \<le> n) \<and> rest = Inl (Panic p)"
  by (auto simp: refuse_def reject_def at_least_one_def split: option.splits)

lemma rules_no_panic: "rule_validate r \<noteq> Inl (Panic p)" "validate_loop n i rs \<noteq> Inl (Panic p)"
proof -
  show r: "rule_validate r \<noteq> Inl (Panic p)" for r
    by (simp add: rule_validate_def res_simps validateTagList_def)
  have w: "wrapf msg x = Inl (Panic p) \<longleftrightarrow> x = Inl (Panic p)" for msg and x :: "unit res"
    by (cases "(msg, x)" rule: wrapf.cases) auto
  show "validate_loop n i rs \<noteq> Inl (Panic p)"
    by (induction n i rs rule: validate_loop.induct) (simp_all add: res_simps w r)
qed

text \<open>
  C13: \<open>BuildLifecyclePolicy\<close> never panics and succeeds exactly on the rule lists that AWS accepts: at most
  25 rules, no rule with two selectors, without a bound, with two, or with a bound below one, no empty tag,
  and no rule after one that matches every image. Its document is the rules in order, with priorities from
  1, descriptions of at most 256 bytes, each with the tags, the bound and the kind of bound of its rule.
\<close>

theorem lifecycle_policy_document:
  "(is_ok (BuildLifecyclePolicy rules) \<longleftrightarrow>
      length rules \<le> 25 \<and>
      (\<forall>i < length rules.
         selector_count (rules ! i) \<le> 1 \<and> '''' \<notin> set (TagPrefixes (rules ! i)) \<and> '''' \<notin> set (TagPatterns (rules ! i)) \<and>
         (\<exists>n \<ge> 1. KeepCount (rules ! i) = Some n \<and> ExpireAfterDays (rules ! i) = None \<or>
                 KeepCount (rules ! i) = None \<and> ExpireAfterDays (rules ! i) = Some n) \<and>
         (MatchesAllImages (rules ! i) \<longrightarrow> Suc i = length rules))) \<and>
   (\<forall>p. BuildLifecyclePolicy rules \<noteq> Inl (Panic p)) \<and>
   (\<forall>document. BuildLifecyclePolicy rules = Inr document \<longrightarrow>
      (\<exists>prs. document = marshal (policy_doc prs) \<and> length prs = length rules \<and>
         (\<forall>i < length rules. rule_written (rules ! i) (Suc i) (prs ! i))))"
proof (cases "ValidateLifecycleRules rules")
  case (Inl e)
  then have "BuildLifecyclePolicy rules = Inl e" by (simp add: BuildLifecyclePolicy_def)
  moreover have "e \<noteq> Panic p" for p
    using Inl rules_no_panic(2) by (auto simp: ValidateLifecycleRules_def)
  moreover have "ValidateLifecycleRules rules \<noteq> valid" using Inl by simp
  ultimately show ?thesis
    by (auto simp: ValidateLifecycleRules_valid rule_ok_def all_set_conv_all_nth)
next
  case (Inr u)
  then have v: "ValidateLifecycleRules rules = valid" by simp
  from BuildLifecyclePolicy_ok [OF this] obtain prs where "BuildLifecyclePolicy rules = Inr (marshal (policy_doc prs))"
    "length prs = length rules" "\<forall>j < length rules. rule_written (rules ! j) (Suc j) (prs ! j)" .
  with v show ?thesis
    by (auto simp: ValidateLifecycleRules_valid rule_ok_def all_set_conv_all_nth)
qed

definition demo_rules :: "LifecycleRule list" where
  "demo_rules =
     [\<lparr>TagPrefixes = [''v''], TagPatterns = [], Untagged = False, KeepCount = Some 10, ExpireAfterDays = None\<rparr>,
      \<lparr>TagPrefixes = [], TagPatterns = [], Untagged = True, KeepCount = None, ExpireAfterDays = Some 7\<rparr>]"

theorem lifecycle_policy_document_witness:
  "\<exists>document prs. BuildLifecyclePolicy demo_rules = Inr document \<and> document = marshal (policy_doc prs) \<and> length prs = 2"
proof -
  have l: "length demo_rules = 2" by (simp add: demo_rules_def)
  have "is_ok (BuildLifecyclePolicy demo_rules)"
    using lifecycle_policy_document [of demo_rules]
    by (simp add: demo_rules_def selector_count_def MatchesAllImages_def less_Suc_eq)
  then obtain document where "BuildLifecyclePolicy demo_rules = Inr document" by (auto simp: is_ok_iff)
  with lifecycle_policy_document [of demo_rules] l show ?thesis by metis
qed

text \<open>A concrete repository in an environment with a KMS key and default lifecycle rules.\<close>

definition demo_repository :: Repository where
  "demo_repository = \<lparr>rep_name = ''shop'', rep_namespace = ''team-a'', rep_spec_name = '''', rep_spec_path = ''team'',
     rep_deletion_protection = True, rep_rules = []\<rparr>"

definition demo_artifact_env :: artifact_Environment where
  "demo_artifact_env = zero_artifact_Environment\<lparr>env_AWSProvider := ''aws'', env_VPC := ''main'', env_LifecycleRules := demo_rules\<rparr>"

definition demo_artifact :: artifact_ext where
  "demo_artifact = \<lparr>ax_repository = (\<lambda>ob. Inr demo_repository), ax_environment = (\<lambda>ob. (demo_artifact_env, None)),
     ax_vpc = (\<lambda>ob. Inr \<lparr>vpc_name = ''main'', vpc_spec_region = None, vpc_status_region = Some ''eu-north-1''\<rparr>),
     ax_kms = (\<lambda>ob. Inr \<lparr>kms_name = ''data'', kms_arn = Some ''arn:aws:kms:key''\<rparr>)\<rparr>"

definition demo_artifact_required :: required where
  "demo_artifact_required =
     [(EnvironmentKey, [Some [(''data'', JObj [(''vpc'', JStr ''main'')])]]), (VPCKey, [Some []]), (KMSDataKey, [Some []])]"

definition demo_artifact_run :: "observed \<Rightarrow> kobject gomap res" where
  "demo_artifact_run observed = GenerateRepositoryObject std_ext demo_artifact demo_repository demo_artifact_required observed"

lemma BuildLifecyclePolicy_demo: "\<exists>document. BuildLifecyclePolicy demo_rules = Inr document"
proof -
  have "ValidateLifecycleRules demo_rules = valid"
    by (simp add: ValidateLifecycleRules_valid demo_rules_def rule_ok_def selector_count_def MatchesAllImages_def less_Suc_eq)
  then show ?thesis by (elim BuildLifecyclePolicy_ok) blast
qed

lemma demo_artifact_steps:
  "artifact_GetEnvironment std_ext demo_artifact demo_artifact_required = Inr demo_artifact_env"
  "ExtractRequiredResource demo_artifact_required VPCKey (ax_vpc demo_artifact) =
     Inr \<lparr>vpc_name = ''main'', vpc_spec_region = None, vpc_status_region = Some ''eu-north-1''\<rparr>"
  "ExtractOptionalResource demo_artifact_required KMSDataKey (ax_kms demo_artifact) =
     Inr (Some \<lparr>kms_name = ''data'', kms_arn = Some ''arn:aws:kms:key''\<rparr>)"
  "effective_rules demo_repository demo_artifact_env = demo_rules"
  by code_simp+

lemma demo_artifact_ok: "\<exists>gen. demo_artifact_run observed = Inr gen"
proof -
  obtain document where b: "BuildLifecyclePolicy demo_rules = Inr document" using BuildLifecyclePolicy_demo by blast
  show ?thesis
    unfolding demo_artifact_run_def GenerateRepositoryObject_def demo_artifact_steps(1-3)
    by (simp add: vpc_region_def repository_encryption_def Let_def demo_artifact_steps(4) b)
qed

text \<open>
  C14: a changed policy replaces the old one and the two are never asked for together: in every generated
  map the repository is present, and any other resource is a lifecycle policy named after its document,
  which is there only when no lifecycle policy of another name is observed.
\<close>

theorem one_lifecycle_policy_at_a_time:
  assumes "GenerateRepositoryObject X D r required observed = Inr gen"
  shows "map_of gen (rep_name r) \<noteq> None \<and>
    (\<forall>n ob. map_of gen n = Some ob \<longrightarrow> n \<noteq> rep_name r \<longrightarrow>
       (\<exists>policy. n = LifecyclePolicyResourcePrefix @ sha_suffix policy \<and>
          kfield ob [''Spec'', ''ForProvider'', ''Policy''] = Some (VStr policy)) \<and>
       (\<forall>m. map_of observed m \<noteq> None \<longrightarrow> prefix LifecyclePolicyResourcePrefix m \<longrightarrow> m = n))"
proof
  show "map_of gen (rep_name r) \<noteq> None" using assms by (rule generated_repository)
  have key: "map_of observed m \<noteq> None \<Longrightarrow> m \<in> set (map fst observed)" for m
    by (metis domIff dom_map_of_conv_image_fst list.set_map)
  show "\<forall>n ob. map_of gen n = Some ob \<longrightarrow> n \<noteq> rep_name r \<longrightarrow>
       (\<exists>policy. n = LifecyclePolicyResourcePrefix @ sha_suffix policy \<and>
          kfield ob [''Spec'', ''ForProvider'', ''Policy''] = Some (VStr policy)) \<and>
       (\<forall>m. map_of observed m \<noteq> None \<longrightarrow> prefix LifecyclePolicyResourcePrefix m \<longrightarrow> m = n)"
  proof (intro allI impI)
    fix n ob assume n: "map_of gen n = Some ob" "n \<noteq> rep_name r"
    with assms obtain env region policy
      where *: "n = lifecyclePolicyResourceName policy" "ob = newLifecyclePolicy r env region policy n"
        "\<not> hasStaleLifecyclePolicy observed n"
      by (auto elim!: GenerateRepositoryObject_ok split: if_splits)
    then show "(\<exists>policy. n = LifecyclePolicyResourcePrefix @ sha_suffix policy \<and>
          kfield ob [''Spec'', ''ForProvider'', ''Policy''] = Some (VStr policy)) \<and>
       (\<forall>m. map_of observed m \<noteq> None \<longrightarrow> prefix LifecyclePolicyResourcePrefix m \<longrightarrow> m = n)"
      using key unfolding hasStaleLifecyclePolicy_def
      by (intro conjI exI [of _ policy]) (simp_all add: lifecyclePolicyResourceName_def newLifecyclePolicy_def kfield_def, blast)
  qed
qed

theorem one_lifecycle_policy_at_a_time_witness:
  "\<exists>gen. demo_artifact_run [(''lifecycle-policy-old'', \<lparr>oc_resource = None, oc_connection = []\<rparr>)] = Inr gen \<and>
     dom (map_of gen) \<subseteq> {''shop'', ''lifecycle-policy-old''}"
proof -
  let ?obs = "[(''lifecycle-policy-old'', \<lparr>oc_resource = None, oc_connection = []\<rparr>)] :: observed"
  obtain gen where g: "demo_artifact_run ?obs = Inr gen" using demo_artifact_ok by blast
  have o: "map_of ?obs ''lifecycle-policy-old'' \<noteq> None" by simp
  have p: "prefix LifecyclePolicyResourcePrefix ''lifecycle-policy-old''" by code_simp
  have r: "rep_name demo_repository = ''shop''" by (simp add: demo_repository_def)
  have "n = ''shop'' \<or> n = ''lifecycle-policy-old''" if "map_of gen n = Some ob" for n ob
    using one_lifecycle_policy_at_a_time [OF g [unfolded demo_artifact_run_def]] that o p r by metis
  with g show ?thesis by blast
qed

text \<open>
  AWS rejects a lifecycle policy whose repository does not exist; a run never asks for one too early.
  When a successful run for a Repository adds a lifecycle policy that is not observed yet, the repository is
  observed and reports ready.
\<close>

theorem lifecycle_policy_after_repository:
  assumes "support_by_kind X A S gen" and "iteration ord" and "cache_ok S c"
    and "GenerateRepositoryObject X D r required observed = Inr gen" and "literal (rep_name r)"
    and "fst (place_resources X A (artifact_group X D) ws ord r observed desired gen rt c) = Inr d"
    and "\<not> prefix LifecyclePolicyResourcePrefix (rep_name r)"
    and "prefix LifecyclePolicyResourcePrefix n" and "map_of observed n = None" and "map_of d n \<noteq> map_of desired n"
  shows "\<exists>oc ob. map_of observed (rep_name r) = Some oc \<and> oc_resource oc = Some ob \<and>
    GetCrossplaneReadyStatus X ob = ReadyTrue"
proof -
  have "n \<noteq> rep_name r" using assms(7,8) by blast
  from policy_waits [OF assms(1-6) this assms(9,10)] show ?thesis
    by (simp add: getReadyStatus_def artifact_group_def)
qed

definition demo_artifact_observed :: observed where
  "demo_artifact_observed = [(''shop'', \<lparr>oc_resource = Some (demo_object RepositoryKind [ready_condition]), oc_connection = []\<rparr>)]"

lemma demo_policy_generated:
  "\<exists>gen policy. demo_artifact_run demo_artifact_observed = Inr gen \<and> map_of gen (lifecyclePolicyResourceName policy) \<noteq> None"
proof -
  obtain document where b: "BuildLifecyclePolicy demo_rules = Inr document" using BuildLifecyclePolicy_demo by blast
  have s: "\<not> hasStaleLifecyclePolicy demo_artifact_observed name" for name
    by (simp add: hasStaleLifecyclePolicy_def demo_artifact_observed_def LifecyclePolicyResourcePrefix_def)
  have "\<exists>gen. demo_artifact_run demo_artifact_observed = Inr gen \<and> map_of gen (lifecyclePolicyResourceName document) \<noteq> None"
    unfolding demo_artifact_run_def GenerateRepositoryObject_def demo_artifact_steps(1-3)
    by (simp add: vpc_region_def repository_encryption_def Let_def demo_artifact_steps(4) b s) (simp add: demo_rules_def)
  then show ?thesis by blast
qed

theorem lifecycle_policy_after_repository_witness:
  "\<exists>gen d n. demo_artifact_run demo_artifact_observed = Inr gen \<and>
     fst (place_resources std_ext (typed_objects [RepositoryKind]) (artifact_group std_ext demo_artifact) '''' reversed
       demo_repository demo_artifact_observed [] gen no_tags []) = Inr d \<and>
     map_of d (LifecyclePolicyResourcePrefix @ n) \<noteq> None \<and>
     (\<exists>oc ob. map_of demo_artifact_observed ''shop'' = Some oc \<and> oc_resource oc = Some ob \<and>
        GetCrossplaneReadyStatus std_ext ob = ReadyTrue)"
proof -
  let ?G = "artifact_group std_ext demo_artifact"
  let ?A = "typed_objects [RepositoryKind]"
  obtain gen policy where g: "demo_artifact_run demo_artifact_observed = Inr gen"
    and n: "map_of gen (lifecyclePolicyResourceName policy) \<noteq> None" using demo_policy_generated by blast
  let ?n = "lifecyclePolicyResourceName policy"
  have r: "rep_name demo_repository = ''shop''" by (simp add: demo_repository_def)
  have lit: "literal (rep_name demo_repository)" by (simp add: r meta_def)
  obtain names where names: "sequence_names ?G demo_repository gen = Inr names"
    using artifact.sequence_compiles [OF literal_plain [OF lit]] by blast
  note steps = artifact_steps [OF names]
  have "k = ''shop''" if "k \<in> set (names ! 0)" for k using that steps(2) lit by (simp add: matches_literal r)
  moreover have "ready_now std_ext ?G demo_artifact_observed gen ''shop''"
  proof -
    have "getReadyStatus std_ext ?G (demo_object RepositoryKind [ready_condition]) = ReadyTrue"
      by (simp add: getReadyStatus_def artifact_group_def) code_simp
    then show ?thesis by (simp add: ready_now_def observed_ready_def demo_artifact_observed_def)
  qed
  ultimately have ready: "step_ready std_ext ?G demo_artifact_observed gen (names ! 0)"
    by (metis step_ready_def)
  have "?n \<in> fst ` set gen" using n by (metis domIff dom_map_of_conv_image_fst)
  then have "?n \<in> set (names ! 1)" using steps(3) policy_in_second_step by simp
  then have planned: "planned std_ext ?G demo_artifact_observed gen names ?n"
    using planned_after_ready [OF n, of 0 names] ready steps(1) by simp
  have obs: "all_fetched demo_artifact_observed" by (simp add: all_fetched_def demo_artifact_observed_def)
  obtain d where d: "fst (place_resources std_ext ?A ?G '''' reversed demo_repository demo_artifact_observed [] gen no_tags []) = Inr d"
    and p: "map_of d ?n \<noteq> None"
    using typed_place [OF obs demo_orders(2) names, where kinds = "[RepositoryKind]" and desired = "[]"] planned by blast
  have pre: "prefix LifecyclePolicyResourcePrefix ?n" "\<not> prefix LifecyclePolicyResourcePrefix (rep_name demo_repository)"
    by (simp_all add: lifecyclePolicyResourceName_def r LifecyclePolicyResourcePrefix_def)
  have un: "map_of demo_artifact_observed ?n = None"
    by (simp add: demo_artifact_observed_def lifecyclePolicyResourceName_def LifecyclePolicyResourcePrefix_def)
  have new: "map_of d ?n \<noteq> map_of [] ?n" using p by simp
  from lifecycle_policy_after_repository [OF typed_support demo_orders(2) cache_ok_Nil g [unfolded demo_artifact_run_def]
      lit d pre(2,1) un new]
  show ?thesis using g d p unfolding r lifecyclePolicyResourceName_def by blast
qed

text \<open>
  Every generated repository is encrypted and has a region: under the fetched KMS key, whose ARN must be
  known, or else under the AES256 key of ECR; in the VPC's configured region, or else the one it reports. It
  is named at AWS by the path and name of the composite.
\<close>

theorem repository_encrypted_in_region:
  assumes "GenerateRepositoryObject X D r required observed = Inr gen"
    and "\<not> prefix LifecyclePolicyResourcePrefix (rep_name r)"
  shows "\<exists>ob v kms region encryption. map_of gen (rep_name r) = Some ob \<and>
    ExtractRequiredResource required VPCKey (ax_vpc D) = Inr v \<and>
    ExtractOptionalResource required KMSDataKey (ax_kms D) = Inr kms \<and>
    kfield ob [''Spec'', ''ForProvider'', ''Region''] = Some (VStr region) \<and>
    Some region = (case vpc_spec_region v of Some s \<Rightarrow> Some s | None \<Rightarrow> vpc_status_region v) \<and>
    kfield ob [''Spec'', ''ForProvider'', ''EncryptionConfiguration''] = Some (VList [encryption]) \<and>
    encryption = (case kms of
       None \<Rightarrow> VObj [(''EncryptionType'', VStr ''AES256'')]
     | Some key \<Rightarrow> VObj [(''EncryptionType'', VStr ''KMS''), (''KMSKey'', VStr (the (kms_arn key)))]) \<and>
    (kms \<noteq> None \<longrightarrow> kms_arn (the kms) \<noteq> None) \<and>
    (rep_spec_path r \<noteq> '''' \<or> rep_spec_name r \<noteq> '''' \<longrightarrow>
       map_of (k_annotations ob) ''crossplane.io/external-name'' =
         Some (path_join [rep_spec_path r, if rep_spec_name r \<noteq> '''' then rep_spec_name r else rep_name r]))"
proof -
  from assms(1) obtain env v region kms encryption
    where v: "ExtractRequiredResource required VPCKey (ax_vpc D) = Inr v" "vpc_region v = Inr region"
      and k: "ExtractOptionalResource required KMSDataKey (ax_kms D) = Inr kms" "repository_encryption kms = Inr encryption"
      and g: "map_of gen (rep_name r) = Some (repository_object r env region encryption)"
    by (rule GenerateRepositoryObject_parts) (use assms(2) in simp)
  obtain s where region: "region = Some s" "Some s = (case vpc_spec_region v of Some s \<Rightarrow> Some s | None \<Rightarrow> vpc_status_region v)"
    using v(2) by (auto simp: vpc_region_def Let_def split: if_splits option.splits)
  have enc: "encryption = (case kms of
       None \<Rightarrow> VObj [(''EncryptionType'', VStr ''AES256'')]
     | Some key \<Rightarrow> VObj [(''EncryptionType'', VStr ''KMS''), (''KMSKey'', VStr (the (kms_arn key)))]) \<and>
    (kms \<noteq> None \<longrightarrow> kms_arn (the kms) \<noteq> None)"
    using k(2) by (auto simp: repository_encryption_def split: option.splits)
  let ?ob = "repository_object r env region encryption"
  have f: "kfield ?ob [''Spec'', ''ForProvider'', ''Region''] = Some (VStr s)"
    "kfield ?ob [''Spec'', ''ForProvider'', ''EncryptionConfiguration''] = Some (VList [encryption])"
    "rep_spec_path r \<noteq> '''' \<or> rep_spec_name r \<noteq> '''' \<longrightarrow>
       map_of (k_annotations ?ob) ''crossplane.io/external-name'' =
         Some (path_join [rep_spec_path r, if rep_spec_name r \<noteq> '''' then rep_spec_name r else rep_name r])"
    by (simp_all add: repository_object_def kfield_def getExternalRepoName_def region(1) Let_def)
  show ?thesis
    by (intro exI [of _ ?ob] exI [of _ v] exI [of _ kms] exI [of _ s] exI [of _ encryption] conjI g v(1) k(1) f region(2)
        enc [THEN conjunct1] enc [THEN conjunct2])
qed

theorem repository_encrypted_in_region_witness:
  "\<exists>gen ob. demo_artifact_run [] = Inr gen \<and> map_of gen ''shop'' = Some ob \<and>
     kfield ob [''Spec'', ''ForProvider'', ''Region''] = Some (VStr ''eu-north-1'')"
proof -
  obtain gen where g: "demo_artifact_run [] = Inr gen" using demo_artifact_ok by blast
  have "\<not> prefix LifecyclePolicyResourcePrefix (rep_name demo_repository)" by code_simp
  from repository_encrypted_in_region [OF g [unfolded demo_artifact_run_def] this] g
  show ?thesis by (auto simp: demo_artifact_steps demo_repository_def)
qed

end
