(* ===== verification/Queue_Types.thy ===== *)
theory Queue_Types
  imports Kube
begin

text \<open>
  \<open>functions/queue/apis\<close>: the three composites of the group, MSK, Topic and KafkaUser, and its
  environment. \<open>queue_composite\<close> is the typed composite a handler is given.
\<close>

abbreviation "XRKindMSK \<equiv> ''MSK''"
abbreviation "XRKindTopic \<equiv> ''Topic''"
abbreviation "XRKindKafkaUser \<equiv> ''KafkaUser''"

record KafkaACL =
  acl_Topic :: string
  acl_Operation :: string

record KafkaUser =
  ku_kind :: string
  ku_name :: string
  ku_namespace :: string
  ku_ClusterName :: string
  ku_ConsumerGroups :: "string list"
  ku_ACLs :: "KafkaACL list"

record MSKStatus =
  ms_Brokers :: string
  ms_BrokersScram :: string
  ms_ARN :: string
  ms_Region :: string
  ms_ProviderConfig :: string

record MSKInstance =
  msk_kind :: string
  msk_name :: string
  msk_uid :: string
  msk_ClusterARN :: string
  msk_Status :: MSKStatus

record Topic =
  tp_kind :: string
  tp_name :: string
  tp_namespace :: string
  tp_Partitions :: "32 word"
  tp_ReplicationFactor :: "32 word"
  tp_Config :: "string option gomap"
  tp_ClusterName :: string

datatype queue_composite = CMSK MSKInstance | CTopic Topic | CKafkaUser KafkaUser

fun composite_kind :: "queue_composite \<Rightarrow> string" where
  "composite_kind (CMSK m) = msk_kind m"
| "composite_kind (CTopic t) = tp_kind t"
| "composite_kind (CKafkaUser u) = ku_kind u"

section \<open>The environment\<close>

record queue_Environment =
  qe_AWSProvider :: string
  qe_ConfigKMSKey :: string
  qe_KafkaNamespace :: string
  qe_Tags :: "string option gomap"

definition zero_queue_Environment :: queue_Environment where
  "zero_queue_Environment = \<lparr>qe_AWSProvider = '''', qe_ConfigKMSKey = '''', qe_KafkaNamespace = '''', qe_Tags = []\<rparr>"

definition queue_Environment_Validate :: "queue_Environment \<Rightarrow> unit res" where
  "queue_Environment_Validate e =
     refuse (qe_AWSProvider e = '''') ''awsProvider is required''
    (refuse (qe_KafkaNamespace e = '''') ''kafkaNamespace is required'' valid)"

text \<open>The fields the group reads of the provider type \<open>kms Key\<close>; the zero value when it is not required.\<close>

record kms_reference =
  kr_name :: string
  kr_namespace :: string

definition no_kms :: kms_reference where
  "no_kms = \<lparr>kr_name = '''', kr_namespace = ''''\<rparr>"

text \<open>
  The conversions of \<open>FromUnstructured\<close> at the types of this group, and the texts of the errors of
  \<open>encoding/base64\<close> and \<open>encoding/json\<close>.
\<close>

record queue_ext =
  qx_user :: "object \<Rightarrow> KafkaUser res"
  qx_msk :: "object \<Rightarrow> MSKInstance res"
  qx_topic :: "object \<Rightarrow> Topic res"
  qx_environment :: "queue_Environment decoder"
  qx_kms :: "object \<Rightarrow> kms_reference res"
  qx_base64_error :: "string \<Rightarrow> string"
  qx_json_error :: "string \<Rightarrow> string"

definition queue_GetEnvironment :: "ext \<Rightarrow> queue_ext \<Rightarrow> required \<Rightarrow> queue_Environment res" where
  "queue_GetEnvironment X D required =
     GetEnvironment X (qx_environment D) (\<lambda>e. failure_of (queue_Environment_Validate e)) zero_queue_Environment
       EnvironmentKey required"

end
