(* ===== verification/Queue_User.thy ===== *)
theory Queue_User
  imports Queue_Types
begin

text \<open>
  \<open>functions/queue/service/kafkauser.go\<close>: a Kafka user is a Kubernetes secret with its credentials, their
  copy in the AWS Secrets Manager, the association with the cluster, and one ACL for every consumer group
  and topic operation. The password is read back from the observed secret, so that it survives.
\<close>

record kafkaUserGenerator =
  kg_user :: KafkaUser
  kg_env :: queue_Environment
  kg_msk :: MSKInstance
  kg_kms :: kms_reference
  kg_password :: string
  kg_observed :: observed

section \<open>The password\<close>

definition generatePassword :: "(nat \<Rightarrow> nat res) \<Rightarrow> string res" where
  "generatePassword rnd = draw_chars rnd [0..<32]"

definition secret_resource :: "string \<Rightarrow> string" where
  "secret_resource username = ''k8s-secret-'' @ username"

definition resolvePassword :: "ext \<Rightarrow> queue_ext \<Rightarrow> (nat \<Rightarrow> nat res) \<Rightarrow> string \<Rightarrow> observed \<Rightarrow> string res" where
  "resolvePassword X D rnd username observed =
     (case map_of observed (secret_resource username) of
        None \<Rightarrow> generatePassword rnd
      | Some oc \<Rightarrow>
          bindr (deref (oc_resource oc)) (\<lambda>ob.
            case found (nested_string X ob [''data'', ''secretString'']) of
              None \<Rightarrow> generatePassword rnd
            | Some secretStringB64 \<Rightarrow>
                if secretStringB64 = '''' then generatePassword rnd
                else case b64_decode secretStringB64 of
                  None \<Rightarrow> Inl (Error (''failed to base64 decode existing secret for user '' @ username @ '': '' @
                            qx_base64_error D secretStringB64))
                | Some secretBytes \<Rightarrow>
                    (case unmarshal_strings secretBytes of
                       None \<Rightarrow> Inl (Error (''failed to unmarshal existing secret for user '' @ username @ '': '' @
                                 qx_json_error D secretBytes))
                     | Some secretData \<Rightarrow>
                         if gget secretData ''password'' \<noteq> '''' then Inr (gget secretData ''password'')
                         else generatePassword rnd)))"

definition newKafkaUserGenerator ::
  "ext \<Rightarrow> queue_ext \<Rightarrow> (nat \<Rightarrow> nat res) \<Rightarrow> KafkaUser \<Rightarrow> required \<Rightarrow> observed \<Rightarrow> kafkaUserGenerator res" where
  "newKafkaUserGenerator X D rnd user required observed =
     bindr (queue_GetEnvironment X D required) (\<lambda>env.
     bindr (wrapf ''cannot get MSKObserver'' (ExtractRequiredResource required ''MSKObserver'' (qx_msk D))) (\<lambda>msk.
     bindr (ExtractOptionalResource required ''KMSConfigKey'' (qx_kms D)) (\<lambda>kms.
     bindr (wrapf ''cannot resolve password'' (resolvePassword X D rnd (ku_name user) observed)) (\<lambda>password.
       Inr \<lparr>kg_user = user, kg_env = env, kg_msk = msk, kg_kms = case_option no_kms id kms,
            kg_password = password, kg_observed = observed\<rparr>))))"

section \<open>The generated objects\<close>

definition user_labels :: "string \<Rightarrow> string \<Rightarrow> string gomap" where
  "user_labels clusterName username = [(''msk-cluster'', clusterName), (''kafka-user'', username)]"

definition credentials_doc :: "string \<Rightarrow> string \<Rightarrow> string \<Rightarrow> doc" where
  "credentials_doc username password brokers =
     DObj (string_fields [(''username'', username), (''password'', password), (''bootstrap_servers'', brokers)])"

definition buildK8sSecret :: "kafkaUserGenerator \<Rightarrow> string \<Rightarrow> string \<Rightarrow> kobject" where
  "buildK8sSecret g clusterName username =
     \<lparr>k_type = ''core/v1.Secret'', k_apiVersion = ''v1'', k_kind = ''Secret'',
      k_name = clusterName @ ''-'' @ username @ ''-k8s'', k_namespace = ku_namespace (kg_user g),
      k_labels = user_labels clusterName username, k_annotations = [],
      k_fields = [(''Type'', VStr ''Opaque''),
        (''StringData'', str_map_val [(''secretString'',
           marshal (credentials_doc username (kg_password g) (ms_BrokersScram (msk_Status (kg_msk g)))))])]\<rparr>"

definition secretsmanager :: string where "secretsmanager = ''secretsmanager.aws.m.upbound.io/v1beta1''"

definition user_object :: "kafkaUserGenerator \<Rightarrow> string \<Rightarrow> string \<Rightarrow> string \<Rightarrow> string gomap \<Rightarrow> (string \<times> gval) list \<Rightarrow> kobject" where
  "user_object g apiVersion kind name labels spec =
     \<lparr>k_type = kind, k_apiVersion = apiVersion, k_kind = kind, k_name = name,
      k_namespace = ku_namespace (kg_user g), k_labels = labels, k_annotations = [],
      k_fields = [(''Spec'', VObj spec)]\<rparr>"

definition buildAWSSecret :: "kafkaUserGenerator \<Rightarrow> string \<Rightarrow> string \<Rightarrow> kobject" where
  "buildAWSSecret g clusterName username =
     (let tags = gcopy [] (qe_Tags (kg_env g));
          tags = gset ''KafkaCluster'' (Some clusterName) tags;
          tags = gset ''KafkaUser'' (Some username) tags
      in user_object g secretsmanager ''Secret'' (clusterName @ ''-'' @ username) (user_labels clusterName username)
           [managed_spec (qe_AWSProvider (kg_env g)),
            (''ForProvider'', VObj
              [(''Name'', VStr (''AmazonMSK_'' @ clusterName @ ''-'' @ username)),
               (''Description'', VStr (''SCRAM credentials for Kafka user '' @ username)),
               (''Region'', VStr (ms_Region (msk_Status (kg_msk g)))),
               (''KMSKeyIDRef'', VObj [(''Name'', VStr (kr_name (kg_kms g))), (''Namespace'', VStr (kr_namespace (kg_kms g)))]),
               (''RecoveryWindowInDays'', VFloat 0),
               (''Tags'', ptr_map_val tags)])])"

definition buildSecretVersion :: "kafkaUserGenerator \<Rightarrow> string \<Rightarrow> string \<Rightarrow> kobject" where
  "buildSecretVersion g clusterName username =
     user_object g secretsmanager ''SecretVersion'' (clusterName @ ''-'' @ username @ ''-version'')
       (user_labels clusterName username)
       [(''ManagedResourceSpec'', VObj
           [(''ProviderConfigReference'', provider_config (qe_AWSProvider (kg_env g))),
            (''ManagementPolicies'', VList [VStr ''Observe'', VStr ''Create'', VStr ''Delete''])]),
        (''ForProvider'', VObj
           [(''Region'', VStr (ms_Region (msk_Status (kg_msk g)))),
            (''SecretIDSelector'', VObj [(''MatchLabels'', str_map_val (user_labels clusterName username))]),
            (''SecretStringSecretRef'', VObj
               [(''LocalSecretReference'', VObj [(''Name'', VStr (clusterName @ ''-'' @ username @ ''-k8s''))]),
                (''Key'', VStr ''secretString'')])])]"

text \<open>The text of the policy, with its quotes written as a character.\<close>

definition json_pair :: "string \<Rightarrow> string \<Rightarrow> string" where
  "json_pair k v = [CHR 0x22] @ k @ [CHR 0x22] @ '':'' @ v"

definition quoted :: "string \<Rightarrow> string" where "quoted s = [CHR 0x22] @ s @ [CHR 0x22]"

definition secret_policy_text :: string where
  "secret_policy_text =
     ''{'' @ json_pair ''Version'' (quoted ''2012-10-17'') @ '','' @ json_pair ''Statement''
       (''[{'' @ json_pair ''Sid'' (quoted ''AWSKafkaResourcePolicy'') @ '','' @ json_pair ''Effect'' (quoted ''Allow'') @ '','' @
        json_pair ''Principal'' (''{'' @ json_pair ''Service'' (quoted ''kafka.amazonaws.com'') @ ''}'') @ '','' @
        json_pair ''Action'' (quoted ''secretsmanager:GetSecretValue'') @ '','' @ json_pair ''Resource'' (quoted ''*'') @ ''}]'') @ ''}''"

definition buildSecretPolicy :: "kafkaUserGenerator \<Rightarrow> string \<Rightarrow> string \<Rightarrow> kobject" where
  "buildSecretPolicy g clusterName username =
     user_object g secretsmanager ''SecretPolicy'' (clusterName @ ''-'' @ username @ ''-policy'')
       (user_labels clusterName username)
       [managed_spec (qe_AWSProvider (kg_env g)),
        (''ForProvider'', VObj
           [(''Region'', VStr (ms_Region (msk_Status (kg_msk g)))),
            (''SecretArnSelector'', VObj [(''MatchLabels'', str_map_val (user_labels clusterName username))]),
            (''Policy'', VStr secret_policy_text)])]"

definition buildScramAssociation :: "kafkaUserGenerator \<Rightarrow> string \<Rightarrow> string \<Rightarrow> kobject" where
  "buildScramAssociation g clusterName username =
     user_object g ''kafka.aws.m.upbound.io/v1beta1'' ''SingleScramSecretAssociation''
       (clusterName @ ''-'' @ username @ ''-scram'') []
       [managed_spec (qe_AWSProvider (kg_env g)),
        (''ForProvider'', VObj
           [(''Region'', VStr (ms_Region (msk_Status (kg_msk g)))),
            (''ClusterArn'', VStr (ms_ARN (msk_Status (kg_msk g)))),
            (''SecretArnRef'', VObj [(''Name'', VStr (clusterName @ ''-'' @ username)),
               (''Namespace'', VStr (ku_namespace (kg_user g)))])])]"

definition acl_object :: "kafkaUserGenerator \<Rightarrow> string \<Rightarrow> string \<Rightarrow> string \<Rightarrow> string \<Rightarrow> string \<Rightarrow> kobject" where
  "acl_object g name username rtype rname operation =
     user_object g ''acl.kafka.m.crossplane.io/v1alpha1'' ''AccessControlList'' name []
       [managed_spec (ms_ProviderConfig (msk_Status (kg_msk g))),
        (''ForProvider'', VObj
           [(''ResourceType'', VStr rtype), (''ResourceName'', VStr rname),
            (''ResourcePatternTypeFilter'', VStr ''Literal''), (''ResourcePrincipal'', VStr (''User:'' @ username)),
            (''ResourceHost'', VStr ''*''), (''ResourceOperation'', VStr operation),
            (''ResourcePermissionType'', VStr ''Allow'')])]"

definition buildConsumerGroupACL :: "kafkaUserGenerator \<Rightarrow> string \<Rightarrow> string \<Rightarrow> kobject" where
  "buildConsumerGroupACL g username cgroup =
     acl_object g (username @ ''-'' @ to_lower cgroup @ ''-cg'') username ''Group'' cgroup ''Read''"

definition buildTopicACL :: "kafkaUserGenerator \<Rightarrow> string \<Rightarrow> string \<Rightarrow> string \<Rightarrow> kobject" where
  "buildTopicACL g username topic operation =
     acl_object g (topic @ ''-'' @ username @ ''-'' @ to_lower operation) username ''Topic'' topic operation"

section \<open>Generation\<close>

definition group_key :: "string \<Rightarrow> string \<Rightarrow> string" where
  "group_key username cgroup = ''acl-cg-'' @ username @ ''-'' @ cgroup"

definition topic_key :: "string \<Rightarrow> KafkaACL \<Rightarrow> string" where
  "topic_key username acl = ''acl-topic-'' @ acl_Topic acl @ ''-'' @ username @ ''-'' @ to_lower (acl_Operation acl)"

definition group_acls :: "kafkaUserGenerator \<Rightarrow> string \<Rightarrow> string list \<Rightarrow> kobject gomap \<Rightarrow> kobject gomap" where
  "group_acls g username = put_all (group_key username) (buildConsumerGroupACL g username)"

definition topic_acls :: "kafkaUserGenerator \<Rightarrow> string \<Rightarrow> KafkaACL list \<Rightarrow> kobject gomap \<Rightarrow> kobject gomap" where
  "topic_acls g username =
     put_all (topic_key username) (\<lambda>acl. buildTopicACL g username (acl_Topic acl) (acl_Operation acl))"

definition user_generate :: "kafkaUserGenerator \<Rightarrow> kobject gomap res" where
  "user_generate g =
     (let username = ku_name (kg_user g);
          clusterName = ku_ClusterName (kg_user g);
          desired = gset (secret_resource username) (buildK8sSecret g clusterName username) []
      in if map_of (kg_observed g) (secret_resource username) = None then Inr desired
         else
           let desired = gset (''aws-secret-'' @ username) (buildAWSSecret g clusterName username) desired;
               desired = gset (''secret-version-'' @ username) (buildSecretVersion g clusterName username) desired;
               desired = gset (''secret-policy-'' @ username) (buildSecretPolicy g clusterName username) desired;
               desired = gset (''scram-association-'' @ username) (buildScramAssociation g clusterName username) desired;
               desired = group_acls g username (ku_ConsumerGroups (kg_user g)) desired
           in Inr (topic_acls g username (ku_ACLs (kg_user g)) desired))"

definition GenerateKafkaUserObjects ::
  "ext \<Rightarrow> queue_ext \<Rightarrow> (nat \<Rightarrow> nat res) \<Rightarrow> KafkaUser \<Rightarrow> required \<Rightarrow> observed \<Rightarrow> kobject gomap res" where
  "GenerateKafkaUserObjects X D rnd user required observed =
     bindr (newKafkaUserGenerator X D rnd user required observed) user_generate"

end
