(* ===== verification/Queue_Service.thy ===== *)
theory Queue_Service
  imports Queue_User
begin

text \<open>
  \<open>functions/queue/service/msk.go\<close>, \<open>topic.go\<close> and \<open>functions/queue/group.go\<close>: the observed MSK cluster
  with the provider config that reaches it, topics, and the group interface.
\<close>

section \<open>The MSK composite\<close>

record mskInstanceGenerator =
  mg_instance :: MSKInstance
  mg_env :: queue_Environment
  mg_observed :: observed
  mg_cluster :: string
  mg_configSecret :: string
  mg_clusterProviderConfig :: string

definition GetMskClusterName :: "ext \<Rightarrow> string \<Rightarrow> string \<Rightarrow> string" where
  "GetMskClusterName X instanceName hash =
     GenerateEligibleKubernetesFullName X (instanceName @ ''-msk-cluster-'' @ hash)"

definition GetConfigSecretName :: "ext \<Rightarrow> string \<Rightarrow> string \<Rightarrow> string" where
  "GetConfigSecretName X instanceName hash =
     GenerateEligibleKubernetesFullName X (instanceName @ ''-kafka-config-secret-'' @ hash)"

definition GetClusterProviderConfigName :: "string \<Rightarrow> string" where
  "GetClusterProviderConfigName hash = ''kafka-cluster-provider-config-'' @ hash"

definition newMskInstanceGenerator ::
  "ext \<Rightarrow> queue_ext \<Rightarrow> MSKInstance \<Rightarrow> required \<Rightarrow> observed \<Rightarrow> mskInstanceGenerator res" where
  "newMskInstanceGenerator X D m required observed =
     bindr (queue_GetEnvironment X D required) (\<lambda>env.
       let hash = GenerateFNVHash (msk_uid m) in
       Inr \<lparr>mg_instance = m, mg_env = env, mg_observed = observed,
            mg_cluster = GetMskClusterName X (msk_name m) hash,
            mg_configSecret = GetConfigSecretName X (msk_name m) hash,
            mg_clusterProviderConfig = GetClusterProviderConfigName hash\<rparr>)"

definition isServerlessARN :: "string \<Rightarrow> bool" where
  "isServerlessARN arn =
     (let parts = split_on (CHR ''/'') arn in
      if length parts = 0 then False
      else let lastPart = parts ! (length parts - 1) in
        case last_index lastPart ''-s'' of
          None \<Rightarrow> False
        | Some idx \<Rightarrow>
            if idx + 2 > length lastPart then False
            else let sfx = drop (idx + 2) lastPart in
              if length sfx = 0 then False else \<forall>c \<in> set sfx. is_digit c)"

definition msk_cluster_object :: "mskInstanceGenerator \<Rightarrow> string \<Rightarrow> string \<Rightarrow> string \<Rightarrow> string \<Rightarrow> kobject" where
  "msk_cluster_object g apiVersion kind arn region =
     \<lparr>k_type = kind, k_apiVersion = apiVersion, k_kind = kind, k_name = mg_cluster g, k_namespace = '''',
      k_labels = [], k_annotations = [(''crossplane.io/external-name'', arn)],
      k_fields = [(''Spec'', VObj
        [(''ResourceSpec'', VObj
            [(''ProviderConfigReference'', VObj [(''Name'', VStr (qe_AWSProvider (mg_env g)))]),
             (''ManagementPolicies'', VList [VStr ''Observe''])]),
         (''ForProvider'', VObj [(''Region'', VStr region)])])]\<rparr>"

definition buildMskCluster :: "mskInstanceGenerator \<Rightarrow> kobject res" where
  "buildMskCluster g =
     (let arn = msk_ClusterARN (mg_instance g); parts = split_on (CHR '':'') arn in
      if length parts < 4 then Inl (Error (''invalid cluster ARN: '' @ arn))
      else let region = parts ! 3 in
        if isServerlessARN arn
        then Inr (msk_cluster_object g ''kafka.aws.upbound.io/v1beta2'' ''ServerlessCluster'' arn region)
        else Inr (msk_cluster_object g ''kafka.aws.upbound.io/v1beta3'' ''Cluster'' arn region))"

definition kafka_credentials :: "string \<Rightarrow> doc" where
  "kafka_credentials brokersStr =
     DObj [(''brokers'', DArr (map DStr (split_on (CHR '','') brokersStr))),
           (''sasl'', DObj [(''mechanism'', DStr ''AWS-MSK-IAM'')]),
           (''tlsEnabled'', DBool True), (''skipTlsVerify'', DBool False)]"

definition buildKafkaSecret :: "mskInstanceGenerator \<Rightarrow> string \<Rightarrow> kobject" where
  "buildKafkaSecret g brokersStr =
     \<lparr>k_type = ''core/v1.Secret'', k_apiVersion = ''v1'', k_kind = ''Secret'', k_name = mg_configSecret g,
      k_namespace = qe_KafkaNamespace (mg_env g), k_labels = [], k_annotations = [],
      k_fields = [(''Type'', VStr ''Opaque''),
        (''Data'', str_map_val [(''credentials'', marshal (kafka_credentials brokersStr))])]\<rparr>"

definition buildClusterProviderConfig :: "mskInstanceGenerator \<Rightarrow> kobject" where
  "buildClusterProviderConfig g =
     \<lparr>k_type = ''kafka/v1alpha1.ClusterProviderConfig'', k_apiVersion = ''kafka.m.crossplane.io/v1alpha1'',
      k_kind = ''ClusterProviderConfig'', k_name = mg_clusterProviderConfig g, k_namespace = '''',
      k_labels = [], k_annotations = [],
      k_fields = [(''Spec'', VObj [(''Credentials'', VObj
        [(''Source'', VStr ''Secret''),
         (''CommonCredentialSelectors'', VObj [(''SecretRef'', VObj
            [(''SecretReference'', VObj [(''Name'', VStr (mg_configSecret g)),
                (''Namespace'', VStr (qe_KafkaNamespace (mg_env g)))]),
             (''Key'', VStr ''credentials'')])])])])]\<rparr>"

definition msk_generate :: "ext \<Rightarrow> mskInstanceGenerator \<Rightarrow> kobject gomap res" where
  "msk_generate X g =
     bindr (buildMskCluster g) (\<lambda>cluster.
       let desired = gset (mg_cluster g) cluster [] in
       case Option.bind (map_of (mg_observed g) (mg_cluster g)) oc_resource of
         None \<Rightarrow> Inr desired
       | Some ob \<Rightarrow>
           (case nested_string X ob [''status'', ''atProvider'', ''bootstrapBrokersSaslIam''] of
              Inr (Some brokers) \<Rightarrow>
                if brokers = '''' then Inr desired
                else
                  let desired = gset (mg_configSecret g) (buildKafkaSecret g brokers) desired
                  in Inr (gset (mg_clusterProviderConfig g) (buildClusterProviderConfig g) desired)
            | _ \<Rightarrow> Inr desired))"

definition GenerateMskInstanceObjects ::
  "ext \<Rightarrow> queue_ext \<Rightarrow> MSKInstance \<Rightarrow> required \<Rightarrow> observed \<Rightarrow> kobject gomap res" where
  "GenerateMskInstanceObjects X D m required observed =
     bindr (newMskInstanceGenerator X D m required observed) (msk_generate X)"

section \<open>Topics\<close>

definition default_three :: "32 word \<Rightarrow> int" where
  "default_three n = (let n = sint n in if n = 0 then 3 else n)"

definition topic_object :: "Topic \<Rightarrow> MSKInstance \<Rightarrow> kobject" where
  "topic_object t m =
     \<lparr>k_type = ''topic/v1alpha1.Topic'', k_apiVersion = ''topic.kafka.m.crossplane.io/v1alpha1'', k_kind = ''Topic'',
      k_name = tp_name t, k_namespace = tp_namespace t, k_labels = [], k_annotations = [],
      k_fields = [(''Spec'', VObj
        [managed_spec (ms_ProviderConfig (msk_Status m)),
         (''ForProvider'', VObj
            [(''Partitions'', VInt (default_three (tp_Partitions t))),
             (''ReplicationFactor'', VInt (default_three (tp_ReplicationFactor t))),
             (''Config'', ptr_map_val (tp_Config t))])])]\<rparr>"

definition GenerateTopicObjects ::
  "queue_ext \<Rightarrow> Topic \<Rightarrow> required \<Rightarrow> observed \<Rightarrow> kobject gomap res" where
  "GenerateTopicObjects D t required observed =
     bindr (wrapf ''cannot get MSKObserver'' (ExtractRequiredResource required ''MSKObserver'' (qx_msk D))) (\<lambda>m.
       if ms_ProviderConfig (msk_Status m) = ''''
       then Inl (Error (''MSK for cluster '' @ tp_ClusterName t @ '' is not ready: providerConfig is empty''))
       else Inr [(''topic-'' @ tp_name t, topic_object t m)])"

section \<open>The group\<close>

definition wrong_type :: "'a res" where
  "wrong_type = Inl (Panic ''interface conversion'')"

definition queue_handlers ::
  "ext \<Rightarrow> queue_ext \<Rightarrow> (nat \<Rightarrow> nat res) \<Rightarrow> (queue_composite, kobject) ResourceHandler gomap" where
  "queue_handlers X D rnd =
     [(XRKindMSK, \<lparr>h_decode = (\<lambda>ob. bindr (qx_msk D ob) (\<lambda>m. Inr (CMSK m))),
        h_generate = (\<lambda>c required observed. case c of
          CMSK m \<Rightarrow> GenerateMskInstanceObjects X D m required observed | _ \<Rightarrow> wrong_type)\<rparr>),
      (XRKindTopic, \<lparr>h_decode = (\<lambda>ob. bindr (qx_topic D ob) (\<lambda>t. Inr (CTopic t))),
        h_generate = (\<lambda>c required observed. case c of
          CTopic t \<Rightarrow> GenerateTopicObjects D t required observed | _ \<Rightarrow> wrong_type)\<rparr>),
      (XRKindKafkaUser, \<lparr>h_decode = (\<lambda>ob. bindr (qx_user D ob) (\<lambda>u. Inr (CKafkaUser u))),
        h_generate = (\<lambda>c required observed. case c of
          CKafkaUser u \<Rightarrow> GenerateKafkaUserObjects X D rnd u required observed | _ \<Rightarrow> wrong_type)\<rparr>)]"

definition user_patterns :: "string list" where
  "user_patterns = [''k8s-secret-'', ''aws-secret-'', ''secret-version-'', ''secret-policy-'', ''scram-association-'', ''acl-'']"

definition queue_GetSequence :: "queue_composite \<Rightarrow> Sequence" where
  "queue_GetSequence c =
     (if composite_kind c = XRKindKafkaUser then NewSequence True (map (\<lambda>p. [p @ ''.*'']) user_patterns)
      else empty_sequence)"

definition msk_observer :: "ext \<Rightarrow> object \<Rightarrow> selector" where
  "msk_observer X composite =
     (let clusterName = (case found (nested_string X composite [''spec'', ''clusterName'']) of None \<Rightarrow> '''' | Some s \<Rightarrow> s)
      in \<lparr>sel_kind = ''MSK'', sel_api_version = ''queue.entigo.com/v1alpha1'',
          sel_match = MatchName (clusterName @ ''-observed''), sel_namespace = None\<rparr>)"

definition environment_selector :: selectors where
  "environment_selector = [(EnvironmentKey, RequiredEnvironmentConfig ''platform-apis-queue'')]"

definition getTopicRequiredResources :: "ext \<Rightarrow> object \<Rightarrow> selectors res" where
  "getTopicRequiredResources X composite = Inr [(''MSKObserver'', msk_observer X composite)]"

definition getKafkaUserRequiredResources :: "ext \<Rightarrow> queue_ext \<Rightarrow> object \<Rightarrow> required \<Rightarrow> selectors res" where
  "getKafkaUserRequiredResources X D composite required =
     (let resources = environment_selector in
      if map_of required EnvironmentKey = None then Inr resources
      else bindr (queue_GetEnvironment X D required) (\<lambda>env.
        let resources = gset ''MSKObserver'' (msk_observer X composite) resources in
        Inr (if qe_ConfigKMSKey env \<noteq> ''''
             then gset ''KMSConfigKey'' (RequiredKMSKey (qe_ConfigKMSKey env) (qe_AWSProvider env)) resources
             else resources)))"

definition queue_GetRequiredResources :: "ext \<Rightarrow> queue_ext \<Rightarrow> object \<Rightarrow> required \<Rightarrow> selectors res" where
  "queue_GetRequiredResources X D composite required =
     (if get_kind X composite = XRKindMSK then Inr environment_selector
      else if get_kind X composite = XRKindTopic then getTopicRequiredResources X composite
      else if get_kind X composite = XRKindKafkaUser then getKafkaUserRequiredResources X D composite required
      else Inr [])"

definition provider_string :: "ext \<Rightarrow> object \<Rightarrow> string \<Rightarrow> string" where
  "provider_string X ob f =
     (case found (nested_string X ob [''status'', ''atProvider'', f]) of None \<Rightarrow> '''' | Some s \<Rightarrow> s)"

definition arn_region :: "string \<Rightarrow> string" where
  "arn_region arn = (let parts = split_on (CHR '':'') arn in if length parts \<ge> 4 then parts ! 3 else '''')"

definition queue_GetObservedStatus :: "ext \<Rightarrow> object \<Rightarrow> object res" where
  "queue_GetObservedStatus X ob =
     (let kind = get_kind X ob in
      if kind = ''ClusterProviderConfig'' \<and> prefix ''kafka.m.crossplane.io'' (get_api_version X ob) then
        (if get_name X ob = '''' then Inr [] else Inr [(''providerConfig'', JStr (get_name X ob))])
      else if (kind \<noteq> ''Cluster'' \<and> kind \<noteq> ''ServerlessCluster'') \<or>
              \<not> prefix ''kafka.aws.upbound.io'' (get_api_version X ob) then Inr []
      else
        let brokers = provider_string X ob ''bootstrapBrokersSaslIam'';
            brokersScram = provider_string X ob ''bootstrapBrokersSaslScram'';
            arn = provider_string X ob ''arn''
        in if brokers = '''' \<and> arn = '''' then Inr []
           else Inr [(''brokers'', JStr brokers), (''brokersscram'', JStr brokersScram), (''arn'', JStr arn),
                     (''region'', JStr (arn_region arn))])"

definition queue_group :: "ext \<Rightarrow> queue_ext \<Rightarrow> (nat \<Rightarrow> nat res) \<Rightarrow> (queue_composite, kobject) GroupService" where
  "queue_group X D rnd = \<lparr>SkipGeneration = (\<lambda>composite. False),
     GetResourceHandlers = queue_handlers X D rnd,
     GetSequence = queue_GetSequence,
     GetReadyStatus = (\<lambda>observed. None),
     GetRequiredResources = queue_GetRequiredResources X D,
     GetObservedStatus = queue_GetObservedStatus X,
     PostProcessStatus = None\<rparr>"

end
