(* ===== verification/Queue_Props.thy ===== *)
theory Queue_Props
  imports Queue_Service
begin

text \<open>
  The queue group: the password of a Kafka user survives reconciliation, its ACLs grant what the spec asks
  for and nothing else, its resources are created in order, and the MSK cluster is observed under its kind.
\<close>

section \<open>Passwords\<close>

lemmas generatePassword_ok = password_ok [folded generatePassword_def]

text \<open>
  The secret that a run writes, with its password, and the same secret once Kubernetes has stored it, in
  base64, where the next run reads it.
\<close>

definition secret_text :: "kobject \<Rightarrow> string \<Rightarrow> bool" where
  "secret_text secret text \<longleftrightarrow> kfield secret [''StringData''] = Some (str_map_val [(''secretString'', text)])"

definition writes_password :: "kobject \<Rightarrow> string \<Rightarrow> bool" where
  "writes_password secret p \<longleftrightarrow> (\<exists>u b. secret_text secret (marshal (credentials_doc u p b)))"

definition stored_secret :: "ext \<Rightarrow> kobject \<Rightarrow> object \<Rightarrow> bool" where
  "stored_secret X secret ob \<longleftrightarrow>
     (\<exists>text. secret_text secret text \<and> nested_string X ob [''data'', ''secretString''] = Inr (Some (b64_encode text)))"

lemma credentials_read:
  assumes "valid_utf8 p"
  shows "\<exists>m. unmarshal_strings (marshal (credentials_doc u p b)) = Some m \<and> gget m ''password'' = p"
proof -
  have s: "sanitize ''username'' = ''username''" "sanitize ''password'' = ''password''"
    "sanitize ''bootstrap_servers'' = ''bootstrap_servers''"
    by (rule sanitize_valid, rule valid_utf8_ascii, simp)+
  show ?thesis
    unfolding credentials_doc_def unmarshal_marshal
    by (simp add: sanitized_def s sanitize_valid [OF assms] gget_def)
qed

lemma b64_encode_nonempty: "b64_encode s = [] \<longleftrightarrow> s = []"
  by (cases s rule: b64_encode.cases) simp_all

lemma resolvePassword_stored:
  assumes "map_of observed (secret_resource u) = Some oc" and "oc_resource oc = Some ob"
    and "stored_secret X secret ob" and "writes_password secret p" and "valid_utf8 p" and "p \<noteq> ''''"
  shows "resolvePassword X D rnd u observed = Inr p"
proof -
  from assms(4) obtain u' b where t: "secret_text secret (marshal (credentials_doc u' p b))"
    by (auto simp: writes_password_def)
  let ?doc = "credentials_doc u' p b"
  from assms(3) t have n: "nested_string X ob [''data'', ''secretString''] = Inr (Some (b64_encode (marshal ?doc)))"
    by (auto simp: stored_secret_def secret_text_def map_val_def)
  from credentials_read [OF assms(5)] obtain m where m: "unmarshal_strings (marshal ?doc) = Some m" "gget m ''password'' = p"
    by blast
  have "marshal ?doc \<noteq> []" by (simp add: credentials_doc_def)
  then show ?thesis
    using assms(1,2,6) by (simp add: resolvePassword_def n b64_encode_nonempty b64_roundtrip m)
qed

section \<open>The generated resources of a user\<close>

definition user_base_names :: "string \<Rightarrow> string list" where
  "user_base_names u = [''aws-secret-'' @ u, ''secret-version-'' @ u, ''secret-policy-'' @ u, ''scram-association-'' @ u]"

text \<open>The ACLs on top of the other resources.\<close>

definition user_base :: "kafkaUserGenerator \<Rightarrow> kobject gomap" where
  "user_base g =
     (let u = ku_name (kg_user g); c = ku_ClusterName (kg_user g) in
      gset (''scram-association-'' @ u) (buildScramAssociation g c u)
     (gset (''secret-policy-'' @ u) (buildSecretPolicy g c u)
     (gset (''secret-version-'' @ u) (buildSecretVersion g c u)
     (gset (''aws-secret-'' @ u) (buildAWSSecret g c u)
     (gset (secret_resource u) (buildK8sSecret g c u) [])))))"

lemma user_generate_acls:
  assumes "map_of (kg_observed g) (secret_resource (ku_name (kg_user g))) \<noteq> None"
  shows "user_generate g = Inr (topic_acls g (ku_name (kg_user g)) (ku_ACLs (kg_user g))
    (group_acls g (ku_name (kg_user g)) (ku_ConsumerGroups (kg_user g)) (user_base g)))"
  using assms by (auto simp: user_generate_def user_base_def Let_def)

lemma user_generate_dom:
  assumes "user_generate g = Inr gen"
  shows "dom (map_of gen) = insert (secret_resource (ku_name (kg_user g)))
    (if map_of (kg_observed g) (secret_resource (ku_name (kg_user g))) = None then {}
     else set (user_base_names (ku_name (kg_user g))) \<union>
       group_key (ku_name (kg_user g)) ` set (ku_ConsumerGroups (kg_user g)) \<union>
       topic_key (ku_name (kg_user g)) ` set (ku_ACLs (kg_user g)))"
proof (cases "map_of (kg_observed g) (secret_resource (ku_name (kg_user g))) = None")
  case True
  with assms show ?thesis by (auto simp: user_generate_def Let_def split: if_splits)
next
  case False
  have d: "dom (map_of (user_base g)) = insert (secret_resource (ku_name (kg_user g))) (set (user_base_names (ku_name (kg_user g))))"
    unfolding user_base_def user_base_names_def Let_def map_of_gset dom_fun_upd by auto
  from assms have gen: "gen = topic_acls g (ku_name (kg_user g)) (ku_ACLs (kg_user g))
      (group_acls g (ku_name (kg_user g)) (ku_ConsumerGroups (kg_user g)) (user_base g))"
    unfolding user_generate_acls [OF False] by simp
  show ?thesis unfolding gen topic_acls_def group_acls_def put_all_dom d using False by auto
qed

lemma user_generate_wf: "user_generate g = Inr gen \<Longrightarrow> wf_map gen"
  by (auto simp: user_generate_def Let_def group_acls_def topic_acls_def split: if_splits)

lemmas user_name_defs = secret_resource_def group_key_def topic_key_def

lemma user_secret:
  assumes "user_generate g = Inr gen"
  shows "map_of gen (secret_resource (ku_name (kg_user g))) =
    Some (buildK8sSecret g (ku_ClusterName (kg_user g)) (ku_name (kg_user g)))"
  using assms
  by (auto simp: user_generate_def Let_def group_acls_def topic_acls_def put_all_other user_name_defs image_iff split: if_splits)

lemma newKafkaUserGenerator_ok:
  assumes "newKafkaUserGenerator X D rnd user required observed = Inr g"
  shows "kg_user g = user" and "kg_observed g = observed"
    and "resolvePassword X D rnd (ku_name user) observed = Inr (kg_password g)"
    and "ExtractRequiredResource required ''MSKObserver'' (qx_msk D) = Inr (kg_msk g)"
  using assms by (auto simp: newKafkaUserGenerator_def res_simps)

lemma GenerateKafkaUserObjects_ok:
  assumes "GenerateKafkaUserObjects X D rnd user required observed = Inr gen"
  obtains g where "newKafkaUserGenerator X D rnd user required observed = Inr g" and "user_generate g = Inr gen"
    and "kg_user g = user" and "kg_observed g = observed"
    and "resolvePassword X D rnd (ku_name user) observed = Inr (kg_password g)"
proof -
  from assms obtain g where "newKafkaUserGenerator X D rnd user required observed = Inr g" "user_generate g = Inr gen"
    unfolding GenerateKafkaUserObjects_def bindr_Inr_iff by blast
  with newKafkaUserGenerator_ok show thesis by (intro that)
qed

lemma user_secret_password:
  assumes "user_generate g = Inr gen"
  obtains secret where "map_of gen (secret_resource (ku_name (kg_user g))) = Some secret"
    and "writes_password secret (kg_password g)"
  using user_secret [OF assms] that
  by (fastforce simp: writes_password_def secret_text_def kfield_def buildK8sSecret_def)

text \<open>
  Rounds of reconciliation of one user: the first creates the secret, a later one observes the secret that
  the round before it wrote. The draws, the composite and the required resources may change in between.
\<close>

inductive password_rounds :: "ext \<Rightarrow> queue_ext \<Rightarrow> string \<Rightarrow> kobject \<Rightarrow> kobject \<Rightarrow> bool" for X D u where
  first: "GenerateKafkaUserObjects X D rnd user required observed = Inr gen \<Longrightarrow> draws rnd \<Longrightarrow> ku_name user = u \<Longrightarrow>
    map_of observed (secret_resource u) = None \<Longrightarrow> map_of gen (secret_resource u) = Some secret \<Longrightarrow>
    password_rounds X D u secret secret"
| later: "password_rounds X D u secret0 secret \<Longrightarrow>
    map_of observed (secret_resource u) = Some oc \<Longrightarrow> oc_resource oc = Some ob \<Longrightarrow> stored_secret X secret ob \<Longrightarrow>
    GenerateKafkaUserObjects X D rnd user required observed = Inr gen \<Longrightarrow> ku_name user = u \<Longrightarrow>
    map_of gen (secret_resource u) = Some secret' \<Longrightarrow> password_rounds X D u secret0 secret'"

lemma password_rounds_inv:
  assumes "password_rounds X D u secret0 secret"
  shows "\<exists>p. length p = 32 \<and> set p \<subseteq> set password_chars \<and> writes_password secret0 p \<and> writes_password secret p"
  using assms
proof induction
  case (first rnd user required observed gen secret)
  from first.hyps(1) obtain g where g: "user_generate g = Inr gen" "kg_user g = user"
    "resolvePassword X D rnd (ku_name user) observed = Inr (kg_password g)" by (rule GenerateKafkaUserObjects_ok)
  then have "generatePassword rnd = Inr (kg_password g)" using first.hyps(3,4) by (simp add: resolvePassword_def)
  with first.hyps(2) have "length (kg_password g) = 32" "set (kg_password g) \<subseteq> set password_chars"
    using generatePassword_ok(1,2) by blast+
  with user_secret_password [OF g(1)] g(2) first.hyps(3,5) show ?case by (metis option.inject)
next
  case (later secret0 secret observed oc ob rnd user required gen secret')
  then obtain p where p: "length p = 32" "set p \<subseteq> set password_chars" "writes_password secret0 p" "writes_password secret p"
    by blast
  from p(1,2) have "valid_utf8 p" "p \<noteq> ''''" using password_char_ascii by (auto intro!: valid_utf8_ascii)
  note read = resolvePassword_stored [OF later.hyps(2-4) p(4) this, of D rnd]
  from later.hyps(5) obtain g where g: "user_generate g = Inr gen" "kg_user g = user"
    "resolvePassword X D rnd (ku_name user) observed = Inr (kg_password g)" by (rule GenerateKafkaUserObjects_ok)
  with read later.hyps(6) have "kg_password g = p" by simp
  with user_secret_password [OF g(1)] g(2) later.hyps(6,7) p show ?case by (metis option.inject)
qed

section \<open>Grants\<close>

text \<open>
  What an ACL resource says to the Kafka provider, field by field: the provider configuration, that is the
  cluster, that it is for; the kind of the Kafka resource, its name and how the name is matched; the principal,
  its host, the operation and the permission.
\<close>

record acl_grant =
  gr_Provider :: "gval option"
  gr_Type :: "gval option"
  gr_Name :: "gval option"
  gr_PatternTypeFilter :: "gval option"
  gr_Principal :: "gval option"
  gr_Host :: "gval option"
  gr_Operation :: "gval option"
  gr_Permission :: "gval option"

definition grant_of :: "kobject \<Rightarrow> acl_grant" where
  "grant_of ob =
     \<lparr>gr_Provider = kfield ob [''Spec'', ''ManagedResourceSpec'', ''ProviderConfigReference''],
      gr_Type = kfield ob [''Spec'', ''ForProvider'', ''ResourceType''],
      gr_Name = kfield ob [''Spec'', ''ForProvider'', ''ResourceName''],
      gr_PatternTypeFilter = kfield ob [''Spec'', ''ForProvider'', ''ResourcePatternTypeFilter''],
      gr_Principal = kfield ob [''Spec'', ''ForProvider'', ''ResourcePrincipal''],
      gr_Host = kfield ob [''Spec'', ''ForProvider'', ''ResourceHost''],
      gr_Operation = kfield ob [''Spec'', ''ForProvider'', ''ResourceOperation''],
      gr_Permission = kfield ob [''Spec'', ''ForProvider'', ''ResourcePermissionType'']\<rparr>"

definition grants :: "kobject \<Rightarrow> acl_grant \<Rightarrow> bool" where
  "grants ob a \<longleftrightarrow> k_kind ob = ''AccessControlList'' \<and> a = grant_of ob"

definition acls_granted :: "kobject gomap \<Rightarrow> acl_grant set" where
  "acls_granted gen = {a. \<exists>k ob. map_of gen k = Some ob \<and> grants ob a}"

text \<open>The grant that the spec asks for: one named resource, for the user from any host.\<close>

definition allow :: "string \<Rightarrow> string \<Rightarrow> string \<Rightarrow> string \<Rightarrow> string \<Rightarrow> acl_grant" where
  "allow provider username rtype rname operation =
     \<lparr>gr_Provider = Some (provider_config provider), gr_Type = Some (VStr rtype), gr_Name = Some (VStr rname),
      gr_PatternTypeFilter = Some (VStr ''Literal''), gr_Principal = Some (VStr (''User:'' @ username)),
      gr_Host = Some (VStr ''*''), gr_Operation = Some (VStr operation), gr_Permission = Some (VStr ''Allow'')\<rparr>"

definition specified :: "string \<Rightarrow> KafkaUser \<Rightarrow> acl_grant set" where
  "specified provider user =
     (\<lambda>cg. allow provider (ku_name user) ''Group'' cg ''Read'') ` set (ku_ConsumerGroups user) \<union>
     (\<lambda>a. allow provider (ku_name user) ''Topic'' (acl_Topic a) (acl_Operation a)) ` set (ku_ACLs user)"

abbreviation msk_provider :: "kafkaUserGenerator \<Rightarrow> string" where
  "msk_provider g \<equiv> ms_ProviderConfig (msk_Status (kg_msk g))"

lemma grants_acl [simp]: "grants (acl_object g name u rtype rname op) a \<longleftrightarrow> a = allow (msk_provider g) u rtype rname op"
  by (simp add: grants_def grant_of_def allow_def acl_object_def user_object_def kfield_def managed_spec_def)

lemma grants_kind: "k_kind ob \<noteq> ''AccessControlList'' \<Longrightarrow> \<not> grants ob a"
  by (simp add: grants_def)

lemma grantedI: "map_of gen k = Some ob \<Longrightarrow> grants ob a \<Longrightarrow> a \<in> acls_granted gen"
  by (auto simp: acls_granted_def)

lemma base_kinds:
  "k_kind (buildK8sSecret g c u) \<noteq> ''AccessControlList''" "k_kind (buildAWSSecret g c u) \<noteq> ''AccessControlList''"
  "k_kind (buildSecretVersion g c u) \<noteq> ''AccessControlList''" "k_kind (buildSecretPolicy g c u) \<noteq> ''AccessControlList''"
  "k_kind (buildScramAssociation g c u) \<noteq> ''AccessControlList''"
  by (simp_all add: buildK8sSecret_def buildAWSSecret_def buildSecretVersion_def buildSecretPolicy_def
      buildScramAssociation_def user_object_def Let_def)

lemma user_base_no_acl: "map_of (user_base g) k = Some ob \<Longrightarrow> k_kind ob \<noteq> ''AccessControlList''"
  unfolding user_base_def Let_def map_of_gset fun_upd_apply using base_kinds by (auto split: if_splits)

lemma topic_key_inj:
  assumes "CHR ''-'' \<notin> set (acl_Operation a)" and "CHR ''-'' \<notin> set (acl_Operation b)"
  shows "topic_key u a = topic_key u b \<longleftrightarrow> acl_Topic a = acl_Topic b \<and> to_lower (acl_Operation a) = to_lower (acl_Operation b)"
proof -
  have l: "CHR ''-'' \<notin> set (to_lower s)" if "CHR ''-'' \<notin> set s" for s
  proof -
    have m: "lower_char c \<noteq> CHR ''-''" if "c \<noteq> CHR ''-''" for c
    proof (cases "is_upper c")
      case True
      then have "code (lower_char c) = code c + 32" by (simp add: lower_char_def is_upper_def take_bit_nat_eq_self)
      with True show ?thesis by (auto simp: is_upper_def)
    qed (use that in simp)
    have "c \<noteq> CHR ''-''" if "c \<in> set s" for c using that \<open>CHR ''-'' \<notin> set s\<close> by blast
    then show ?thesis unfolding to_lower_def set_map using m by (metis imageE)
  qed
  have k: "topic_key u c = (''acl-topic-'' @ acl_Topic c @ ''-'' @ u) @ CHR ''-'' # to_lower (acl_Operation c)" for c
    by (simp add: topic_key_def)
  show ?thesis unfolding k append_sep_inj [OF l [OF assms(1)] l [OF assms(2)]] by simp
qed

lemma granted_acls:
  assumes "inj_on (topic_key (ku_name (kg_user g))) (set (ku_ACLs (kg_user g)))"
  shows "acls_granted (topic_acls g (ku_name (kg_user g)) (ku_ACLs (kg_user g))
    (group_acls g (ku_name (kg_user g)) (ku_ConsumerGroups (kg_user g)) (user_base g))) = specified (msk_provider g) (kg_user g)"
    (is "acls_granted (topic_acls g ?u ?as (group_acls g ?u ?gs ?b)) = ?spec")
proof (intro set_eqI iffI)
  fix a assume "a \<in> acls_granted (topic_acls g ?u ?as (group_acls g ?u ?gs ?b))"
  then obtain k ob where k: "map_of (topic_acls g ?u ?as (group_acls g ?u ?gs ?b)) k = Some ob" and gr: "grants ob a"
    by (auto simp: acls_granted_def)
  from put_all_source [OF k [unfolded topic_acls_def]] show "a \<in> ?spec"
  proof (elim disjE conjE)
    assume "\<exists>x \<in> set ?as. topic_key ?u x = k \<and> buildTopicACL g ?u (acl_Topic x) (acl_Operation x) = ob"
    with gr show ?thesis by (auto simp: specified_def buildTopicACL_def)
  next
    assume "map_of (group_acls g ?u ?gs ?b) k = Some ob"
    from put_all_source [OF this [unfolded group_acls_def]] show ?thesis
    proof (elim disjE conjE)
      assume "\<exists>x \<in> set ?gs. group_key ?u x = k \<and> buildConsumerGroupACL g ?u x = ob"
      with gr show ?thesis by (auto simp: specified_def buildConsumerGroupACL_def)
    next
      assume "map_of (user_base g) k = Some ob"
      with gr grants_kind [OF user_base_no_acl] show ?thesis by blast
    qed
  qed
next
  fix a assume "a \<in> ?spec"
  then consider (cg) cg where "cg \<in> set ?gs" "a = allow (msk_provider g) ?u ''Group'' cg ''Read''"
    | (topic) x where "x \<in> set ?as" "a = allow (msk_provider g) ?u ''Topic'' (acl_Topic x) (acl_Operation x)"
    by (auto simp: specified_def)
  then show "a \<in> acls_granted (topic_acls g ?u ?as (group_acls g ?u ?gs ?b))"
  proof cases
    case cg
    have inj: "inj_on (group_key ?u) (set ?gs)" by (auto simp: inj_on_def group_key_def)
    have "group_key ?u cg \<notin> topic_key ?u ` set ?as" by (auto simp: user_name_defs)
    then have "map_of (topic_acls g ?u ?as (group_acls g ?u ?gs ?b)) (group_key ?u cg) = Some (buildConsumerGroupACL g ?u cg)"
      unfolding topic_acls_def group_acls_def by (simp add: put_all_other put_all_hit [OF inj cg(1)])
    then show ?thesis by (rule grantedI) (simp add: cg(2) buildConsumerGroupACL_def)
  next
    case topic
    show ?thesis
      unfolding topic_acls_def by (rule grantedI [OF put_all_hit [OF assms topic(1)]]) (simp add: topic(2) buildTopicACL_def)
  qed
qed

section \<open>The MSK cluster\<close>

lemma last_index_digits:
  assumes "ds \<noteq> []" and "\<forall>c \<in> set ds. is_digit c"
  shows "last_index (base @ ''-s'' @ ds) ''-s'' = Some (length base)"
proof -
  have d: "last_index ds ''-s'' = None" if "\<forall>c \<in> set ds. is_digit c" for ds
    using that by (induction ds) (auto simp: is_digit_def prefix_Cons)
  have "last_index (CHR ''s'' # ds) ''-s'' = None" using d [OF assms(2)] by simp
  then have "last_index (''-s'' @ ds) ''-s'' = Some 0" by simp
  then show ?thesis by (induction base) simp_all
qed

lemma isServerlessARN_iff:
  "isServerlessARN arn \<longleftrightarrow>
     (\<exists>base ds. last (split_on (CHR ''/'') arn) = base @ ''-s'' @ ds \<and> ds \<noteq> [] \<and> (\<forall>c \<in> set ds. is_digit c))"
  (is "_ \<longleftrightarrow> ?R")
proof
  let ?l = "last (split_on (CHR ''/'') arn)"
  have l: "split_on (CHR ''/'') arn ! (length (split_on (CHR ''/'') arn) - 1) = ?l"
    by (simp add: last_conv_nth)
  {
    assume "isServerlessARN arn"
    then obtain idx where i: "last_index ?l ''-s'' = Some idx" "drop (idx + 2) ?l \<noteq> []"
      "\<forall>c \<in> set (drop (idx + 2) ?l). is_digit c"
      unfolding isServerlessARN_def Let_def l by (auto split: option.splits if_splits)
    from last_index_prefix [OF i(1)] obtain r where "drop idx ?l = ''-s'' @ r" by (auto simp: prefix_def)
    then have "?l = take idx ?l @ ''-s'' @ r" "drop (idx + 2) ?l = r"
      by (metis append_take_drop_id, metis append_Cons append_Nil add.commute drop_Suc_Cons drop_drop drop0 numeral_2_eq_2)
    with i(2,3) show ?R by metis
  next
    assume ?R
    then obtain base ds where "?l = base @ ''-s'' @ ds" "ds \<noteq> []" "\<forall>c \<in> set ds. is_digit c" by blast
    with last_index_digits [of ds base] show "isServerlessARN arn"
      unfolding isServerlessARN_def Let_def l by auto
  }
qed

definition brokers_known :: "ext \<Rightarrow> observed \<Rightarrow> string \<Rightarrow> string \<Rightarrow> bool" where
  "brokers_known X observed cluster brokers \<longleftrightarrow> brokers \<noteq> '''' \<and>
     (\<exists>oc ob. map_of observed cluster = Some oc \<and> oc_resource oc = Some ob \<and>
        nested_string X ob [''status'', ''atProvider'', ''bootstrapBrokersSaslIam''] = Inr (Some brokers))"

lemma msk_generate_ok:
  assumes "msk_generate X g = Inr gen"
  obtains cluster where "buildMskCluster g = Inr cluster"
    and "gen = [(mg_cluster g, cluster)] \<and> (\<nexists>brokers. brokers_known X (mg_observed g) (mg_cluster g) brokers) \<or>
      (\<exists>brokers. brokers_known X (mg_observed g) (mg_cluster g) brokers \<and>
         gen = gset (mg_clusterProviderConfig g) (buildClusterProviderConfig g)
                 (gset (mg_configSecret g) (buildKafkaSecret g brokers) [(mg_cluster g, cluster)]))"
proof -
  from assms obtain cluster where c: "buildMskCluster g = Inr cluster"
    by (auto simp: msk_generate_def res_simps)
  show thesis
    by (rule that [OF c], use assms in \<open>simp add: msk_generate_def c Let_def brokers_known_def\<close>)
      (auto split: bind_splits option.splits sum.splits if_splits)
qed

lemma msk_generate_wf: "msk_generate X g = Inr gen \<Longrightarrow> wf_map gen"
  by (erule msk_generate_ok) auto

section \<open>The contract of base\<close>

lemma user_patterns_literal: "p \<in> set user_patterns \<Longrightarrow> literal p"
proof -
  have "list_all literal user_patterns" by code_simp
  then show "p \<in> set user_patterns \<Longrightarrow> literal p" by (auto simp: list_all_iff)
qed

lemma user_patterns_apart:
  "i < 6 \<Longrightarrow> j < 6 \<Longrightarrow> prefix (user_patterns ! i) n \<Longrightarrow> prefix (user_patterns ! j) n \<Longrightarrow> i = j"
proof -
  have "\<forall>i \<in> {..<6}. \<forall>j \<in> {..<6}. prefix (user_patterns ! i) (user_patterns ! j) \<longrightarrow> i = j" by code_simp
  then show "i < 6 \<Longrightarrow> j < 6 \<Longrightarrow> prefix (user_patterns ! i) n \<Longrightarrow> prefix (user_patterns ! j) n \<Longrightarrow> i = j"
    using prefix_same_cases [of "user_patterns ! i" n "user_patterns ! j"] by auto
qed

lemma queue_steps:
  assumes "composite_kind c = XRKindKafkaUser"
  shows "seq_regex (queue_GetSequence c)"
    and "seq_steps (queue_GetSequence c) = map (\<lambda>p. \<lparr>step_objects = [p @ ''.*'']\<rparr>) user_patterns"
  using assms by (simp_all add: queue_GetSequence_def NewSequence_def comp_def)

lemma queue_in_step:
  assumes "composite_kind c = XRKindKafkaUser" and "CHR 0x0A \<notin> set n"
  shows "in_step (queue_GetSequence c) i n \<longleftrightarrow> i < 6 \<and> prefix (user_patterns ! i) n"
proof -
  have l: "length user_patterns = 6" by (simp add: user_patterns_def)
  have "matches (user_patterns ! i @ ''.*'') n \<longleftrightarrow> prefix (user_patterns ! i) n" if "i < 6"
    using matches_prefix [OF user_patterns_literal, of "user_patterns ! i" n] that l assms(2)
    by (auto simp: trim_prefix_def dest: in_set_dropD)
  then show ?thesis by (auto simp: in_step_def queue_steps [OF assms(1)] l)
qed

lemma queue_in_stepD:
  assumes "composite_kind c = XRKindKafkaUser" and "in_step (queue_GetSequence c) i n"
  shows "i < 6 \<and> prefix (user_patterns ! i) n"
proof -
  have l: "length user_patterns = 6" by (simp add: user_patterns_def)
  with assms have "i < 6" "matches (user_patterns ! i @ ''.*'') n" by (auto simp: in_step_def queue_steps)
  with matches_prefix [OF user_patterns_literal, of "user_patterns ! i" n] l show ?thesis by simp
qed

lemma queue_generated_wf:
  assumes "map_of (queue_handlers X D rnd) kind = Some h" and "h_generate h c required observed = Inr gen"
  shows "wf_map gen"
  using assms msk_generate_wf user_generate_wf
  by (auto simp: queue_handlers_def wrong_type_def GenerateMskInstanceObjects_def GenerateTopicObjects_def
      GenerateKafkaUserObjects_def res_simps split: if_splits queue_composite.splits)

interpretation queue: group_service "queue_group X D rnd" "\<lambda>c. True" for X D rnd
proof
  show "map_of (GetResourceHandlers (queue_group X D rnd)) kind = Some h \<Longrightarrow>
      h_generate h obj required observed = Inr gen \<Longrightarrow> wf_map gen" for kind h obj required observed gen
    by (simp add: queue_group_def queue_generated_wf)
  have "\<forall>p \<in> set user_patterns. pattern_ok (p @ ''.*'')"
    using user_patterns_literal literal_plain by (auto intro: pattern_ok_plain)
  then show "\<exists>names. sequence_names (queue_group X D rnd) obj gen = Inr names" for obj gen
    by (intro sequence_names_ok) (auto simp: queue_group_def queue_GetSequence_def NewSequence_def split: if_splits)
  show "GetObservedStatus (queue_group X D rnd) ob = Inr st \<Longrightarrow> wf_map st" for ob st
    by (auto simp: queue_group_def queue_GetObservedStatus_def Let_def split: if_splits)
qed (simp add: queue_group_def)

section \<open>A concrete user and cluster\<close>

definition demo_user :: KafkaUser where
  "demo_user = \<lparr>ku_kind = XRKindKafkaUser, ku_name = ''alice'', ku_namespace = ''team-a'', ku_ClusterName = ''main'',
     ku_ConsumerGroups = [''shop''],
     ku_ACLs = [\<lparr>acl_Topic = ''orders'', acl_Operation = ''Read''\<rparr>, \<lparr>acl_Topic = ''orders'', acl_Operation = ''Write''\<rparr>]\<rparr>"

definition demo_msk :: MSKInstance where
  "demo_msk = \<lparr>msk_kind = XRKindMSK, msk_name = ''main'', msk_uid = ''7f1c'',
     msk_ClusterARN = ''arn:aws:kafka:eu-north-1:1234:cluster/main/aa-bb-s3'',
     msk_Status = \<lparr>ms_Brokers = ''b1:9098'', ms_BrokersScram = ''b1:9096'', ms_ARN = ''arn'', ms_Region = ''eu-north-1'',
       ms_ProviderConfig = ''kafka''\<rparr>\<rparr>"

definition demo_queue_env :: queue_Environment where
  "demo_queue_env = \<lparr>qe_AWSProvider = ''aws'', qe_ConfigKMSKey = '''', qe_KafkaNamespace = ''kafka'', qe_Tags = []\<rparr>"

definition demo_queue :: queue_ext where
  "demo_queue = \<lparr>qx_user = (\<lambda>ob. Inr demo_user), qx_msk = (\<lambda>ob. Inr demo_msk), qx_topic = (\<lambda>ob. Inl (Error ''no topic'')),
     qx_environment = (\<lambda>ob. (demo_queue_env, None)), qx_kms = (\<lambda>ob. Inl (Error ''no key'')),
     qx_base64_error = (\<lambda>s. ''base64''), qx_json_error = (\<lambda>s. ''json'')\<rparr>"

definition demo_queue_required :: required where
  "demo_queue_required = [(EnvironmentKey, [Some [(''data'', JObj [(''awsProvider'', JStr ''aws'')])]]), (''MSKObserver'', [Some []])]"

definition demo_rnd :: "nat \<Rightarrow> nat res" where "demo_rnd i = Inr (i mod 62)"

definition demo_user_run :: "observed \<Rightarrow> kobject gomap res" where
  "demo_user_run observed = GenerateKafkaUserObjects std_ext demo_queue demo_rnd demo_user demo_queue_required observed"

definition observed_ob :: "string \<Rightarrow> object \<Rightarrow> observed" where
  "observed_ob n ob = [(n, \<lparr>oc_resource = Some ob, oc_connection = []\<rparr>)]"

lemma demo_queue_steps:
  "queue_GetEnvironment std_ext demo_queue demo_queue_required = Inr demo_queue_env"
  "ExtractRequiredResource demo_queue_required ''MSKObserver'' (qx_msk demo_queue) = Inr demo_msk"
  "ExtractOptionalResource demo_queue_required ''KMSConfigKey'' (qx_kms demo_queue) = Inr None"
  by code_simp+

lemma demo_draws [simp]: "draws demo_rnd"
  by (auto simp: draws_def demo_rnd_def)

lemma demo_password: "\<exists>p. generatePassword demo_rnd = Inr p"
proof -
  have "\<exists>p. draw_chars demo_rnd is = Inr p" for "is" by (induction "is") (auto simp: demo_rnd_def)
  then show ?thesis by (simp add: generatePassword_def)
qed

lemma demo_round:
  assumes "resolvePassword std_ext demo_queue rnd ''alice'' observed = Inr p"
  shows "\<exists>g. kg_user g = demo_user \<and> kg_observed g = observed \<and> kg_password g = p \<and>
    GenerateKafkaUserObjects std_ext demo_queue rnd demo_user demo_queue_required observed = user_generate g"
proof -
  have "ku_name demo_user = ''alice''" by (simp add: demo_user_def)
  with assms show ?thesis
    unfolding GenerateKafkaUserObjects_def newKafkaUserGenerator_def demo_queue_steps
    by (intro exI [of _ "\<lparr>kg_user = demo_user, kg_env = demo_queue_env, kg_msk = demo_msk, kg_kms = no_kms,
      kg_password = p, kg_observed = observed\<rparr>"]) simp
qed

lemma demo_user_run_ok:
  assumes "resolvePassword std_ext demo_queue demo_rnd ''alice'' observed = Inr p"
  shows "\<exists>g. kg_user g = demo_user \<and> kg_observed g = observed \<and> kg_password g = p \<and> demo_user_run observed = user_generate g"
  using demo_round [OF assms] by (simp add: demo_user_run_def)

text \<open>A run that observes the secret, without a password in it.\<close>

lemma demo_observed_run:
  "\<exists>gen. demo_user_run (observed_ob ''k8s-secret-alice'' (demo_object ''Secret'' cs)) = Inr gen"
proof -
  obtain p where p: "generatePassword demo_rnd = Inr p" using demo_password by blast
  have f: "std_typed dest_str (demo_object ''Secret'' cs) [''data'', ''secretString''] = Inr None"
    by (simp add: std_typed_def demo_object_def)
  have "resolvePassword std_ext demo_queue demo_rnd ''alice'' (observed_ob ''k8s-secret-alice'' (demo_object ''Secret'' cs)) = Inr p"
    by (simp add: resolvePassword_def observed_ob_def secret_resource_def f p)
  from demo_user_run_ok [OF this] show ?thesis by (auto simp: user_generate_def Let_def)
qed

section \<open>Properties\<close>

text \<open>
  C15: a Kafka user keeps its password. Over any number of rounds, each of which observes the secret that the
  round before it wrote, as Kubernetes stores it, every secret holds the 32 letters and digits drawn in the
  first round; what is drawn later is not used.
\<close>

theorem password_survives_reconciliation:
  assumes "password_rounds X D u secret0 secret"
  shows "\<exists>p. length p = 32 \<and> set p \<subseteq> set password_chars \<and> writes_password secret0 p \<and> writes_password secret p"
  using assms by (rule password_rounds_inv)

text \<open>Two rounds of the demonstration: the second draws from other random numbers and observes the stored secret.\<close>

lemma demo_first_round:
  obtains secret raw where "password_rounds std_ext demo_queue ''alice'' secret secret" and "secret_text secret raw"
proof -
  obtain p where p: "generatePassword demo_rnd = Inr p" using demo_password by blast
  then have "resolvePassword std_ext demo_queue demo_rnd ''alice'' [] = Inr p" by (simp add: resolvePassword_def)
  from demo_user_run_ok [OF this] obtain g where g: "kg_user g = demo_user" "kg_observed g = []"
    "demo_user_run [] = user_generate g" by blast
  obtain gen where gen: "user_generate g = Inr gen" by (simp add: user_generate_def g(2) Let_def)
  have n: "ku_name demo_user = ''alice''" by (simp add: demo_user_def)
  from user_secret_password [OF gen] obtain secret where s: "map_of gen (secret_resource ''alice'') = Some secret"
    and t: "\<exists>text. secret_text secret text" unfolding g(1) n writes_password_def by metis
  from g(3) gen have run: "GenerateKafkaUserObjects std_ext demo_queue demo_rnd demo_user demo_queue_required [] = Inr gen"
    by (simp add: demo_user_run_def)
  have "password_rounds std_ext demo_queue ''alice'' secret secret"
    by (rule password_rounds.first [OF run demo_draws n _ s]) simp
  with t that show thesis by blast
qed

definition stored_object :: "string \<Rightarrow> object" where
  "stored_object text = [(''kind'', JStr ''Secret''), (''data'', JObj [(''secretString'', JStr (b64_encode text))])]"

lemma stored_object_secret: "secret_text secret raw \<Longrightarrow> stored_secret std_ext secret (stored_object raw)"
  unfolding stored_secret_def by (intro exI [of _ raw]) (simp add: stored_object_def std_typed_def)

definition later_rnd :: "nat \<Rightarrow> nat res" where "later_rnd i = Inr ((i + 7) mod 62)"

lemma demo_two_rounds:
  "\<exists>secret0 secret text gen. password_rounds std_ext demo_queue ''alice'' secret0 secret \<and>
     stored_secret std_ext secret0 (stored_object text) \<and>
     GenerateKafkaUserObjects std_ext demo_queue later_rnd demo_user demo_queue_required
       (observed_ob (secret_resource ''alice'') (stored_object text)) = Inr gen \<and>
     map_of gen (secret_resource ''alice'') = Some secret"
proof -
  obtain secret0 raw where r: "password_rounds std_ext demo_queue ''alice'' secret0 secret0" and t: "secret_text secret0 raw"
    by (rule demo_first_round)
  let ?o = "observed_ob (secret_resource ''alice'') (stored_object raw)"
  have st: "stored_secret std_ext secret0 (stored_object raw)" using t by (rule stored_object_secret)
  from password_rounds_inv [OF r] obtain p where p: "length p = 32" "set p \<subseteq> set password_chars" "writes_password secret0 p"
    by blast
  then have u: "valid_utf8 p" "p \<noteq> ''''" using password_char_ascii by (auto intro!: valid_utf8_ascii)
  have o: "map_of ?o (secret_resource ''alice'') = Some \<lparr>oc_resource = Some (stored_object raw), oc_connection = []\<rparr>"
    by (simp add: observed_ob_def)
  have n: "ku_name demo_user = ''alice''" by (simp add: demo_user_def)
  have "resolvePassword std_ext demo_queue later_rnd ''alice'' ?o = Inr p"
    by (rule resolvePassword_stored [OF o _ st p(3) u]) simp
  from demo_round [OF this] obtain g where d: "kg_user g = demo_user"
    "GenerateKafkaUserObjects std_ext demo_queue later_rnd demo_user demo_queue_required ?o = user_generate g" by blast
  have "\<exists>gen. user_generate g = Inr gen" by (auto simp: user_generate_def Let_def)
  then obtain gen where "user_generate g = Inr gen" by blast
  with d have g: "kg_user g = demo_user" "user_generate g = Inr gen"
    "GenerateKafkaUserObjects std_ext demo_queue later_rnd demo_user demo_queue_required ?o = Inr gen" by simp_all
  from user_secret [OF g(2)] obtain secret where s: "map_of gen (secret_resource ''alice'') = Some secret" by (simp add: g(1) n)
  have "password_rounds std_ext demo_queue ''alice'' secret0 secret"
    by (rule password_rounds.later [OF r o _ st g(3) n s]) simp
  with st g(3) s show ?thesis by blast
qed

theorem password_survives_reconciliation_witness:
  "\<exists>secret0 secret text gen p. stored_secret std_ext secret0 (stored_object text) \<and>
     GenerateKafkaUserObjects std_ext demo_queue later_rnd demo_user demo_queue_required
       (observed_ob (secret_resource ''alice'') (stored_object text)) = Inr gen \<and>
     map_of gen (secret_resource ''alice'') = Some secret \<and>
     length p = 32 \<and> writes_password secret0 p \<and> writes_password secret p"
  using demo_two_rounds password_survives_reconciliation by metis

text \<open>
  C16: the ACLs of a Kafka user grant exactly what its spec asks for: reading every consumer group and each
  listed operation on its topic, each on the one resource of that name (a literal pattern), to the user itself
  and nobody else, through the provider configuration of the observed MSK cluster. It holds once the secret of
  the user is observed (before, no ACL is generated), for operations without a dash in their names, as those of
  Kafka are, and without two entries for a topic that differ only in the case of the operation: those would
  share a resource.
\<close>

theorem acls_grant_the_spec:
  assumes "GenerateKafkaUserObjects X D rnd user required observed = Inr gen"
    and "map_of observed (secret_resource (ku_name user)) \<noteq> None"
    and "\<forall>a \<in> set (ku_ACLs user). CHR ''-'' \<notin> set (acl_Operation a)"
    and "\<forall>a \<in> set (ku_ACLs user). \<forall>b \<in> set (ku_ACLs user). acl_Topic a = acl_Topic b \<longrightarrow>
      to_lower (acl_Operation a) = to_lower (acl_Operation b) \<longrightarrow> a = b"
  shows "\<exists>msk. ExtractRequiredResource required ''MSKObserver'' (qx_msk D) = Inr msk \<and>
    acls_granted gen = specified (ms_ProviderConfig (msk_Status msk)) user"
proof -
  from assms(1) obtain g where n: "newKafkaUserGenerator X D rnd user required observed = Inr g"
    and g: "user_generate g = Inr gen" "kg_user g = user" "kg_observed g = observed"
    by (rule GenerateKafkaUserObjects_ok)
  have "inj_on (topic_key (ku_name (kg_user g))) (set (ku_ACLs (kg_user g)))"
    unfolding inj_on_def g(2) using assms(3,4) topic_key_inj by blast
  from granted_acls [OF this] user_generate_acls [of g] g assms(2) newKafkaUserGenerator_ok(4) [OF n] show ?thesis by simp
qed

definition demo_user_observed :: observed where
  "demo_user_observed = observed_ob ''k8s-secret-alice'' (demo_object ''Secret'' [])"

theorem acls_grant_the_spec_witness:
  "\<exists>gen. demo_user_run demo_user_observed = Inr gen \<and>
     acls_granted gen = {allow ''kafka'' ''alice'' ''Group'' ''shop'' ''Read'', allow ''kafka'' ''alice'' ''Topic'' ''orders'' ''Read'',
       allow ''kafka'' ''alice'' ''Topic'' ''orders'' ''Write''}"
proof -
  obtain gen where g: "demo_user_run demo_user_observed = Inr gen" unfolding demo_user_observed_def using demo_observed_run by blast
  have "\<exists>msk. ExtractRequiredResource demo_queue_required ''MSKObserver'' (qx_msk demo_queue) = Inr msk \<and>
      acls_granted gen = specified (ms_ProviderConfig (msk_Status msk)) demo_user"
    by (rule acls_grant_the_spec [OF g [unfolded demo_user_run_def]])
      (simp_all add: demo_user_def demo_user_observed_def observed_ob_def secret_resource_def to_lower_def lower_char_def
        is_upper_def)
  then have "acls_granted gen = specified ''kafka'' demo_user" by (simp add: demo_queue_steps demo_msk_def)
  with g show ?thesis by (simp add: specified_def demo_user_def insert_commute)
qed

text \<open>
  Credentials come before access. A run adds a resource of a Kafka user that is not observed yet only
  when the generated resources of the step before it are observed and ready, along secret, AWS secret, its
  version, its policy, the association with the cluster, and the ACLs.
\<close>

theorem kafka_user_order:
  assumes "support_by_kind X A S gen" and "iteration ord" and "cache_ok S c"
    and "fst (place_resources X A (queue_group X D rnd) ws ord (CKafkaUser user) observed desired gen rt c) = Inr d"
    and "ku_kind user = XRKindKafkaUser" and "i < 5"
    and "prefix (user_patterns ! Suc i) n" and "CHR 0x0A \<notin> set n" and "map_of observed n = None" and "map_of d n \<noteq> map_of desired n"
    and "prefix (user_patterns ! i) m" and "CHR 0x0A \<notin> set m" and "map_of gen m \<noteq> None"
  shows "\<exists>oc ob. map_of observed m = Some oc \<and> oc_resource oc = Some ob \<and> GetCrossplaneReadyStatus X ob = ReadyTrue"
proof -
  let ?G = "queue_group X D rnd"
  have k: "composite_kind (CKafkaUser user) = XRKindKafkaUser" using assms(5) by simp
  have s: "GetSequence ?G (CKafkaUser user) = queue_GetSequence (CKafkaUser user)" by (simp add: queue_group_def)
  obtain names where names: "sequence_names ?G (CKafkaUser user) gen = Inr names"
    using queue.sequence_compiles by blast
  note step = queue_in_step [OF k assms(8)] queue_in_step [OF k assms(12)]
  have only: "\<forall>j. in_step (GetSequence ?G (CKafkaUser user)) j n \<longrightarrow> j = Suc i"
    unfolding s step using user_patterns_apart [OF _ _ _ assms(7)] assms(6) by auto
  have "\<exists>oc ob. map_of observed m = Some oc \<and> oc_resource oc = Some ob \<and> getReadyStatus X ?G ob = ReadyTrue"
    by (rule step_gate [OF assms(1-4) names _ only assms(9,10) _ assms(13)])
      (use assms(6,7,11) in \<open>simp_all add: s step queue_steps [OF k]\<close>)
  then show ?thesis by (simp add: getReadyStatus_def queue_group_def)
qed

definition demo_user_ready :: observed where
  "demo_user_ready = observed_ob ''k8s-secret-alice'' (demo_object ''Secret'' [ready_condition])"

theorem kafka_user_order_witness:
  "\<exists>gen d. demo_user_run demo_user_ready = Inr gen \<and>
     fst (place_resources std_ext (typed_objects [''Secret'']) (queue_group std_ext demo_queue demo_rnd) [] reversed
       (CKafkaUser demo_user) demo_user_ready [] gen no_tags []) = Inr d \<and>
     map_of d ''aws-secret-alice'' \<noteq> None \<and>
     (\<exists>oc ob. map_of demo_user_ready ''k8s-secret-alice'' = Some oc \<and> oc_resource oc = Some ob \<and>
        GetCrossplaneReadyStatus std_ext ob = ReadyTrue)"
proof -
  let ?G = "queue_group std_ext demo_queue demo_rnd"
  let ?A = "typed_objects [''Secret'']"
  let ?o = demo_user_ready
  obtain gen where run: "demo_user_run ?o = Inr gen"
    unfolding demo_user_ready_def using demo_observed_run by blast
  then obtain g where g: "user_generate g = Inr gen" "kg_user g = demo_user" "kg_observed g = ?o"
    unfolding demo_user_run_def by (rule GenerateKafkaUserObjects_ok)
  have u: "ku_name demo_user = ''alice''" by (simp add: demo_user_def)
  have dom: "map_of gen n \<noteq> None" if "n \<in> {''k8s-secret-alice'', ''aws-secret-alice''}" for n
  proof -
    have "n \<in> dom (map_of gen)"
      unfolding user_generate_dom [OF g(1)] g(2,3) u
      using that by (auto simp: demo_user_ready_def observed_ob_def secret_resource_def user_base_names_def)
    then show ?thesis by auto
  qed
  have k: "composite_kind (CKafkaUser demo_user) = XRKindKafkaUser" by (simp add: demo_user_def)
  have s: "GetSequence ?G (CKafkaUser demo_user) = queue_GetSequence (CKafkaUser demo_user)" by (simp add: queue_group_def)
  obtain names where names: "sequence_names ?G (CKafkaUser demo_user) gen = Inr names" using queue.sequence_compiles by blast
  have planned: "planned std_ext ?G ?o gen names ''aws-secret-alice''"
  proof (rule step_planned [OF names, of 0])
    show "\<forall>m. in_step (GetSequence ?G (CKafkaUser demo_user)) 0 m \<longrightarrow> ready_now std_ext ?G ?o gen m"
    proof (intro allI impI)
      fix m assume "in_step (GetSequence ?G (CKafkaUser demo_user)) 0 m"
      then have pre: "prefix ''k8s-secret-'' m" using queue_in_stepD [OF k, of 0 m] by (simp add: s user_patterns_def)
      have "m = ''k8s-secret-alice''" if "map_of gen m \<noteq> None"
      proof -
        have "m \<in> dom (map_of gen)" using that by auto
        then show ?thesis
          unfolding user_generate_dom [OF g(1)] g(2,3) u using pre
          by (auto simp: user_base_names_def user_name_defs split: if_splits)
      qed
      moreover have "getReadyStatus std_ext ?G (demo_object ''Secret'' [ready_condition]) = ReadyTrue"
        by (simp add: getReadyStatus_def queue_group_def) code_simp
      ultimately show "ready_now std_ext ?G ?o gen m"
        by (cases "map_of gen m = None")
          (simp_all add: ready_now_def observed_ready_def demo_user_ready_def observed_ob_def)
    qed
  qed (use dom queue_steps [OF k] queue_in_step [OF k, of "''aws-secret-alice''" 1] in \<open>simp_all add: s user_patterns_def\<close>)
  have obs: "all_fetched ?o" by (simp add: all_fetched_def demo_user_ready_def observed_ob_def)
  obtain d where d: "fst (place_resources std_ext ?A ?G [] reversed (CKafkaUser demo_user) ?o [] gen no_tags []) = Inr d"
    and p: "map_of d ''aws-secret-alice'' \<noteq> None"
    using typed_place [OF obs demo_orders(2) names, where kinds = "[''Secret'']" and desired = "[]"] planned by blast
  have "\<exists>oc ob. map_of ?o ''k8s-secret-alice'' = Some oc \<and> oc_resource oc = Some ob \<and> GetCrossplaneReadyStatus std_ext ob = ReadyTrue"
    by (rule kafka_user_order [OF typed_support demo_orders(2) cache_ok_Nil d, of 0 "''aws-secret-alice''"])
      (use p dom in \<open>simp_all add: demo_user_def user_patterns_def demo_user_ready_def observed_ob_def\<close>)
  with run d p show ?thesis by blast
qed

end
