(* ===== verification/Storage_Types.thy ===== *)
theory Storage_Types
  imports Kube
begin

text \<open>
  \<open>functions/storage/apis\<close>: the S3Bucket composite and the environment of the group, and the fields that
  the group reads of the EKS cluster.
\<close>

record S3Bucket =
  sb_name :: string
  sb_namespace :: string
  sb_EnableVersioning :: bool
  sb_CreateServiceAccount :: bool
  sb_ServiceAccountName :: string

record storage_Environment =
  se_AWSProvider :: string
  se_DataKMSKey :: string
  se_ConfigKMSKey :: string
  se_Tags :: "string option gomap"

definition zero_storage_Environment :: storage_Environment where
  "zero_storage_Environment = \<lparr>se_AWSProvider = '''', se_DataKMSKey = '''', se_ConfigKMSKey = '''', se_Tags = []\<rparr>"

definition storage_Environment_Validate :: "storage_Environment \<Rightarrow> unit res" where
  "storage_Environment_Validate e = refuse (se_AWSProvider e = '''') ''awsProvider is required'' valid"

text \<open>The identities of the cluster, each with the issuers of its OIDC entries.\<close>

record eks_cluster =
  ec_identity :: "string option list list"
  ec_arn :: "string option"
  ec_region :: "string option"

record storage_ext =
  sx_bucket :: "object \<Rightarrow> S3Bucket res"
  sx_environment :: "storage_Environment decoder"
  sx_cluster :: "object \<Rightarrow> eks_cluster res"
  sx_kms :: "object \<Rightarrow> kms_key res"

definition storage_GetEnvironment :: "ext \<Rightarrow> storage_ext \<Rightarrow> required \<Rightarrow> storage_Environment res" where
  "storage_GetEnvironment X D required =
     GetEnvironment X (sx_environment D) (\<lambda>e. failure_of (storage_Environment_Validate e)) zero_storage_Environment
       EnvironmentKey required"

end
