(* ===== verification/Storage_Service.thy ===== *)
theory Storage_Service
  imports Storage_Types
begin

text \<open>
  \<open>functions/storage/service/s3bucket.go\<close> and \<open>functions/storage/group.go\<close>: a bucket with its
  settings, the IAM user and role that may use it, and the secrets that carry the user's credentials.
\<close>

abbreviation "AnnotationServiceAccount \<equiv> ''storage.entigo.com/service-account-name''"

record s3BucketGenerator =
  sg_bucket :: S3Bucket
  sg_observed :: observed
  sg_env :: storage_Environment
  sg_bucketName :: string
  sg_serviceAccountName :: string
  sg_tenancyZone :: string
  sg_region :: string
  sg_clusterOIDC :: string
  sg_awsAccount :: string
  sg_kmsDataKeyArn :: string
  sg_kmsConfigKeyArn :: string

section \<open>Derived values\<close>

definition or_empty :: "string option \<Rightarrow> string" where
  "or_empty p = (case p of None \<Rightarrow> '''' | Some s \<Rightarrow> s)"

definition cluster_oidc :: "eks_cluster \<Rightarrow> string" where
  "cluster_oidc cluster =
     (case ec_identity cluster of
        (issuer # oidcs) # ids \<Rightarrow> (case issuer of Some s \<Rightarrow> trim_prefix s ''https://'' | None \<Rightarrow> '''')
      | _ \<Rightarrow> '''')"

definition cluster_account :: "eks_cluster \<Rightarrow> string" where
  "cluster_account cluster =
     (case ec_arn cluster of
        None \<Rightarrow> ''''
      | Some arn \<Rightarrow> (let parts = split_on (CHR '':'') arn in if length parts > 4 then parts ! 4 else ''''))"

definition service_account_name :: "S3Bucket \<Rightarrow> string" where
  "service_account_name b = (if sb_ServiceAccountName b = '''' then sb_name b else sb_ServiceAccountName b)"

definition kms_arn_of :: "kms_key option \<Rightarrow> string" where
  "kms_arn_of key = (case key of None \<Rightarrow> '''' | Some k \<Rightarrow> or_empty (kms_arn k))"

definition newS3BucketGenerator ::
  "ext \<Rightarrow> storage_ext \<Rightarrow> S3Bucket \<Rightarrow> required \<Rightarrow> observed \<Rightarrow> s3BucketGenerator res" where
  "newS3BucketGenerator X D b required observed =
     bindr (storage_GetEnvironment X D required) (\<lambda>env.
     bindr (ExtractRequiredResource required ''EKS'' (sx_cluster D)) (\<lambda>cluster.
     bindr (ExtractOptionalResource required ''KMSDataKey'' (sx_kms D)) (\<lambda>dataKey.
     bindr (ExtractOptionalResource required ''KMSConfigKey'' (sx_kms D)) (\<lambda>configKey.
     bindr (GetTenancyZone X required) (\<lambda>zone.
       Inr \<lparr>sg_bucket = b, sg_observed = observed, sg_env = env, sg_bucketName = sb_name b,
            sg_serviceAccountName = service_account_name b, sg_tenancyZone = zone,
            sg_region = or_empty (ec_region cluster), sg_clusterOIDC = cluster_oidc cluster,
            sg_awsAccount = cluster_account cluster, sg_kmsDataKeyArn = kms_arn_of dataKey,
            sg_kmsConfigKeyArn = kms_arn_of configKey\<rparr>)))))"

section \<open>Objects of the bucket\<close>

definition buildTags :: "s3BucketGenerator \<Rightarrow> string option gomap" where
  "buildTags g = gset ''Name'' (Some (sg_bucketName g)) (gcopy [] (se_Tags (sg_env g)))"

definition buildBucketTags :: "s3BucketGenerator \<Rightarrow> string option gomap" where
  "buildBucketTags g =
     (let tags = buildTags g in
      if sg_tenancyZone g \<noteq> '''' then gset TenancyZoneLabel (Some (sg_tenancyZone g)) tags else tags)"

definition s3_object ::
  "s3BucketGenerator \<Rightarrow> string \<Rightarrow> string \<Rightarrow> string \<Rightarrow> string \<Rightarrow> string gomap \<Rightarrow> (string \<times> gval) list \<Rightarrow>
   (string \<times> gval) list \<Rightarrow> kobject" where
  "s3_object g apiVersion kind name ns annotations managed params =
     \<lparr>k_type = kind, k_apiVersion = apiVersion, k_kind = kind, k_name = name, k_namespace = ns, k_labels = [],
      k_annotations = annotations,
      k_fields = [(''Spec'', VObj
        [(''ManagedResourceSpec'', VObj ((''ProviderConfigReference'', provider_config (se_AWSProvider (sg_env g))) # managed)),
         (''ForProvider'', VObj params)])]\<rparr>"

definition name_ref :: "string \<Rightarrow> gval" where "name_ref name = VObj [(''Name'', VStr name)]"

definition s3_api :: string where "s3_api = ''s3.aws.m.upbound.io/v1beta1''"
definition iam_api :: string where "iam_api = ''iam.aws.m.upbound.io/v1beta1''"
definition secrets_api :: string where "secrets_api = ''secretsmanager.aws.m.upbound.io/v1beta1''"

definition bucket_object :: "s3BucketGenerator \<Rightarrow> kobject" where
  "bucket_object g =
     s3_object g s3_api ''Bucket'' (sg_bucketName g) (sb_namespace (sg_bucket g))
       [(AnnotationServiceAccount, sg_serviceAccountName g)]
       [(''WriteConnectionSecretToReference'', name_ref (sg_bucketName g @ ''-bucket''))]
       [(''Region'', VStr (sg_region g)), (''Tags'', ptr_map_val (buildBucketTags g))]"

definition access_block_object :: "s3BucketGenerator \<Rightarrow> kobject" where
  "access_block_object g =
     s3_object g s3_api ''BucketPublicAccessBlock'' (sg_bucketName g) '''' [] []
       [(''BucketRef'', name_ref (sg_bucketName g)), (''BlockPublicAcls'', VBool True), (''BlockPublicPolicy'', VBool True),
        (''IgnorePublicAcls'', VBool True), (''RestrictPublicBuckets'', VBool True), (''Region'', VStr (sg_region g))]"

definition encryption_object :: "s3BucketGenerator \<Rightarrow> kobject" where
  "encryption_object g =
     s3_object g s3_api ''BucketServerSideEncryptionConfiguration'' (sg_bucketName g) '''' [] []
       [(''BucketRef'', name_ref (sg_bucketName g)), (''Region'', VStr (sg_region g)),
        (''Rule'', VList [VObj
           [(''ApplyServerSideEncryptionByDefault'', VObj
               ((''SseAlgorithm'', VStr ''aws:kms'') #
                (if sg_kmsDataKeyArn g \<noteq> '''' then [(''KMSMasterKeyID'', VStr (sg_kmsDataKeyArn g))] else []))),
            (''BucketKeyEnabled'', VBool True), (''BlockedEncryptionTypes'', VList [VStr ''SSE-C''])]])]"

definition versioning_object :: "s3BucketGenerator \<Rightarrow> kobject" where
  "versioning_object g =
     s3_object g s3_api ''BucketVersioning'' (sg_bucketName g) '''' [] []
       [(''BucketRef'', name_ref (sg_bucketName g)), (''Region'', VStr (sg_region g)),
        (''VersioningConfiguration'', VObj
           [(''Status'', VStr (if sb_EnableVersioning (sg_bucket g) then ''Enabled'' else ''Suspended''))])]"

definition ownership_object :: "s3BucketGenerator \<Rightarrow> kobject" where
  "ownership_object g =
     s3_object g s3_api ''BucketOwnershipControls'' (sg_bucketName g) '''' [] []
       [(''BucketRef'', name_ref (sg_bucketName g)), (''Region'', VStr (sg_region g)),
        (''Rule'', VObj [(''ObjectOwnership'', VStr ''BucketOwnerEnforced'')])]"

definition buildBucketResources :: "s3BucketGenerator \<Rightarrow> kobject gomap \<Rightarrow> kobject gomap" where
  "buildBucketResources g objects =
     (let objects = gset ''bucket'' (bucket_object g) objects;
          objects = gset ''bucket-public-access-block'' (access_block_object g) objects;
          objects = gset ''bucket-server-side-encryption-configuration'' (encryption_object g) objects;
          objects = gset ''bucket-versioning'' (versioning_object g) objects
      in gset ''bucket-ownership-controls'' (ownership_object g) objects)"

section \<open>IAM\<close>

text \<open>\<open>json.Marshal\<close> writes the keys of a Go map in order.\<close>

definition allow_statement :: "string list \<Rightarrow> string list \<Rightarrow> doc" where
  "allow_statement actions resources =
     DObj [(''Action'', DArr (map DStr actions)), (''Effect'', DStr ''Allow''), (''Resource'', DArr (map DStr resources))]"

definition kms_actions :: "string list" where
  "kms_actions = [''kms:Encrypt'', ''kms:Decrypt'', ''kms:ReEncrypt*'', ''kms:GenerateDataKey*'', ''kms:DescribeKey'']"

definition s3_actions :: "string list" where
  "s3_actions = [''s3:PutObject'', ''s3:GetObject'', ''s3:GetObjectVersion'', ''s3:DeleteObject'',
     ''s3:AbortMultipartUpload'', ''s3:ListMultipartUploadParts'',
     ''s3:ListBucket'', ''s3:ListBucketMultipartUploads'', ''s3:GetBucketLocation'',
     ''s3:GetObjectTagging'', ''s3:PutObjectTagging'', ''s3:DeleteObjectTagging'',
     ''s3:GetObjectAcl'', ''s3:PutObjectAcl'']"

definition iam_statements :: "s3BucketGenerator \<Rightarrow> doc list" where
  "iam_statements g =
     (let statements = [];
          statements = (if sg_kmsDataKeyArn g \<noteq> '''' then statements @ [allow_statement kms_actions [sg_kmsDataKeyArn g]]
                        else statements)
      in statements @ [allow_statement s3_actions
           [''arn:aws:s3:::'' @ sg_bucketName g, ''arn:aws:s3:::'' @ sg_bucketName g @ ''/*'']])"

definition buildIAMPolicyDocument :: "s3BucketGenerator \<Rightarrow> string" where
  "buildIAMPolicyDocument g =
     marshal (DObj [(''Statement'', DArr (iam_statements g)), (''Version'', DStr ''2012-10-17'')])"

definition assume_role_statement :: "s3BucketGenerator \<Rightarrow> doc" where
  "assume_role_statement g =
     DObj [(''Action'', DStr ''sts:AssumeRoleWithWebIdentity''),
       (''Condition'', DObj [(''StringEquals'', DObj
          [(sg_clusterOIDC g @ '':aud'', DStr ''sts.amazonaws.com''),
           (sg_clusterOIDC g @ '':sub'',
            DStr (''system:serviceaccount:'' @ sb_namespace (sg_bucket g) @ '':'' @ sg_serviceAccountName g))])]),
       (''Effect'', DStr ''Allow''),
       (''Principal'', DObj [(''Federated'',
          DStr (''arn:aws:iam::'' @ sg_awsAccount g @ '':oidc-provider/'' @ sg_clusterOIDC g))])]"

definition buildAssumeRolePolicy :: "s3BucketGenerator \<Rightarrow> string" where
  "buildAssumeRolePolicy g =
     marshal (DObj [(''Statement'', DArr [assume_role_statement g]), (''Version'', DStr ''2012-10-17'')])"

definition iam_object :: "s3BucketGenerator \<Rightarrow> string \<Rightarrow> (string \<times> gval) list \<Rightarrow> (string \<times> gval) list \<Rightarrow> kobject" where
  "iam_object g kind = s3_object g iam_api kind (sg_bucketName g) '''' []"

definition buildIAMResources :: "s3BucketGenerator \<Rightarrow> kobject gomap \<Rightarrow> kobject gomap" where
  "buildIAMResources g objects =
     (let tags = ptr_map_val (buildTags g);
          me = name_ref (sg_bucketName g);
          objects = gset ''iam-user'' (iam_object g ''User'' [] [(''Tags'', tags)]) objects;
          objects = gset ''iam-policy'' (iam_object g ''Policy'' []
            [(''Policy'', VStr (buildIAMPolicyDocument g)), (''Tags'', tags)]) objects;
          objects = gset ''iam-user-policy-attachment'' (iam_object g ''UserPolicyAttachment'' []
            [(''PolicyArnRef'', me), (''UserRef'', me)]) objects;
          objects = gset ''iam-access-key'' (iam_object g ''AccessKey''
            [(''WriteConnectionSecretToReference'', name_ref (sg_bucketName g @ ''-access-key''))] [(''UserRef'', me)]) objects;
          objects = gset ''iam-role'' (iam_object g ''Role'' []
            [(''AssumeRolePolicy'', VStr (buildAssumeRolePolicy g)), (''Tags'', tags)]) objects
      in gset ''iam-role-policy-attachment'' (iam_object g ''RolePolicyAttachment'' []
           [(''PolicyArn'', VStr (''arn:aws:iam::'' @ sg_awsAccount g @ '':policy/'' @ sg_bucketName g)), (''RoleRef'', me)]) objects)"

section \<open>Secrets\<close>

definition credentials_name :: "s3BucketGenerator \<Rightarrow> string" where
  "credentials_name g = sg_bucketName g @ ''-credentials''"

definition buildSecretsManagerResources :: "s3BucketGenerator \<Rightarrow> kobject gomap \<Rightarrow> kobject gomap" where
  "buildSecretsManagerResources g objects =
     (let secretName = credentials_name g;
          tags = gset ''Name'' (Some secretName) (gcopy [] (se_Tags (sg_env g)));
          objects = gset ''secrets-manager-secret'' (s3_object g secrets_api ''Secret'' secretName '''' [] []
            ([(''Name'', VStr secretName), (''Region'', VStr (sg_region g)),
              (''Description'', VStr (''Credentials for bucket '' @ sg_bucketName g)),
              (''RecoveryWindowInDays'', VFloat 0), (''Tags'', ptr_map_val tags)] @
             (if sg_kmsConfigKeyArn g \<noteq> '''' then [(''KMSKeyID'', VStr (sg_kmsConfigKeyArn g))] else []))) objects
      in gset ''secrets-manager-secret-version'' (s3_object g secrets_api ''SecretVersion'' secretName '''' [] []
           [(''Region'', VStr (sg_region g)), (''SecretIDRef'', name_ref secretName),
            (''SecretStringSecretRef'', VObj
               [(''LocalSecretReference'', name_ref secretName), (''Key'', VStr ''credentials.json'')])]) objects)"

definition buildServiceAccount :: "s3BucketGenerator \<Rightarrow> kobject gomap \<Rightarrow> kobject gomap" where
  "buildServiceAccount g objects =
     gset ''service-account''
       \<lparr>k_type = ''core/v1.ServiceAccount'', k_apiVersion = ''v1'', k_kind = ''ServiceAccount'',
        k_name = sg_serviceAccountName g, k_namespace = sb_namespace (sg_bucket g), k_labels = [],
        k_annotations = [(''eks.amazonaws.com/role-arn'', ''arn:aws:iam::'' @ sg_awsAccount g @ '':role/'' @ sg_bucketName g)],
        k_fields = []\<rparr> objects"

text \<open>The document that the code formats by hand, with a space after every colon and comma.\<close>

fun spaced_fields :: "string gomap \<Rightarrow> string" where
  "spaced_fields [] = ''''"
| "spaced_fields [(k, v)] = [CHR 0x22] @ k @ [CHR 0x22] @ '': '' @ json_quote v"
| "spaced_fields ((k, v) # fs) = [CHR 0x22] @ k @ [CHR 0x22] @ '': '' @ json_quote v @ '', '' @ spaced_fields fs"

definition credentials_json :: "string gomap \<Rightarrow> string" where
  "credentials_json fs = ''{'' @ spaced_fields fs @ ''}''"

definition credentials_object :: "s3BucketGenerator \<Rightarrow> string gomap \<Rightarrow> kobject" where
  "credentials_object g creds =
     \<lparr>k_type = ''core/v1.Secret'', k_apiVersion = ''v1'', k_kind = ''Secret'', k_name = credentials_name g,
      k_namespace = sb_namespace (sg_bucket g), k_labels = [], k_annotations = [],
      k_fields = [(''Type'', VStr ''Opaque''),
        (''StringData'', str_map_val (creds @ [(''credentials.json'', credentials_json creds)]))]\<rparr>"

definition buildCredentialsSecret :: "s3BucketGenerator \<Rightarrow> kobject gomap \<Rightarrow> kobject gomap" where
  "buildCredentialsSecret g objects =
     (case (map_of (sg_observed g) ''iam-access-key'', map_of (sg_observed g) ''bucket'') of
        (Some akObserved, Some bucketObserved) \<Rightarrow>
          (let akDetails = oc_connection akObserved; bucketDetails = oc_connection bucketObserved in
           if length akDetails = 0 \<or> length bucketDetails = 0 then objects
           else
             let accessKeyID = gget akDetails ''username''; secretAccessKey = gget akDetails ''password'' in
             if accessKeyID = '''' \<or> secretAccessKey = '''' then objects
             else gset ''credentials'' (credentials_object g
               [(''AWS_ACCESS_KEY_ID'', accessKeyID), (''AWS_SECRET_ACCESS_KEY'', secretAccessKey),
                (''BUCKET_REGION'', gget bucketDetails ''region''), (''BUCKET_ARN'', gget bucketDetails ''arn''),
                (''BUCKET_NAME'', gget bucketDetails ''id'')]) objects)
      | _ \<Rightarrow> objects)"

definition s3_generate :: "s3BucketGenerator \<Rightarrow> kobject gomap" where
  "s3_generate g =
     (let objects = buildBucketResources g [];
          objects = buildIAMResources g objects;
          objects = buildSecretsManagerResources g objects;
          objects = (if sb_CreateServiceAccount (sg_bucket g) then buildServiceAccount g objects else objects)
      in buildCredentialsSecret g objects)"

definition GenerateS3BucketObjects ::
  "ext \<Rightarrow> storage_ext \<Rightarrow> S3Bucket \<Rightarrow> required \<Rightarrow> observed \<Rightarrow> kobject gomap res" where
  "GenerateS3BucketObjects X D b required observed =
     bindr (newS3BucketGenerator X D b required observed) (\<lambda>g. Inr (s3_generate g))"

section \<open>The group\<close>

definition storage_steps :: "string list list" where
  "storage_steps =
     [[''bucket'', ''iam-user'', ''iam-role''],
      [''iam-access-key'', ''iam-policy''],
      [''credentials'', ''secrets-manager-secret''],
      [''secrets-manager-secret-version'', ''iam-user-policy-attachment'', ''iam-role-policy-attachment''],
      [''bucket-versioning'', ''bucket-ownership-controls''],
      [''bucket-public-access-block'', ''bucket-server-side-encryption-configuration'']]"

definition storage_GetSequence :: "S3Bucket \<Rightarrow> Sequence" where
  "storage_GetSequence b = NewSequence False storage_steps"

definition storage_GetRequiredResources :: "ext \<Rightarrow> storage_ext \<Rightarrow> object \<Rightarrow> required \<Rightarrow> selectors res" where
  "storage_GetRequiredResources X D composite required =
     (if get_kind X composite = ''S3Bucket'' then
        (let resources = [(EnvironmentKey, RequiredEnvironmentConfig ''platform-apis-storage'')] in
         if map_of required EnvironmentKey = None then Inr resources
         else bindr (storage_GetEnvironment X D required) (\<lambda>env.
           let resources = (if se_DataKMSKey env \<noteq> ''''
                 then gset ''KMSDataKey'' (RequiredKMSKey (se_DataKMSKey env) (se_AWSProvider env)) resources else resources);
               resources = (if se_ConfigKMSKey env \<noteq> ''''
                 then gset ''KMSConfigKey'' (RequiredKMSKey (se_ConfigKMSKey env) (se_AWSProvider env)) resources else resources)
           in Inr (gset ''EKS'' \<lparr>sel_kind = ''Cluster'', sel_api_version = ''eks.aws.m.upbound.io/v1beta1'',
                sel_match = MatchName ''eks'', sel_namespace = Some (se_AWSProvider env)\<rparr> resources)))
      else Inr [])"

text \<open>\<open>if v, found, _ := ...; found { status[key] = f(v) }\<close>\<close>

definition put_found :: "string \<Rightarrow> ('a \<Rightarrow> json) \<Rightarrow> 'a option res \<Rightarrow> object \<Rightarrow> object" where
  "put_found key f r status = (case found r of None \<Rightarrow> status | Some v \<Rightarrow> gset key (f v) status)"

definition getBucketStatus :: "ext \<Rightarrow> object \<Rightarrow> object" where
  "getBucketStatus X ob =
     (let status = put_found ''region'' JStr (nested_string X ob [''status'', ''atProvider'', ''region'']) [];
          status = put_found ''versioningEnabled'' JBool
            (nested_bool X ob [''status'', ''atProvider'', ''versioning'', ''enabled'']) status;
          status = (if get_name X ob \<noteq> '''' then gset ''s3Uri'' (JStr (''s3://'' @ get_name X ob)) status else status);
          status = put_found ''s3Url'' (\<lambda>d. JStr (''https://'' @ d))
            (nested_string X ob [''status'', ''atProvider'', ''bucketRegionalDomainName'']) status
      in case map_of (get_annotations X ob) AnnotationServiceAccount of
           None \<Rightarrow> status
         | Some saName \<Rightarrow> gset ''serviceAccountName'' (JStr saName) status)"

definition getSSEStatus :: "ext \<Rightarrow> object \<Rightarrow> object" where
  "getSSEStatus X ob =
     (let rule = [''status'', ''atProvider'', ''rule'', ''0''];
          status = put_found ''encryptionType'' JStr
            (nested_string X ob (rule @ [''applyServerSideEncryptionByDefault'', ''sseAlgorithm''])) [];
          status = put_found ''kmsKeyId'' JStr
            (nested_string X ob (rule @ [''applyServerSideEncryptionByDefault'', ''kmsMasterKeyId''])) status
      in put_found ''bucketKeyEnabled'' JBool (nested_bool X ob (rule @ [''bucketKeyEnabled''])) status)"

definition getPublicAccessBlockStatus :: "ext \<Rightarrow> object \<Rightarrow> object" where
  "getPublicAccessBlockStatus X ob =
     (let flag = (\<lambda>key f. put_found key JBool (nested_bool X ob [''status'', ''atProvider'', f]));
          status = flag ''blockPublicAclsEnabled'' ''blockPublicAcls'' [];
          status = flag ''blockPublicPolicyEnabled'' ''blockPublicPolicy'' status;
          status = flag ''ignorePublicAclsEnabled'' ''ignorePublicAcls'' status
      in flag ''restrictPublicBucketsEnabled'' ''restrictPublicBuckets'' status)"

definition getOwnershipControlsStatus :: "ext \<Rightarrow> object \<Rightarrow> object" where
  "getOwnershipControlsStatus X ob =
     put_found ''objectOwnership'' JStr (nested_string X ob [''status'', ''atProvider'', ''rule'', ''objectOwnership'']) []"

definition storage_GetObservedStatus :: "ext \<Rightarrow> object \<Rightarrow> object res" where
  "storage_GetObservedStatus X ob =
     (let kind = get_kind X ob in
      if \<not> prefix ''s3.aws.m.upbound.io'' (get_api_version X ob) then Inr []
      else if kind = ''Bucket'' then Inr (getBucketStatus X ob)
      else if kind = ''BucketServerSideEncryptionConfiguration'' then Inr (getSSEStatus X ob)
      else if kind = ''BucketPublicAccessBlock'' then Inr (getPublicAccessBlockStatus X ob)
      else if kind = ''BucketOwnershipControls'' then Inr (getOwnershipControlsStatus X ob)
      else Inr [])"

definition storage_group :: "ext \<Rightarrow> storage_ext \<Rightarrow> (S3Bucket, kobject) GroupService" where
  "storage_group X D = \<lparr>SkipGeneration = (\<lambda>composite. False),
     GetResourceHandlers = [(''S3Bucket'', \<lparr>h_decode = sx_bucket D, h_generate = GenerateS3BucketObjects X D\<rparr>)],
     GetSequence = storage_GetSequence,
     GetReadyStatus = (\<lambda>observed. None),
     GetRequiredResources = storage_GetRequiredResources X D,
     GetObservedStatus = storage_GetObservedStatus X,
     PostProcessStatus = None\<rparr>"

end
