(* ===== verification/Storage_Props.thy ===== *)
theory Storage_Props
  imports Storage_Service
begin

text \<open>
  The storage group: every bucket is locked down, its IAM policy covers the bucket and its key only, the
  credentials secret appears with the key pair and its document reads back as its fields, and the resources
  are created in the order of the sequence.
\<close>

section \<open>The generated map\<close>

definition bucket_names :: "string list" where
  "bucket_names = [''bucket'', ''bucket-public-access-block'', ''bucket-server-side-encryption-configuration'',
     ''bucket-versioning'', ''bucket-ownership-controls'']"

lemmas storage_build_defs = buildBucketResources_def buildIAMResources_def buildSecretsManagerResources_def
  buildServiceAccount_def

text \<open>The key pair of the access key, once both connection details are there.\<close>

definition key_pair :: "observed \<Rightarrow> (string \<times> string) option" where
  "key_pair observed =
     (case (map_of observed ''iam-access-key'', map_of observed ''bucket'') of
        (Some ak, Some b) \<Rightarrow>
          if oc_connection ak \<noteq> [] \<and> oc_connection b \<noteq> [] \<and> gget (oc_connection ak) ''username'' \<noteq> '''' \<and>
             gget (oc_connection ak) ''password'' \<noteq> ''''
          then Some (gget (oc_connection ak) ''username'', gget (oc_connection ak) ''password'') else None
      | _ \<Rightarrow> None)"

definition credentials_of :: "observed \<Rightarrow> string \<times> string \<Rightarrow> string gomap" where
  "credentials_of observed pair =
     (let b = oc_connection (the (map_of observed ''bucket'')) in
      [(''AWS_ACCESS_KEY_ID'', fst pair), (''AWS_SECRET_ACCESS_KEY'', snd pair),
       (''BUCKET_REGION'', gget b ''region''), (''BUCKET_ARN'', gget b ''arn''), (''BUCKET_NAME'', gget b ''id'')])"

lemma buildCredentialsSecret_eq:
  "buildCredentialsSecret g objects =
     (case key_pair (sg_observed g) of
        None \<Rightarrow> objects
      | Some pair \<Rightarrow> gset ''credentials'' (credentials_object g (credentials_of (sg_observed g) pair)) objects)"
  by (auto simp: buildCredentialsSecret_def key_pair_def credentials_of_def Let_def split: option.splits)

definition s3_base :: "s3BucketGenerator \<Rightarrow> kobject gomap" where
  "s3_base g =
     (let objects = buildSecretsManagerResources g (buildIAMResources g (buildBucketResources g []))
      in if sb_CreateServiceAccount (sg_bucket g) then buildServiceAccount g objects else objects)"

lemma s3_generate_eq:
  "map_of (s3_generate g) k =
     (if k = ''credentials'' then map_option (\<lambda>pair. credentials_object g (credentials_of (sg_observed g) pair)) (key_pair (sg_observed g))
      else map_of (s3_base g) k)"
proof -
  have n: "map_of (s3_base g) ''credentials'' = None"
    by (simp add: s3_base_def storage_build_defs Let_def)
  have "s3_generate g = buildCredentialsSecret g (s3_base g)" by (simp add: s3_generate_def s3_base_def Let_def)
  then show ?thesis unfolding buildCredentialsSecret_eq by (simp add: n split: option.splits)
qed

lemma s3_generate_wf: "wf_map (s3_generate g)"
proof -
  have b: "wf_map m \<Longrightarrow> wf_map (buildBucketResources g m)" "wf_map m \<Longrightarrow> wf_map (buildIAMResources g m)"
    "wf_map m \<Longrightarrow> wf_map (buildSecretsManagerResources g m)" "wf_map m \<Longrightarrow> wf_map (buildServiceAccount g m)" for m
    by (simp_all only: storage_build_defs Let_def wf_gset)
  have "wf_map (s3_base g)" by (simp add: s3_base_def Let_def b)
  moreover have "s3_generate g = buildCredentialsSecret g (s3_base g)" by (simp add: s3_generate_def s3_base_def Let_def)
  ultimately show ?thesis by (simp add: buildCredentialsSecret_eq split: option.splits)
qed

lemma s3_base_lookup:
  "map_of (s3_base g) ''bucket'' = Some (bucket_object g)"
  "map_of (s3_base g) ''bucket-public-access-block'' = Some (access_block_object g)"
  "map_of (s3_base g) ''bucket-server-side-encryption-configuration'' = Some (encryption_object g)"
  "map_of (s3_base g) ''bucket-versioning'' = Some (versioning_object g)"
  "map_of (s3_base g) ''bucket-ownership-controls'' = Some (ownership_object g)"
  by (simp_all add: s3_base_def storage_build_defs Let_def)

lemma s3_base_policies:
  "\<exists>ob. map_of (s3_base g) ''iam-policy'' = Some ob \<and>
     kfield ob [''Spec'', ''ForProvider'', ''Policy''] = Some (VStr (buildIAMPolicyDocument g))"
  "\<exists>ob. map_of (s3_base g) ''iam-role'' = Some ob \<and>
     kfield ob [''Spec'', ''ForProvider'', ''AssumeRolePolicy''] = Some (VStr (buildAssumeRolePolicy g))"
  by (simp_all add: s3_base_def storage_build_defs Let_def iam_object_def s3_object_def kfield_def)

lemma GenerateS3BucketObjects_ok:
  assumes "GenerateS3BucketObjects X D b required observed = Inr gen"
  obtains g key where "gen = s3_generate g" and "sg_bucket g = b" and "sg_observed g = observed" and "sg_bucketName g = sb_name b"
    and "ExtractOptionalResource required ''KMSDataKey'' (sx_kms D) = Inr key" and "sg_kmsDataKeyArn g = kms_arn_of key"
    and "sg_serviceAccountName g = service_account_name b"
  using assms that by (auto simp: GenerateS3BucketObjects_def newS3BucketGenerator_def res_simps)

section \<open>The hand-written document\<close>

lemma json_space_blank [simp]: "json_space (CHR '' '')"
  by (simp add: json_space_def)

lemma json_text_space [simp]: "json_text (CHR '' '' # s) = json_text s"
  by (simp add: json_text_def expect_def)

lemma text_or_null_space [simp]: "text_or_null (CHR '' '' # s) = text_or_null s"
  by (simp add: text_or_null_def expect_null_def)

definition plain_key :: "string \<Rightarrow> bool" where
  "plain_key k \<longleftrightarrow> (\<forall>c \<in> set k. 32 \<le> code c \<and> code c < 128 \<and> c \<notin> {CHR 0x22, CHR 0x5C} \<and> c \<notin> set ''<>&'')"

lemma plain_key_quote: "plain_key k \<Longrightarrow> json_quote k = [CHR 0x22] @ k @ [CHR 0x22]"
proof -
  have "plain_key k \<Longrightarrow> escape_text k = k"
  proof (induction k)
    case (Cons c k)
    then have k: "plain_key k" and c: "32 \<le> code c" "code c < 128" "c \<notin> {CHR 0x22, CHR 0x5C}" "c \<notin> set ''<>&''"
      by (simp_all add: plain_key_def)
    have "c \<notin> {CHR 0x08, CHR 0x0C, CHR 0x0A, CHR 0x0D, CHR 0x09}" using c(1) by auto
    with c have "escape_char c = [c]" by (simp add: escape_char_def html_or_control_def)
    note c = c(2) this k
    show ?case using Cons.IH [OF k] c(2) by (simp add: escape_text.simps(2) utf8_len_ascii [OF c(1)])
  qed simp
  then show "plain_key k \<Longrightarrow> json_quote k = [CHR 0x22] @ k @ [CHR 0x22]" by (simp add: json_quote_def)
qed

lemma plain_key_sanitize: "plain_key k \<Longrightarrow> sanitize k = k"
proof -
  have "(\<forall>c \<in> set s. code c < 128) \<Longrightarrow> valid_utf8 s" for s
    by (induction s) (auto simp: valid_utf8.simps(2) utf8_len_ascii)
  then show "plain_key k \<Longrightarrow> sanitize k = k" by (auto simp: plain_key_def intro: sanitize_valid)
qed

lemma json_members_spaced:
  assumes "fs \<noteq> []" and "\<forall>k \<in> fst ` set fs. plain_key k"
  shows "json_members m (spaced_fields fs @ ''}'') = Some (gcopy m (sanitized fs), [])
    \<and> json_members m (CHR '' '' # spaced_fields fs @ ''}'') = Some (gcopy m (sanitized fs), [])"
  using assms
proof (induction fs arbitrary: m rule: spaced_fields.induct)
  case (2 k v)
  have q: "[CHR 0x22] @ k @ [CHR 0x22] = json_quote k" using 2 plain_key_quote by simp
  have e: "spaced_fields [(k, v)] @ ''}'' = json_quote k @ CHR '':'' # CHR '' '' # json_quote v @ ''}''"
    unfolding spaced_fields.simps q [symmetric] by simp
  have "json_member (json_quote k @ CHR '':'' # CHR '' '' # json_quote v @ ''}'') = Some ((sanitize k, sanitize v), ''}'')"
    "json_member (CHR '' '' # json_quote k @ CHR '':'' # CHR '' '' # json_quote v @ ''}'') = Some ((sanitize k, sanitize v), ''}'')"
    by (simp_all add: json_member_def)
  then show ?case unfolding e by (simp add: json_members.simps [of m] sanitized_def gcopy_def)
next
  case (3 k v kv fs)
  have q: "[CHR 0x22] @ k @ [CHR 0x22] = json_quote k" using 3 plain_key_quote by simp
  let ?rest = "CHR '' '' # spaced_fields (kv # fs) @ ''}''"
  have e: "spaced_fields ((k, v) # kv # fs) @ ''}'' = json_quote k @ CHR '':'' # CHR '' '' # json_quote v @ CHR '','' # ?rest"
    unfolding spaced_fields.simps q [symmetric] by simp
  have m: "json_member (json_quote k @ CHR '':'' # CHR '' '' # json_quote v @ CHR '','' # ?rest) =
      Some ((sanitize k, sanitize v), CHR '','' # ?rest)"
    "json_member (CHR '' '' # json_quote k @ CHR '':'' # CHR '' '' # json_quote v @ CHR '','' # ?rest) =
      Some ((sanitize k, sanitize v), CHR '','' # ?rest)"
    by (simp_all add: json_member_def)
  have IH: "json_members (gset (sanitize k) (sanitize v) m) ?rest =
      Some (gcopy (gset (sanitize k) (sanitize v) m) (sanitized (kv # fs)), [])"
    using 3 by simp
  have g: "gcopy m (sanitized ((k, v) # kv # fs)) = gcopy (gset (sanitize k) (sanitize v) m) (sanitized (kv # fs))"
    by (simp add: sanitized_def)
  show ?case
    unfolding e g json_members.simps [of m "json_quote k @ _"] json_members.simps [of m "CHR '' '' # json_quote k @ _"] m
    using IH by simp
qed simp

lemma credentials_json_read:
  assumes "fs \<noteq> []" and "\<forall>k \<in> fst ` set fs. plain_key k"
  shows "unmarshal_strings (credentials_json fs) = Some (gcopy [] (sanitized fs))"
proof -
  obtain t where t: "spaced_fields fs @ ''}'' = CHR 0x22 # t"
    using assms(1) by (cases fs rule: spaced_fields.cases) auto
  then show ?thesis
    using json_members_spaced [OF assms, of "[]"]
    by (simp add: unmarshal_strings_def expect_null_def credentials_json_def json_object_def)
qed

section \<open>The contract of base\<close>

interpretation storage: group_service "storage_group X D" "\<lambda>b. True" for X D
proof
  show "map_of (GetResourceHandlers (storage_group X D)) kind = Some h \<Longrightarrow>
      h_generate h obj required observed = Inr gen \<Longrightarrow> wf_map gen" for kind h obj required observed gen
    by (auto simp: storage_group_def GenerateS3BucketObjects_def res_simps s3_generate_wf split: if_splits)
  show "\<exists>names. sequence_names (storage_group X D) obj gen = Inr names" for obj gen
    by (rule sequence_names_ok) (simp add: storage_group_def storage_GetSequence_def NewSequence_def)
  have p: "wf_map st \<Longrightarrow> wf_map (put_found key f r st)" for key f r st
    by (simp add: put_found_def split: option.splits)
  show "GetObservedStatus (storage_group X D) ob = Inr st \<Longrightarrow> wf_map st" for ob st
    by (auto simp: storage_group_def storage_GetObservedStatus_def getBucketStatus_def getSSEStatus_def
        getPublicAccessBlockStatus_def getOwnershipControlsStatus_def Let_def p split: if_splits option.splits)
qed (simp add: storage_group_def)

lemma storage_in_step:
  "in_step (storage_GetSequence b) i n \<longleftrightarrow> i < 6 \<and> n \<in> set (storage_steps ! i)"
proof -
  have "filter (\<lambda>obs. length obs > 0) storage_steps = storage_steps" "length storage_steps = 6" by (simp_all add: storage_steps_def)
  then show ?thesis by (auto simp: in_step_def storage_GetSequence_def NewSequence_def)
qed

lemma storage_steps_apart:
  assumes "i < 6" and "j < 6" and "n \<in> set (storage_steps ! i)" and "n \<in> set (storage_steps ! j)"
  shows "i = j"
proof -
  have "list_all (\<lambda>i. list_all (\<lambda>j. i = j \<or> list_all (\<lambda>n. n \<notin> set (storage_steps ! j)) (storage_steps ! i)) [0..<6]) [0..<6]"
    by code_simp
  with assms show ?thesis by (force simp: list_all_iff)
qed

section \<open>Grants of a policy\<close>

text \<open>The actions and resources that a policy document allows.\<close>

fun doc_texts :: "doc \<Rightarrow> string set" where
  "doc_texts (DArr xs) = {s. DStr s \<in> set xs}"
| "doc_texts (DStr s) = {s}"
| "doc_texts d = {}"

fun doc_field :: "doc \<Rightarrow> string \<Rightarrow> string set" where
  "doc_field (DObj fs) f = (case map_of fs f of Some d \<Rightarrow> doc_texts d | None \<Rightarrow> {})"
| "doc_field d f = {}"

definition policy_allows :: "doc list \<Rightarrow> (string \<times> string) set" where
  "policy_allows stmts =
     (\<Union>st \<in> {st \<in> set stmts. doc_field st ''Effect'' = {''Allow''}}. doc_field st ''Action'' \<times> doc_field st ''Resource'')"

lemma allow_statement_field [simp]:
  "doc_field (allow_statement acts rs) ''Effect'' = {''Allow''}"
  "doc_field (allow_statement acts rs) ''Action'' = set acts"
  "doc_field (allow_statement acts rs) ''Resource'' = set rs"
  by (auto simp: allow_statement_def)

lemma iam_statements_allow:
  "policy_allows (iam_statements g) =
     set s3_actions \<times> {''arn:aws:s3:::'' @ sg_bucketName g, ''arn:aws:s3:::'' @ sg_bucketName g @ ''/*''} \<union>
     (if sg_kmsDataKeyArn g = '''' then {} else set kms_actions \<times> {sg_kmsDataKeyArn g})"
proof -
  have a: "policy_allows (xs @ ys) = policy_allows xs \<union> policy_allows ys" for xs ys
    by (auto simp: policy_allows_def)
  have s: "policy_allows [allow_statement acts rs] = set acts \<times> set rs" for acts rs
    by (simp add: policy_allows_def)
  have n: "policy_allows [] = {}" by (simp add: policy_allows_def)
  show ?thesis
    unfolding iam_statements_def Let_def a s by (simp add: s n Un_commute)
qed

section \<open>A concrete bucket\<close>

definition demo_bucket :: S3Bucket where
  "demo_bucket = \<lparr>sb_name = ''files'', sb_namespace = ''team-a'', sb_EnableVersioning = True,
     sb_CreateServiceAccount = True, sb_ServiceAccountName = ''''\<rparr>"

definition demo_storage :: storage_ext where
  "demo_storage = \<lparr>sx_bucket = (\<lambda>ob. Inr demo_bucket),
     sx_environment = (\<lambda>ob. (\<lparr>se_AWSProvider = ''aws'', se_DataKMSKey = ''data'', se_ConfigKMSKey = '''', se_Tags = []\<rparr>, None)),
     sx_cluster = (\<lambda>ob. Inr \<lparr>ec_identity = [[Some ''https://oidc.example/id/1'']], ec_arn = Some ''arn:aws:eks:eu-north-1:1234:cluster/eks'',
        ec_region = Some ''eu-north-1''\<rparr>),
     sx_kms = (\<lambda>ob. Inr \<lparr>kms_name = ''data'', kms_arn = Some ''arn:aws:kms:key''\<rparr>)\<rparr>"

definition demo_storage_required :: required where
  "demo_storage_required = [(EnvironmentKey, [Some [(''data'', JObj [(''awsProvider'', JStr ''aws'')])]]),
     (''EKS'', [Some []]), (''KMSDataKey'', [Some []])]"

definition demo_storage_run :: "observed \<Rightarrow> kobject gomap res" where
  "demo_storage_run observed = GenerateS3BucketObjects std_ext demo_storage demo_bucket demo_storage_required observed"

definition demo_storage_observed :: observed where
  "demo_storage_observed =
     [(''iam-access-key'', \<lparr>oc_resource = Some (demo_object ''AccessKey'' [ready_condition]),
        oc_connection = [(''username'', ''AKIA''), (''password'', ''s3cret'')]\<rparr>),
      (''iam-policy'', \<lparr>oc_resource = Some (demo_object ''Policy'' [ready_condition]), oc_connection = []\<rparr>),
      (''bucket'', \<lparr>oc_resource = Some (demo_object ''Bucket'' [ready_condition]),
        oc_connection = [(''region'', ''eu-north-1''), (''arn'', ''arn:aws:s3:::files''), (''id'', ''files'')]\<rparr>)]"

lemma demo_storage_ok: "\<exists>gen. demo_storage_run observed = Inr gen"
proof -
  have "storage_GetEnvironment std_ext demo_storage demo_storage_required =
      Inr \<lparr>se_AWSProvider = ''aws'', se_DataKMSKey = ''data'', se_ConfigKMSKey = '''', se_Tags = []\<rparr>"
    "is_ok (ExtractRequiredResource demo_storage_required ''EKS'' (sx_cluster demo_storage))"
    "is_ok (ExtractOptionalResource demo_storage_required ''KMSDataKey'' (sx_kms demo_storage))"
    "is_ok (ExtractOptionalResource demo_storage_required ''KMSConfigKey'' (sx_kms demo_storage))"
    "is_ok (GetTenancyZone std_ext demo_storage_required)"
    by code_simp+
  then show ?thesis
    by (auto simp: demo_storage_run_def GenerateS3BucketObjects_def newS3BucketGenerator_def is_ok_iff)
qed

section \<open>Properties\<close>

text \<open>
  C19: every bucket is locked down. Whatever the composite asks for, generation asks for a public access block
  with all four switches on, ownership by the bucket owner, encryption by KMS, under the data key when its ARN
  is known, and no customer-provided keys; versioning is on exactly when the composite enables it.
\<close>

theorem bucket_is_private:
  assumes "GenerateS3BucketObjects X D b required observed = Inr gen"
    and "ExtractOptionalResource required ''KMSDataKey'' (sx_kms D) = Inr key"
  shows "\<exists>block own enc rule sse vers.
    map_of gen ''bucket-public-access-block'' = Some block \<and>
    (\<forall>f \<in> {''BlockPublicAcls'', ''BlockPublicPolicy'', ''IgnorePublicAcls'', ''RestrictPublicBuckets''}.
       kfield block [''Spec'', ''ForProvider'', f] = Some (VBool True)) \<and>
    map_of gen ''bucket-ownership-controls'' = Some own \<and>
    kfield own [''Spec'', ''ForProvider'', ''Rule'', ''ObjectOwnership''] = Some (VStr ''BucketOwnerEnforced'') \<and>
    map_of gen ''bucket-server-side-encryption-configuration'' = Some enc \<and>
    kfield enc [''Spec'', ''ForProvider'', ''Rule''] = Some (VList [VObj rule]) \<and>
    map_of rule ''BlockedEncryptionTypes'' = Some (VList [VStr ''SSE-C'']) \<and>
    map_of rule ''ApplyServerSideEncryptionByDefault'' = Some (VObj sse) \<and>
    map_of sse ''SseAlgorithm'' = Some (VStr ''aws:kms'') \<and>
    map_of sse ''KMSMasterKeyID'' = (if kms_arn_of key = '''' then None else Some (VStr (kms_arn_of key))) \<and>
    map_of gen ''bucket-versioning'' = Some vers \<and>
    kfield vers [''Spec'', ''ForProvider'', ''VersioningConfiguration'', ''Status''] =
      Some (VStr (if sb_EnableVersioning b then ''Enabled'' else ''Suspended'')) \<and>
    (\<forall>ob \<in> {block, own, enc, vers}. kfield ob [''Spec'', ''ForProvider'', ''BucketRef'', ''Name''] = Some (VStr (sb_name b)))"
proof -
  from assms obtain g where g: "gen = s3_generate g" "sg_bucket g = b" "sg_bucketName g = sb_name b" "sg_kmsDataKeyArn g = kms_arn_of key"
    by (auto elim!: GenerateS3BucketObjects_ok)
  show ?thesis
    by (rule exI [of _ "access_block_object g"], rule exI [of _ "ownership_object g"], rule exI [of _ "encryption_object g"])
      (simp add: g s3_generate_eq s3_base_lookup access_block_object_def ownership_object_def encryption_object_def
        versioning_object_def s3_object_def kfield_def name_ref_def)
qed

theorem bucket_is_private_witness:
  "\<exists>gen enc. demo_storage_run [] = Inr gen \<and> map_of gen ''bucket-server-side-encryption-configuration'' = Some enc"
proof -
  obtain gen where g: "demo_storage_run [] = Inr gen" using demo_storage_ok by blast
  have "ExtractOptionalResource demo_storage_required ''KMSDataKey'' (sx_kms demo_storage) =
      Inr (Some \<lparr>kms_name = ''data'', kms_arn = Some ''arn:aws:kms:key''\<rparr>)" by code_simp
  from bucket_is_private [OF g [unfolded demo_storage_run_def] this] g show ?thesis by blast
qed

text \<open>
  C18: the policy of the bucket's user and role allows the listed S3 actions on the bucket and its objects and,
  when the data key is known, the KMS actions on that key, and nothing else; the role may be assumed only
  through the cluster's OIDC provider and only by the one service account of the bucket.
\<close>

theorem iam_access_is_scoped:
  assumes "GenerateS3BucketObjects X D b required observed = Inr gen"
    and "ExtractOptionalResource required ''KMSDataKey'' (sx_kms D) = Inr key"
  shows "\<exists>policy role stmts oidc account.
    map_of gen ''iam-policy'' = Some policy \<and> map_of gen ''iam-role'' = Some role \<and>
    kfield policy [''Spec'', ''ForProvider'', ''Policy''] =
      Some (VStr (marshal (DObj [(''Statement'', DArr stmts), (''Version'', DStr ''2012-10-17'')]))) \<and>
    policy_allows stmts =
      set s3_actions \<times> {''arn:aws:s3:::'' @ sb_name b, ''arn:aws:s3:::'' @ sb_name b @ ''/*''} \<union>
      (if kms_arn_of key = '''' then {} else set kms_actions \<times> {kms_arn_of key}) \<and>
    kfield role [''Spec'', ''ForProvider'', ''AssumeRolePolicy''] =
      Some (VStr (marshal (DObj [(''Statement'', DArr [DObj
        [(''Action'', DStr ''sts:AssumeRoleWithWebIdentity''),
         (''Condition'', DObj [(''StringEquals'', DObj [(oidc @ '':aud'', DStr ''sts.amazonaws.com''),
            (oidc @ '':sub'', DStr (''system:serviceaccount:'' @ sb_namespace b @ '':'' @ service_account_name b))])]),
         (''Effect'', DStr ''Allow''),
         (''Principal'', DObj [(''Federated'', DStr (''arn:aws:iam::'' @ account @ '':oidc-provider/'' @ oidc))])]]),
        (''Version'', DStr ''2012-10-17'')])))"
proof -
  from assms obtain g where g: "gen = s3_generate g" "sg_bucket g = b" "sg_bucketName g = sb_name b" "sg_kmsDataKeyArn g = kms_arn_of key"
    "sg_serviceAccountName g = service_account_name b" by (auto elim!: GenerateS3BucketObjects_ok)
  from s3_base_policies [of g] obtain policy role where
    "map_of (s3_base g) ''iam-policy'' = Some policy" "map_of (s3_base g) ''iam-role'' = Some role"
    "kfield policy [''Spec'', ''ForProvider'', ''Policy''] = Some (VStr (buildIAMPolicyDocument g))"
    "kfield role [''Spec'', ''ForProvider'', ''AssumeRolePolicy''] = Some (VStr (buildAssumeRolePolicy g))" by blast
  then show ?thesis
    by (intro exI [of _ policy] exI [of _ role] exI [of _ "iam_statements g"] exI [of _ "sg_clusterOIDC g"] exI [of _ "sg_awsAccount g"])
      (simp add: g s3_generate_eq buildIAMPolicyDocument_def buildAssumeRolePolicy_def assume_role_statement_def iam_statements_allow)
qed

theorem iam_access_is_scoped_witness:
  "\<exists>gen policy. demo_storage_run [] = Inr gen \<and> map_of gen ''iam-policy'' = Some policy"
proof -
  obtain gen where g: "demo_storage_run [] = Inr gen" using demo_storage_ok by blast
  have "ExtractOptionalResource demo_storage_required ''KMSDataKey'' (sx_kms demo_storage) =
      Inr (Some \<lparr>kms_name = ''data'', kms_arn = Some ''arn:aws:kms:key''\<rparr>)" by code_simp
  from iam_access_is_scoped [OF g [unfolded demo_storage_run_def] this] g show ?thesis by blast
qed

text \<open>
  C17: the credentials secret is generated exactly when the access key and the bucket both have connection
  details and the key pair is complete. Its document, which the code formats by hand, is read back by
  \<open>json.Unmarshal\<close> as the same credentials that the secret holds field by field.
\<close>

theorem credentials_secret:
  assumes "GenerateS3BucketObjects X D b required observed = Inr gen"
  shows "(map_of gen ''credentials'' = None \<longleftrightarrow> key_pair observed = None) \<and>
    (\<forall>secret. map_of gen ''credentials'' = Some secret \<longrightarrow>
      (\<exists>pair creds text m. key_pair observed = Some pair \<and> creds = credentials_of observed pair \<and>
         kfield secret [''StringData''] = Some (str_map_val (creds @ [(''credentials.json'', text)])) \<and>
         unmarshal_strings text = Some m \<and> map_of m = map_option sanitize \<circ> map_of creds))"
proof -
  from assms obtain g where g: "gen = s3_generate g" "sg_observed g = observed" by (auto elim!: GenerateS3BucketObjects_ok)
  have read: "\<exists>m. unmarshal_strings (credentials_json (credentials_of observed pair)) = Some m \<and>
      map_of m = map_option sanitize \<circ> map_of (credentials_of observed pair)" for pair
  proof -
    let ?c = "credentials_of observed pair"
    have k: "\<forall>k \<in> fst ` set ?c. plain_key k" by (simp add: credentials_of_def Let_def plain_key_def)
    then have s: "sanitized ?c = map (\<lambda>(k, v). (k, sanitize v)) ?c"
      by (auto simp: sanitized_def plain_key_sanitize)
    have "wf_map (sanitized ?c)" unfolding s by (simp add: credentials_of_def Let_def)
    then have "map_of (gcopy [] (sanitized ?c)) = map_of (sanitized ?c)" by (simp add: map_of_gcopy)
    also have "\<dots> = map_option sanitize \<circ> map_of ?c" unfolding s by (simp add: map_of_map)
    finally show ?thesis
      using credentials_json_read [OF _ k] by (auto simp: credentials_of_def Let_def)
  qed
  show ?thesis
  proof (intro conjI allI impI)
    show "map_of gen ''credentials'' = None \<longleftrightarrow> key_pair observed = None" by (simp add: g s3_generate_eq)
    fix secret assume "map_of gen ''credentials'' = Some secret"
    then obtain pair where p: "key_pair observed = Some pair" "secret = credentials_object g (credentials_of observed pair)"
      by (auto simp: g s3_generate_eq)
    from read [of pair] p show "\<exists>pair creds text m. key_pair observed = Some pair \<and> creds = credentials_of observed pair \<and>
         kfield secret [''StringData''] = Some (str_map_val (creds @ [(''credentials.json'', text)])) \<and>
         unmarshal_strings text = Some m \<and> map_of m = map_option sanitize \<circ> map_of creds"
      by (auto simp: credentials_object_def kfield_def)
  qed
qed

theorem credentials_secret_witness:
  "\<exists>gen secret. demo_storage_run demo_storage_observed = Inr gen \<and> map_of gen ''credentials'' = Some secret"
proof -
  obtain gen where g: "demo_storage_run demo_storage_observed = Inr gen" using demo_storage_ok by blast
  have "key_pair demo_storage_observed \<noteq> None" by code_simp
  with credentials_secret [OF g [unfolded demo_storage_run_def]] g show ?thesis by auto
qed

text \<open>
  The resources of a bucket are created in the order of the sequence: one that a run adds, after the first
  step, waits until the generated resources of the step before it are observed and ready.
\<close>

theorem bucket_order:
  assumes "support_by_kind X A S gen" and "iteration ord" and "cache_ok S c"
    and "fst (place_resources X A (storage_group X D) ws ord b observed desired gen rt c) = Inr d"
    and "i < 5" and "n \<in> set (storage_steps ! Suc i)" and "map_of observed n = None" and "map_of d n \<noteq> map_of desired n"
    and "m \<in> set (storage_steps ! i)" and "map_of gen m \<noteq> None"
  shows "\<exists>oc ob. map_of observed m = Some oc \<and> oc_resource oc = Some ob \<and> GetCrossplaneReadyStatus X ob = ReadyTrue"
proof -
  let ?G = "storage_group X D"
  have s: "GetSequence ?G b = storage_GetSequence b" by (simp add: storage_group_def)
  obtain names where names: "sequence_names ?G b gen = Inr names" using storage.sequence_compiles by blast
  have only: "\<forall>j. in_step (GetSequence ?G b) j n \<longrightarrow> j = Suc i"
    unfolding s storage_in_step using storage_steps_apart [OF _ _ _ assms(6)] assms(5) by auto
  have "\<exists>oc ob. map_of observed m = Some oc \<and> oc_resource oc = Some ob \<and> getReadyStatus X ?G ob = ReadyTrue"
    by (rule step_gate [OF assms(1-4) names _ only assms(7,8) _ assms(10)])
      (use assms(5,6,9) in \<open>simp_all add: s storage_in_step\<close>)
  then show ?thesis by (simp add: getReadyStatus_def storage_group_def)
qed

theorem bucket_order_witness:
  "\<exists>gen d. demo_storage_run demo_storage_observed = Inr gen \<and>
     fst (place_resources std_ext (typed_objects []) (storage_group std_ext demo_storage) [] reversed
       demo_bucket demo_storage_observed [] gen no_tags []) = Inr d \<and> map_of d ''credentials'' \<noteq> None \<and>
     (\<exists>oc ob. map_of demo_storage_observed ''iam-policy'' = Some oc \<and> oc_resource oc = Some ob \<and>
        GetCrossplaneReadyStatus std_ext ob = ReadyTrue)"
proof -
  let ?G = "storage_group std_ext demo_storage" and ?o = demo_storage_observed
  obtain gen where run: "demo_storage_run ?o = Inr gen" using demo_storage_ok by blast
  then obtain g where g: "gen = s3_generate g" "sg_observed g = ?o"
    unfolding demo_storage_run_def by (rule GenerateS3BucketObjects_ok)
  have "key_pair ?o \<noteq> None" by code_simp
  then have c: "map_of gen ''credentials'' \<noteq> None" by (simp add: g s3_generate_eq)
  have p: "map_of gen ''iam-policy'' \<noteq> None" using s3_base_policies(1) [of g] by (auto simp: g s3_generate_eq)
  have s: "GetSequence ?G demo_bucket = storage_GetSequence demo_bucket" by (simp add: storage_group_def)
  obtain names where names: "sequence_names ?G demo_bucket gen = Inr names" using storage.sequence_compiles by blast
  have r: "getReadyStatus std_ext ?G (demo_object k [ready_condition]) = GetCrossplaneReadyStatus std_ext (demo_object k [ready_condition])" for k
    by (simp add: getReadyStatus_def storage_group_def)
  have "GetCrossplaneReadyStatus std_ext (demo_object ''AccessKey'' [ready_condition]) = ReadyTrue"
    "GetCrossplaneReadyStatus std_ext (demo_object ''Policy'' [ready_condition]) = ReadyTrue" by code_simp+
  then have ready: "\<forall>m. in_step (GetSequence ?G demo_bucket) 1 m \<longrightarrow> ready_now std_ext ?G ?o gen m"
    unfolding s storage_in_step
    by (auto simp: storage_steps_def ready_now_def observed_ready_def demo_storage_observed_def r)
  have planned: "planned std_ext ?G ?o gen names ''credentials''"
    by (rule step_planned [OF names _ c ready]) (simp add: s storage_in_step storage_steps_def)
  have obs: "all_fetched ?o" by (simp add: all_fetched_def demo_storage_observed_def)
  obtain d where d: "fst (place_resources std_ext (typed_objects []) ?G [] reversed demo_bucket ?o [] gen no_tags []) = Inr d"
    and n: "map_of d ''credentials'' \<noteq> None"
    using typed_place [OF obs demo_orders(2) names, where kinds = "[]" and desired = "[]"] planned by blast
  have "\<exists>oc ob. map_of ?o ''iam-policy'' = Some oc \<and> oc_resource oc = Some ob \<and> GetCrossplaneReadyStatus std_ext ob = ReadyTrue"
    by (rule bucket_order [OF typed_support demo_orders(2) cache_ok_Nil d, of 1 "''credentials''"])
      (use n p in \<open>simp_all add: storage_steps_def demo_storage_observed_def\<close>)
  with run d n show ?thesis by blast
qed

text \<open>
  C20: what \<open>getSSEStatus\<close> reports, for accessors that walk down maps only (\<open>object_reads\<close>, as apimachinery
  documents them). When the rule of the observed object is a list, as the provider and the generated spec have
  it, nothing is reported: the path \<open>rule.0\<close> does not index a list. Had the rule a field \<open>0\<close>, its algorithm would be
  the encryption type, its key the KMS key and its flag the bucket key, each when it has the right type, and
  nothing else would be reported.
\<close>

theorem encryption_status_missing:
  assumes "object_reads X"
  defines "rule \<equiv> [''status'', ''atProvider'', ''rule'']"
  shows "(\<forall>rules. json_at (JObj ob) rule = Some (JArr rules) \<longrightarrow> getSSEStatus X ob = []) \<and>
    (\<forall>r. json_at (JObj ob) (rule @ [''0'']) = Some r \<longrightarrow>
       (\<forall>k. map_of (getSSEStatus X ob) k =
          (if k = ''encryptionType'' then
             map_option JStr (Option.bind (json_at r [''applyServerSideEncryptionByDefault'', ''sseAlgorithm'']) dest_str)
           else if k = ''kmsKeyId'' then
             map_option JStr (Option.bind (json_at r [''applyServerSideEncryptionByDefault'', ''kmsMasterKeyId'']) dest_str)
           else if k = ''bucketKeyEnabled'' then map_option JBool (Option.bind (json_at r [''bucketKeyEnabled'']) dest_bool)
           else None)))"
proof (intro conjI allI impI)
  fix rules assume "json_at (JObj ob) rule = Some (JArr rules)"
  note object_reads.below_list [OF assms(1) this, of "''0''"]
  then show "getSSEStatus X ob = []" by (simp add: getSSEStatus_def put_found_def rule_def)
next
  fix r k assume "json_at (JObj ob) (rule @ [''0'']) = Some r"
  note read = object_reads.below_value [OF assms(1) this, unfolded rule_def, simplified]
  show "map_of (getSSEStatus X ob) k =
    (if k = ''encryptionType'' then
       map_option JStr (Option.bind (json_at r [''applyServerSideEncryptionByDefault'', ''sseAlgorithm'']) dest_str)
     else if k = ''kmsKeyId'' then
       map_option JStr (Option.bind (json_at r [''applyServerSideEncryptionByDefault'', ''kmsMasterKeyId'']) dest_str)
     else if k = ''bucketKeyEnabled'' then map_option JBool (Option.bind (json_at r [''bucketKeyEnabled'']) dest_bool)
     else None)"
    unfolding getSSEStatus_def put_found_def Let_def by (simp add: read split: option.splits)
qed

definition demo_rule :: json where
  "demo_rule = JObj [(''applyServerSideEncryptionByDefault'',
     JObj [(''kmsMasterKeyId'', JStr ''key-1''), (''sseAlgorithm'', JStr ''aws:kms'')]), (''bucketKeyEnabled'', JBool True)]"

definition demo_encryption :: "json \<Rightarrow> object" where
  "demo_encryption rule = [(''status'', JObj [(''atProvider'', JObj [(''rule'', rule)])])]"

theorem encryption_status_missing_witness:
  "getSSEStatus std_ext (demo_encryption (JArr [demo_rule])) = [] \<and>
   map_of (getSSEStatus std_ext (demo_encryption (JObj [(''0'', demo_rule)]))) ''encryptionType'' = Some (JStr ''aws:kms'') \<and>
   map_of (getSSEStatus std_ext (demo_encryption (JObj [(''0'', demo_rule)]))) ''kmsKeyId'' = Some (JStr ''key-1'')"
  using encryption_status_missing [OF reads.object_reads_axioms, of "demo_encryption (JArr [demo_rule])"]
    encryption_status_missing [OF reads.object_reads_axioms, of "demo_encryption (JObj [(''0'', demo_rule)])"]
  by (simp add: demo_encryption_def demo_rule_def)

end
