(* ===== verification/Networking_Service.thy ===== *)
theory Networking_Service
  imports Kube
begin

text \<open>
  \<open>functions/networking\<close>: a WebAccess composite becomes Istio objects: a ServiceEntry and a DestinationRule
  for every host its paths lead to, and one VirtualService that routes its paths.
\<close>

record Path =
  p_Path :: string
  p_Host :: string
  p_Namespace :: string
  p_Port :: "32 word"
  p_PathType :: string
  p_TargetPath :: string

record WebAccess =
  wa_name :: string
  wa_namespace :: string
  wa_Gateway :: string
  wa_Domain :: string
  wa_Aliases :: "string list"
  wa_Paths :: "Path list"

record networking_Environment =
  ne_IstioGateway :: string

definition zero_networking_Environment :: networking_Environment where
  "zero_networking_Environment = \<lparr>ne_IstioGateway = ''''\<rparr>"

definition networking_Environment_Validate :: "networking_Environment \<Rightarrow> unit res" where
  "networking_Environment_Validate e = refuse (ne_IstioGateway e = '''') ''istioGateway is required'' valid"

record networking_ext =
  nx_webaccess :: "object \<Rightarrow> WebAccess res"
  nx_environment :: "networking_Environment decoder"

definition networking_GetEnvironment :: "ext \<Rightarrow> networking_ext \<Rightarrow> required \<Rightarrow> networking_Environment res" where
  "networking_GetEnvironment X D required =
     GetEnvironment X (nx_environment D) (\<lambda>e. failure_of (networking_Environment_Validate e)) zero_networking_Environment
       EnvironmentKey required"

section \<open>Hosts\<close>

definition path_host :: "WebAccess \<Rightarrow> Path \<Rightarrow> string" where
  "path_host w p =
     (let namespace = wa_namespace w;
          namespace = (if p_Namespace p \<noteq> '''' then p_Namespace p else namespace)
      in p_Host p @ ''.'' @ namespace @ ''.svc.cluster.local'')"

fun host_paths_loop :: "WebAccess \<Rightarrow> Path list \<Rightarrow> Path list gomap \<Rightarrow> Path list gomap" where
  "host_paths_loop w [] paths = paths"
| "host_paths_loop w (p # ps) paths =
     host_paths_loop w ps (gset (path_host w p) (gslice paths (path_host w p) @ [p]) paths)"

definition getHostPaths :: "WebAccess \<Rightarrow> Path list gomap" where
  "getHostPaths w = host_paths_loop w (wa_Paths w) []"

fun hosts_loop :: "Path list \<Rightarrow> string Set \<Rightarrow> string list \<Rightarrow> string list" where
  "hosts_loop [] uniques hosts = hosts"
| "hosts_loop (p # ps) uniques hosts =
     (if map_of uniques (p_Host p) = None then hosts_loop ps (gset (p_Host p) True uniques) (hosts @ [p_Host p])
      else hosts_loop ps uniques hosts)"

definition getHosts :: "WebAccess \<Rightarrow> string list" where
  "getHosts w = hosts_loop (wa_Paths w) [] []"

section \<open>Objects\<close>

definition istio_api :: string where "istio_api = ''networking.istio.io/v1''"

definition istio_object :: "WebAccess \<Rightarrow> string \<Rightarrow> string \<Rightarrow> string gomap \<Rightarrow> (string \<times> gval) list \<Rightarrow> kobject" where
  "istio_object w kind name labels spec =
     \<lparr>k_type = kind, k_apiVersion = istio_api, k_kind = kind, k_name = name, k_namespace = wa_namespace w,
      k_labels = labels, k_annotations = [], k_fields = [(''Spec'', VObj spec)]\<rparr>"

definition getServicePort :: "Path \<Rightarrow> gval" where
  "getServicePort p =
     VObj [(''Number'', VInt (uint (p_Port p))), (''Name'', VStr (''HTTPS-'' @ itoa (unat (p_Port p)))),
           (''Protocol'', VStr ''HTTPS'')]"

definition getServiceEntrySpec :: "string \<Rightarrow> Path list \<Rightarrow> (string \<times> gval) list" where
  "getServiceEntrySpec host paths =
     [(''Hosts'', VList [VStr host]), (''Ports'', VList (map getServicePort paths)),
      (''Resolution'', VStr ''ServiceEntry_DNS''), (''Location'', VStr ''ServiceEntry_MESH_EXTERNAL'')]"

definition entry_name :: "ext \<Rightarrow> WebAccess \<Rightarrow> string \<Rightarrow> string" where
  "entry_name X w host = GenerateEligibleKubernetesFullName X (wa_name w @ ''-'' @ host)"

definition rule_name :: "ext \<Rightarrow> WebAccess \<Rightarrow> string \<Rightarrow> string" where
  "rule_name X w host = GenerateEligibleKubernetesFullName X (wa_name w @ ''-'' @ host @ ''-dr'')"

definition service_entry :: "ext \<Rightarrow> WebAccess \<Rightarrow> string \<Rightarrow> Path list \<Rightarrow> kobject" where
  "service_entry X w host paths =
     istio_object w ''ServiceEntry'' (entry_name X w host) [] (getServiceEntrySpec host paths)"

definition destination_rule :: "ext \<Rightarrow> WebAccess \<Rightarrow> string \<Rightarrow> kobject" where
  "destination_rule X w host =
     istio_object w ''DestinationRule'' (rule_name X w host) [] [(''Host'', VStr host)]"

text \<open>The loops over \<open>getHostPaths()\<close>, in the order of one iteration.\<close>

definition getServiceEntries :: "ext \<Rightarrow> WebAccess \<Rightarrow> kobject gomap" where
  "getServiceEntries X w =
     put_all (\<lambda>(host, paths). entry_name X w host) (\<lambda>(host, paths). service_entry X w host paths) (getHostPaths w) []"

definition getDestinationRules :: "ext \<Rightarrow> WebAccess \<Rightarrow> kobject gomap" where
  "getDestinationRules X w =
     put_all (\<lambda>(host, paths). rule_name X w host) (\<lambda>(host, paths). destination_rule X w host) (getHostPaths w) []"

definition getVirtualServiceHttpMatchUri :: "Path \<Rightarrow> gval" where
  "getVirtualServiceHttpMatchUri p =
     VObj [(''MatchType'', VObj (if p_PathType p = ''Exact'' then [(''Exact'', VStr (p_Path p))] else [(''Prefix'', VStr (p_Path p))]))]"

definition getVirtualServiceRewrite :: "Path \<Rightarrow> gval" where
  "getVirtualServiceRewrite p =
     (if p_TargetPath p = '''' then VNil
      else VObj [(''Uri'', VStr (p_TargetPath p)), (''Authority'', VStr (p_Host p))])"

definition http_route :: "Path \<Rightarrow> gval" where
  "http_route p =
     VObj [(''Match'', VList [VObj [(''Uri'', getVirtualServiceHttpMatchUri p)]]),
           (''Route'', VList [VObj [(''Destination'', VObj [(''Host'', VStr (p_Host p)),
              (''Port'', VObj [(''Number'', VInt (uint (p_Port p)))])])]]),
           (''Rewrite'', getVirtualServiceRewrite p)]"

definition getVirtualServiceHttp :: "WebAccess \<Rightarrow> gval list" where
  "getVirtualServiceHttp w = map http_route (wa_Paths w)"

definition getVirtualServiceSpec :: "networking_Environment \<Rightarrow> WebAccess \<Rightarrow> (string \<times> gval) list" where
  "getVirtualServiceSpec env w =
     (let hosts = getHosts w; hosts = hosts @ [wa_Domain w]; hosts = hosts @ wa_Aliases w
      in [(''Hosts'', VList (map VStr hosts)), (''Http'', VList (getVirtualServiceHttp w)),
          (''Gateways'', VList [VStr (ne_IstioGateway env)])])"

definition getVirtualService :: "networking_Environment \<Rightarrow> WebAccess \<Rightarrow> kobject" where
  "getVirtualService env w =
     istio_object w ''VirtualService'' (wa_name w) [(''version'', ''master'')] (getVirtualServiceSpec env w)"

definition istio_generate :: "ext \<Rightarrow> networking_Environment \<Rightarrow> WebAccess \<Rightarrow> kobject gomap" where
  "istio_generate X env w =
     (let objs = gcopy [] (getServiceEntries X w); objs = gcopy objs (getDestinationRules X w)
      in gset (wa_name w) (getVirtualService env w) objs)"

definition GenerateIstioObjects :: "ext \<Rightarrow> networking_ext \<Rightarrow> WebAccess \<Rightarrow> required \<Rightarrow> kobject gomap res" where
  "GenerateIstioObjects X D w required =
     bindr (networking_GetEnvironment X D required) (\<lambda>env. Inr (istio_generate X env w))"

section \<open>The group\<close>

definition networking_GetRequiredResources :: "ext \<Rightarrow> object \<Rightarrow> required \<Rightarrow> selectors res" where
  "networking_GetRequiredResources X composite required =
     (if get_kind X composite = ''WebAccess''
      then Inr [(EnvironmentKey, RequiredEnvironmentConfig ''platform-apis-networking'')] else Inr [])"

definition networking_group :: "ext \<Rightarrow> networking_ext \<Rightarrow> (WebAccess, kobject) GroupService" where
  "networking_group X D = \<lparr>SkipGeneration = (\<lambda>composite. False),
     GetResourceHandlers = [(''WebAccess'', \<lparr>h_decode = nx_webaccess D,
       h_generate = (\<lambda>w required observed. GenerateIstioObjects X D w required)\<rparr>)],
     GetSequence = (\<lambda>w. empty_sequence),
     GetReadyStatus = (\<lambda>observed. None),
     GetRequiredResources = networking_GetRequiredResources X,
     GetObservedStatus = (\<lambda>observed. Inr []),
     PostProcessStatus = None\<rparr>"

end
