(* ===== verification/Networking_Props.thy ===== *)
theory Networking_Props
  imports Networking_Service
begin

text \<open>
  The networking group: the ServiceEntry and the DestinationRule of every host name, the routes in the order of the
  paths, and the hosts of the VirtualService without repetitions.
\<close>

section \<open>The paths of a host\<close>

definition paths_to :: "WebAccess \<Rightarrow> string \<Rightarrow> Path list" where
  "paths_to w host = filter (\<lambda>p. path_host w p = host) (wa_Paths w)"

lemma host_paths_loop_lookup:
  "map_of (host_paths_loop w ps m) host =
     (case filter (\<lambda>p. path_host w p = host) ps of
        [] \<Rightarrow> map_of m host
      | qs \<Rightarrow> Some (gslice m host @ qs))"
proof (induction ps arbitrary: m)
  case (Cons p ps)
  show ?case
    by (cases "path_host w p = host"; cases "filter (\<lambda>p. path_host w p = host) ps")
      (simp_all add: Cons.IH gslice_def split: option.splits)
qed simp

lemma getHostPaths_lookup:
  "map_of (getHostPaths w) host = (if paths_to w host = [] then None else Some (paths_to w host))"
  by (auto simp: getHostPaths_def host_paths_loop_lookup paths_to_def gslice_def split: list.splits)

lemma host_paths_loop_wf: "wf_map m \<Longrightarrow> wf_map (host_paths_loop w ps m)"
  by (induction ps arbitrary: m) simp_all

lemma getHostPaths_wf: "wf_map (getHostPaths w)"
  by (simp add: getHostPaths_def host_paths_loop_wf)

lemma getHostPaths_set: "set (getHostPaths w) = {(h, paths_to w h) |h. h \<in> path_host w ` set (wa_Paths w)}"
proof -
  have "(h, ps) \<in> set (getHostPaths w) \<longleftrightarrow> map_of (getHostPaths w) h = Some ps" for h ps
    using getHostPaths_wf [of w] by (simp add: wf_map_def)
  moreover have "paths_to w h \<noteq> [] \<longleftrightarrow> h \<in> path_host w ` set (wa_Paths w)" for h
    by (auto simp: paths_to_def filter_empty_conv)
  ultimately show ?thesis by (auto simp: getHostPaths_lookup split: if_splits)
qed

lemma hosts_loop_append: "hosts_loop ps u hs = hs @ hosts_loop ps u []"
proof (induction ps arbitrary: u hs)
  case (Cons p ps)
  show ?case
  proof (cases "map_of u (p_Host p) = None")
    case True
    then show ?thesis
      using Cons.IH [of "gset (p_Host p) True u" "hs @ [p_Host p]"] Cons.IH [of "gset (p_Host p) True u" "[p_Host p]"] by simp
  next
    case False
    then show ?thesis using Cons.IH [of u hs] by auto
  qed
qed simp

lemma hosts_loop_set:
  shows "set (hosts_loop ps u []) = p_Host ` set ps - elems u" and "distinct (hosts_loop ps u [])"
proof (induction ps arbitrary: u)
  case (Cons p ps)
  have e: "map_of u (p_Host p) = None \<longleftrightarrow> p_Host p \<notin> elems u" for u :: "string Set"
    by (simp add: map_of_eq_None_iff elems_def)
  { case 1 show ?case using Cons.IH(1) hosts_loop_append [of ps _ "[p_Host p]"] by (auto simp: e) next
    case 2 show ?case using Cons.IH hosts_loop_append [of ps _ "[p_Host p]"] by (auto simp: e) }
qed simp_all

lemma hosts_sublist: "subseq (hosts_loop ps u []) (map p_Host ps)"
proof (induction ps arbitrary: u)
  case (Cons p ps)
  then show ?case using hosts_loop_append [of ps "gset (p_Host p) True u" "[p_Host p]"] by auto
qed simp

section \<open>The generated map\<close>

lemma getServiceEntries_wf: "wf_map (getServiceEntries X w)" "wf_map (getDestinationRules X w)"
  by (simp_all add: getServiceEntries_def getDestinationRules_def)

lemma istio_generate_wf: "wf_map (istio_generate X env w)"
  by (simp add: istio_generate_def Let_def)

lemma istio_lookup:
  "map_of (istio_generate X env w) k =
     (if k = wa_name w then Some (getVirtualService env w)
      else case map_of (getDestinationRules X w) k of Some ob \<Rightarrow> Some ob | None \<Rightarrow> map_of (getServiceEntries X w) k)"
  by (simp add: istio_generate_def Let_def map_of_gcopy_apply getServiceEntries_wf split: option.splits)

lemma istio_dom:
  "dom (map_of (istio_generate X env w)) =
     {wa_name w} \<union> entry_name X w ` path_host w ` set (wa_Paths w) \<union> rule_name X w ` path_host w ` set (wa_Paths w)"
proof -
  have f: "(\<lambda>(host, paths). f host) ` set (getHostPaths w) = f ` path_host w ` set (wa_Paths w)" for f :: "string \<Rightarrow> string"
    by (force simp: getHostPaths_set)
  have "dom (map_of (istio_generate X env w)) =
      {wa_name w} \<union> dom (map_of (getServiceEntries X w)) \<union> dom (map_of (getDestinationRules X w))"
    unfolding istio_generate_def Let_def by (simp add: dom_gcopy getServiceEntries_wf del: dom_map_of_conv_image_fst)
  then show ?thesis unfolding getServiceEntries_def getDestinationRules_def put_all_dom f by simp
qed

text \<open>What the two objects of a host have to say.\<close>

definition entry_for :: "WebAccess \<Rightarrow> string \<Rightarrow> kobject \<Rightarrow> bool" where
  "entry_for w h ob \<longleftrightarrow> k_kind ob = ''ServiceEntry'' \<and> k_namespace ob = wa_namespace w \<and>
     kfield ob [''Spec'', ''Hosts''] = Some (VList [VStr h]) \<and>
     kfield ob [''Spec'', ''Ports''] = Some (VList (map (\<lambda>p. VObj [(''Number'', VInt (uint (p_Port p))),
        (''Name'', VStr (''HTTPS-'' @ itoa (unat (p_Port p)))), (''Protocol'', VStr ''HTTPS'')])
       (filter (\<lambda>p. path_host w p = h) (wa_Paths w)))) \<and>
     kfield ob [''Spec'', ''Resolution''] = Some (VStr ''ServiceEntry_DNS'') \<and>
     kfield ob [''Spec'', ''Location''] = Some (VStr ''ServiceEntry_MESH_EXTERNAL'')"

definition rule_for :: "WebAccess \<Rightarrow> string \<Rightarrow> kobject \<Rightarrow> bool" where
  "rule_for w h ob \<longleftrightarrow> k_kind ob = ''DestinationRule'' \<and> k_namespace ob = wa_namespace w \<and>
     kfield ob [''Spec'', ''Host''] = Some (VStr h)"

lemma entry_for_entry: "entry_for w h (service_entry X w h (paths_to w h))"
  by (simp add: entry_for_def service_entry_def istio_object_def getServiceEntrySpec_def kfield_def paths_to_def
      getServicePort_def)

lemma rule_for_rule: "rule_for w h (destination_rule X w h)"
  by (simp add: rule_for_def destination_rule_def istio_object_def kfield_def)

lemma getServiceEntries_source:
  assumes "map_of (getServiceEntries X w) k = Some ob"
  shows "\<exists>h \<in> path_host w ` set (wa_Paths w). k = entry_name X w h \<and> entry_for w h ob"
  using put_all_source [OF assms [unfolded getServiceEntries_def]] entry_for_entry by (auto simp: getHostPaths_set)

lemma getDestinationRules_source:
  assumes "map_of (getDestinationRules X w) k = Some ob"
  shows "\<exists>h \<in> path_host w ` set (wa_Paths w). k = rule_name X w h \<and> rule_for w h ob"
  using put_all_source [OF assms [unfolded getDestinationRules_def]] rule_for_rule by (auto simp: getHostPaths_set)

text \<open>Whatever the generated map holds is the VirtualService or one of the objects of a host, under its name.\<close>

lemma istio_source:
  assumes "map_of (istio_generate X env w) k = Some ob"
  shows "k = wa_name w \<and> ob = getVirtualService env w \<or>
    (\<exists>h \<in> path_host w ` set (wa_Paths w). k = entry_name X w h \<and> entry_for w h ob \<or> k = rule_name X w h \<and> rule_for w h ob)"
  using assms getServiceEntries_source getDestinationRules_source
  unfolding istio_lookup by (fastforce split: if_splits option.splits)

interpretation networking: group_service "networking_group X D" "\<lambda>w. True" for X D
proof
  show "map_of (GetResourceHandlers (networking_group X D)) kind = Some h \<Longrightarrow>
      h_generate h obj required observed = Inr gen \<Longrightarrow> wf_map gen" for kind h obj required observed gen
    by (auto simp: networking_group_def GenerateIstioObjects_def res_simps istio_generate_wf split: if_splits)
  show "\<exists>names. sequence_names (networking_group X D) obj gen = Inr names" for obj gen
    by (rule sequence_names_ok) (simp add: networking_group_def)
  show "GetObservedStatus (networking_group X D) ob = Inr st \<Longrightarrow> wf_map st" for ob st
    by (auto simp: networking_group_def)
qed (simp add: networking_group_def)

section \<open>A concrete web access\<close>

definition demo_access :: WebAccess where
  "demo_access = \<lparr>wa_name = ''shop'', wa_namespace = ''team-a'', wa_Gateway = '''', wa_Domain = ''shop.example'', wa_Aliases = [],
     wa_Paths = [\<lparr>p_Path = ''/'', p_Host = ''front'', p_Namespace = '''', p_Port = 443, p_PathType = ''Prefix'', p_TargetPath = ''''\<rparr>,
       \<lparr>p_Path = ''/api'', p_Host = ''api'', p_Namespace = ''team-b'', p_Port = 8443, p_PathType = ''Exact'', p_TargetPath = ''/v1''\<rparr>,
       \<lparr>p_Path = ''/img'', p_Host = ''front'', p_Namespace = '''', p_Port = 8443, p_PathType = ''Prefix'', p_TargetPath = ''''\<rparr>]\<rparr>"

definition demo_networking :: networking_ext where
  "demo_networking = \<lparr>nx_webaccess = (\<lambda>ob. Inr demo_access), nx_environment = (\<lambda>ob. (\<lparr>ne_IstioGateway = ''gw''\<rparr>, None))\<rparr>"

definition demo_networking_required :: required where
  "demo_networking_required = [(EnvironmentKey, [Some [(''data'', JObj [(''istioGateway'', JStr ''gw'')])]])]"

lemma demo_networking_run:
  "GenerateIstioObjects std_ext demo_networking demo_access demo_networking_required =
     Inr (istio_generate std_ext \<lparr>ne_IstioGateway = ''gw''\<rparr> demo_access)"
proof -
  have "networking_GetEnvironment std_ext demo_networking demo_networking_required = Inr \<lparr>ne_IstioGateway = ''gw''\<rparr>"
    by code_simp
  then show ?thesis by (simp add: GenerateIstioObjects_def)
qed

lemma demo_access_names:
  "path_host demo_access ` set (wa_Paths demo_access) = {''front.team-a.svc.cluster.local'', ''api.team-b.svc.cluster.local''}"
  "entry_name std_ext demo_access ''front.team-a.svc.cluster.local'' = ''shop-front-team-a-svc-cluster-local''"
  "entry_name std_ext demo_access ''api.team-b.svc.cluster.local'' = ''shop-api-team-b-svc-cluster-local''"
  "rule_name std_ext demo_access ''front.team-a.svc.cluster.local'' = ''shop-front-team-a-svc-cluster-local-dr''"
  "rule_name std_ext demo_access ''api.team-b.svc.cluster.local'' = ''shop-api-team-b-svc-cluster-local-dr''"
  "wa_name demo_access = ''shop''"
  by (auto simp: demo_access_def path_host_def) code_simp+

section \<open>Properties\<close>

text \<open>
  C21: how a web access lets its hosts out of the mesh. The hosts are those its paths lead to, in the path's namespace
  or else its own. What is generated is the VirtualService, a ServiceEntry under the entry name of every host and a
  DestinationRule under its rule name, and nothing else; whatever stands under such a name is the entry (with the
  ports of the paths to the host, in their order) or the rule of a host of that name. A host whose entry name is
  nobody else's has its own entry, and so for the rules. Nothing makes the names of different hosts differ: of
  several hosts with one name only one has an object.
\<close>

theorem one_entry_per_host:
  assumes "GenerateIstioObjects X D w required = Inr gen"
  defines "hosts \<equiv> path_host w ` set (wa_Paths w)"
  shows "dom (map_of gen) = {wa_name w} \<union> entry_name X w ` hosts \<union> rule_name X w ` hosts \<and>
    (\<forall>k ob. map_of gen k = Some ob \<longrightarrow>
       k = wa_name w \<and> k_kind ob = ''VirtualService'' \<or>
       (\<exists>h \<in> hosts. k = entry_name X w h \<and> entry_for w h ob \<or> k = rule_name X w h \<and> rule_for w h ob)) \<and>
    (\<forall>h \<in> hosts. (\<forall>h' \<in> hosts. (entry_name X w h' = entry_name X w h \<longrightarrow> h' = h) \<and> rule_name X w h' \<noteq> entry_name X w h) \<and>
       entry_name X w h \<noteq> wa_name w \<longrightarrow> (\<exists>ob. map_of gen (entry_name X w h) = Some ob \<and> entry_for w h ob)) \<and>
    (\<forall>h \<in> hosts. (\<forall>h' \<in> hosts. (rule_name X w h' = rule_name X w h \<longrightarrow> h' = h) \<and> entry_name X w h' \<noteq> rule_name X w h) \<and>
       rule_name X w h \<noteq> wa_name w \<longrightarrow> (\<exists>ob. map_of gen (rule_name X w h) = Some ob \<and> rule_for w h ob))"
proof -
  from assms(1) obtain env where gen: "gen = istio_generate X env w" by (auto simp: GenerateIstioObjects_def res_simps)
  have dom: "dom (map_of gen) = {wa_name w} \<union> entry_name X w ` hosts \<union> rule_name X w ` hosts"
    unfolding gen hosts_def by (rule istio_dom)
  have src: "k = wa_name w \<and> k_kind ob = ''VirtualService'' \<or>
      (\<exists>h \<in> hosts. k = entry_name X w h \<and> entry_for w h ob \<or> k = rule_name X w h \<and> rule_for w h ob)"
    if "map_of gen k = Some ob" for k ob
    using istio_source [OF that [unfolded gen]] unfolding hosts_def
    by (auto simp: getVirtualService_def istio_object_def)
  have "\<exists>ob. map_of gen (entry_name X w h) = Some ob \<and> entry_for w h ob"
    if h: "h \<in> hosts" and own: "\<forall>h' \<in> hosts. (entry_name X w h' = entry_name X w h \<longrightarrow> h' = h) \<and> rule_name X w h' \<noteq> entry_name X w h"
      "entry_name X w h \<noteq> wa_name w" for h
  proof -
    obtain ob where ob: "map_of gen (entry_name X w h) = Some ob" using dom h by blast
    from src [OF ob] own have "entry_for w h ob" by fastforce
    with ob show ?thesis by blast
  qed
  moreover have "\<exists>ob. map_of gen (rule_name X w h) = Some ob \<and> rule_for w h ob"
    if h: "h \<in> hosts" and own: "\<forall>h' \<in> hosts. (rule_name X w h' = rule_name X w h \<longrightarrow> h' = h) \<and> entry_name X w h' \<noteq> rule_name X w h"
      "rule_name X w h \<noteq> wa_name w" for h
  proof -
    obtain ob where ob: "map_of gen (rule_name X w h) = Some ob" using dom h by blast
    from src [OF ob] own have "rule_for w h ob" by fastforce
    with ob show ?thesis by blast
  qed
  ultimately show ?thesis using dom src by (intro conjI) blast+
qed

theorem one_entry_per_host_witness:
  "\<exists>gen entry. GenerateIstioObjects std_ext demo_networking demo_access demo_networking_required = Inr gen \<and>
     map_of gen ''shop-front-team-a-svc-cluster-local'' = Some entry \<and>
     entry_for demo_access ''front.team-a.svc.cluster.local'' entry \<and> card (dom (map_of gen)) = 5"
  using one_entry_per_host [OF demo_networking_run] demo_networking_run
  unfolding demo_access_names by (auto simp: demo_access_names)

text \<open>
  Hosts whose names differ only in where the dots are: \<open>front-a\<close> in the namespace \<open>b\<close> and \<open>front\<close> in \<open>a-b\<close> have
  one entry between them, and one of the two services is not let out.
\<close>

definition colliding_access :: WebAccess where
  "colliding_access = demo_access\<lparr>wa_Paths :=
     [\<lparr>p_Path = ''/'', p_Host = ''front-a'', p_Namespace = ''b'', p_Port = 443, p_PathType = ''Prefix'', p_TargetPath = ''''\<rparr>,
      \<lparr>p_Path = ''/api'', p_Host = ''front'', p_Namespace = ''a-b'', p_Port = 8443, p_PathType = ''Prefix'', p_TargetPath = ''''\<rparr>]\<rparr>"

theorem colliding_hosts_share_an_entry:
  "dom (map_of (istio_generate std_ext env colliding_access)) =
     {''shop'', ''shop-front-a-b-svc-cluster-local'', ''shop-front-a-b-svc-cluster-local-dr''}"
proof -
  have "path_host colliding_access ` set (wa_Paths colliding_access) =
      {''front-a.b.svc.cluster.local'', ''front.a-b.svc.cluster.local''}"
    by (auto simp: colliding_access_def demo_access_def path_host_def)
  moreover have "wa_name colliding_access = ''shop''"
    "entry_name std_ext colliding_access ''front-a.b.svc.cluster.local'' = ''shop-front-a-b-svc-cluster-local''"
    "entry_name std_ext colliding_access ''front.a-b.svc.cluster.local'' = ''shop-front-a-b-svc-cluster-local''"
    "rule_name std_ext colliding_access ''front-a.b.svc.cluster.local'' = ''shop-front-a-b-svc-cluster-local-dr''"
    "rule_name std_ext colliding_access ''front.a-b.svc.cluster.local'' = ''shop-front-a-b-svc-cluster-local-dr''"
    by code_simp+
  ultimately show ?thesis unfolding istio_dom by (simp add: insert_commute)
qed

text \<open>
  C22: the VirtualService routes every path, in the order of the composite, since Istio takes the first match:
  route \<open>i\<close> matches the text of path \<open>i\<close>, exactly or as a prefix, leads to its host and port, and rewrites the
  request exactly when the path has a target. Its hosts are the hosts of the paths, each once and in the order
  of their first path, then the domain and the aliases.
\<close>

theorem routes_follow_paths:
  assumes "GenerateIstioObjects X D w required = Inr gen"
  shows "\<exists>vs hosts routes. map_of gen (wa_name w) = Some vs \<and> k_kind vs = ''VirtualService'' \<and>
    kfield vs [''Spec'', ''Http''] = Some (VList routes) \<and> length routes = length (wa_Paths w) \<and>
    (\<forall>i < length routes. \<exists>fs. routes ! i = VObj fs \<and>
       map_of fs ''Match'' = Some (VList [VObj [(''Uri'', VObj [(''MatchType'', VObj
         [(if p_PathType (wa_Paths w ! i) = ''Exact'' then ''Exact'' else ''Prefix'', VStr (p_Path (wa_Paths w ! i)))])])]]) \<and>
       map_of fs ''Route'' = Some (VList [VObj [(''Destination'', VObj [(''Host'', VStr (p_Host (wa_Paths w ! i))),
         (''Port'', VObj [(''Number'', VInt (uint (p_Port (wa_Paths w ! i))))])])]]) \<and>
       (map_of fs ''Rewrite'' = Some VNil \<longleftrightarrow> p_TargetPath (wa_Paths w ! i) = '''')) \<and>
    kfield vs [''Spec'', ''Hosts''] = Some (VList (map VStr (hosts @ wa_Domain w # wa_Aliases w))) \<and>
    set hosts = p_Host ` set (wa_Paths w) \<and> distinct hosts \<and> subseq hosts (map p_Host (wa_Paths w))"
proof -
  from assms obtain env where gen: "gen = istio_generate X env w" by (auto simp: GenerateIstioObjects_def res_simps)
  have "set (getHosts w) = p_Host ` set (wa_Paths w)" "distinct (getHosts w)" "subseq (getHosts w) (map p_Host (wa_Paths w))"
    unfolding getHosts_def using hosts_loop_set(1) [of "wa_Paths w" "[]"] by (simp_all add: elems_def hosts_loop_set(2) hosts_sublist)
  then show ?thesis
    by (intro exI [of _ "getVirtualService env w"] exI [of _ "getHosts w"] exI [of _ "map http_route (wa_Paths w)"])
      (simp add: gen istio_lookup getVirtualService_def istio_object_def kfield_def getVirtualServiceSpec_def Let_def
        getVirtualServiceHttp_def http_route_def getVirtualServiceHttpMatchUri_def getVirtualServiceRewrite_def)
qed

theorem routes_follow_paths_witness:
  "\<exists>gen vs. GenerateIstioObjects std_ext demo_networking demo_access demo_networking_required = Inr gen \<and>
     map_of gen ''shop'' = Some vs"
proof -
  have n: "wa_name demo_access = ''shop''" by (simp add: demo_access_def)
  from routes_follow_paths [OF demo_networking_run] demo_networking_run show ?thesis unfolding n by blast
qed

end
