(* ===== verification/Go_Float.thy ===== *)
theory Go_Float
  imports Go_Strings "HOL-Library.Log_Nat"
begin

text \<open>
  Floating-point arithmetic as Go has it: \<open>float32\<close> and \<open>float64\<close> are the IEEE 754 formats with rounding to
  nearest, ties to even. A finite value is the rational number it stands for; \<open>float_round p emin x\<close> is the
  value of precision \<open>p\<close> with smallest exponent \<open>emin\<close> that is nearest to \<open>x\<close>. \<open>None\<close> stands for positive infinity.
\<close>

section \<open>Rounding\<close>

definition round_even :: "rat \<Rightarrow> int" where
  "round_even x =
     (let f = \<lfloor>x\<rfloor>; r = x - of_int f in
      if r < 1/2 then f else if r > 1/2 then f + 1 else if even f then f else f + 1)"

text \<open>\<open>math.Round\<close>: half away from zero.\<close>

definition round_away :: "rat \<Rightarrow> int" where
  "round_away x = (if 0 \<le> x then \<lfloor>x + 1/2\<rfloor> else - \<lfloor>1/2 - x\<rfloor>)"

text \<open>The exponent of a positive number: \<open>2 ^ ilog2 x \<le> x < 2 ^ (ilog2 x + 1)\<close>.\<close>

definition ilog2 :: "rat \<Rightarrow> int" where
  "ilog2 x =
     (let (n, d) = quotient_of x; e = bitlen n - bitlen d in if 2 powi e \<le> x then e else e - 1)"

definition float_round :: "int \<Rightarrow> int \<Rightarrow> rat \<Rightarrow> rat" where
  "float_round p emin x =
     (if x = 0 then 0
      else let e = max emin (ilog2 \<bar>x\<bar> - p + 1) in of_int (round_even (x / 2 powi e)) * 2 powi e)"

definition f64_round :: "rat \<Rightarrow> rat" where "f64_round = float_round 53 (-1074)"
definition f32_round :: "rat \<Rightarrow> rat" where "f32_round = float_round 24 (-149)"

definition to_f32 :: "rat \<Rightarrow> rat option" where
  "to_f32 x = (let y = f32_round x in if 2 ^ 128 \<le> y then None else Some y)"

definition f32_mul :: "rat \<Rightarrow> rat \<Rightarrow> rat option" where
  "f32_mul x y = to_f32 (x * y)"

text \<open>\<open>%f\<close>: six decimals of the exact value, rounded to nearest, ties to even.\<close>

definition pad6 :: "nat \<Rightarrow> string" where
  "pad6 n = (let s = itoa n in replicate (6 - length s) (CHR ''0'') @ s)"

definition fmt_f :: "rat option \<Rightarrow> string" where
  "fmt_f v =
     (case v of
        None \<Rightarrow> ''+Inf''
      | Some x \<Rightarrow>
          (let n = nat (round_even (\<bar>x\<bar> * 1000000)) in
           (if x < 0 then ''-'' else '''') @ itoa (n div 1000000) @ ''.'' @ pad6 (n mod 1000000)))"

section \<open>Rounding to an integer\<close>

lemma round_even_int [simp]: "round_even (of_int i) = i"
  by (simp add: round_even_def)


lemma round_even_mono_int: "of_int i \<le> x \<Longrightarrow> i \<le> round_even x"
proof -
  assume "of_int i \<le> x"
  then have "i \<le> \<lfloor>x\<rfloor>" by (simp add: le_floor_iff)
  then show ?thesis by (auto simp: round_even_def Let_def)
qed

lemma round_even_le_int: "x \<le> of_int i \<Longrightarrow> round_even x \<le> i"
proof -
  assume x: "x \<le> of_int i"
  show ?thesis
  proof (cases "x = of_int i")
    case False
    with x have "x < of_int i" by simp
    then have "\<lfloor>x\<rfloor> < i" by (simp add: floor_less_iff)
    then show ?thesis by (auto simp: round_even_def Let_def)
  qed simp
qed

section \<open>The exponent\<close>

lemma ilog2_bounds:
  assumes "0 < x"
  shows "2 powi ilog2 x \<le> x" and "x < 2 powi (ilog2 x + 1)"
proof -
  obtain n d where q: "quotient_of x = (n, d)" by (cases "quotient_of x")
  then have x: "x = of_int n / of_int d" and d: "0 < d" by (simp_all add: quotient_of_div quotient_of_denom_pos)
  with assms have n: "0 < n" by (simp add: zero_less_divide_iff)
  have bounds: "2 powi (bitlen k - 1) \<le> (of_int k :: rat)" "(of_int k :: rat) < 2 powi bitlen k" if "0 < k" for k
  proof -
    have b: "1 \<le> bitlen k" using that by (simp add: bitlen_alt_def)
    have c: "2 ^ nat (bitlen k - 1) \<le> k" "k < 2 ^ nat (bitlen k)" using bitlen_bounds [OF that] by auto
    have "(2 :: rat) powi (bitlen k - 1) = of_int (2 ^ nat (bitlen k - 1))" using b by (simp add: power_int_def)
    with c(1) show "2 powi (bitlen k - 1) \<le> (of_int k :: rat)" by (simp only: of_int_le_iff)
    have "(2 :: rat) powi bitlen k = of_int (2 ^ nat (bitlen k))" using b by (simp add: power_int_def)
    with c(2) show "(of_int k :: rat) < 2 powi bitlen k" by (simp only: of_int_less_iff)
  qed
  let ?e = "bitlen n - bitlen d"
  have dp: "(0 :: rat) < of_int d" using d by simp
  have lo: "2 powi (?e - 1) \<le> x"
  proof -
    have "2 powi (?e - 1) * of_int d \<le> 2 powi (?e - 1) * (2 powi bitlen d :: rat)"
      using bounds(2) [OF d] by (intro mult_left_mono) auto
    also have "\<dots> = 2 powi (bitlen n - 1)" by (simp add: power_int_add [symmetric])
    also have "\<dots> \<le> of_int n" by (rule bounds(1) [OF n])
    finally show ?thesis unfolding x using dp by (simp add: pos_le_divide_eq)
  qed
  have hi: "x < 2 powi (?e + 1)"
  proof -
    have "of_int n < (2 powi bitlen n :: rat)" by (rule bounds(2) [OF n])
    also have "\<dots> = 2 powi (?e + 1) * 2 powi (bitlen d - 1)" by (simp add: power_int_add [symmetric])
    also have "\<dots> \<le> 2 powi (?e + 1) * of_int d" using bounds(1) [OF d] by (intro mult_left_mono) auto
    finally show ?thesis unfolding x using dp by (simp add: pos_divide_less_eq)
  qed
  show "2 powi ilog2 x \<le> x" and "x < 2 powi (ilog2 x + 1)"
    using lo hi by (auto simp: ilog2_def q Let_def)
qed

lemma ilog2_less: "0 < x \<Longrightarrow> x < 2 powi k \<Longrightarrow> ilog2 x < k"
proof -
  assume x: "0 < x" "x < 2 powi k"
  have "2 powi k \<le> (2 :: rat) powi ilog2 x" if "k \<le> ilog2 x" using that by (intro power_int_increasing) auto
  with x ilog2_bounds(1) [of x] show ?thesis by (meson leD leI order_trans)
qed

section \<open>Rounding to a float\<close>

lemma powi_split: "e \<le> k \<Longrightarrow> (2 :: rat) powi k = of_int (2 ^ nat (k - e)) * 2 powi e"
proof -
  assume "e \<le> k"
  then have "(2 :: rat) powi (k - e) = of_int (2 ^ nat (k - e))" by (simp add: power_int_def)
  moreover have "(2 :: rat) powi k = 2 powi (k - e) * 2 powi e" by (simp add: power_int_add [symmetric])
  ultimately show ?thesis by simp
qed

text \<open>A number that fits the format is kept.\<close>

lemma float_round_exact:
  assumes "\<bar>m\<bar> < 2 ^ nat p" and "0 \<le> p" and "emin \<le> k"
  shows "float_round p emin (of_int m * 2 powi k) = of_int m * 2 powi k"
proof (cases "m = 0")
  case False
  let ?x = "of_int m * 2 powi k :: rat"
  define e where "e = max emin (ilog2 \<bar>?x\<bar> - p + 1)"
  have a: "\<bar>?x\<bar> = of_int \<bar>m\<bar> * 2 powi k" by (simp add: abs_mult)
  have "(of_int \<bar>m\<bar> :: rat) < of_int (2 ^ nat p)" using assms(1) by (simp only: of_int_less_iff)
  then have "(of_int \<bar>m\<bar> :: rat) < 2 powi p" using assms(2) by (simp add: power_int_def)
  then have "\<bar>?x\<bar> < 2 powi p * 2 powi k" unfolding a by (intro mult_strict_right_mono) auto
  then have "\<bar>?x\<bar> < 2 powi (p + k)" by (simp add: power_int_add)
  with False have "ilog2 \<bar>?x\<bar> < p + k" by (intro ilog2_less) auto
  with assms(3) have e: "e \<le> k" by (simp add: e_def)
  have x: "?x = of_int (m * 2 ^ nat (k - e)) * 2 powi e" using powi_split [OF e] by simp
  have "(2 :: rat) powi e \<noteq> 0" by simp
  from nonzero_mult_div_cancel_right [OF this] have "?x / 2 powi e = of_int (m * 2 ^ nat (k - e))" unfolding x by blast
  then have r: "round_even (?x / 2 powi e) = m * 2 ^ nat (k - e)" by (simp only: round_even_int)
  have "float_round p emin ?x = of_int (round_even (?x / 2 powi e)) * 2 powi e"
    using False by (simp add: float_round_def Let_def e_def)
  also have "\<dots> = ?x" unfolding r by (rule x [symmetric])
  finally show ?thesis .
qed (simp add: float_round_def)

text \<open>Rounding does not fall below a power of two that the number reaches.\<close>

lemma float_round_lower:
  assumes "2 powi k \<le> x" and "emin \<le> k" and "1 \<le> p"
  shows "2 powi k \<le> float_round p emin x"
proof -
  have "(0 :: rat) < 2 powi k" by simp
  with assms(1) have pos: "0 < x" by linarith
  define e where "e = max emin (ilog2 x - p + 1)"
  have r: "float_round p emin x = of_int (round_even (x / 2 powi e)) * 2 powi e"
    using pos by (simp add: float_round_def Let_def e_def)
  have ex: "2 powi e \<le> x"
  proof (cases "emin \<le> ilog2 x - p + 1")
    case True
    then have "(2 :: rat) powi e \<le> 2 powi ilog2 x" using assms(3) unfolding e_def by (intro power_int_increasing) auto
    then show ?thesis using ilog2_bounds(1) [OF pos] by linarith
  next
    case False
    then have "(2 :: rat) powi e \<le> 2 powi k" using assms(2) unfolding e_def by (intro power_int_increasing) auto
    then show ?thesis using assms(1) by linarith
  qed
  show ?thesis
  proof (cases "e \<le> k")
    case True
    have "of_int (2 ^ nat (k - e)) * 2 powi e \<le> x" using assms(1) powi_split [OF True] by simp
    then have "of_int (2 ^ nat (k - e)) \<le> x / 2 powi e" by (simp add: pos_le_divide_eq)
    then have "2 ^ nat (k - e) \<le> round_even (x / 2 powi e)" by (rule round_even_mono_int)
    then have "(of_int (2 ^ nat (k - e)) :: rat) \<le> of_int (round_even (x / 2 powi e))" by (simp only: of_int_le_iff)
    then have "of_int (2 ^ nat (k - e)) * 2 powi e \<le> float_round p emin x" unfolding r by (intro mult_right_mono) auto
    then show ?thesis using powi_split [OF True] by simp
  next
    case False
    have "of_int 1 \<le> x / 2 powi e" using ex by (simp add: pos_le_divide_eq)
    then have "1 \<le> round_even (x / 2 powi e)" by (rule round_even_mono_int)
    then have "(1 :: rat) \<le> of_int (round_even (x / 2 powi e))" by simp
    then have "1 * 2 powi e \<le> float_round p emin x" unfolding r by (intro mult_right_mono) auto
    moreover have "(2 :: rat) powi k \<le> 2 powi e" using False by (intro power_int_increasing) auto
    ultimately show ?thesis by linarith
  qed
qed

text \<open>The shape of a rounded number.\<close>

lemma float_round_shape:
  assumes "0 \<le> p"
  obtains m e where "float_round p emin x = of_int m * 2 powi e" and "\<bar>m\<bar> \<le> 2 ^ nat p" and "emin \<le> e"
proof (cases "x = 0")
  case True
  then show thesis by (intro that [of 0 emin]) (simp_all add: float_round_def)
next
  case False
  define e where "e = max emin (ilog2 \<bar>x\<bar> - p + 1)"
  define m where "m = round_even (x / 2 powi e)"
  have "\<bar>x\<bar> < 2 powi (ilog2 \<bar>x\<bar> + 1)" using False by (intro ilog2_bounds(2)) simp
  also have "\<dots> \<le> 2 powi (p + e)" unfolding e_def by (intro power_int_increasing) auto
  also have "\<dots> = of_int (2 ^ nat p) * 2 powi e" using powi_split [of e "p + e"] assms by simp
  finally have x: "\<bar>x\<bar> \<le> of_int (2 ^ nat p) * 2 powi e" by simp
  have pe: "(0 :: rat) < 2 powi e" by simp
  from x have "x \<le> of_int (2 ^ nat p) * 2 powi e" "of_int (- (2 ^ nat p)) * 2 powi e \<le> x" by auto
  then have d: "x / 2 powi e \<le> of_int (2 ^ nat p)" "of_int (- (2 ^ nat p)) \<le> x / 2 powi e"
    by (simp_all only: pos_divide_le_eq [OF pe] pos_le_divide_eq [OF pe])
  from round_even_le_int [OF d(1)] round_even_mono_int [OF d(2)] have "m \<le> 2 ^ nat p" "- (2 ^ nat p) \<le> m"
    by (simp_all add: m_def)
  moreover have "float_round p emin x = of_int m * 2 powi e" using False by (simp add: float_round_def Let_def e_def m_def)
  moreover have "emin \<le> e" by (simp add: e_def)
  ultimately show thesis by (intro that [of m e]) auto
qed

section \<open>Rounding to decimals\<close>

text \<open>
  \<open>float32(math.Round(float64(f) * p) / p)\<close> with \<open>p = math.Pow(10, precision)\<close>, which is exact for the
  precisions in use. Infinity stays as it is.
\<close>

definition RoundFloat32 :: "rat option \<Rightarrow> nat \<Rightarrow> rat option" where
  "RoundFloat32 f precision =
     Option.bind f (\<lambda>f. let p = 10 ^ precision in to_f32 (f64_round (of_int (round_away (f64_round (f * p))) / p)))"

lemma to_f32_Some: "to_f32 x = Some y \<Longrightarrow> y = f32_round x"
  by (simp add: to_f32_def Let_def split: if_splits)

text \<open>A float32 times 1000 fits a float64.\<close>

lemma f64_product_exact:
  assumes "c \<in> {1, 1000}"
  shows "f64_round (f32_round x * of_int c) = f32_round x * of_int c"
proof -
  obtain m e where f: "f32_round x = of_int m * 2 powi e" "\<bar>m\<bar> \<le> 2 ^ nat 24" "-149 \<le> e"
    unfolding f32_round_def by (rule float_round_shape [of 24 "-149" x]) auto
  have "\<bar>m * c\<bar> \<le> 2 ^ nat 24 * 1000" using f(2) assms by (auto simp: abs_mult)
  then have "\<bar>m * c\<bar> < 2 ^ nat 53" by simp
  from float_round_exact [OF this, of "-1074" e] f(3)
  have "f64_round (of_int (m * c) * 2 powi e) = of_int (m * c) * 2 powi e" by (simp add: f64_round_def)
  then show ?thesis by (simp add: f(1) mult.assoc mult.commute [of "2 powi e"])
qed

lemma round_away_pos: "0 \<le> x \<Longrightarrow> 1 \<le> round_away x \<longleftrightarrow> 1/2 \<le> x"
  unfolding round_away_def by (simp add: le_floor_iff) linarith

lemma f64_f32_pos:
  assumes "1 / 1024 \<le> x"
  shows "0 < f32_round (f64_round x)"
proof -
  have k: "(2 :: rat) powi (-10) = 1 / 1024" by (simp add: power_int_def power_divide)
  have "2 powi (-10) \<le> f64_round x"
    unfolding f64_round_def by (rule float_round_lower) (use assms k in simp_all)
  then have "2 powi (-10) \<le> f32_round (f64_round x)"
    unfolding f32_round_def by (rule float_round_lower) simp_all
  then show ?thesis using k by linarith
qed

lemma f64_f32_zero [simp]: "f32_round (f64_round 0) = 0"
  by (simp add: f32_round_def f64_round_def float_round_def)

text \<open>A product is rounded to zero exactly when it is below half a unit of the last decimal kept.\<close>

lemma RoundFloat32_pos:
  assumes "f32_mul a b = Some x" and "0 \<le> x" and "precision \<in> {0, 3}" and "RoundFloat32 (Some x) precision = Some y"
  shows "0 < y \<longleftrightarrow> 1/2 \<le> x * 10 ^ precision"
proof -
  let ?p = "10 ^ precision :: rat"
  let ?c = "10 ^ precision :: int"
  have x: "x = f32_round (a * b)" using assms(1) by (auto simp: f32_mul_def dest: to_f32_Some)
  have c: "?c \<in> {1, 1000}" using assms(3) by auto
  have ex: "f64_round (x * ?p) = x * ?p" using f64_product_exact [OF c, of "a * b"] by (simp add: x)
  have y: "y = f32_round (f64_round (of_int (round_away (x * ?p)) / ?p))"
    using assms(4) by (auto simp: RoundFloat32_def Let_def ex dest: to_f32_Some)
  have nn: "0 \<le> x * ?p" using assms(2) by simp
  show ?thesis
  proof (cases "1/2 \<le> x * ?p")
    case True
    then have "1 \<le> round_away (x * ?p)" using round_away_pos [OF nn] by simp
    then have "(1 :: rat) \<le> of_int (round_away (x * ?p))" by simp
    then have "1 / ?p \<le> of_int (round_away (x * ?p)) / ?p" by (intro divide_right_mono) auto
    moreover have "1 / 1024 \<le> 1 / ?p" using assms(3) by auto
    ultimately have "1 / 1024 \<le> of_int (round_away (x * ?p)) / ?p" by linarith
    from f64_f32_pos [OF this] True show ?thesis by (simp add: y)
  next
    case False
    moreover have "0 \<le> round_away (x * ?p)" using nn by (simp add: round_away_def)
    ultimately have "round_away (x * ?p) = 0" using round_away_pos [OF nn] by linarith
    with False show ?thesis by (simp add: y)
  qed
qed

end
