(* ===== verification/Workload_Types.thy ===== *)
theory Workload_Types
  imports Kube Go_Float
begin

text \<open>
  \<open>functions/workload/apis\<close>: the WebApp and CronJob composites, their containers, and the environment of the
  group. A \<open>float32\<close> is the rational number it stands for.
\<close>

record EnvVar =
  ev_Name :: string
  ev_Value :: string
  ev_Secret :: bool

record Limits =
  lim_CPU :: rat
  lim_RAM :: rat

record Probe =
  pb_Path :: string
  pb_Port :: string
  pb_InitialDelaySeconds :: "32 word"
  pb_PeriodSeconds :: "32 word"
  pb_TimeoutSeconds :: "32 word"
  pb_SuccessThreshold :: "32 word"
  pb_FailureThreshold :: "32 word"
  pb_TerminationGracePeriodSeconds :: "32 word"

record Service =
  sv_Name :: string
  sv_Port :: "32 word"
  sv_Protocol :: string

text \<open>A container extends an init container by its services, as the embedded struct does.\<close>

record InitContainer =
  ct_Name :: string
  ct_Registry :: string
  ct_Repository :: string
  ct_Tag :: string
  ct_Command :: "string list"
  ct_Limits :: Limits
  ct_Environment :: "EnvVar list"
  ct_LivenessProbe :: Probe
  ct_ReadinessProbe :: Probe
  ct_StartupProbe :: Probe

record Container = InitContainer +
  ct_ExposedPort :: string
  ct_Services :: "Service list"

record WorkloadSpec =
  ws_RestartPolicy :: string
  ws_ImagePullSecrets :: "string list"
  ws_Architecture :: string
  ws_CpuRequestMultiplier :: rat
  ws_MemoryRequestMultiplier :: rat
  ws_InitContainers :: "InitContainer list"
  ws_Containers :: "Container list"

text \<open>The part that both composites share, and the two composites.\<close>

record Workload =
  wl_name :: string
  wl_namespace :: string
  wl_labels :: "string gomap"
  wl_spec :: WorkloadSpec

record WebApp = Workload +
  wl_Replicas :: "32 word"

record CronJob = Workload +
  wl_Schedule :: string
  wl_ConcurrencyPolicy :: string

datatype workload_composite = CWebApp WebApp | CCronJob CronJob

definition SetCpuRequestMultiplier :: "rat \<Rightarrow> WorkloadSpec \<Rightarrow> WorkloadSpec" where
  "SetCpuRequestMultiplier multiplier w = w\<lparr>ws_CpuRequestMultiplier := multiplier\<rparr>"

definition SetMemoryRequestMultiplier :: "rat \<Rightarrow> WorkloadSpec \<Rightarrow> WorkloadSpec" where
  "SetMemoryRequestMultiplier multiplier w = w\<lparr>ws_MemoryRequestMultiplier := multiplier\<rparr>"

definition SetImagePullSecrets :: "string list \<Rightarrow> WorkloadSpec \<Rightarrow> WorkloadSpec" where
  "SetImagePullSecrets secrets w = w\<lparr>ws_ImagePullSecrets := secrets\<rparr>"

section \<open>The environment\<close>

record workload_Environment =
  we_CPURequestMultiplier :: rat
  we_MemoryRequestMultiplier :: rat
  we_ImagePullSecrets :: "string list"

definition zero_workload_Environment :: workload_Environment where
  "zero_workload_Environment = \<lparr>we_CPURequestMultiplier = 0, we_MemoryRequestMultiplier = 0, we_ImagePullSecrets = []\<rparr>"

definition workload_Environment_Validate :: "workload_Environment \<Rightarrow> unit res" where
  "workload_Environment_Validate e =
     refuse (we_CPURequestMultiplier e \<le> 0) ''cpuRequestMultiplier must be greater than 0''
    (refuse (we_MemoryRequestMultiplier e \<le> 0) ''memoryRequestMultiplier must be greater than 0'' valid)"

text \<open>
  The conversions of this group, \<open>NestedFloat64\<close>, and whether \<open>resource.ParseQuantity\<close> accepts a text.
\<close>

record workload_ext =
  wx_webapp :: "object \<Rightarrow> WebApp res"
  wx_cronjob :: "object \<Rightarrow> CronJob res"
  wx_environment :: "workload_Environment decoder"
  wx_nested_float :: "object \<Rightarrow> string list \<Rightarrow> rat option res"
  wx_quantity :: "string \<Rightarrow> bool"

definition workload_GetEnvironment :: "ext \<Rightarrow> workload_ext \<Rightarrow> required \<Rightarrow> workload_Environment res" where
  "workload_GetEnvironment X D required =
     GetEnvironment X (wx_environment D) (\<lambda>e. failure_of (workload_Environment_Validate e)) zero_workload_Environment
       EnvironmentKey required"

end
