(* ===== verification/Workload_Service.thy ===== *)
theory Workload_Service
  imports Workload_Types
begin

text \<open>
  \<open>functions/workload/service\<close> and \<open>functions/workload/group.go\<close>: a WebApp becomes a Deployment, a CronJob a
  Kubernetes CronJob, each with the secrets of its containers and a Service for their ports.
\<close>

section \<open>Secrets and environment\<close>

definition secret_name :: "ext \<Rightarrow> string \<Rightarrow> string \<Rightarrow> string" where
  "secret_name X workloadName containerName =
     GenerateEligibleKubernetesFullName X (workloadName @ ''-'' @ containerName @ ''-secret'')"

fun secret_values :: "EnvVar list \<Rightarrow> string gomap \<Rightarrow> string gomap" where
  "secret_values [] vals = vals"
| "secret_values (envVar # env) vals =
     secret_values env (if \<not> ev_Secret envVar then vals else gset (ev_Name envVar) (ev_Value envVar) vals)"

definition secret_object :: "string \<Rightarrow> string \<Rightarrow> string gomap \<Rightarrow> kobject" where
  "secret_object name ns vals =
     \<lparr>k_type = ''core/v1.Secret'', k_apiVersion = ''v1'', k_kind = ''Secret'', k_name = name, k_namespace = ns,
      k_labels = [], k_annotations = [], k_fields = [(''Type'', VStr ''Opaque''), (''Data'', str_map_val vals)]\<rparr>"

definition addPodContainerSecret ::
  "ext \<Rightarrow> 'w Workload_scheme \<Rightarrow> 'c InitContainer_scheme \<Rightarrow> kobject gomap \<Rightarrow> kobject gomap" where
  "addPodContainerSecret X w container secrets =
     (let secretValues = secret_values (ct_Environment container) [] in
      if length secretValues = 0 then secrets
      else let name = secret_name X (wl_name w) (ct_Name container)
           in gset name (secret_object name (wl_namespace w) secretValues) secrets)"

definition getSecrets :: "ext \<Rightarrow> 'w Workload_scheme \<Rightarrow> kobject gomap" where
  "getSecrets X w =
     (let secrets = fold (addPodContainerSecret X w) (ws_Containers (wl_spec w)) []
      in fold (addPodContainerSecret X w) (ws_InitContainers (wl_spec w)) secrets)"

fun getContainerEnv :: "ext \<Rightarrow> string \<Rightarrow> string \<Rightarrow> EnvVar list \<Rightarrow> gval list \<Rightarrow> gval list \<Rightarrow> gval list \<times> gval list" where
  "getContainerEnv X workloadName containerName [] env envFrom = (env, envFrom)"
| "getContainerEnv X workloadName containerName (envVar # vars) env envFrom =
     (if \<not> ev_Secret envVar
      then getContainerEnv X workloadName containerName vars
             (env @ [VObj [(''Name'', VStr (ev_Name envVar)), (''Value'', VStr (ev_Value envVar))]]) envFrom
      else if length envFrom > 0 then getContainerEnv X workloadName containerName vars env envFrom
      else getContainerEnv X workloadName containerName vars env
             (envFrom @ [VObj [(''SecretRef'', VObj [(''LocalObjectReference'', VObj
                [(''Name'', VStr (secret_name X workloadName containerName))])])]]))"

section \<open>Resources\<close>

definition parseLimit :: "workload_ext \<Rightarrow> rat option \<Rightarrow> string \<Rightarrow> string option" where
  "parseLimit D limit unit =
     (if (case limit of Some x \<Rightarrow> x \<le> 0 | None \<Rightarrow> False) then None
      else let text = fmt_f limit @ unit in if wx_quantity D text then Some text else None)"

text \<open>
  The entries that one limit adds to the limits and the requests. The request is dereferenced without a test.
\<close>

definition limit_entries ::
  "workload_ext \<Rightarrow> string \<Rightarrow> rat \<Rightarrow> rat \<Rightarrow> nat \<Rightarrow> string \<Rightarrow> (string \<times> string) list \<times> (string \<times> string) list \<Rightarrow>
   ((string \<times> string) list \<times> (string \<times> string) list) res" where
  "limit_entries D name limit multiplier precision unit acc =
     (case parseLimit D (Some limit) unit of
        None \<Rightarrow> Inr acc
      | Some q \<Rightarrow>
          bindr (deref (parseLimit D (RoundFloat32 (f32_mul limit multiplier) precision) unit)) (\<lambda>r.
            Inr (gset name q (fst acc), gset name r (snd acc))))"

definition getContainerResources :: "workload_ext \<Rightarrow> WorkloadSpec \<Rightarrow> Limits \<Rightarrow> gval res" where
  "getContainerResources D spec lm =
     (if lim_CPU lm = 0 \<and> lim_RAM lm = 0 then Inr (VObj [])
      else
        bindr (limit_entries D ''cpu'' (lim_CPU lm) (ws_CpuRequestMultiplier spec) 3 '''' ([], [])) (\<lambda>acc.
        bindr (limit_entries D ''memory'' (lim_RAM lm) (ws_MemoryRequestMultiplier spec) 0 ''Mi'' acc) (\<lambda>(limits, requests).
          Inr (VObj [(''Limits'', str_map_val limits), (''Requests'', str_map_val requests)]))))"

section \<open>Containers\<close>

definition getProbe :: "Probe \<Rightarrow> gval" where
  "getProbe probe =
     (if pb_Path probe = '''' then VNil
      else VObj
        [(''ProbeHandler'', VObj [(''HTTPGet'', VObj [(''Path'', VStr (pb_Path probe)), (''Port'', VStr (pb_Port probe))])]),
         (''InitialDelaySeconds'', VInt (sint (pb_InitialDelaySeconds probe))),
         (''PeriodSeconds'', VInt (sint (pb_PeriodSeconds probe))),
         (''TimeoutSeconds'', VInt (sint (pb_TimeoutSeconds probe))),
         (''SuccessThreshold'', VInt (sint (pb_SuccessThreshold probe))),
         (''FailureThreshold'', VInt (sint (pb_FailureThreshold probe))),
         (''TerminationGracePeriodSeconds'',
            if pb_TerminationGracePeriodSeconds probe \<noteq> 0 then VInt (sint (pb_TerminationGracePeriodSeconds probe)) else VNil)])"

definition getContainer :: "ext \<Rightarrow> workload_ext \<Rightarrow> 'w Workload_scheme \<Rightarrow> 'c InitContainer_scheme \<Rightarrow> gval res" where
  "getContainer X D w container =
     (let (env, envFrom) = getContainerEnv X (wl_name w) (ct_Name container) (ct_Environment container) [] [] in
      bindr (getContainerResources D (wl_spec w) (ct_Limits container)) (\<lambda>resources.
        Inr (VObj
          [(''Name'', VStr (ct_Name container)),
           (''Image'', VStr (ct_Registry container @ ''/'' @ ct_Repository container @ '':'' @ ct_Tag container)),
           (''Env'', VList env), (''EnvFrom'', VList envFrom), (''Command'', VList (map VStr (ct_Command container))),
           (''Resources'', resources), (''LivenessProbe'', getProbe (ct_LivenessProbe container)),
           (''ReadinessProbe'', getProbe (ct_ReadinessProbe container)),
           (''StartupProbe'', getProbe (ct_StartupProbe container))])))"

text \<open>The loops of \<open>getContainers\<close> and \<open>getInitContainers\<close>.\<close>

fun containers_loop :: "ext \<Rightarrow> workload_ext \<Rightarrow> 'w Workload_scheme \<Rightarrow> 'c InitContainer_scheme list \<Rightarrow> gval list res" where
  "containers_loop X D w [] = Inr []"
| "containers_loop X D w (c # cs) =
     bindr (getContainer X D w c) (\<lambda>k. bindr (containers_loop X D w cs) (\<lambda>ks. Inr (k # ks)))"

definition getContainers :: "ext \<Rightarrow> workload_ext \<Rightarrow> 'w Workload_scheme \<Rightarrow> gval list res" where
  "getContainers X D w = containers_loop X D w (ws_Containers (wl_spec w))"

definition getInitContainers :: "ext \<Rightarrow> workload_ext \<Rightarrow> 'w Workload_scheme \<Rightarrow> gval list res" where
  "getInitContainers X D w = containers_loop X D w (ws_InitContainers (wl_spec w))"

definition getImagePullSecrets :: "'w Workload_scheme \<Rightarrow> gval list" where
  "getImagePullSecrets w = map (\<lambda>name. VObj [(''Name'', VStr name)]) (ws_ImagePullSecrets (wl_spec w))"

definition getNodeSelector :: "'w Workload_scheme \<Rightarrow> gval" where
  "getNodeSelector w =
     (if ws_Architecture (wl_spec w) = '''' then VNil
      else str_map_val [(''beta.kubernetes.io/arch'', ws_Architecture (wl_spec w))])"

definition service_port :: "Service \<Rightarrow> gval" where
  "service_port s =
     VObj [(''Name'', VStr (sv_Name s)), (''Protocol'', VStr (sv_Protocol s)), (''Port'', VInt (sint (sv_Port s))),
           (''TargetPort'', VInt (sint (sv_Port s)))]"

text \<open>The name and the object, or the nil object when no container has a service.\<close>

definition getServices :: "ext \<Rightarrow> 'w Workload_scheme \<Rightarrow> (string \<times> kobject) option" where
  "getServices X w =
     (let ports = concat (map (\<lambda>c. map service_port (ct_Services c)) (ws_Containers (wl_spec w))) in
      if length ports = 0 then None
      else let name = GenerateEligibleKubernetesFullName X (wl_name w @ ''-service'') in
        Some (name, \<lparr>k_type = ''core/v1.Service'', k_apiVersion = ''v1'', k_kind = ''Service'', k_name = name,
          k_namespace = wl_namespace w, k_labels = [], k_annotations = [],
          k_fields = [(''Spec'', VObj
            [(''Selector'', str_map_val [(''app'', GenerateEligibleKubernetesLabelName X (wl_name w))]),
             (''Ports'', VList ports)])]\<rparr>))"

section \<open>Web applications and cron jobs\<close>

definition workload_labels :: "'w Workload_scheme \<Rightarrow> string \<Rightarrow> string gomap \<Rightarrow> string gomap" where
  "workload_labels w kind labels =
     gcopy [(AppLabel, wl_name w), (ResourceLabel, wl_name w), (ResourceKindLabel, kind)] labels"

definition getDeployment :: "ext \<Rightarrow> workload_ext \<Rightarrow> WebApp \<Rightarrow> string gomap \<Rightarrow> kobject res" where
  "getDeployment X D w labels =
     (let replicas = (if wl_Replicas w \<noteq> 0 then sint (wl_Replicas w) else 1) in
      bindr (getContainers X D w) (\<lambda>containers.
      bindr (getInitContainers X D w) (\<lambda>initContainers.
        let labels = workload_labels w ''WebApp'' labels in
        Inr \<lparr>k_type = ''apps/v1.Deployment'', k_apiVersion = ''apps/v1'', k_kind = ''Deployment'',
          k_name = wl_name w, k_namespace = wl_namespace w, k_labels = labels, k_annotations = [],
          k_fields = [(''Spec'', VObj
            [(''Replicas'', VInt replicas),
             (''Selector'', VObj [(''MatchLabels'', str_map_val [(''app'', wl_name w)])]),
             (''Template'', VObj
               [(''ObjectMeta'', VObj [(''Labels'', str_map_val labels)]),
                (''Spec'', VObj
                  [(''Containers'', VList containers), (''InitContainers'', VList initContainers),
                   (''ImagePullSecrets'', VList (getImagePullSecrets w)), (''NodeSelector'', getNodeSelector w)])])])]\<rparr>)))"

definition getCronJob :: "ext \<Rightarrow> workload_ext \<Rightarrow> CronJob \<Rightarrow> string gomap \<Rightarrow> kobject res" where
  "getCronJob X D w labels =
     bindr (getContainers X D w) (\<lambda>containers.
     bindr (getInitContainers X D w) (\<lambda>initContainers.
       let labels = workload_labels w ''CronJob'' labels in
       Inr \<lparr>k_type = ''batch/v1.CronJob'', k_apiVersion = ''batch/v1'', k_kind = ''CronJob'',
         k_name = wl_name w, k_namespace = wl_namespace w, k_labels = labels, k_annotations = [],
         k_fields = [(''Spec'', VObj
           [(''Schedule'', VStr (wl_Schedule w)), (''ConcurrencyPolicy'', VStr (wl_ConcurrencyPolicy w)),
            (''JobTemplate'', VObj
              [(''ObjectMeta'', VObj [(''Labels'', str_map_val labels)]),
               (''Spec'', VObj [(''Template'', VObj
                 [(''ObjectMeta'', VObj [(''Labels'', str_map_val labels)]),
                  (''Spec'', VObj
                    [(''RestartPolicy'', VStr (ws_RestartPolicy (wl_spec w))), (''Containers'', VList containers),
                     (''InitContainers'', VList initContainers),
                     (''ImagePullSecrets'', VList (getImagePullSecrets w))])])])])])]\<rparr>))"

text \<open>The common end of both generators: the secrets, the main object under the workload's name, the service.\<close>

definition with_service :: "ext \<Rightarrow> 'w Workload_scheme \<Rightarrow> kobject \<Rightarrow> kobject gomap" where
  "with_service X w main =
     (let objs = gcopy [] (getSecrets X w); objs = gset (wl_name w) main objs
      in case getServices X w of None \<Rightarrow> objs | Some (name, service) \<Rightarrow> gset name service objs)"

definition GenerateWebAppObjects :: "ext \<Rightarrow> workload_ext \<Rightarrow> WebApp \<Rightarrow> string gomap \<Rightarrow> kobject gomap res" where
  "GenerateWebAppObjects X D w labels =
     bindr (getDeployment X D w labels) (\<lambda>deployment. Inr (with_service X w deployment))"

definition GenerateCronJobObjects :: "ext \<Rightarrow> workload_ext \<Rightarrow> CronJob \<Rightarrow> string gomap \<Rightarrow> kobject gomap res" where
  "GenerateCronJobObjects X D w labels =
     bindr (getCronJob X D w labels) (\<lambda>cronJob. Inr (with_service X w cronJob))"

section \<open>The group\<close>

definition addWorkloadSpecValues ::
  "ext \<Rightarrow> workload_ext \<Rightarrow> 'w Workload_scheme \<Rightarrow> required \<Rightarrow> 'w Workload_scheme res" where
  "addWorkloadSpecValues X D w required =
     bindr (workload_GetEnvironment X D required) (\<lambda>env.
       let spec = SetCpuRequestMultiplier (we_CPURequestMultiplier env) (wl_spec w);
           spec = SetMemoryRequestMultiplier (we_MemoryRequestMultiplier env) spec;
           spec = (if length (we_ImagePullSecrets env) \<noteq> 0 then SetImagePullSecrets (we_ImagePullSecrets env) spec else spec)
       in Inr (w\<lparr>wl_spec := spec\<rparr>))"

definition generateWebApp :: "ext \<Rightarrow> workload_ext \<Rightarrow> WebApp \<Rightarrow> required \<Rightarrow> kobject gomap res" where
  "generateWebApp X D w required =
     bindr (addWorkloadSpecValues X D w required) (\<lambda>w.
     bindr (GetResourceLabels X (wl_labels w) required) (\<lambda>labels. GenerateWebAppObjects X D w labels))"

definition generateCronJob :: "ext \<Rightarrow> workload_ext \<Rightarrow> CronJob \<Rightarrow> required \<Rightarrow> kobject gomap res" where
  "generateCronJob X D w required =
     bindr (addWorkloadSpecValues X D w required) (\<lambda>w.
     bindr (GetResourceLabels X (wl_labels w) required) (\<lambda>labels. GenerateCronJobObjects X D w labels))"

definition workload_handlers ::
  "ext \<Rightarrow> workload_ext \<Rightarrow> (workload_composite, kobject) ResourceHandler gomap" where
  "workload_handlers X D =
     [(''WebApp'', \<lparr>h_decode = (\<lambda>ob. bindr (wx_webapp D ob) (\<lambda>w. Inr (CWebApp w))),
        h_generate = (\<lambda>c required observed. case c of
          CWebApp w \<Rightarrow> generateWebApp X D w required | _ \<Rightarrow> Inl (Panic ''interface conversion''))\<rparr>),
      (''CronJob'', \<lparr>h_decode = (\<lambda>ob. bindr (wx_cronjob D ob) (\<lambda>w. Inr (CCronJob w))),
        h_generate = (\<lambda>c required observed. case c of
          CCronJob w \<Rightarrow> generateCronJob X D w required | _ \<Rightarrow> Inl (Panic ''interface conversion''))\<rparr>)]"

fun available_loop :: "json list \<Rightarrow> ready" where
  "available_loop [] = ReadyFalse"
| "available_loop (JObj m # cs) =
     (if map_of m ''type'' = Some (JStr ''Available'') \<and> map_of m ''status'' = Some (JStr ''True'') then ReadyTrue
      else available_loop cs)"
| "available_loop (c # cs) = available_loop cs"

definition getDeploymentReadyStatus :: "ext \<Rightarrow> workload_ext \<Rightarrow> object \<Rightarrow> ready" where
  "getDeploymentReadyStatus X D ob =
     (case (wx_nested_float D ob [''status'', ''readyReplicas''], wx_nested_float D ob [''status'', ''replicas''],
            wx_nested_float D ob [''status'', ''updatedReplicas'']) of
        (Inr (Some readyReplicas), Inr (Some replicas), Inr (Some updatedReplicas)) \<Rightarrow>
          if readyReplicas \<noteq> replicas \<or> updatedReplicas \<noteq> replicas then ReadyFalse
          else (case nested_slice X ob [''status'', ''conditions''] of
                  Inr (Some conditions) \<Rightarrow> available_loop conditions
                | _ \<Rightarrow> ReadyFalse)
      | _ \<Rightarrow> ReadyFalse)"

definition workload_GetReadyStatus :: "ext \<Rightarrow> workload_ext \<Rightarrow> object \<Rightarrow> ready option" where
  "workload_GetReadyStatus X D ob =
     (if get_kind X ob = ''Deployment'' then Some (getDeploymentReadyStatus X D ob) else None)"

definition workload_GetRequiredResources :: "ext \<Rightarrow> object \<Rightarrow> required \<Rightarrow> selectors res" where
  "workload_GetRequiredResources X composite required =
     (if get_kind X composite = ''WebApp'' \<or> get_kind X composite = ''CronJob''
      then Inr [(EnvironmentKey, RequiredEnvironmentConfig ''platform-apis-workload'')] else Inr [])"

definition workload_group :: "ext \<Rightarrow> workload_ext \<Rightarrow> (workload_composite, kobject) GroupService" where
  "workload_group X D = \<lparr>SkipGeneration = (\<lambda>composite. False),
     GetResourceHandlers = workload_handlers X D,
     GetSequence = (\<lambda>c. empty_sequence),
     GetReadyStatus = workload_GetReadyStatus X D,
     GetRequiredResources = workload_GetRequiredResources X,
     GetObservedStatus = (\<lambda>observed. Inr []),
     PostProcessStatus = None\<rparr>"

end
