(* ===== verification/Workload_Props.thy ===== *)
theory Workload_Props
  imports Workload_Service
begin

text \<open>
  The workload group: when resource requests make generation panic, which environment variables stay secret,
  which pods a service selects, and when a Deployment counts as ready.
\<close>

section \<open>Resource requests\<close>

lemma float_round_upper:
  assumes "0 < x" and "x \<le> 2 powi k" and "emin \<le> k" and "1 \<le> p"
  shows "float_round p emin x \<le> 2 powi k"
proof -
  define e where "e = max emin (ilog2 x - p + 1)"
  have "\<not> k < ilog2 x"
  proof
    assume "k < ilog2 x"
    then have "(2 :: rat) powi k < 2 powi ilog2 x" by (intro power_int_strict_increasing) auto
    with assms(2) ilog2_bounds(1) [OF assms(1)] show False by linarith
  qed
  with assms(3,4) have e: "e \<le> k" by (auto simp: e_def)
  have "x \<le> of_int (2 ^ nat (k - e)) * 2 powi e" using assms(2) powi_split [OF e] by simp
  then have "x / 2 powi e \<le> of_int (2 ^ nat (k - e))" by (simp add: pos_divide_le_eq)
  then have "round_even (x / 2 powi e) \<le> 2 ^ nat (k - e)" by (rule round_even_le_int)
  then have "(of_int (round_even (x / 2 powi e)) :: rat) \<le> of_int (2 ^ nat (k - e))" by (simp only: of_int_le_iff)
  then have "of_int (round_even (x / 2 powi e)) * 2 powi e \<le> of_int (2 ^ nat (k - e)) * (2 powi e :: rat)"
    by (intro mult_right_mono) auto
  then show ?thesis using assms(1) powi_split [OF e] by (simp add: float_round_def Let_def e_def)
qed

lemma powi_nat: "(2 :: rat) powi (numeral n) = 2 ^ numeral n"
  by (simp add: power_int_def)

lemma float_round_nonneg: "0 \<le> x \<Longrightarrow> 0 \<le> float_round p emin x"
proof -
  assume x: "0 \<le> x"
  have "of_int 0 \<le> x / 2 powi e" for e by (simp only: of_int_0) (rule divide_nonneg_nonneg [OF x], simp)
  then have "0 \<le> round_even (x / 2 powi e)" for e by (rule round_even_mono_int)
  then have "(0 :: rat) \<le> of_int (round_even (x / 2 powi e))" for e by simp
  then show ?thesis by (simp add: float_round_def Let_def)
qed

lemmas f32_round_nonneg = float_round_nonneg [of _ 24 "-149", folded f32_round_def]
lemmas f64_round_nonneg = float_round_nonneg [of _ 53 "-1074", folded f64_round_def]

lemma f32_mul_finite:
  assumes "0 \<le> a * b" and "a * b \<le> 2 ^ 100"
  shows "f32_mul a b = Some (f32_round (a * b))" and "f32_round (a * b) \<le> 2 ^ 100"
proof -
  show le: "f32_round (a * b) \<le> 2 ^ 100"
  proof (cases "a * b = 0")
    case False
    with assms(1) have pos: "0 < a * b" by linarith
    have "a * b \<le> 2 powi 100" using assms(2) by (simp only: powi_nat)
    then have "float_round 24 (-149) (a * b) \<le> 2 powi 100" by (intro float_round_upper pos) simp_all
    then show ?thesis unfolding f32_round_def powi_nat .
  qed (simp add: f32_round_def float_round_def)
  have "(2 :: rat) ^ 100 < 2 ^ 128" by (intro power_strict_increasing) auto
  with le show "f32_mul a b = Some (f32_round (a * b))" by (simp add: f32_mul_def to_f32_def Let_def)
qed

lemma RoundFloat32_finite:
  assumes "0 \<le> x" and "x \<le> 2 ^ 100" and "x * 10 ^ precision = f64_round (x * 10 ^ precision)"
  shows "\<exists>y. RoundFloat32 (Some x) precision = Some y"
proof -
  let ?p = "10 ^ precision :: rat"
  let ?n = "of_int (round_away (x * ?p)) / ?p"
  have p: "1 \<le> ?p" by simp
  have nn: "0 \<le> x * ?p" using assms(1) by simp
  have "of_int (round_away (x * ?p)) \<le> x * ?p + 1/2" using nn by (simp add: round_away_def)
  then have "?n \<le> (x * ?p + 1/2) / ?p" by (intro divide_right_mono) auto
  also have "\<dots> = x + 1 / (2 * ?p)" by (simp add: add_divide_distrib)
  also have "\<dots> \<le> x + 1/2" using p by (simp add: frac_le)
  also have "\<dots> \<le> 2 ^ 101" using assms(2) by simp
  finally have n: "?n \<le> 2 powi 101" unfolding powi_nat .
  have n0: "0 \<le> ?n" using nn by (simp add: round_away_def)
  have "f32_round (f64_round ?n) \<le> 2 ^ 101"
  proof (cases "?n = 0")
    case True
    then show ?thesis unfolding True by simp
  next
    case False
    with n0 have n1: "0 < ?n" by linarith
    have a: "f64_round ?n \<le> 2 powi 101"
      unfolding f64_round_def by (rule float_round_upper [OF n1 n]) simp_all
    show ?thesis
    proof (cases "f64_round ?n \<le> 0")
      case True
      from True f64_round_nonneg [OF n0] have "f64_round ?n = 0" by linarith
      then show ?thesis by (simp add: f32_round_def float_round_def)
    next
      case False
      then have "f32_round (f64_round ?n) \<le> 2 powi 101"
        unfolding f32_round_def by (intro float_round_upper a) simp_all
      then show ?thesis unfolding powi_nat .
    qed
  qed
  moreover have "(2 :: rat) ^ 101 < 2 ^ 128" by (intro power_strict_increasing) auto
  ultimately show ?thesis
    unfolding RoundFloat32_def Let_def using assms(3) by (simp add: to_f32_def Let_def)
qed

text \<open>\<open>ParseQuantity\<close> accepts a positive decimal number, alone and with a binary suffix.\<close>

definition quantities :: "workload_ext \<Rightarrow> bool" where
  "quantities D \<longleftrightarrow> (\<forall>x unit. 0 < x \<longrightarrow> unit \<in> {'''', ''Mi''} \<longrightarrow> wx_quantity D (fmt_f (Some x) @ unit))"

text \<open>A positive limit whose request rounds to zero.\<close>

definition request_vanishes :: "rat \<Rightarrow> rat \<Rightarrow> nat \<Rightarrow> bool" where
  "request_vanishes limit multiplier precision \<longleftrightarrow> 0 < limit \<and> f32_round (limit * multiplier) * 10 ^ precision < 1/2"

lemma limit_entries_cases:
  assumes "quantities D" and "0 \<le> limit" and "0 \<le> multiplier" and "limit * multiplier \<le> 2 ^ 100"
    and "precision \<in> {0, 3}" and "unit \<in> {'''', ''Mi''}"
  shows "if request_vanishes limit multiplier precision
    then limit_entries D name limit multiplier precision unit acc =
      Inl (Panic ''invalid memory address or nil pointer dereference'')
    else is_ok (limit_entries D name limit multiplier precision unit acc)"
proof (cases "limit = 0")
  case True
  then show ?thesis by (simp add: request_vanishes_def limit_entries_def parseLimit_def)
next
  case False
  with assms(2) have pos: "0 < limit" by simp
  have parsed: "parseLimit D (Some x) unit = Some (fmt_f (Some x) @ unit)" if "0 < x" for x
    using assms(1,6) that by (auto simp: parseLimit_def quantities_def Let_def)
  note q = parsed [OF pos]
  let ?x = "f32_round (limit * multiplier)"
  have nn: "0 \<le> limit * multiplier" using assms(2,3) by simp
  note m = f32_mul_finite [OF nn assms(4)]
  have x0: "0 \<le> ?x" by (rule f32_round_nonneg [OF nn])
  have ex: "?x * 10 ^ precision = f64_round (?x * 10 ^ precision)"
    using f64_product_exact [of "10 ^ precision" "limit * multiplier"] assms(5) by auto
  from RoundFloat32_finite [OF x0 m(2) ex] obtain y where y: "RoundFloat32 (Some ?x) precision = Some y" by blast
  note yp = RoundFloat32_pos [OF m(1) x0 assms(5) y]
  show ?thesis
  proof (cases "request_vanishes limit multiplier precision")
    case True
    with yp have "y \<le> 0" by (simp add: request_vanishes_def)
    then have "parseLimit D (Some y) unit = None" by (simp add: parseLimit_def)
    with True show ?thesis by (simp add: limit_entries_def q m(1) y)
  next
    case False
    with yp pos have "0 < y" by (simp add: request_vanishes_def)
    from False parsed [OF this] show ?thesis by (simp add: limit_entries_def q m(1) y)
  qed
qed

section \<open>Environment variables\<close>

definition plain_env :: "EnvVar list \<Rightarrow> gval list" where
  "plain_env vars = map (\<lambda>v. VObj [(''Name'', VStr (ev_Name v)), (''Value'', VStr (ev_Value v))]) (filter (\<lambda>v. \<not> ev_Secret v) vars)"

definition has_secret :: "'c InitContainer_scheme \<Rightarrow> bool" where
  "has_secret c \<longleftrightarrow> (\<exists>v \<in> set (ct_Environment c). ev_Secret v)"

definition secret_ref :: "ext \<Rightarrow> string \<Rightarrow> string \<Rightarrow> gval" where
  "secret_ref X workloadName containerName =
     VObj [(''SecretRef'', VObj [(''LocalObjectReference'', VObj [(''Name'', VStr (secret_name X workloadName containerName))])])]"

lemma getContainerEnv_eq:
  "getContainerEnv X w n vars env envFrom =
     (env @ plain_env vars, if envFrom = [] \<and> (\<exists>v \<in> set vars. ev_Secret v) then [secret_ref X w n] else envFrom)"
  by (induction vars arbitrary: env envFrom) (auto simp: plain_env_def secret_ref_def)

lemma secret_values_dom: "dom (map_of (secret_values vars m)) = dom (map_of m) \<union> ev_Name ` {v \<in> set vars. ev_Secret v}"
proof (induction vars arbitrary: m)
  case (Cons v vars)
  have "dom (map_of (gset n x m)) = insert n (dom (map_of m))" for n x by (auto split: if_splits)
  with Cons show ?case by (cases "ev_Secret v") (auto simp del: map_of_gset)
qed simp

lemma secret_values_empty: "secret_values vars [] = [] \<longleftrightarrow> \<not> (\<exists>v \<in> set vars. ev_Secret v)"
  using secret_values_dom [of vars "[]"] by (cases "secret_values vars []") (auto simp: dom_map_of_conv_image_fst)

lemma secret_values_last:
  "map_of (secret_values vars m) n =
     (case map_of (rev (map (\<lambda>v. (ev_Name v, ev_Value v)) (filter ev_Secret vars))) n of Some x \<Rightarrow> Some x | None \<Rightarrow> map_of m n)"
  by (induction vars arbitrary: m) (auto simp: map_add_def map_of_append split: option.splits)

lemma addPodContainerSecret_eq:
  "addPodContainerSecret X w c m =
     (if has_secret c
      then gset (secret_name X (wl_name w) (ct_Name c))
             (secret_object (secret_name X (wl_name w) (ct_Name c)) (wl_namespace w) (secret_values (ct_Environment c) [])) m
      else m)"
  by (simp add: addPodContainerSecret_def Let_def has_secret_def secret_values_empty)

text \<open>The secrets are those of the containers that have secret variables.\<close>

lemma secrets_fold:
  "fold (addPodContainerSecret X w) cs m =
     put_all (\<lambda>c. secret_name X (wl_name w) (ct_Name c))
       (\<lambda>c. secret_object (secret_name X (wl_name w) (ct_Name c)) (wl_namespace w) (secret_values (ct_Environment c) []))
       (filter has_secret cs) m"
  by (induction cs arbitrary: m) (auto simp: addPodContainerSecret_eq)

lemma getSecrets_wf: "wf_map (getSecrets X w)"
  by (simp add: getSecrets_def secrets_fold)

lemma with_service_wf: "wf_map (with_service X w main)"
  by (simp add: with_service_def Let_def split: option.splits)

lemma containers_loop_nth:
  assumes "containers_loop X D w cs = Inr ks"
  shows "length ks = length cs \<and> (\<forall>i < length cs. getContainer X D w (cs ! i) = Inr (ks ! i))"
  using assms
proof (induction cs arbitrary: ks)
  case (Cons c cs)
  then obtain k ks' where "getContainer X D w c = Inr k" "containers_loop X D w cs = Inr ks'" "ks = k # ks'"
    by (auto simp: res_simps)
  with Cons.IH [OF this(2)] show ?case by (auto simp: nth_Cons split: nat.splits)
qed simp

section \<open>Labels\<close>

lemma GetResourceLabels_app:
  assumes "GetResourceLabels X labels required = Inr l" and "wf_map labels" and "object_access X"
  shows "map_of l AppLabel = None" and "wf_map l"
proof -
  have p: "\<not> prefix TagsPrefix AppLabel" by code_simp
  have w: "wf_map (get_labels X z)" for z by (rule object_access.labels_wf [OF assms(3)])
  from assms(1) show "wf_map l"
    by (auto simp: GetResourceLabels_def res_simps Let_def split: if_splits option.splits)
  from assms(1) show "map_of l AppLabel = None"
    by (auto simp: GetResourceLabels_def res_simps Let_def map_of_gcopy_apply map_of_extractLabels assms(2) w p
        split: if_splits option.splits)
qed

section \<open>The generated objects\<close>

text \<open>
  The names of the generated objects do not collide: the containers have different names, with different
  names for their secrets, which are not the name of the workload or of its service.
\<close>

definition workload_containers :: "'w Workload_scheme \<Rightarrow> string list" where
  "workload_containers w = map ct_Name (ws_Containers (wl_spec w)) @ map ct_Name (ws_InitContainers (wl_spec w))"

definition service_name :: "ext \<Rightarrow> 'w Workload_scheme \<Rightarrow> string" where
  "service_name X w = GenerateEligibleKubernetesFullName X (wl_name w @ ''-service'')"

definition secrets_apart :: "ext \<Rightarrow> 'w Workload_scheme \<Rightarrow> bool" where
  "secrets_apart X w \<longleftrightarrow>
     distinct (map (secret_name X (wl_name w)) (workload_containers w)) \<and>
     wl_name w \<notin> secret_name X (wl_name w) ` set (workload_containers w) \<and>
     service_name X w \<notin> secret_name X (wl_name w) ` set (workload_containers w) \<and>
     service_name X w \<noteq> wl_name w"

lemma getServices_name: "getServices X w = Some (n, s) \<Longrightarrow> n = service_name X w"
  by (auto simp: getServices_def service_name_def Let_def split: if_splits)

lemma with_service_lookup:
  "map_of (with_service X w main) k =
     (case getServices X w of
        Some (n, s) \<Rightarrow> if k = n then Some s else if k = wl_name w then Some main else map_of (getSecrets X w) k
      | None \<Rightarrow> if k = wl_name w then Some main else map_of (getSecrets X w) k)"
  by (simp add: with_service_def Let_def map_of_gcopy_apply getSecrets_wf split: option.splits)

definition container_secret :: "ext \<Rightarrow> 'w Workload_scheme \<Rightarrow> 'c InitContainer_scheme \<Rightarrow> kobject" where
  "container_secret X w c =
     secret_object (secret_name X (wl_name w) (ct_Name c)) (wl_namespace w) (secret_values (ct_Environment c) [])"

lemma getSecrets_container:
  assumes "secrets_apart X w" and "c \<in> set (ws_Containers (wl_spec w))"
  shows "map_of (getSecrets X w) (secret_name X (wl_name w) (ct_Name c)) =
    (if has_secret c then Some (container_secret X w c) else None)"
proof -
  let ?n = "secret_name X (wl_name w)"
  let ?cs = "ws_Containers (wl_spec w)" and ?is = "ws_InitContainers (wl_spec w)"
  have d: "distinct (map (\<lambda>c. ?n (ct_Name c)) ?cs)" "?n (ct_Name c) \<notin> (\<lambda>c. ?n (ct_Name c)) ` set ?is"
    using assms by (auto simp: secrets_apart_def workload_containers_def comp_def)
  have inj: "inj_on (\<lambda>c. ?n (ct_Name c)) (set ?cs)" using d(1) by (simp add: distinct_map)
  let ?m = "put_all (\<lambda>c. ?n (ct_Name c)) (container_secret X w) (filter has_secret ?cs) []"
  have e: "map_of (getSecrets X w) (?n (ct_Name c)) = map_of ?m (?n (ct_Name c))"
    using d(2) by (simp add: getSecrets_def secrets_fold container_secret_def [abs_def]) (rule put_all_other, auto)
  show ?thesis
  proof (cases "has_secret c")
    case True
    with assms(2) put_all_hit [OF inj_on_subset [OF inj], of "filter has_secret ?cs" c] show ?thesis by (auto simp: e)
  next
    case False
    have "?n (ct_Name c) \<notin> (\<lambda>c. ?n (ct_Name c)) ` set (filter has_secret ?cs)"
      using False inj_onD [OF inj _ assms(2)] by auto
    then have "map_of ?m (?n (ct_Name c)) = None" by (simp add: put_all_other)
    with False show ?thesis by (simp add: e)
  qed
qed

lemma generated_secret:
  assumes "secrets_apart X w" and "c \<in> set (ws_Containers (wl_spec w))"
  shows "map_of (with_service X w main) (secret_name X (wl_name w) (ct_Name c)) =
    (if has_secret c then Some (container_secret X w c) else None)"
proof -
  let ?k = "secret_name X (wl_name w) (ct_Name c)"
  have "?k \<in> secret_name X (wl_name w) ` set (workload_containers w)" using assms(2) by (auto simp: workload_containers_def)
  with assms(1) have "?k \<noteq> wl_name w" "?k \<noteq> service_name X w" by (auto simp: secrets_apart_def)
  then show ?thesis
    using getSecrets_container [OF assms] by (auto simp: with_service_lookup dest: getServices_name split: option.splits)
qed

lemma generated_main:
  "service_name X w \<noteq> wl_name w \<Longrightarrow> map_of (with_service X w main) (wl_name w) = Some main"
  by (auto simp: with_service_lookup dest: getServices_name split: option.splits)

interpretation workload: group_service "workload_group X D" "\<lambda>w. True" for X D
proof
  show "map_of (GetResourceHandlers (workload_group X D)) kind = Some h \<Longrightarrow>
      h_generate h obj required observed = Inr gen \<Longrightarrow> wf_map gen" for kind h obj required observed gen
    by (auto simp: workload_group_def workload_handlers_def generateWebApp_def generateCronJob_def GenerateWebAppObjects_def
        GenerateCronJobObjects_def with_service_wf res_simps split: if_splits workload_composite.splits)
  show "\<exists>names. sequence_names (workload_group X D) obj gen = Inr names" for obj gen
    by (rule sequence_names_ok) (simp add: workload_group_def)
  show "GetObservedStatus (workload_group X D) ob = Inr st \<Longrightarrow> wf_map st" for ob st
    by (auto simp: workload_group_def)
qed (simp add: workload_group_def)

lemma getContainer_env:
  assumes "getContainer X D w c = Inr k"
  shows "\<exists>fs. k = VObj fs \<and> map_of fs ''Env'' = Some (VList (plain_env (ct_Environment c))) \<and>
    map_of fs ''EnvFrom'' = Some (VList (if has_secret c then [secret_ref X (wl_name w) (ct_Name c)] else []))"
  using assms by (auto simp: getContainer_def getContainerEnv_eq has_secret_def res_simps)

lemma available_loop_iff:
  "available_loop cs = ReadyTrue \<longleftrightarrow>
     (\<exists>m. JObj m \<in> set cs \<and> map_of m ''type'' = Some (JStr ''Available'') \<and> map_of m ''status'' = Some (JStr ''True''))"
  by (induction cs rule: available_loop.induct) auto

section \<open>A concrete web application\<close>

definition no_probe :: Probe where
  "no_probe = \<lparr>pb_Path = '''', pb_Port = '''', pb_InitialDelaySeconds = 0, pb_PeriodSeconds = 0, pb_TimeoutSeconds = 0,
     pb_SuccessThreshold = 0, pb_FailureThreshold = 0, pb_TerminationGracePeriodSeconds = 0\<rparr>"

definition demo_container :: Container where
  "demo_container = \<lparr>ct_Name = ''web'', ct_Registry = ''registry'', ct_Repository = ''shop'', ct_Tag = ''1'', ct_Command = [],
     ct_Limits = \<lparr>lim_CPU = 1/2, lim_RAM = 256\<rparr>,
     ct_Environment =
       [\<lparr>ev_Name = ''PASSWORD'', ev_Value = ''old'', ev_Secret = True\<rparr>, \<lparr>ev_Name = ''LEVEL'', ev_Value = ''debug'', ev_Secret = False\<rparr>,
        \<lparr>ev_Name = ''PASSWORD'', ev_Value = ''new'', ev_Secret = True\<rparr>],
     ct_LivenessProbe = no_probe, ct_ReadinessProbe = no_probe, ct_StartupProbe = no_probe, ct_ExposedPort = '''',
     ct_Services = [\<lparr>sv_Name = ''http'', sv_Port = 80, sv_Protocol = ''TCP''\<rparr>]\<rparr>"

definition demo_webapp :: WebApp where
  "demo_webapp = \<lparr>wl_name = ''shop'', wl_namespace = ''team-a'', wl_labels = [],
     wl_spec = \<lparr>ws_RestartPolicy = '''', ws_ImagePullSecrets = [], ws_Architecture = '''', ws_CpuRequestMultiplier = 1/2,
       ws_MemoryRequestMultiplier = 1/2, ws_InitContainers = [], ws_Containers = [demo_container]\<rparr>,
     wl_Replicas = 2\<rparr>"

definition demo_workload :: workload_ext where
  "demo_workload = \<lparr>wx_webapp = (\<lambda>ob. Inr demo_webapp), wx_cronjob = (\<lambda>ob. Inl (Error ''not a cron job'')),
     wx_environment = (\<lambda>ob. (\<lparr>we_CPURequestMultiplier = 1/2, we_MemoryRequestMultiplier = 1/2, we_ImagePullSecrets = []\<rparr>, None)),
     wx_nested_float = (\<lambda>ob path. Inr (Some 2)), wx_quantity = (\<lambda>t. True)\<rparr>"

definition demo_workload_required :: required where
  "demo_workload_required = [(EnvironmentKey, [Some [(''data'', JObj [(''cpuRequestMultiplier'', JStr ''0.5'')])]])]"

lemma demo_workload_quantities: "quantities demo_workload"
  by (simp add: quantities_def demo_workload_def)

lemma demo_names:
  "secret_name std_ext ''shop'' ''web'' = ''shop-web-secret''"
  "service_name std_ext demo_webapp = ''shop-service''"
  "GenerateEligibleKubernetesLabelName std_ext ''shop'' = ''shop''"
  by code_simp+

lemma demo_webapp_simps [simp]:
  "wl_name demo_webapp = ''shop''" "wl_labels demo_webapp = []" "ws_Containers (wl_spec demo_webapp) = [demo_container]"
  "ws_InitContainers (wl_spec demo_webapp) = []" "ct_Name demo_container = ''web''"
  "ct_Services demo_container = [\<lparr>sv_Name = ''http'', sv_Port = 80, sv_Protocol = ''TCP''\<rparr>]"
  by (simp_all add: demo_webapp_def demo_container_def)

lemma demo_apart: "secrets_apart std_ext demo_webapp"
  by (simp add: secrets_apart_def workload_containers_def demo_names)

section \<open>Properties\<close>

text \<open>
  C23: the requests of a container are its limits times the configured multipliers, rounded to three decimals of a
  CPU and to whole mebibytes. Provided the products are in the range of the float type, the only way the
  computation goes wrong is a positive limit whose request rounds to zero: then the missing request is
  dereferenced and generation panics.
\<close>

theorem container_requests:
  assumes "quantities D" and "0 \<le> lim_CPU lm" and "0 \<le> lim_RAM lm"
    and "0 \<le> ws_CpuRequestMultiplier spec" and "0 \<le> ws_MemoryRequestMultiplier spec"
    and "lim_CPU lm * ws_CpuRequestMultiplier spec \<le> 2 ^ 100" and "lim_RAM lm * ws_MemoryRequestMultiplier spec \<le> 2 ^ 100"
  shows "if request_vanishes (lim_CPU lm) (ws_CpuRequestMultiplier spec) 3 \<or>
        request_vanishes (lim_RAM lm) (ws_MemoryRequestMultiplier spec) 0
    then getContainerResources D spec lm = Inl (Panic ''invalid memory address or nil pointer dereference'')
    else is_ok (getContainerResources D spec lm)"
proof -
  note cpu = limit_entries_cases [OF assms(1,2,4,6), of 3 "''''" "''cpu''" "([], [])"]
  note ram = limit_entries_cases [OF assms(1,3,5,7), of 0 "''Mi''" "''memory''"]
  have z: "\<not> request_vanishes 0 m p" for m p by (simp add: request_vanishes_def)
  have zero: "\<not> (lim_CPU lm = 0 \<and> lim_RAM lm = 0)" if "request_vanishes (lim_CPU lm) (ws_CpuRequestMultiplier spec) 3 \<or>
        request_vanishes (lim_RAM lm) (ws_MemoryRequestMultiplier spec) 0"
    using that z by metis
  show ?thesis
  proof (cases "request_vanishes (lim_CPU lm) (ws_CpuRequestMultiplier spec) 3")
    case True
    with zero cpu show ?thesis by (simp add: getContainerResources_def)
  next
    case False
    with cpu obtain acc where acc: "limit_entries D ''cpu'' (lim_CPU lm) (ws_CpuRequestMultiplier spec) 3 '''' ([], []) = Inr acc"
      by (auto simp: is_ok_iff)
    from False zero ram [of acc] show ?thesis by (auto simp: getContainerResources_def acc is_ok_iff)
  qed
qed

theorem container_requests_witness:
  "getContainerResources demo_workload (wl_spec demo_webapp) \<lparr>lim_CPU = 1/10000, lim_RAM = 256\<rparr> =
     Inl (Panic ''invalid memory address or nil pointer dereference'') \<and>
   is_ok (getContainerResources demo_workload (wl_spec demo_webapp) \<lparr>lim_CPU = 1/2, lim_RAM = 256\<rparr>)"
proof -
  have v: "request_vanishes (1/10000) (1/2) 3" "\<not> request_vanishes (1/2) (1/2) 3" "\<not> request_vanishes 256 (1/2) 0"
    by code_simp+
  have m: "ws_CpuRequestMultiplier (wl_spec demo_webapp) = 1/2" "ws_MemoryRequestMultiplier (wl_spec demo_webapp) = 1/2"
    by (simp_all add: demo_webapp_def)
  show ?thesis
    using container_requests [OF demo_workload_quantities, of "\<lparr>lim_CPU = 1/10000, lim_RAM = 256\<rparr>" "wl_spec demo_webapp"]
      container_requests [OF demo_workload_quantities, of "\<lparr>lim_CPU = 1/2, lim_RAM = 256\<rparr>" "wl_spec demo_webapp"] v
    by (simp add: m)
qed

text \<open>
  A Deployment counts as ready exactly when all its replicas are updated and ready and it reports itself
  available; every other kind is left to the default rules.
\<close>

theorem deployment_ready:
  "(workload_GetReadyStatus X D ob = Some ReadyTrue \<longleftrightarrow>
     get_kind X ob = ''Deployment'' \<and>
     (\<exists>n. wx_nested_float D ob [''status'', ''replicas''] = Inr (Some n) \<and>
          wx_nested_float D ob [''status'', ''updatedReplicas''] = Inr (Some n) \<and>
          wx_nested_float D ob [''status'', ''readyReplicas''] = Inr (Some n)) \<and>
     (\<exists>cs m. nested_slice X ob [''status'', ''conditions''] = Inr (Some cs) \<and> JObj m \<in> set cs \<and>
          map_of m ''type'' = Some (JStr ''Available'') \<and> map_of m ''status'' = Some (JStr ''True''))) \<and>
   (workload_GetReadyStatus X D ob = None \<longleftrightarrow> get_kind X ob \<noteq> ''Deployment'')"
  by (auto simp: workload_GetReadyStatus_def getDeploymentReadyStatus_def available_loop_iff split: sum.splits option.splits if_splits)

text \<open>
  C24: secret environment variables stay out of the workload. The container of a web application lists the other
  variables only, and refers to a secret exactly when it has secret variables; that secret is generated with
  the last value given for each of them.
\<close>

theorem secret_variables:
  assumes "GenerateWebAppObjects X D w labels = Inr gen" and "secrets_apart X w"
    and "i < length (ws_Containers (wl_spec w))" and "ws_Containers (wl_spec w) ! i = c"
  shows "\<exists>deployment ks fs. map_of gen (wl_name w) = Some deployment \<and>
    kfield deployment [''Spec'', ''Template'', ''Spec'', ''Containers''] = Some (VList ks) \<and> ks ! i = VObj fs \<and>
    map_of fs ''Env'' = Some (VList (plain_env (ct_Environment c))) \<and>
    map_of fs ''EnvFrom'' = Some (VList (if has_secret c then [secret_ref X (wl_name w) (ct_Name c)] else [])) \<and>
    (if has_secret c
     then \<exists>secret vals. map_of gen (secret_name X (wl_name w) (ct_Name c)) = Some secret \<and>
       k_kind secret = ''Secret'' \<and> kfield secret [''Data''] = Some (str_map_val vals) \<and>
       map_of vals = map_of (rev (map (\<lambda>v. (ev_Name v, ev_Value v)) (filter ev_Secret (ct_Environment c))))
     else map_of gen (secret_name X (wl_name w) (ct_Name c)) = None)"
proof -
  from assms(1) obtain d where d: "getDeployment X D w labels = Inr d" and gen: "gen = with_service X w d"
    by (auto simp: GenerateWebAppObjects_def res_simps)
  from d obtain ks where ks: "getContainers X D w = Inr ks"
    and f: "kfield d [''Spec'', ''Template'', ''Spec'', ''Containers''] = Some (VList ks)"
    by (auto simp: getDeployment_def res_simps Let_def kfield_def)
  from containers_loop_nth [OF ks [unfolded getContainers_def]] assms(3,4) have k: "getContainer X D w c = Inr (ks ! i)" by auto
  have c: "c \<in> set (ws_Containers (wl_spec w))" using assms(3,4) by auto
  have m: "map_of gen (wl_name w) = Some d" using assms(2) by (simp add: gen generated_main secrets_apart_def)
  note s = generated_secret [OF assms(2) c, of d]
  have v: "map_of (secret_values (ct_Environment c) []) =
      map_of (rev (map (\<lambda>v. (ev_Name v, ev_Value v)) (filter ev_Secret (ct_Environment c))))"
    by (rule ext) (simp add: secret_values_last split: option.splits)
  from k obtain fs where "ks ! i = VObj fs" "map_of fs ''Env'' = Some (VList (plain_env (ct_Environment c)))"
    "map_of fs ''EnvFrom'' = Some (VList (if has_secret c then [secret_ref X (wl_name w) (ct_Name c)] else []))"
    using getContainer_env by blast
  with m f s v show ?thesis
    by (auto simp: gen container_secret_def secret_object_def kfield_def)
qed

lemma demo_webapp_run: "\<exists>gen. GenerateWebAppObjects std_ext demo_workload demo_webapp [] = Inr gen"
proof -
  have v: "\<not> request_vanishes (1/2) (1/2) 3" "\<not> request_vanishes 256 (1/2) 0"
    by code_simp+
  have cpu: "is_ok (limit_entries demo_workload ''cpu'' (1/2) (1/2) 3 '''' acc)" for acc
    using limit_entries_cases [OF demo_workload_quantities, of "1/2" "1/2" 3 "''''" "''cpu''" acc] v(1) by simp
  have ram: "is_ok (limit_entries demo_workload ''memory'' 256 (1/2) 0 ''Mi'' acc)" for acc
    using limit_entries_cases [OF demo_workload_quantities, of 256 "1/2" 0 "''Mi''" "''memory''" acc] v(2) by simp
  have m: "ws_CpuRequestMultiplier (wl_spec demo_webapp) = 1/2" "ws_MemoryRequestMultiplier (wl_spec demo_webapp) = 1/2"
    "ct_Limits demo_container = \<lparr>lim_CPU = 1/2, lim_RAM = 256\<rparr>"
    by (simp_all add: demo_webapp_def demo_container_def)
  from cpu [of "([], [])"] obtain acc where c: "limit_entries demo_workload ''cpu'' (1/2) (1/2) 3 '''' ([], []) = Inr acc"
    by (auto simp: is_ok_iff)
  from ram [of acc] obtain acc' where r: "limit_entries demo_workload ''memory'' 256 (1/2) 0 ''Mi'' acc = Inr acc'"
    by (auto simp: is_ok_iff)
  have "is_ok (getContainerResources demo_workload (wl_spec demo_webapp) (ct_Limits demo_container))"
    by (simp add: getContainerResources_def m c r is_ok_iff split: prod.splits)
  then have "is_ok (getContainer std_ext demo_workload demo_webapp demo_container)"
    by (auto simp: getContainer_def is_ok_iff split: prod.splits)
  then show ?thesis
    by (auto simp: GenerateWebAppObjects_def getDeployment_def getContainers_def getInitContainers_def is_ok_iff Let_def)
qed

theorem secret_variables_witness:
  "\<exists>gen deployment secret vals. GenerateWebAppObjects std_ext demo_workload demo_webapp [] = Inr gen \<and>
     map_of gen ''shop'' = Some deployment \<and> map_of gen ''shop-web-secret'' = Some secret \<and>
     kfield secret [''Data''] = Some (str_map_val vals) \<and> map_of vals ''PASSWORD'' = Some ''new''"
proof -
  from demo_webapp_run obtain gen where run: "GenerateWebAppObjects std_ext demo_workload demo_webapp [] = Inr gen" by blast
  let ?L = "map_of (rev (map (\<lambda>v. (ev_Name v, ev_Value v)) (filter ev_Secret (ct_Environment demo_container))))"
  have sec: "has_secret demo_container" by (simp add: has_secret_def demo_container_def)
  have pw: "?L ''PASSWORD'' = Some ''new''" by (simp add: demo_container_def)
  have "0 < length (ws_Containers (wl_spec demo_webapp))" "ws_Containers (wl_spec demo_webapp) ! 0 = demo_container" by simp_all
  from secret_variables [OF run demo_apart this] obtain d secret vals where *: "map_of gen ''shop'' = Some d"
    "map_of gen ''shop-web-secret'' = Some secret" "kfield secret [''Data''] = Some (str_map_val vals)" "map_of vals = ?L"
    unfolding demo_webapp_simps demo_names if_P [OF sec] by blast
  from *(4) pw have "map_of vals ''PASSWORD'' = Some ''new''" by (simp only:)
  with *(1-3) run show ?thesis by blast
qed

text \<open>A label selector selects the pods that carry all its labels.\<close>

definition selects :: "string gomap \<Rightarrow> string gomap \<Rightarrow> bool" where
  "selects selector labels \<longleftrightarrow> (\<forall>(k, v) \<in> set selector. map_of labels k = Some v)"

text \<open>
  C25: a Deployment always selects its own pods; the Service of a web application selects them exactly when the
  name of the web application is left unchanged by the rewriting to an eligible label.
\<close>

theorem service_selects_pods:
  assumes "generateWebApp X D w required = Inr gen" and "wf_map (wl_labels w)" and "object_access X"
    and "service_name X w \<noteq> wl_name w" and "\<exists>c \<in> set (ws_Containers (wl_spec w)). ct_Services c \<noteq> []"
  shows "\<exists>deployment service pods dsel ssel. map_of gen (wl_name w) = Some deployment \<and> k_kind deployment = ''Deployment'' \<and>
    map_of gen (service_name X w) = Some service \<and> k_kind service = ''Service'' \<and>
    kfield deployment [''Spec'', ''Template'', ''ObjectMeta'', ''Labels''] = Some (str_map_val pods) \<and>
    kfield deployment [''Spec'', ''Selector'', ''MatchLabels''] = Some (str_map_val dsel) \<and> selects dsel pods \<and>
    kfield service [''Spec'', ''Selector''] = Some (str_map_val ssel) \<and>
    (selects ssel pods \<longleftrightarrow> GenerateEligibleKubernetesLabelName X (wl_name w) = wl_name w)"
proof -
  from assms(1) obtain w' labels d where w': "addWorkloadSpecValues X D w required = Inr w'"
    and l: "GetResourceLabels X (wl_labels w') required = Inr labels"
    and d: "getDeployment X D w' labels = Inr d" and gen: "gen = with_service X w' d"
    by (auto simp: generateWebApp_def GenerateWebAppObjects_def res_simps)
  from w' have same: "wl_name w' = wl_name w" "wl_labels w' = wl_labels w" "service_name X w' = service_name X w"
    "ws_Containers (wl_spec w') = ws_Containers (wl_spec w)"
    by (auto simp: addWorkloadSpecValues_def res_simps Let_def SetCpuRequestMultiplier_def SetMemoryRequestMultiplier_def
        SetImagePullSecrets_def service_name_def)
  let ?pods = "workload_labels w' ''WebApp'' labels"
  note app = GetResourceLabels_app [OF l [unfolded same] assms(2,3)]
  have "map_of ?pods ''app'' = Some (wl_name w)"
    by (simp add: workload_labels_def map_of_gcopy_apply app same)
  moreover have "kfield d [''Spec'', ''Template'', ''ObjectMeta'', ''Labels''] = Some (str_map_val ?pods)"
    "kfield d [''Spec'', ''Selector'', ''MatchLabels''] = Some (str_map_val [(''app'', wl_name w)])" "k_kind d = ''Deployment''"
    using d by (auto simp: getDeployment_def res_simps Let_def kfield_def same)
  moreover from assms(5) same obtain s where s: "getServices X w' = Some (service_name X w, s)"
    "kfield s [''Spec'', ''Selector''] = Some (str_map_val [(''app'', GenerateEligibleKubernetesLabelName X (wl_name w))])"
    "k_kind s = ''Service''"
    by (auto simp: getServices_def service_name_def Let_def kfield_def)
  moreover have "map_of gen (wl_name w) = Some d" using generated_main [of X w' d] assms(4) by (simp add: gen same)
  moreover have "map_of gen (service_name X w) = Some s" by (simp add: gen with_service_lookup s(1))
  ultimately show ?thesis
    by (intro exI [of _ d] exI [of _ s] exI [of _ ?pods] exI [of _ "[(''app'', wl_name w)]"]
        exI [of _ "[(''app'', GenerateEligibleKubernetesLabelName X (wl_name w))]"]) (auto simp: selects_def)
qed

theorem service_selects_pods_witness:
  "\<exists>gen service. generateWebApp std_ext demo_workload demo_webapp demo_workload_required = Inr gen \<and>
     map_of gen ''shop-service'' = Some service"
proof -
  have "addWorkloadSpecValues std_ext demo_workload demo_webapp demo_workload_required = Inr demo_webapp" by code_simp
  moreover have "GetResourceLabels std_ext [] demo_workload_required = Inr []" by code_simp
  ultimately obtain gen where run: "generateWebApp std_ext demo_workload demo_webapp demo_workload_required = Inr gen"
    using demo_webapp_run by (auto simp: generateWebApp_def)
  have "service_name std_ext demo_webapp \<noteq> wl_name demo_webapp" by (simp add: demo_names)
  from service_selects_pods [OF run _ std.object_access_axioms this] run show ?thesis by (auto simp: demo_names)
qed

end
