(* ===== verification/Aws.thy ===== *)
theory Aws
  imports Kube
begin

text \<open>
  What the groups with AWS networking share: generated objects that are typed literals or copies of observed
  objects, the fields read of provider types, managed AWS objects, security groups and readiness.
\<close>

section \<open>Objects\<close>

text \<open>A typed composite literal, or an \<open>unstructured.Unstructured\<close>.\<close>

datatype gobject = Typed kobject | Dynamic object

text \<open>The fields read of \<open>ec2 VPC\<close>, \<open>kms Key\<close> and of subnet groups; the zero value when not required.\<close>

record vpc_ref =
  vr_name :: string
  vr_namespace :: string
  vr_region :: "string option"

record key_ref =
  kr_Name :: string
  kr_Namespace :: string
  kr_Arn :: "string option"

definition no_key :: key_ref where
  "no_key = \<lparr>kr_Name = '''', kr_Namespace = '''', kr_Arn = None\<rparr>"

definition optional_key :: "key_ref option \<Rightarrow> key_ref" where
  "optional_key k = (case k of None \<Rightarrow> no_key | Some k \<Rightarrow> k)"

text \<open>\<open>xpv2v1.NamespacedReference\<close> literals.\<close>

definition name_ref :: "string \<Rightarrow> gval" where
  "name_ref name = VObj [(''Name'', VStr name)]"

definition namespaced_ref :: "string \<Rightarrow> string \<Rightarrow> gval" where
  "namespaced_ref name ns = VObj [(''Name'', VStr name), (''Namespace'', VStr ns)]"

text \<open>A managed resource in the namespace of the composite.\<close>

definition aws_object ::
  "string \<Rightarrow> string \<Rightarrow> string \<Rightarrow> string \<Rightarrow> string \<Rightarrow> (string \<times> gval) list \<Rightarrow> kobject" where
  "aws_object apiVersion kind name ns awsProvider forProvider =
     \<lparr>k_type = kind, k_apiVersion = apiVersion, k_kind = kind, k_name = name, k_namespace = ns,
      k_labels = [], k_annotations = [],
      k_fields = [(''Spec'', VObj [managed_spec awsProvider, (''ForProvider'', VObj forProvider)])]\<rparr>"

lemma aws_object_simps [simp]:
  "k_kind (aws_object apiVersion kind name ns p fp) = kind"
  "k_name (aws_object apiVersion kind name ns p fp) = name"
  "k_apiVersion (aws_object apiVersion kind name ns p fp) = apiVersion"
  "k_namespace (aws_object apiVersion kind name ns p fp) = ns"
  "kfield (aws_object apiVersion kind name ns p fp) (''Spec'' # ''ForProvider'' # f # fs) = field_at fp (f # fs)"
  by (simp_all add: aws_object_def kfield_def managed_spec_def)

section \<open>Security groups\<close>

definition security_group :: "string \<Rightarrow> string \<Rightarrow> string \<Rightarrow> vpc_ref \<Rightarrow> string \<Rightarrow> kobject" where
  "security_group name ns awsProvider vpc description =
     aws_object VPCApiVersion ''SecurityGroup'' name ns awsProvider
       [(''Region'', str_ptr (vr_region vpc)), (''VPCIDRef'', namespaced_ref (vr_name vpc) (vr_namespace vpc)),
        (''Description'', VStr description), (''Tags'', ptr_map_val [(''Name'', Some name)])]"

definition security_rule ::
  "string \<Rightarrow> string \<Rightarrow> string \<Rightarrow> vpc_ref \<Rightarrow> string \<Rightarrow> string \<Rightarrow> rat \<Rightarrow> string \<Rightarrow> string list \<Rightarrow> string \<Rightarrow> kobject" where
  "security_rule name ns awsProvider vpc sg direction port protocol cidrs description =
     aws_object VPCApiVersion ''SecurityGroupRule'' name ns awsProvider
       [(''Region'', str_ptr (vr_region vpc)), (''SecurityGroupIDRef'', name_ref sg), (''Type'', VStr direction),
        (''FromPort'', VFloat port), (''ToPort'', VFloat port), (''Protocol'', VStr protocol),
        (''CidrBlocks'', VList (map VStr cidrs)), (''Description'', VStr description)]"

text \<open>A generated name is a literal pattern.\<close>

lemma eligible_literal: "eligible s \<Longrightarrow> literal s"
proof -
  have "\<not> meta c" if "name_char c" for c using that by (auto simp: name_char_def meta_def is_lower_def is_digit_def)
  then show "eligible s \<Longrightarrow> literal s" by (auto simp: eligible_def literal_def)
qed

lemma name_pattern: "pattern_ok (GenerateEligibleKubernetesName X s k)" "literal (GenerateEligibleKubernetesName X s k)"
proof -
  show l: "literal (GenerateEligibleKubernetesName X s k)" using eligible_name by (intro eligible_literal) blast
  show "pattern_ok (GenerateEligibleKubernetesName X s k)" using literal_plain [OF l] by (rule pattern_ok_plain)
qed

text \<open>A short name that ends in a hash is kept as it is.\<close>

definition hash_prefix :: "string \<Rightarrow> bool" where
  "hash_prefix p \<longleftrightarrow> p \<noteq> [] \<and> is_lower (hd p) \<and> (\<forall>c \<in> set p. name_char c) \<and> no_dd p \<and> length p \<le> 245"

lemma hashed_name:
  assumes "hash_prefix p" and "unidecode X (p @ GenerateFNVHash uid) = p @ GenerateFNVHash uid"
  shows "GenerateEligibleKubernetesFullName X (p @ GenerateFNVHash uid) = p @ GenerateFNVHash uid"
proof -
  let ?h = "GenerateFNVHash uid"
  have h: "?h \<noteq> []" "length ?h \<le> 8" "\<And>c. c \<in> set ?h \<Longrightarrow> alnum c"
    using GenerateHash_length [of uid] GenerateHash_alnum by (auto simp: GenerateFNVHash_def)
  then have nd: "c \<noteq> CHR ''-''" if "c \<in> set ?h" for c using h(3) [OF that] by (auto simp: alnum_def is_lower_def is_digit_def)
  have alone: "no_dd s" if "\<forall>c \<in> set s. c \<noteq> CHR ''-''" for s using that by (induction s rule: no_dd.induct) auto
  have all: "no_dd ?h" using alone nd by blast
  have one: "no_dd (c # ?h)" for c
  proof (cases ?h)
    case (Cons d t)
    then show ?thesis using all nd [of d] by simp
  qed simp
  have "no_dd (q @ ?h)" if "no_dd q" for q
    using that all one by (induction q rule: no_dd.induct) auto
  then have "eligible (p @ ?h)"
    using assms(1) h by (auto simp: eligible_def hash_prefix_def name_char_def alnum_def)
  then show ?thesis
    using eligible_fixed [of "p @ ?h" 253 X] assms h(2) by (simp add: GenerateEligibleKubernetesFullName_def hash_prefix_def)
qed

section \<open>Readiness\<close>

fun ready_loop :: "json list \<Rightarrow> bool" where
  "ready_loop [] = False"
| "ready_loop (JObj m # cs) =
     (if map_of m ''type'' = Some (JStr ''Ready'') \<and> map_of m ''status'' = Some (JStr ''True'') then True
      else ready_loop cs)"
| "ready_loop (c # cs) = ready_loop cs"

definition isResourceReady :: "ext \<Rightarrow> object \<Rightarrow> bool" where
  "isResourceReady X ob =
     (case nested_slice X ob [''status'', ''conditions''] of
        Inr (Some conditions) \<Rightarrow> ready_loop conditions
      | _ \<Rightarrow> False)"

lemma ready_loop_iff:
  "ready_loop cs \<longleftrightarrow>
     (\<exists>m. JObj m \<in> set cs \<and> map_of m ''type'' = Some (JStr ''Ready'') \<and> map_of m ''status'' = Some (JStr ''True''))"
  by (induction cs rule: ready_loop.induct) auto

text \<open>The loop that fills \<open>readinessMap\<close> from all observed resources; a nil resource panics.\<close>

fun readiness_loop :: "ext \<Rightarrow> observed \<Rightarrow> (string \<times> bool) list \<Rightarrow> (string \<times> bool) list res" where
  "readiness_loop X [] ready = Inr ready"
| "readiness_loop X ((name, oc) # observed) ready =
     bindr (deref (oc_resource oc)) (\<lambda>ob. readiness_loop X observed (gset name (isResourceReady X ob) ready))"

lemma readiness_loop_ok: "is_ok (readiness_loop X observed ready) \<longleftrightarrow> all_fetched observed"
proof (induction observed arbitrary: ready)
  case Nil
  then show ?case by (simp add: all_fetched_def is_ok_iff)
next
  case (Cons p observed)
  obtain name oc where "p = (name, oc)" by (cases p)
  with Cons show ?case by (cases "oc_resource oc") (auto simp: all_fetched_def is_ok_def)
qed

end
