(* ===== verification/Mq_Types.thy ===== *)
theory Mq_Types
  imports Aws
begin

text \<open>
  \<open>functions/mq/apis\<close>: the RabbitMQBroker composite with its status, the environment of the group, and the
  observation of the provider's Broker that the status is made of.
\<close>

abbreviation "XRKindRabbitMQBroker \<equiv> ''RabbitMQBroker''"

record RabbitMQBrokerConfiguration =
  rc_Data :: string
  rc_Description :: "string option"

record MaintenanceWindow =
  mw_DayOfWeek :: "string option"
  mw_TimeOfDay :: "string option"
  mw_TimeZone :: "string option"

record RabbitMQBroker =
  rb_kind :: string
  rb_name :: string
  rb_namespace :: string
  rb_uid :: string
  rb_AutoMinorVersionUpgrade :: bool
  rb_Configuration :: "RabbitMQBrokerConfiguration option"
  rb_DeploymentMode :: "string option"
  rb_EngineType :: "string option"
  rb_EngineVersion :: "string option"
  rb_InstanceType :: "string option"
  rb_MaintenanceWindowStartTime :: "MaintenanceWindow option"
  rb_PubliclyAccessible :: bool

section \<open>The status\<close>

record ConfigurationObservation =
  co_ID :: "string option"
  co_Revision :: "rat option"

record EncryptionOptionsObservation =
  eo_KMSKeyID :: "string option"
  eo_UseAwsOwnedKey :: "bool option"

record InstancesObservation =
  io_ConsoleURL :: "string option"
  io_Endpoints :: "string option list"
  io_IPAddress :: "string option"

record RabbitMQBrokerStatus =
  rs_BrokerName :: "string option"
  rs_AutoMinorVersionUpgrade :: "bool option"
  rs_Configuration :: "ConfigurationObservation option"
  rs_DeploymentMode :: "string option"
  rs_EncryptionOptions :: "EncryptionOptionsObservation option"
  rs_EngineType :: "string option"
  rs_EngineVersion :: "string option"
  rs_InstanceType :: "string option"
  rs_AmazonMQBrokerID :: "string option"
  rs_Instances :: "InstancesObservation list"
  rs_MaintenanceWindowStartTime :: "MaintenanceWindow option"
  rs_PendingDataReplicationMode :: "string option"
  rs_PubliclyAccessible :: "bool option"
  rs_Region :: "string option"
  rs_SecurityGroups :: "string option list"
  rs_StorageType :: "string option"
  rs_SubnetIds :: "string option list"

text \<open>The fields read of \<open>status.atProvider\<close> of an observed \<open>mq Broker\<close>.\<close>

record broker_observation =
  bo_AutoMinorVersionUpgrade :: "bool option"
  bo_ID :: "string option"
  bo_BrokerName :: "string option"
  bo_DeploymentMode :: "string option"
  bo_EngineType :: "string option"
  bo_EngineVersion :: "string option"
  bo_HostInstanceType :: "string option"
  bo_PendingDataReplicationMode :: "string option"
  bo_PubliclyAccessible :: "bool option"
  bo_Region :: "string option"
  bo_StorageType :: "string option"
  bo_SecurityGroups :: "string option list"
  bo_SubnetIds :: "string option list"
  bo_Configuration :: "(string option \<times> rat option) option"
  bo_EncryptionOptions :: "(string option \<times> bool option) option"
  bo_MaintenanceWindowStartTime :: "(string option \<times> string option \<times> string option) option"
  bo_Instances :: "(string option \<times> string option list \<times> string option) list"

section \<open>The environment\<close>

record mq_Environment =
  me_AWSProvider :: string
  me_DataKMSKey :: string
  me_VPC :: string
  me_SubnetGroup :: string
  me_Tags :: "string option gomap"

definition zero_mq_Environment :: mq_Environment where
  "zero_mq_Environment = \<lparr>me_AWSProvider = '''', me_DataKMSKey = '''', me_VPC = '''', me_SubnetGroup = '''', me_Tags = []\<rparr>"

definition mq_Environment_Validate :: "mq_Environment \<Rightarrow> unit res" where
  "mq_Environment_Validate e =
     refuse (me_AWSProvider e = '''') ''awsProvider is required''
    (refuse (me_VPC e = '''') ''vpc is required''
    (refuse (me_SubnetGroup e = '''') ''subnetGroup is required'' valid))"

text \<open>
  The conversions at the types of this group and the texts of base64 errors. \<open>mx_subnets\<close> gives the subnet ids
  of an \<open>rds SubnetGroup\<close>, \<open>mx_status\<close> is \<open>ToUnstructured\<close>.
\<close>

record mq_ext =
  mx_broker :: "object \<Rightarrow> RabbitMQBroker res"
  mx_environment :: "mq_Environment decoder"
  mx_vpc :: "object \<Rightarrow> vpc_ref res"
  mx_kms :: "object \<Rightarrow> key_ref res"
  mx_subnets :: "object \<Rightarrow> string option list res"
  mx_observation :: "object \<Rightarrow> broker_observation res"
  mx_status :: "RabbitMQBrokerStatus \<Rightarrow> object res"
  mx_base64_error :: "string \<Rightarrow> string"

definition mq_GetEnvironment :: "ext \<Rightarrow> mq_ext \<Rightarrow> required \<Rightarrow> mq_Environment res" where
  "mq_GetEnvironment X D required =
     GetEnvironment X (mx_environment D) (\<lambda>e. failure_of (mq_Environment_Validate e)) zero_mq_Environment
       EnvironmentKey required"

end
