(* ===== verification/Mq_Broker.thy ===== *)
theory Mq_Broker
  imports Mq_Types
begin

text \<open>
  \<open>functions/mq/service/rabbitmq_broker.go\<close>: a RabbitMQ broker with its credentials, its security group unless
  it is public, and its configuration. The configuration is immutable in its engine version: a new version gets
  a new one, and the old ones are kept until the broker has switched.
\<close>

record resourceNames =
  rn_sg :: string
  rn_sgIngress :: string
  rn_sgConsoleIngress :: string
  rn_sgMgmtIngress :: string
  rn_sgEgress :: string
  rn_configuration :: string
  rn_broker :: string

record rabbitMQBrokerGenerator =
  bg_broker :: RabbitMQBroker
  bg_observed :: observed
  bg_env :: mq_Environment
  bg_vpc :: vpc_ref
  bg_kmsDataKey :: key_ref
  bg_subnetIds :: "string option list"
  bg_names :: resourceNames
  bg_readinessMap :: "(string \<times> bool) list"
  bg_username :: string
  bg_password :: string

section \<open>Names\<close>

definition GetCredentialsSecretName :: "ext \<Rightarrow> string \<Rightarrow> string" where
  "GetCredentialsSecretName X name = GenerateEligibleKubernetesFullName X (name @ ''-credentials'')"

definition GetConnectionSecretName :: "ext \<Rightarrow> string \<Rightarrow> string" where
  "GetConnectionSecretName X name = GenerateEligibleKubernetesFullName X (name @ ''-connection'')"

definition mq_GetSGName :: "ext \<Rightarrow> string \<Rightarrow> string \<Rightarrow> string" where
  "mq_GetSGName X name hash = GenerateEligibleKubernetesFullName X (name @ ''-sg-'' @ hash)"

definition mq_GetSGIngressName :: "ext \<Rightarrow> string \<Rightarrow> string \<Rightarrow> string" where
  "mq_GetSGIngressName X name hash = GenerateEligibleKubernetesFullName X (name @ ''-sg-ingress-'' @ hash)"

definition GetSGConsoleIngressName :: "ext \<Rightarrow> string \<Rightarrow> string \<Rightarrow> string" where
  "GetSGConsoleIngressName X name hash = GenerateEligibleKubernetesFullName X (name @ ''-sg-console-ingress-'' @ hash)"

definition GetSGMgmtIngressName :: "ext \<Rightarrow> string \<Rightarrow> string \<Rightarrow> string" where
  "GetSGMgmtIngressName X name hash = GenerateEligibleKubernetesFullName X (name @ ''-sg-mgmt-ingress-'' @ hash)"

definition mq_GetSGEgressName :: "ext \<Rightarrow> string \<Rightarrow> string \<Rightarrow> string" where
  "mq_GetSGEgressName X name hash = GenerateEligibleKubernetesFullName X (name @ ''-sg-egress-'' @ hash)"

definition GetBrokerName :: "ext \<Rightarrow> string \<Rightarrow> string \<Rightarrow> string" where
  "GetBrokerName X name hash = GenerateEligibleKubernetesFullName X (name @ ''-broker-'' @ hash)"

definition GetConfigurationName :: "ext \<Rightarrow> string \<Rightarrow> string \<Rightarrow> string \<Rightarrow> string" where
  "GetConfigurationName X name engineVersion hash =
     (let version = map (\<lambda>c. if c = CHR ''.'' then CHR ''-'' else c) engineVersion
      in GenerateEligibleKubernetesFullName X (name @ ''-config-'' @ version @ ''-'' @ hash))"

definition engineVersion :: "RabbitMQBroker \<Rightarrow> string" where
  "engineVersion b = (case rb_EngineVersion b of Some v \<Rightarrow> v | None \<Rightarrow> '''')"

definition generateNames :: "ext \<Rightarrow> RabbitMQBroker \<Rightarrow> string \<Rightarrow> resourceNames" where
  "generateNames X b hash =
     \<lparr>rn_sg = mq_GetSGName X (rb_name b) hash, rn_sgIngress = mq_GetSGIngressName X (rb_name b) hash,
      rn_sgConsoleIngress = GetSGConsoleIngressName X (rb_name b) hash,
      rn_sgMgmtIngress = GetSGMgmtIngressName X (rb_name b) hash, rn_sgEgress = mq_GetSGEgressName X (rb_name b) hash,
      rn_configuration = GetConfigurationName X (rb_name b) (engineVersion b) hash,
      rn_broker = GetBrokerName X (rb_name b) hash\<rparr>"

section \<open>The password\<close>

abbreviation "credentialsKey \<equiv> ''credentials''"

definition mq_generatePassword :: "(nat \<Rightarrow> nat res) \<Rightarrow> string res" where
  "mq_generatePassword rnd = draw_chars rnd [0..<32]"

definition mq_resolvePassword :: "ext \<Rightarrow> mq_ext \<Rightarrow> (nat \<Rightarrow> nat res) \<Rightarrow> observed \<Rightarrow> string res" where
  "mq_resolvePassword X D rnd observed =
     (case map_of observed credentialsKey of
        None \<Rightarrow> mq_generatePassword rnd
      | Some observedSecret \<Rightarrow>
          bindr (deref (oc_resource observedSecret)) (\<lambda>ob.
            case found (nested_string X ob [''data'', ''password'']) of
              None \<Rightarrow> mq_generatePassword rnd
            | Some passwordB64 \<Rightarrow>
                if passwordB64 = '''' then mq_generatePassword rnd
                else case b64_decode passwordB64 of
                  None \<Rightarrow> Inl (Error (''failed to base64 decode existing credentials secret: '' @ mx_base64_error D passwordB64))
                | Some passwordBytes \<Rightarrow> Inr passwordBytes))"

definition newRabbitMQBrokerGenerator ::
  "ext \<Rightarrow> mq_ext \<Rightarrow> (nat \<Rightarrow> nat res) \<Rightarrow> RabbitMQBroker \<Rightarrow> required \<Rightarrow> observed \<Rightarrow> rabbitMQBrokerGenerator res" where
  "newRabbitMQBrokerGenerator X D rnd b required observed =
     bindr (mq_GetEnvironment X D required) (\<lambda>env.
     bindr (ExtractRequiredResource required ''VPC'' (mx_vpc D)) (\<lambda>vpc.
     bindr (ExtractOptionalResource required ''KMSDataKey'' (mx_kms D)) (\<lambda>kmsDataKey.
     bindr (ExtractRequiredResource required ''MQSubnetGroup'' (mx_subnets D)) (\<lambda>subnetIds.
     bindr (mq_resolvePassword X D rnd observed) (\<lambda>password.
     bindr (readiness_loop X observed []) (\<lambda>readinessMap.
       Inr \<lparr>bg_broker = b, bg_observed = observed, bg_env = env, bg_vpc = vpc, bg_kmsDataKey = optional_key kmsDataKey,
            bg_subnetIds = subnetIds, bg_names = generateNames X b (GenerateFNVHash (rb_uid b)),
            bg_readinessMap = readinessMap, bg_username = ''mqadmin'', bg_password = password\<rparr>))))))"

section \<open>Configurations\<close>

definition mqApiVersion :: string where "mqApiVersion = ''mq.aws.m.upbound.io/v1beta1''"

definition buildConfiguration :: "rabbitMQBrokerGenerator \<Rightarrow> RabbitMQBrokerConfiguration \<Rightarrow> kobject" where
  "buildConfiguration g configuration =
     aws_object mqApiVersion ''Configuration'' (rn_configuration (bg_names g)) (rb_namespace (bg_broker g))
       (me_AWSProvider (bg_env g))
       [(''Name'', VStr (rn_configuration (bg_names g))), (''EngineType'', str_ptr (rb_EngineType (bg_broker g))),
        (''EngineVersion'', str_ptr (rb_EngineVersion (bg_broker g))), (''Data'', VStr (rc_Data configuration)),
        (''Description'', str_ptr (rc_Description configuration)), (''Region'', str_ptr (vr_region (bg_vpc g)))]"

text \<open>The errors of \<open>NestedMap\<close> and \<open>SetNestedMap\<close> are dropped; a failed set leaves the object as it is.\<close>

definition staleConfiguration :: "ext \<Rightarrow> object \<Rightarrow> object" where
  "staleConfiguration X ob =
     (let obj = set_api_version X [] (get_api_version X ob);
          obj = set_kind X obj (get_kind X ob);
          obj = set_name X obj (get_name X ob);
          obj = set_namespace X obj (get_namespace X ob)
      in case found (nested_map X ob [''spec'']) of
           None \<Rightarrow> obj
         | Some spec \<Rightarrow> (case set_nested_map X obj spec [''spec''] of Inr obj' \<Rightarrow> obj' | Inl e \<Rightarrow> obj))"

definition brokerSwitchedToConfiguration :: "ext \<Rightarrow> rabbitMQBrokerGenerator \<Rightarrow> string \<Rightarrow> bool res" where
  "brokerSwitchedToConfiguration X g configName =
     (case map_of (bg_observed g) (rn_broker (bg_names g)) of
        None \<Rightarrow> Inr False
      | Some brokerObserved \<Rightarrow>
          bindr (deref (oc_resource brokerObserved)) (\<lambda>broker.
            case found (nested_string X broker [''status'', ''atProvider'', ''configuration'', ''id'']) of
              None \<Rightarrow> Inr False
            | Some appliedID \<Rightarrow>
                if appliedID = '''' then Inr False
                else case map_of (bg_observed g) configName of
                  None \<Rightarrow> Inr False
                | Some configObserved \<Rightarrow>
                    bindr (deref (oc_resource configObserved)) (\<lambda>config.
                      Inr (gget (get_annotations X config) ''crossplane.io/external-name'' = appliedID))))"

fun stale_loop :: "ext \<Rightarrow> rabbitMQBrokerGenerator \<Rightarrow> observed \<Rightarrow> gobject gomap \<Rightarrow> gobject gomap res" where
  "stale_loop X g [] desired = Inr desired"
| "stale_loop X g ((name, oc) # observed) desired =
     (if name = rn_configuration (bg_names g) then stale_loop X g observed desired
      else bindr (deref (oc_resource oc)) (\<lambda>ob.
        if get_kind X ob \<noteq> ''Configuration'' then stale_loop X g observed desired
        else stale_loop X g observed (gset name (Dynamic (staleConfiguration X ob)) desired)))"

definition keepStaleConfigurations :: "ext \<Rightarrow> rabbitMQBrokerGenerator \<Rightarrow> gobject gomap \<Rightarrow> gobject gomap res" where
  "keepStaleConfigurations X g desired =
     bindr (brokerSwitchedToConfiguration X g (rn_configuration (bg_names g))) (\<lambda>switched.
       if switched then Inr desired else stale_loop X g (bg_observed g) desired)"

definition observedConfigurationRevision :: "ext \<Rightarrow> rabbitMQBrokerGenerator \<Rightarrow> rat option res" where
  "observedConfigurationRevision X g =
     (case map_of (bg_observed g) (rn_configuration (bg_names g)) of
        None \<Rightarrow> Inr None
      | Some oc \<Rightarrow> bindr (deref (oc_resource oc)) (\<lambda>ob.
          Inr (found (nested_float X ob [''status'', ''atProvider'', ''latestRevision'']))))"

section \<open>The other objects\<close>

definition mq_buildCredentialsSecret :: "ext \<Rightarrow> rabbitMQBrokerGenerator \<Rightarrow> kobject" where
  "mq_buildCredentialsSecret X g =
     \<lparr>k_type = ''core/v1.Secret'', k_apiVersion = ''v1'', k_kind = ''Secret'',
      k_name = GetCredentialsSecretName X (rb_name (bg_broker g)), k_namespace = rb_namespace (bg_broker g),
      k_labels = [], k_annotations = [],
      k_fields = [(''Type'', VStr ''Opaque''),
        (''StringData'', str_map_val [(''username'', bg_username g), (''password'', bg_password g)])]\<rparr>"

definition anywhere :: "string list" where "anywhere = [''0.0.0.0/0'']"

definition mq_rule :: "rabbitMQBrokerGenerator \<Rightarrow> string \<Rightarrow> string \<Rightarrow> rat \<Rightarrow> string \<Rightarrow> string \<Rightarrow> kobject" where
  "mq_rule g name direction port protocol description =
     security_rule name (rb_namespace (bg_broker g)) (me_AWSProvider (bg_env g)) (bg_vpc g) (rn_sg (bg_names g))
       direction port protocol anywhere description"

definition mq_buildSecurityGroup :: "rabbitMQBrokerGenerator \<Rightarrow> gobject gomap" where
  "mq_buildSecurityGroup g =
     (let n = bg_names g;
          groups = gset (rn_sg n) (Typed (security_group (rn_sg n) (rb_namespace (bg_broker g)) (me_AWSProvider (bg_env g))
            (bg_vpc g) ''allow traffic from vpc'')) [];
          groups = gset (rn_sgIngress n) (Typed (mq_rule g (rn_sgIngress n) ''ingress'' 5671 ''tcp'' ''allow amqps from vpc'')) groups;
          groups = gset (rn_sgConsoleIngress n)
            (Typed (mq_rule g (rn_sgConsoleIngress n) ''ingress'' 443 ''tcp'' ''allow management console from vpc'')) groups;
          groups = gset (rn_sgMgmtIngress n)
            (Typed (mq_rule g (rn_sgMgmtIngress n) ''ingress'' 15671 ''tcp'' ''allow management api from vpc'')) groups
      in gset (rn_sgEgress n) (Typed (mq_rule g (rn_sgEgress n) ''egress'' 0 ''-1'' ''allow traffic from vpc'')) groups)"

definition broker_subnets :: "rabbitMQBrokerGenerator \<Rightarrow> string option list" where
  "broker_subnets g =
     (let availableSubnets = bg_subnetIds g;
          deploymentMode = (case rb_DeploymentMode (bg_broker g) of Some m \<Rightarrow> m | None \<Rightarrow> '''')
      in if deploymentMode = ''SINGLE_INSTANCE'' \<or> deploymentMode = ''''
         then (if length availableSubnets > 0 then take 1 availableSubnets else [])
         else availableSubnets)"

definition kmsDataKeyIDRef :: "rabbitMQBrokerGenerator \<Rightarrow> string option" where
  "kmsDataKeyIDRef g = kr_Arn (bg_kmsDataKey g)"

definition broker_parameters :: "rabbitMQBrokerGenerator \<Rightarrow> rat option \<Rightarrow> (string \<times> gval) list" where
  "broker_parameters g revision =
     (let b = bg_broker g in
      [(''BrokerName'', VStr (rn_broker (bg_names g))), (''ApplyImmediately'', VBool True),
       (''AutoMinorVersionUpgrade'', VBool (rb_AutoMinorVersionUpgrade b)), (''DeploymentMode'', str_ptr (rb_DeploymentMode b)),
       (''EngineType'', str_ptr (rb_EngineType b)), (''EngineVersion'', str_ptr (rb_EngineVersion b)),
       (''HostInstanceType'', str_ptr (rb_InstanceType b)), (''PubliclyAccessible'', VBool (rb_PubliclyAccessible b)),
       (''Region'', str_ptr (vr_region (bg_vpc g))),
       (''EncryptionOptions'', VObj [(''KMSKeyID'', str_ptr (kmsDataKeyIDRef g)), (''UseAwsOwnedKey'', VBool False)]),
       (''SubnetIds'', VList (map str_ptr (broker_subnets g))),
       (''SecurityGroupRefs'', VList (if \<not> rb_PubliclyAccessible b then [name_ref (rn_sg (bg_names g))] else [])),
       (''Configuration'', opt_val (\<lambda>c. VObj
          [(''IDRef'', VObj [(''Name'', VStr (rn_configuration (bg_names g))), (''Namespace'', VStr (rb_namespace b)),
              (''Policy'', VObj [(''Resolve'', VStr ''Always'')])]),
           (''Revision'', opt_val VFloat revision)]) (rb_Configuration b)),
       (''MaintenanceWindowStartTime'', opt_val (\<lambda>w. VObj
          [(''DayOfWeek'', str_ptr (mw_DayOfWeek w)), (''TimeOfDay'', str_ptr (mw_TimeOfDay w)),
           (''TimeZone'', str_ptr (mw_TimeZone w))]) (rb_MaintenanceWindowStartTime b))])"

definition buildBroker :: "ext \<Rightarrow> rabbitMQBrokerGenerator \<Rightarrow> rat option \<Rightarrow> kobject" where
  "buildBroker X g revision =
     (let b = bg_broker g in
      \<lparr>k_type = ''mq/v1beta1.Broker'', k_apiVersion = mqApiVersion, k_kind = ''Broker'', k_name = rn_broker (bg_names g),
       k_namespace = rb_namespace b, k_labels = [], k_annotations = [],
       k_fields = [(''Spec'', VObj
         [(''ManagedResourceSpec'', VObj
             [(''ProviderConfigReference'', provider_config (me_AWSProvider (bg_env g))),
              (''WriteConnectionSecretToReference'', name_ref (GetConnectionSecretName X (rb_name b))),
              (''ManagementPolicies'', VList [VStr ''*''])]),
          (''ForProvider'', VObj (broker_parameters g revision)),
          (''InitProvider'', VObj [(''User'', VList [VObj
             [(''Username'', VStr (bg_username g)), (''ConsoleAccess'', VBool True),
              (''PasswordSecretRef'', VObj
                [(''LocalSecretReference'', name_ref (GetCredentialsSecretName X (rb_name b))), (''Key'', VStr ''password'')])]])])])]\<rparr>)"

section \<open>Generation\<close>

definition mq_generate :: "ext \<Rightarrow> rabbitMQBrokerGenerator \<Rightarrow> gobject gomap res" where
  "mq_generate X g =
     (let b = bg_broker g;
          desired = (if \<not> rb_PubliclyAccessible b then gcopy [] (mq_buildSecurityGroup g) else []);
          desired = gset credentialsKey (Typed (mq_buildCredentialsSecret X g)) desired
      in case rb_Configuration b of
           None \<Rightarrow> Inr (gset (rn_broker (bg_names g)) (Typed (buildBroker X g None)) desired)
         | Some configuration \<Rightarrow>
             bindr (keepStaleConfigurations X g
                 (gset (rn_configuration (bg_names g)) (Typed (buildConfiguration g configuration)) desired)) (\<lambda>desired.
             bindr (observedConfigurationRevision X g) (\<lambda>revision.
               Inr (gset (rn_broker (bg_names g)) (Typed (buildBroker X g revision)) desired))))"

definition GenerateRabbitMQBrokerObjects ::
  "ext \<Rightarrow> mq_ext \<Rightarrow> (nat \<Rightarrow> nat res) \<Rightarrow> RabbitMQBroker \<Rightarrow> required \<Rightarrow> observed \<Rightarrow> gobject gomap res" where
  "GenerateRabbitMQBrokerObjects X D rnd b required observed =
     bindr (newRabbitMQBrokerGenerator X D rnd b required observed) (mq_generate X)"

end
