(* ===== verification/Mq_Service.thy ===== *)
theory Mq_Service
  imports Mq_Broker
begin

text \<open>
  The status of a broker (\<open>functions/mq/service/rabbitmq_broker.go\<close>) and the group interface
  (\<open>functions/mq/group.go\<close>).
\<close>

definition GetRabbitMQBrokerStatusFromBroker :: "broker_observation \<Rightarrow> RabbitMQBrokerStatus" where
  "GetRabbitMQBrokerStatusFromBroker p =
     \<lparr>rs_BrokerName = bo_BrokerName p, rs_AutoMinorVersionUpgrade = bo_AutoMinorVersionUpgrade p,
      rs_Configuration = map_option (\<lambda>(i, r). \<lparr>co_ID = i, co_Revision = r\<rparr>) (bo_Configuration p),
      rs_DeploymentMode = bo_DeploymentMode p,
      rs_EncryptionOptions = map_option (\<lambda>(k, u). \<lparr>eo_KMSKeyID = k, eo_UseAwsOwnedKey = u\<rparr>) (bo_EncryptionOptions p),
      rs_EngineType = bo_EngineType p, rs_EngineVersion = bo_EngineVersion p, rs_InstanceType = bo_HostInstanceType p,
      rs_AmazonMQBrokerID = bo_ID p,
      rs_Instances = map (\<lambda>(u, e, i). \<lparr>io_ConsoleURL = u, io_Endpoints = e, io_IPAddress = i\<rparr>) (bo_Instances p),
      rs_MaintenanceWindowStartTime =
        map_option (\<lambda>(d, t, z). \<lparr>mw_DayOfWeek = d, mw_TimeOfDay = t, mw_TimeZone = z\<rparr>) (bo_MaintenanceWindowStartTime p),
      rs_PendingDataReplicationMode = bo_PendingDataReplicationMode p, rs_PubliclyAccessible = bo_PubliclyAccessible p,
      rs_Region = bo_Region p, rs_SecurityGroups = bo_SecurityGroups p, rs_StorageType = bo_StorageType p,
      rs_SubnetIds = bo_SubnetIds p\<rparr>"

definition GetRabbitMQBrokerReadyStatus :: "ext \<Rightarrow> object \<Rightarrow> ready" where
  "GetRabbitMQBrokerReadyStatus X ob = (if isResourceReady X ob then ReadyTrue else ReadyFalse)"

text \<open>The result of \<open>ToUnstructured\<close> is a map, so that a key occurs once.\<close>

definition getMQBrokerStatus :: "mq_ext \<Rightarrow> object \<Rightarrow> object res" where
  "getMQBrokerStatus D ob =
     bindr (wrapf ''cannot convert Broker object to MQ Broker'' (mx_observation D ob)) (\<lambda>broker.
     bindr (mx_status D (GetRabbitMQBrokerStatusFromBroker broker)) (\<lambda>status. Inr (gcopy [] status)))"

definition mq_GetSequence :: "ext \<Rightarrow> RabbitMQBroker \<Rightarrow> Sequence" where
  "mq_GetSequence X b =
     (if rb_kind b = XRKindRabbitMQBroker then
        (let setHash = GenerateFNVHash (rb_uid b); name = rb_name b;
             mqBroker = GetBrokerName X name setHash;
             firstGroup = [credentialsKey];
             firstGroup = (if \<not> rb_PubliclyAccessible b
               then [mq_GetSGName X name setHash, mq_GetSGIngressName X name setHash, GetSGConsoleIngressName X name setHash,
                     GetSGMgmtIngressName X name setHash, mq_GetSGEgressName X name setHash] @ firstGroup
               else firstGroup);
             firstGroup = (if rb_Configuration b \<noteq> None
               then firstGroup @ [GetConfigurationName X name (engineVersion b) setHash] else firstGroup)
         in NewSequence True [firstGroup, [mqBroker]])
      else empty_sequence)"

definition mq_GetReadyStatus :: "ext \<Rightarrow> object \<Rightarrow> ready option" where
  "mq_GetReadyStatus X ob =
     (if get_kind X ob = ''Broker'' then Some (GetRabbitMQBrokerReadyStatus X ob) else None)"

definition mq_GetRequiredResources :: "ext \<Rightarrow> mq_ext \<Rightarrow> object \<Rightarrow> required \<Rightarrow> selectors res" where
  "mq_GetRequiredResources X D composite required =
     (let resources = [(EnvironmentKey, RequiredEnvironmentConfig ''platform-apis-mq'')] in
      if map_of required EnvironmentKey = None then Inr resources
      else bindr (mq_GetEnvironment X D required) (\<lambda>env.
        if get_kind X composite = XRKindRabbitMQBroker then
          (let resources = gset ''VPC'' (RequiredVPC (me_VPC env) (me_AWSProvider env)) resources;
               resources = (if me_DataKMSKey env \<noteq> ''''
                 then gset ''KMSDataKey'' (RequiredKMSKey (me_DataKMSKey env) (me_AWSProvider env)) resources else resources)
           in Inr (gset ''MQSubnetGroup'' \<lparr>sel_kind = ''SubnetGroup'', sel_api_version = ''rds.aws.m.upbound.io/v1beta1'',
                sel_match = MatchName (me_SubnetGroup env), sel_namespace = Some (me_AWSProvider env)\<rparr> resources))
        else Inr resources))"

definition mq_GetObservedStatus :: "ext \<Rightarrow> mq_ext \<Rightarrow> object \<Rightarrow> object res" where
  "mq_GetObservedStatus X D ob =
     (if get_kind X ob = ''Broker'' \<and> prefix ''mq.aws.m.upbound.io'' (get_api_version X ob)
      then getMQBrokerStatus D ob else Inr [])"

definition mq_group :: "ext \<Rightarrow> mq_ext \<Rightarrow> (nat \<Rightarrow> nat res) \<Rightarrow> (RabbitMQBroker, gobject) GroupService" where
  "mq_group X D rnd = \<lparr>SkipGeneration = (\<lambda>composite. False),
     GetResourceHandlers = [(XRKindRabbitMQBroker, \<lparr>h_decode = mx_broker D,
       h_generate = GenerateRabbitMQBrokerObjects X D rnd\<rparr>)],
     GetSequence = mq_GetSequence X,
     GetReadyStatus = mq_GetReadyStatus X,
     GetRequiredResources = mq_GetRequiredResources X D,
     GetObservedStatus = mq_GetObservedStatus X D,
     PostProcessStatus = None\<rparr>"

end
