(* ===== verification/Mq_Props.thy ===== *)
theory Mq_Props
  imports Mq_Service
begin

text \<open>
  The mq group: configurations of other engine versions are kept until the broker has switched, and what the
  security group of a broker opens.
\<close>

section \<open>The generated map\<close>

text \<open>The broker reports that it runs the given configuration: its id is the configuration's external name.\<close>

definition runs_configuration :: "ext \<Rightarrow> observed \<Rightarrow> string \<Rightarrow> string \<Rightarrow> bool" where
  "runs_configuration X observed broker config \<longleftrightarrow>
     (\<exists>oc ob oc' ob' applied. map_of observed broker = Some oc \<and> oc_resource oc = Some ob \<and>
        map_of observed config = Some oc' \<and> oc_resource oc' = Some ob' \<and>
        found (nested_string X ob [''status'', ''atProvider'', ''configuration'', ''id'']) = Some applied \<and> applied \<noteq> '''' \<and>
        gget (get_annotations X ob') ''crossplane.io/external-name'' = applied)"

lemma brokerSwitched_iff:
  assumes "brokerSwitchedToConfiguration X g n = Inr s"
  shows "s \<longleftrightarrow> runs_configuration X (bg_observed g) (rn_broker (bg_names g)) n"
proof (cases "map_of (bg_observed g) (rn_broker (bg_names g))")
  case None
  with assms show ?thesis by (simp add: brokerSwitchedToConfiguration_def runs_configuration_def)
next
  case (Some oc)
  with assms obtain ob where ob: "oc_resource oc = Some ob" by (auto simp: brokerSwitchedToConfiguration_def res_simps)
  show ?thesis
  proof (cases "found (nested_string X ob [''status'', ''atProvider'', ''configuration'', ''id''])")
    case None
    with Some ob assms show ?thesis by (simp add: brokerSwitchedToConfiguration_def runs_configuration_def)
  next
    case (Some applied)
    with \<open>map_of _ _ = Some oc\<close> ob assms show ?thesis
      by (cases "map_of (bg_observed g) n")
        (auto simp: brokerSwitchedToConfiguration_def runs_configuration_def res_simps split: if_splits)
  qed
qed

definition stale_entry :: "ext \<Rightarrow> string \<Rightarrow> observed \<Rightarrow> string \<Rightarrow> object option" where
  "stale_entry X current observed n =
     (case map_of observed n of
        Some oc \<Rightarrow> (case oc_resource oc of
           Some ob \<Rightarrow> if n \<noteq> current \<and> get_kind X ob = ''Configuration'' then Some ob else None
         | None \<Rightarrow> None)
      | None \<Rightarrow> None)"

lemma stale_loop_lookup:
  assumes "stale_loop X g observed desired = Inr out" and "wf_map observed"
  shows "map_of out n = (case stale_entry X (rn_configuration (bg_names g)) observed n of
    Some ob \<Rightarrow> Some (Dynamic (staleConfiguration X ob)) | None \<Rightarrow> map_of desired n)"
  using assms
proof (induction X g observed desired rule: stale_loop.induct)
  case (2 X g name oc observed desired)
  let ?c = "rn_configuration (bg_names g)"
  have f: "map_of observed name = None" and w: "wf_map observed" using "2.prems"(2) by (simp_all add: map_of_eq_None_iff)
  show ?case
  proof (cases "name = ?c")
    case True
    with "2.IH"(1) "2.prems" w show ?thesis by (auto simp: stale_entry_def f split: option.splits)
  next
    case False
    with "2.prems"(1) obtain ob where ob: "oc_resource oc = Some ob" by (auto simp: res_simps)
    show ?thesis
    proof (cases "get_kind X ob = ''Configuration''")
      case True
      with "2.IH"(3) [OF False, of ob] "2.prems"(1) False ob w show ?thesis
        by (auto simp: stale_entry_def f split: option.splits)
    next
      case nc: False
      with "2.IH"(2) [OF False, of ob] "2.prems"(1) False ob w show ?thesis
        by (auto simp: stale_entry_def f split: option.splits)
    qed
  qed
qed (simp add: stale_entry_def)

lemma stale_loop_wf: "stale_loop X g observed desired = Inr out \<Longrightarrow> wf_map desired \<Longrightarrow> wf_map out"
  by (induction X g observed desired rule: stale_loop.induct) (auto simp: res_simps split: if_splits)

lemma mq_sg_wf: "wf_map (mq_buildSecurityGroup g)"
  by (simp add: mq_buildSecurityGroup_def Let_def)

lemma mq_generate_wf: "mq_generate X g = Inr gen \<Longrightarrow> wf_map gen"
  by (auto simp: mq_generate_def Let_def keepStaleConfigurations_def res_simps stale_loop_wf split: option.splits if_splits)

lemma newBroker_ok:
  assumes "newRabbitMQBrokerGenerator X D rnd b required observed = Inr g"
  shows "bg_broker g = b" and "bg_observed g = observed" and "bg_names g = generateNames X b (GenerateFNVHash (rb_uid b))"
    and "all_fetched observed" and "mq_resolvePassword X D rnd observed = Inr (bg_password g)"
    and "ExtractRequiredResource required ''VPC'' (mx_vpc D) = Inr (bg_vpc g)"
  using assms readiness_loop_ok [of X observed "[]"]
  by (auto simp: newRabbitMQBrokerGenerator_def res_simps is_ok_iff)

section \<open>The contract of base\<close>

lemma mq_patterns: "\<forall>s \<in> set (seq_steps (mq_GetSequence X b)). \<forall>p \<in> set (step_objects s). pattern_ok p"
proof -
  have "pattern_ok credentialsKey" by code_simp
  then show ?thesis
    by (auto simp: mq_GetSequence_def NewSequence_def Let_def GetBrokerName_def mq_GetSGName_def mq_GetSGIngressName_def
        GetSGConsoleIngressName_def GetSGMgmtIngressName_def mq_GetSGEgressName_def GetConfigurationName_def
        GenerateEligibleKubernetesFullName_def name_pattern)
qed

interpretation mq: group_service "mq_group X D rnd" "\<lambda>b. True" for X D rnd
proof
  show "map_of (GetResourceHandlers (mq_group X D rnd)) kind = Some h \<Longrightarrow>
      h_generate h obj required observed = Inr gen \<Longrightarrow> wf_map gen" for kind h obj required observed gen
    by (auto simp: mq_group_def GenerateRabbitMQBrokerObjects_def res_simps mq_generate_wf split: if_splits)
  show "\<exists>names. sequence_names (mq_group X D rnd) obj gen = Inr names" for obj gen
    by (rule sequence_names_ok) (simp add: mq_group_def mq_patterns)
  show "GetObservedStatus (mq_group X D rnd) ob = Inr st \<Longrightarrow> wf_map st" for ob st
    by (auto simp: mq_group_def mq_GetObservedStatus_def getMQBrokerStatus_def res_simps split: if_splits)
qed (simp add: mq_group_def)

section \<open>Lookups\<close>

definition old_configuration :: "ext \<Rightarrow> rabbitMQBrokerGenerator \<Rightarrow> string \<Rightarrow> object option" where
  "old_configuration X g n =
     (if rb_Configuration (bg_broker g) = None \<or>
         runs_configuration X (bg_observed g) (rn_broker (bg_names g)) (rn_configuration (bg_names g)) then None
      else stale_entry X (rn_configuration (bg_names g)) (bg_observed g) n)"

definition mq_contents :: "ext \<Rightarrow> rabbitMQBrokerGenerator \<Rightarrow> rat option \<Rightarrow> string \<Rightarrow> gobject option" where
  "mq_contents X g revision n =
    (if n = rn_broker (bg_names g) then Some (Typed (buildBroker X g revision))
     else case old_configuration X g n of Some ob \<Rightarrow> Some (Dynamic (staleConfiguration X ob))
     | None \<Rightarrow>
         if rb_Configuration (bg_broker g) \<noteq> None \<and> n = rn_configuration (bg_names g)
         then Some (Typed (buildConfiguration g (the (rb_Configuration (bg_broker g)))))
         else if n = credentialsKey then Some (Typed (mq_buildCredentialsSecret X g))
         else if rb_PubliclyAccessible (bg_broker g) then None else map_of (mq_buildSecurityGroup g) n)"

lemma mq_generate_lookup:
  assumes "mq_generate X g = Inr gen" and "wf_map (bg_observed g)"
  obtains revision where "map_of gen = mq_contents X g revision"
proof -
  let ?base = "gset credentialsKey (Typed (mq_buildCredentialsSecret X g))
      (if \<not> rb_PubliclyAccessible (bg_broker g) then gcopy [] (mq_buildSecurityGroup g) else [])"
  have copy: "map_of (gcopy [] (mq_buildSecurityGroup g)) n = map_of (mq_buildSecurityGroup g) n" for n
    by (simp add: map_of_gcopy_apply mq_sg_wf split: option.splits)
  have base: "map_of ?base n = (if n = credentialsKey then Some (Typed (mq_buildCredentialsSecret X g))
      else if rb_PubliclyAccessible (bg_broker g) then None else map_of (mq_buildSecurityGroup g) n)" for n
    by (simp add: copy)
  show thesis
  proof (cases "rb_Configuration (bg_broker g)")
    case None
    with assms(1) have "gen = gset (rn_broker (bg_names g)) (Typed (buildBroker X g None)) ?base"
      by (simp add: mq_generate_def Let_def)
    then show thesis using None by (intro that [of None] ext) (simp add: copy old_configuration_def mq_contents_def)
  next
    case (Some c)
    let ?cfg = "gset (rn_configuration (bg_names g)) (Typed (buildConfiguration g c)) ?base"
    from assms(1) Some obtain d r where k: "keepStaleConfigurations X g ?cfg = Inr d"
      and gen: "gen = gset (rn_broker (bg_names g)) (Typed (buildBroker X g r)) d"
      by (auto simp: mq_generate_def Let_def res_simps)
    from k obtain s where s: "brokerSwitchedToConfiguration X g (rn_configuration (bg_names g)) = Inr s"
      and d: "(if s then Inr ?cfg else stale_loop X g (bg_observed g) ?cfg) = Inr d"
      by (auto simp: keepStaleConfigurations_def res_simps)
    note sw = brokerSwitched_iff [OF s]
    have "map_of d n = (case old_configuration X g n of Some ob \<Rightarrow> Some (Dynamic (staleConfiguration X ob)) | None \<Rightarrow> map_of ?cfg n)" for n
      using d sw Some stale_loop_lookup [OF _ assms(2)] by (cases s) (auto simp: old_configuration_def)
    then show thesis using Some by (intro that [of r] ext) (simp add: gen copy mq_contents_def split: option.splits)
  qed
qed

lemma stale_spec:
  assumes "object_access X" and "nested_map X ob [''spec''] = Inr (Some spec)"
  shows "nested_map X (staleConfiguration X ob) [''spec''] = Inr (Some spec)"
proof -
  have "wf_map spec" by (rule object_access.nested_wf [OF assms])
  from object_access.set_top [OF assms(1) this] obtain ob' where "set_nested_map X
      (set_namespace X (set_name X (set_kind X (set_api_version X [] (get_api_version X ob)) (get_kind X ob)) (get_name X ob))
        (get_namespace X ob)) spec [''spec''] = Inr ob'"
    by (auto simp: is_ok_iff)
  with object_access.nested_set [OF assms(1) this] show ?thesis
    by (simp add: staleConfiguration_def Let_def assms(2) found_Some_iff)
qed

section \<open>A concrete broker\<close>

definition demo_broker :: RabbitMQBroker where
  "demo_broker = \<lparr>rb_kind = XRKindRabbitMQBroker, rb_name = ''bus'', rb_namespace = ''team-a'', rb_uid = ''7f1c'',
     rb_AutoMinorVersionUpgrade = True, rb_Configuration = Some \<lparr>rc_Data = ''consumer_timeout = 1'', rc_Description = None\<rparr>,
     rb_DeploymentMode = None, rb_EngineType = Some ''RabbitMQ'', rb_EngineVersion = Some ''4.2'', rb_InstanceType = None,
     rb_MaintenanceWindowStartTime = None, rb_PubliclyAccessible = False\<rparr>"

definition demo_mq :: mq_ext where
  "demo_mq = \<lparr>mx_broker = (\<lambda>ob. Inr demo_broker),
     mx_environment = (\<lambda>ob. (\<lparr>me_AWSProvider = ''aws'', me_DataKMSKey = '''', me_VPC = ''main'', me_SubnetGroup = ''db'', me_Tags = []\<rparr>, None)),
     mx_vpc = (\<lambda>ob. Inr \<lparr>vr_name = ''main'', vr_namespace = ''aws'', vr_region = Some ''eu-north-1''\<rparr>),
     mx_kms = (\<lambda>ob. Inr no_key), mx_subnets = (\<lambda>ob. Inr [Some ''subnet-1'', Some ''subnet-2'']),
     mx_observation = (\<lambda>ob. Inl (Error ''not a broker'')), mx_status = (\<lambda>s. Inr []), mx_base64_error = (\<lambda>s. ''illegal base64 data'')\<rparr>"

definition demo_mq_required :: required where
  "demo_mq_required = [(EnvironmentKey, [Some [(''data'', JObj [(''vpc'', JStr ''main'')])]]), (''VPC'', [Some []]),
     (''MQSubnetGroup'', [Some []])]"

definition demo_old_config :: object where
  "demo_old_config = [(''kind'', JStr ''Configuration''), (''spec'', JObj [(''forProvider'', JObj [])])]"

definition demo_mq_observed :: observed where
  "demo_mq_observed = [(''bus-config-4-1'', \<lparr>oc_resource = Some demo_old_config, oc_connection = []\<rparr>)]"

definition demo_rng :: "nat \<Rightarrow> nat res" where "demo_rng i = Inr (i mod 62)"

lemma demo_mq_new:
  "\<exists>g. newRabbitMQBrokerGenerator std_ext demo_mq demo_rng demo_broker demo_mq_required demo_mq_observed = Inr g"
proof -
  have "mq_GetEnvironment std_ext demo_mq demo_mq_required =
      Inr \<lparr>me_AWSProvider = ''aws'', me_DataKMSKey = '''', me_VPC = ''main'', me_SubnetGroup = ''db'', me_Tags = []\<rparr>"
    "is_ok (ExtractRequiredResource demo_mq_required ''VPC'' (mx_vpc demo_mq))"
    "is_ok (ExtractOptionalResource demo_mq_required ''KMSDataKey'' (mx_kms demo_mq))"
    "is_ok (ExtractRequiredResource demo_mq_required ''MQSubnetGroup'' (mx_subnets demo_mq))"
    "is_ok (mq_resolvePassword std_ext demo_mq demo_rng demo_mq_observed)"
    "is_ok (readiness_loop std_ext demo_mq_observed [])"
    by code_simp+
  then show ?thesis by (auto simp: newRabbitMQBrokerGenerator_def is_ok_iff)
qed


lemma demo_mq_prefixes: "list_all hash_prefix [''bus-sg-'', ''bus-sg-ingress-'', ''bus-sg-console-ingress-'', ''bus-sg-mgmt-ingress-'',
    ''bus-sg-egress-'', ''bus-config-4-2-'', ''bus-broker-'']"
  by code_simp

lemma demo_mq_names:
  fixes uid :: string
  defines "h \<equiv> GenerateFNVHash uid"
  shows "generateNames std_ext demo_broker h =
    \<lparr>rn_sg = ''bus-sg-'' @ h, rn_sgIngress = ''bus-sg-ingress-'' @ h, rn_sgConsoleIngress = ''bus-sg-console-ingress-'' @ h,
     rn_sgMgmtIngress = ''bus-sg-mgmt-ingress-'' @ h, rn_sgEgress = ''bus-sg-egress-'' @ h,
     rn_configuration = ''bus-config-4-2-'' @ h, rn_broker = ''bus-broker-'' @ h\<rparr>"
proof -
  have n: "GenerateEligibleKubernetesFullName std_ext (p @ h) = p @ h" if "hash_prefix p" for p
    unfolding h_def using that by (rule hashed_name) simp
  show ?thesis
    using demo_mq_prefixes n [of "''bus-sg-''"] n [of "''bus-sg-ingress-''"] n [of "''bus-sg-console-ingress-''"] n [of "''bus-sg-mgmt-ingress-''"]
      n [of "''bus-sg-egress-''"] n [of "''bus-config-4-2-''"] n [of "''bus-broker-''"]
    by (simp add: generateNames_def demo_broker_def mq_GetSGName_def mq_GetSGIngressName_def GetSGConsoleIngressName_def
        GetSGMgmtIngressName_def mq_GetSGEgressName_def GetConfigurationName_def GetBrokerName_def engineVersion_def)
qed

lemma demo_mq_run:
  "\<exists>gen. GenerateRabbitMQBrokerObjects std_ext demo_mq demo_rng demo_broker demo_mq_required demo_mq_observed = Inr gen"
proof -
  obtain g where g: "newRabbitMQBrokerGenerator std_ext demo_mq demo_rng demo_broker demo_mq_required demo_mq_observed = Inr g"
    using demo_mq_new by blast
  note ok = newBroker_ok(1-3) [OF g, unfolded demo_mq_names]
  have "is_ok (stale_loop std_ext g demo_mq_observed d)" for d
    by (simp add: demo_mq_observed_def is_ok_iff)
  then have sl: "\<exists>x. stale_loop std_ext g demo_mq_observed d = Inr x" for d by (simp add: is_ok_iff)
  have "map_of demo_mq_observed (rn_broker (bg_names g)) = None" "map_of demo_mq_observed (rn_configuration (bg_names g)) = None"
    unfolding ok by (simp_all add: demo_mq_observed_def)
  then have s: "brokerSwitchedToConfiguration std_ext g n = Inr False" "observedConfigurationRevision std_ext g = Inr None" for n
    by (simp_all add: brokerSwitchedToConfiguration_def observedConfigurationRevision_def ok(2))
  have "\<exists>x. keepStaleConfigurations std_ext g d = Inr x" for d
    using sl by (simp add: keepStaleConfigurations_def s(1) ok(2))
  then have "is_ok (mq_generate std_ext g)"
    by (auto simp: mq_generate_def Let_def s(2) split: option.splits)
  with g show ?thesis by (auto simp: GenerateRabbitMQBrokerObjects_def is_ok_iff)
qed

section \<open>Properties\<close>

text \<open>The resource names of a broker, and that they do not collide with each other or with an old configuration.\<close>

definition broker_names :: "ext \<Rightarrow> RabbitMQBroker \<Rightarrow> resourceNames" where
  "broker_names X b = generateNames X b (GenerateFNVHash (rb_uid b))"

definition fixed_names :: "resourceNames \<Rightarrow> string list" where
  "fixed_names n = [credentialsKey, rn_sg n, rn_sgIngress n, rn_sgConsoleIngress n, rn_sgMgmtIngress n, rn_sgEgress n,
     rn_configuration n, rn_broker n]"

lemma demo_broker_names:
  "broker_names std_ext demo_broker = \<lparr>rn_sg = ''bus-sg-'' @ GenerateFNVHash ''7f1c'',
      rn_sgIngress = ''bus-sg-ingress-'' @ GenerateFNVHash ''7f1c'', rn_sgConsoleIngress = ''bus-sg-console-ingress-'' @ GenerateFNVHash ''7f1c'',
      rn_sgMgmtIngress = ''bus-sg-mgmt-ingress-'' @ GenerateFNVHash ''7f1c'', rn_sgEgress = ''bus-sg-egress-'' @ GenerateFNVHash ''7f1c'',
      rn_configuration = ''bus-config-4-2-'' @ GenerateFNVHash ''7f1c'', rn_broker = ''bus-broker-'' @ GenerateFNVHash ''7f1c''\<rparr>"
  by (simp add: broker_names_def demo_mq_names) (simp add: demo_broker_def)

lemma demo_names_distinct: "distinct (fixed_names (broker_names std_ext demo_broker))"
  by (simp add: fixed_names_def demo_broker_names)

text \<open>
  C39: a broker keeps the configuration it runs. A new engine version gets a configuration of its own; every
  other observed configuration stays desired, with its spec, until the broker reports the new one, and is
  dropped from then on.
\<close>

theorem configuration_outlives_switch:
  assumes "GenerateRabbitMQBrokerObjects X D rnd b required observed = Inr gen" and "rb_Configuration b = Some c"
    and "wf_map observed" and "object_access X"
    and "distinct (fixed_names (broker_names X b))" and "n \<notin> set (fixed_names (broker_names X b))"
    and "map_of observed n = Some oc" and "oc_resource oc = Some ob" and "get_kind X ob = ''Configuration''"
    and "nested_map X ob [''spec''] = Inr (Some spec)"
  shows "if runs_configuration X observed (rn_broker (broker_names X b)) (rn_configuration (broker_names X b))
    then map_of gen n = None
    else \<exists>kept. map_of gen n = Some (Dynamic kept) \<and> nested_map X kept [''spec''] = Inr (Some spec)"
proof -
  from assms(1) obtain g where g: "newRabbitMQBrokerGenerator X D rnd b required observed = Inr g" "mq_generate X g = Inr gen"
    by (auto simp: GenerateRabbitMQBrokerObjects_def res_simps)
  note ok = newBroker_ok(1-3) [OF g(1), folded broker_names_def]
  have "wf_map (bg_observed g)" using assms(3) by (simp add: ok)
  from mq_generate_lookup [OF g(2) this] obtain revision where look: "map_of gen = mq_contents X g revision" .
  have sg: "map_of (mq_buildSecurityGroup g) n = None"
    using assms(6) by (simp add: mq_buildSecurityGroup_def Let_def ok fixed_names_def)
  have st: "stale_entry X (rn_configuration (broker_names X b)) observed n = Some ob"
    using assms(6-9) by (simp add: stale_entry_def fixed_names_def)
  have "n \<noteq> rn_broker (broker_names X b)" "n \<noteq> rn_configuration (broker_names X b)" "n \<noteq> credentialsKey"
    using assms(6) by (simp_all add: fixed_names_def)
  with sg st assms(2) stale_spec [OF assms(4,10)] show ?thesis
    by (simp add: look mq_contents_def old_configuration_def ok)
qed

theorem configuration_outlives_switch_witness:
  "\<exists>gen kept. GenerateRabbitMQBrokerObjects std_ext demo_mq demo_rng demo_broker demo_mq_required demo_mq_observed = Inr gen \<and>
     map_of gen ''bus-config-4-1'' = Some (Dynamic kept) \<and> nested_map std_ext kept [''spec''] = Inr (Some [(''forProvider'', JObj [])])"
proof -
  obtain gen where run:
    "GenerateRabbitMQBrokerObjects std_ext demo_mq demo_rng demo_broker demo_mq_required demo_mq_observed = Inr gen"
    using demo_mq_run by blast
  have n: "''bus-config-4-1'' \<notin> set (fixed_names (broker_names std_ext demo_broker))"
    by (simp add: fixed_names_def demo_broker_names)
  have o: "map_of demo_mq_observed ''bus-config-4-1'' = Some \<lparr>oc_resource = Some demo_old_config, oc_connection = []\<rparr>"
    "wf_map demo_mq_observed" by (simp_all add: demo_mq_observed_def)
  have k: "get_kind std_ext demo_old_config = ''Configuration''"
    "nested_map std_ext demo_old_config [''spec''] = Inr (Some [(''forProvider'', JObj [])])" by code_simp+
  have c: "rb_Configuration demo_broker = Some \<lparr>rc_Data = ''consumer_timeout = 1'', rc_Description = None\<rparr>"
    by (simp add: demo_broker_def)
  have "\<not> runs_configuration std_ext demo_mq_observed (rn_broker (broker_names std_ext demo_broker))
      (rn_configuration (broker_names std_ext demo_broker))"
    by (simp add: runs_configuration_def demo_mq_observed_def demo_broker_names)
  with configuration_outlives_switch [OF run c o(2) std.object_access_axioms demo_names_distinct n o(1) _ k] run show ?thesis by auto
qed

text \<open>What a security group rule says: the group it belongs to, its direction, ports, protocol and networks.\<close>

record sg_rule =
  ru_Group :: "gval option"
  ru_Type :: "gval option"
  ru_FromPort :: "gval option"
  ru_ToPort :: "gval option"
  ru_Protocol :: "gval option"
  ru_CidrBlocks :: "gval option"

definition rule_of :: "kobject \<Rightarrow> sg_rule" where
  "rule_of k =
     \<lparr>ru_Group = kfield k [''Spec'', ''ForProvider'', ''SecurityGroupIDRef''], ru_Type = kfield k [''Spec'', ''ForProvider'', ''Type''],
      ru_FromPort = kfield k [''Spec'', ''ForProvider'', ''FromPort''], ru_ToPort = kfield k [''Spec'', ''ForProvider'', ''ToPort''],
      ru_Protocol = kfield k [''Spec'', ''ForProvider'', ''Protocol''], ru_CidrBlocks = kfield k [''Spec'', ''ForProvider'', ''CidrBlocks'']\<rparr>"

definition rules_written :: "gobject gomap \<Rightarrow> sg_rule set" where
  "rules_written gen = {rule_of k |n k. map_of gen n = Some (Typed k) \<and> k_kind k = ''SecurityGroupRule''}"

text \<open>A rule of the group of that name for one port (0 with protocol -1 is any traffic) and every address.\<close>

definition open_to_all :: "string \<Rightarrow> string \<Rightarrow> rat \<Rightarrow> string \<Rightarrow> sg_rule" where
  "open_to_all sgName direction port protocol =
     \<lparr>ru_Group = Some (VObj [(''Name'', VStr sgName)]), ru_Type = Some (VStr direction), ru_FromPort = Some (VFloat port),
      ru_ToPort = Some (VFloat port), ru_Protocol = Some (VStr protocol), ru_CidrBlocks = Some (VList [VStr ''0.0.0.0/0''])\<rparr>"

lemma mq_rule_of [simp]:
  "rule_of (mq_rule g name direction port protocol description) = open_to_all (rn_sg (bg_names g)) direction port protocol"
  "k_kind (mq_rule g name direction port protocol description) = ''SecurityGroupRule''"
  by (simp_all add: rule_of_def mq_rule_def security_rule_def open_to_all_def name_ref_def anywhere_def)

lemma mq_sg_members:
  assumes "map_of (mq_buildSecurityGroup g) n = Some ob"
  shows "ob = Typed (security_group (rn_sg (bg_names g)) (rb_namespace (bg_broker g)) (me_AWSProvider (bg_env g)) (bg_vpc g)
      ''allow traffic from vpc'') \<or>
    ob = Typed (mq_rule g (rn_sgIngress (bg_names g)) ''ingress'' 5671 ''tcp'' ''allow amqps from vpc'') \<or>
    ob = Typed (mq_rule g (rn_sgConsoleIngress (bg_names g)) ''ingress'' 443 ''tcp'' ''allow management console from vpc'') \<or>
    ob = Typed (mq_rule g (rn_sgMgmtIngress (bg_names g)) ''ingress'' 15671 ''tcp'' ''allow management api from vpc'') \<or>
    ob = Typed (mq_rule g (rn_sgEgress (bg_names g)) ''egress'' 0 ''-1'' ''allow traffic from vpc'')"
proof -
  define sg where "sg = Typed (security_group (rn_sg (bg_names g)) (rb_namespace (bg_broker g)) (me_AWSProvider (bg_env g)) (bg_vpc g)
    ''allow traffic from vpc'')"
  define rule where "rule name direction port protocol description = Typed (mq_rule g name direction port protocol description)"
    for name direction port protocol description
  note folds = sg_def [symmetric] rule_def [symmetric]
  show ?thesis
    using assms unfolding mq_buildSecurityGroup_def Let_def folds map_of_gset by (auto split: if_splits)
qed

lemma sg_lookup:
  assumes "mq_generate X g = Inr gen" and "wf_map (bg_observed g)" and "distinct (fixed_names (bg_names g))"
    and "\<forall>n \<in> set (fixed_names (bg_names g)). stale_entry X (rn_configuration (bg_names g)) (bg_observed g) n = None"
    and "n \<in> {rn_sg (bg_names g), rn_sgIngress (bg_names g), rn_sgConsoleIngress (bg_names g), rn_sgMgmtIngress (bg_names g),
      rn_sgEgress (bg_names g)}"
  shows "map_of gen n = (if rb_PubliclyAccessible (bg_broker g) then None else map_of (mq_buildSecurityGroup g) n)"
proof -
  have fixed: "n \<in> set (fixed_names (bg_names g))" using assms(5) by (auto simp: fixed_names_def)
  have "old_configuration X g n = None" using assms(4) fixed by (simp add: old_configuration_def)
  moreover have "n \<noteq> credentialsKey" "n \<noteq> rn_broker (bg_names g)" "n \<noteq> rn_configuration (bg_names g)"
    using assms(3,5) by (auto simp: fixed_names_def)
  moreover from mq_generate_lookup [OF assms(1,2)] obtain r where "map_of gen = mq_contents X g r" .
  ultimately show ?thesis by (simp add: mq_contents_def)
qed

lemma written_rules:
  assumes "mq_generate X g = Inr gen" and "wf_map (bg_observed g)" and "distinct (fixed_names (bg_names g))"
    and "\<forall>n \<in> set (fixed_names (bg_names g)). stale_entry X (rn_configuration (bg_names g)) (bg_observed g) n = None"
  shows "rules_written gen = (if rb_PubliclyAccessible (bg_broker g) then {}
    else (\<lambda>(direction, port, protocol). open_to_all (rn_sg (bg_names g)) direction port protocol) `
      {(''ingress'', 5671, ''tcp''), (''ingress'', 443, ''tcp''), (''ingress'', 15671, ''tcp''), (''egress'', 0, ''-1'')})"
    (is "_ = (if ?public then {} else ?open ` ?all)")
proof -
  let ?n = "bg_names g"
  have kinds: "k_kind (buildBroker X g r) \<noteq> ''SecurityGroupRule''" "k_kind (buildConfiguration g c) \<noteq> ''SecurityGroupRule''"
    "k_kind (mq_buildCredentialsSecret X g) \<noteq> ''SecurityGroupRule''" "k_kind (security_group m ns a v t) \<noteq> ''SecurityGroupRule''"
    for r c m ns a v t
    by (simp_all add: buildBroker_def buildConfiguration_def mq_buildCredentialsSecret_def security_group_def Let_def)
  from mq_generate_lookup [OF assms(1,2)] obtain r where look: "map_of gen = mq_contents X g r" .
  have only: "rule_of k \<in> ?open ` ?all \<and> \<not> ?public" if "map_of gen n = Some (Typed k)" and k: "k_kind k = ''SecurityGroupRule''" for n k
  proof -
    from that kinds have m: "map_of (mq_buildSecurityGroup g) n = Some (Typed k)" "\<not> ?public"
      by (auto simp: look mq_contents_def split: if_splits option.splits)
    with mq_sg_members [OF m(1)] k kinds show ?thesis by auto
  qed
  have all: "?open a \<in> rules_written gen" if "\<not> ?public" and a: "a \<in> ?all" for a
  proof -
    have looked: "map_of (mq_buildSecurityGroup g) (rn_sgIngress ?n) = Some (Typed (mq_rule g (rn_sgIngress ?n) ''ingress'' 5671 ''tcp'' ''allow amqps from vpc''))"
      "map_of (mq_buildSecurityGroup g) (rn_sgConsoleIngress ?n) =
        Some (Typed (mq_rule g (rn_sgConsoleIngress ?n) ''ingress'' 443 ''tcp'' ''allow management console from vpc''))"
      "map_of (mq_buildSecurityGroup g) (rn_sgMgmtIngress ?n) =
        Some (Typed (mq_rule g (rn_sgMgmtIngress ?n) ''ingress'' 15671 ''tcp'' ''allow management api from vpc''))"
      "map_of (mq_buildSecurityGroup g) (rn_sgEgress ?n) = Some (Typed (mq_rule g (rn_sgEgress ?n) ''egress'' 0 ''-1'' ''allow traffic from vpc''))"
      using assms(3) unfolding mq_buildSecurityGroup_def Let_def fixed_names_def by auto
    have written: "rule_of (mq_rule g m d p q t) \<in> rules_written gen"
      if "(m, d, p, q, t) \<in> {(rn_sgIngress ?n, ''ingress'', 5671, ''tcp'', ''allow amqps from vpc''),
        (rn_sgConsoleIngress ?n, ''ingress'', 443, ''tcp'', ''allow management console from vpc''),
        (rn_sgMgmtIngress ?n, ''ingress'', 15671, ''tcp'', ''allow management api from vpc''),
        (rn_sgEgress ?n, ''egress'', 0, ''-1'', ''allow traffic from vpc'')}" for m d p q t
    proof -
      from that have "map_of gen m = Some (Typed (mq_rule g m d p q t))"
        using sg_lookup [OF assms, of m] \<open>\<not> ?public\<close> looked by auto
      then show ?thesis unfolding rules_written_def by (intro CollectI exI [of _ m] exI [of _ "mq_rule g m d p q t"]) simp
    qed
    from a show ?thesis
      using written [of "rn_sgIngress ?n" "''ingress''" 5671 "''tcp''" "''allow amqps from vpc''"]
        written [of "rn_sgConsoleIngress ?n" "''ingress''" 443 "''tcp''" "''allow management console from vpc''"]
        written [of "rn_sgMgmtIngress ?n" "''ingress''" 15671 "''tcp''" "''allow management api from vpc''"]
        written [of "rn_sgEgress ?n" "''egress''" 0 "''-1''" "''allow traffic from vpc''"] by auto
  qed
  have "rules_written gen \<subseteq> ?open ` ?all" "rules_written gen = {} \<or> \<not> ?public" using only unfolding rules_written_def by blast+
  with all show ?thesis by (cases ?public) (simp, auto)
qed

text \<open>
  C40: what a broker is open to. A public broker has no security group and no rules. A private one is attached to its security
  group, which is generated with it, in its namespace, for the VPC of the requirements. All rules that are
  generated belong to that group: they let in AMQPS, the console and the management API over TCP from every
  address, although their descriptions say that they allow traffic from the VPC, and let out everything. The
  generated names are distinct, and none of them is that of an observed configuration of another engine version.
\<close>

theorem broker_network:
  assumes "GenerateRabbitMQBrokerObjects X D rnd b required observed = Inr gen" and "wf_map observed"
    and "distinct (fixed_names (broker_names X b))"
    and "\<forall>n \<in> set (fixed_names (broker_names X b)). stale_entry X (rn_configuration (broker_names X b)) observed n = None"
  defines "sgName \<equiv> rn_sg (broker_names X b)"
  shows "rules_written gen = (if rb_PubliclyAccessible b then {}
      else {open_to_all sgName ''ingress'' 5671 ''tcp'', open_to_all sgName ''ingress'' 443 ''tcp'',
        open_to_all sgName ''ingress'' 15671 ''tcp'', open_to_all sgName ''egress'' 0 ''-1''}) \<and>
    (if rb_PubliclyAccessible b then map_of gen sgName = None
     else \<exists>sg. map_of gen sgName = Some (Typed sg) \<and> k_kind sg = ''SecurityGroup'' \<and> k_name sg = sgName \<and>
       k_namespace sg = rb_namespace b \<and>
       (\<exists>vpc. ExtractRequiredResource required ''VPC'' (mx_vpc D) = Inr vpc \<and>
         kfield sg [''Spec'', ''ForProvider'', ''VPCIDRef''] = Some (namespaced_ref (vr_name vpc) (vr_namespace vpc)))) \<and>
    (\<exists>broker. map_of gen (rn_broker (broker_names X b)) = Some (Typed broker) \<and> k_kind broker = ''Broker'' \<and>
       k_namespace broker = rb_namespace b \<and>
       kfield broker [''Spec'', ''ForProvider'', ''SecurityGroupRefs''] =
         Some (VList (if rb_PubliclyAccessible b then [] else [VObj [(''Name'', VStr sgName)]])) \<and>
       kfield broker [''Spec'', ''ForProvider'', ''PubliclyAccessible''] = Some (VBool (rb_PubliclyAccessible b)))"
proof (intro conjI)
  from assms(1) obtain g where g: "newRabbitMQBrokerGenerator X D rnd b required observed = Inr g" "mq_generate X g = Inr gen"
    by (auto simp: GenerateRabbitMQBrokerObjects_def res_simps)
  note ok = newBroker_ok(1-3) [OF g(1), folded broker_names_def]
  have hyps: "wf_map (bg_observed g)" "distinct (fixed_names (bg_names g))"
    "\<forall>n \<in> set (fixed_names (bg_names g)). stale_entry X (rn_configuration (bg_names g)) (bg_observed g) n = None"
    using assms(2-4) by (simp_all add: ok)
  show "rules_written gen = (if rb_PubliclyAccessible b then {}
      else {open_to_all sgName ''ingress'' 5671 ''tcp'', open_to_all sgName ''ingress'' 443 ''tcp'',
        open_to_all sgName ''ingress'' 15671 ''tcp'', open_to_all sgName ''egress'' 0 ''-1''})"
    using written_rules [OF g(2) hyps] by (simp add: ok sgName_def)
  define vpc where "vpc = bg_vpc g"
  define sg where "sg = security_group sgName (rb_namespace b) (me_AWSProvider (bg_env g)) vpc ''allow traffic from vpc''"
  have name: "rn_sg (bg_names g) = sgName" by (simp add: ok sgName_def)
  have "map_of (mq_buildSecurityGroup g) sgName = Some (Typed sg)"
    using hyps(2) unfolding mq_buildSecurityGroup_def Let_def fixed_names_def name ok(1) sg_def vpc_def by auto
  then have "map_of gen sgName = (if rb_PubliclyAccessible b then None else Some (Typed sg))"
    using sg_lookup [OF g(2) hyps, of sgName] name by (simp add: ok(1))
  moreover have "k_kind sg = ''SecurityGroup''" "k_name sg = sgName" "k_namespace sg = rb_namespace b"
    "kfield sg [''Spec'', ''ForProvider'', ''VPCIDRef''] = Some (namespaced_ref (vr_name vpc) (vr_namespace vpc))"
    by (simp_all add: sg_def security_group_def aws_object_def kfield_def managed_spec_def)
  moreover have "ExtractRequiredResource required ''VPC'' (mx_vpc D) = Inr vpc" using newBroker_ok(6) [OF g(1)] by (simp add: vpc_def)
  ultimately show "if rb_PubliclyAccessible b then map_of gen sgName = None
     else \<exists>sg. map_of gen sgName = Some (Typed sg) \<and> k_kind sg = ''SecurityGroup'' \<and> k_name sg = sgName \<and>
       k_namespace sg = rb_namespace b \<and>
       (\<exists>vpc. ExtractRequiredResource required ''VPC'' (mx_vpc D) = Inr vpc \<and>
         kfield sg [''Spec'', ''ForProvider'', ''VPCIDRef''] = Some (namespaced_ref (vr_name vpc) (vr_namespace vpc)))"
    by auto
  from mq_generate_lookup [OF g(2) hyps(1)] obtain r where "map_of gen = mq_contents X g r" .
  then have "map_of gen (rn_broker (broker_names X b)) = Some (Typed (buildBroker X g r))" by (simp add: mq_contents_def ok)
  then show "\<exists>broker. map_of gen (rn_broker (broker_names X b)) = Some (Typed broker) \<and> k_kind broker = ''Broker'' \<and>
       k_namespace broker = rb_namespace b \<and>
       kfield broker [''Spec'', ''ForProvider'', ''SecurityGroupRefs''] =
         Some (VList (if rb_PubliclyAccessible b then [] else [VObj [(''Name'', VStr sgName)]])) \<and>
       kfield broker [''Spec'', ''ForProvider'', ''PubliclyAccessible''] = Some (VBool (rb_PubliclyAccessible b))"
    by (simp add: buildBroker_def broker_parameters_def kfield_def Let_def ok sgName_def name_ref_def)
qed

theorem broker_network_witness:
  "\<exists>gen. GenerateRabbitMQBrokerObjects std_ext demo_mq demo_rng demo_broker demo_mq_required demo_mq_observed = Inr gen \<and>
     open_to_all (rn_sg (broker_names std_ext demo_broker)) ''ingress'' 443 ''tcp'' \<in> rules_written gen \<and>
     map_of gen (rn_sg (broker_names std_ext demo_broker)) \<noteq> None"
proof -
  obtain gen where run:
    "GenerateRabbitMQBrokerObjects std_ext demo_mq demo_rng demo_broker demo_mq_required demo_mq_observed = Inr gen"
    using demo_mq_run by blast
  have "wf_map demo_mq_observed" by (simp add: demo_mq_observed_def)
  moreover have "\<forall>n \<in> set (fixed_names (broker_names std_ext demo_broker)).
      stale_entry std_ext (rn_configuration (broker_names std_ext demo_broker)) demo_mq_observed n = None"
    by (simp add: stale_entry_def demo_mq_observed_def fixed_names_def demo_broker_names)
  moreover have "\<not> rb_PubliclyAccessible demo_broker" by (simp add: demo_broker_def)
  ultimately show ?thesis using broker_network [OF run _ demo_names_distinct] run by auto
qed

end
