(* ===== verification/Base_Rollout.thy ===== *)
theory Base_Rollout
  imports Base_Run
begin

text \<open>
  The function runs again and again (once for every reconciliation of the composite), each time with the
  resources observed by then. This theory follows the runs of one generated map: a provider that makes
  ready whatever stays desired brings every step of the sequence to the desired state in turn.
\<close>

section \<open>What holds from some run on\<close>

definition from_some_run :: "(nat \<Rightarrow> bool) \<Rightarrow> bool" where
  "from_some_run P \<longleftrightarrow> (\<exists>k. \<forall>l\<ge>k. P l)"

lemma from_some_runI [intro]: "(\<And>l. k \<le> l \<Longrightarrow> P l) \<Longrightarrow> from_some_run P"
  by (auto simp: from_some_run_def)

lemma from_some_run_mono: "from_some_run P \<Longrightarrow> (\<And>l. P l \<Longrightarrow> Q l) \<Longrightarrow> from_some_run Q"
  by (auto simp: from_some_run_def)

lemma from_some_run_conj:
  assumes "from_some_run P" and "from_some_run Q"
  shows "from_some_run (\<lambda>l. P l \<and> Q l)"
proof -
  from assms obtain j k where "\<forall>l\<ge>j. P l" and "\<forall>l\<ge>k. Q l" by (auto simp: from_some_run_def)
  then show ?thesis by (intro from_some_runI [of "max j k"]) simp
qed

lemma from_some_run_ball:
  "finite M \<Longrightarrow> (\<And>n. n \<in> M \<Longrightarrow> from_some_run (P n)) \<Longrightarrow> from_some_run (\<lambda>l. \<forall>n \<in> M. P n l)"
proof (induction rule: finite_induct)
  case empty
  show ?case by (intro from_some_runI) simp
next
  case (insert n M)
  then show ?case using from_some_run_conj [of "P n" "\<lambda>l. \<forall>n \<in> M. P n l"] by simp
qed

section \<open>The runs of a generated map\<close>

text \<open>The provider: a generated resource that stays desired is ready from some run on.\<close>

definition provider_fair ::
  "ext \<Rightarrow> ('c, 'o) GroupService \<Rightarrow> 'o gomap \<Rightarrow> (nat \<Rightarrow> observed) \<Rightarrow> (nat \<Rightarrow> desired) \<Rightarrow> bool" where
  "provider_fair X G gen observed d \<longleftrightarrow>
     (\<forall>n. map_of gen n \<noteq> None \<longrightarrow> from_some_run (\<lambda>k. map_of (d k) n \<noteq> None) \<longrightarrow>
        from_some_run (\<lambda>k. observed_ready X G (observed k) n = Inr ReadyTrue))"

definition rolled_out :: "'o gomap \<Rightarrow> desired \<Rightarrow> bool" where
  "rolled_out gen d \<longleftrightarrow> (\<forall>(n, ob) \<in> set gen. \<exists>e. map_of d n = Some e \<and> dc_ready e = ReadyTrue)"

text \<open>A planned resource of a run that succeeds is in its desired state.\<close>

lemma planned_is_desired:
  assumes "place_post X G obj observed gen (entry_of X A G ws observed rt S gen) desired (Inr d)"
    and "sequence_names G obj gen = Inr names" and "planned X G observed gen names n"
  obtains e where "map_of d n = Some e" and "observed_ready X G observed n = Inr (dc_ready e)"
proof -
  from assms have "is_ok (entry_of X A G ws observed rt S gen n)"
    and "map_of d n = ok_of (entry_of X A G ws observed rt S gen n)"
    by (elim place_postE; simp)+
  then obtain e where "map_of d n = Some e" and "entry_of X A G ws observed rt S gen n = Inr e"
    by (auto simp: is_ok_iff)
  then show thesis using that entry_ready by metis
qed

lemma steps_become_ready:
  assumes runs: "\<And>k n. planned X G (observed k) gen names n \<Longrightarrow> map_of (d k) n \<noteq> None"
    and fair: "provider_fair X G gen observed d"
    and "i < length names"
  shows "from_some_run (\<lambda>k. step_ready X G (observed k) gen (names ! i))"
  using \<open>i < length names\<close>
proof (induction i)
  case 0
  have "from_some_run (\<lambda>k. ready_now X G (observed k) gen n)" if "n \<in> set (names ! 0)" for n
  proof (cases "map_of gen n = None")
    case False
    have "planned X G (observed k) gen names n" for k
      unfolding planned_def admitted_iff using False 0 that by (auto simp: wanted_def)
    then have "from_some_run (\<lambda>k. map_of (d k) n \<noteq> None)" by (intro from_some_runI [of 0] runs)
    with fair False have "from_some_run (\<lambda>k. observed_ready X G (observed k) n = Inr ReadyTrue)"
      by (simp add: provider_fair_def)
    then show ?thesis by (rule from_some_run_mono) (simp add: ready_now_def)
  qed (auto simp: ready_now_def from_some_run_def)
  then show ?case unfolding step_ready_def by (intro from_some_run_ball) simp_all
next
  case (Suc i)
  then have prev: "from_some_run (\<lambda>k. step_ready X G (observed k) gen (names ! i))" by simp
  have "from_some_run (\<lambda>k. ready_now X G (observed k) gen n)" if "n \<in> set (names ! Suc i)" for n
  proof (cases "map_of gen n = None")
    case False
    from prev have "from_some_run (\<lambda>k. map_of (d k) n \<noteq> None)"
      by (rule from_some_run_mono) (metis runs planned_after_ready False Suc.prems that)
    with fair False have "from_some_run (\<lambda>k. observed_ready X G (observed k) n = Inr ReadyTrue)"
      by (simp add: provider_fair_def)
    then show ?thesis by (rule from_some_run_mono) (simp add: ready_now_def)
  qed (auto simp: ready_now_def from_some_run_def)
  then show ?case unfolding step_ready_def by (intro from_some_run_ball) simp_all
qed

text \<open>Once a step is ready its own members and those of the next step are planned.\<close>

lemma all_planned:
  assumes "\<And>i. i < length names \<Longrightarrow> step_ready X G observed gen (names ! i)" and "map_of gen n \<noteq> None"
  shows "planned X G observed gen names n"
proof (cases "n \<in> set (concat names)")
  case True
  then obtain i where "i < length names" and "n \<in> set (names ! i)" by (metis UN_E in_set_conv_nth set_concat)
  then show ?thesis
    unfolding planned_def admitted_iff using assms by (auto simp: wanted_def intro!: exI [of _ i])
qed (use assms(2) in \<open>simp add: planned_def\<close>)

text \<open>
  C8: liveness of the roll-out. If the runs of a group keep succeeding on one generated map, and the
  provider makes ready whatever stays desired, then from some run on every generated resource is desired
  and marked ready, in whatever order the sequence asks for them and Go iterates its maps: no step waits
  for ever for one before it.
\<close>

theorem rollout_completes:
  assumes "support_by_kind X A S gen" and "\<And>k. iteration (ord k)" and "\<And>k. cache_ok S (c k)"
    and runs: "\<And>k. fst (place_resources X A G ws (ord k) obj (observed k) (desired k) gen rt (c k)) = Inr (d k)"
    and fair: "provider_fair X G gen observed d"
  shows "\<exists>k. \<forall>l\<ge>k. rolled_out gen (d l)"
proof -
  have post: "place_post X G obj (observed k) gen (entry_of X A G ws (observed k) rt S gen) (desired k) (Inr (d k))" for k
    using place_resources_post [OF assms(1-3)] runs by metis
  from post [of 0] obtain names where names: "sequence_names G obj gen = Inr names"
    by (elim place_postE)
  have desired: "map_of (d k) n \<noteq> None" if "planned X G (observed k) gen names n" for k n
    using planned_is_desired [OF post names that] by (metis option.distinct(1))
  have "from_some_run (\<lambda>k. \<forall>i \<in> {..<length names}. step_ready X G (observed k) gen (names ! i))"
    using steps_become_ready [OF desired fair] by (intro from_some_run_ball) simp_all
  then have planned: "from_some_run (\<lambda>k. \<forall>n. map_of gen n \<noteq> None \<longrightarrow> planned X G (observed k) gen names n)"
    by (rule from_some_run_mono) (metis all_planned lessThan_iff)
  have "from_some_run (\<lambda>k. \<exists>e. map_of (d k) n = Some e \<and> dc_ready e = ReadyTrue)" if "map_of gen n \<noteq> None" for n
  proof -
    from planned have stays: "from_some_run (\<lambda>k. planned X G (observed k) gen names n)"
      by (rule from_some_run_mono) (use that in blast)
    then have "from_some_run (\<lambda>k. map_of (d k) n \<noteq> None)" by (rule from_some_run_mono) (rule desired)
    with fair that have "from_some_run (\<lambda>k. observed_ready X G (observed k) n = Inr ReadyTrue)"
      by (simp add: provider_fair_def)
    from from_some_run_conj [OF stays this] show ?thesis
      by (rule from_some_run_mono) (metis planned_is_desired [OF post names] sum.inject(2))
  qed
  then have "from_some_run (\<lambda>k. \<forall>n \<in> fst ` set gen. \<exists>e. map_of (d k) n = Some e \<and> dc_ready e = ReadyTrue)"
    by (intro from_some_run_ball) (auto simp: map_of_eq_None_iff)
  then show ?thesis unfolding from_some_run_def rolled_out_def by fastforce
qed

text \<open>
  The demonstration group over its runs: nothing is observed, then the instance and the configuration are
  ready, then the database, and from the fourth run on all of them.
\<close>

definition demo_round :: "nat \<Rightarrow> observed" where
  "demo_round k = map (\<lambda>(n, kind). (n, \<lparr>oc_resource = Some (demo_object kind [ready_condition]), oc_connection = []\<rparr>))
     (concat (take k [[(''instance-a'', ''Instance''), (''config'', ''Config'')], [(''database'', ''Database'')],
                      [(''user'', ''User'')]]))"

definition demo_run :: "nat \<Rightarrow> desired res" where
  "demo_run k = fst (place_resources std_ext json_objects demo_group ''prod'' (if even k then in_order else reversed)
     () (demo_round k) [] demo_generated demo_tags [])"

lemma demo_round_last: "3 \<le> k \<Longrightarrow> demo_round k = demo_round 3"
  by (simp add: demo_round_def)

lemma demo_run_names:
  "map (\<lambda>k. case demo_run k of Inr d \<Rightarrow> map fst d | Inl e \<Rightarrow> []) [0, 1, 2, 3, 4] =
     [[''instance-a'', ''config''], [''instance-a'', ''database'', ''config''],
      [''instance-a'', ''database'', ''user'', ''config''], [''instance-a'', ''database'', ''user'', ''config''],
      [''instance-a'', ''database'', ''user'', ''config'']]"
  by code_simp

definition demo_placed :: "nat \<Rightarrow> desired" where
  "demo_placed k = (case demo_run k of Inr d \<Rightarrow> d | Inl e \<Rightarrow> [])"

lemma demo_run_ok: "demo_run k = Inr (demo_placed k)"
proof -
  have small: "\<forall>k \<in> {0, 1, 2, 3, 4}. is_ok (demo_run k)"
    using demo_run_names by (auto simp: is_ok_iff split: sum.splits)
  have "demo_run k = demo_run (if k < 3 then k else if even k then 4 else 3)"
  proof (cases "k < 3")
    case False
    then have "demo_round k = demo_round 3" and "demo_round 4 = demo_round 3"
      using demo_round_last [of k] demo_round_last [of 4] by simp_all
    with False show ?thesis unfolding demo_run_def by (cases "even k") simp_all
  qed simp
  moreover have "k < 3 \<Longrightarrow> k \<in> {0, 1, 2}" by auto
  ultimately have "is_ok (demo_run k)" using small by (metis insert_iff)
  then show ?thesis by (auto simp: demo_placed_def is_ok_iff)
qed

lemma demo_all_ready:
  "list_all (\<lambda>n. observed_ready std_ext demo_group (demo_round 3) n = Inr ReadyTrue) (map fst demo_generated)"
  by code_simp

theorem rollout_completes_witness: "\<exists>k. \<forall>l\<ge>k. rolled_out demo_generated (demo_placed l)"
proof -
  have 1: "iteration (if even k then in_order else reversed)" for k :: nat by simp
  have 2: "cache_ok (\<lambda>k. True) []" by (simp add: cache_ok_def)
  have 3: "fst (place_resources std_ext json_objects demo_group ''prod'' (if even k then in_order else reversed)
     () (demo_round k) [] demo_generated demo_tags []) = Inr (demo_placed k)" for k
    using demo_run_ok [of k] unfolding demo_run_def .
  have 4: "provider_fair std_ext demo_group demo_generated demo_round demo_placed"
    unfolding provider_fair_def
  proof (intro allI impI)
    fix n
    assume "map_of demo_generated n \<noteq> None"
    then have "n \<in> set (map fst demo_generated)" by (simp add: map_of_eq_None_iff)
    with demo_all_ready have "observed_ready std_ext demo_group (demo_round 3) n = Inr ReadyTrue"
      unfolding list_all_iff by blast
    then show "from_some_run (\<lambda>k. observed_ready std_ext demo_group (demo_round k) n = Inr ReadyTrue)"
      by (intro from_some_runI [of 3]) (subst demo_round_last)
  qed
  show ?thesis
    by (rule rollout_completes [of std_ext json_objects "\<lambda>k. True" demo_generated
          "\<lambda>k. if even k then in_order else reversed" "\<lambda>k. []" demo_group "''prod''" "()" demo_round "\<lambda>k. []" demo_tags])
      (rule demo_support 1 2 3 4)+
qed

end
