(* ===== verification/Go_Time.thy ===== *)
theory Go_Time
  imports Go_Strings
begin

text \<open>
  What the groups use of Go's \<open>time\<close> and \<open>strconv\<close>: \<open>time.Parse(time.RFC3339, s)\<close>, the layout
  \<open>20060102-150405\<close>, instants with nanoseconds, and \<open>strconv.ParseInt(s, 10, 64)\<close>.
\<close>

section \<open>Digits\<close>

definition digit_value :: "char \<Rightarrow> int" where "digit_value c = of_char c - 48"

definition number :: "string \<Rightarrow> int" where
  "number = foldl (\<lambda>n c. 10 * n + digit_value c) 0"

text \<open>\<open>getnum(s, fixed)\<close>: two digits, or, unless \<open>fixed\<close>, one digit before something else.\<close>

fun getnum :: "bool \<Rightarrow> string \<Rightarrow> (int \<times> string) option" where
  "getnum fixed [] = None"
| "getnum fixed [c] = (if is_digit c \<and> \<not> fixed then Some (digit_value c, []) else None)"
| "getnum fixed (c # d # s) =
     (if \<not> is_digit c then None
      else if is_digit d then Some (number [c, d], s)
      else if fixed then None else Some (digit_value c, d # s))"

fun skip_char :: "char \<Rightarrow> string \<Rightarrow> string option" where
  "skip_char c [] = None"
| "skip_char c (d # s) = (if c = d then Some s else None)"

abbreviation obind :: "'a option \<Rightarrow> ('a \<Rightarrow> 'b option) \<Rightarrow> 'b option" where
  "obind \<equiv> Option.bind"

section \<open>RFC 3339\<close>

text \<open>The fields of a time in the zone it was written in; the offset is in minutes.\<close>

record gotime =
  gt_year :: int
  gt_month :: int
  gt_day :: int
  gt_hour :: int
  gt_minute :: int
  gt_second :: int
  gt_nanos :: int
  gt_offset :: int

definition leap :: "int \<Rightarrow> bool" where
  "leap y \<longleftrightarrow> y mod 4 = 0 \<and> (y mod 100 \<noteq> 0 \<or> y mod 400 = 0)"

definition days_in :: "int \<Rightarrow> int \<Rightarrow> int" where
  "days_in m y = (if m = 2 then (if leap y then 29 else 28) else if m \<in> {4, 6, 9, 11} then 30 else 31)"

fun year4 :: "string \<Rightarrow> (int \<times> string) option" where
  "year4 (a # b # c # d # s) = (if list_all is_digit [a, b, c, d] then Some (number [a, b, c, d], s) else None)"
| "year4 s = None"

text \<open>
  A fraction of the seconds is accepted although the layout has none; digits after the ninth are dropped.
\<close>

definition fraction :: "string \<Rightarrow> int \<times> string" where
  "fraction s =
     (case s of
        c # d # t \<Rightarrow>
          if (c = CHR ''.'' \<or> c = CHR '','') \<and> is_digit d
          then (let ds = takeWhile is_digit (d # t); ns = take 9 ds
                in (number ns * 10 ^ (9 - length ns), dropWhile is_digit (d # t)))
          else (0, s)
      | _ \<Rightarrow> (0, s))"

text \<open>\<open>Z\<close>, or a sign with hours and minutes; Go's parser lets 24 hours and 60 minutes pass.\<close>

definition zone_offset :: "string \<Rightarrow> (int \<times> string) option" where
  "zone_offset s =
     (case s of
        [] \<Rightarrow> None
      | c # t \<Rightarrow>
          if c = CHR ''Z'' then Some (0, t)
          else if c = CHR ''+'' \<or> c = CHR ''-'' then
            obind (getnum True t) (\<lambda>(hh, t).
            obind (skip_char (CHR '':'') t) (\<lambda>t.
            obind (getnum True t) (\<lambda>(mm, t).
              if 24 < hh \<or> 60 < mm then None
              else Some ((if c = CHR ''-'' then -1 else 1) * (60 * hh + mm), t))))
          else None)"

definition parse_rfc3339 :: "string \<Rightarrow> gotime option" where
  "parse_rfc3339 s =
     obind (year4 s) (\<lambda>(year, s).
     obind (skip_char (CHR ''-'') s) (\<lambda>s.
     obind (getnum True s) (\<lambda>(month, s).
     obind (skip_char (CHR ''-'') s) (\<lambda>s.
     obind (getnum True s) (\<lambda>(day, s).
     obind (skip_char (CHR ''T'') s) (\<lambda>s.
     obind (getnum False s) (\<lambda>(hour, s).
     obind (skip_char (CHR '':'') s) (\<lambda>s.
     obind (getnum True s) (\<lambda>(minute, s).
     obind (skip_char (CHR '':'') s) (\<lambda>s.
     obind (getnum True s) (\<lambda>(second, s).
     (case fraction s of (nanos, s) \<Rightarrow>
     obind (zone_offset s) (\<lambda>(offset, s).
       if s = [] \<and> 1 \<le> month \<and> month \<le> 12 \<and> 1 \<le> day \<and> day \<le> days_in month year \<and> hour < 24 \<and> minute < 60 \<and> second < 60
       then Some \<lparr>gt_year = year, gt_month = month, gt_day = day, gt_hour = hour, gt_minute = minute,
          gt_second = second, gt_nanos = nanos, gt_offset = offset\<rparr>
       else None)))))))))))))"

section \<open>Instants\<close>

text \<open>Days since 1970-01-01: the days of the years before, then of the months before.\<close>

definition leaps_before :: "int \<Rightarrow> int" where
  "leaps_before y = (let p = y - 1 in p div 4 - p div 100 + p div 400)"

definition days_since_epoch :: "int \<Rightarrow> int \<Rightarrow> int \<Rightarrow> int" where
  "days_since_epoch y m d =
     365 * (y - 1970) + leaps_before y - leaps_before 1970 + sum_list (map (\<lambda>k. days_in k y) [1..m - 1]) + d - 1"

definition unix_nanos :: "gotime \<Rightarrow> int" where
  "unix_nanos t =
     (((days_since_epoch (gt_year t) (gt_month t) (gt_day t) * 24 + gt_hour t) * 60 + gt_minute t - gt_offset t) * 60
       + gt_second t) * 1000000000 + gt_nanos t"

text \<open>The layout \<open>20060102-150405\<close>.\<close>

definition pad :: "nat \<Rightarrow> int \<Rightarrow> string" where
  "pad w n = (let s = show_int n in replicate (w - length s) (CHR ''0'') @ s)"

definition compact_stamp :: "gotime \<Rightarrow> string" where
  "compact_stamp t = pad 4 (gt_year t) @ pad 2 (gt_month t) @ pad 2 (gt_day t) @ ''-'' @
     pad 2 (gt_hour t) @ pad 2 (gt_minute t) @ pad 2 (gt_second t)"

lemma parse_example:
  "map_option compact_stamp (parse_rfc3339 ''2024-02-29T08:05:09+02:00'') = Some ''20240229-080509''"
  "map_option unix_nanos (parse_rfc3339 ''2024-02-29T08:05:09.5+02:00'') = Some 1709186709500000000"
  "parse_rfc3339 ''2023-02-29T08:05:09Z'' = None"
  by code_simp+

section \<open>Integers\<close>

text \<open>\<open>strconv.ParseInt(s, 10, 64)\<close>: an optional sign and digits, in the range of \<open>int64\<close>.\<close>

definition parse_digits :: "string \<Rightarrow> int option" where
  "parse_digits s = (if s \<noteq> [] \<and> list_all is_digit s then Some (number s) else None)"

definition parse_int64 :: "string \<Rightarrow> int option" where
  "parse_int64 s =
     obind (case s of
        [] \<Rightarrow> None
      | c # t \<Rightarrow> if c = CHR ''+'' then parse_digits t
                else if c = CHR ''-'' then map_option uminus (parse_digits t)
                else parse_digits s)
       (\<lambda>i. if - (2 ^ 63) \<le> i \<and> i < 2 ^ 63 then Some i else None)"

end
