(* ===== verification/Db_Types.thy ===== *)
theory Db_Types
  imports Aws Go_Time
begin

text \<open>
  \<open>functions/database/apis\<close>: the composites of the database group, their statuses, the environment of the
  group, and what is read of the providers' types.
\<close>

abbreviation "XRKindPostgreSQL \<equiv> ''PostgreSQLInstance''"
abbreviation "XRKindMariaDBInstance \<equiv> ''MariaDBInstance''"
abbreviation "XRKindValkey \<equiv> ''ValkeyInstance''"
abbreviation "XRKindPostgreSQLUser \<equiv> ''PostgreSQLUser''"
abbreviation "XRKindMariaDBUser \<equiv> ''MariaDBUser''"
abbreviation "XRKindPostgreSQLDatabase \<equiv> ''PostgreSQLDatabase''"
abbreviation "XRKindMariaDBDatabase \<equiv> ''MariaDBDatabase''"

section \<open>Composites\<close>

text \<open>The fields that \<open>PostgreSQLInstanceSpec\<close> and \<open>MariaDBInstanceSpec\<close> both declare; they have no others.\<close>

record db_instance_spec =
  sp_AllocatedStorage :: rat
  sp_AllowMajorVersionUpgrade :: bool
  sp_AutoMinorVersionUpgrade :: bool
  sp_BackupRetentionPeriod :: "rat option"
  sp_BackupWindow :: string
  sp_DeletionProtection :: bool
  sp_EngineVersion :: "string option"
  sp_InstanceType :: string
  sp_Iops :: rat
  sp_MaintenanceWindow :: string
  sp_MultiAZ :: bool
  sp_ParameterGroupName :: string
  sp_ParameterGroupParameters :: "string gomap option"
  sp_SnapshotIdentifier :: string

text \<open>A \<open>metav1.Condition\<close>: type and status.\<close>

type_synonym condition = "string \<times> string"

record db_instance =
  di_kind :: string
  di_name :: string
  di_namespace :: string
  di_uid :: string
  di_Spec :: db_instance_spec
  di_Conditions :: "condition list"

record PostgreSQLUser =
  pu_kind :: string
  pu_name :: string
  pu_namespace :: string
  pu_Name :: string
  pu_InstanceRef :: string
  pu_Login :: bool
  pu_CreateDb :: bool
  pu_CreateRole :: bool
  pu_Inherit :: bool
  pu_Grant :: "string list option"

record MariaDBUser =
  mu_kind :: string
  mu_name :: string
  mu_namespace :: string
  mu_Name :: string
  mu_InstanceRef :: string
  mu_DatabaseRef :: "string option"
  mu_Table :: "string option"
  mu_Privileges :: "string list"
  mu_MaxConnectionsPerHour :: "int option"
  mu_MaxQueriesPerHour :: "int option"
  mu_MaxUpdatesPerHour :: "int option"
  mu_MaxUserConnections :: "int option"
  mu_Grant :: "string list option"

record PostgreSQLDatabase =
  pd_kind :: string
  pd_name :: string
  pd_namespace :: string
  pd_Name :: string
  pd_Owner :: string
  pd_InstanceRef :: string
  pd_Encoding :: string
  pd_LCCType :: string
  pd_LCCollate :: string
  pd_DBTemplate :: string
  pd_Extensions :: "string list"
  pd_ExtensionConfig :: "string gomap"

record MariaDBDatabase =
  md_kind :: string
  md_name :: string
  md_namespace :: string
  md_Name :: string
  md_InstanceRef :: string
  md_DefaultCharacterSet :: "string option"
  md_DefaultCollation :: "string option"
  md_DeletionProtection :: bool

record ValkeyInstance =
  vk_kind :: string
  vk_name :: string
  vk_namespace :: string
  vk_uid :: string
  vk_EngineVersion :: "string option"
  vk_InstanceType :: string
  vk_NumCacheClusters :: rat
  vk_AutoMinorVersionUpgrade :: bool
  vk_MaintenanceWindow :: string
  vk_SnapshotWindow :: string
  vk_SnapshotRetentionLimit :: rat
  vk_ParameterGroupName :: string
  vk_ParameterGroupParameters :: "string gomap option"

datatype database_composite =
    PostgreSQLInstanceC db_instance
  | MariaDBInstanceC db_instance
  | ValkeyInstanceC ValkeyInstance
  | PostgreSQLUserC PostgreSQLUser
  | MariaDBUserC MariaDBUser
  | PostgreSQLDatabaseC PostgreSQLDatabase
  | MariaDBDatabaseC MariaDBDatabase

text \<open>
  The objects a handler returns. \<open>None\<close> is a nil \<open>client.Object\<close>, which the RDS generator puts under the
  name of the external secret as long as it cannot build one.
\<close>

type_synonym db_object = "gobject option"

section \<open>Statuses\<close>

text \<open>
  \<open>PostgreSQLInstanceStatus\<close> (\<open>'b\<close> is \<open>bool\<close>) and \<open>MariaDBInstanceStatus\<close> (\<open>'b\<close> is \<open>bool option\<close>) differ in the type
  of three fields. Times are in nanoseconds since 1970.
\<close>

record 'b db_instance_status =
  st_AllowMajorVersionUpgrade :: 'b
  st_AutoMinorVersionUpgrade :: 'b
  st_BackupWindow :: string
  st_DBInstanceIdentifier :: string
  st_Address :: string
  st_HostedZoneID :: string
  st_Port :: rat
  st_FinalSnapshotIdentifier :: string
  st_Iops :: rat
  st_KMSKeyID :: string
  st_LatestRestorableTime :: "int option"
  st_MaintenanceWindow :: string
  st_ParameterGroupName :: string
  st_ResourceID :: string
  st_SnapshotIdentifier :: string
  st_Status :: string
  st_StorageEncrypted :: 'b
  st_StorageThroughput :: rat
  st_StorageType :: string
  st_VpcSecurityGroupIds :: "string list"

record ValkeyInstanceStatus =
  vs_Endpoint :: "(string \<times> rat) option"
  vs_AutoMinorVersionUpgrade :: bool
  vs_KMSKeyID :: string
  vs_MultiAZEnabled :: bool
  vs_ParameterGroupName :: string

record ValkeyInstanceSecurityGroup =
  vg_Name :: string
  vg_Description :: string
  vg_ID :: string
  vg_Arn :: string

record ValkeyInstanceSecurityGroupRule =
  vgr_CidrBlocks :: "string list"
  vgr_Description :: string
  vgr_FromPort :: int
  vgr_ToPort :: int
  vgr_Protocol :: string
  vgr_Self :: bool
  vgr_Type :: string

section \<open>What is read of the providers' types\<close>

text \<open>An \<open>rds Instance\<close>: its name, the engine of the spec, and \<open>status.atProvider\<close>.\<close>

record rds_observation =
  ro_Name :: string
  ro_Engine :: "string option"
  ro_AllocatedStorage :: "rat option"
  ro_AllowMajorVersionUpgrade :: "bool option"
  ro_AutoMinorVersionUpgrade :: "bool option"
  ro_BackupWindow :: "string option"
  ro_Address :: "string option"
  ro_HostedZoneID :: "string option"
  ro_Port :: "rat option"
  ro_EngineVersion :: "string option"
  ro_FinalSnapshotIdentifier :: "string option"
  ro_InstanceClass :: "string option"
  ro_Iops :: "rat option"
  ro_KMSKeyID :: "string option"
  ro_LatestRestorableTime :: "string option"
  ro_MaintenanceWindow :: "string option"
  ro_MultiAz :: "bool option"
  ro_ParameterGroupName :: "string option"
  ro_ResourceID :: "string option"
  ro_Status :: "string option"
  ro_SnapshotIdentifier :: "string option"
  ro_StorageEncrypted :: "bool option"
  ro_StorageThroughput :: "rat option"
  ro_StorageType :: "string option"
  ro_VPCSecurityGroupIds :: "string option list"

record replication_group_observation =
  go_AutoMinorVersionUpgrade :: "string option"
  go_KMSKeyID :: "string option"
  go_MultiAzEnabled :: "bool option"
  go_ParameterGroupName :: "string option"
  go_PrimaryEndpointAddress :: "string option"
  go_Port :: "rat option"

record security_group_observation =
  so_Tags :: "string option gomap"
  so_Description :: "string option"
  so_ID :: "string option"
  so_Arn :: "string option"

record security_rule_observation =
  sro_CidrBlocks :: "string option list"
  sro_Description :: "string option"
  sro_Protocol :: "string option"
  sro_Type :: "string option"
  sro_FromPort :: "rat option"
  sro_ToPort :: "rat option"
  sro_Self :: "bool option"

text \<open>A provider-sql \<open>Role\<close> or \<open>Database\<close>: name and conditions.\<close>

record sql_ref =
  sq_name :: string
  sq_Conditions :: "condition list"

fun ready_condition_loop :: "condition list \<Rightarrow> bool" where
  "ready_condition_loop [] = False"
| "ready_condition_loop ((type, status) # cs) =
     (if type = ''Ready'' \<and> status = ''True'' then True else ready_condition_loop cs)"

lemma ready_condition_loop_iff [simp]: "ready_condition_loop cs \<longleftrightarrow> (''Ready'', ''True'') \<in> set cs"
  by (induction cs rule: ready_condition_loop.induct) auto

section \<open>The environment\<close>

record database_Environment =
  de_AWSProvider :: string
  de_DataKMSKey :: string
  de_ConfigKMSKey :: string
  de_VPC :: string
  de_SubnetGroup :: string
  de_ElasticacheSubnetGroup :: string
  de_EsClusterSecretStore :: string
  de_PostgresBackupBeforeDeletion :: "bool option"
  de_MariaDBBackupBeforeDeletion :: "bool option"
  de_ValkeyBackupBeforeDeletion :: "bool option"
  de_BackupRetentionPeriod :: "rat option"
  de_Tags :: "string option gomap"

definition zero_database_Environment :: database_Environment where
  "zero_database_Environment = \<lparr>de_AWSProvider = '''', de_DataKMSKey = '''', de_ConfigKMSKey = '''', de_VPC = '''',
     de_SubnetGroup = '''', de_ElasticacheSubnetGroup = '''', de_EsClusterSecretStore = '''',
     de_PostgresBackupBeforeDeletion = None, de_MariaDBBackupBeforeDeletion = None,
     de_ValkeyBackupBeforeDeletion = None, de_BackupRetentionPeriod = None, de_Tags = []\<rparr>"

definition database_Environment_Validate :: "database_Environment \<Rightarrow> unit res" where
  "database_Environment_Validate e =
     refuse (de_AWSProvider e = '''') ''awsProvider is required''
    (refuse (de_VPC e = '''') ''vpc is required''
    (refuse (de_SubnetGroup e = '''') ''subnetGroup is required''
    (refuse (de_ElasticacheSubnetGroup e = '''') ''elasticacheSubnetGroup is required''
    (refuse (de_EsClusterSecretStore e = '''') ''esClusterSecretStore is required''
    (refuse (de_BackupRetentionPeriod e = None) ''backupRetentionPeriod is required'' valid)))))"

text \<open>
  \<open>Validate\<close> also sets the three backup flags that are nil. It runs right after the conversion, and its checks
  do not read the flags, so that setting them with the conversion is the same.
\<close>

definition default_true :: "bool option \<Rightarrow> bool option" where
  "default_true p = (case p of None \<Rightarrow> Some True | Some b \<Rightarrow> Some b)"

definition database_Environment_defaults :: "database_Environment \<Rightarrow> database_Environment" where
  "database_Environment_defaults e =
     e\<lparr>de_PostgresBackupBeforeDeletion := default_true (de_PostgresBackupBeforeDeletion e),
       de_MariaDBBackupBeforeDeletion := default_true (de_MariaDBBackupBeforeDeletion e),
       de_ValkeyBackupBeforeDeletion := default_true (de_ValkeyBackupBeforeDeletion e)\<rparr>"

text \<open>The conversions at the types of this group; \<open>dx_remove_field\<close> is \<open>unstructured.RemoveNestedField\<close>.\<close>

record db_ext =
  dx_pg_instance :: "object \<Rightarrow> db_instance res"
  dx_mariadb_instance :: "object \<Rightarrow> db_instance res"
  dx_valkey_instance :: "object \<Rightarrow> ValkeyInstance res"
  dx_pg_user :: "object \<Rightarrow> PostgreSQLUser res"
  dx_mariadb_user :: "object \<Rightarrow> MariaDBUser res"
  dx_pg_database :: "object \<Rightarrow> PostgreSQLDatabase res"
  dx_mariadb_database :: "object \<Rightarrow> MariaDBDatabase res"
  dx_environment :: "database_Environment decoder"
  dx_vpc :: "object \<Rightarrow> vpc_ref res"
  dx_kms :: "object \<Rightarrow> key_ref res"
  dx_subnet_group :: "object \<Rightarrow> (string \<times> string) res"
  dx_cache_subnet_group :: "object \<Rightarrow> string option res"
  dx_subnet :: "object \<Rightarrow> (string \<times> string option) res"
  dx_role :: "object \<Rightarrow> sql_ref res"
  dx_sql_database :: "object \<Rightarrow> sql_ref res"
  dx_rds :: "object \<Rightarrow> rds_observation res"
  dx_replication_group :: "object \<Rightarrow> replication_group_observation res"
  dx_security_group :: "object \<Rightarrow> security_group_observation res"
  dx_security_rule :: "object \<Rightarrow> security_rule_observation res"
  dx_pg_status :: "bool db_instance_status \<Rightarrow> object res"
  dx_mariadb_status :: "bool option db_instance_status \<Rightarrow> object res"
  dx_valkey_status :: "ValkeyInstanceStatus \<Rightarrow> object res"
  dx_sg_status :: "ValkeyInstanceSecurityGroup \<Rightarrow> object res"
  dx_sgr_status :: "ValkeyInstanceSecurityGroupRule \<Rightarrow> object res"
  dx_provider_config :: "kobject \<Rightarrow> object res"
  dx_remove_field :: "object \<Rightarrow> string list \<Rightarrow> object"

definition database_GetEnvironment :: "ext \<Rightarrow> db_ext \<Rightarrow> required \<Rightarrow> database_Environment res" where
  "database_GetEnvironment X D required =
     GetEnvironment X (\<lambda>data. apfst database_Environment_defaults (dx_environment D data))
       (\<lambda>e. failure_of (database_Environment_Validate e)) zero_database_Environment EnvironmentKey required"

text \<open>\<open>int(x)\<close> of a \<open>float64\<close> in range: towards zero.\<close>

definition float_to_int :: "rat \<Rightarrow> int" where
  "float_to_int x = (if 0 \<le> x then \<lfloor>x\<rfloor> else \<lceil>x\<rceil>)"

end
