(* ===== verification/Db_Rds.thy ===== *)
theory Db_Rds
  imports Db_Types
begin

text \<open>
  \<open>functions/database/service/instance_common.go\<close> with \<open>pg_instance.go\<close> and \<open>mariadb_instance.go\<close>: an RDS
  instance of one of the two engines with its security group, parameter group, SQL provider config and the
  external secret that copies its credentials. An instance whose snapshot identifier changes is dropped in one
  run and created anew in the next; parameter groups of other families are kept until the instance has switched.
\<close>

record db_resource_names =
  dn_sg :: string
  dn_sgIngress :: string
  dn_sgEgress :: string
  dn_rdsInstance :: string
  dn_finalSnapshot :: string
  dn_es :: string
  dn_pc :: string

record instance_common =
  ic_name :: string
  ic_namespace :: string
  ic_uid :: string
  ic_engine :: string
  ic_engineTitle :: string
  ic_engineVersion :: "string option"
  ic_parameterGroupName :: string
  ic_parameterGroupParameters :: "string gomap option"
  ic_snapshotIdentifier :: string
  ic_allocatedStorage :: rat
  ic_instanceType :: string
  ic_iops :: rat
  ic_multiAZ :: bool
  ic_maintenanceWindow :: string

text \<open>Exactly one of the generator's pointers \<open>pgInstance\<close> and \<open>mariaDBInstance\<close> is set.\<close>

datatype engine_instance = PgEngine (engine_cr: db_instance) | MariaDBEngine (engine_cr: db_instance)

record rds_generator =
  rg_instance :: engine_instance
  rg_common :: instance_common
  rg_observed :: observed
  rg_env :: database_Environment
  rg_hash :: string
  rg_vpc :: vpc_ref
  rg_kmsDataKey :: key_ref
  rg_kmsConfigKey :: key_ref
  rg_subnetGroup :: "string \<times> string"
  rg_names :: db_resource_names
  rg_readinessMap :: "(string \<times> bool) list"
  rg_engineVersionActual :: "string option"

definition newPgInstanceCommon :: "db_instance \<Rightarrow> instance_common" where
  "newPgInstanceCommon i =
     (let s = di_Spec i in
      \<lparr>ic_name = di_name i, ic_namespace = di_namespace i, ic_uid = di_uid i, ic_engine = ''postgres'', ic_engineTitle = ''PostgreSQL'',
       ic_engineVersion = sp_EngineVersion s, ic_parameterGroupName = sp_ParameterGroupName s,
       ic_parameterGroupParameters = sp_ParameterGroupParameters s, ic_snapshotIdentifier = sp_SnapshotIdentifier s,
       ic_allocatedStorage = sp_AllocatedStorage s, ic_instanceType = sp_InstanceType s, ic_iops = sp_Iops s,
       ic_multiAZ = sp_MultiAZ s, ic_maintenanceWindow = sp_MaintenanceWindow s\<rparr>)"

definition newMariaDBInstanceCommon :: "db_instance \<Rightarrow> instance_common" where
  "newMariaDBInstanceCommon i =
     (let s = di_Spec i in
      \<lparr>ic_name = di_name i, ic_namespace = di_namespace i, ic_uid = di_uid i, ic_engine = ''mariadb'', ic_engineTitle = ''MariaDB'',
       ic_engineVersion = sp_EngineVersion s, ic_parameterGroupName = sp_ParameterGroupName s,
       ic_parameterGroupParameters = sp_ParameterGroupParameters s, ic_snapshotIdentifier = sp_SnapshotIdentifier s,
       ic_allocatedStorage = sp_AllocatedStorage s, ic_instanceType = sp_InstanceType s, ic_iops = sp_Iops s,
       ic_multiAZ = sp_MultiAZ s, ic_maintenanceWindow = sp_MaintenanceWindow s\<rparr>)"

section \<open>Names\<close>

definition db_GetSGName :: "ext \<Rightarrow> string \<Rightarrow> string \<Rightarrow> string" where
  "db_GetSGName X name hash = GenerateEligibleKubernetesFullName X (name @ ''-sg-'' @ hash)"

definition db_GetSGIngressName :: "ext \<Rightarrow> string \<Rightarrow> string \<Rightarrow> string" where
  "db_GetSGIngressName X name hash = GenerateEligibleKubernetesFullName X (name @ ''-sg-ingress-'' @ hash)"

definition db_GetSGEgressName :: "ext \<Rightarrow> string \<Rightarrow> string \<Rightarrow> string" where
  "db_GetSGEgressName X name hash = GenerateEligibleKubernetesFullName X (name @ ''-sg-egress-'' @ hash)"

definition GetRDSInstanceName :: "ext \<Rightarrow> string \<Rightarrow> string \<Rightarrow> string" where
  "GetRDSInstanceName X name hash = GenerateEligibleKubernetesFullName X (name @ ''-instance-'' @ hash)"

definition GetRDSInstanceFinalSnapshotName :: "ext \<Rightarrow> string \<Rightarrow> string \<Rightarrow> string" where
  "GetRDSInstanceFinalSnapshotName X name hash = GenerateEligibleKubernetesFullName X (name @ ''-instance-snapshot-'' @ hash)"

definition GetESName :: "ext \<Rightarrow> string \<Rightarrow> string \<Rightarrow> string" where
  "GetESName X name hash = GenerateEligibleKubernetesFullName X (name @ ''-es-'' @ hash)"

definition GetPCName :: "ext \<Rightarrow> string \<Rightarrow> string" where
  "GetPCName X name = GenerateEligibleKubernetesFullName X (name @ ''-providerconfig'')"

definition dbadmin_secret :: "ext \<Rightarrow> string \<Rightarrow> string" where
  "dbadmin_secret X name = GenerateEligibleKubernetesFullName X (name @ ''-dbadmin'')"

definition db_generateNames :: "ext \<Rightarrow> string \<Rightarrow> string \<Rightarrow> db_resource_names" where
  "db_generateNames X name hash =
     \<lparr>dn_sg = db_GetSGName X name hash, dn_sgIngress = db_GetSGIngressName X name hash,
      dn_sgEgress = db_GetSGEgressName X name hash, dn_rdsInstance = GetRDSInstanceName X name hash,
      dn_finalSnapshot = GetRDSInstanceFinalSnapshotName X name hash, dn_es = GetESName X name hash,
      dn_pc = GetPCName X name\<rparr>"

definition enginePort :: "string \<Rightarrow> rat" where
  "enginePort engine = (if engine = ''mariadb'' then 3306 else 5432)"

definition computeFamily :: "string \<Rightarrow> string option \<Rightarrow> string option \<Rightarrow> string option" where
  "computeFamily engine engineVersion engineVersionActual =
     (case (case engineVersion of None \<Rightarrow> engineVersionActual | Some v \<Rightarrow> Some v) of
        None \<Rightarrow> None
      | Some v \<Rightarrow>
          (let parts = split_on (CHR ''.'') v in
           if engine = ''mariadb''
           then (if length parts < 2 then None else Some (engine @ parts ! 0 @ ''.'' @ parts ! 1))
           else Some (engine @ parts ! 0)))"

section \<open>The existing secret\<close>

text \<open>The loop over the owner references: one of kind ExternalSecret with the expected name.\<close>

definition text_at :: "ext \<Rightarrow> object \<Rightarrow> string list \<Rightarrow> string" where
  "text_at X ob path = (case found (nested_string X ob path) of None \<Rightarrow> '''' | Some s \<Rightarrow> s)"

fun owner_loop :: "ext \<Rightarrow> string \<Rightarrow> json list \<Rightarrow> bool" where
  "owner_loop X expected [] = False"
| "owner_loop X expected (JObj owner # owners) =
     (if text_at X owner [''kind''] = ''ExternalSecret'' \<and> text_at X owner [''name''] = expected then True
      else owner_loop X expected owners)"
| "owner_loop X expected (v # owners) = owner_loop X expected owners"

definition in_quotes :: "string \<Rightarrow> string" where
  "in_quotes s = CHR 0x27 # s @ [CHR 0x27]"

definition conflict_text :: "string \<Rightarrow> instance_common \<Rightarrow> string \<Rightarrow> string" where
  "conflict_text secretName c es =
     ''naming conflict: a Secret named '' @ in_quotes secretName @ '' already exists in namespace '' @
     in_quotes (ic_namespace c) @ '' but is not managed by '' @ in_quotes (ic_name c) @
     '' Instance ExternalSecret ('' @ in_quotes es @ '')''"

definition checkSecretConflict :: "ext \<Rightarrow> instance_common \<Rightarrow> string \<Rightarrow> required \<Rightarrow> unit res" where
  "checkSecretConflict X c es required =
     (let secretName = dbadmin_secret X (ic_name c) in
      case gslice required ''Secret'' of
        [] \<Rightarrow> Inr ()
      | conflicting # rest \<Rightarrow>
          bindr (deref conflicting) (\<lambda>secret.
          bindr (wrapf (''cannot read owner references from existing Secret '' @ in_quotes secretName)
              (nested_slice X secret [''metadata'', ''ownerReferences''])) (\<lambda>owners.
            if owner_loop X es (case owners of None \<Rightarrow> [] | Some os \<Rightarrow> os) then Inr ()
            else Inl (Error (conflict_text secretName c es)))))"

definition newRDSInstanceGenerator ::
  "ext \<Rightarrow> db_ext \<Rightarrow> engine_instance \<Rightarrow> instance_common \<Rightarrow> required \<Rightarrow> observed \<Rightarrow> rds_generator res" where
  "newRDSInstanceGenerator X D inst c required observed =
     bindr (database_GetEnvironment X D required) (\<lambda>env.
     bindr (ExtractRequiredResource required ''VPC'' (dx_vpc D)) (\<lambda>vpc.
     bindr (ExtractOptionalResource required ''KMSDataKey'' (dx_kms D)) (\<lambda>kmsDataKey.
     bindr (ExtractOptionalResource required ''KMSConfigKey'' (dx_kms D)) (\<lambda>kmsConfigKey.
     bindr (ExtractRequiredResource required ''DBSubnetGroup'' (dx_subnet_group D)) (\<lambda>subnetGroup.
     (let hash = GenerateFNVHash (ic_uid c); names = db_generateNames X (ic_name c) hash in
     bindr (checkSecretConflict X c (dn_es names) required) (\<lambda>u.
     bindr (readiness_loop X observed []) (\<lambda>readinessMap.
       Inr \<lparr>rg_instance = inst, rg_common = c, rg_observed = observed, rg_env = env, rg_hash = hash, rg_vpc = vpc,
            rg_kmsDataKey = optional_key kmsDataKey, rg_kmsConfigKey = optional_key kmsConfigKey, rg_subnetGroup = subnetGroup,
            rg_names = names, rg_readinessMap = readinessMap, rg_engineVersionActual = None\<rparr>))))))))"

text \<open>The engine version that the observed instance runs, read by both \<open>Generate\<close> functions.\<close>

definition version_at :: "ext \<Rightarrow> observed \<Rightarrow> string \<Rightarrow> string option res" where
  "version_at X observed name =
     (case map_of observed name of
        None \<Rightarrow> Inr None
      | Some oc \<Rightarrow> bindr (deref (oc_resource oc)) (\<lambda>ob.
          case found (nested_string X ob [''status'', ''atProvider'', ''engineVersionActual'']) of
            None \<Rightarrow> Inr None
          | Some v \<Rightarrow> Inr (if v \<noteq> '''' then Some v else None)))"

section \<open>Security group\<close>

definition rds_rule :: "rds_generator \<Rightarrow> string \<Rightarrow> string \<Rightarrow> rat \<Rightarrow> string \<Rightarrow> kobject" where
  "rds_rule g name direction port protocol =
     security_rule name (ic_namespace (rg_common g)) (de_AWSProvider (rg_env g)) (rg_vpc g) (dn_sg (rg_names g))
       direction port protocol [''0.0.0.0/0''] ''allow traffic from vpc''"

definition db_buildSecurityGroup :: "rds_generator \<Rightarrow> db_object gomap" where
  "db_buildSecurityGroup g =
     (let n = rg_names g;
          groups = gset (dn_sg n) (Some (Typed (security_group (dn_sg n) (ic_namespace (rg_common g))
            (de_AWSProvider (rg_env g)) (rg_vpc g) ''allow traffic from vpc''))) [];
          groups = gset (dn_sgIngress n) (Some (Typed (rds_rule g (dn_sgIngress n) ''ingress''
            (enginePort (ic_engine (rg_common g))) ''tcp''))) groups
      in gset (dn_sgEgress n) (Some (Typed (rds_rule g (dn_sgEgress n) ''egress'' 0 ''-1''))) groups)"

section \<open>SQL provider configs\<close>

definition sql_provider_config :: "string \<Rightarrow> string \<Rightarrow> string \<Rightarrow> string \<Rightarrow> string \<Rightarrow> string \<times> gval \<Rightarrow> kobject" where
  "sql_provider_config apiVersion name ns source secretName tls =
     \<lparr>k_type = ''ProviderConfig'', k_apiVersion = apiVersion, k_kind = ''ProviderConfig'', k_name = name, k_namespace = ns,
      k_labels = [], k_annotations = [],
      k_fields = [(''Spec'', VObj [(''Credentials'', VObj [(''Source'', VStr source),
        (''ConnectionSecretRef'', name_ref secretName)]), tls])]\<rparr>"

definition pgSqlApiVersion :: string where "pgSqlApiVersion = ''postgresql.sql.m.crossplane.io/v1alpha1''"
definition mySqlApiVersion :: string where "mySqlApiVersion = ''mysql.sql.m.crossplane.io/v1alpha1''"

definition buildPgSqlProviderConfig :: "ext \<Rightarrow> rds_generator \<Rightarrow> db_instance \<Rightarrow> kobject" where
  "buildPgSqlProviderConfig X g i =
     sql_provider_config pgSqlApiVersion (dn_pc (rg_names g)) (di_namespace i) ''PostgreSQLConnectionSecret''
       (dbadmin_secret X (di_name i)) (''SSLMode'', VStr ''require'')"

text \<open>The zero \<open>tlsConfig\<close> is removed from the converted object; if it does not convert, the typed object is used.\<close>

definition buildMariaDBSqlProviderConfig :: "ext \<Rightarrow> db_ext \<Rightarrow> rds_generator \<Rightarrow> db_instance \<Rightarrow> gobject res" where
  "buildMariaDBSqlProviderConfig X D g i =
     (let config = sql_provider_config mySqlApiVersion (dn_pc (rg_names g)) (di_namespace i) ''MySQLConnectionSecret''
        (dbadmin_secret X (di_name i)) (''TLS'', VStr ''preferred'')
      in case dx_provider_config D config of
           Inl (Panic p) \<Rightarrow> Inl (Panic p)
         | Inl (Error e) \<Rightarrow> Inr (Typed config)
         | Inr obj \<Rightarrow> Inr (Dynamic (dx_remove_field D obj [''spec'', ''tlsConfig''])))"

definition buildProviderConfig :: "ext \<Rightarrow> db_ext \<Rightarrow> rds_generator \<Rightarrow> gobject res" where
  "buildProviderConfig X D g =
     (case rg_instance g of
        MariaDBEngine i \<Rightarrow> buildMariaDBSqlProviderConfig X D g i
      | PgEngine i \<Rightarrow> Inr (Typed (buildPgSqlProviderConfig X g i)))"

section \<open>Parameter groups\<close>

definition parameterGroupKeyPrefix :: string where "parameterGroupKeyPrefix = ''parameter-group-''"
definition parameterGroupApplyMethodKey :: string where "parameterGroupApplyMethodKey = ''applyMethod''"
definition rdsApiVersion :: string where "rdsApiVersion = ''rds.aws.m.upbound.io/v1beta1''"

fun parameter_loop :: "string \<Rightarrow> string gomap \<Rightarrow> gval list" where
  "parameter_loop applyMethod [] = []"
| "parameter_loop applyMethod ((key, value) # parameters) =
     (if key = parameterGroupApplyMethodKey then parameter_loop applyMethod parameters
      else VObj [(''ApplyMethod'', VStr applyMethod), (''Name'', VStr key), (''Value'', VStr value)] #
        parameter_loop applyMethod parameters)"

definition group_name :: "ext \<Rightarrow> string \<Rightarrow> string \<Rightarrow> string \<Rightarrow> string" where
  "group_name X name family hash =
     GenerateEligibleKubernetesFullName X (name @ ''-parameterGroup-'' @ family @ ''-'' @ hash)"

text \<open>The group, and the value that \<open>g.parameterGroupName\<close> takes.\<close>

definition db_buildParameterGroup :: "ext \<Rightarrow> rds_generator \<Rightarrow> string gomap \<Rightarrow> string \<Rightarrow> kobject \<times> string" where
  "db_buildParameterGroup X g parameters family =
     (let c = rg_common g;
          pgName = group_name X (ic_name c) family (rg_hash g);
          chosen = gget parameters parameterGroupApplyMethodKey;
          applyMethod = (if chosen \<noteq> '''' then chosen else ''immediate'')
      in (aws_object rdsApiVersion ''ParameterGroup'' pgName '''' (de_AWSProvider (rg_env g))
            [(''Region'', str_ptr (vr_region (rg_vpc g))), (''Family'', VStr family),
             (''Description'', VStr (''Parameter group for '' @ ic_engineTitle c @ '' '' @ ic_name c)),
             (''Parameter'', VList (parameter_loop applyMethod parameters)),
             (''Tags'', ptr_map_val (de_Tags (rg_env g)))],
          pgName))"

text \<open>
  A copy of an observed parameter group with its spec and an empty \<open>status.atProvider\<close>. The errors of
  \<open>SetNestedMap\<close> are dropped; a failed set leaves the object as it is.
\<close>

definition set_or_keep :: "ext \<Rightarrow> object \<Rightarrow> object \<Rightarrow> string \<Rightarrow> object" where
  "set_or_keep X obj v f = (case set_nested_map X obj v [f] of Inr obj' \<Rightarrow> obj' | Inl e \<Rightarrow> obj)"

definition staleParameterGroup :: "ext \<Rightarrow> object \<Rightarrow> object \<Rightarrow> object" where
  "staleParameterGroup X ob spec =
     (let obj = set_api_version X [] (get_api_version X ob);
          obj = set_kind X obj (get_kind X ob);
          obj = set_name X obj (get_name X ob);
          obj = set_or_keep X obj spec ''spec''
      in set_or_keep X obj [(''atProvider'', JObj [])] ''status'')"

definition switchedTo :: "ext \<Rightarrow> observed \<Rightarrow> string \<Rightarrow> string \<Rightarrow> bool res" where
  "switchedTo X observed name parameterGroupName =
     (case map_of observed name of
        None \<Rightarrow> Inr False
      | Some oc \<Rightarrow> bindr (deref (oc_resource oc)) (\<lambda>ob.
          case found (nested_string X ob [''status'', ''atProvider'', ''parameterGroupName'']) of
            None \<Rightarrow> Inr False
          | Some applied \<Rightarrow> Inr (applied \<noteq> '''' \<and> applied = parameterGroupName)))"

fun stale_group_loop :: "ext \<Rightarrow> string \<Rightarrow> observed \<Rightarrow> db_object gomap \<Rightarrow> db_object gomap res" where
  "stale_group_loop X currentKey [] objects = Inr objects"
| "stale_group_loop X currentKey ((name, oc) # observed) objects =
     (if name = currentKey \<or> \<not> prefix parameterGroupKeyPrefix name then stale_group_loop X currentKey observed objects
      else bindr (deref (oc_resource oc)) (\<lambda>ob.
        case found (nested_map X ob [''spec'']) of
          None \<Rightarrow> stale_group_loop X currentKey observed objects
        | Some spec \<Rightarrow> stale_group_loop X currentKey observed
            (gset name (Some (Dynamic (staleParameterGroup X ob spec))) objects)))"

definition keepStaleParameterGroups ::
  "ext \<Rightarrow> observed \<Rightarrow> string \<Rightarrow> string \<Rightarrow> string \<Rightarrow> db_object gomap \<Rightarrow> db_object gomap res" where
  "keepStaleParameterGroups X observed owner parameterGroupName family objects =
     bindr (switchedTo X observed owner parameterGroupName) (\<lambda>switched.
       if switched then Inr objects else stale_group_loop X (parameterGroupKeyPrefix @ family) observed objects)"

text \<open>The desired objects, and \<open>g.parameterGroupName\<close>.\<close>

definition applyParameterGroup ::
  "ext \<Rightarrow> rds_generator \<Rightarrow> db_object gomap \<Rightarrow> (db_object gomap \<times> string) res" where
  "applyParameterGroup X g desired =
     (let c = rg_common g in
      case ic_parameterGroupParameters c of
        None \<Rightarrow> Inr (desired, '''')
      | Some parameters \<Rightarrow>
          if ic_parameterGroupName c \<noteq> '''' then
            Inl (Error (ic_engineTitle c @ '' instance may have parameterGroupName or parameterGroupParameters, not both''))
          else case computeFamily (ic_engine c) (ic_engineVersion c) (rg_engineVersionActual g) of
            None \<Rightarrow> Inr (desired, '''')
          | Some family \<Rightarrow>
              (case db_buildParameterGroup X g parameters family of (pg, pgName) \<Rightarrow>
                 bindr (keepStaleParameterGroups X (rg_observed g) (dn_rdsInstance (rg_names g)) pgName family
                     (gset (parameterGroupKeyPrefix @ family) (Some (Typed pg)) desired)) (\<lambda>desired.
                   Inr (desired, pgName))))"

section \<open>The instance\<close>

definition resolveAvailabilityZone :: "ext \<Rightarrow> rds_generator \<Rightarrow> string option res" where
  "resolveAvailabilityZone X g =
     (if ic_multiAZ (rg_common g) then Inr None
      else case map_of (rg_observed g) (dn_rdsInstance (rg_names g)) of
        None \<Rightarrow> Inr None
      | Some oc \<Rightarrow> bindr (deref (oc_resource oc)) (\<lambda>ob.
          let az = text_at X ob [''status'', ''atProvider'', ''availabilityZone'']
          in Inr (if az = '''' then None else Some az)))"

definition kmsRefs :: "rds_generator \<Rightarrow> gval \<times> gval" where
  "kmsRefs g =
     (let ref = (\<lambda>k. if kr_Name k \<noteq> '''' then namespaced_ref (kr_Name k) (kr_Namespace k) else VNil)
      in (ref (rg_kmsDataKey g), ref (rg_kmsConfigKey g)))"

definition getInstanceCreationTimestampSuffix :: "ext \<Rightarrow> object option \<Rightarrow> string" where
  "getInstanceCreationTimestampSuffix X inst =
     (case inst of
        None \<Rightarrow> ''''
      | Some ob \<Rightarrow>
          (case parse_rfc3339 (text_at X ob [''metadata'', ''creationTimestamp'']) of
             None \<Rightarrow> '''' | Some t \<Rightarrow> ''-'' @ compact_stamp t))"

definition paramChanged :: "'a option \<Rightarrow> 'a \<Rightarrow> bool" where
  "paramChanged observed desired \<longleftrightarrow> (case observed of None \<Rightarrow> False | Some x \<Rightarrow> x \<noteq> desired)"

definition rdsNeedsApplyImmediately :: "db_ext \<Rightarrow> object option \<Rightarrow> instance_common \<Rightarrow> bool res" where
  "rdsNeedsApplyImmediately D inst c =
     bindr (deref inst) (\<lambda>ob.
       case dx_rds D ob of
         Inl (Panic p) \<Rightarrow> Inl (Panic p)
       | Inl (Error e) \<Rightarrow> Inr False
       | Inr obs \<Rightarrow> Inr
           (paramChanged (ro_AllocatedStorage obs) (ic_allocatedStorage c) \<or>
            (case ic_engineVersion c of None \<Rightarrow> False | Some v \<Rightarrow> paramChanged (ro_EngineVersion obs) v) \<or>
            paramChanged (ro_InstanceClass obs) (ic_instanceType c) \<or>
            (ic_iops c \<noteq> 0 \<and> paramChanged (ro_Iops obs) (ic_iops c)) \<or>
            (ro_MultiAz obs = Some True) \<noteq> ic_multiAZ c \<or>
            (ic_maintenanceWindow c \<noteq> '''' \<and> paramChanged (ro_MaintenanceWindow obs) (ic_maintenanceWindow c)) \<or>
            (ic_parameterGroupName c \<noteq> '''' \<and> paramChanged (ro_ParameterGroupName obs) (ic_parameterGroupName c))))"

text \<open>
  What both engines put into the instance. \<open>engine\<close> is the engine and database name, \<open>backup\<close> the environment's
  flag for it; a nil flag panics when it is dereferenced.
\<close>

definition text_unless_empty :: "string \<Rightarrow> gval" where
  "text_unless_empty s = (if s \<noteq> '''' then VStr s else VNil)"

definition parameter_group_of :: "rds_generator \<Rightarrow> string \<Rightarrow> db_instance_spec \<Rightarrow> string \<Rightarrow> gval" where
  "parameter_group_of g engine s parameterGroupName =
     (if parameterGroupName \<noteq> '''' then VStr parameterGroupName
      else if sp_ParameterGroupName s \<noteq> '''' then VStr (sp_ParameterGroupName s)
      else opt_val (\<lambda>family. VStr (''default.'' @ family)) (computeFamily engine (sp_EngineVersion s) (rg_engineVersionActual g)))"

definition rds_parameters ::
  "rds_generator \<Rightarrow> string \<Rightarrow> db_instance_spec \<Rightarrow> string \<Rightarrow> bool \<Rightarrow> string option \<Rightarrow> bool \<Rightarrow> string \<Rightarrow> (string \<Rightarrow> string) \<Rightarrow>
   (string \<times> gval) list" where
  "rds_parameters g engine s parameterGroupName backup availabilityZone applyImmediately finalSnapshot optionGroup =
     (let n = rg_names g; env = rg_env g; kms = kmsRefs g;
          retention = (case sp_BackupRetentionPeriod s of None \<Rightarrow> de_BackupRetentionPeriod env | Some r \<Rightarrow> Some r)
      in [(''AllocatedStorage'', VFloat (sp_AllocatedStorage s)), (''ApplyImmediately'', VBool applyImmediately),
          (''AllowMajorVersionUpgrade'', VBool (sp_AllowMajorVersionUpgrade s)),
          (''AutoMinorVersionUpgrade'', VBool (sp_AutoMinorVersionUpgrade s)),
          (''AvailabilityZone'', str_ptr availabilityZone), (''BackupRetentionPeriod'', opt_val VFloat retention),
          (''DBName'', VStr engine),
          (''DBSubnetGroupNameRef'', namespaced_ref (fst (rg_subnetGroup g)) (snd (rg_subnetGroup g))),
          (''DeletionProtection'', VBool (sp_DeletionProtection s)), (''Engine'', VStr engine),
          (''EngineVersion'', str_ptr (sp_EngineVersion s)), (''FinalSnapshotIdentifier'', VStr finalSnapshot),
          (''Identifier'', VStr (dn_rdsInstance n)), (''InstanceClass'', VStr (sp_InstanceType s)),
          (''KMSKeyIDRef'', fst kms), (''ManageMasterUserPassword'', VBool True), (''MasterUserSecretKMSKeyIDRef'', snd kms),
          (''MultiAz'', VBool (sp_MultiAZ s)), (''PerformanceInsightsEnabled'', VBool False), (''PubliclyAccessible'', VBool False),
          (''Region'', str_ptr (vr_region (rg_vpc g))), (''SkipFinalSnapshot'', VBool (\<not> backup)), (''StorageType'', VStr ''gp3''),
          (''StorageEncrypted'', VBool True), (''Tags'', ptr_map_val (de_Tags env)), (''Username'', VStr ''dbadmin''),
          (''VPCSecurityGroupIDRefs'', VList [name_ref (dn_sg n)]),
          (''BackupWindow'', text_unless_empty (sp_BackupWindow s)), (''MaintenanceWindow'', text_unless_empty (sp_MaintenanceWindow s)),
          (''Iops'', if sp_Iops s \<noteq> 0 then VFloat (sp_Iops s) else VNil),
          (''ParameterGroupName'', parameter_group_of g engine s parameterGroupName),
          (''OptionGroupName'', opt_val (\<lambda>family. VStr (optionGroup (trim_prefix family engine)))
             (computeFamily engine (sp_EngineVersion s) (rg_engineVersionActual g))),
          (''SnapshotIdentifier'', text_unless_empty (sp_SnapshotIdentifier s))])"

definition build_rds ::
  "ext \<Rightarrow> db_ext \<Rightarrow> rds_generator \<Rightarrow> string \<Rightarrow> db_instance \<Rightarrow> bool option \<Rightarrow> (string \<Rightarrow> string) \<Rightarrow> string \<Rightarrow> kobject res" where
  "build_rds X D g engine i backupFlag optionGroup parameterGroupName =
     bindr (resolveAvailabilityZone X g) (\<lambda>availabilityZone.
     bindr (case map_of (rg_observed g) (dn_rdsInstance (rg_names g)) of
         None \<Rightarrow> Inr (dn_finalSnapshot (rg_names g), False)
       | Some oc \<Rightarrow>
           bindr (rdsNeedsApplyImmediately D (oc_resource oc) (rg_common g)) (\<lambda>now.
             Inr (dn_finalSnapshot (rg_names g) @ getInstanceCreationTimestampSuffix X (oc_resource oc), now)))
       (\<lambda>(finalSnapshot, applyImmediately).
     bindr (deref backupFlag) (\<lambda>backup.
       Inr \<lparr>k_type = ''rds/v1beta1.Instance'', k_apiVersion = rdsApiVersion, k_kind = ''Instance'',
            k_name = dn_rdsInstance (rg_names g), k_namespace = di_namespace i, k_labels = [], k_annotations = [],
            k_fields = [(''Spec'', VObj
              [(''ManagedResourceSpec'', VObj [(''ProviderConfigReference'', provider_config (de_AWSProvider (rg_env g))),
                  (''ManagementPolicies'', VList [VStr ''*''])]),
               (''ForProvider'', VObj (rds_parameters g engine (di_Spec i) parameterGroupName backup availabilityZone
                  applyImmediately finalSnapshot optionGroup))])]\<rparr>)))"

definition buildPgRDSInstance :: "ext \<Rightarrow> db_ext \<Rightarrow> rds_generator \<Rightarrow> db_instance \<Rightarrow> string \<Rightarrow> kobject res" where
  "buildPgRDSInstance X D g i =
     build_rds X D g ''postgres'' i (de_PostgresBackupBeforeDeletion (rg_env g)) (\<lambda>v. ''default:postgres-'' @ v)"

definition buildMariaDBRDSInstance :: "ext \<Rightarrow> db_ext \<Rightarrow> rds_generator \<Rightarrow> db_instance \<Rightarrow> string \<Rightarrow> kobject res" where
  "buildMariaDBRDSInstance X D g i =
     build_rds X D g ''mariadb'' i (de_MariaDBBackupBeforeDeletion (rg_env g))
       (\<lambda>v. ''default:mariadb-'' @ map (\<lambda>c. if c = CHR ''.'' then CHR ''-'' else c) v)"

definition buildRDSInstance :: "ext \<Rightarrow> db_ext \<Rightarrow> rds_generator \<Rightarrow> string \<Rightarrow> kobject res" where
  "buildRDSInstance X D g parameterGroupName =
     (case rg_instance g of
        MariaDBEngine i \<Rightarrow> buildMariaDBRDSInstance X D g i parameterGroupName
      | PgEngine i \<Rightarrow> buildPgRDSInstance X D g i parameterGroupName)"

section \<open>The external secret\<close>

definition getSecretARNFromRDSInstanceStatus :: "ext \<Rightarrow> object \<Rightarrow> (string \<times> string) option" where
  "getSecretARNFromRDSInstanceStatus X ob =
     (case found (nested_slice X ob [''status'', ''atProvider'', ''masterUserSecret'']) of
        Some (JObj secretMap # rest) \<Rightarrow>
          (case (found (nested_string X secretMap [''secretArn'']), found (nested_string X secretMap [''secretStatus''])) of
             (Some secretARN, Some secretStatus) \<Rightarrow> Some (secretARN, secretStatus)
           | _ \<Rightarrow> None)
      | _ \<Rightarrow> None)"

definition getEndpointFromRDSInstanceStatus :: "ext \<Rightarrow> object \<Rightarrow> string option" where
  "getEndpointFromRDSInstanceStatus X ob = found (nested_string X ob [''status'', ''atProvider'', ''address''])"

definition getPortFromRDSInstanceStatus :: "ext \<Rightarrow> object \<Rightarrow> rat option" where
  "getPortFromRDSInstanceStatus X ob = found (nested_float X ob [''status'', ''atProvider'', ''port''])"

text \<open>
  \<open>clock i\<close> is the i-th reading of \<open>time.Now()\<close>, in whole seconds: whether a whole second lies after the clock
  does not depend on the fraction.
\<close>

definition resolveForceSyncAnnotation :: "ext \<Rightarrow> (nat \<Rightarrow> int) \<Rightarrow> observed \<Rightarrow> string \<Rightarrow> string res" where
  "resolveForceSyncAnnotation X clock observed es =
     (let newTimestamp = show_int (clock 0 + 10) in
      case map_of observed es of
        None \<Rightarrow> Inr newTimestamp
      | Some oc \<Rightarrow> bindr (deref (oc_resource oc)) (\<lambda>ob.
          if isResourceReady X ob then Inr ''''
          else Inr (case map_of (get_annotations X ob) ''force-sync'' of
             None \<Rightarrow> newTimestamp
           | Some existingSync \<Rightarrow>
               (case parse_int64 existingSync of
                  None \<Rightarrow> newTimestamp
                | Some ts \<Rightarrow> if clock 1 < ts then existingSync else newTimestamp))))"

definition buildExternalSecret ::
  "ext \<Rightarrow> (nat \<Rightarrow> int) \<Rightarrow> rds_generator \<Rightarrow> string \<Rightarrow> string \<Rightarrow> rat \<Rightarrow> kobject res" where
  "buildExternalSecret X clock g secretARN endpoint port =
     bindr (resolveForceSyncAnnotation X clock (rg_observed g) (dn_es (rg_names g))) (\<lambda>annotation.
       Inr \<lparr>k_type = ''ExternalSecret'', k_apiVersion = ''external-secrets.io/v1'', k_kind = ''ExternalSecret'',
         k_name = dn_es (rg_names g), k_namespace = ic_namespace (rg_common g), k_labels = [],
         k_annotations = (if annotation \<noteq> '''' then [(''force-sync'', annotation)] else []),
         k_fields = [(''Spec'', VObj
           [(''RefreshInterval'', VInt (15 * 60 * 1000000000)), (''RefreshPolicy'', VStr ''Periodic''),
            (''SecretStoreRef'', VObj [(''Name'', VStr (de_EsClusterSecretStore (rg_env g))), (''Kind'', VStr ''ClusterSecretStore'')]),
            (''Target'', VObj [(''Name'', VStr (dbadmin_secret X (ic_name (rg_common g)))),
               (''CreationPolicy'', VStr ''Owner''), (''DeletionPolicy'', VStr ''Delete''),
               (''Template'', VObj [(''Data'', str_map_val
                  [(''username'', ''dbadmin''), (''password'', ''{{ .password | toString }}''), (''endpoint'', endpoint),
                   (''port'', show_int (float_to_int port))])])]),
            (''Data'', VList [VObj [(''SecretKey'', VStr ''password''),
               (''RemoteRef'', VObj [(''Property'', VStr ''password''), (''Key'', VStr secretARN), (''Version'', VStr ''AWSCURRENT'')])]])])]\<rparr>)"

text \<open>Nil as long as the observed instance has no active secret, address and port.\<close>

definition buildExternalSecretIfReady ::
  "ext \<Rightarrow> (nat \<Rightarrow> int) \<Rightarrow> rds_generator \<Rightarrow> object \<Rightarrow> db_object res" where
  "buildExternalSecretIfReady X clock g ob =
     (case getSecretARNFromRDSInstanceStatus X ob of
        None \<Rightarrow> Inr None
      | Some (secretARN, secretStatus) \<Rightarrow>
          if secretStatus \<noteq> ''active'' then Inr None
          else case getEndpointFromRDSInstanceStatus X ob of
            None \<Rightarrow> Inr None
          | Some endpoint \<Rightarrow>
              (case getPortFromRDSInstanceStatus X ob of
                 None \<Rightarrow> Inr None
               | Some port \<Rightarrow> bindr (buildExternalSecret X clock g secretARN endpoint port) (\<lambda>es. Inr (Some (Typed es)))))"

section \<open>Generation\<close>

definition getSnapshotIdentifierFromObserved :: "ext \<Rightarrow> object \<Rightarrow> string" where
  "getSnapshotIdentifierFromObserved X ob = text_at X ob [''spec'', ''forProvider'', ''snapshotIdentifier'']"

definition rds_generate :: "ext \<Rightarrow> db_ext \<Rightarrow> (nat \<Rightarrow> int) \<Rightarrow> rds_generator \<Rightarrow> db_object gomap res" where
  "rds_generate X D clock g =
     (let n = rg_names g; desired = gcopy [] (db_buildSecurityGroup g) in
      bindr (buildProviderConfig X D g) (\<lambda>pc.
      bindr (applyParameterGroup X g (gset (dn_pc n) (Some pc) desired)) (\<lambda>(desired, parameterGroupName).
      bindr (case map_of (rg_observed g) (dn_rdsInstance n) of
          None \<Rightarrow> Inr None
        | Some oc \<Rightarrow> bindr (deref (oc_resource oc)) (\<lambda>ob. Inr (Some ob))) (\<lambda>observedInstance.
        case observedInstance of
          None \<Rightarrow> bindr (buildRDSInstance X D g parameterGroupName) (\<lambda>inst.
            Inr (gset (dn_rdsInstance n) (Some (Typed inst)) desired))
        | Some ob \<Rightarrow>
            if ic_snapshotIdentifier (rg_common g) \<noteq> getSnapshotIdentifierFromObserved X ob then Inr desired
            else bindr (buildRDSInstance X D g parameterGroupName) (\<lambda>inst.
              bindr (buildExternalSecretIfReady X clock g ob) (\<lambda>es.
                Inr (gset (dn_es n) es (gset (dn_rdsInstance n) (Some (Typed inst)) desired))))))))"

definition generate_rds ::
  "ext \<Rightarrow> db_ext \<Rightarrow> (nat \<Rightarrow> int) \<Rightarrow> engine_instance \<Rightarrow> instance_common \<Rightarrow> required \<Rightarrow> observed \<Rightarrow> db_object gomap res" where
  "generate_rds X D clock inst c required observed =
     bindr (newRDSInstanceGenerator X D inst c required observed) (\<lambda>g.
     bindr (version_at X observed (dn_rdsInstance (rg_names g))) (\<lambda>version.
       rds_generate X D clock (g\<lparr>rg_engineVersionActual := version\<rparr>)))"

definition GeneratePgInstanceObjects ::
  "ext \<Rightarrow> db_ext \<Rightarrow> (nat \<Rightarrow> int) \<Rightarrow> db_instance \<Rightarrow> required \<Rightarrow> observed \<Rightarrow> db_object gomap res" where
  "GeneratePgInstanceObjects X D clock i = generate_rds X D clock (PgEngine i) (newPgInstanceCommon i)"

definition GenerateMariaDBInstanceObjects ::
  "ext \<Rightarrow> db_ext \<Rightarrow> (nat \<Rightarrow> int) \<Rightarrow> db_instance \<Rightarrow> required \<Rightarrow> observed \<Rightarrow> db_object gomap res" where
  "GenerateMariaDBInstanceObjects X D clock i = generate_rds X D clock (MariaDBEngine i) (newMariaDBInstanceCommon i)"

end
