(* ===== verification/Db_Users.thy ===== *)
theory Db_Users
  imports Db_Rds
begin

text \<open>
  Users and databases inside an instance (\<open>pg_user.go\<close>, \<open>mariadb_user.go\<close>, \<open>pg_database.go\<close> and
  \<open>mariadb_database.go\<close> under \<open>functions/database/service\<close>): objects of provider-sql with \<open>Usage\<close> objects
  that hold back the deletion of what they depend on.
\<close>

section \<open>Objects\<close>

definition provider_ref :: "string \<Rightarrow> gval" where
  "provider_ref name = VObj [(''Kind'', VStr ''ProviderConfig''), (''Name'', VStr name)]"

definition sql_object ::
  "string \<Rightarrow> string \<Rightarrow> string \<Rightarrow> string \<Rightarrow> string gomap \<Rightarrow> string gomap \<Rightarrow> (string \<times> gval) list \<Rightarrow> (string \<times> gval) list \<Rightarrow> kobject" where
  "sql_object apiVersion kind name ns annotations labels managed forProvider =
     \<lparr>k_type = kind, k_apiVersion = apiVersion, k_kind = kind, k_name = name, k_namespace = ns, k_labels = labels,
      k_annotations = annotations,
      k_fields = [(''Spec'', VObj [(''ManagedResourceSpec'', VObj managed), (''ForProvider'', VObj forProvider)])]\<rparr>"

definition usage_end :: "string \<Rightarrow> string \<Rightarrow> string \<Rightarrow> gval" where
  "usage_end apiVersion kind name =
     VObj [(''Kind'', VStr kind), (''APIVersion'', VStr apiVersion), (''ResourceRef'', VObj [(''Name'', VStr name)])]"

text \<open>A \<open>Usage\<close>: the first object is used by the second, and cannot be deleted before it.\<close>

definition usage_object :: "string \<Rightarrow> string \<Rightarrow> gval \<Rightarrow> gval \<Rightarrow> kobject" where
  "usage_object name ns used_of used_by =
     \<lparr>k_type = ''Usage'', k_apiVersion = ''protection.crossplane.io/v1beta1'', k_kind = ''Usage'', k_name = name,
      k_namespace = ns, k_labels = [], k_annotations = [],
      k_fields = [(''Spec'', VObj [(''ReplayDeletion'', VBool True), (''Of'', used_of), (''By'', used_by)])]\<rparr>"

definition databaseApi :: string where "databaseApi = ''database.entigo.com/v1alpha1''"

definition dashes :: "string \<Rightarrow> string" where
  "dashes = map (\<lambda>c. if c = CHR ''_'' then CHR ''-'' else c)"

definition scoped_name :: "ext \<Rightarrow> string \<Rightarrow> string \<Rightarrow> string \<Rightarrow> string \<Rightarrow> string" where
  "scoped_name X kind user grantee instance_name =
     GenerateEligibleKubernetesFullName X (kind @ user @ ''-'' @ dashes grantee @ ''-'' @ instance_name)"

definition external_name :: "string \<Rightarrow> string gomap" where
  "external_name name = [(''crossplane.io/external-name'', name)]"

definition display_name :: "string \<Rightarrow> string \<Rightarrow> string" where
  "display_name name specName = (if specName \<noteq> '''' then specName else name)"

section \<open>PostgreSQL users\<close>

record pg_user_generator =
  pug_user :: PostgreSQLUser
  pug_instance :: db_instance
  pug_observed :: observed
  pug_providerConfigName :: string
  pug_roleDisplayName :: string

definition newPgUserGenerator :: "db_ext \<Rightarrow> PostgreSQLUser \<Rightarrow> required \<Rightarrow> observed \<Rightarrow> pg_user_generator res" where
  "newPgUserGenerator D u required observed =
     bindr (ExtractRequiredResource required ''PostgreSQLInstance'' (dx_pg_instance D)) (\<lambda>i.
       Inr \<lparr>pug_user = u, pug_instance = i, pug_observed = observed,
            pug_providerConfigName = pu_InstanceRef u @ ''-providerconfig'',
            pug_roleDisplayName = display_name (pu_name u) (pu_Name u)\<rparr>)"

definition isPgInstanceReady :: "db_instance \<Rightarrow> bool" where
  "isPgInstanceReady i = ready_condition_loop (di_Conditions i)"

text \<open>A time read of an observed object, in nanoseconds.\<close>

definition getObservedTime :: "ext \<Rightarrow> object \<Rightarrow> string list \<Rightarrow> int option" where
  "getObservedTime X ob path = map_option unix_nanos (parse_rfc3339 (text_at X ob path))"

definition passwordRotationTrigger :: "ext \<Rightarrow> pg_user_generator \<Rightarrow> int option res" where
  "passwordRotationTrigger X g =
     (case map_of (pug_observed g) ''role'' of
        None \<Rightarrow> Inr None
      | Some oc \<Rightarrow> bindr (deref (oc_resource oc)) (\<lambda>ob.
          case getObservedTime X ob [''spec'', ''forProvider'', ''passwordRotationTrigger''] of
            Some trigger \<Rightarrow> Inr (Some trigger)
          | None \<Rightarrow>
              if sp_SnapshotIdentifier (di_Spec (pug_instance g)) = '''' then Inr None
              else Inr (map_option (\<lambda>t. t + 1000000000)
                     (getObservedTime X ob [''status'', ''atProvider'', ''lastPasswordChange'']))))"

definition buildRole :: "ext \<Rightarrow> pg_user_generator \<Rightarrow> kobject gomap res" where
  "buildRole X g =
     bindr (passwordRotationTrigger X g) (\<lambda>trigger.
       let u = pug_user g in
       Inr [(''role'', sql_object pgSqlApiVersion ''Role'' (pu_name u) (pu_namespace u)
         (external_name (pug_roleDisplayName g)) [(''database.entigo.com/role-name'', pug_roleDisplayName g)]
         [(''WriteConnectionSecretToReference'', name_ref (GenerateEligibleKubernetesFullName X (pu_InstanceRef u @ ''-'' @ pu_name u))),
          (''ProviderConfigReference'', provider_ref (pug_providerConfigName g))]
         [(''ConnectionLimit'', VInt (-1)),
          (''Privileges'', VObj
            [(''Login'', VBool (pu_Login u)), (''CreateDb'', VBool (pu_CreateDb u)), (''CreateRole'', VBool (pu_CreateRole u)),
             (''Inherit'', VBool (pu_Inherit u)), (''SuperUser'', VBool False), (''Replication'', VBool False),
             (''BypassRls'', VBool False)]),
          (''PasswordRotationTrigger'', int_ptr trigger)])])"

definition pg_grant :: "string \<Rightarrow> string \<Rightarrow> string \<Rightarrow> string \<Rightarrow> string \<Rightarrow> kobject" where
  "pg_grant name ns providerConfigName role memberOf =
     sql_object pgSqlApiVersion ''Grant'' name ns [] [] [(''ProviderConfigReference'', provider_ref providerConfigName)]
       [(''Role'', VStr role), (''MemberOf'', VStr memberOf)]"

definition roles_of :: "string list option \<Rightarrow> string list" where
  "roles_of grant = (case grant of None \<Rightarrow> [] | Some roles \<Rightarrow> roles)"

fun pg_grants_loop :: "ext \<Rightarrow> pg_user_generator \<Rightarrow> string list \<Rightarrow> kobject gomap \<Rightarrow> kobject gomap" where
  "pg_grants_loop X g [] grants = grants"
| "pg_grants_loop X g (role # roles) grants =
     (let u = pug_user g; grantName = scoped_name X ''grant-'' (pu_name u) role (pu_InstanceRef u)
      in pg_grants_loop X g roles
           (gset grantName (pg_grant grantName (pu_namespace u) (pug_providerConfigName g) (pug_roleDisplayName g) role) grants))"

definition pg_buildGrants :: "ext \<Rightarrow> pg_user_generator \<Rightarrow> kobject gomap" where
  "pg_buildGrants X g = pg_grants_loop X g (roles_of (pu_Grant (pug_user g))) []"

fun pg_usages_loop :: "ext \<Rightarrow> pg_user_generator \<Rightarrow> string list \<Rightarrow> kobject gomap \<Rightarrow> kobject gomap" where
  "pg_usages_loop X g [] usages = usages"
| "pg_usages_loop X g (role # roles) usages =
     (let u = pug_user g;
          grantName = scoped_name X ''grant-'' (pu_name u) role (pu_InstanceRef u);
          usageName = scoped_name X ''usage-grant-'' (pu_name u) role (pu_InstanceRef u)
      in pg_usages_loop X g roles
           (gset usageName (usage_object usageName (pu_namespace u) (usage_end pgSqlApiVersion ''Role'' (pu_name u))
              (usage_end pgSqlApiVersion ''Grant'' grantName)) usages))"

definition pg_buildGrantUsages :: "ext \<Rightarrow> pg_user_generator \<Rightarrow> kobject gomap" where
  "pg_buildGrantUsages X g = pg_usages_loop X g (roles_of (pu_Grant (pug_user g))) []"

definition pg_buildInstanceProtection :: "pg_user_generator \<Rightarrow> kobject gomap" where
  "pg_buildInstanceProtection g =
     (let u = pug_user g in
      [(''instance-protection'', usage_object (''user-'' @ pu_name u @ ''-instance-protection'') (pu_namespace u)
         (usage_end databaseApi ''PostgreSQLInstance'' (pu_InstanceRef u)) (usage_end pgSqlApiVersion ''Role'' (pu_name u)))])"

definition pg_user_generate :: "ext \<Rightarrow> pg_user_generator \<Rightarrow> kobject gomap res" where
  "pg_user_generate X g =
     (if \<not> isPgInstanceReady (pug_instance g) then
        Inl (Error (''temporarily waiting for PostgreSQLInstance '' @ di_name (pug_instance g) @ '' to become ready''))
      else bindr (buildRole X g) (\<lambda>role.
        Inr (gcopy (gcopy (gcopy (gcopy [] role) (pg_buildGrants X g)) (pg_buildGrantUsages X g)) (pg_buildInstanceProtection g))))"

definition GeneratePgUserObjects :: "ext \<Rightarrow> db_ext \<Rightarrow> PostgreSQLUser \<Rightarrow> required \<Rightarrow> observed \<Rightarrow> kobject gomap res" where
  "GeneratePgUserObjects X D u required observed =
     bindr (newPgUserGenerator D u required observed) (pg_user_generate X)"

section \<open>MariaDB users\<close>

record mariadb_user_generator =
  mug_user :: MariaDBUser
  mug_instance :: db_instance
  mug_database :: sql_ref
  mug_providerConfigName :: string
  mug_userDisplayName :: string

definition newMariaDBUserGenerator :: "db_ext \<Rightarrow> MariaDBUser \<Rightarrow> required \<Rightarrow> mariadb_user_generator res" where
  "newMariaDBUserGenerator D u required =
     bindr (ExtractRequiredResource required ''MariaDBInstance'' (dx_mariadb_instance D)) (\<lambda>i.
     bindr (if mu_DatabaseRef u \<noteq> None then ExtractRequiredResource required ''MariaDBDatabase'' (dx_sql_database D)
            else Inr \<lparr>sq_name = '''', sq_Conditions = []\<rparr>) (\<lambda>d.
       Inr \<lparr>mug_user = u, mug_instance = i, mug_database = d,
            mug_providerConfigName = mu_InstanceRef u @ ''-providerconfig'',
            mug_userDisplayName = display_name (mu_name u) (mu_Name u)\<rparr>))"

definition isMariaDBDatabaseReady :: "sql_ref \<Rightarrow> bool" where
  "isMariaDBDatabaseReady d = ready_condition_loop (sq_Conditions d)"

definition isMariaDBInstanceReady :: "db_instance \<Rightarrow> bool" where
  "isMariaDBInstanceReady i = ready_condition_loop (di_Conditions i)"

definition buildUser :: "ext \<Rightarrow> mariadb_user_generator \<Rightarrow> kobject" where
  "buildUser X g =
     (let u = mug_user g in
      sql_object mySqlApiVersion ''User'' (mu_name u) (mu_namespace u)
        (external_name (mug_userDisplayName g)) [(''database.entigo.com/role-name'', mug_userDisplayName g)]
        [(''WriteConnectionSecretToReference'', name_ref (GenerateEligibleKubernetesFullName X (mu_InstanceRef u @ ''-'' @ mu_name u))),
         (''ProviderConfigReference'', provider_ref (mug_providerConfigName g))]
        [(''ResourceOptions'', VObj
          [(''MaxConnectionsPerHour'', int_ptr (mu_MaxConnectionsPerHour u)), (''MaxUserConnections'', int_ptr (mu_MaxUserConnections u)),
           (''MaxQueriesPerHour'', int_ptr (mu_MaxQueriesPerHour u)), (''MaxUpdatesPerHour'', int_ptr (mu_MaxUpdatesPerHour u))])])"

definition mariadb_grant :: "mariadb_user_generator \<Rightarrow> string \<Rightarrow> kobject" where
  "mariadb_grant g name =
     (let u = mug_user g in
      sql_object mySqlApiVersion ''Grant'' name (mu_namespace u) [] []
        [(''ProviderConfigReference'', provider_ref (mug_providerConfigName g))]
        [(''User'', VStr (mug_userDisplayName g)),
         (''DatabaseRef'', namespaced_ref (sq_name (mug_database g)) (mu_namespace u)),
         (''Table'', VStr (case mu_Table u of None \<Rightarrow> ''*'' | Some t \<Rightarrow> t)),
         (''Privileges'', VList (map VStr (mu_Privileges u)))])"

text \<open>Grants, usages and protections exist for a user with grants and a database only.\<close>

definition users_of :: "MariaDBUser \<Rightarrow> string list" where
  "users_of u = (if mu_Grant u = None \<or> mu_DatabaseRef u = None then [] else roles_of (mu_Grant u))"

fun mariadb_loop ::
  "ext \<Rightarrow> mariadb_user_generator \<Rightarrow> string \<Rightarrow> (string \<Rightarrow> string \<Rightarrow> kobject) \<Rightarrow> string list \<Rightarrow> kobject gomap \<Rightarrow> kobject gomap" where
  "mariadb_loop X g kind build [] objects = objects"
| "mariadb_loop X g kind build (user # users) objects =
     (let u = mug_user g;
          grantName = scoped_name X ''grant-'' (mu_name u) user (mu_InstanceRef u);
          name = scoped_name X kind (mu_name u) user (mu_InstanceRef u)
      in mariadb_loop X g kind build users (gset name (build name grantName) objects))"

definition mariadb_buildGrants :: "ext \<Rightarrow> mariadb_user_generator \<Rightarrow> kobject gomap" where
  "mariadb_buildGrants X g = mariadb_loop X g ''grant-'' (\<lambda>name grantName. mariadb_grant g name) (users_of (mug_user g)) []"

definition mariadb_buildGrantUsages :: "ext \<Rightarrow> mariadb_user_generator \<Rightarrow> kobject gomap" where
  "mariadb_buildGrantUsages X g =
     mariadb_loop X g ''usage-grant-'' (\<lambda>name grantName. usage_object name (mu_namespace (mug_user g))
       (usage_end mySqlApiVersion ''User'' (mu_name (mug_user g))) (usage_end mySqlApiVersion ''Grant'' grantName))
       (users_of (mug_user g)) []"

definition buildDatabaseProtections :: "ext \<Rightarrow> mariadb_user_generator \<Rightarrow> kobject gomap" where
  "buildDatabaseProtections X g =
     mariadb_loop X g ''db-protection-'' (\<lambda>name grantName. usage_object name (mu_namespace (mug_user g))
       (usage_end databaseApi ''MariaDBDatabase'' (sq_name (mug_database g))) (usage_end mySqlApiVersion ''Grant'' grantName))
       (users_of (mug_user g)) []"

definition mariadb_buildInstanceProtection :: "mariadb_user_generator \<Rightarrow> kobject" where
  "mariadb_buildInstanceProtection g =
     (let u = mug_user g in
      usage_object (''user-'' @ mu_name u @ ''-instance-protection'') (mu_namespace u)
        (usage_end databaseApi ''MariaDBInstance'' (mu_InstanceRef u)) (usage_end mySqlApiVersion ''User'' (mu_name u)))"

definition mariadb_user_generate :: "ext \<Rightarrow> mariadb_user_generator \<Rightarrow> kobject gomap res" where
  "mariadb_user_generate X g =
     (if \<not> isMariaDBInstanceReady (mug_instance g) then
        Inl (Error (''temporarily waiting for MariaDBInstance '' @ di_name (mug_instance g) @ '' to become ready''))
      else if mu_DatabaseRef (mug_user g) \<noteq> None \<and> \<not> isMariaDBDatabaseReady (mug_database g) then
        Inl (Error (''temporarily waiting for MariaDBDatabase '' @ the (mu_DatabaseRef (mug_user g)) @ '' to become ready''))
      else
        Inr (gset ''instance-protection'' (mariadb_buildInstanceProtection g)
          (gcopy (gcopy (gcopy (gset ''user'' (buildUser X g) []) (mariadb_buildGrants X g)) (mariadb_buildGrantUsages X g))
            (buildDatabaseProtections X g))))"

definition GenerateMariaDBUserObjects :: "ext \<Rightarrow> db_ext \<Rightarrow> MariaDBUser \<Rightarrow> required \<Rightarrow> kobject gomap res" where
  "GenerateMariaDBUserObjects X D u required =
     bindr (newMariaDBUserGenerator D u required) (mariadb_user_generate X)"

section \<open>PostgreSQL databases\<close>

record pg_database_generator =
  pdg_database :: PostgreSQLDatabase
  pdg_ownerRole :: sql_ref
  pdg_providerConfigName :: string
  pdg_dbDisplayName :: string

definition newPgDatabaseGenerator :: "db_ext \<Rightarrow> PostgreSQLDatabase \<Rightarrow> required \<Rightarrow> pg_database_generator res" where
  "newPgDatabaseGenerator D d required =
     bindr (ExtractRequiredResource required ''OwnerRole'' (dx_role D)) (\<lambda>ownerRole.
       Inr \<lparr>pdg_database = d, pdg_ownerRole = ownerRole, pdg_providerConfigName = pd_InstanceRef d @ ''-providerconfig'',
            pdg_dbDisplayName = display_name (pd_name d) (pd_Name d)\<rparr>)"

definition isRoleReady :: "sql_ref \<Rightarrow> bool" where
  "isRoleReady r = ready_condition_loop (sq_Conditions r)"

definition owner_grant_name :: "PostgreSQLDatabase \<Rightarrow> string" where
  "owner_grant_name d = pd_name d @ ''-grant-owner-to-dbadmin''"

definition buildGrant :: "pg_database_generator \<Rightarrow> kobject gomap" where
  "buildGrant g =
     (let d = pdg_database g in
      [(''grant-owner-to-dbadmin'',
        pg_grant (owner_grant_name d) (pd_namespace d) (pdg_providerConfigName g) ''dbadmin'' (pd_Owner d))])"

definition pg_buildDatabase :: "pg_database_generator \<Rightarrow> kobject gomap" where
  "pg_buildDatabase g =
     (let d = pdg_database g in
      [(''postgresql-database'', sql_object pgSqlApiVersion ''Database'' (pd_name d) (pd_namespace d)
         (external_name (pdg_dbDisplayName g)) [] [(''ProviderConfigReference'', provider_ref (pdg_providerConfigName g))]
         [(''Owner'', VStr (pd_Owner d)), (''Encoding'', text_unless_empty (pd_Encoding d)),
          (''LCCType'', text_unless_empty (pd_LCCType d)), (''LCCollate'', text_unless_empty (pd_LCCollate d)),
          (''Template'', text_unless_empty (pd_DBTemplate d))])])"

definition extension_key :: "string \<Rightarrow> nat \<Rightarrow> string" where
  "extension_key extensionName i = ''extension-'' @ dashes extensionName @ ''-'' @ itoa i"

definition pg_extension :: "pg_database_generator \<Rightarrow> string \<Rightarrow> kobject" where
  "pg_extension g extensionName =
     (let d = pdg_database g in
      sql_object pgSqlApiVersion ''Extension'' (pd_name d @ ''-'' @ dashes extensionName) (pd_namespace d) [] []
        [(''ProviderConfigReference'', provider_ref (pdg_providerConfigName g))]
        [(''Extension'', VStr extensionName), (''Database'', VStr (pdg_dbDisplayName g)),
         (''Schema'', text_unless_empty (gget (pd_ExtensionConfig d) extensionName))])"

fun extensions_loop :: "pg_database_generator \<Rightarrow> nat \<Rightarrow> string list \<Rightarrow> kobject gomap \<Rightarrow> kobject gomap" where
  "extensions_loop g i [] extensions = extensions"
| "extensions_loop g i (e # es) extensions =
     extensions_loop g (Suc i) es (gset (extension_key e i) (pg_extension g e) extensions)"

definition buildExtensions :: "pg_database_generator \<Rightarrow> kobject gomap" where
  "buildExtensions g = extensions_loop g 0 (pd_Extensions (pdg_database g)) []"

definition database_end :: "string \<Rightarrow> string \<Rightarrow> gval" where
  "database_end apiVersion name = usage_end apiVersion ''Database'' name"

definition buildGrantUsage :: "pg_database_generator \<Rightarrow> kobject gomap" where
  "buildGrantUsage g =
     (let d = pdg_database g in
      [(''grant-usage'', usage_object (pd_name d @ ''-grant-usage'') (pd_namespace d)
         (usage_end pgSqlApiVersion ''Grant'' (owner_grant_name d)) (database_end pgSqlApiVersion (pd_name d)))])"

definition buildOwnerProtection :: "pg_database_generator \<Rightarrow> kobject gomap" where
  "buildOwnerProtection g =
     (let d = pdg_database g in
      [(''owner-protection'', usage_object (pd_name d @ ''-owner-protection'') (pd_namespace d)
         (usage_end databaseApi ''PostgreSQLUser'' (sq_name (pdg_ownerRole g))) (database_end pgSqlApiVersion (pd_name d)))])"

definition pgdb_buildInstanceProtection :: "pg_database_generator \<Rightarrow> kobject gomap" where
  "pgdb_buildInstanceProtection g =
     (let d = pdg_database g in
      [(''instance-protection'', usage_object (''database-'' @ pd_name d @ ''-instance-protection'') (pd_namespace d)
         (usage_end databaseApi ''PostgreSQLInstance'' (pd_InstanceRef d)) (database_end pgSqlApiVersion (pd_name d)))])"

definition pg_database_generate :: "pg_database_generator \<Rightarrow> kobject gomap res" where
  "pg_database_generate g =
     (if \<not> isRoleReady (pdg_ownerRole g) then
        Inl (Error (''temporarily waiting for Owner Role '' @ sq_name (pdg_ownerRole g) @ '' to become ready''))
      else Inr (gcopy (gcopy (gcopy (gcopy (gcopy (gcopy [] (buildGrant g)) (pg_buildDatabase g)) (buildExtensions g))
        (buildGrantUsage g)) (buildOwnerProtection g)) (pgdb_buildInstanceProtection g)))"

definition GeneratePgDatabaseObjects :: "db_ext \<Rightarrow> PostgreSQLDatabase \<Rightarrow> required \<Rightarrow> kobject gomap res" where
  "GeneratePgDatabaseObjects D d required = bindr (newPgDatabaseGenerator D d required) pg_database_generate"

section \<open>MariaDB databases\<close>

record mariadb_database_generator =
  mdg_database :: MariaDBDatabase
  mdg_instance :: db_instance
  mdg_providerConfigName :: string
  mdg_dbDisplayName :: string

definition newMariaDBDatabaseGenerator :: "db_ext \<Rightarrow> MariaDBDatabase \<Rightarrow> required \<Rightarrow> mariadb_database_generator res" where
  "newMariaDBDatabaseGenerator D d required =
     bindr (ExtractRequiredResource required ''MariaDBInstance'' (dx_mariadb_instance D)) (\<lambda>i.
       Inr \<lparr>mdg_database = d, mdg_instance = i, mdg_providerConfigName = md_InstanceRef d @ ''-providerconfig'',
            mdg_dbDisplayName = display_name (md_name d) (md_Name d)\<rparr>)"

definition mariadb_buildDatabase :: "mariadb_database_generator \<Rightarrow> kobject" where
  "mariadb_buildDatabase g =
     (let d = mdg_database g in
      sql_object mySqlApiVersion ''Database'' (md_name d) (md_namespace d) (external_name (mdg_dbDisplayName g))
        [(''database.entigo.com/database-name'', mdg_dbDisplayName g)]
        [(''ProviderConfigReference'', provider_ref (mdg_providerConfigName g))]
        [(''DefaultCollation'', str_ptr (md_DefaultCollation d)), (''DefaultCharacterSet'', str_ptr (md_DefaultCharacterSet d))])"

definition mariadbdb_buildInstanceProtection :: "mariadb_database_generator \<Rightarrow> kobject" where
  "mariadbdb_buildInstanceProtection g =
     (let d = mdg_database g in
      usage_object (''database-'' @ md_name d @ ''-instance-protection'') (md_namespace d)
        (usage_end databaseApi ''MariaDBInstance'' (md_InstanceRef d)) (database_end mySqlApiVersion (md_name d)))"

definition mariadb_database_generate :: "mariadb_database_generator \<Rightarrow> kobject gomap res" where
  "mariadb_database_generate g =
     (if \<not> isMariaDBInstanceReady (mdg_instance g) then
        Inl (Error (''temporarily waiting for MariaDBInstance '' @ di_name (mdg_instance g) @ '' to become ready''))
      else
        (let desired = gset ''mariadb-database'' (mariadb_buildDatabase g) [] in
         Inr (if md_DeletionProtection (mdg_database g)
              then gset ''instance-protection'' (mariadbdb_buildInstanceProtection g) desired else desired)))"

definition GenerateMariaDBDatabaseObjects :: "db_ext \<Rightarrow> MariaDBDatabase \<Rightarrow> required \<Rightarrow> kobject gomap res" where
  "GenerateMariaDBDatabaseObjects D d required = bindr (newMariaDBDatabaseGenerator D d required) mariadb_database_generate"

end
