(* ===== verification/Db_Valkey.thy ===== *)
theory Db_Valkey
  imports Db_Rds
begin

text \<open>
  \<open>functions/database/service/valkey_instance.go\<close>: a Valkey replication group with its parameter group, its
  security group with a rule for every compute subnet, and its credentials, which are kept in a Kubernetes
  secret and, from it, in the AWS Secrets Manager.
\<close>

record valkey_generator =
  vg_instance :: ValkeyInstance
  vg_observed :: observed
  vg_env :: database_Environment
  vg_hash :: string
  vg_vpc :: vpc_ref
  vg_computeSubnets :: "(string \<times> string option) list"
  vg_region :: string
  vg_subnetGroupName :: string
  vg_kmsDataKeyArn :: string
  vg_kmsConfigKeyArn :: string
  vg_engineVersionActual :: "string option"

definition rgKey :: string where "rgKey = ''replication-group''"
definition elasticacheApiVersion :: string where "elasticacheApiVersion = ''elasticache.aws.m.upbound.io/v1beta1''"
definition secretsmanagerApiVersion :: string where "secretsmanagerApiVersion = ''secretsmanager.aws.m.upbound.io/v1beta1''"

text \<open>\<open>computeDerivedValues\<close>: the text behind a pointer, or the empty text.\<close>

definition text_of :: "string option \<Rightarrow> string" where
  "text_of p = (case p of None \<Rightarrow> '''' | Some s \<Rightarrow> s)"

definition newValkeyInstanceGenerator ::
  "ext \<Rightarrow> db_ext \<Rightarrow> ValkeyInstance \<Rightarrow> required \<Rightarrow> observed \<Rightarrow> valkey_generator res" where
  "newValkeyInstanceGenerator X D i required observed =
     bindr (database_GetEnvironment X D required) (\<lambda>env.
     bindr (ExtractRequiredResource required ''VPC'' (dx_vpc D)) (\<lambda>vpc.
     bindr (ExtractRequiredResource required ''ElasticacheSubnetGroup'' (dx_cache_subnet_group D)) (\<lambda>subnetGroup.
     bindr (ExtractOptionalResource required ''KMSDataKey'' (dx_kms D)) (\<lambda>kmsDataKey.
     bindr (ExtractOptionalResource required ''KMSConfigKey'' (dx_kms D)) (\<lambda>kmsConfigKey.
     bindr (ExtractResources (Some required) ''ComputeSubnets'' (dx_subnet D)) (\<lambda>computeSubnets.
     bindr (version_at X observed rgKey) (\<lambda>version.
       Inr \<lparr>vg_instance = i, vg_observed = observed, vg_env = env, vg_hash = GenerateFNVHash (vk_uid i), vg_vpc = vpc,
            vg_computeSubnets = computeSubnets, vg_region = text_of (vr_region vpc), vg_subnetGroupName = text_of subnetGroup,
            vg_kmsDataKeyArn = text_of (kr_Arn (optional_key kmsDataKey)),
            vg_kmsConfigKeyArn = text_of (kr_Arn (optional_key kmsConfigKey)), vg_engineVersionActual = version\<rparr>)))))))"

definition computeValkeyFamily :: "string option \<Rightarrow> string option \<Rightarrow> string option" where
  "computeValkeyFamily engineVersion engineVersionActual =
     (case (case engineVersion of None \<Rightarrow> engineVersionActual | Some v \<Rightarrow> Some v) of
        None \<Rightarrow> None
      | Some v \<Rightarrow> Some (''valkey'' @ split_on (CHR ''.'') v ! 0))"

definition valkey_buildTags :: "valkey_generator \<Rightarrow> string option gomap" where
  "valkey_buildTags g = gset ''Name'' (Some (vk_name (vg_instance g))) (gcopy [] (de_Tags (vg_env g)))"

definition valkey_object :: "valkey_generator \<Rightarrow> string \<Rightarrow> string \<Rightarrow> string \<Rightarrow> (string \<times> gval) list \<Rightarrow> kobject" where
  "valkey_object g apiVersion kind name = aws_object apiVersion kind name '''' (de_AWSProvider (vg_env g))"

section \<open>Parameter group\<close>

definition valkey_buildParameterGroup :: "ext \<Rightarrow> valkey_generator \<Rightarrow> string gomap \<Rightarrow> string \<Rightarrow> kobject \<times> string" where
  "valkey_buildParameterGroup X g parameters family =
     (let i = vg_instance g; name = group_name X (vk_name i) family (vg_hash g)
      in (valkey_object g elasticacheApiVersion ''ParameterGroup'' name
            [(''Name'', VStr name), (''Region'', VStr (vg_region g)), (''Family'', VStr family),
             (''Description'', VStr (''Parameter group for Valkey '' @ vk_name i)),
             (''Parameter'', VList (map (\<lambda>(key, value). VObj [(''Name'', VStr key), (''Value'', VStr value)]) parameters)),
             (''Tags'', ptr_map_val (valkey_buildTags g))],
          name))"

definition valkey_parameter_group ::
  "ext \<Rightarrow> valkey_generator \<Rightarrow> (db_object gomap \<times> string) res" where
  "valkey_parameter_group X g =
     (let i = vg_instance g in
      case vk_ParameterGroupParameters i of
        None \<Rightarrow> Inr ([], '''')
      | Some parameters \<Rightarrow>
          if vk_ParameterGroupName i \<noteq> '''' then
            Inl (Error ''valkey instance may have parameterGroupName or parameterGroupParameters, not both'')
          else case computeValkeyFamily (vk_EngineVersion i) (vg_engineVersionActual g) of
            None \<Rightarrow> Inr ([], '''')
          | Some family \<Rightarrow>
              (case valkey_buildParameterGroup X g parameters family of (pg, pgName) \<Rightarrow>
                 bindr (keepStaleParameterGroups X (vg_observed g) rgKey pgName family
                     (gset (parameterGroupKeyPrefix @ family) (Some (Typed pg)) [])) (\<lambda>objects.
                   Inr (objects, pgName))))"

section \<open>Replication group\<close>

definition valkey_kmsDataKeyIDRef :: "valkey_generator \<Rightarrow> gval" where
  "valkey_kmsDataKeyIDRef g = text_unless_empty (vg_kmsDataKeyArn g)"

definition secret_key_ref :: "string \<Rightarrow> string \<Rightarrow> gval" where
  "secret_key_ref name key = VObj [(''LocalSecretReference'', name_ref name), (''Key'', VStr key)]"

definition buildReplicationGroup :: "valkey_generator \<Rightarrow> string \<Rightarrow> kobject res" where
  "buildReplicationGroup g parameterGroupName =
     (let i = vg_instance g; name = vk_name i in
      bindr (deref (de_ValkeyBackupBeforeDeletion (vg_env g))) (\<lambda>backup.
        Inr \<lparr>k_type = ''ReplicationGroup'', k_apiVersion = elasticacheApiVersion, k_kind = ''ReplicationGroup'', k_name = name,
          k_namespace = '''', k_labels = [], k_annotations = [],
          k_fields = [(''Spec'', VObj
            [(''ManagedResourceSpec'', VObj
                [(''ProviderConfigReference'', provider_config (de_AWSProvider (vg_env g))),
                 (''WriteConnectionSecretToReference'', name_ref name)]),
             (''ForProvider'', VObj
                [(''Region'', VStr (vg_region g)), (''Engine'', VStr ''valkey''), (''Description'', VStr name),
                 (''EngineVersion'', str_ptr (vk_EngineVersion i)), (''NodeType'', VStr (vk_InstanceType i)),
                 (''NumCacheClusters'', VFloat (vk_NumCacheClusters i)), (''AutomaticFailoverEnabled'', VBool True),
                 (''MultiAzEnabled'', VBool True), (''ApplyImmediately'', VBool True),
                 (''AutoMinorVersionUpgrade'', VStr (if vk_AutoMinorVersionUpgrade i then ''true'' else ''false'')),
                 (''AtRestEncryptionEnabled'', VStr ''true''), (''TransitEncryptionEnabled'', VBool True),
                 (''AuthTokenSecretRef'', secret_key_ref (name @ ''-auth-token'') ''auth-token''),
                 (''AutoGenerateAuthToken'', VBool True), (''AuthTokenUpdateStrategy'', VStr ''SET''),
                 (''KMSKeyID'', valkey_kmsDataKeyIDRef g), (''MaintenanceWindow'', VStr (vk_MaintenanceWindow i)),
                 (''SnapshotWindow'', VStr (vk_SnapshotWindow i)), (''SnapshotRetentionLimit'', VFloat (vk_SnapshotRetentionLimit i)),
                 (''SubnetGroupName'', VStr (vg_subnetGroupName g)), (''SecurityGroupIDRefs'', VList [name_ref name]),
                 (''Tags'', ptr_map_val (valkey_buildTags g)),
                 (''ParameterGroupName'',
                    if parameterGroupName \<noteq> '''' then VStr parameterGroupName
                    else if vk_ParameterGroupName i \<noteq> '''' then VStr (vk_ParameterGroupName i)
                    else opt_val (\<lambda>family. VStr (''default.'' @ family))
                      (computeValkeyFamily (vk_EngineVersion i) (vg_engineVersionActual g))),
                 (''FinalSnapshotIdentifier'', if backup then VStr (name @ ''-final-snapshot'') else VNil)])])]\<rparr>))"

section \<open>Security group\<close>

definition valkey_buildSecurityGroup :: "valkey_generator \<Rightarrow> kobject" where
  "valkey_buildSecurityGroup g =
     valkey_object g VPCApiVersion ''SecurityGroup'' (vk_name (vg_instance g))
       [(''Region'', VStr (vg_region g)), (''Description'', VStr (''Security group for Valkey '' @ vk_name (vg_instance g))),
        (''VPCIDRef'', namespaced_ref (vr_name (vg_vpc g)) (vr_namespace (vg_vpc g))),
        (''Tags'', ptr_map_val (valkey_buildTags g))]"

definition subnet_rule :: "valkey_generator \<Rightarrow> string \<Rightarrow> string \<Rightarrow> kobject" where
  "subnet_rule g subnetName cidrBlock =
     (let name = vk_name (vg_instance g) in
      valkey_object g VPCApiVersion ''SecurityGroupRule'' (name @ ''-ingress-'' @ subnetName)
        [(''Region'', VStr (vg_region g)), (''Type'', VStr ''ingress''), (''SecurityGroupIDRef'', name_ref name),
         (''Protocol'', VStr ''tcp''), (''FromPort'', VFloat 6379), (''ToPort'', VFloat 6379),
         (''CidrBlocks'', VList [VStr cidrBlock]), (''Description'', VStr (''Allow Valkey access from '' @ subnetName))])"

fun subnet_rules_loop :: "valkey_generator \<Rightarrow> (string \<times> string option) list \<Rightarrow> db_object gomap \<Rightarrow> db_object gomap" where
  "subnet_rules_loop g [] objects = objects"
| "subnet_rules_loop g ((subnetName, cidr) # subnets) objects =
     (if text_of cidr = '''' then subnet_rules_loop g subnets objects
      else subnet_rules_loop g subnets
        (gset (''sg-ingress-'' @ subnetName) (Some (Typed (subnet_rule g subnetName (text_of cidr)))) objects))"

section \<open>Credentials\<close>

definition valkey_credentials_name :: "valkey_generator \<Rightarrow> string" where
  "valkey_credentials_name g = vk_name (vg_instance g) @ ''-credentials''"

definition valkey_buildSecret :: "valkey_generator \<Rightarrow> kobject" where
  "valkey_buildSecret g =
     valkey_object g secretsmanagerApiVersion ''Secret'' (valkey_credentials_name g)
       [(''Name'', VStr (valkey_credentials_name g)), (''Region'', VStr (vg_region g)), (''RecoveryWindowInDays'', VFloat 0),
        (''Description'', VStr (''Valkey connection credentials for '' @ vk_name (vg_instance g))),
        (''Tags'', ptr_map_val (valkey_buildTags g)), (''KMSKeyID'', text_unless_empty (vg_kmsConfigKeyArn g))]"

definition valkey_buildSecretVersion :: "valkey_generator \<Rightarrow> kobject" where
  "valkey_buildSecretVersion g =
     valkey_object g secretsmanagerApiVersion ''SecretVersion'' (valkey_credentials_name g)
       [(''Region'', VStr (vg_region g)), (''SecretIDRef'', name_ref (valkey_credentials_name g)),
        (''SecretStringSecretRef'', secret_key_ref (valkey_credentials_name g) ''credentials.json'')]"

definition valkey_buildSecretsManagerResources :: "valkey_generator \<Rightarrow> db_object gomap \<Rightarrow> db_object gomap" where
  "valkey_buildSecretsManagerResources g objects =
     (let objects = gset ''secrets-manager-secret'' (Some (Typed (valkey_buildSecret g))) objects in
      if map_of (vg_observed g) ''credentials'' = None then objects
      else gset ''secrets-manager-secret-version'' (Some (Typed (valkey_buildSecretVersion g))) objects)"

text \<open>\<open>mustJSONString\<close>: marshalling a string does not fail.\<close>

definition valkey_credentials_json :: "string \<Rightarrow> string \<Rightarrow> string \<Rightarrow> string \<Rightarrow> string" where
  "valkey_credentials_json authToken port primaryEndpoint readerEndpoint =
     ''{'' @ json_quote ''AUTH_TOKEN'' @ '': '' @ json_quote authToken @ '', '' @ json_quote ''PORT'' @ '': '' @ json_quote port @
     '', '' @ json_quote ''PRIMARY_ENDPOINT'' @ '': '' @ json_quote primaryEndpoint @
     '', '' @ json_quote ''READER_ENDPOINT'' @ '': '' @ json_quote readerEndpoint @ ''}''"

definition valkey_credentials :: "valkey_generator \<Rightarrow> string \<Rightarrow> string \<Rightarrow> string \<Rightarrow> string \<Rightarrow> kobject" where
  "valkey_credentials g authToken port primaryEndpoint readerEndpoint =
     \<lparr>k_type = ''core/v1.Secret'', k_apiVersion = ''v1'', k_kind = ''Secret'', k_name = valkey_credentials_name g,
      k_namespace = vk_namespace (vg_instance g), k_labels = [], k_annotations = [],
      k_fields = [(''Type'', VStr ''Opaque''),
        (''StringData'', str_map_val [(''AUTH_TOKEN'', authToken), (''PORT'', port), (''PRIMARY_ENDPOINT'', primaryEndpoint),
           (''READER_ENDPOINT'', readerEndpoint),
           (''credentials.json'', valkey_credentials_json authToken port primaryEndpoint readerEndpoint)])]\<rparr>"

definition valkey_buildCredentialsSecret :: "valkey_generator \<Rightarrow> db_object gomap \<Rightarrow> db_object gomap" where
  "valkey_buildCredentialsSecret g objects =
     (case map_of (vg_observed g) rgKey of
        None \<Rightarrow> objects
      | Some rgObserved \<Rightarrow>
          (let connDetails = oc_connection rgObserved;
               authToken = gget connDetails ''attribute.auth_token'';
               primaryEndpoint = gget connDetails ''primary_endpoint_address''
           in if length connDetails = 0 \<or> authToken = '''' \<or> primaryEndpoint = '''' then objects
              else gset ''credentials'' (Some (Typed (valkey_credentials g authToken (gget connDetails ''port'') primaryEndpoint
                (gget connDetails ''reader_endpoint_address'')))) objects))"

definition valkey_generate :: "ext \<Rightarrow> valkey_generator \<Rightarrow> db_object gomap res" where
  "valkey_generate X g =
     bindr (valkey_parameter_group X g) (\<lambda>(objects, parameterGroupName).
     bindr (buildReplicationGroup g parameterGroupName) (\<lambda>rg.
       (let objects = gset rgKey (Some (Typed rg)) objects;
            objects = gset ''security-group'' (Some (Typed (valkey_buildSecurityGroup g))) objects;
            objects = subnet_rules_loop g (vg_computeSubnets g) objects
        in Inr (valkey_buildCredentialsSecret g (valkey_buildSecretsManagerResources g objects)))))"

definition GenerateValkeyInstanceObjects ::
  "ext \<Rightarrow> db_ext \<Rightarrow> ValkeyInstance \<Rightarrow> required \<Rightarrow> observed \<Rightarrow> db_object gomap res" where
  "GenerateValkeyInstanceObjects X D i required observed =
     bindr (newValkeyInstanceGenerator X D i required observed) (valkey_generate X)"

section \<open>Statuses\<close>

definition GetValkeyReplicationGroupReadyStatus :: "ext \<Rightarrow> object \<Rightarrow> ready" where
  "GetValkeyReplicationGroupReadyStatus X ob =
     (let port = found (nested_float X ob [''status'', ''atProvider'', ''port'']) in
      if text_at X ob [''status'', ''atProvider'', ''primaryEndpointAddress''] = '''' \<or> port = None \<or> port = Some 0 then ReadyFalse
      else GetCrossplaneReadyStatus X ob)"

definition GetValkeyStatusFromReplicationGroup :: "replication_group_observation \<Rightarrow> ValkeyInstanceStatus" where
  "GetValkeyStatusFromReplicationGroup r =
     \<lparr>vs_Endpoint = (case (go_PrimaryEndpointAddress r, go_Port r) of
        (Some address, Some port) \<Rightarrow> Some (address, port) | _ \<Rightarrow> None),
      vs_AutoMinorVersionUpgrade = (go_AutoMinorVersionUpgrade r = Some ''true''),
      vs_KMSKeyID = SetString (go_KMSKeyID r) '''', vs_MultiAZEnabled = SetBool (go_MultiAzEnabled r) False,
      vs_ParameterGroupName = SetString (go_ParameterGroupName r) ''''\<rparr>"

definition GetValkeySecurityGroupStatus :: "security_group_observation \<Rightarrow> ValkeyInstanceSecurityGroup" where
  "GetValkeySecurityGroupStatus s =
     \<lparr>vg_Name = (case map_of (so_Tags s) ''Name'' of Some (Some name) \<Rightarrow> name | _ \<Rightarrow> ''''),
      vg_Description = SetString (so_Description s) '''', vg_ID = SetString (so_ID s) '''', vg_Arn = SetString (so_Arn s) ''''\<rparr>"

definition int_or_zero :: "rat option \<Rightarrow> int" where
  "int_or_zero p = (case p of None \<Rightarrow> 0 | Some x \<Rightarrow> float_to_int x)"

definition GetValkeySecurityGroupRuleStatus :: "security_rule_observation \<Rightarrow> ValkeyInstanceSecurityGroupRule" where
  "GetValkeySecurityGroupRuleStatus s =
     \<lparr>vgr_CidrBlocks = List.map_filter id (sro_CidrBlocks s), vgr_Description = SetString (sro_Description s) '''',
      vgr_FromPort = int_or_zero (sro_FromPort s), vgr_ToPort = int_or_zero (sro_ToPort s),
      vgr_Protocol = SetString (sro_Protocol s) '''', vgr_Self = SetBool (sro_Self s) False,
      vgr_Type = SetString (sro_Type s) ''''\<rparr>"

end
