(* ===== verification/Db_Service.thy ===== *)
theory Db_Service
  imports Db_Users Db_Valkey
begin

text \<open>
  The statuses of RDS instances (\<open>functions/database/service\<close>) and the interface of the database group
  (\<open>functions/database/group.go\<close>).
\<close>

section \<open>Statuses\<close>

definition status_of_rds :: "(bool option \<Rightarrow> 'b) \<Rightarrow> rds_observation \<Rightarrow> 'b db_instance_status" where
  "status_of_rds flag obs =
     \<lparr>st_AllowMajorVersionUpgrade = flag (ro_AllowMajorVersionUpgrade obs),
      st_AutoMinorVersionUpgrade = flag (ro_AutoMinorVersionUpgrade obs),
      st_BackupWindow = SetString (ro_BackupWindow obs) '''', st_DBInstanceIdentifier = ro_Name obs,
      st_Address = SetString (ro_Address obs) '''', st_HostedZoneID = SetString (ro_HostedZoneID obs) '''',
      st_Port = SetFloat64 (ro_Port obs) 0, st_FinalSnapshotIdentifier = SetString (ro_FinalSnapshotIdentifier obs) '''',
      st_Iops = SetFloat64 (ro_Iops obs) 0, st_KMSKeyID = SetString (ro_KMSKeyID obs) '''',
      st_LatestRestorableTime = map_option unix_nanos (obind (ro_LatestRestorableTime obs) parse_rfc3339),
      st_MaintenanceWindow = SetString (ro_MaintenanceWindow obs) '''',
      st_ParameterGroupName = SetString (ro_ParameterGroupName obs) '''', st_ResourceID = SetString (ro_ResourceID obs) '''',
      st_SnapshotIdentifier = SetString (ro_SnapshotIdentifier obs) '''', st_Status = SetString (ro_Status obs) '''',
      st_StorageEncrypted = flag (ro_StorageEncrypted obs), st_StorageThroughput = SetFloat64 (ro_StorageThroughput obs) 0,
      st_StorageType = SetString (ro_StorageType obs) '''',
      st_VpcSecurityGroupIds = List.map_filter id (ro_VPCSecurityGroupIds obs)\<rparr>"

text \<open>The order of the fields is that of the record; \<open>Status\<close> and \<open>SnapshotIdentifier\<close> are set in the other order.\<close>

definition GetPostgreSQLStatusFromDbInstance :: "rds_observation \<Rightarrow> bool db_instance_status" where
  "GetPostgreSQLStatusFromDbInstance = status_of_rds (\<lambda>b. SetBool b False)"

definition GetMariaDBStatusFromDbInstance :: "rds_observation \<Rightarrow> bool option db_instance_status" where
  "GetMariaDBStatusFromDbInstance = status_of_rds (\<lambda>b. b)"

definition GetRDSInstanceReadyStatus :: "ext \<Rightarrow> object \<Rightarrow> ready" where
  "GetRDSInstanceReadyStatus X ob =
     (let port = found (nested_float X ob [''status'', ''atProvider'', ''port'']) in
      if text_at X ob [''status'', ''atProvider'', ''address''] = '''' \<or>
         text_at X ob [''status'', ''atProvider'', ''hostedZoneId''] = '''' \<or> port = None \<or> port = Some 0 then ReadyFalse
      else GetCrossplaneReadyStatus X ob)"

definition db_GetResourceReadyStatus :: "ext \<Rightarrow> object \<Rightarrow> ready" where
  "db_GetResourceReadyStatus X ob = (if isResourceReady X ob then ReadyTrue else ReadyFalse)"

text \<open>The results of \<open>ToUnstructured\<close> are maps, so that a key occurs once.\<close>

definition getDBInstanceStatus :: "db_ext \<Rightarrow> object \<Rightarrow> object res" where
  "getDBInstanceStatus D ob =
     bindr (wrapf ''cannot convert Instance object to RDS Instance'' (dx_rds D ob)) (\<lambda>inst.
     bindr (if ro_Engine inst = Some ''mariadb'' then dx_mariadb_status D (GetMariaDBStatusFromDbInstance inst)
            else dx_pg_status D (GetPostgreSQLStatusFromDbInstance inst)) (\<lambda>status. Inr (gcopy [] status)))"

definition getReplicationGroupStatus :: "db_ext \<Rightarrow> object \<Rightarrow> object res" where
  "getReplicationGroupStatus D ob =
     bindr (wrapf ''cannot convert ReplicationGroup'' (dx_replication_group D ob)) (\<lambda>rg.
     bindr (dx_valkey_status D (GetValkeyStatusFromReplicationGroup rg)) (\<lambda>status. Inr (gcopy [] status)))"

definition getSecurityGroupStatus :: "ext \<Rightarrow> db_ext \<Rightarrow> object \<Rightarrow> object res" where
  "getSecurityGroupStatus X D ob =
     (if gget (get_annotations X ob) ''crossplane.io/composition-resource-name'' \<noteq> ''security-group'' then Inr []
      else bindr (wrapf ''cannot convert SecurityGroup'' (dx_security_group D ob)) (\<lambda>sg.
        bindr (dx_sg_status D (GetValkeySecurityGroupStatus sg)) (\<lambda>status. Inr (gcopy [] status))))"

definition db_GetObservedStatus :: "ext \<Rightarrow> db_ext \<Rightarrow> object \<Rightarrow> object res" where
  "db_GetObservedStatus X D ob =
     (let kind = get_kind X ob; api = get_api_version X ob in
      if kind = ''Instance'' \<and> prefix ''rds.aws.m.upbound.io'' api then getDBInstanceStatus D ob
      else if kind = ''ReplicationGroup'' \<and> prefix ''elasticache.aws.m.upbound.io'' api then getReplicationGroupStatus D ob
      else if kind = ''SecurityGroup'' \<and> prefix ''ec2.aws.m.upbound.io'' api then getSecurityGroupStatus X D ob
      else Inr [])"

text \<open>
  \<open>PostProcessStatus\<close>: the statuses of the observed rules, in the order of the iteration over the observed
  resources; a rule that does not convert is left out.
\<close>

fun rules_loop :: "ext \<Rightarrow> db_ext \<Rightarrow> observed \<Rightarrow> json list \<Rightarrow> json list res" where
  "rules_loop X D [] rules = Inr rules"
| "rules_loop X D ((name, oc) # observed) rules =
     bindr (deref (oc_resource oc)) (\<lambda>ob.
       if get_kind X ob \<noteq> ''SecurityGroupRule'' \<or> \<not> prefix ''ec2.aws.m.upbound.io'' (get_api_version X ob)
       then rules_loop X D observed rules
       else case dx_security_rule D ob of
         Inl (Panic p) \<Rightarrow> Inl (Panic p)
       | Inl (Error e) \<Rightarrow> rules_loop X D observed rules
       | Inr sgr \<Rightarrow>
           (case dx_sgr_status D (GetValkeySecurityGroupRuleStatus sgr) of
              Inl (Panic p) \<Rightarrow> Inl (Panic p)
            | Inl (Error e) \<Rightarrow> rules_loop X D observed rules
            | Inr ruleMap \<Rightarrow> rules_loop X D observed (rules @ [JObj ruleMap])))"

definition db_PostProcessStatus :: "ext \<Rightarrow> db_ext \<Rightarrow> object \<Rightarrow> observed \<Rightarrow> object res" where
  "db_PostProcessStatus X D status observed =
     (case map_of status ''securityGroup'' of
        Some (JObj sg) \<Rightarrow>
          bindr (rules_loop X D observed []) (\<lambda>rules.
            Inr (if length rules > 0 then gset ''securityGroup'' (JObj (gset ''rules'' (JArr rules) sg)) status else status))
      | _ \<Rightarrow> Inr status)"

section \<open>Sequences\<close>

fun database_composite_kind :: "database_composite \<Rightarrow> string" where
  "database_composite_kind (PostgreSQLInstanceC i) = di_kind i"
| "database_composite_kind (MariaDBInstanceC i) = di_kind i"
| "database_composite_kind (ValkeyInstanceC i) = vk_kind i"
| "database_composite_kind (PostgreSQLUserC u) = pu_kind u"
| "database_composite_kind (MariaDBUserC u) = mu_kind u"
| "database_composite_kind (PostgreSQLDatabaseC d) = pd_kind d"
| "database_composite_kind (MariaDBDatabaseC d) = md_kind d"

text \<open>Name and UID, which the sequences of the two RDS kinds read.\<close>

fun composite_name_uid :: "database_composite \<Rightarrow> string \<times> string" where
  "composite_name_uid (PostgreSQLInstanceC i) = (di_name i, di_uid i)"
| "composite_name_uid (MariaDBInstanceC i) = (di_name i, di_uid i)"
| "composite_name_uid (ValkeyInstanceC i) = (vk_name i, vk_uid i)"
| "composite_name_uid (PostgreSQLUserC u) = (pu_name u, '''')"
| "composite_name_uid (MariaDBUserC u) = (mu_name u, '''')"
| "composite_name_uid (PostgreSQLDatabaseC d) = (pd_name d, '''')"
| "composite_name_uid (MariaDBDatabaseC d) = (md_name d, '''')"

definition instanceProtection :: string where "instanceProtection = ''instance-protection''"

definition rds_steps :: "db_resource_names \<Rightarrow> string list list" where
  "rds_steps n = [[dn_sg n, dn_sgIngress n, dn_sgEgress n, dn_pc n, ''parameter-group-.*''], [dn_rdsInstance n], [dn_es n]]"

definition database_steps :: "ext \<Rightarrow> string \<Rightarrow> string \<Rightarrow> string \<Rightarrow> string list list" where
  "database_steps X kind name uid =
     (if kind = XRKindPostgreSQLUser then [[''role''], [''grant-.*''], [''usage-grant-.*''], [instanceProtection]]
      else if kind = XRKindMariaDBUser then
        [[''user''], [''grant-.*''], [''usage-grant-.*''], [''db-protection-.*''], [instanceProtection]]
      else if kind = XRKindPostgreSQLDatabase then
        [[''grant-owner-to-dbadmin''], [''postgresql-database''], [''extension-.*''], [''grant-usage''], [''owner-protection''],
         [instanceProtection]]
      else if kind = XRKindMariaDBDatabase then [[''mariadb-database''], [instanceProtection]]
      else if kind = XRKindPostgreSQL \<or> kind = XRKindMariaDBInstance then rds_steps (db_generateNames X name (GenerateFNVHash uid))
      else if kind = XRKindValkey then
        [[''security-group'', ''parameter-group-.*''], [''replication-group''], [''sg-.*''],
         [''secrets-manager-secret'', ''credentials''], [''secrets-manager-secret-version'']]
      else [])"

text \<open>The default case is the zero \<open>Sequence\<close>: no steps, and not regular expressions.\<close>

definition db_GetSequence :: "ext \<Rightarrow> database_composite \<Rightarrow> Sequence" where
  "db_GetSequence X c =
     (case composite_name_uid c of (name, uid) \<Rightarrow>
        (let steps = database_steps X (database_composite_kind c) name uid
         in if steps = [] then empty_sequence else NewSequence True steps))"

section \<open>Readiness\<close>

definition db_GetReadyStatus :: "ext \<Rightarrow> object \<Rightarrow> ready option" where
  "db_GetReadyStatus X ob =
     (let kind = get_kind X ob in
      if kind = ''Instance'' then Some (GetRDSInstanceReadyStatus X ob)
      else if kind = ''ReplicationGroup'' then Some (GetValkeyReplicationGroupReadyStatus X ob)
      else if kind = ''Database'' \<or> kind = ''Grant'' then Some (db_GetResourceReadyStatus X ob)
      else None)"

section \<open>Required resources\<close>

definition by_name :: "string \<Rightarrow> string \<Rightarrow> string \<Rightarrow> string \<Rightarrow> selector" where
  "by_name apiVersion kind name ns =
     \<lparr>sel_kind = kind, sel_api_version = apiVersion, sel_match = MatchName name, sel_namespace = Some ns\<rparr>"

definition by_label :: "string \<Rightarrow> string \<Rightarrow> string \<Rightarrow> string \<Rightarrow> string \<Rightarrow> selector" where
  "by_label apiVersion kind label value ns =
     \<lparr>sel_kind = kind, sel_api_version = apiVersion, sel_match = MatchLabels [(label, value)], sel_namespace = Some ns\<rparr>"

text \<open>A text of the composite's spec that has to be there.\<close>

definition needed_text :: "ext \<Rightarrow> object \<Rightarrow> string \<Rightarrow> string \<Rightarrow> string list \<Rightarrow> string res" where
  "needed_text X composite kind path_text path =
     (case text_at X composite path of
        [] \<Rightarrow> Inl (Error (''cannot get '' @ path_text @ '' from '' @ kind @ '' '' @ get_name X composite))
      | s \<Rightarrow> Inr s)"

definition getPostgreSQLDatabaseRequiredResources :: "ext \<Rightarrow> object \<Rightarrow> selectors res" where
  "getPostgreSQLDatabaseRequiredResources X composite =
     bindr (needed_text X composite ''PostgreSQLDatabase'' ''spec.owner'' [''spec'', ''owner'']) (\<lambda>owner.
       Inr [(''OwnerRole'', by_label pgSqlApiVersion ''Role'' ''database.entigo.com/role-name'' owner (get_namespace X composite))])"

definition getPostgreSQLUserRequiredResources :: "ext \<Rightarrow> object \<Rightarrow> selectors res" where
  "getPostgreSQLUserRequiredResources X composite =
     bindr (needed_text X composite ''PostgreSQLUser'' ''spec.instanceRef.name'' [''spec'', ''instanceRef'', ''name'']) (\<lambda>i.
       Inr [(''PostgreSQLInstance'', by_name databaseApi ''PostgreSQLInstance'' i (get_namespace X composite))])"

definition getMariaDBUserRequiredResources :: "ext \<Rightarrow> object \<Rightarrow> selectors res" where
  "getMariaDBUserRequiredResources X composite =
     bindr (needed_text X composite ''MariaDBUser'' ''spec.instanceRef.name'' [''spec'', ''instanceRef'', ''name'']) (\<lambda>i.
     bindr (needed_text X composite ''MariaDBUser'' ''spec.databaseRef.name'' [''spec'', ''databaseRef'', ''name'']) (\<lambda>d.
       Inr [(''MariaDBInstance'', by_name databaseApi ''MariaDBInstance'' i (get_namespace X composite)),
            (''MariaDBDatabase'', by_label mySqlApiVersion ''Database'' ''database.entigo.com/database-name'' d (get_namespace X composite))]))"

definition getMariaDBDatabaseRequiredResources :: "ext \<Rightarrow> object \<Rightarrow> selectors res" where
  "getMariaDBDatabaseRequiredResources X composite =
     bindr (needed_text X composite ''MariaDBDatabase'' ''spec.instanceRef.name'' [''spec'', ''instanceRef'', ''name'']) (\<lambda>i.
       Inr [(''MariaDBInstance'', by_name databaseApi ''MariaDBInstance'' i (get_namespace X composite))])"

definition kms_selectors :: "database_Environment \<Rightarrow> selectors \<Rightarrow> selectors" where
  "kms_selectors env resources =
     (let resources = (if de_DataKMSKey env \<noteq> ''''
        then gset ''KMSDataKey'' (RequiredKMSKey (de_DataKMSKey env) (de_AWSProvider env)) resources else resources)
      in if de_ConfigKMSKey env \<noteq> ''''
         then gset ''KMSConfigKey'' (RequiredKMSKey (de_ConfigKMSKey env) (de_AWSProvider env)) resources else resources)"

definition rds_selectors :: "ext \<Rightarrow> object \<Rightarrow> database_Environment \<Rightarrow> selectors \<Rightarrow> selectors" where
  "rds_selectors X composite env resources =
     (let resources = kms_selectors env (gset ''VPC'' (RequiredVPC (de_VPC env) (de_AWSProvider env)) resources);
          resources = gset ''DBSubnetGroup'' (by_name rdsApiVersion ''SubnetGroup'' (de_SubnetGroup env) (de_AWSProvider env)) resources
      in gset ''Secret'' (by_name ''v1'' ''Secret'' (dbadmin_secret X (get_name X composite)) (get_namespace X composite)) resources)"

definition valkey_selectors :: "database_Environment \<Rightarrow> selectors \<Rightarrow> selectors" where
  "valkey_selectors env resources =
     (let resources = gset ''VPC'' (RequiredVPC (de_VPC env) (de_AWSProvider env)) resources;
          resources = gset ''ElasticacheSubnetGroup''
            (by_name elasticacheApiVersion ''SubnetGroup'' (de_ElasticacheSubnetGroup env) (de_AWSProvider env)) resources
      in gset ''ComputeSubnets'' (by_label VPCApiVersion ''Subnet'' ''subnet-type'' ''compute'' (de_AWSProvider env))
           (kms_selectors env resources))"

definition db_GetRequiredResources :: "ext \<Rightarrow> db_ext \<Rightarrow> object \<Rightarrow> required \<Rightarrow> selectors res" where
  "db_GetRequiredResources X D composite required =
     (let kind = get_kind X composite in
      if kind = XRKindPostgreSQLUser then getPostgreSQLUserRequiredResources X composite
      else if kind = XRKindMariaDBUser then getMariaDBUserRequiredResources X composite
      else if kind = XRKindPostgreSQLDatabase then getPostgreSQLDatabaseRequiredResources X composite
      else if kind = XRKindMariaDBDatabase then getMariaDBDatabaseRequiredResources X composite
      else
        (let resources = [(EnvironmentKey, RequiredEnvironmentConfig ''platform-apis-database'')] in
         if map_of required EnvironmentKey = None then Inr resources
         else bindr (database_GetEnvironment X D required) (\<lambda>env.
           if kind = XRKindPostgreSQL \<or> kind = XRKindMariaDBInstance then Inr (rds_selectors X composite env resources)
           else if kind = XRKindValkey then Inr (valkey_selectors env resources)
           else Inr resources)))"

section \<open>The group\<close>

definition typed_map :: "kobject gomap \<Rightarrow> db_object gomap" where
  "typed_map = map (apsnd (\<lambda>ob. Some (Typed ob)))"

text \<open>The \<open>Generate\<close> functions; the type assertion panics for another type.\<close>

fun database_generate ::
  "ext \<Rightarrow> db_ext \<Rightarrow> (nat \<Rightarrow> int) \<Rightarrow> database_composite \<Rightarrow> required \<Rightarrow> observed \<Rightarrow> db_object gomap res" where
  "database_generate X D clock (PostgreSQLInstanceC i) required observed = GeneratePgInstanceObjects X D clock i required observed"
| "database_generate X D clock (MariaDBInstanceC i) required observed = GenerateMariaDBInstanceObjects X D clock i required observed"
| "database_generate X D clock (ValkeyInstanceC i) required observed = GenerateValkeyInstanceObjects X D i required observed"
| "database_generate X D clock (PostgreSQLUserC u) required observed =
     bindr (GeneratePgUserObjects X D u required observed) (\<lambda>m. Inr (typed_map m))"
| "database_generate X D clock (MariaDBUserC u) required observed =
     bindr (GenerateMariaDBUserObjects X D u required) (\<lambda>m. Inr (typed_map m))"
| "database_generate X D clock (PostgreSQLDatabaseC d) required observed =
     bindr (GeneratePgDatabaseObjects D d required) (\<lambda>m. Inr (typed_map m))"
| "database_generate X D clock (MariaDBDatabaseC d) required observed =
     bindr (GenerateMariaDBDatabaseObjects D d required) (\<lambda>m. Inr (typed_map m))"

definition database_handler ::
  "ext \<Rightarrow> db_ext \<Rightarrow> (nat \<Rightarrow> int) \<Rightarrow> (object \<Rightarrow> 'a res) \<Rightarrow> ('a \<Rightarrow> database_composite) \<Rightarrow>
   (database_composite, db_object) ResourceHandler" where
  "database_handler X D clock decode wrap =
     \<lparr>h_decode = (\<lambda>ob. bindr (decode ob) (\<lambda>x. Inr (wrap x))), h_generate = database_generate X D clock\<rparr>"

definition database_handlers ::
  "ext \<Rightarrow> db_ext \<Rightarrow> (nat \<Rightarrow> int) \<Rightarrow> (database_composite, db_object) ResourceHandler gomap" where
  "database_handlers X D clock =
     [(XRKindPostgreSQL, database_handler X D clock (dx_pg_instance D) PostgreSQLInstanceC),
      (XRKindMariaDBInstance, database_handler X D clock (dx_mariadb_instance D) MariaDBInstanceC),
      (XRKindValkey, database_handler X D clock (dx_valkey_instance D) ValkeyInstanceC),
      (XRKindPostgreSQLUser, database_handler X D clock (dx_pg_user D) PostgreSQLUserC),
      (XRKindMariaDBUser, database_handler X D clock (dx_mariadb_user D) MariaDBUserC),
      (XRKindPostgreSQLDatabase, database_handler X D clock (dx_pg_database D) PostgreSQLDatabaseC),
      (XRKindMariaDBDatabase, database_handler X D clock (dx_mariadb_database D) MariaDBDatabaseC)]"

definition database_group :: "ext \<Rightarrow> db_ext \<Rightarrow> (nat \<Rightarrow> int) \<Rightarrow> (database_composite, db_object) GroupService" where
  "database_group X D clock = \<lparr>SkipGeneration = (\<lambda>composite. False),
     GetResourceHandlers = database_handlers X D clock, GetSequence = db_GetSequence X,
     GetReadyStatus = db_GetReadyStatus X, GetRequiredResources = db_GetRequiredResources X D,
     GetObservedStatus = db_GetObservedStatus X D, PostProcessStatus = Some (db_PostProcessStatus X D)\<rparr>"

end
