(* ===== verification/Db_Laws.thy ===== *)
theory Db_Laws
  imports Db_Service
begin

text \<open>
  What the generators of the database group produce: maps with one entry per name, the contract of base, and
  the contents of the map of an RDS instance.
\<close>

section \<open>Well-formed maps\<close>

lemma wf_typed_map [simp]: "wf_map (typed_map m) = wf_map m"
  by (simp add: wf_map_def typed_map_def comp_def)

lemma map_of_typed_map [simp]: "map_of (typed_map m) n = map_option (\<lambda>ob. Some (Typed ob)) (map_of m n)"
  by (induction m) (auto simp: typed_map_def)

lemma stale_group_loop_wf: "stale_group_loop X key observed objects = Inr out \<Longrightarrow> wf_map objects \<Longrightarrow> wf_map out"
proof (induction X key observed objects rule: stale_group_loop.induct)
  case (2 X key name oc observed objects)
  show ?case
  proof (cases "name = key \<or> \<not> prefix parameterGroupKeyPrefix name")
    case True
    with 2 show ?thesis by simp
  next
    case False
    with "2.prems"(1) obtain ob where ob: "oc_resource oc = Some ob" by (auto simp: res_simps)
    show ?thesis
      using 2 False ob by (cases "found (nested_map X ob [''spec''])") simp_all
  qed
qed simp

lemma keepStale_wf: "keepStaleParameterGroups X observed n pg family objects = Inr out \<Longrightarrow> wf_map objects \<Longrightarrow> wf_map out"
  by (auto simp: keepStaleParameterGroups_def res_simps stale_group_loop_wf split: if_splits)

lemma applyParameterGroup_wf: "applyParameterGroup X g desired = Inr (out, pg) \<Longrightarrow> wf_map desired \<Longrightarrow> wf_map out"
  by (auto simp: applyParameterGroup_def Let_def res_simps keepStale_wf split: option.splits if_splits prod.splits)

lemma db_sg_wf: "wf_map (db_buildSecurityGroup g)"
  by (simp add: db_buildSecurityGroup_def Let_def)

text \<open>What \<open>generate\<close> adds to the desired objects, by what is observed of the instance.\<close>

definition rds_outcome ::
  "ext \<Rightarrow> db_ext \<Rightarrow> (nat \<Rightarrow> int) \<Rightarrow> rds_generator \<Rightarrow> db_object gomap \<Rightarrow> string \<Rightarrow> db_object gomap \<Rightarrow> bool" where
  "rds_outcome X D clock g d pg gen \<longleftrightarrow>
     (case map_of (rg_observed g) (dn_rdsInstance (rg_names g)) of
        None \<Rightarrow> \<exists>inst. buildRDSInstance X D g pg = Inr inst \<and> gen = gset (dn_rdsInstance (rg_names g)) (Some (Typed inst)) d
      | Some oc \<Rightarrow> \<exists>ob. oc_resource oc = Some ob \<and>
          (if ic_snapshotIdentifier (rg_common g) \<noteq> getSnapshotIdentifierFromObserved X ob then gen = d
           else \<exists>inst es. buildRDSInstance X D g pg = Inr inst \<and> buildExternalSecretIfReady X clock g ob = Inr es \<and>
             gen = gset (dn_es (rg_names g)) es (gset (dn_rdsInstance (rg_names g)) (Some (Typed inst)) d)))"

definition rds_base :: "rds_generator \<Rightarrow> gobject \<Rightarrow> db_object gomap" where
  "rds_base g pc = gset (dn_pc (rg_names g)) (Some pc) (gcopy [] (db_buildSecurityGroup g))"

lemma rds_generateE:
  assumes "rds_generate X D clock g = Inr gen"
  obtains pc d pg where "buildProviderConfig X D g = Inr pc" and "applyParameterGroup X g (rds_base g pc) = Inr (d, pg)"
    and "rds_outcome X D clock g d pg gen"
proof -
  from assms obtain pc d pg where pc: "buildProviderConfig X D g = Inr pc"
    and d: "applyParameterGroup X g (rds_base g pc) = Inr (d, pg)"
    by (auto simp: rds_generate_def Let_def res_simps rds_base_def)
  have "rds_outcome X D clock g d pg gen"
  proof (cases "map_of (rg_observed g) (dn_rdsInstance (rg_names g))")
    case None
    with assms pc d show ?thesis by (auto simp: rds_generate_def Let_def rds_base_def [symmetric] rds_outcome_def res_simps)
  next
    case (Some oc)
    with assms pc d obtain ob where "oc_resource oc = Some ob"
      by (auto simp: rds_generate_def Let_def rds_base_def [symmetric] res_simps)
    with assms pc d Some show ?thesis
      by (cases "ic_snapshotIdentifier (rg_common g) \<noteq> getSnapshotIdentifierFromObserved X ob")
        (auto simp: rds_generate_def Let_def rds_base_def [symmetric] rds_outcome_def res_simps)
  qed
  with pc d show thesis by (rule that)
qed

lemma rds_generate_wf:
  assumes "rds_generate X D clock g = Inr gen"
  shows "wf_map gen"
proof -
  from assms obtain pc d pg where d: "applyParameterGroup X g (rds_base g pc) = Inr (d, pg)" and "rds_outcome X D clock g d pg gen"
    by (rule rds_generateE)
  moreover have "wf_map d" by (rule applyParameterGroup_wf [OF d]) (simp add: rds_base_def db_sg_wf)
  ultimately show ?thesis by (auto simp: rds_outcome_def split: option.splits if_splits)
qed

lemma subnet_rules_wf: "wf_map objects \<Longrightarrow> wf_map (subnet_rules_loop g subnets objects)"
  by (induction g subnets objects rule: subnet_rules_loop.induct) auto

lemma valkey_generate_wf:
  assumes "valkey_generate X g = Inr gen"
  shows "wf_map gen"
proof -
  from assms obtain objects pg where o: "valkey_parameter_group X g = Inr (objects, pg)"
    and gen: "\<exists>rg. gen = valkey_buildCredentialsSecret g (valkey_buildSecretsManagerResources g (subnet_rules_loop g (vg_computeSubnets g)
        (gset ''security-group'' (Some (Typed (valkey_buildSecurityGroup g))) (gset rgKey rg objects))))"
    by (auto simp: valkey_generate_def Let_def res_simps)
  have "wf_map objects" using o
    by (auto simp: valkey_parameter_group_def Let_def res_simps keepStale_wf split: option.splits if_splits prod.splits)
  moreover have "wf_map m \<Longrightarrow> wf_map (valkey_buildCredentialsSecret g (valkey_buildSecretsManagerResources g m))" for m
    by (simp add: valkey_buildCredentialsSecret_def valkey_buildSecretsManagerResources_def Let_def split: option.splits)
  ultimately show ?thesis using gen by (auto simp: subnet_rules_wf)
qed

lemma extensions_wf: "wf_map m \<Longrightarrow> wf_map (extensions_loop g i es m)"
  by (induction g i es m rule: extensions_loop.induct) auto

lemma database_generate_wf:
  assumes "database_generate X D clock c required observed = Inr gen"
  shows "wf_map gen"
proof (cases c)
  case (PostgreSQLInstanceC i)
  then show ?thesis using assms by (auto simp: GeneratePgInstanceObjects_def generate_rds_def res_simps rds_generate_wf)
next
  case (MariaDBInstanceC i)
  then show ?thesis using assms by (auto simp: GenerateMariaDBInstanceObjects_def generate_rds_def res_simps rds_generate_wf)
next
  case (ValkeyInstanceC i)
  then show ?thesis using assms by (auto simp: GenerateValkeyInstanceObjects_def res_simps valkey_generate_wf)
next
  case (PostgreSQLUserC u)
  then show ?thesis using assms by (auto simp: GeneratePgUserObjects_def pg_user_generate_def res_simps split: if_splits)
next
  case (MariaDBUserC u)
  then show ?thesis using assms by (auto simp: GenerateMariaDBUserObjects_def mariadb_user_generate_def res_simps split: if_splits)
next
  case (PostgreSQLDatabaseC d)
  then show ?thesis using assms by (auto simp: GeneratePgDatabaseObjects_def pg_database_generate_def res_simps split: if_splits)
next
  case (MariaDBDatabaseC d)
  then show ?thesis using assms
    by (auto simp: GenerateMariaDBDatabaseObjects_def mariadb_database_generate_def Let_def res_simps split: if_splits)
qed

section \<open>The contract of base\<close>

lemma fixed_patterns:
  "list_all pattern_ok [''role'', ''grant-.*'', ''usage-grant-.*'', instanceProtection, ''user'', ''db-protection-.*'',
     ''grant-owner-to-dbadmin'', ''postgresql-database'', ''extension-.*'', ''grant-usage'', ''owner-protection'',
     ''mariadb-database'', ''parameter-group-.*'', ''security-group'', ''replication-group'', ''sg-.*'',
     ''secrets-manager-secret'', ''credentials'', ''secrets-manager-secret-version'']"
  by code_simp

lemma rds_patterns: "\<forall>ps \<in> set (rds_steps (db_generateNames X name hash)). \<forall>p \<in> set ps. pattern_ok p"
  using fixed_patterns
  by (simp add: rds_steps_def db_generateNames_def db_GetSGName_def db_GetSGIngressName_def db_GetSGEgressName_def
      GetRDSInstanceName_def GetESName_def GetPCName_def GenerateEligibleKubernetesFullName_def name_pattern)

lemma database_patterns: "\<forall>ps \<in> set (database_steps X kind name uid). \<forall>p \<in> set ps. pattern_ok p"
proof -
  have fixed: "\<forall>ps \<in> set steps. \<forall>p \<in> set ps. pattern_ok p"
    if "set (concat steps) \<subseteq> set [''role'', ''grant-.*'', ''usage-grant-.*'', instanceProtection, ''user'', ''db-protection-.*'',
     ''grant-owner-to-dbadmin'', ''postgresql-database'', ''extension-.*'', ''grant-usage'', ''owner-protection'',
     ''mariadb-database'', ''parameter-group-.*'', ''security-group'', ''replication-group'', ''sg-.*'',
     ''secrets-manager-secret'', ''credentials'', ''secrets-manager-secret-version'']" for steps :: "string list list"
    using that fixed_patterns unfolding list_all_iff set_concat by blast
  have branch: "\<forall>ps \<in> set (if b then xs else ys). \<forall>p \<in> set ps. pattern_ok p"
    if "\<forall>ps \<in> set xs. \<forall>p \<in> set ps. pattern_ok p" and "\<forall>ps \<in> set ys. \<forall>p \<in> set ps. pattern_ok p"
    for b and xs ys :: "string list list"
    using that by simp
  show ?thesis
    unfolding database_steps_def by (rule branch, rule rds_patterns | rule branch, rule fixed, simp)+ (rule fixed, simp)
qed

lemma db_patterns: "\<forall>s \<in> set (seq_steps (db_GetSequence X c)). \<forall>p \<in> set (step_objects s). pattern_ok p"
  using database_patterns [of X "database_composite_kind c" "fst (composite_name_uid c)" "snd (composite_name_uid c)"]
  by (auto simp: db_GetSequence_def Let_def NewSequence_def split: prod.splits if_splits)

interpretation database: group_service "database_group X D clock" "\<lambda>c. True" for X D clock
proof
  show "map_of (GetResourceHandlers (database_group X D clock)) kind = Some h \<Longrightarrow>
      h_generate h obj required observed = Inr gen \<Longrightarrow> wf_map gen" for kind h obj required observed gen
    by (auto simp: database_group_def database_handlers_def database_handler_def database_generate_wf split: if_splits)
  show "\<exists>names. sequence_names (database_group X D clock) obj gen = Inr names" for obj and gen :: "db_object gomap"
    using db_patterns by (intro sequence_names_ok) (auto simp: database_group_def)
  show "GetObservedStatus (database_group X D clock) ob = Inr st \<Longrightarrow> wf_map st" for ob st
    by (auto simp: database_group_def db_GetObservedStatus_def getDBInstanceStatus_def getReplicationGroupStatus_def
        getSecurityGroupStatus_def Let_def res_simps split: if_splits)
qed (auto simp: database_group_def db_PostProcessStatus_def res_simps split: option.splits json.splits if_splits)

section \<open>The map of an RDS instance\<close>

definition rds_names :: "ext \<Rightarrow> db_instance \<Rightarrow> db_resource_names" where
  "rds_names X i = db_generateNames X (di_name i) (GenerateFNVHash (di_uid i))"

definition rds_name_list :: "db_resource_names \<Rightarrow> string list" where
  "rds_name_list n = [dn_sg n, dn_sgIngress n, dn_sgEgress n, dn_pc n, dn_rdsInstance n, dn_es n]"

text \<open>The generated names differ from each other and from the keys of parameter groups.\<close>

definition names_apart :: "db_resource_names \<Rightarrow> bool" where
  "names_apart n \<longleftrightarrow> distinct (rds_name_list n) \<and> (\<forall>m \<in> set (rds_name_list n). \<not> prefix parameterGroupKeyPrefix m)"

lemma stale_group_loop_frame:
  "stale_group_loop X key observed objects = Inr out \<Longrightarrow> \<not> prefix parameterGroupKeyPrefix n \<Longrightarrow> map_of out n = map_of objects n"
proof (induction X key observed objects rule: stale_group_loop.induct)
  case (2 X key name oc observed objects)
  show ?case
  proof (cases "name = key \<or> \<not> prefix parameterGroupKeyPrefix name")
    case True
    with 2 show ?thesis by simp
  next
    case False
    with "2.prems"(1) obtain ob where ob: "oc_resource oc = Some ob" by (auto simp: res_simps)
    have ne: "name \<noteq> n" using False "2.prems"(2) by blast
    show ?thesis
      using 2 False ob ne by (cases "found (nested_map X ob [''spec''])") simp_all
  qed
qed simp

lemma keepStale_frame:
  "keepStaleParameterGroups X observed m pg family objects = Inr out \<Longrightarrow> \<not> prefix parameterGroupKeyPrefix n \<Longrightarrow>
   map_of out n = map_of objects n"
  by (auto simp: keepStaleParameterGroups_def res_simps stale_group_loop_frame split: if_splits)

lemma applyParameterGroup_frame:
  assumes "applyParameterGroup X g desired = Inr (out, pg)" and "\<not> prefix parameterGroupKeyPrefix n"
  shows "map_of out n = map_of desired n"
proof -
  have "n \<noteq> parameterGroupKeyPrefix @ family" for family using assms(2) by auto
  with assms show ?thesis
    by (auto simp: applyParameterGroup_def Let_def res_simps keepStale_frame split: option.splits if_splits prod.splits)
qed

lemma generate_rdsE:
  assumes "database_generate X D clock c required observed = Inr gen"
    and "c = PostgreSQLInstanceC i \<or> c = MariaDBInstanceC i"
  obtains g where "rds_generate X D clock g = Inr gen" and "rg_names g = rds_names X i" and "rg_observed g = observed"
    and "rg_common g = (if c = PostgreSQLInstanceC i then newPgInstanceCommon i else newMariaDBInstanceCommon i)"
    and "rg_instance g = (if c = PostgreSQLInstanceC i then PgEngine i else MariaDBEngine i)"
    and "checkSecretConflict X (rg_common g) (dn_es (rds_names X i)) required = Inr ()"
    and "all_fetched observed"
proof -
  let ?c = "if c = PostgreSQLInstanceC i then newPgInstanceCommon i else newMariaDBInstanceCommon i"
  let ?e = "if c = PostgreSQLInstanceC i then PgEngine i else MariaDBEngine i"
  have "generate_rds X D clock ?e ?c required observed = Inr gen"
    using assms by (auto simp: GeneratePgInstanceObjects_def GenerateMariaDBInstanceObjects_def)
  then obtain g v where g: "newRDSInstanceGenerator X D ?e ?c required observed = Inr g"
    and run: "rds_generate X D clock (g\<lparr>rg_engineVersionActual := v\<rparr>) = Inr gen"
    by (auto simp: generate_rds_def res_simps)
  have names: "db_generateNames X (ic_name ?c) (GenerateFNVHash (ic_uid ?c)) = rds_names X i"
    by (simp add: newPgInstanceCommon_def newMariaDBInstanceCommon_def rds_names_def Let_def)
  from g have "rg_names g = rds_names X i" "rg_observed g = observed" "rg_common g = ?c" "rg_instance g = ?e"
    "checkSecretConflict X ?c (dn_es (rds_names X i)) required = Inr ()" "is_ok (readiness_loop X observed [])"
    unfolding newRDSInstanceGenerator_def Let_def names by (auto simp: res_simps is_ok_iff)
  then show thesis using run readiness_loop_ok [of X observed "[]"]
    by (intro that [of "g\<lparr>rg_engineVersionActual := v\<rparr>"]) simp_all
qed

lemma common_snapshot [simp]:
  "ic_snapshotIdentifier (newPgInstanceCommon i) = sp_SnapshotIdentifier (di_Spec i)"
  "ic_snapshotIdentifier (newMariaDBInstanceCommon i) = sp_SnapshotIdentifier (di_Spec i)"
  by (simp_all add: newPgInstanceCommon_def newMariaDBInstanceCommon_def Let_def)

lemma buildRDSInstance_fields:
  assumes "buildRDSInstance X D g pg = Inr inst"
  defines "i \<equiv> engine_cr (rg_instance g)"
  shows "k_kind inst = ''Instance''" and "k_name inst = dn_rdsInstance (rg_names g)"
    and "kfield inst [''Spec'', ''ForProvider'', ''SnapshotIdentifier''] = Some (text_unless_empty (sp_SnapshotIdentifier (di_Spec i)))"
    and "kfield inst [''Spec'', ''ForProvider'', ''DeletionProtection''] = Some (VBool (sp_DeletionProtection (di_Spec i)))"
    and "kfield inst [''Spec'', ''ForProvider'', ''PubliclyAccessible''] = Some (VBool False)"
    and "kfield inst [''Spec'', ''ForProvider'', ''StorageEncrypted''] = Some (VBool True)"
    and "kfield inst [''Spec'', ''ForProvider'', ''SkipFinalSnapshot''] = Some (VBool (\<not> the
      (case rg_instance g of PgEngine j \<Rightarrow> de_PostgresBackupBeforeDeletion (rg_env g)
       | MariaDBEngine j \<Rightarrow> de_MariaDBBackupBeforeDeletion (rg_env g))))"
proof -
  from assms(1) obtain engine flag opt where
    b: "build_rds X D g engine i flag opt pg = Inr inst" and
    f: "flag = (case rg_instance g of PgEngine j \<Rightarrow> de_PostgresBackupBeforeDeletion (rg_env g)
       | MariaDBEngine j \<Rightarrow> de_MariaDBBackupBeforeDeletion (rg_env g))"
    by (cases "rg_instance g")
      (auto simp: buildRDSInstance_def buildPgRDSInstance_def buildMariaDBRDSInstance_def i_def)
  from b obtain az final now backup where backup: "flag = Some backup"
    and inst: "inst = \<lparr>k_type = ''rds/v1beta1.Instance'', k_apiVersion = rdsApiVersion, k_kind = ''Instance'',
            k_name = dn_rdsInstance (rg_names g), k_namespace = di_namespace i, k_labels = [], k_annotations = [],
            k_fields = [(''Spec'', VObj
              [(''ManagedResourceSpec'', VObj [(''ProviderConfigReference'', provider_config (de_AWSProvider (rg_env g))),
                  (''ManagementPolicies'', VList [VStr ''*''])]),
               (''ForProvider'', VObj (rds_parameters g engine (di_Spec i) pg backup az now final opt))])]\<rparr>"
    unfolding build_rds_def by (auto simp: res_simps)
  show "k_kind inst = ''Instance''" "k_name inst = dn_rdsInstance (rg_names g)" by (simp_all add: inst)
  show "kfield inst [''Spec'', ''ForProvider'', ''SnapshotIdentifier''] = Some (text_unless_empty (sp_SnapshotIdentifier (di_Spec i)))"
    "kfield inst [''Spec'', ''ForProvider'', ''DeletionProtection''] = Some (VBool (sp_DeletionProtection (di_Spec i)))"
    "kfield inst [''Spec'', ''ForProvider'', ''PubliclyAccessible''] = Some (VBool False)"
    "kfield inst [''Spec'', ''ForProvider'', ''StorageEncrypted''] = Some (VBool True)"
    "kfield inst [''Spec'', ''ForProvider'', ''SkipFinalSnapshot''] = Some (VBool (\<not> the
      (case rg_instance g of PgEngine j \<Rightarrow> de_PostgresBackupBeforeDeletion (rg_env g)
       | MariaDBEngine j \<Rightarrow> de_MariaDBBackupBeforeDeletion (rg_env g))))"
    by (simp_all add: inst kfield_def rds_parameters_def Let_def f [symmetric] backup)
qed

text \<open>What a run generates under the names of the instance and of the external secret.\<close>

lemma rds_generate_lookup:
  assumes "rds_generate X D clock g = Inr gen" and "names_apart (rg_names g)"
  shows "case map_of (rg_observed g) (dn_rdsInstance (rg_names g)) of
      None \<Rightarrow> \<exists>pg inst. buildRDSInstance X D g pg = Inr inst \<and>
        map_of gen (dn_rdsInstance (rg_names g)) = Some (Some (Typed inst)) \<and> map_of gen (dn_es (rg_names g)) = None
    | Some oc \<Rightarrow> \<exists>ob. oc_resource oc = Some ob \<and>
        (if ic_snapshotIdentifier (rg_common g) \<noteq> getSnapshotIdentifierFromObserved X ob
         then map_of gen (dn_rdsInstance (rg_names g)) = None \<and> map_of gen (dn_es (rg_names g)) = None
         else \<exists>pg inst es. buildRDSInstance X D g pg = Inr inst \<and> buildExternalSecretIfReady X clock g ob = Inr es \<and>
           map_of gen (dn_rdsInstance (rg_names g)) = Some (Some (Typed inst)) \<and> map_of gen (dn_es (rg_names g)) = Some es)"
proof -
  from assms(1) obtain pc d pg where d: "applyParameterGroup X g (rds_base g pc) = Inr (d, pg)" and out: "rds_outcome X D clock g d pg gen"
    by (rule rds_generateE)
  have apart: "dn_es (rg_names g) \<noteq> dn_rdsInstance (rg_names g)"
    "map_of (rds_base g pc) (dn_rdsInstance (rg_names g)) = None" "map_of (rds_base g pc) (dn_es (rg_names g)) = None"
    using assms(2) by (auto simp: names_apart_def rds_name_list_def rds_base_def db_buildSecurityGroup_def Let_def map_of_gcopy_apply)
  have none: "map_of d (dn_rdsInstance (rg_names g)) = None" "map_of d (dn_es (rg_names g)) = None"
    using applyParameterGroup_frame [OF d] apart assms(2) by (simp_all add: names_apart_def rds_name_list_def)
  show ?thesis
  proof (cases "map_of (rg_observed g) (dn_rdsInstance (rg_names g))")
    case None
    with out none apart show ?thesis by (auto simp: rds_outcome_def)
  next
    case (Some oc)
    with out obtain ob where "oc_resource oc = Some ob" by (auto simp: rds_outcome_def)
    with Some out none apart show ?thesis
      by (cases "ic_snapshotIdentifier (rg_common g) \<noteq> getSnapshotIdentifierFromObserved X ob") (auto simp: rds_outcome_def)
  qed
qed

end
