(* ===== verification/Db_Demo.thy ===== *)
theory Db_Demo
  imports Db_Laws
begin

text \<open>
  A PostgreSQL instance, an environment and conversions on which the properties of the database group are
  evaluated.
\<close>

definition demo_spec :: db_instance_spec where
  "demo_spec = \<lparr>sp_AllocatedStorage = 20, sp_AllowMajorVersionUpgrade = False, sp_AutoMinorVersionUpgrade = True,
     sp_BackupRetentionPeriod = None, sp_BackupWindow = '''', sp_DeletionProtection = True, sp_EngineVersion = Some ''17.2'',
     sp_InstanceType = ''db.t3.micro'', sp_Iops = 0, sp_MaintenanceWindow = '''', sp_MultiAZ = False, sp_ParameterGroupName = '''',
     sp_ParameterGroupParameters = None, sp_SnapshotIdentifier = ''''\<rparr>"

definition demo_pg :: db_instance where
  "demo_pg = \<lparr>di_kind = XRKindPostgreSQL, di_name = ''shop'', di_namespace = ''team-a'', di_uid = ''4f2a'', di_Spec = demo_spec,
     di_Conditions = [(''Ready'', ''True'')]\<rparr>"

definition demo_env :: database_Environment where
  "demo_env = \<lparr>de_AWSProvider = ''aws'', de_DataKMSKey = '''', de_ConfigKMSKey = '''', de_VPC = ''main'', de_SubnetGroup = ''db'',
     de_ElasticacheSubnetGroup = ''cache'', de_EsClusterSecretStore = ''store'', de_PostgresBackupBeforeDeletion = None,
     de_MariaDBBackupBeforeDeletion = None, de_ValkeyBackupBeforeDeletion = None, de_BackupRetentionPeriod = Some 7, de_Tags = []\<rparr>"

definition unused :: "object \<Rightarrow> 'a res" where "unused ob = Inl (Error ''not of this type'')"

definition blank_db :: db_ext where
  "blank_db = \<lparr>dx_pg_instance = unused, dx_mariadb_instance = unused, dx_valkey_instance = unused, dx_pg_user = unused,
     dx_mariadb_user = unused, dx_pg_database = unused, dx_mariadb_database = unused, dx_environment = (\<lambda>ob. (demo_env, None)),
     dx_vpc = (\<lambda>ob. Inr \<lparr>vr_name = ''main'', vr_namespace = ''aws'', vr_region = Some ''eu-north-1''\<rparr>),
     dx_kms = (\<lambda>ob. Inr no_key), dx_subnet_group = (\<lambda>ob. Inr (''db'', ''aws'')), dx_cache_subnet_group = (\<lambda>ob. Inr (Some ''cache'')),
     dx_subnet = unused, dx_role = unused, dx_sql_database = unused, dx_rds = unused, dx_replication_group = unused,
     dx_security_group = unused, dx_security_rule = unused, dx_pg_status = (\<lambda>s. Inr []), dx_mariadb_status = (\<lambda>s. Inr []),
     dx_valkey_status = (\<lambda>s. Inr []), dx_sg_status = (\<lambda>s. Inr []), dx_sgr_status = (\<lambda>s. Inr []),
     dx_provider_config = (\<lambda>ob. Inr []), dx_remove_field = (\<lambda>ob path. ob)\<rparr>"

definition demo_db :: db_ext where
  "demo_db = blank_db\<lparr>dx_pg_instance := \<lambda>ob. Inr demo_pg\<rparr>"

end
