(* ===== verification/Db_Props.thy ===== *)
theory Db_Props
  imports Db_Demo
begin

text \<open>
  The database group: when an RDS instance is replaced, what happens while its credentials are not complete,
  and whose secrets it leaves alone.
\<close>

section \<open>Concrete instances\<close>

definition demo_db_required :: "object option list \<Rightarrow> required" where
  "demo_db_required secrets = [(EnvironmentKey, [Some [(''data'', JObj [(''vpc'', JStr ''main'')])]]), (''VPC'', [Some []]),
     (''DBSubnetGroup'', [Some []]), (''Secret'', secrets)]"

definition demo_instance_key :: string where "demo_instance_key = ''shop-instance-'' @ GenerateFNVHash ''4f2a''"

lemma demo_db_prefixes: "list_all hash_prefix [''shop-sg-'', ''shop-sg-ingress-'', ''shop-sg-egress-'', ''shop-instance-'',
    ''shop-instance-snapshot-'', ''shop-es-'']"
  by code_simp

lemma demo_rds_names:
  "rds_names std_ext demo_pg =
    \<lparr>dn_sg = ''shop-sg-'' @ GenerateFNVHash ''4f2a'', dn_sgIngress = ''shop-sg-ingress-'' @ GenerateFNVHash ''4f2a'',
     dn_sgEgress = ''shop-sg-egress-'' @ GenerateFNVHash ''4f2a'', dn_rdsInstance = demo_instance_key,
     dn_finalSnapshot = ''shop-instance-snapshot-'' @ GenerateFNVHash ''4f2a'', dn_es = ''shop-es-'' @ GenerateFNVHash ''4f2a'',
     dn_pc = ''shop-providerconfig''\<rparr>"
proof -
  have n: "GenerateEligibleKubernetesFullName std_ext (p @ GenerateFNVHash ''4f2a'') = p @ GenerateFNVHash ''4f2a''"
    if "hash_prefix p" for p
    using that by (rule hashed_name) simp
  have pc: "GenerateEligibleKubernetesFullName std_ext ''shop-providerconfig'' = ''shop-providerconfig''" by code_simp
  show ?thesis
    using demo_db_prefixes n [of "''shop-sg-''"] n [of "''shop-sg-ingress-''"] n [of "''shop-sg-egress-''"] n [of "''shop-instance-''"]
      n [of "''shop-instance-snapshot-''"] n [of "''shop-es-''"] pc
    by (simp add: rds_names_def db_generateNames_def demo_pg_def db_GetSGName_def db_GetSGIngressName_def db_GetSGEgressName_def
        GetRDSInstanceName_def GetRDSInstanceFinalSnapshotName_def GetESName_def GetPCName_def demo_instance_key_def)
qed

lemma demo_names_apart: "names_apart (rds_names std_ext demo_pg)"
  by (simp add: names_apart_def rds_name_list_def demo_rds_names demo_instance_key_def parameterGroupKeyPrefix_def)

text \<open>An observed instance: ready, with the given snapshot, and its secret in the given state.\<close>

definition demo_rds :: "string \<Rightarrow> string \<Rightarrow> object" where
  "demo_rds snapshot secretStatus =
     [(''kind'', JStr ''Instance''), (''spec'', JObj [(''forProvider'', JObj [(''snapshotIdentifier'', JStr snapshot)])]),
      (''status'', JObj [(''atProvider'', JObj [(''address'', JStr ''db.example.org''), (''hostedZoneId'', JStr ''Z1''),
          (''port'', JFloat 5432),
          (''masterUserSecret'', JArr [JObj [(''secretArn'', JStr ''arn:1''), (''secretStatus'', JStr secretStatus)]])]),
        (''conditions'', JArr [JObj [(''type'', JStr ''Synced''), (''status'', JStr ''True'')],
          JObj [(''type'', JStr ''Ready''), (''status'', JStr ''True'')]])])]"

definition demo_db_observed :: "string \<Rightarrow> string \<Rightarrow> observed" where
  "demo_db_observed snapshot secretStatus =
     [(demo_instance_key, \<lparr>oc_resource = Some (demo_rds snapshot secretStatus), oc_connection = []\<rparr>)]"

lemma demo_db_env:
  "database_GetEnvironment std_ext demo_db (demo_db_required secrets) = Inr (database_Environment_defaults demo_env)"
  by code_simp

text \<open>A secret that the instance's own external secret made.\<close>

definition demo_own_secret :: object where
  "demo_own_secret = [(''metadata'', JObj [(''ownerReferences'', JArr [JObj [(''kind'', JStr ''ExternalSecret''),
     (''name'', JStr (''shop-es-'' @ GenerateFNVHash ''4f2a''))]])])]"

lemma demo_conflict:
  assumes "secrets = [] \<or> secrets = [Some demo_own_secret]"
  shows "checkSecretConflict std_ext c (dn_es (rds_names std_ext demo_pg)) (demo_db_required secrets) = Inr ()"
proof -
  have "gslice (demo_db_required secrets) ''Secret'' = secrets" by (simp add: demo_db_required_def gslice_def)
  with assms show ?thesis
    by (auto simp: checkSecretConflict_def Let_def demo_own_secret_def std_typed_def text_at_def demo_rds_names)
qed

lemma demo_new:
  assumes "secrets = [] \<or> secrets = [Some demo_own_secret]"
  shows "\<exists>g. newRDSInstanceGenerator std_ext demo_db (PgEngine demo_pg) (newPgInstanceCommon demo_pg) (demo_db_required secrets)
     (demo_db_observed snapshot st) = Inr g \<and> rg_instance g = PgEngine demo_pg \<and> rg_common g = newPgInstanceCommon demo_pg \<and>
     rg_names g = rds_names std_ext demo_pg \<and> rg_observed g = demo_db_observed snapshot st \<and>
     rg_env g = database_Environment_defaults demo_env"
proof -
  have "is_ok (ExtractRequiredResource (demo_db_required secrets) ''VPC'' (dx_vpc demo_db))"
    "is_ok (ExtractOptionalResource (demo_db_required secrets) ''KMSDataKey'' (dx_kms demo_db))"
    "is_ok (ExtractOptionalResource (demo_db_required secrets) ''KMSConfigKey'' (dx_kms demo_db))"
    "is_ok (ExtractRequiredResource (demo_db_required secrets) ''DBSubnetGroup'' (dx_subnet_group demo_db))"
    by code_simp+
  moreover have "is_ok (readiness_loop std_ext (demo_db_observed snapshot st) [])"
    by (simp add: demo_db_observed_def is_ok_iff)
  ultimately show ?thesis
    using demo_db_env demo_conflict [OF assms, unfolded rds_names_def]
    by (auto simp: newRDSInstanceGenerator_def is_ok_iff Let_def rds_names_def newPgInstanceCommon_def)
qed

lemma demo_rds_reads [simp]:
  "getSnapshotIdentifierFromObserved std_ext (demo_rds snapshot st) = snapshot"
  "getSecretARNFromRDSInstanceStatus std_ext (demo_rds snapshot st) = Some (''arn:1'', st)"
  "text_at std_ext (demo_rds snapshot st) [''status'', ''atProvider'', ''availabilityZone''] = ''''"
  by (simp_all add: getSnapshotIdentifierFromObserved_def getSecretARNFromRDSInstanceStatus_def text_at_def demo_rds_def std_typed_def)

lemma demo_common [simp]:
  "ic_multiAZ (newPgInstanceCommon demo_pg) = False" "ic_parameterGroupParameters (newPgInstanceCommon demo_pg) = None"
  "de_PostgresBackupBeforeDeletion (database_Environment_defaults demo_env) = Some True"
  by (simp_all add: newPgInstanceCommon_def demo_pg_def demo_spec_def database_Environment_defaults_def demo_env_def default_true_def)

text \<open>The run with that instance observed.\<close>

lemma demo_db_run:
  assumes "st \<noteq> ''active''" and "secrets = [] \<or> secrets = [Some demo_own_secret]"
  shows "\<exists>gen. database_generate std_ext demo_db clock (PostgreSQLInstanceC demo_pg) (demo_db_required secrets) (demo_db_observed snapshot st) = Inr gen"
proof -
  from demo_new [OF assms(2)] obtain g where g: "newRDSInstanceGenerator std_ext demo_db (PgEngine demo_pg) (newPgInstanceCommon demo_pg) (demo_db_required secrets)
     (demo_db_observed snapshot st) = Inr g" and f: "rg_instance g = PgEngine demo_pg" "rg_common g = newPgInstanceCommon demo_pg"
     "rg_names g = rds_names std_ext demo_pg" "rg_observed g = demo_db_observed snapshot st"
     "rg_env g = database_Environment_defaults demo_env" by blast
  have o: "map_of (demo_db_observed snapshot st) (dn_rdsInstance (rds_names std_ext demo_pg)) =
      Some \<lparr>oc_resource = Some (demo_rds snapshot st), oc_connection = []\<rparr>"
    by (simp add: demo_db_observed_def demo_rds_names)
  have v: "version_at std_ext (demo_db_observed snapshot st) (dn_rdsInstance (rg_names g)) = Inr None"
    by (simp add: version_at_def f o) (simp add: demo_rds_def std_typed_def)
  have "dx_rds demo_db ob = Inl (Error ''not of this type'')" for ob by (simp add: demo_db_def blank_db_def unused_def)
  then have "is_ok (buildRDSInstance std_ext demo_db g '''')"
    by (simp add: buildRDSInstance_def buildPgRDSInstance_def build_rds_def f o resolveAvailabilityZone_def
        rdsNeedsApplyImmediately_def is_ok_iff)
  then obtain inst where b: "buildRDSInstance std_ext demo_db g '''' = Inr inst" by (auto simp: is_ok_iff)
  have "applyParameterGroup std_ext g d = Inr (d, '''')" for d
    by (simp add: applyParameterGroup_def Let_def f)
  then have "is_ok (rds_generate std_ext demo_db clock g)"
    using b assms(1) by (simp add: rds_generate_def Let_def buildProviderConfig_def f o buildExternalSecretIfReady_def is_ok_iff)
  moreover have "g\<lparr>rg_engineVersionActual := None\<rparr> = g" using g by (auto simp: newRDSInstanceGenerator_def Let_def res_simps)
  ultimately show ?thesis by (simp add: GeneratePgInstanceObjects_def generate_rds_def g v is_ok_iff)
qed

section \<open>Replacement\<close>

text \<open>The observed instance was made from another snapshot than the composite asks for.\<close>

definition other_snapshot :: "ext \<Rightarrow> db_instance \<Rightarrow> observed \<Rightarrow> bool" where
  "other_snapshot X i observed \<longleftrightarrow>
     (\<exists>oc ob. map_of observed (dn_rdsInstance (rds_names X i)) = Some oc \<and> oc_resource oc = Some ob \<and>
        getSnapshotIdentifierFromObserved X ob \<noteq> sp_SnapshotIdentifier (di_Spec i))"

text \<open>
  C26: an RDS instance is replaced exactly when its snapshot identifier changes. A run that finds an instance made
  from another snapshot desires neither it nor the secret with its credentials; in every other run the
  instance is desired, private, encrypted, with the composite's snapshot and deletion protection.
\<close>

theorem rds_instance_replacement:
  assumes "database_generate X D clock c required observed = Inr gen"
    and "c = PostgreSQLInstanceC i \<or> c = MariaDBInstanceC i" and "names_apart (rds_names X i)"
  shows "if other_snapshot X i observed
    then map_of gen (dn_rdsInstance (rds_names X i)) = None \<and> map_of gen (dn_es (rds_names X i)) = None
    else \<exists>inst. map_of gen (dn_rdsInstance (rds_names X i)) = Some (Some (Typed inst)) \<and>
      k_kind inst = ''Instance'' \<and>
      kfield inst [''Spec'', ''ForProvider'', ''SnapshotIdentifier''] = Some (text_unless_empty (sp_SnapshotIdentifier (di_Spec i))) \<and>
      kfield inst [''Spec'', ''ForProvider'', ''DeletionProtection''] = Some (VBool (sp_DeletionProtection (di_Spec i))) \<and>
      kfield inst [''Spec'', ''ForProvider'', ''PubliclyAccessible''] = Some (VBool False) \<and>
      kfield inst [''Spec'', ''ForProvider'', ''StorageEncrypted''] = Some (VBool True)"
proof -
  from assms(1,2) obtain g where g: "rds_generate X D clock g = Inr gen" "rg_names g = rds_names X i" "rg_observed g = observed"
    "rg_common g = (if c = PostgreSQLInstanceC i then newPgInstanceCommon i else newMariaDBInstanceCommon i)"
    "rg_instance g = (if c = PostgreSQLInstanceC i then PgEngine i else MariaDBEngine i)"
    by (rule generate_rdsE)
  have snap: "ic_snapshotIdentifier (rg_common g) = sp_SnapshotIdentifier (di_Spec i)" and cr: "engine_cr (rg_instance g) = i"
    by (simp_all add: g)
  note look = rds_generate_lookup [OF g(1), unfolded g(2,3) snap, OF assms(3)]
  note inst = buildRDSInstance_fields(1,3-6) [of X D g, unfolded cr]
  show ?thesis
  proof (cases "map_of observed (dn_rdsInstance (rds_names X i))")
    case None
    then have "\<not> other_snapshot X i observed" by (simp add: other_snapshot_def)
    with None look inst show ?thesis by fastforce
  next
    case (Some oc)
    with look obtain ob where ob: "oc_resource oc = Some ob" by auto
    with Some have o: "other_snapshot X i observed \<longleftrightarrow> sp_SnapshotIdentifier (di_Spec i) \<noteq> getSnapshotIdentifierFromObserved X ob"
      by (auto simp: other_snapshot_def)
    show ?thesis
    proof (cases "other_snapshot X i observed")
      case True
      with Some ob o look show ?thesis by simp
    next
      case False
      with Some ob o look obtain pg inst where b: "buildRDSInstance X D g pg = Inr inst"
        and m: "map_of gen (dn_rdsInstance (rds_names X i)) = Some (Some (Typed inst))" by auto
      from False m inst [OF b] show ?thesis by simp
    qed
  qed
qed

theorem rds_instance_replacement_witness:
  "\<exists>gen. database_generate std_ext demo_db (\<lambda>k. 0) (PostgreSQLInstanceC demo_pg) (demo_db_required []) (demo_db_observed ''nightly'' ''creating'') = Inr gen \<and>
     map_of gen demo_instance_key = None"
proof -
  obtain gen where run: "database_generate std_ext demo_db (\<lambda>k. 0) (PostgreSQLInstanceC demo_pg) (demo_db_required [])
      (demo_db_observed ''nightly'' ''creating'') = Inr gen"
    using demo_db_run [of "''creating''" "[]"] by auto
  have "other_snapshot std_ext demo_pg (demo_db_observed ''nightly'' ''creating'')"
    by (simp add: other_snapshot_def demo_db_observed_def demo_rds_names) (simp add: demo_pg_def demo_spec_def)
  with rds_instance_replacement [OF run, of demo_pg] demo_names_apart run show ?thesis by (simp add: demo_rds_names)
qed

section \<open>Credentials\<close>

text \<open>The observed instance reports everything that its external secret is made of.\<close>

definition credentials_complete :: "ext \<Rightarrow> object \<Rightarrow> bool" where
  "credentials_complete X ob \<longleftrightarrow>
     (\<exists>arn. getSecretARNFromRDSInstanceStatus X ob = Some (arn, ''active'')) \<and>
     getEndpointFromRDSInstanceStatus X ob \<noteq> None \<and> getPortFromRDSInstanceStatus X ob \<noteq> None"

lemma incomplete_secret: "\<not> credentials_complete X ob \<Longrightarrow> buildExternalSecretIfReady X clock g ob = Inr None"
  by (auto simp: credentials_complete_def buildExternalSecretIfReady_def split: option.splits)

lemma rds_sequence:
  assumes "c = PostgreSQLInstanceC i \<or> c = MariaDBInstanceC i" and "di_kind i = XRKindPostgreSQL \<or> di_kind i = XRKindMariaDBInstance"
  shows "GetSequence (database_group X D clock) c = NewSequence True (rds_steps (rds_names X i))"
proof -
  have "database_composite_kind c = di_kind i" "composite_name_uid c = (di_name i, di_uid i)" using assms(1) by auto
  moreover have "database_steps X (di_kind i) (di_name i) (di_uid i) = rds_steps (rds_names X i)"
    using assms(2) by (auto simp: database_steps_def rds_names_def)
  ultimately show ?thesis by (simp add: database_group_def db_GetSequence_def Let_def rds_steps_def)
qed

lemma rds_steps_in:
  assumes "GetSequence G c = NewSequence True (rds_steps (rds_names X i))"
  shows "in_step (GetSequence G c) (Suc 1) (dn_es (rds_names X i))"
    and "in_step (GetSequence G c) 1 m \<longleftrightarrow> m = dn_rdsInstance (rds_names X i)"
proof -
  have lit: "literal (dn_es (rds_names X i))" "literal (dn_rdsInstance (rds_names X i))"
    by (simp_all add: rds_names_def db_generateNames_def GetESName_def GetRDSInstanceName_def GenerateEligibleKubernetesFullName_def name_pattern)
  show "in_step (GetSequence G c) (Suc 1) (dn_es (rds_names X i))"
    "in_step (GetSequence G c) 1 m \<longleftrightarrow> m = dn_rdsInstance (rds_names X i)"
    using lit by (simp_all add: assms in_step_def NewSequence_def rds_steps_def matches_literal)
qed

text \<open>
  C27: while an observed instance does not report an active secret, an address and a port, its external secret is
  a nil object under its name. As soon as the instance is ready, or the external secret is there (as when AWS
  rotates the password), base has to place that object: the conversion refuses it and the whole run fails.
\<close>

theorem incomplete_credentials_fail_the_run:
  assumes "database_generate X D clock c required observed = Inr gen"
    and "c = PostgreSQLInstanceC i \<or> c = MariaDBInstanceC i" and "di_kind i = XRKindPostgreSQL \<or> di_kind i = XRKindMariaDBInstance"
    and "names_apart (rds_names X i)"
    and "map_of observed (dn_rdsInstance (rds_names X i)) = Some oc" and "oc_resource oc = Some ob"
    and "getSnapshotIdentifierFromObserved X ob = sp_SnapshotIdentifier (di_Spec i)"
    and "\<not> credentials_complete X ob"
    and "map_of observed (dn_es (rds_names X i)) \<noteq> None \<or> getReadyStatus X (database_group X D clock) ob = ReadyTrue"
    and "\<not> is_ok (to_unstructured A None)"
    and "support_by_kind X A S gen" and "iteration ord" and "cache_ok S cache"
  shows "map_of gen (dn_es (rds_names X i)) = Some None \<and>
    (\<exists>e. fst (place_resources X A (database_group X D clock) ws ord c observed desired gen rt cache) = Inl e)"
proof
  let ?G = "database_group X D clock" and ?es = "dn_es (rds_names X i)"
  from assms(1,2) obtain g where g: "rds_generate X D clock g = Inr gen" "rg_names g = rds_names X i" "rg_observed g = observed"
    "rg_common g = (if c = PostgreSQLInstanceC i then newPgInstanceCommon i else newMariaDBInstanceCommon i)"
    by (rule generate_rdsE)
  have "ic_snapshotIdentifier (rg_common g) = sp_SnapshotIdentifier (di_Spec i)" by (simp add: g)
  with rds_generate_lookup [OF g(1)] g assms(4-8) show es: "map_of gen ?es = Some None"
    by (auto simp: incomplete_secret)
  obtain names where names: "sequence_names ?G c gen = Inr names" using database.sequence_compiles [OF TrueI] by blast
  note steps = rds_steps_in [OF rds_sequence [OF assms(2,3)]]
  have "planned X ?G observed gen names ?es"
  proof (cases "map_of observed ?es = None")
    case True
    with assms(9) have "getReadyStatus X ?G ob = ReadyTrue" by simp
    with assms(5,6) have "ready_now X ?G observed gen (dn_rdsInstance (rds_names X i))"
      by (simp add: ready_now_def observed_ready_def)
    then show ?thesis using es steps by (intro step_planned [OF names, of 1]) auto
  qed (use es in \<open>simp add: planned_observed\<close>)
  moreover have "\<not> is_ok (entry_of X A ?G ws observed rt S gen ?es)"
    using es assms(10) by (simp add: entry_of_def composed_entry_def is_ok_iff res_simps)
  ultimately show "\<exists>e. fst (place_resources X A ?G ws ord c observed desired gen rt cache) = Inl e"
    using place_resources_post [OF assms(11-13), of ?G c observed ws rt desired] names
    by (cases "fst (place_resources X A ?G ws ord c observed desired gen rt cache)") (auto elim!: place_postE)
qed

text \<open>Conversions for the demonstration, which has no dynamic objects; a nil object does not convert.\<close>

definition demo_db_objects :: "db_object objects" where
  "demo_db_objects = \<lparr>as_unstructured = (\<lambda>ob. None), go_type = (\<lambda>ob. TPtr (TStruct [])), gvk_of = (\<lambda>ob. ('''', '''', '''')),
     to_unstructured = (\<lambda>ob. case ob of None \<Rightarrow> Inl (Panic ''nil pointer dereference'')
       | Some (Typed k) \<Rightarrow> Inr [(''kind'', JStr (k_kind k))] | Some (Dynamic u) \<Rightarrow> Inr u)\<rparr>"

lemma demo_db_support: "support_by_kind std_ext demo_db_objects (\<lambda>k. False) gen"
  by (auto simp: support_by_kind_def resolve_field_path_def demo_db_objects_def tags_path_def)

theorem incomplete_credentials_fail_the_run_witness:
  "\<exists>gen e. database_generate std_ext demo_db (\<lambda>k. 0) (PostgreSQLInstanceC demo_pg) (demo_db_required []) (demo_db_observed '''' ''rotating'') = Inr gen \<and>
     fst (place_resources std_ext demo_db_objects (database_group std_ext demo_db (\<lambda>k. 0)) '''' in_order
       (PostgreSQLInstanceC demo_pg) (demo_db_observed '''' ''rotating'') [] gen no_tags []) = Inl e"
proof -
  obtain gen where run: "database_generate std_ext demo_db (\<lambda>k. 0) (PostgreSQLInstanceC demo_pg) (demo_db_required [])
      (demo_db_observed '''' ''rotating'') = Inr gen"
    using demo_db_run [of "''rotating''" "[]"] by auto
  have 1: "PostgreSQLInstanceC demo_pg = PostgreSQLInstanceC demo_pg \<or> PostgreSQLInstanceC demo_pg = MariaDBInstanceC demo_pg" by simp
  have 2: "di_kind demo_pg = XRKindPostgreSQL \<or> di_kind demo_pg = XRKindMariaDBInstance" by (simp add: demo_pg_def)
  have 3: "map_of (demo_db_observed '''' ''rotating'') (dn_rdsInstance (rds_names std_ext demo_pg)) =
      Some \<lparr>oc_resource = Some (demo_rds '''' ''rotating''), oc_connection = []\<rparr>"
    by (simp add: demo_db_observed_def demo_rds_names)
  have 4: "getSnapshotIdentifierFromObserved std_ext (demo_rds '''' ''rotating'') = sp_SnapshotIdentifier (di_Spec demo_pg)"
    by (simp add: demo_pg_def demo_spec_def)
  have 5: "\<not> credentials_complete std_ext (demo_rds '''' ''rotating'')" by (simp add: credentials_complete_def)
  have 6: "getReadyStatus std_ext (database_group std_ext demo_db (\<lambda>k. 0)) (demo_rds '''' ''rotating'') = ReadyTrue" by code_simp
  have 7: "\<not> is_ok (to_unstructured demo_db_objects None)" by (simp add: demo_db_objects_def is_ok_iff)
  show ?thesis
    using incomplete_credentials_fail_the_run [OF run 1 2 demo_names_apart 3 _ 4 5 _ 7 demo_db_support _ cache_ok_Nil, of in_order]
      run 6 by auto
qed

section \<open>Secrets of others\<close>

text \<open>The secret is owned by the external secret of the given name.\<close>

definition owned_by :: "ext \<Rightarrow> string \<Rightarrow> object \<Rightarrow> bool" where
  "owned_by X es secret \<longleftrightarrow>
     (\<exists>owners m. nested_slice X secret [''metadata'', ''ownerReferences''] = Inr (Some owners) \<and> JObj m \<in> set owners \<and>
        text_at X m [''kind''] = ''ExternalSecret'' \<and> text_at X m [''name''] = es)"

lemma owner_loop_iff:
  "owner_loop X es owners \<longleftrightarrow> (\<exists>m. JObj m \<in> set owners \<and> text_at X m [''kind''] = ''ExternalSecret'' \<and> text_at X m [''name''] = es)"
  by (induction X es owners rule: owner_loop.induct) auto

text \<open>
  C28: an instance does not take over a secret of someone else. It asks base for the secret that its external
  secret writes to; generation succeeds only if there is none, or it is owned by this very external secret.
\<close>

theorem foreign_secret_refused:
  assumes "database_generate X D clock c required observed = Inr gen"
    and "c = PostgreSQLInstanceC i \<or> c = MariaDBInstanceC i" and "names_apart (rds_names X i)"
  shows "(case gslice required ''Secret'' of [] \<Rightarrow> True
      | s # rest \<Rightarrow> \<exists>secret. s = Some secret \<and> owned_by X (dn_es (rds_names X i)) secret) \<and>
    (\<forall>k. map_of gen (dn_es (rds_names X i)) = Some (Some (Typed k)) \<longrightarrow>
       k_kind k = ''ExternalSecret'' \<and> k_name k = dn_es (rds_names X i) \<and>
       kfield k [''Spec'', ''Target'', ''Name''] = Some (VStr (dbadmin_secret X (di_name i))))"
proof
  from assms(1,2) obtain g where g: "rds_generate X D clock g = Inr gen" "rg_names g = rds_names X i" "rg_observed g = observed"
    "rg_common g = (if c = PostgreSQLInstanceC i then newPgInstanceCommon i else newMariaDBInstanceCommon i)"
    and check: "checkSecretConflict X (rg_common g) (dn_es (rds_names X i)) required = Inr ()"
    by (rule generate_rdsE)
  show "case gslice required ''Secret'' of [] \<Rightarrow> True
      | s # rest \<Rightarrow> \<exists>secret. s = Some secret \<and> owned_by X (dn_es (rds_names X i)) secret"
    using check
    by (auto simp: checkSecretConflict_def Let_def res_simps owner_loop_iff owned_by_def split: list.splits option.splits if_splits)
  have name: "ic_name (rg_common g) = di_name i" by (simp add: g newPgInstanceCommon_def newMariaDBInstanceCommon_def Let_def)
  have es: "k_kind k = ''ExternalSecret'' \<and> k_name k = dn_es (rds_names X i) \<and>
       kfield k [''Spec'', ''Target'', ''Name''] = Some (VStr (dbadmin_secret X (di_name i)))"
    if "buildExternalSecretIfReady X clock g ob = Inr (Some (Typed k))" for ob k
    using that by (auto simp: buildExternalSecretIfReady_def buildExternalSecret_def res_simps kfield_def name g(2) split: option.splits if_splits)
  show "\<forall>k. map_of gen (dn_es (rds_names X i)) = Some (Some (Typed k)) \<longrightarrow>
       k_kind k = ''ExternalSecret'' \<and> k_name k = dn_es (rds_names X i) \<and>
       kfield k [''Spec'', ''Target'', ''Name''] = Some (VStr (dbadmin_secret X (di_name i)))"
    using rds_generate_lookup [OF g(1)] es assms(3) by (fastforce simp: g(2) split: option.splits if_splits)
qed

theorem foreign_secret_refused_witness:
  "\<exists>gen. database_generate std_ext demo_db (\<lambda>k. 0) (PostgreSQLInstanceC demo_pg) (demo_db_required [Some demo_own_secret]) (demo_db_observed '''' ''creating'') = Inr gen \<and>
     owned_by std_ext (dn_es (rds_names std_ext demo_pg)) demo_own_secret"
proof -
  obtain gen where run: "database_generate std_ext demo_db (\<lambda>k. 0) (PostgreSQLInstanceC demo_pg) (demo_db_required [Some demo_own_secret])
      (demo_db_observed '''' ''creating'') = Inr gen"
    using demo_db_run [of "''creating''" "[Some demo_own_secret]"] by auto
  with foreign_secret_refused [OF run, of demo_pg] demo_names_apart show ?thesis
    by (auto simp: demo_db_required_def gslice_def)
qed

end
