(* ===== verification/Db_User_Props.thy ===== *)
theory Db_User_Props
  imports Db_Demo
begin

text \<open>
  The database group: which roles a PostgreSQL user is granted, and the credentials of a Valkey instance.
\<close>

section \<open>Grants\<close>

text \<open>Of elements with the same image the last one is kept.\<close>

fun keep_last :: "('a \<Rightarrow> 'b) \<Rightarrow> 'a list \<Rightarrow> 'a list" where
  "keep_last f [] = []"
| "keep_last f (x # xs) = (if f x \<in> f ` set xs then keep_last f xs else x # keep_last f xs)"

lemma keep_last_subset: "set (keep_last f xs) \<subseteq> set xs"
  by (induction xs) auto

lemma keep_last_image: "f ` set (keep_last f xs) = f ` set xs"
  by (induction xs) auto

lemma keep_last_distinct: "distinct (map f (keep_last f xs))"
  by (induction xs) (simp_all add: keep_last_image)

lemma keep_last_all: "distinct (map f xs) \<Longrightarrow> keep_last f xs = xs"
  by (induction xs) auto

definition grant_name :: "ext \<Rightarrow> PostgreSQLUser \<Rightarrow> string \<Rightarrow> string" where
  "grant_name X u role = scoped_name X ''grant-'' (pu_name u) role (pu_InstanceRef u)"

definition usage_name :: "ext \<Rightarrow> PostgreSQLUser \<Rightarrow> string \<Rightarrow> string" where
  "usage_name X u role = scoped_name X ''usage-grant-'' (pu_name u) role (pu_InstanceRef u)"

definition the_grant :: "ext \<Rightarrow> PostgreSQLUser \<Rightarrow> string \<Rightarrow> kobject" where
  "the_grant X u role =
     pg_grant (grant_name X u role) (pu_namespace u) (pu_InstanceRef u @ ''-providerconfig'') (display_name (pu_name u) (pu_Name u)) role"

definition the_usage :: "ext \<Rightarrow> PostgreSQLUser \<Rightarrow> string \<Rightarrow> kobject" where
  "the_usage X u role =
     usage_object (usage_name X u role) (pu_namespace u) (usage_end pgSqlApiVersion ''Role'' (pu_name u))
       (usage_end pgSqlApiVersion ''Grant'' (grant_name X u role))"

text \<open>A map that a loop filled, name by name.\<close>

fun fill :: "('a \<Rightarrow> string) \<Rightarrow> ('a \<Rightarrow> 'o) \<Rightarrow> 'a list \<Rightarrow> 'o gomap \<Rightarrow> 'o gomap" where
  "fill f h [] m = m"
| "fill f h (x # xs) m = fill f h xs (gset (f x) (h x) m)"

lemma fill_lookup:
  "map_of (fill f h xs m) n =
     (if n \<in> f ` set xs then map_option h (map_of (map (\<lambda>x. (f x, x)) (keep_last f xs)) n) else map_of m n)"
proof (induction xs arbitrary: m)
  case (Cons x xs)
  have "map_of (map (\<lambda>x. (f x, x)) (keep_last f xs)) (f x) = None" if "f x \<notin> f ` set xs"
    using that keep_last_image [of f xs] by (auto simp: map_of_eq_None_iff)
  then show ?case by (auto simp: Cons.IH)
qed simp

lemma fill_last:
  assumes "x \<in> set (keep_last f xs)"
  shows "map_of (fill f h xs m) (f x) = Some (h x)"
proof -
  have "distinct (map fst (map (\<lambda>x. (f x, x)) (keep_last f xs)))"
    using keep_last_distinct [of f xs] by (simp add: comp_def)
  with assms have "map_of (map (\<lambda>x. (f x, x)) (keep_last f xs)) (f x) = Some x" by (intro map_of_is_SomeI) auto
  then show ?thesis using assms keep_last_subset [of f xs] by (auto simp: fill_lookup)
qed

lemma fill_only:
  assumes "map_of (fill f h xs m) n = Some ob" and "map_of m n = None"
  obtains x where "x \<in> set (keep_last f xs)" and "n = f x" and "ob = h x"
  using assms by (auto simp: fill_lookup split: if_splits dest!: map_of_SomeD)

lemma fill_wf: "wf_map m \<Longrightarrow> wf_map (fill f h xs m)"
  by (induction xs arbitrary: m) auto

lemma pg_grants_fill:
  assumes "pug_user g = u" and "pug_providerConfigName g = pu_InstanceRef u @ ''-providerconfig''"
    and "pug_roleDisplayName g = display_name (pu_name u) (pu_Name u)"
  shows "pg_grants_loop X g roles m = fill (grant_name X u) (the_grant X u) roles m"
    and "pg_usages_loop X g roles m = fill (usage_name X u) (the_usage X u) roles m"
  by (induction roles arbitrary: m) (simp_all add: assms Let_def grant_name_def usage_name_def the_grant_def the_usage_def)

text \<open>The names of a user's objects do not clash with those of its grants and usages.\<close>

definition user_names_apart :: "ext \<Rightarrow> PostgreSQLUser \<Rightarrow> string list \<Rightarrow> bool" where
  "user_names_apart X u roles \<longleftrightarrow>
     (\<forall>r \<in> set roles. grant_name X u r \<notin> {''role'', ''instance-protection''} \<and> usage_name X u r \<notin> {''role'', ''instance-protection''} \<and>
        (\<forall>q \<in> set roles. grant_name X u r \<noteq> usage_name X u q))"

lemma pg_user_generate_lookup:
  assumes "GeneratePgUserObjects X D u required observed = Inr gen"
    and "user_names_apart X u (roles_of (pu_Grant u))"
  obtains g role where "buildRole X g = Inr [(''role'', role)]" and "pug_user g = u"
    and "pug_providerConfigName g = pu_InstanceRef u @ ''-providerconfig''" and "pug_roleDisplayName g = display_name (pu_name u) (pu_Name u)"
    and "map_of gen n = (if n = ''instance-protection'' then map_of (pg_buildInstanceProtection g) n
      else if n \<in> usage_name X u ` set (roles_of (pu_Grant u)) then map_of (fill (usage_name X u) (the_usage X u) (roles_of (pu_Grant u)) []) n
      else if n \<in> grant_name X u ` set (roles_of (pu_Grant u)) then map_of (fill (grant_name X u) (the_grant X u) (roles_of (pu_Grant u)) []) n
      else if n = ''role'' then Some role else None)"
proof -
  let ?roles = "roles_of (pu_Grant u)"
  from assms(1) obtain g where g: "newPgUserGenerator D u required observed = Inr g" "pg_user_generate X g = Inr gen"
    by (auto simp: GeneratePgUserObjects_def res_simps)
  then have f: "pug_user g = u" "pug_observed g = observed" "pug_providerConfigName g = pu_InstanceRef u @ ''-providerconfig''"
    "pug_roleDisplayName g = display_name (pu_name u) (pu_Name u)"
    by (auto simp: newPgUserGenerator_def res_simps)
  note loops = pg_grants_fill [OF f(1,3,4)]
  from g(2) obtain r where r: "buildRole X g = Inr r"
    and gen: "gen = gcopy (gcopy (gcopy (gcopy [] r) (fill (grant_name X u) (the_grant X u) ?roles []))
      (fill (usage_name X u) (the_usage X u) ?roles [])) (pg_buildInstanceProtection g)"
    by (auto simp: pg_user_generate_def res_simps pg_buildGrants_def pg_buildGrantUsages_def f(1) loops split: if_splits)
  from r obtain role where role: "r = [(''role'', role)]" by (auto simp: buildRole_def res_simps Let_def)
  have p: "map_of (pg_buildInstanceProtection g) n = (if n = ''instance-protection'' then map_of (pg_buildInstanceProtection g) n else None)"
    "wf_map (pg_buildInstanceProtection g)"
    by (simp_all add: pg_buildInstanceProtection_def Let_def)
  have w: "wf_map (fill f h ?roles [])" for f :: "string \<Rightarrow> string" and h :: "string \<Rightarrow> kobject" by (simp add: fill_wf)
  have none: "map_of (fill f h ?roles []) n = None \<longleftrightarrow> n \<notin> f ` set ?roles" for f :: "string \<Rightarrow> string" and h :: "string \<Rightarrow> kobject"
    using keep_last_image [of f ?roles] by (auto simp: fill_lookup map_of_eq_None_iff image_image)
  define G where "G = map_of (fill (grant_name X u) (the_grant X u) ?roles []) n"
  define U where "U = map_of (fill (usage_name X u) (the_usage X u) ?roles []) n"
  have look: "map_of gen n = (case map_of (pg_buildInstanceProtection g) n of Some v \<Rightarrow> Some v
      | None \<Rightarrow> (case U of Some v \<Rightarrow> Some v | None \<Rightarrow> (case G of Some v \<Rightarrow> Some v | None \<Rightarrow> map_of r n)))"
    unfolding gen G_def U_def by (simp add: map_of_gcopy_apply w p(2) role cong: option.case_cong)
  have gu: "G = None \<longleftrightarrow> n \<notin> grant_name X u ` set ?roles" "U = None \<longleftrightarrow> n \<notin> usage_name X u ` set ?roles"
    by (simp_all add: G_def U_def none)
  have prot: "n \<noteq> ''instance-protection'' \<Longrightarrow> map_of (pg_buildInstanceProtection g) n = None"
    "map_of (pg_buildInstanceProtection g) ''instance-protection'' \<noteq> None"
    by (simp_all add: pg_buildInstanceProtection_def Let_def)
  show thesis
  proof (rule that [OF r [unfolded role] f(1,3,4)], fold G_def U_def)
    show "map_of gen n = (if n = ''instance-protection'' then map_of (pg_buildInstanceProtection g) n
      else if n \<in> usage_name X u ` set ?roles then U
      else if n \<in> grant_name X u ` set ?roles then G
      else if n = ''role'' then Some role else None)"
      using prot gu by (cases U; cases G) (auto simp: look role)
  qed
qed

text \<open>
  What the grants of a map say: the provider configuration, that is the instance, they are for, the role that is granted
  something, and the role it becomes a member of.
\<close>

definition grants_written :: "kobject gomap \<Rightarrow> (gval option \<times> gval option \<times> gval option) set" where
  "grants_written gen =
     {(kfield k [''Spec'', ''ManagedResourceSpec'', ''ProviderConfigReference''],
       kfield k [''Spec'', ''ForProvider'', ''Role''], kfield k [''Spec'', ''ForProvider'', ''MemberOf'']) |n k.
      map_of gen n = Some k \<and> k_kind k = ''Grant''}"

abbreviation user_provider :: "PostgreSQLUser \<Rightarrow> gval" where
  "user_provider u \<equiv> provider_ref (pu_InstanceRef u @ ''-providerconfig'')"

text \<open>The role of the user in the database: the name in its spec, or else its own.\<close>

definition role_in_database :: "PostgreSQLUser \<Rightarrow> string" where
  "role_in_database u = (if pu_Name u \<noteq> '''' then pu_Name u else pu_name u)"

lemma grant_fields [simp]:
  "k_kind (the_grant X u role) = ''Grant''"
  "kfield (the_grant X u role) [''Spec'', ''ManagedResourceSpec'', ''ProviderConfigReference''] = Some (user_provider u)"
  "kfield (the_grant X u role) [''Spec'', ''ForProvider'', ''Role''] = Some (VStr (role_in_database u))"
  "kfield (the_grant X u role) [''Spec'', ''ForProvider'', ''MemberOf''] = Some (VStr role)"
  "k_kind (the_usage X u role) = ''Usage''"
  "kfield (the_usage X u role) [''Spec'', ''ReplayDeletion''] = Some (VBool True)"
  "kfield (the_usage X u role) [''Spec'', ''Of''] = Some (VObj [(''Kind'', VStr ''Role''), (''APIVersion'', VStr pgSqlApiVersion),
     (''ResourceRef'', VObj [(''Name'', VStr (pu_name u))])])"
  "kfield (the_usage X u role) [''Spec'', ''By''] = Some (VObj [(''Kind'', VStr ''Grant''), (''APIVersion'', VStr pgSqlApiVersion),
     (''ResourceRef'', VObj [(''Name'', VStr (grant_name X u role))])])"
  by (simp_all add: the_grant_def pg_grant_def sql_object_def kfield_def the_usage_def usage_object_def usage_end_def
      role_in_database_def display_name_def)

lemma role_fields:
  assumes "buildRole X g = Inr [(''role'', role)]"
  shows "k_kind role = ''Role''" and "k_name role = pu_name (pug_user g)"
    and "map_of (k_annotations role) ''crossplane.io/external-name'' = Some (pug_roleDisplayName g)"
    and "kfield role [''Spec'', ''ManagedResourceSpec'', ''ProviderConfigReference''] = Some (provider_ref (pug_providerConfigName g))"
    and "kfield role [''Spec'', ''ForProvider'', ''Privileges''] = Some (VObj
       [(''Login'', VBool (pu_Login (pug_user g))), (''CreateDb'', VBool (pu_CreateDb (pug_user g))),
        (''CreateRole'', VBool (pu_CreateRole (pug_user g))), (''Inherit'', VBool (pu_Inherit (pug_user g))),
        (''SuperUser'', VBool False), (''Replication'', VBool False), (''BypassRls'', VBool False)])"
  using assms by (auto simp: buildRole_def res_simps Let_def sql_object_def kfield_def external_name_def)

lemma grant_entry:
  assumes "GeneratePgUserObjects X D u required observed = Inr gen" and "user_names_apart X u (roles_of (pu_Grant u))"
    and "r \<in> set (keep_last (grant_name X u) (roles_of (pu_Grant u)))"
  shows "map_of gen (grant_name X u r) = Some (the_grant X u r)"
proof -
  have r: "r \<in> set (roles_of (pu_Grant u))" using assms(3) keep_last_subset by fast
  from pg_user_generate_lookup [OF assms(1,2), of "grant_name X u r"] show ?thesis
    using assms(2) r fill_last [OF assms(3), of "the_grant X u" "[]"] by cases (auto simp: user_names_apart_def)
qed

lemma usage_entry:
  assumes "GeneratePgUserObjects X D u required observed = Inr gen" and "user_names_apart X u (roles_of (pu_Grant u))"
    and "r \<in> set (keep_last (usage_name X u) (roles_of (pu_Grant u)))"
  shows "map_of gen (usage_name X u r) = Some (the_usage X u r)"
proof -
  have r: "r \<in> set (roles_of (pu_Grant u))" using assms(3) keep_last_subset by fast
  from pg_user_generate_lookup [OF assms(1,2), of "usage_name X u r"] show ?thesis
    using assms(2) r fill_last [OF assms(3), of "the_usage X u" "[]"] by cases (auto simp: user_names_apart_def)
qed

lemma role_entry:
  assumes "GeneratePgUserObjects X D u required observed = Inr gen" and "user_names_apart X u (roles_of (pu_Grant u))"
  obtains g role where "buildRole X g = Inr [(''role'', role)]" and "pug_user g = u"
    and "pug_providerConfigName g = pu_InstanceRef u @ ''-providerconfig''" and "pug_roleDisplayName g = display_name (pu_name u) (pu_Name u)"
    and "map_of gen ''role'' = Some role"
proof -
  have "''role'' \<notin> usage_name X u ` set (roles_of (pu_Grant u))" "''role'' \<notin> grant_name X u ` set (roles_of (pu_Grant u))"
    using assms(2) by (auto simp: user_names_apart_def)
  note out = this
  show thesis
    by (rule pg_user_generate_lookup [OF assms, of "''role''"]) (erule that, assumption, assumption, assumption, use out in simp)
qed

lemma grants_only:
  assumes "GeneratePgUserObjects X D u required observed = Inr gen" and "user_names_apart X u (roles_of (pu_Grant u))"
    and "map_of gen n = Some k" and "k_kind k = ''Grant''"
  obtains r where "r \<in> set (keep_last (grant_name X u) (roles_of (pu_Grant u)))" and "k = the_grant X u r"
proof -
  let ?roles = "roles_of (pu_Grant u)"
  from pg_user_generate_lookup [OF assms(1,2), of n] obtain g role where role: "buildRole X g = Inr [(''role'', role)]"
    and look: "map_of gen n = (if n = ''instance-protection'' then map_of (pg_buildInstanceProtection g) n
      else if n \<in> usage_name X u ` set ?roles then map_of (fill (usage_name X u) (the_usage X u) ?roles []) n
      else if n \<in> grant_name X u ` set ?roles then map_of (fill (grant_name X u) (the_grant X u) ?roles []) n
      else if n = ''role'' then Some role else None)" by metis
  have "p = Some k \<or> q = Some k \<or> r = Some k \<or> k = role"
    if "Some k = (if a then p else if b then q else if c then r else if d then Some role else None)" for p q r a b c d
    using that by (auto split: if_splits)
  note one = this [OF look [unfolded assms(3)]]
  have "map_of (pg_buildInstanceProtection g) n \<noteq> Some k"
    using assms(4) by (auto simp: pg_buildInstanceProtection_def usage_object_def Let_def)
  moreover have "map_of (fill (usage_name X u) (the_usage X u) ?roles []) n \<noteq> Some k"
    using assms(4) by (auto elim!: fill_only)
  moreover have "k \<noteq> role" using role_fields(1) [OF role] assms(4) by auto
  ultimately have "map_of (fill (grant_name X u) (the_grant X u) ?roles []) n = Some k" using one by blast
  then show thesis by (rule fill_only) (use that in simp_all)
qed

text \<open>
  C29: the roles that a PostgreSQL user is granted. On its instance the role of the user (the name of the spec, or
  else of the composite) becomes a member of the roles of its composite, no other role is granted anything, and the role
  object stands for that same role and is never a superuser. Roles whose names agree up to dashes and underscores, or
  up to letter case, share one grant object, in which the last of them replaces the others. Every grant that stands
  under its own name is protected: the role of the user cannot be deleted before it. The names of grants and usages
  must not clash with each other or the other objects, which holds when transliteration keeps their prefixes.
\<close>

theorem granted_roles:
  assumes "GeneratePgUserObjects X D u required observed = Inr gen"
    and "user_names_apart X u (roles_of (pu_Grant u))"
  shows "grants_written gen =
      (\<lambda>r. (Some (user_provider u), Some (VStr (role_in_database u)), Some (VStr r))) `
        set (keep_last (grant_name X u) (roles_of (pu_Grant u))) \<and>
    (\<forall>r \<in> set (keep_last (usage_name X u) (roles_of (pu_Grant u))). \<exists>usage. map_of gen (usage_name X u r) = Some usage \<and>
      k_kind usage = ''Usage'' \<and> kfield usage [''Spec'', ''ReplayDeletion''] = Some (VBool True) \<and>
      kfield usage [''Spec'', ''Of''] = Some (VObj [(''Kind'', VStr ''Role''), (''APIVersion'', VStr pgSqlApiVersion),
        (''ResourceRef'', VObj [(''Name'', VStr (pu_name u))])]) \<and>
      kfield usage [''Spec'', ''By''] = Some (VObj [(''Kind'', VStr ''Grant''), (''APIVersion'', VStr pgSqlApiVersion),
        (''ResourceRef'', VObj [(''Name'', VStr (grant_name X u r))])])) \<and>
    (\<exists>role. map_of gen ''role'' = Some role \<and> k_kind role = ''Role'' \<and> k_name role = pu_name u \<and>
      map_of (k_annotations role) ''crossplane.io/external-name'' = Some (role_in_database u) \<and>
      kfield role [''Spec'', ''ManagedResourceSpec'', ''ProviderConfigReference''] = Some (user_provider u) \<and>
      kfield role [''Spec'', ''ForProvider'', ''Privileges''] = Some (VObj
       [(''Login'', VBool (pu_Login u)), (''CreateDb'', VBool (pu_CreateDb u)), (''CreateRole'', VBool (pu_CreateRole u)),
        (''Inherit'', VBool (pu_Inherit u)), (''SuperUser'', VBool False), (''Replication'', VBool False), (''BypassRls'', VBool False)]))"
    (is "_ = ?say ` ?kept \<and> _")
proof (intro conjI)
  show "grants_written gen = ?say ` ?kept"
  proof (intro set_eqI iffI)
    fix a assume "a \<in> grants_written gen"
    then obtain n k where k: "map_of gen n = Some k" "k_kind k = ''Grant''"
      and a: "a = (kfield k [''Spec'', ''ManagedResourceSpec'', ''ProviderConfigReference''],
        kfield k [''Spec'', ''ForProvider'', ''Role''], kfield k [''Spec'', ''ForProvider'', ''MemberOf''])"
      unfolding grants_written_def by blast
    from grants_only [OF assms k] obtain r where "r \<in> ?kept" "k = the_grant X u r" .
    then show "a \<in> ?say ` ?kept" by (simp add: a)
  next
    fix a assume "a \<in> ?say ` ?kept"
    then obtain r where r: "r \<in> ?kept" and a: "a = ?say r" by blast
    from grant_entry [OF assms r] show "a \<in> grants_written gen"
      unfolding grants_written_def a by (intro CollectI exI [of _ "grant_name X u r"] exI [of _ "the_grant X u r"]) simp
  qed
  show "\<forall>r \<in> set (keep_last (usage_name X u) (roles_of (pu_Grant u))). \<exists>usage. map_of gen (usage_name X u r) = Some usage \<and>
      k_kind usage = ''Usage'' \<and> kfield usage [''Spec'', ''ReplayDeletion''] = Some (VBool True) \<and>
      kfield usage [''Spec'', ''Of''] = Some (VObj [(''Kind'', VStr ''Role''), (''APIVersion'', VStr pgSqlApiVersion),
        (''ResourceRef'', VObj [(''Name'', VStr (pu_name u))])]) \<and>
      kfield usage [''Spec'', ''By''] = Some (VObj [(''Kind'', VStr ''Grant''), (''APIVersion'', VStr pgSqlApiVersion),
        (''ResourceRef'', VObj [(''Name'', VStr (grant_name X u r))])])"
    using usage_entry [OF assms] by simp
  from role_entry [OF assms] obtain g role where g: "buildRole X g = Inr [(''role'', role)]" "pug_user g = u"
    "pug_providerConfigName g = pu_InstanceRef u @ ''-providerconfig''" "pug_roleDisplayName g = display_name (pu_name u) (pu_Name u)"
    "map_of gen ''role'' = Some role" .
  then show "\<exists>role. map_of gen ''role'' = Some role \<and> k_kind role = ''Role'' \<and> k_name role = pu_name u \<and>
      map_of (k_annotations role) ''crossplane.io/external-name'' = Some (role_in_database u) \<and>
      kfield role [''Spec'', ''ManagedResourceSpec'', ''ProviderConfigReference''] = Some (user_provider u) \<and>
      kfield role [''Spec'', ''ForProvider'', ''Privileges''] = Some (VObj
       [(''Login'', VBool (pu_Login u)), (''CreateDb'', VBool (pu_CreateDb u)), (''CreateRole'', VBool (pu_CreateRole u)),
        (''Inherit'', VBool (pu_Inherit u)), (''SuperUser'', VBool False), (''Replication'', VBool False), (''BypassRls'', VBool False)])"
    using role_fields [OF g(1)] by (simp add: role_in_database_def display_name_def)
qed

text \<open>A user with three roles, two of which share a grant.\<close>

definition demo_user :: PostgreSQLUser where
  "demo_user = \<lparr>pu_kind = XRKindPostgreSQLUser, pu_name = ''alice'', pu_namespace = ''team-a'', pu_Name = '''', pu_InstanceRef = ''shop'',
     pu_Login = True, pu_CreateDb = False, pu_CreateRole = False, pu_Inherit = True, pu_Grant = Some [''app_rw'', ''app-rw'', ''reader'']\<rparr>"

lemma demo_user_run:
  "\<exists>gen. GeneratePgUserObjects std_ext demo_db demo_user [(''PostgreSQLInstance'', [Some []])] [] = Inr gen"
  by (simp add: GeneratePgUserObjects_def newPgUserGenerator_def ExtractRequiredResource_def gslice_def pg_user_generate_def
      isPgInstanceReady_def demo_db_def demo_pg_def buildRole_def passwordRotationTrigger_def Let_def)

lemma demo_user_names: "user_names_apart std_ext demo_user [''app_rw'', ''app-rw'', ''reader'']"
  by code_simp

lemma demo_user_kept:
  "keep_last (grant_name std_ext demo_user) [''app_rw'', ''app-rw'', ''reader''] = [''app-rw'', ''reader'']"
  by code_simp

theorem granted_roles_witness:
  "\<exists>gen. GeneratePgUserObjects std_ext demo_db demo_user [(''PostgreSQLInstance'', [Some []])] [] = Inr gen \<and>
     grants_written gen = (\<lambda>r. (Some (provider_ref ''shop-providerconfig''), Some (VStr ''alice''), Some (VStr r))) ` {''app-rw'', ''reader''}"
proof -
  obtain gen where run: "GeneratePgUserObjects std_ext demo_db demo_user [(''PostgreSQLInstance'', [Some []])] [] = Inr gen"
    using demo_user_run by blast
  have roles: "roles_of (pu_Grant demo_user) = [''app_rw'', ''app-rw'', ''reader'']" by (simp add: roles_of_def demo_user_def)
  have "grants_written gen = (\<lambda>r. (Some (user_provider demo_user), Some (VStr (role_in_database demo_user)), Some (VStr r))) `
      set (keep_last (grant_name std_ext demo_user) [''app_rw'', ''app-rw'', ''reader''])"
    using granted_roles [OF run, unfolded roles] demo_user_names by blast
  moreover have "role_in_database demo_user = ''alice''" "pu_InstanceRef demo_user = ''shop''"
    by (simp_all add: role_in_database_def demo_user_def)
  ultimately have "grants_written gen = (\<lambda>r. (Some (provider_ref ''shop-providerconfig''), Some (VStr ''alice''), Some (VStr r))) `
      {''app-rw'', ''reader''}"
    unfolding demo_user_kept by simp
  with run show ?thesis by blast
qed

section \<open>Credentials of a Valkey instance\<close>

lemma skip_blank [simp]:
  "expect c (CHR '' '' # s) = expect c s" "expect_null (CHR '' '' # s) = expect_null s" "json_text (CHR '' '' # s) = json_text s"
  "text_or_null (CHR '' '' # s) = text_or_null s" "json_member (CHR '' '' # s) = json_member s"
  by (simp_all add: expect_def expect_null_def json_text_def text_or_null_def json_member_def json_space_def)

lemma json_members_next:
  "json_members m (json_quote k @ CHR '':'' # CHR '' '' # json_quote v @ CHR '','' # rest) =
     json_members (gset (sanitize k) (sanitize v) m) rest"
  "json_members m (json_quote k @ CHR '':'' # CHR '' '' # json_quote v @ CHR ''}'' # rest) =
     Some (gset (sanitize k) (sanitize v) m, rest)"
  by (simp_all add: json_members.simps [of m "json_quote k @ _"] json_member_def)

lemma json_members_blank: "json_members m (CHR '' '' # s) = json_members m s"
  by (simp add: json_members.simps [of m "CHR '' '' # s"] json_members.simps [of m s])

lemma expect_end_quote: "expect (CHR ''}'') (json_quote s @ rest) = None"
  by (simp add: json_quote_def)

definition credentials_fields :: "string \<Rightarrow> string \<Rightarrow> string \<Rightarrow> string \<Rightarrow> string gomap" where
  "credentials_fields authToken port primaryEndpoint readerEndpoint =
     [(''AUTH_TOKEN'', authToken), (''PORT'', port), (''PRIMARY_ENDPOINT'', primaryEndpoint), (''READER_ENDPOINT'', readerEndpoint)]"

lemma credential_keys [simp]:
  "sanitize ''AUTH_TOKEN'' = ''AUTH_TOKEN''" "sanitize ''PORT'' = ''PORT''"
  "sanitize ''PRIMARY_ENDPOINT'' = ''PRIMARY_ENDPOINT''" "sanitize ''READER_ENDPOINT'' = ''READER_ENDPOINT''"
  by code_simp+

lemma valkey_document_read:
  "unmarshal_strings (valkey_credentials_json a p e r) =
     Some (credentials_fields (sanitize a) (sanitize p) (sanitize e) (sanitize r))"
  by (simp add: unmarshal_strings_def valkey_credentials_json_def expect_null_def json_object_def json_space_def expect_end_quote
      json_members_next json_members_blank credentials_fields_def)

lemma valkey_parameter_group_frame:
  assumes "valkey_parameter_group X g = Inr (objects, pg)" and "\<not> prefix parameterGroupKeyPrefix n"
  shows "map_of objects n = None"
proof -
  have "n \<noteq> parameterGroupKeyPrefix @ family" for family using assms(2) by auto
  with assms show ?thesis
    by (auto simp: valkey_parameter_group_def Let_def res_simps keepStale_frame split: option.splits if_splits prod.splits)
qed

lemma subnet_rules_frame: "\<not> prefix ''sg-ingress-'' n \<Longrightarrow> map_of (subnet_rules_loop g subnets objects) n = map_of objects n"
  by (induction g subnets objects rule: subnet_rules_loop.induct) auto

lemma valkey_credentials_entry:
  assumes "valkey_generate X g = Inr gen"
  shows "map_of gen ''credentials'' = map_of (valkey_buildCredentialsSecret g []) ''credentials''"
proof -
  from assms obtain objects pg rg where o: "valkey_parameter_group X g = Inr (objects, pg)"
    and gen: "gen = valkey_buildCredentialsSecret g (valkey_buildSecretsManagerResources g (subnet_rules_loop g (vg_computeSubnets g)
        (gset ''security-group'' (Some (Typed (valkey_buildSecurityGroup g))) (gset rgKey (Some (Typed rg)) objects))))"
    by (auto simp: valkey_generate_def Let_def res_simps)
  define m where "m = valkey_buildSecretsManagerResources g (subnet_rules_loop g (vg_computeSubnets g)
    (gset ''security-group'' (Some (Typed (valkey_buildSecurityGroup g))) (gset rgKey (Some (Typed rg)) objects)))"
  have "map_of objects ''credentials'' = None"
    by (rule valkey_parameter_group_frame [OF o]) (simp add: parameterGroupKeyPrefix_def)
  then have "map_of m ''credentials'' = None"
    by (simp add: m_def valkey_buildSecretsManagerResources_def Let_def subnet_rules_frame rgKey_def)
  then show ?thesis unfolding gen m_def [symmetric]
    by (simp add: valkey_buildCredentialsSecret_def Let_def split: option.split)
qed

lemma newValkey_ok:
  assumes "newValkeyInstanceGenerator X D i required observed = Inr g"
  shows "vg_instance g = i" and "vg_observed g = observed"
  using assms by (auto simp: newValkeyInstanceGenerator_def res_simps)

text \<open>
  C30: the credentials of a Valkey instance. As soon as the replication group has published its token and its
  primary endpoint, and not before, the composite gets a secret with them; the JSON document in it, which is
  what the Secrets Manager stores, reads back as the same four texts.
\<close>

theorem valkey_credentials_published:
  assumes "GenerateValkeyInstanceObjects X D i required observed = Inr gen"
    and "map_of observed rgKey = Some oc"
    and "\<forall>v \<in> snd ` set (oc_connection oc). valid_utf8 v"
  defines "token \<equiv> gget (oc_connection oc) ''attribute.auth_token''" and "port \<equiv> gget (oc_connection oc) ''port''"
    and "primary \<equiv> gget (oc_connection oc) ''primary_endpoint_address''"
    and "reader \<equiv> gget (oc_connection oc) ''reader_endpoint_address''"
  shows "if token = '''' \<or> primary = '''' then map_of gen ''credentials'' = None
    else \<exists>secret document. map_of gen ''credentials'' = Some (Some (Typed secret)) \<and> k_kind secret = ''Secret'' \<and>
      k_namespace secret = vk_namespace i \<and>
      kfield secret [''StringData''] =
        Some (str_map_val (credentials_fields token port primary reader @ [(''credentials.json'', document)])) \<and>
      unmarshal_strings document = Some (credentials_fields token port primary reader)"
proof -
  from assms(1) obtain g where g: "newValkeyInstanceGenerator X D i required observed = Inr g" "valkey_generate X g = Inr gen"
    by (auto simp: GenerateValkeyInstanceObjects_def res_simps)
  note ok = newValkey_ok [OF g(1)]
  have clean: "sanitize (gget (oc_connection oc) k) = gget (oc_connection oc) k" for k
  proof (cases "map_of (oc_connection oc) k")
    case (Some v)
    then have "valid_utf8 v" using assms(3) map_of_SomeD by (metis image_eqI snd_conv)
    then show ?thesis using Some by (simp add: gget_def sanitize_valid)
  qed (simp add: gget_def sanitize_valid)
  have built: "map_of gen ''credentials'' = (if token = '''' \<or> primary = '''' then None
      else Some (Some (Typed (valkey_credentials g token port primary reader))))"
  proof (cases "oc_connection oc = []")
    case True
    then have "token = ''''" by (simp add: token_def gget_def)
    with True show ?thesis
      by (simp add: valkey_credentials_entry [OF g(2)] valkey_buildCredentialsSecret_def ok assms(2))
  next
    case False
    then show ?thesis
      by (simp add: valkey_credentials_entry [OF g(2)] valkey_buildCredentialsSecret_def ok assms(2) Let_def token_def port_def primary_def reader_def)
  qed
  have "unmarshal_strings (valkey_credentials_json token port primary reader) = Some (credentials_fields token port primary reader)"
    by (simp add: valkey_document_read token_def port_def primary_def reader_def clean)
  with built show ?thesis
    by (cases "token = '''' \<or> primary = ''''")
      (auto simp: valkey_credentials_def kfield_def credentials_fields_def ok intro!: exI [of _ "valkey_credentials_json token port primary reader"])
qed

section \<open>A concrete Valkey instance\<close>

definition demo_valkey :: ValkeyInstance where
  "demo_valkey = \<lparr>vk_kind = XRKindValkey, vk_name = ''cache'', vk_namespace = ''team-a'', vk_uid = ''9b1c'', vk_EngineVersion = Some ''8.0'',
     vk_InstanceType = ''cache.t4g.micro'', vk_NumCacheClusters = 2, vk_AutoMinorVersionUpgrade = True,
     vk_MaintenanceWindow = '''', vk_SnapshotWindow = '''', vk_SnapshotRetentionLimit = 0, vk_ParameterGroupName = '''',
     vk_ParameterGroupParameters = None\<rparr>"

definition demo_valkey_required :: required where
  "demo_valkey_required = [(EnvironmentKey, [Some [(''data'', JObj [(''vpc'', JStr ''main'')])]]), (''VPC'', [Some []]),
     (''ElasticacheSubnetGroup'', [Some []])]"

definition demo_valkey_observed :: observed where
  "demo_valkey_observed = [(rgKey, \<lparr>oc_resource = Some [(''kind'', JStr ''ReplicationGroup'')],
     oc_connection = [(''attribute.auth_token'', ''t0k''), (''port'', ''6379''), (''primary_endpoint_address'', ''cache.example.org'')]\<rparr>)]"

lemma demo_valkey_run:
  "\<exists>gen. GenerateValkeyInstanceObjects std_ext blank_db demo_valkey demo_valkey_required demo_valkey_observed = Inr gen"
proof -
  have "database_GetEnvironment std_ext blank_db demo_valkey_required = Inr (database_Environment_defaults demo_env)"
    "is_ok (ExtractRequiredResource demo_valkey_required ''VPC'' (dx_vpc blank_db))"
    "is_ok (ExtractRequiredResource demo_valkey_required ''ElasticacheSubnetGroup'' (dx_cache_subnet_group blank_db))"
    "is_ok (ExtractOptionalResource demo_valkey_required ''KMSDataKey'' (dx_kms blank_db))"
    "is_ok (ExtractOptionalResource demo_valkey_required ''KMSConfigKey'' (dx_kms blank_db))"
    "is_ok (ExtractResources (Some demo_valkey_required) ''ComputeSubnets'' (dx_subnet blank_db))"
    "is_ok (version_at std_ext demo_valkey_observed rgKey)"
    by code_simp+
  then obtain g where g: "newValkeyInstanceGenerator std_ext blank_db demo_valkey demo_valkey_required demo_valkey_observed = Inr g"
    "vg_env g = database_Environment_defaults demo_env"
    by (auto simp: newValkeyInstanceGenerator_def is_ok_iff)
  have "valkey_parameter_group std_ext g = Inr ([], '''')"
    by (simp add: valkey_parameter_group_def newValkey_ok [OF g(1)]) (simp add: demo_valkey_def)
  moreover have "is_ok (buildReplicationGroup g '''')"
    by (simp add: buildReplicationGroup_def g(2) database_Environment_defaults_def demo_env_def default_true_def Let_def is_ok_iff)
  ultimately show ?thesis by (auto simp: GenerateValkeyInstanceObjects_def g valkey_generate_def is_ok_iff Let_def)
qed

theorem valkey_credentials_published_witness:
  "\<exists>gen secret document. GenerateValkeyInstanceObjects std_ext blank_db demo_valkey demo_valkey_required demo_valkey_observed = Inr gen \<and>
     map_of gen ''credentials'' = Some (Some (Typed secret)) \<and>
     unmarshal_strings document = Some (credentials_fields ''t0k'' ''6379'' ''cache.example.org'' '''')"
proof -
  obtain gen where run: "GenerateValkeyInstanceObjects std_ext blank_db demo_valkey demo_valkey_required demo_valkey_observed = Inr gen"
    using demo_valkey_run by blast
  define oc where "oc = \<lparr>oc_resource = Some [(''kind'', JStr ''ReplicationGroup'')],
     oc_connection = [(''attribute.auth_token'', ''t0k''), (''port'', ''6379''), (''primary_endpoint_address'', ''cache.example.org'')]\<rparr>"
  have "map_of demo_valkey_observed rgKey = Some oc" by (simp add: demo_valkey_observed_def oc_def)
  moreover have "\<forall>v \<in> snd ` set (oc_connection oc). valid_utf8 v"
    by (auto simp: oc_def intro!: valid_utf8_ascii)
  ultimately show ?thesis
    using valkey_credentials_published [OF run, of oc] run by (auto simp: oc_def gget_def)
qed

end
