(* ===== verification/Go_Number.thy ===== *)
theory Go_Number
  imports Go_Float Go_Time "HOL-Library.Char_ord" "HOL-Library.List_Lexorder" "HOL-Library.Word"
begin

text \<open>
  Numbers as text (\<open>strconv\<close>), the order of strings that \<open>slices.Sort\<close> uses, which is that of their bytes, and
  conversions to \<open>int32\<close>.
\<close>

section \<open>Integers\<close>

text \<open>The conversion \<open>int32(n)\<close> of an integer of 64 bits keeps the low 32 bits.\<close>

definition int32 :: "int \<Rightarrow> int" where
  "int32 n = sint (word_of_int n :: 32 word)"

lemma int32_id: "- (2 ^ 31) \<le> n \<Longrightarrow> n < 2 ^ 31 \<Longrightarrow> int32 n = n"
  by (simp add: int32_def sint_sbintrunc' signed_take_bit_int_eq_self)

section \<open>Floating-point numbers\<close>

text \<open>All values of \<open>float64\<close>; \<open>Fin 0\<close> is positive zero.\<close>

datatype gofloat = Fin rat | NegZero | PosInf | NegInf | NaN

fun float_eq :: "gofloat \<Rightarrow> rat \<Rightarrow> bool" where
  "float_eq (Fin x) y \<longleftrightarrow> x = y"
| "float_eq NegZero y \<longleftrightarrow> y = 0"
| "float_eq _ y \<longleftrightarrow> False"

fun float_less :: "gofloat \<Rightarrow> rat \<Rightarrow> bool" where
  "float_less (Fin x) y \<longleftrightarrow> x < y"
| "float_less NegZero y \<longleftrightarrow> 0 < y"
| "float_less NegInf y \<longleftrightarrow> True"
| "float_less _ y \<longleftrightarrow> False"

section \<open>Parsing\<close>

definition digit_of :: "nat \<Rightarrow> char \<Rightarrow> nat option" where
  "digit_of base c =
     (if is_digit c then Some (code c - 48)
      else let l = lower_char c in
        if base = 16 \<and> 97 \<le> code l \<and> code l \<le> 102 then Some (code l - 87) else None)"

text \<open>
  The mantissa of \<open>readFloat\<close>: whether digits were seen, their value, how many of them stand behind the
  point, and the rest of the text. A second point ends it; underscores are skipped here.
\<close>

fun read_mantissa :: "nat \<Rightarrow> bool \<Rightarrow> bool \<times> nat \<times> nat \<Rightarrow> string \<Rightarrow> (bool \<times> nat \<times> nat) \<times> string" where
  "read_mantissa base sawdot acc [] = (acc, [])"
| "read_mantissa base sawdot (sawdigits, value, places) (c # s) =
     (if c = CHR ''_'' then read_mantissa base sawdot (sawdigits, value, places) s
      else if c = CHR ''.'' \<and> \<not> sawdot then read_mantissa base True (sawdigits, value, places) s
      else case digit_of base c of
          None \<Rightarrow> ((sawdigits, value, places), c # s)
        | Some d \<Rightarrow> read_mantissa base sawdot (True, value * base + d, if sawdot then Suc places else places) s)"

text \<open>The digits of the exponent, which stops growing at 10000, far outside the range of \<open>float64\<close>.\<close>

fun read_exponent :: "nat \<Rightarrow> string \<Rightarrow> nat \<times> string" where
  "read_exponent e [] = (e, [])"
| "read_exponent e (c # s) =
     (if c = CHR ''_'' then read_exponent e s
      else if is_digit c then read_exponent (if e < 10000 then e * 10 + (code c - 48) else e) s
      else (e, c # s))"

definition signed :: "string \<Rightarrow> bool \<times> string" where
  "signed s =
     (case s of
        c # t \<Rightarrow> if c = CHR ''+'' then (False, t) else if c = CHR ''-'' then (True, t) else (False, s)
      | [] \<Rightarrow> (False, s))"

definition hex_prefix :: "string \<Rightarrow> string option" where
  "hex_prefix s = (case s of c # d # t \<Rightarrow> if c = CHR ''0'' \<and> lower_char d = CHR ''x'' \<and> t \<noteq> [] then Some t else None | _ \<Rightarrow> None)"

text \<open>\<open>underscoreOK\<close>: an underscore stands between digits, or between the base prefix and a digit.\<close>

datatype last_seen = Start | Digit | Underscore | Other

fun underscores_loop :: "bool \<Rightarrow> last_seen \<Rightarrow> string \<Rightarrow> bool" where
  "underscores_loop hex seen [] = (seen \<noteq> Underscore)"
| "underscores_loop hex seen (c # s) =
     (if digit_of (if hex then 16 else 10) c \<noteq> None then underscores_loop hex Digit s
      else if c = CHR ''_'' then (if seen \<noteq> Digit then False else underscores_loop hex Underscore s)
      else if seen = Underscore then False
      else underscores_loop hex Other s)"

definition underscoreOK :: "string \<Rightarrow> bool" where
  "underscoreOK s =
     (let t = snd (signed s) in
      case t of
        c # d # u \<Rightarrow>
          if c = CHR ''0'' \<and> lower_char d \<in> {CHR ''b'', CHR ''o'', CHR ''x''}
          then underscores_loop (lower_char d = CHR ''x'') Digit u
          else underscores_loop False Start t
      | _ \<Rightarrow> underscores_loop False Start t)"

text \<open>The exponent after the mantissa, or none; a hexadecimal number must have one.\<close>

definition exponent_part :: "nat \<Rightarrow> string \<Rightarrow> (int \<times> string) option" where
  "exponent_part base s =
     (case s of
        c # t \<Rightarrow>
          if lower_char c = (if base = 16 then CHR ''p'' else CHR ''e'') then
            (case signed t of (neg, u) \<Rightarrow>
               (case u of
                  d # v \<Rightarrow> if is_digit d then (case read_exponent 0 u of (e, rest) \<Rightarrow> Some (if neg then - int e else int e, rest)) else None
                | [] \<Rightarrow> None))
          else if base = 16 then None else Some (0, s)
      | [] \<Rightarrow> if base = 16 then None else Some (0, s))"

text \<open>\<open>readFloat\<close> on a whole text: sign and magnitude.\<close>

definition read_float :: "string \<Rightarrow> (bool \<times> rat) option" where
  "read_float s =
     (case signed s of (neg, t) \<Rightarrow>
       (let (base, u) = (case hex_prefix t of Some u \<Rightarrow> (16, u) | None \<Rightarrow> (10, t));
            ((sawdigits, value, places), rest) = read_mantissa base False (False, 0, 0) u
        in if \<not> sawdigits then None
           else case exponent_part base rest of
               None \<Rightarrow> None
             | Some (e, rest) \<Rightarrow>
                 if rest \<noteq> [] \<or> CHR ''_'' \<in> set s \<and> \<not> underscoreOK s then None
                 else Some (neg, of_nat value / of_nat base ^ places * (if base = 16 then 2 else 10) powi e)))"

definition special_float :: "string \<Rightarrow> gofloat option" where
  "special_float s =
     (case signed s of (neg, t) \<Rightarrow>
       if to_lower t = ''inf'' \<or> to_lower t = ''infinity'' then Some (if neg then NegInf else PosInf)
       else if to_lower s = ''nan'' then Some NaN else None)"

text \<open>\<open>strconv.ParseFloat(s, 64)\<close>: the nearest value, or an error that quotes the text.\<close>

definition ParseFloat :: "(string \<Rightarrow> string) \<Rightarrow> string \<Rightarrow> gofloat res" where
  "ParseFloat quote s =
     (let bad = (\<lambda>what. Inl (Error (''strconv.ParseFloat: parsing '' @ quote s @ '': '' @ what))) in
      case special_float s of
        Some f \<Rightarrow> Inr f
      | None \<Rightarrow>
          (case read_float s of
             None \<Rightarrow> bad ''invalid syntax''
           | Some (neg, x) \<Rightarrow>
               (let y = f64_round x in
                if 2 ^ 1024 \<le> y then bad ''value out of range''
                else Inr (if y = 0 then (if neg then NegZero else Fin 0) else Fin (if neg then - y else y)))))"

section \<open>Printing\<close>

text \<open>The number of digits before the point: \<open>10 ^ (d - 1) \<le> x < 10 ^ d\<close>.\<close>

definition decimal_point :: "rat \<Rightarrow> int" where
  "decimal_point x =
     (if 1 \<le> x then int (length (itoa (nat \<lfloor>x\<rfloor>))) else 1 - int (length (itoa (nat (\<lceil>1 / x\<rceil> - 1)))))"

text \<open>The decimal of \<open>n\<close> digits that is nearest to \<open>x\<close> among those that read back as \<open>x\<close>.\<close>

definition digits_of :: "rat \<Rightarrow> nat \<Rightarrow> rat option" where
  "digits_of x n =
     (let unit = 10 powi (decimal_point x - int n); low = of_int \<lfloor>x / unit\<rfloor> * unit; high = low + unit;
          near = (if x - low \<le> high - x then [low, high] else [high, low])
      in find (\<lambda>y. f64_round y = x) near)"

definition shortest_decimal :: "rat \<Rightarrow> rat" where
  "shortest_decimal x =
     (case List.map_filter (digits_of x) [1..<18] of y # ys \<Rightarrow> y | [] \<Rightarrow> x)"

fun fraction_digits :: "nat \<Rightarrow> rat \<Rightarrow> string" where
  "fraction_digits 0 x = []"
| "fraction_digits (Suc n) x =
     (if x = 0 then [] else let d = \<lfloor>x * 10\<rfloor> in digit_char (nat d) # fraction_digits n (x * 10 - of_int d))"

text \<open>
  \<open>strconv.FormatFloat(f, 'f', -1, 64)\<close>: the shortest decimal that reads back as \<open>f\<close>, without an exponent. The
  smallest positive value is above \<open>10 ^ -324\<close> and needs at most 17 digits, so that 341 decimals are enough.
\<close>

definition show_decimal :: "rat \<Rightarrow> string" where
  "show_decimal x =
     (let y = shortest_decimal x; fr = y - of_int \<lfloor>y\<rfloor> in
      itoa (nat \<lfloor>y\<rfloor>) @ (if fr = 0 then '''' else ''.'' @ fraction_digits 341 fr))"

fun FormatFloat :: "gofloat \<Rightarrow> string" where
  "FormatFloat (Fin x) = (if x = 0 then ''0'' else if x < 0 then ''-'' @ show_decimal (- x) else show_decimal x)"
| "FormatFloat NegZero = ''-0''"
| "FormatFloat PosInf = ''+Inf''"
| "FormatFloat NegInf = ''-Inf''"
| "FormatFloat NaN = ''NaN''"

lemma read_float_examples:
  "special_float ''Infinity'' = Some PosInf" "special_float ''-inf'' = Some NegInf" "special_float ''nan'' = Some NaN"
  "read_float ''-2.5'' = Some (True, 5 / 2)" "read_float ''1_0e2'' = Some (False, 1000)"
  "read_float '''' = None" "read_float ''1.2.3'' = None" "read_float ''1_'' = None" "read_float ''0x10'' = None"
  by code_simp+

end
