(* ===== verification/Zone_Types.thy ===== *)
theory Zone_Types
  imports Aws Go_Number
begin

text \<open>
  \<open>functions/tenancy/apis\<close>: the Zone composite, the environment of the group, and what is read of the
  types of Kubernetes and of the providers.
\<close>

abbreviation "XRKindZone \<equiv> ''Zone''"

section \<open>The composite\<close>

text \<open>\<open>intstr.IntOrString\<close>; its zero value is the integer 0.\<close>

datatype IntOrString = IntVal int | StrVal string

fun intstr_String :: "IntOrString \<Rightarrow> string" where
  "intstr_String (IntVal n) = show_int n"
| "intstr_String (StrVal s) = s"

record Requirement =
  rq_Key :: string
  rq_Value :: IntOrString
  rq_Values :: "string list"

record Pool =
  po_Name :: string
  po_Requirements :: "Requirement list"

record ZoneNamespace =
  zn_Name :: string
  zn_Pool :: string

record RoleMapping =
  rm_RoleRef :: string
  rm_Groups :: "string list"

text \<open>\<open>zo_AppProject\<close> is the list of contributor groups of the application project, if there is one.\<close>

record Zone =
  zo_kind :: string
  zo_name :: string
  zo_labels :: "string gomap"
  zo_annotations :: "string gomap"
  zo_ClusterPermissions :: bool
  zo_AppProject :: "string list option"
  zo_GranularNamespaceNetworkPolicy :: "bool option"
  zo_Namespaces :: "ZoneNamespace list"
  zo_Pools :: "Pool list"
  zo_RoleMapping :: "RoleMapping list"

section \<open>The environment\<close>

datatype CloudProvider = CloudProviderAWS | CloudProviderOCI

text \<open>\<open>rbacv1.PolicyRule\<close>.\<close>

record PolicyRule =
  pr_APIGroups :: "string list"
  pr_Resources :: "string list"
  pr_ResourceNames :: "string list"
  pr_NonResourceURLs :: "string list"
  pr_Verbs :: "string list"

record tenancy_AppProject =
  ap_NamespaceResourceBlacklist :: "(string \<times> string) list"
  ap_NamespaceResourceWhitelist :: "(string \<times> string) list"
  ap_SourceRepos :: "string list"

record tenancy_Environment =
  te_AppProject :: tenancy_AppProject
  te_ArgoCDNamespace :: string
  te_AWSProvider :: string
  te_Cluster :: string
  te_CreateAppsNamespace :: bool
  te_ComputeSubnetType :: string
  te_ConfigKMSKeyArn :: string
  te_DataKMSAlias :: string
  te_DataKMSKey :: string
  te_GranularEgress :: bool
  te_GranularEgressExclude :: "string list"
  te_GranularNamespaceNetworkPolicy :: bool
  te_NamespaceRole :: "PolicyRule list option"
  te_OCIProvider :: string
  te_PodSecurity :: string
  te_RoleMapping :: "RoleMapping list"
  te_SecretStoreNamespace :: string
  te_SecurityGroup :: string
  te_Tags :: "string option gomap"
  te_VPC :: string
  te_Workspace :: string

definition zero_tenancy_Environment :: tenancy_Environment where
  "zero_tenancy_Environment =
     \<lparr>te_AppProject = \<lparr>ap_NamespaceResourceBlacklist = [], ap_NamespaceResourceWhitelist = [], ap_SourceRepos = []\<rparr>,
      te_ArgoCDNamespace = '''', te_AWSProvider = '''', te_Cluster = '''', te_CreateAppsNamespace = False,
      te_ComputeSubnetType = '''', te_ConfigKMSKeyArn = '''', te_DataKMSAlias = '''', te_DataKMSKey = '''',
      te_GranularEgress = False, te_GranularEgressExclude = [], te_GranularNamespaceNetworkPolicy = False,
      te_NamespaceRole = None, te_OCIProvider = '''', te_PodSecurity = '''', te_RoleMapping = [],
      te_SecretStoreNamespace = '''', te_SecurityGroup = '''', te_Tags = [], te_VPC = '''', te_Workspace = ''''\<rparr>"

definition ValidateFor :: "tenancy_Environment \<Rightarrow> CloudProvider \<Rightarrow> unit res" where
  "ValidateFor e provider =
     refuse (te_NamespaceRole e = None) ''namespaceRole.rules is required''
       (case provider of
          CloudProviderOCI \<Rightarrow> refuse (te_OCIProvider e = '''') ''oracleProvider is required'' valid
        | CloudProviderAWS \<Rightarrow>
            refuse (te_AWSProvider e = '''') ''awsProvider is required''
           (refuse (te_VPC e = '''') ''vpc is required'' valid))"

definition tenancy_Environment_Validate :: "tenancy_Environment \<Rightarrow> unit res" where
  "tenancy_Environment_Validate e =
     refuse (te_ArgoCDNamespace e = '''') ''argoCDNamespace is required''
    (refuse (te_SecurityGroup e = '''') ''securityGroup is required''
    (refuse (te_Cluster e = '''') ''cluster is required''
    (refuse (te_ComputeSubnetType e = '''') ''computeSubnetType is required''
    (refuse (te_PodSecurity e = '''') ''podSecurity is required'' valid))))"

section \<open>What is read of other types\<close>

text \<open>A \<open>Namespace\<close>; it is terminating when its deletion timestamp is set.\<close>

record namespace_ref =
  ns_Name :: string
  ns_Labels :: "string gomap"
  ns_Terminating :: bool

record class_parameters =
  cp_APIGroup :: "string option"
  cp_Kind :: string
  cp_Name :: string
  cp_Namespace :: "string option"

record ingress_class =
  cl_Name :: string
  cl_Parameters :: "class_parameters option"

text \<open>The service of a path is missing when its backend is another resource.\<close>

record backend_service =
  bs_Name :: string
  bs_PortName :: string
  bs_PortNumber :: int

record ingress =
  in_Name :: string
  in_Annotations :: "string gomap"
  in_ClassName :: "string option"
  in_Rules :: "backend_service option list option list"

record service_ref_port =
  sv_PortName :: string
  sv_Port :: int
  sv_TargetPort :: IntOrString

record service_ref =
  sv_Name :: string
  sv_Ports :: "service_ref_port list"
  sv_Selector :: "string gomap"

record subnet_ref =
  sn_Labels :: "string gomap"
  sn_Annotations :: "string gomap"
  sn_ID :: "string option"
  sn_AvailabilityZone :: "string option"
  sn_CidrBlock :: "string option"

record cluster_ref =
  ek_Name :: string
  ek_Version :: "string option"
  ek_Arn :: "string option"
  ek_Identity :: "string option list list"

text \<open>The JSON in an annotation of the AWS load balancer controller.\<close>

record albTargetGroup =
  tg_ServiceName :: string
  tg_ServicePort :: IntOrString

record albAction =
  aa_Type :: string
  aa_ForwardConfig :: "albTargetGroup list option"

text \<open>
  The conversions at the types of this group, and what else comes from outside the repository:
  \<open>zx_to_unstructured\<close> is \<open>DefaultUnstructuredConverter.ToUnstructured\<close>, \<open>zx_set_string\<close>, \<open>zx_set_slice\<close> and \<open>zx_string_slice\<close>
  are \<open>SetNestedField\<close>, \<open>SetNestedSlice\<close> and \<open>NestedStringSlice\<close> of \<open>unstructured\<close>, \<open>zx_alb_action\<close> is \<open>json.Unmarshal\<close> at
  \<open>albAction\<close> with the library's \<open>IntOrString\<close>. \<open>zx_int32\<close> is the conversion to \<open>int32\<close> of a float outside its
  range, which Go leaves to the implementation, and \<open>zx_quote\<close> is \<open>strconv.Quote\<close>, whose result depends on the
  tables of printable characters and occurs in error texts only.
\<close>

record zone_ext =
  zx_zone :: "object \<Rightarrow> Zone res"
  zx_environment :: "tenancy_Environment decoder"
  zx_namespace :: "object \<Rightarrow> namespace_ref res"
  zx_ingress_class :: "object \<Rightarrow> ingress_class res"
  zx_ingress :: "object \<Rightarrow> ingress res"
  zx_service :: "object \<Rightarrow> service_ref res"
  zx_vpc :: "object \<Rightarrow> vpc res"
  zx_kms_alias :: "object \<Rightarrow> string option res"
  zx_security_group :: "object \<Rightarrow> string option res"
  zx_cluster :: "object \<Rightarrow> cluster_ref res"
  zx_subnet :: "object \<Rightarrow> subnet_ref res"
  zx_launch_template :: "object \<Rightarrow> rat option res"
  zx_alb_action :: "string \<Rightarrow> albAction option"
  zx_to_unstructured :: "kobject \<Rightarrow> object res"
  zx_set_string :: "object \<Rightarrow> string \<Rightarrow> string list \<Rightarrow> object res"
  zx_set_slice :: "object \<Rightarrow> json list \<Rightarrow> string list \<Rightarrow> object res"
  zx_string_slice :: "object \<Rightarrow> string list \<Rightarrow> string list option res"
  zx_int32 :: "rat \<Rightarrow> int"
  zx_quote :: "string \<Rightarrow> string"

definition tenancy_GetEnvironment :: "ext \<Rightarrow> zone_ext \<Rightarrow> required \<Rightarrow> tenancy_Environment res" where
  "tenancy_GetEnvironment X Z required =
     GetEnvironment X (zx_environment Z) (\<lambda>e. failure_of (tenancy_Environment_Validate e)) zero_tenancy_Environment
       EnvironmentKey required"

end
