(* ===== verification/Zone_Common.thy ===== *)
theory Zone_Common
  imports Zone_Types
begin

text \<open>
  \<open>functions/tenancy/service/zone.go\<close>, the part that both clouds share: the namespaces of a zone with their roles,
  bindings, network policies and admission policies, and the Argo CD project.
\<close>

section \<open>The generator\<close>

abbreviation "zonePoolAnnotation \<equiv> ''tenancy.entigo.com/zone-pool''"
abbreviation "PoolLabel \<equiv> ''tenancy.entigo.com/pool''"
abbreviation "RoleContributor \<equiv> ''contributor''"
abbreviation "RoleMaintainer \<equiv> ''maintainer''"
abbreviation "RoleObserver \<equiv> ''observer''"
abbreviation "RoleCICD \<equiv> ''cicd''"
abbreviation "crossplaneViewClusterRole \<equiv> ''crossplane-view''"

record zoneGenerator =
  zg_zone :: Zone
  zg_observed :: observed
  zg_required :: required
  zg_env :: tenancy_Environment
  zg_namespaces :: "namespace_ref list"
  zg_ingressClasses :: "ingress_class list"
  zg_zoneAnnotations :: "string gomap"
  zg_zoneTags :: "string option gomap"
  zg_egressExclude :: "string Set"
  zg_uqNamespaces :: "string list"
  zg_roleMappings :: "string list gomap"

abbreviation zone_name :: "zoneGenerator \<Rightarrow> string" where "zone_name g \<equiv> zo_name (zg_zone g)"

fun add_mappings :: "RoleMapping list \<Rightarrow> string list gomap \<Rightarrow> string list gomap" where
  "add_mappings [] merged = merged"
| "add_mappings (rm # rms) merged =
     add_mappings rms (gset (rm_RoleRef rm) (gslice merged (rm_RoleRef rm) @ rm_Groups rm) merged)"

definition mergeContributorGroups :: "Zone \<Rightarrow> string list \<Rightarrow> string list" where
  "mergeContributorGroups z groups =
     (case zo_AppProject z of
        None \<Rightarrow> groups
      | Some contributors \<Rightarrow> if length contributors = 0 then groups else groups @ contributors)"

definition unique_groups :: "Zone \<Rightarrow> string \<Rightarrow> string list \<Rightarrow> string list" where
  "unique_groups z roleRef groups =
     sort (set_ToSlice (ToSet (if roleRef = RoleContributor then mergeContributorGroups z groups else groups)))"

definition mergeRoleMappings :: "Zone \<Rightarrow> tenancy_Environment \<Rightarrow> string list gomap" where
  "mergeRoleMappings z env =
     map (\<lambda>(roleRef, groups). (roleRef, unique_groups z roleRef groups))
       (add_mappings (te_RoleMapping env) (add_mappings (zo_RoleMapping z) []))"

definition GetUniqueNamespaces :: "Zone \<Rightarrow> namespace_ref list \<Rightarrow> string list" where
  "GetUniqueNamespaces z namespaces =
     (let uqNs = fold (\<lambda>ns s. if ns_Terminating ns then s else set_Add s (ns_Name ns)) namespaces (NewSet []);
          uqNs = fold (\<lambda>ns s. set_Add s (zn_Name ns)) (zo_Namespaces z) uqNs
      in sort (set_ToSlice uqNs))"

definition newZoneGenerator ::
  "ext \<Rightarrow> zone_ext \<Rightarrow> Zone \<Rightarrow> required \<Rightarrow> observed \<Rightarrow> CloudProvider \<Rightarrow> zoneGenerator res" where
  "newZoneGenerator X Z z required observed cloudProvider =
     bindr (tenancy_GetEnvironment X Z required) (\<lambda>env.
     bindr (ValidateFor env cloudProvider) (\<lambda>u.
     bindr (ExtractResources (Some required) ''Namespaces'' (zx_namespace Z)) (\<lambda>namespaces.
     bindr (ExtractResources (Some required) ''IngressClasses'' (zx_ingress_class Z)) (\<lambda>ingressClasses.
       Inr \<lparr>zg_zone = z, zg_observed = observed, zg_required = required, zg_env = env, zg_namespaces = namespaces,
            zg_ingressClasses = ingressClasses, zg_zoneAnnotations = [(TenancyZoneLabel, zo_name z)],
            zg_zoneTags = gset TenancyZoneLabel (Some (zo_name z)) (gcopy [] (te_Tags env)),
            zg_egressExclude = NewSet (te_GranularEgressExclude env),
            zg_uqNamespaces = GetUniqueNamespaces z namespaces, zg_roleMappings = mergeRoleMappings z env\<rparr>))))"

definition getPoolAnnotations :: "zoneGenerator \<Rightarrow> string \<Rightarrow> string gomap" where
  "getPoolAnnotations g zonePool = gcopy [(zonePoolAnnotation, zonePool)] (zg_zoneAnnotations g)"

definition getPoolLabels :: "zoneGenerator \<Rightarrow> string \<Rightarrow> string gomap" where
  "getPoolLabels g zonePool = [(TenancyZoneLabel, zone_name g), (zonePoolAnnotation, zonePool)]"

text \<open>\<open>base.GetObjectTags\<close> of the typed zone.\<close>

definition zone_own_tags :: "Zone \<Rightarrow> string gomap" where
  "zone_own_tags z = gcopy (extractTags (zo_labels z)) (extractTags (zo_annotations z))"

section \<open>Names of the generated resources\<close>

definition GetNamespaceKey :: "string \<Rightarrow> string" where "GetNamespaceKey ns = ''namespace-'' @ ns"
definition GetSidecarKey :: "string \<Rightarrow> string \<Rightarrow> string" where
  "GetSidecarKey zone ns = ''sidecar-'' @ zone @ ''-'' @ ns"
definition GetNetworkPolicyKey :: "string \<Rightarrow> string \<Rightarrow> string" where
  "GetNetworkPolicyKey zone ns = ''netpol-'' @ zone @ ''-'' @ ns"
definition GetRBACRoleAllKey :: "string \<Rightarrow> string \<Rightarrow> string" where
  "GetRBACRoleAllKey zone ns = ''rbacrole-all-'' @ zone @ ''-'' @ ns"
definition GetRBACRoleReadKey :: "string \<Rightarrow> string \<Rightarrow> string" where
  "GetRBACRoleReadKey zone ns = ''rbacrole-read-'' @ zone @ ''-'' @ ns"
definition GetRBACRoleNamespaceKey :: "string \<Rightarrow> string \<Rightarrow> string" where
  "GetRBACRoleNamespaceKey zone ns = ''rbacrole-namespace-'' @ zone @ ''-'' @ ns"
definition GetRBKey :: "string \<Rightarrow> string \<Rightarrow> string \<Rightarrow> string" where
  "GetRBKey zone ns roleRef = ''rb-'' @ roleRef @ ''-'' @ zone @ ''-'' @ ns"
definition GetMutatingPolicyKey :: "string \<Rightarrow> string \<Rightarrow> string" where
  "GetMutatingPolicyKey zone ns = ''kyverno-mutate-'' @ zone @ ''-'' @ ns"
definition GetLabelsMutatingPolicyKey :: "string \<Rightarrow> string \<Rightarrow> string" where
  "GetLabelsMutatingPolicyKey zone ns = ''kyverno-mutate-labels-'' @ zone @ ''-'' @ ns"
definition GetValidatingPolicyKey :: "string \<Rightarrow> string \<Rightarrow> string" where
  "GetValidatingPolicyKey zone ns = ''kyverno-validate-'' @ zone @ ''-'' @ ns"
definition GetAppProjectKey :: "string \<Rightarrow> string" where "GetAppProjectKey zone = ''appproject-'' @ zone"
definition GetClusterRoleBindingKey :: "string \<Rightarrow> string \<Rightarrow> string" where
  "GetClusterRoleBindingKey zone role = ''crb-'' @ zone @ ''-'' @ role"

section \<open>Objects of a namespace\<close>

definition zone_object ::
  "string \<Rightarrow> string \<Rightarrow> string \<Rightarrow> string \<Rightarrow> string gomap \<Rightarrow> string gomap \<Rightarrow> (string \<times> gval) list \<Rightarrow> kobject" where
  "zone_object apiVersion kind name ns labels annotations fs =
     \<lparr>k_type = kind, k_apiVersion = apiVersion, k_kind = kind, k_name = name, k_namespace = ns, k_labels = labels,
      k_annotations = annotations, k_fields = fs\<rparr>"

definition getNamespace :: "zoneGenerator \<Rightarrow> ZoneNamespace \<Rightarrow> kobject" where
  "getNamespace g ns =
     (let labels = [(TenancyZoneLabel, zone_name g), (''pod-security.kubernetes.io/enforce'', te_PodSecurity (zg_env g)),
            (''pod-security.kubernetes.io/warn'', te_PodSecurity (zg_env g))];
          labels = (if zn_Pool ns \<noteq> '''' then gset PoolLabel (zn_Pool ns) labels else labels);
          labels = (if te_GranularEgress (zg_env g) then gset ''istio-injection'' ''enabled'' labels else labels)
      in zone_object ''v1'' ''Namespace'' (zn_Name ns) '''' labels (zg_zoneAnnotations g) [])"

definition getSidecar :: "zone_ext \<Rightarrow> zoneGenerator \<Rightarrow> string \<Rightarrow> gobject res" where
  "getSidecar Z g name =
     (let hosts = [''*/*.svc.cluster.local'', ''istio-system/*'', ''kube-system/kube-dns.kube-system.svc.cluster.local''] @
            map (\<lambda>ns. ns @ ''/*'') (zg_uqNamespaces g);
          modeStr = (if set_Contains (zg_egressExclude g) (zone_name g) then ''ALLOW_ANY'' else ''REGISTRY_ONLY'');
          sidecar = zone_object ''networking.istio.io/v1'' ''Sidecar'' (name @ ''-egress'') name [] (zg_zoneAnnotations g)
            [(''Spec'', VObj [(''Egress'', VList [VObj [(''Hosts'', VList (map VStr hosts))]])])]
      in bindr (zx_to_unstructured Z sidecar) (\<lambda>u.
         bindr (zx_set_string Z u modeStr [''spec'', ''outboundTrafficPolicy'', ''mode'']) (\<lambda>u. Inr (Dynamic u))))"

text \<open>A \<open>NetworkPolicyPeer\<close>: a network, or pods of namespaces selected by their labels.\<close>

datatype peer = IPBlock string | LabelledPods "string gomap" "string gomap option"

definition label_selector :: "string gomap \<Rightarrow> gval" where
  "label_selector labels = VObj [(''MatchLabels'', str_map_val labels)]"

fun peer_val :: "peer \<Rightarrow> gval" where
  "peer_val (IPBlock cidr) = VObj [(''IPBlock'', VObj [(''CIDR'', VStr cidr)])]"
| "peer_val (LabelledPods namespaces pods) =
     VObj ((''NamespaceSelector'', label_selector namespaces) #
       (case pods of None \<Rightarrow> [] | Some ls \<Rightarrow> [(''PodSelector'', label_selector ls)]))"

definition getNetworkPolicy :: "zoneGenerator \<Rightarrow> string \<Rightarrow> bool \<Rightarrow> kobject" where
  "getNetworkPolicy g nsName granularNetwork =
     (let matchLabels = (if granularNetwork then [(''kubernetes.io/metadata.name'', nsName)]
            else [(TenancyZoneLabel, zone_name g)])
      in zone_object ''networking.k8s.io/v1'' ''NetworkPolicy'' (nsName @ ''-zone'') nsName
           [(TenancyZoneLabel, zone_name g)] (zg_zoneAnnotations g)
           [(''Spec'', VObj [(''PodSelector'', VObj []), (''PolicyTypes'', VList [VStr ''Ingress'']),
              (''Ingress'', VList [VObj [(''From'', VList [peer_val (LabelledPods matchLabels None)])]])])])"

section \<open>Roles and bindings\<close>

definition rule_val :: "PolicyRule \<Rightarrow> gval" where
  "rule_val r = (let strs = (\<lambda>xs. VList (map VStr xs)) in
     VObj [(''APIGroups'', strs (pr_APIGroups r)), (''Resources'', strs (pr_Resources r)),
       (''ResourceNames'', strs (pr_ResourceNames r)), (''NonResourceURLs'', strs (pr_NonResourceURLs r)), (''Verbs'', strs (pr_Verbs r))])"

definition getRole :: "zoneGenerator \<Rightarrow> string \<Rightarrow> string \<Rightarrow> PolicyRule list \<Rightarrow> kobject" where
  "getRole g nsName roleName rules =
     zone_object ''rbac.authorization.k8s.io/v1'' ''Role'' roleName nsName [] (zg_zoneAnnotations g)
       [(''Rules'', VList (map rule_val rules))]"

text \<open>The rules of the environment are not nil: \<open>ValidateFor\<close> has refused that.\<close>

definition getAllRole :: "zoneGenerator \<Rightarrow> string \<Rightarrow> kobject" where
  "getAllRole g nsName =
     getRole g nsName (nsName @ ''-all'') (case te_NamespaceRole (zg_env g) of None \<Rightarrow> [] | Some rules \<Rightarrow> rules)"

definition rbac_rule :: "string list \<Rightarrow> string list \<Rightarrow> string list \<Rightarrow> string list \<Rightarrow> PolicyRule" where
  "rbac_rule groups resources resourceNames verbs =
     \<lparr>pr_APIGroups = groups, pr_Resources = resources, pr_ResourceNames = resourceNames, pr_NonResourceURLs = [], pr_Verbs = verbs\<rparr>"

definition getNamespaceRole :: "zoneGenerator \<Rightarrow> string \<Rightarrow> kobject" where
  "getNamespaceRole g nsName =
     getRole g nsName (nsName @ ''-namespace'') [rbac_rule [''''] [''namespaces''] [nsName] [''update'', ''patch'', ''delete'']]"

definition getReadRole :: "zoneGenerator \<Rightarrow> string \<Rightarrow> kobject" where
  "getReadRole g nsName =
     getRole g nsName (nsName @ ''-read'') [rbac_rule [''*''] [''*''] [] [''get'', ''watch'', ''list'']]"

definition group_subjects :: "string list \<Rightarrow> gval" where
  "group_subjects groups = VList (map (\<lambda>group. VObj [(''Kind'', VStr ''Group''), (''APIGroup'', VStr ''rbac.authorization.k8s.io''),
     (''Name'', VStr group)]) groups)"

definition role_ref :: "string \<Rightarrow> string \<Rightarrow> gval" where
  "role_ref kind name = VObj [(''APIGroup'', VStr ''rbac.authorization.k8s.io''), (''Kind'', VStr kind), (''Name'', VStr name)]"

definition getRoleBindingRef :: "zoneGenerator \<Rightarrow> string \<Rightarrow> string \<Rightarrow> string \<Rightarrow> string \<Rightarrow> string list \<Rightarrow> kobject" where
  "getRoleBindingRef g nsName bindingName roleKind roleName groups =
     zone_object ''rbac.authorization.k8s.io/v1'' ''RoleBinding'' bindingName nsName [] (zg_zoneAnnotations g)
       [(''RoleRef'', role_ref roleKind roleName), (''Subjects'', group_subjects groups)]"

definition getRoleBinding :: "zoneGenerator \<Rightarrow> string \<Rightarrow> string \<Rightarrow> string \<Rightarrow> string list \<Rightarrow> kobject" where
  "getRoleBinding g nsName bindingName roleName groups = getRoleBindingRef g nsName bindingName ''Role'' roleName groups"

definition getClusterRoleRoleBinding :: "zoneGenerator \<Rightarrow> string \<Rightarrow> string \<Rightarrow> string \<Rightarrow> string list \<Rightarrow> kobject" where
  "getClusterRoleRoleBinding g nsName bindingName clusterRoleName groups =
     getRoleBindingRef g nsName bindingName ''ClusterRole'' clusterRoleName groups"

definition getClusterRoleBinding :: "zoneGenerator \<Rightarrow> string \<Rightarrow> kobject option" where
  "getClusterRoleBinding g role =
     (let groups = gslice (zg_roleMappings g) role in
      if length groups = 0 then None
      else Some (zone_object ''rbac.authorization.k8s.io/v1'' ''ClusterRoleBinding'' (zone_name g @ ''-'' @ role) '''' []
        (zg_zoneAnnotations g)
        [(''RoleRef'', role_ref ''ClusterRole'' ''zone-tenancy-c-read''), (''Subjects'', group_subjects groups)]))"

section \<open>Admission policies\<close>

text \<open>\<open>strings.ReplaceAll\<close> of one character: tildes first, then slashes.\<close>

definition replace_char :: "char \<Rightarrow> string \<Rightarrow> string \<Rightarrow> string" where
  "replace_char c by_text s = concat (map (\<lambda>d. if d = c then by_text else [d]) s)"

definition escapeJSONPointer :: "string \<Rightarrow> string" where
  "escapeJSONPointer key = replace_char (CHR ''/'') ''~1'' (replace_char (CHR ''~'') ''~0'' key)"

abbreviation dq :: "string \<Rightarrow> string" where "dq s \<equiv> CHR 0x22 # s @ [CHR 0x22]"

definition text_lines :: "string list \<Rightarrow> string" where
  "text_lines = join [CHR 0x0A]"

definition json_patch :: "string \<Rightarrow> string \<Rightarrow> string \<Rightarrow> string list" where
  "json_patch indent path val =
     [indent @ ''JSONPatch{'', indent @ ''  op: '' @ dq ''add'' @ '','', indent @ ''  path: '' @ dq path @ '','',
      indent @ ''  value: '' @ val, indent @ ''}'']"

definition zone_selector_val :: gval where
  "zone_selector_val = VObj [(''MatchExpressions'', VList [VObj [(''Key'', VStr TenancyZoneLabel), (''Operator'', VStr ''Exists'')]])]"

definition created_val :: "string \<Rightarrow> string \<Rightarrow> gval" where
  "created_val apiGroup resources =
     VObj [(''RuleWithOperations'', VObj
       [(''Rule'', VObj [(''APIGroups'', VList [VStr apiGroup]), (''APIVersions'', VList [VStr ''v1'']), (''Resources'', VList [VStr resources])]),
        (''Operations'', VList [VStr ''CREATE''])])]"

definition match_constraints :: "gval list \<Rightarrow> string \<times> gval" where
  "match_constraints rules = (''MatchConstraints'', VObj [(''NamespaceSelector'', zone_selector_val), (''ResourceRules'', VList rules)])"

definition namespace_filter :: "string \<Rightarrow> string \<times> gval" where
  "namespace_filter namespaceName = (''MatchConditions'', VList [VObj [(''Name'', VStr ''namespace-filter''),
     (''Expression'', VStr (''object.metadata.namespace == '' @ dq namespaceName))]])"

definition mutating_policy :: "zoneGenerator \<Rightarrow> string \<Rightarrow> gval list \<Rightarrow> string \<Rightarrow> string \<Rightarrow> kobject" where
  "mutating_policy g name rules namespaceName expression =
     zone_object ''policies.kyverno.io/v1'' ''MutatingPolicy'' name '''' [(''reports.kyverno.io/disabled'', ''true'')] (zg_zoneAnnotations g)
       [(''Spec'', VObj
         [(''EvaluationConfiguration'', VObj [(''Admission'', VObj [(''Enabled'', VBool True)]),
            (''MutateExistingConfiguration'', VObj [(''Enabled'', VBool False)])]),
          match_constraints rules, namespace_filter namespaceName,
          (''Mutations'', VList [VObj [(''PatchType'', VStr ''JSONPatch''), (''JSONPatch'', VObj [(''Expression'', VStr expression)])]])])]"

definition node_selector_expression :: "string \<Rightarrow> string \<Rightarrow> string" where
  "node_selector_expression zone pool =
     (let zonePool = zone @ ''-'' @ pool;
          initial = dq TenancyZoneLabel @ '': '' @ dq zone @
            (if pool \<noteq> '''' then '', '' @ dq zonePoolAnnotation @ '': '' @ dq zonePool else '''');
          poolPatch = (if pool \<noteq> '''' then
              [''] + ('', ''  '' @ dq zonePoolAnnotation @ '' in object.spec.nodeSelector ? [] :'', ''  [''] @
              json_patch ''    '' (''/spec/nodeSelector/'' @ escapeJSONPointer zonePoolAnnotation) (dq zonePool) @ [''  ]'', '')'']
            else ['']''])
      in text_lines ([''!has(object.spec.nodeSelector) ?'', ''[''] @ json_patch ''  '' ''/spec/nodeSelector'' (''{'' @ initial @ ''}'') @
           [''] : [''] @ json_patch ''  '' (''/spec/nodeSelector/'' @ escapeJSONPointer TenancyZoneLabel) (dq zone) @ poolPatch))"

definition getMutatingPolicy :: "zoneGenerator \<Rightarrow> string \<Rightarrow> string \<Rightarrow> kobject" where
  "getMutatingPolicy g namespaceName pool =
     mutating_policy g (zone_name g @ ''-'' @ namespaceName @ ''-add-nodeselector'') [created_val '''' ''pods''] namespaceName
       (node_selector_expression (zone_name g) pool)"

definition labels_expression :: "string \<Rightarrow> string" where
  "labels_expression zone =
     text_lines ([''has(object.metadata.labels) ?'', ''[''] @
       json_patch ''  '' ''/metadata/labels/tenancy.entigo.com~1zone'' (dq zone) @ [''] :'', ''[''] @
       [''  JSONPatch{'', ''    op: '' @ dq ''add'' @ '','', ''    path: '' @ dq ''/metadata/labels'' @ '','', ''    value: {'',
        ''      '' @ dq TenancyZoneLabel @ '': '' @ dq zone, ''    }'', ''  }'', '']''])"

definition getLabelsMutatingPolicy :: "zoneGenerator \<Rightarrow> string \<Rightarrow> kobject" where
  "getLabelsMutatingPolicy g namespaceName =
     mutating_policy g (zone_name g @ ''-'' @ namespaceName @ ''-labels'')
       [created_val '''' ''services'', created_val ''networking.k8s.io'' ''ingresses''] namespaceName (labels_expression (zone_name g))"

definition pool_names :: "Zone \<Rightarrow> string list" where
  "pool_names z = map (\<lambda>pool. zo_name z @ ''-'' @ po_Name pool) (zo_Pools z)"

definition placement_expression :: "Zone \<Rightarrow> string" where
  "placement_expression z =
     text_lines [''has(object.spec.nodeSelector) &&'', dq TenancyZoneLabel @ '' in object.spec.nodeSelector &&'',
       ''object.spec.nodeSelector['' @ dq TenancyZoneLabel @ ''] == '' @ dq (zo_name z) @ '' && ('',
       ''  !('' @ dq zonePoolAnnotation @ '' in object.spec.nodeSelector) ||'',
       ''  object.spec.nodeSelector['' @ dq zonePoolAnnotation @ ''] in ['' @ join '', '' (map (\<lambda>p. dq p) (pool_names z)) @ '']'', '')'']"

definition getValidatingPolicy :: "zoneGenerator \<Rightarrow> string \<Rightarrow> kobject" where
  "getValidatingPolicy g namespaceName =
     zone_object ''policies.kyverno.io/v1'' ''ValidatingPolicy'' (zone_name g @ ''-'' @ namespaceName @ ''-validate-nodeselector'') ''''
       [] (zg_zoneAnnotations g)
       [(''Spec'', VObj
         [(''EvaluationConfiguration'', VObj [(''Admission'', VObj [(''Enabled'', VBool True)]), (''Background'', VObj [(''Enabled'', VBool False)])]),
          (''ValidationAction'', VList [VStr ''Deny'']), match_constraints [created_val '''' ''pods''], namespace_filter namespaceName,
          (''Validations'', VList [VObj [(''Expression'', VStr (placement_expression (zg_zone g))),
            (''Message'', VStr (''Pod nodeSelector must use tenancy.entigo.com/zone with value '' @ zone_name g @
               '', and tenancy.entigo.com/zone-pool, if set, with a valid value ['' @ join '', '' (pool_names (zg_zone g)) @ '']''))]])])]"

definition withoutPodControllerAutogen :: "zone_ext \<Rightarrow> kobject \<Rightarrow> gobject res" where
  "withoutPodControllerAutogen Z policy =
     bindr (zx_to_unstructured Z policy) (\<lambda>u.
     bindr (zx_set_slice Z u [] [''spec'', ''autogen'', ''podControllers'', ''controllers'']) (\<lambda>u. Inr (Dynamic u)))"

end
