(* ===== verification/Zone_Namespaces.thy ===== *)
theory Zone_Namespaces
  imports Zone_Common
begin

text \<open>
  \<open>functions/tenancy/service/zone.go\<close>: all namespaces of a zone, the Argo CD project, and the network policies that
  let the load balancers reach the services of ingresses and routes.
\<close>

section \<open>Namespaces\<close>

text \<open>The loops over the role mappings: the role of each, and the view of Crossplane's resources.\<close>

fun role_bindings_loop ::
  "zoneGenerator \<Rightarrow> string \<Rightarrow> string \<Rightarrow> string \<Rightarrow> string list gomap \<Rightarrow> gobject gomap \<Rightarrow> gobject gomap" where
  "role_bindings_loop g name allRole readRole [] objs = objs"
| "role_bindings_loop g name allRole readRole ((role, groups) # mappings) objs =
     (let roleName = (if role = RoleObserver then readRole else allRole) in
      role_bindings_loop g name allRole readRole mappings
        (gset (GetRBKey (zone_name g) name role) (Typed (getRoleBinding g name (name @ ''-'' @ role) roleName groups)) objs))"

fun view_bindings_loop :: "zoneGenerator \<Rightarrow> string \<Rightarrow> string list gomap \<Rightarrow> gobject gomap \<Rightarrow> gobject gomap" where
  "view_bindings_loop g name [] objs = objs"
| "view_bindings_loop g name ((role, groups) # mappings) objs =
     (if role = RoleObserver then view_bindings_loop g name mappings objs
      else view_bindings_loop g name mappings
        (gset (GetRBKey (zone_name g) name (role @ ''-'' @ crossplaneViewClusterRole))
          (Typed (getClusterRoleRoleBinding g name (name @ ''-'' @ role @ ''-'' @ crossplaneViewClusterRole) crossplaneViewClusterRole groups)) objs))"

text \<open>Roles and bindings of a namespace.\<close>

definition namespace_access :: "zoneGenerator \<Rightarrow> string \<Rightarrow> gobject gomap \<Rightarrow> gobject gomap" where
  "namespace_access g name objs =
     (let zone = zone_name g; allRole = getAllRole g name; readRole = getReadRole g name;
          objs = gset (GetRBACRoleAllKey zone name) (Typed allRole) objs;
          objs = gset (GetRBACRoleReadKey zone name) (Typed readRole) objs;
          objs = role_bindings_loop g name (k_name allRole) (k_name readRole) (zg_roleMappings g) objs;
          objs = (case map_of (zg_roleMappings g) RoleMaintainer of
              None \<Rightarrow> objs
            | Some groups \<Rightarrow>
                (let nsRole = getNamespaceRole g name in
                 gset (GetRBKey zone name (RoleMaintainer @ ''-namespace''))
                   (Typed (getRoleBinding g name (name @ ''-'' @ RoleMaintainer @ ''-namespace'') (k_name nsRole) groups))
                   (gset (GetRBACRoleNamespaceKey zone name) (Typed nsRole) objs)))
      in view_bindings_loop g name (zg_roleMappings g) objs)"

definition generateNamespace ::
  "zone_ext \<Rightarrow> zoneGenerator \<Rightarrow> gobject gomap \<Rightarrow> string \<Rightarrow> string \<Rightarrow> bool \<Rightarrow> gobject gomap res" where
  "generateNamespace Z g objs name pool granularNetwork =
     (let zone = zone_name g in
      bindr (if te_GranularEgress (zg_env g)
             then bindr (getSidecar Z g name) (\<lambda>sidecar. Inr (gset (GetSidecarKey zone name) sidecar objs))
             else Inr objs) (\<lambda>objs.
        let objs = namespace_access g name (gset (GetNetworkPolicyKey zone name) (Typed (getNetworkPolicy g name granularNetwork)) objs) in
        bindr (withoutPodControllerAutogen Z (getMutatingPolicy g name pool)) (\<lambda>mutatingPolicy.
          let objs = gset (GetLabelsMutatingPolicyKey zone name) (Typed (getLabelsMutatingPolicy g name))
                (gset (GetMutatingPolicyKey zone name) mutatingPolicy objs) in
          bindr (withoutPodControllerAutogen Z (getValidatingPolicy g name)) (\<lambda>validatingPolicy.
            Inr (gset (GetValidatingPolicyKey zone name) validatingPolicy objs)))))"

text \<open>The namespace for Argo CD applications only.\<close>

definition apps_rule :: "string list \<Rightarrow> PolicyRule" where
  "apps_rule verbs = rbac_rule [''argoproj.io''] [''applications'', ''applicationsets''] [] verbs"

definition generateAppsNamespace :: "zoneGenerator \<Rightarrow> gobject gomap \<Rightarrow> string \<Rightarrow> gobject gomap" where
  "generateAppsNamespace g objs name =
     (let zone = zone_name g; ob = getNamespace g \<lparr>zn_Name = name, zn_Pool = ''''\<rparr>;
          labels = gset ''tenancy.entigo.com/only-argocd-apps'' ''true'' (AList.delete ''istio-injection'' (k_labels ob));
          allRole = getRole g name (name @ ''-all'') [apps_rule [''*'']];
          readRole = getRole g name (name @ ''-read'') [apps_rule [''get'', ''watch'', ''list'']];
          objs = gset (GetNamespaceKey name) (Typed (ob\<lparr>k_labels := labels\<rparr>)) objs;
          objs = gset (GetRBACRoleAllKey zone name) (Typed allRole) objs;
          objs = gset (GetRBACRoleReadKey zone name) (Typed readRole) objs
      in role_bindings_loop g name (k_name allRole) (k_name readRole) (zg_roleMappings g) objs)"

fun spec_namespaces_loop ::
  "zone_ext \<Rightarrow> zoneGenerator \<Rightarrow> bool \<Rightarrow> ZoneNamespace list \<Rightarrow> string Set \<times> gobject gomap \<Rightarrow> (string Set \<times> gobject gomap) res" where
  "spec_namespaces_loop Z g granular [] acc = Inr acc"
| "spec_namespaces_loop Z g granular (ns # nss) (zoneNs, objs) =
     (if set_Contains zoneNs (zn_Name ns) then spec_namespaces_loop Z g granular nss (zoneNs, objs)
      else bindr (generateNamespace Z g (gset (GetNamespaceKey (zn_Name ns)) (Typed (getNamespace g ns)) objs) (zn_Name ns) (zn_Pool ns) granular)
        (\<lambda>objs. spec_namespaces_loop Z g granular nss (set_Add zoneNs (zn_Name ns), objs)))"

fun labelled_namespaces_loop ::
  "zone_ext \<Rightarrow> zoneGenerator \<Rightarrow> bool \<Rightarrow> string Set \<Rightarrow> namespace_ref list \<Rightarrow> gobject gomap \<Rightarrow> gobject gomap res" where
  "labelled_namespaces_loop Z g granular zoneNs [] objs = Inr objs"
| "labelled_namespaces_loop Z g granular zoneNs (ns # nss) objs =
     (if set_Contains zoneNs (ns_Name ns) \<or> ns_Terminating ns then labelled_namespaces_loop Z g granular zoneNs nss objs
      else bindr (generateNamespace Z g objs (ns_Name ns) (gget (ns_Labels ns) PoolLabel) granular)
        (labelled_namespaces_loop Z g granular zoneNs nss))"

definition granular_policies :: "zoneGenerator \<Rightarrow> bool" where
  "granular_policies g =
     (case zo_GranularNamespaceNetworkPolicy (zg_zone g) of
        None \<Rightarrow> te_GranularNamespaceNetworkPolicy (zg_env g) | Some b \<Rightarrow> b)"

definition generateNamespaces :: "zone_ext \<Rightarrow> zoneGenerator \<Rightarrow> gobject gomap res" where
  "generateNamespaces Z g =
     (let granularNetwork = granular_policies g;
          (zoneNs, objs) = (if te_CreateAppsNamespace (zg_env g)
            then (let name = zone_name g @ ''-apps'' in (set_Add (NewSet []) name, generateAppsNamespace g [] name))
            else (NewSet [], []))
      in bindr (spec_namespaces_loop Z g granularNetwork (zo_Namespaces (zg_zone g)) (zoneNs, objs)) (\<lambda>(zoneNs, objs).
           labelled_namespaces_loop Z g granularNetwork zoneNs (zg_namespaces g) objs))"

section \<open>The Argo CD project\<close>

definition group_kinds :: "(string \<times> string) list \<Rightarrow> gval" where
  "group_kinds items = VList (map (\<lambda>(apiGroup, kind). VObj [(''Group'', VStr apiGroup), (''Kind'', VStr kind)]) items)"

definition project_policy :: "string \<Rightarrow> string \<Rightarrow> string \<times> string \<Rightarrow> string" where
  "project_policy zone role = (\<lambda>(resources, action).
     ''p, proj:'' @ zone @ '':'' @ role @ '', '' @ resources @ '', '' @ action @ '', '' @ zone @ ''/*, allow'')"

definition project_role :: "zoneGenerator \<Rightarrow> string \<Rightarrow> string \<Rightarrow> string \<Rightarrow> (string \<times> string) list \<Rightarrow> gval" where
  "project_role g role description mapping actions =
     VObj [(''Name'', VStr role), (''Description'', VStr description),
       (''Groups'', VList (map VStr (gslice (zg_roleMappings g) mapping))),
       (''Policies'', VList (map (\<lambda>a. VStr (project_policy (zone_name g) role a)) actions))]"

definition full_actions :: "(string \<times> string) list" where
  "full_actions = [(''applications'', ''*''), (''repositories'', ''*''), (''applicationsets'', ''*''), (''logs'', ''*''), (''exec'', ''*'')]"

definition getAppProject :: "zoneGenerator \<Rightarrow> kobject" where
  "getAppProject g =
     (let everything = [(''*'', ''*'')]; permitted = zo_ClusterPermissions (zg_zone g); project = te_AppProject (zg_env g) in
      zone_object ''argoproj.io/v1alpha1'' ''AppProject'' (zone_name g) (te_ArgoCDNamespace (zg_env g)) [] (zg_zoneAnnotations g)
        [(''Spec'', VObj
          [(''Description'', VStr ''Security zone for isolated team deployment''),
           (''Destinations'', VList (map (\<lambda>ns. VObj [(''Namespace'', VStr ns), (''Server'', VStr ''https://kubernetes.default.svc'')])
              (zg_uqNamespaces g))),
           (''SourceRepos'', VList (map VStr (ap_SourceRepos project))),
           (''SourceNamespaces'', VList (map VStr (zg_uqNamespaces g))),
           (''ClusterResourceWhitelist'', group_kinds (if permitted then everything else [])),
           (''ClusterResourceBlacklist'', group_kinds (if permitted then [] else everything)),
           (''NamespaceResourceBlacklist'', group_kinds (ap_NamespaceResourceBlacklist project)),
           (''NamespaceResourceWhitelist'', group_kinds (ap_NamespaceResourceWhitelist project)),
           (''Roles'', VList
             [project_role g RoleMaintainer ''Maintainer permissions'' RoleMaintainer full_actions,
              project_role g RoleObserver ''Observer permissions'' RoleObserver [(''applications'', ''get''), (''applicationsets'', ''get'')],
              project_role g RoleContributor ''Contributor permissions'' RoleContributor full_actions,
              project_role g RoleCICD ''Use this role for your CI/CD pipelines'' RoleMaintainer
                [(''applications'', ''sync''), (''applicationsets'', ''sync''), (''applications'', ''get''), (''applicationsets'', ''get'')]])])])"

definition generateCommon :: "zone_ext \<Rightarrow> zoneGenerator \<Rightarrow> gobject gomap res" where
  "generateCommon Z g =
     bindr (generateNamespaces Z g) (\<lambda>namespaces.
       let objs = gcopy [] namespaces;
           objs = (case getClusterRoleBinding g RoleContributor of
               None \<Rightarrow> objs
             | Some crb \<Rightarrow> gset (GetClusterRoleBindingKey (zone_name g) RoleContributor) (Typed crb) objs)
       in Inr (gset (GetAppProjectKey (zone_name g)) (Typed (getAppProject g)) objs))"

section \<open>Sizes\<close>

definition getIntOrFloat :: "zone_ext \<Rightarrow> IntOrString \<Rightarrow> gofloat res" where
  "getIntOrFloat Z v = (case v of IntVal n \<Rightarrow> Inr (Fin (of_int n)) | StrVal s \<Rightarrow> ParseFloat (zx_quote Z) s)"

text \<open>\<open>float64\<close> fields of generated objects; the values that are no rational numbers stand as their texts.\<close>

fun float_val :: "gofloat \<Rightarrow> gval" where
  "float_val (Fin x) = VFloat x"
| "float_val f = VStr (FormatFloat f)"

section \<open>Policies for load balancers\<close>

definition GetTargetNetworkPolicyKey :: "string \<Rightarrow> string \<Rightarrow> string \<Rightarrow> IntOrString \<Rightarrow> string" where
  "GetTargetNetworkPolicyKey ns ingress service port =
     ''netpol-'' @ ns @ ''-'' @ ingress @ ''-'' @ service @ ''-'' @ intstr_String port"

definition intstr_val :: "IntOrString \<Rightarrow> gval" where
  "intstr_val v = (case v of IntVal n \<Rightarrow> VInt n | StrVal s \<Rightarrow> VStr s)"

fun port_loop :: "string \<Rightarrow> int \<Rightarrow> service_ref_port list \<Rightarrow> IntOrString option" where
  "port_loop portName portNumber [] = None"
| "port_loop portName portNumber (port # ports) =
     (if portName \<noteq> '''' \<and> sv_PortName port = portName \<or> portNumber \<noteq> 0 \<and> sv_Port port = portNumber
      then Some (sv_TargetPort port) else port_loop portName portNumber ports)"

text \<open>The first service of the name, and its target port.\<close>

fun service_loop :: "string \<Rightarrow> string \<Rightarrow> int \<Rightarrow> service_ref list \<Rightarrow> (service_ref \<times> IntOrString) option" where
  "service_loop serviceName portName portNumber [] = None"
| "service_loop serviceName portName portNumber (svc # services) =
     (if sv_Name svc \<noteq> serviceName then service_loop serviceName portName portNumber services
      else map_option (Pair svc) (port_loop portName portNumber (sv_Ports svc)))"

definition target_policy :: "string \<Rightarrow> string \<Rightarrow> string \<Rightarrow> service_ref \<Rightarrow> IntOrString \<Rightarrow> peer list \<Rightarrow> kobject" where
  "target_policy ns ingressName serviceName service targetPort blocks =
     zone_object ''networking.k8s.io/v1'' ''NetworkPolicy'' (ingressName @ ''-'' @ serviceName @ ''-'' @ intstr_String targetPort) ns [] []
       [(''Spec'', VObj
         [(''PodSelector'', label_selector (gcopy [] (sv_Selector service))), (''PolicyTypes'', VList [VStr ''Ingress'']),
          (''Ingress'', VList [VObj [(''From'', VList (map peer_val blocks)),
             (''Ports'', VList [VObj [(''Protocol'', VStr ''TCP''), (''Port'', intstr_val targetPort)]])]])])]"

definition addTargetNetworkPolicy ::
  "gobject gomap \<Rightarrow> string \<Rightarrow> string \<Rightarrow> string \<Rightarrow> string \<Rightarrow> int \<Rightarrow> service_ref list \<Rightarrow> peer list \<Rightarrow> gobject gomap" where
  "addTargetNetworkPolicy objs ns ingressName serviceName portName portNumber services blocks =
     (if serviceName = '''' then objs
      else case service_loop serviceName portName portNumber services of
          None \<Rightarrow> objs
        | Some (service, targetPort) \<Rightarrow>
            gset (GetTargetNetworkPolicyKey ns ingressName serviceName targetPort)
              (Typed (target_policy ns ingressName serviceName service targetPort blocks)) objs)"

section \<open>HTTP routes\<close>

definition getOptionalString :: "object \<Rightarrow> string \<Rightarrow> string \<Rightarrow> string" where
  "getOptionalString ob key defaultValue = (case map_of ob key of Some (JStr v) \<Rightarrow> v | _ \<Rightarrow> defaultValue)"

definition getNamespacedName :: "string \<Rightarrow> string \<Rightarrow> string" where
  "getNamespacedName ns name = ns @ ''/'' @ name"

definition getNumber :: "zone_ext \<Rightarrow> json option \<Rightarrow> int option" where
  "getNumber Z v =
     (case v of
        Some (JInt n) \<Rightarrow> Some (int32 n)
      | Some (JFloat x) \<Rightarrow>
          (let n = (if 0 \<le> x then \<lfloor>x\<rfloor> else \<lceil>x\<rceil>) in Some (if - (2 ^ 31) \<le> n \<and> n < 2 ^ 31 then n else zx_int32 Z x))
      | _ \<Rightarrow> None)"

fun add_blocks :: "peer list \<Rightarrow> peer list \<Rightarrow> peer list" where
  "add_blocks [] blocks = blocks"
| "add_blocks (b # bs) blocks = add_blocks bs (if b \<in> set blocks then blocks else blocks @ [b])"

fun parents_loop :: "peer list gomap \<Rightarrow> string \<Rightarrow> json list \<Rightarrow> peer list \<Rightarrow> peer list" where
  "parents_loop gatewayBlocks ns [] blocks = blocks"
| "parents_loop gatewayBlocks ns (JObj parent # parents) blocks =
     (let name = getOptionalString parent ''name'' '''' in
      if name = '''' \<or> getOptionalString parent ''kind'' ''Gateway'' \<noteq> ''Gateway'' \<or>
         getOptionalString parent ''group'' ''gateway.networking.k8s.io'' \<noteq> ''gateway.networking.k8s.io''
      then parents_loop gatewayBlocks ns parents blocks
      else parents_loop gatewayBlocks ns parents
        (add_blocks (gslice gatewayBlocks (getNamespacedName (getOptionalString parent ''namespace'' ns) name)) blocks))"
| "parents_loop gatewayBlocks ns (v # parents) blocks = parents_loop gatewayBlocks ns parents blocks"

definition getRouteBlocks :: "ext \<Rightarrow> object \<Rightarrow> peer list gomap \<Rightarrow> string \<Rightarrow> peer list" where
  "getRouteBlocks X route gatewayBlocks ns =
     (case found (nested_slice X route [''spec'', ''parentRefs'']) of
        None \<Rightarrow> []
      | Some parents \<Rightarrow> parents_loop gatewayBlocks ns parents [])"

fun backend_refs_loop :: "zone_ext \<Rightarrow> string \<Rightarrow> json list \<Rightarrow> (string \<times> int) list" where
  "backend_refs_loop Z ns [] = []"
| "backend_refs_loop Z ns (JObj ref # refs) =
     (let name = getOptionalString ref ''name'' '''' in
      if name = '''' \<or> getOptionalString ref ''kind'' ''Service'' \<noteq> ''Service'' \<or> getOptionalString ref ''group'' '''' \<noteq> ''''
      then backend_refs_loop Z ns refs
      else if getOptionalString ref ''namespace'' ns \<noteq> ns then backend_refs_loop Z ns refs
      else case getNumber Z (map_of ref ''port'') of
          None \<Rightarrow> backend_refs_loop Z ns refs
        | Some port \<Rightarrow> (name, port) # backend_refs_loop Z ns refs)"
| "backend_refs_loop Z ns (v # refs) = backend_refs_loop Z ns refs"

fun route_rules_loop :: "zone_ext \<Rightarrow> string \<Rightarrow> json list \<Rightarrow> (string \<times> int) list" where
  "route_rules_loop Z ns [] = []"
| "route_rules_loop Z ns (JObj rule # rules) =
     (case map_of rule ''backendRefs'' of
        Some (JArr refs) \<Rightarrow> backend_refs_loop Z ns refs @ route_rules_loop Z ns rules
      | _ \<Rightarrow> route_rules_loop Z ns rules)"
| "route_rules_loop Z ns (v # rules) = route_rules_loop Z ns rules"

definition getHTTPRouteBackends :: "ext \<Rightarrow> zone_ext \<Rightarrow> object \<Rightarrow> string \<Rightarrow> (string \<times> int) list" where
  "getHTTPRouteBackends X Z route ns =
     (case found (nested_slice X route [''spec'', ''rules'']) of None \<Rightarrow> [] | Some rules \<Rightarrow> route_rules_loop Z ns rules)"

text \<open>The policies of the routes of one namespace; both clouds run this loop.\<close>

fun routes_loop ::
  "ext \<Rightarrow> zone_ext \<Rightarrow> peer list gomap \<Rightarrow> string \<Rightarrow> service_ref list \<Rightarrow> object option list \<Rightarrow> gobject gomap \<Rightarrow> gobject gomap res" where
  "routes_loop X Z gatewayBlocks ns services [] objs = Inr objs"
| "routes_loop X Z gatewayBlocks ns services (r # routes) objs =
     bindr (deref r) (\<lambda>route.
       let blocks = getRouteBlocks X route gatewayBlocks ns in
       if length blocks = 0 then routes_loop X Z gatewayBlocks ns services routes objs
       else routes_loop X Z gatewayBlocks ns services routes
         (fold (\<lambda>(name, port) objs. addTargetNetworkPolicy objs ns (get_name X route) name '''' port services blocks)
           (getHTTPRouteBackends X Z route ns) objs))"

end
