(* ===== verification/Zone_Aws.thy ===== *)
theory Zone_Aws
  imports Zone_Namespaces
begin

text \<open>
  \<open>functions/tenancy/service/zone_aws.go\<close>: launch templates, node groups with their IAM role, and the network
  policies for AWS load balancers; \<open>zone_secretstore.go\<close> is in \<open>Zone_Store\<close>.
\<close>

section \<open>The generator\<close>

record awsZoneGenerator =
  ag_zone :: zoneGenerator
  ag_vpc :: vpc
  ag_kmsDataAlias :: "string option"
  ag_securityGroup :: "string option"
  ag_cluster :: cluster_ref
  ag_subnets :: "subnet_ref list"
  ag_computeSubnets :: "subnet_ref list"

abbreviation ag_name :: "awsZoneGenerator \<Rightarrow> string" where "ag_name g \<equiv> zone_name (ag_zone g)"
abbreviation ag_env :: "awsZoneGenerator \<Rightarrow> tenancy_Environment" where "ag_env g \<equiv> zg_env (ag_zone g)"

definition filterSubnetsByType :: "subnet_ref list \<Rightarrow> string \<Rightarrow> subnet_ref list" where
  "filterSubnetsByType subnets subnetType = filter (\<lambda>subnet. gget (sn_Labels subnet) ''subnet-type'' = subnetType) subnets"

definition newAWSZoneGenerator :: "zone_ext \<Rightarrow> zoneGenerator \<Rightarrow> awsZoneGenerator res" where
  "newAWSZoneGenerator Z g =
     (let required = zg_required g in
      bindr (ExtractRequiredResource required ''VPC'' (zx_vpc Z)) (\<lambda>vpc.
      bindr (ExtractOptionalResource required ''KMSDataAlias'' (zx_kms_alias Z)) (\<lambda>alias.
      bindr (ExtractRequiredResource required ''NodeSecurityGroup'' (zx_security_group Z)) (\<lambda>securityGroup.
      bindr (ExtractRequiredResource required ''Cluster'' (zx_cluster Z)) (\<lambda>cluster.
      bindr (ExtractResources (Some required) ''Subnets'' (zx_subnet Z)) (\<lambda>subnets.
        Inr \<lparr>ag_zone = g, ag_vpc = vpc, ag_kmsDataAlias = (case alias of None \<Rightarrow> None | Some arn \<Rightarrow> arn),
             ag_securityGroup = securityGroup, ag_cluster = cluster, ag_subnets = subnets,
             ag_computeSubnets = filterSubnetsByType subnets (te_ComputeSubnetType (zg_env g))\<rparr>))))))"

section \<open>Names\<close>

definition GetLaunchTemplateKey :: "string \<Rightarrow> string \<Rightarrow> string" where
  "GetLaunchTemplateKey zone poolName = ''launchtemplate-'' @ zone @ ''-'' @ poolName"
definition GetRoleKey :: "string \<Rightarrow> string" where "GetRoleKey zone = ''role-'' @ zone"
definition GetRoleWNAttachmentKey :: "string \<Rightarrow> string" where "GetRoleWNAttachmentKey zone = ''rpa-wn-'' @ zone"
definition GetRoleECRROAttachmentKey :: "string \<Rightarrow> string" where "GetRoleECRROAttachmentKey zone = ''rpa-ecr-ro-'' @ zone"
definition GetRoleSSMAttachmentKey :: "string \<Rightarrow> string" where "GetRoleSSMAttachmentKey zone = ''rpa-ssm-'' @ zone"
definition GetRoleECRProxyAttachmentKey :: "string \<Rightarrow> string" where "GetRoleECRProxyAttachmentKey zone = ''rpa-ecr-proxy-'' @ zone"
definition GetAccessentryKey :: "string \<Rightarrow> string" where "GetAccessentryKey zone = ''ae-'' @ zone"
definition GetNodeGroupKey :: "string \<Rightarrow> string \<Rightarrow> string" where
  "GetNodeGroupKey poolName hash = ''nodepool-'' @ poolName @ ''-'' @ hash"

definition GetInstanceTypesHash :: "string list \<Rightarrow> string \<Rightarrow> string" where
  "GetInstanceTypesHash instanceTypes capacityType = sha_suffix (join ''-'' instanceTypes @ ''-'' @ capacityType)"

section \<open>Launch templates\<close>

definition reference :: "string \<Rightarrow> gval" where "reference name = VObj [(''Name'', VStr name)]"

text \<open>A cluster scoped managed object, with the fields of its \<open>ResourceSpec\<close> that are set beside the provider.\<close>

definition cluster_object ::
  "awsZoneGenerator \<Rightarrow> string \<Rightarrow> string \<Rightarrow> string \<Rightarrow> string gomap \<Rightarrow> string gomap \<Rightarrow> (string \<times> gval) list \<Rightarrow>
   (string \<times> gval) list \<Rightarrow> (string \<times> gval) list \<Rightarrow> kobject" where
  "cluster_object g apiVersion kind name labels annotations managed forProvider init =
     zone_object apiVersion kind name '''' labels annotations
       [(''Spec'', VObj ([(''ResourceSpec'', VObj ((''ProviderConfigReference'', reference (te_AWSProvider (ag_env g))) # managed)),
          (''ForProvider'', VObj forProvider)] @ init))]"

definition manage_all :: "(string \<times> gval) list" where
  "manage_all = [(''ManagementPolicies'', VList [VStr ''*''])]"

text \<open>The loop over the tags of the zone, into the tags of the instance and of its volume alike.\<close>

fun put_tags :: "string gomap \<Rightarrow> string option gomap \<Rightarrow> string option gomap" where
  "put_tags [] tags = tags"
| "put_tags ((key, v) # m) tags = put_tags m (gset key (Some v) tags)"

definition launch_security_groups :: "awsZoneGenerator \<Rightarrow> Pool \<Rightarrow> string list" where
  "launch_security_groups g pool =
     (case ag_securityGroup g of None \<Rightarrow> [] | Some i \<Rightarrow> [i]) @
     concat (map (\<lambda>r. if rq_Key r = ''security-groups'' then rq_Values r else []) (po_Requirements pool))"

definition launch_tags :: "awsZoneGenerator \<Rightarrow> string \<Rightarrow> string option gomap" where
  "launch_tags g zonePool =
     gset zonePoolAnnotation (Some zonePool) (gset TenancyZoneLabel (Some (ag_name g)) (gcopy [] (te_Tags (ag_env g))))"

definition resource_tags :: "awsZoneGenerator \<Rightarrow> string \<Rightarrow> string \<Rightarrow> string option gomap" where
  "resource_tags g zonePool name =
     put_tags (zone_own_tags (zg_zone (ag_zone g)))
       (gset TenancyZoneAWSTag (Some (ag_name g)) (gset ''Name'' (Some name) (gcopy [] (launch_tags g zonePool))))"

definition launch_template :: "awsZoneGenerator \<Rightarrow> Pool \<Rightarrow> kobject" where
  "launch_template g pool =
     (let zonePool = ag_name g @ ''-'' @ po_Name pool in
      cluster_object g ''ec2.aws.upbound.io/v1beta1'' ''LaunchTemplate'' zonePool [(TenancyZoneLabel, ag_name g)]
        (getPoolAnnotations (ag_zone g) zonePool) (manage_all @ [(''DeletionPolicy'', VStr ''Delete'')])
        [(''Name'', VStr zonePool), (''UserData'', VStr ''''), (''Description'', VStr zonePool),
         (''Region'', str_ptr (vpc_spec_region (ag_vpc g))), (''DisableAPITermination'', VBool False), (''DisableAPIStop'', VBool False),
         (''UpdateDefaultVersion'', VBool True),
         (''MetadataOptions'', VList [VObj [(''HTTPEndpoint'', VStr ''enabled''), (''HTTPProtocolIPv6'', VStr ''''),
            (''HTTPPutResponseHopLimit'', VFloat 1), (''HTTPTokens'', VStr ''required''), (''InstanceMetadataTags'', VStr '''')]]),
         (''VPCSecurityGroupIds'', VList (map VStr (launch_security_groups g pool))),
         (''Tags'', ptr_map_val (launch_tags g zonePool)),
         (''TagSpecifications'', VList
           [VObj [(''ResourceType'', VStr ''instance''), (''Tags'', ptr_map_val (resource_tags g zonePool zonePool))],
            VObj [(''ResourceType'', VStr ''volume''), (''Tags'', ptr_map_val (resource_tags g zonePool (zonePool @ ''-root'')))]])]
        [(''InitProvider'', VObj [(''BlockDeviceMappings'', VList [VObj
           [(''DeviceName'', VStr ''/dev/xvda''),
            (''EBS'', VList [VObj [(''DeleteOnTermination'', VStr ''true''), (''VolumeSize'', VFloat 50), (''Throughput'', VFloat 0),
               (''VolumeInitializationRate'', VFloat 0), (''SnapshotID'', VStr ''''), (''Iops'', VFloat 0), (''VolumeType'', VStr ''gp3''),
               (''Encrypted'', VStr ''true''), (''KMSKeyID'', str_ptr (ag_kmsDataAlias g))]]),
            (''NoDevice'', VStr ''''), (''VirtualName'', VStr '''')]])])])"

fun launch_templates_loop :: "awsZoneGenerator \<Rightarrow> Pool list \<Rightarrow> gobject gomap \<Rightarrow> gobject gomap" where
  "launch_templates_loop g [] objs = objs"
| "launch_templates_loop g (pool # pools) objs =
     launch_templates_loop g pools (gset (GetLaunchTemplateKey (ag_name g) (po_Name pool)) (Typed (launch_template g pool)) objs)"

definition generateLaunchTemplates :: "awsZoneGenerator \<Rightarrow> gobject gomap" where
  "generateLaunchTemplates g = launch_templates_loop g (zo_Pools (zg_zone (ag_zone g))) []"

section \<open>Node groups\<close>

definition getIAMRole :: "awsZoneGenerator \<Rightarrow> string \<Rightarrow> string \<Rightarrow> kobject" where
  "getIAMRole g name assumeRolePolicy =
     cluster_object g ''iam.aws.upbound.io/v1beta1'' ''Role'' name [] (zg_zoneAnnotations (ag_zone g)) manage_all
       [(''AssumeRolePolicy'', VStr assumeRolePolicy), (''Tags'', ptr_map_val (zg_zoneTags (ag_zone g)))] []"

definition role_attachment :: "awsZoneGenerator \<Rightarrow> string \<Rightarrow> string \<times> gval \<Rightarrow> kobject" where
  "role_attachment g name policy =
     cluster_object g ''iam.aws.upbound.io/v1beta1'' ''RolePolicyAttachment'' name [] (zg_zoneAnnotations (ag_zone g)) []
       [policy, (''RoleRef'', reference (ag_name g))] []"

definition getIAMRolePolicyAttachment :: "awsZoneGenerator \<Rightarrow> string \<Rightarrow> string \<Rightarrow> kobject" where
  "getIAMRolePolicyAttachment g name policyArn = role_attachment g name (''PolicyArn'', VStr policyArn)"

definition getIAMRolePolicyAttachmentWithArnRef :: "awsZoneGenerator \<Rightarrow> string \<Rightarrow> string \<Rightarrow> kobject" where
  "getIAMRolePolicyAttachmentWithArnRef g name policyArnRef = role_attachment g name (''PolicyArnRef'', reference policyArnRef)"

definition getAccessEntry :: "awsZoneGenerator \<Rightarrow> string \<Rightarrow> kobject" where
  "getAccessEntry g name =
     cluster_object g ''eks.aws.upbound.io/v1beta1'' ''AccessEntry'' name [] [] []
       [(''ClusterNameRef'', reference (ek_Name (ag_cluster g))), (''PrincipalArnFromRoleRef'', reference name),
        (''Type'', VStr ''EC2_LINUX''), (''Region'', str_ptr (vpc_status_region (ag_vpc g)))] []"

text \<open>What the requirements of a pool ask for, with the defaults before the loop.\<close>

record pool_request =
  pq_instanceTypes :: "string list"
  pq_zoneFilter :: "string Set"
  pq_capacityType :: string
  pq_minSize :: gofloat
  pq_maxSize :: gofloat
  pq_amiType :: "string option"

definition default_request :: pool_request where
  "default_request = \<lparr>pq_instanceTypes = [], pq_zoneFilter = [], pq_capacityType = ''ON_DEMAND'', pq_minSize = Fin 1,
     pq_maxSize = Fin (-1), pq_amiType = None\<rparr>"

fun requirements_loop :: "zone_ext \<Rightarrow> Requirement list \<Rightarrow> pool_request \<Rightarrow> pool_request res" where
  "requirements_loop Z [] q = Inr q"
| "requirements_loop Z (r # rs) q =
     (if rq_Key r = ''instance-type'' then requirements_loop Z rs (q\<lparr>pq_instanceTypes := rq_Values r\<rparr>)
      else if rq_Key r = ''zone'' then requirements_loop Z rs (q\<lparr>pq_zoneFilter := ToSet (rq_Values r)\<rparr>)
      else if rq_Key r = ''capacity-type'' then requirements_loop Z rs (q\<lparr>pq_capacityType := intstr_String (rq_Value r)\<rparr>)
      else if rq_Key r = ''min-size'' then bindr (getIntOrFloat Z (rq_Value r)) (\<lambda>v. requirements_loop Z rs (q\<lparr>pq_minSize := v\<rparr>))
      else if rq_Key r = ''max-size'' then bindr (getIntOrFloat Z (rq_Value r)) (\<lambda>v. requirements_loop Z rs (q\<lparr>pq_maxSize := v\<rparr>))
      else if rq_Key r = ''ami-type'' then requirements_loop Z rs (q\<lparr>pq_amiType := Some (intstr_String (rq_Value r))\<rparr>)
      else requirements_loop Z rs q)"

fun subnet_ids_loop :: "string Set \<Rightarrow> subnet_ref list \<Rightarrow> string list" where
  "subnet_ids_loop zoneFilter [] = []"
| "subnet_ids_loop zoneFilter (subnet # subnets) =
     (case sn_ID subnet of
        None \<Rightarrow> subnet_ids_loop zoneFilter subnets
      | Some i \<Rightarrow>
          if set_Size zoneFilter > 0 then
            (case sn_AvailabilityZone subnet of
               Some az \<Rightarrow> if set_Contains zoneFilter az then i # subnet_ids_loop zoneFilter subnets else subnet_ids_loop zoneFilter subnets
             | None \<Rightarrow> subnet_ids_loop zoneFilter subnets)
          else i # subnet_ids_loop zoneFilter subnets)"

definition node_group :: "awsZoneGenerator \<Rightarrow> Pool \<Rightarrow> rat \<Rightarrow> pool_request \<Rightarrow> gofloat \<Rightarrow> string \<Rightarrow> kobject" where
  "node_group g pool version q maxSize hash =
     (let zonePool = ag_name g @ ''-'' @ po_Name pool;
          tags = gcopy [(TenancyZoneLabel, Some (ag_name g)), (zonePoolAnnotation, Some zonePool)] (te_Tags (ag_env g))
      in cluster_object g ''eks.aws.upbound.io/v1beta1'' ''NodeGroup'' (zonePool @ ''-'' @ hash) [] (getPoolAnnotations (ag_zone g) zonePool)
           manage_all
           [(''LaunchTemplate'', VList [VObj [(''Name'', VStr zonePool), (''Version'', VStr (FormatFloat (Fin version)))]]),
            (''ClusterNameRef'', reference (ek_Name (ag_cluster g))), (''Version'', str_ptr (ek_Version (ag_cluster g))),
            (''Region'', str_ptr (vpc_status_region (ag_vpc g))),
            (''UpdateConfig'', VList [VObj [(''MaxUnavailable'', VFloat 1)]]), (''AMIType'', str_ptr (pq_amiType q)),
            (''InstanceTypes'', VList (map VStr (pq_instanceTypes q))),
            (''SubnetIds'', VList (map VStr (subnet_ids_loop (pq_zoneFilter q) (ag_computeSubnets g)))),
            (''Labels'', str_map_val (getPoolLabels (ag_zone g) zonePool)), (''NodeRoleArnRef'', reference (ag_name g)),
            (''Tags'', ptr_map_val tags), (''CapacityType'', VStr (pq_capacityType q)),
            (''ScalingConfig'', VList [VObj [(''MaxSize'', float_val maxSize), (''MinSize'', float_val (pq_minSize q))]])]
           [(''InitProvider'', VObj [(''ScalingConfig'', VList [VObj [(''DesiredSize'', float_val (pq_minSize q))]])])])"

text \<open>A desired size that is null is taken out of the converted object.\<close>

definition drop_null_size :: "json \<Rightarrow> json" where
  "drop_null_size cfg =
     (case cfg of
        JObj c \<Rightarrow> if map_of c ''desiredSize'' = Some JNull then JObj (AList.delete ''desiredSize'' c) else cfg
      | _ \<Rightarrow> cfg)"

definition scaling_path :: "string list" where "scaling_path = [''spec'', ''forProvider'', ''scalingConfig'']"

definition getNodeGroup :: "ext \<Rightarrow> zone_ext \<Rightarrow> awsZoneGenerator \<Rightarrow> Pool \<Rightarrow> rat \<Rightarrow> (string \<times> gobject) option res" where
  "getNodeGroup X Z g pool version =
     bindr (requirements_loop Z (po_Requirements pool) default_request) (\<lambda>q.
       let maxSize = (if float_eq (pq_maxSize q) (-1) then pq_minSize q else pq_maxSize q) in
       if float_less maxSize 1 then Inr None
       else
         let hash = GetInstanceTypesHash (pq_instanceTypes q) (pq_capacityType q) in
         bindr (zx_to_unstructured Z (node_group g pool version q maxSize hash)) (\<lambda>u.
         bindr (case found (nested_slice X u scaling_path) of
             None \<Rightarrow> Inr u
           | Some configs \<Rightarrow> zx_set_slice Z u (map drop_null_size configs) scaling_path) (\<lambda>u.
           Inr (Some (GetNodeGroupKey (po_Name pool) hash, Dynamic u)))))"

text \<open>The launch template of a pool as it is observed: its latest version, once there is one.\<close>

definition observed_version :: "zone_ext \<Rightarrow> awsZoneGenerator \<Rightarrow> Pool \<Rightarrow> rat option res" where
  "observed_version Z g pool =
     (case map_of (zg_observed (ag_zone g)) (GetLaunchTemplateKey (ag_name g) (po_Name pool)) of
        None \<Rightarrow> Inr None
      | Some oc \<Rightarrow> (case oc_resource oc of None \<Rightarrow> Inr None | Some ob \<Rightarrow> zx_launch_template Z ob))"

fun node_groups_loop :: "ext \<Rightarrow> zone_ext \<Rightarrow> awsZoneGenerator \<Rightarrow> Pool list \<Rightarrow> gobject gomap \<Rightarrow> gobject gomap res" where
  "node_groups_loop X Z g [] objs = Inr objs"
| "node_groups_loop X Z g (pool # pools) objs =
     bindr (observed_version Z g pool) (\<lambda>version. case version of
         None \<Rightarrow> node_groups_loop X Z g pools objs
       | Some v \<Rightarrow> bindr (getNodeGroup X Z g pool v) (\<lambda>group. case group of
             None \<Rightarrow> node_groups_loop X Z g pools objs
           | Some (key, ng) \<Rightarrow> node_groups_loop X Z g pools (gset key ng objs)))"

definition nodeAssumeRolePolicy :: string where
  "nodeAssumeRolePolicy = text_lines
     [''{'', ''  '' @ dq ''Version'' @ '': '' @ dq ''2012-10-17'' @ '','', ''  '' @ dq ''Statement'' @ '': ['', ''    {'',
      ''      '' @ dq ''Effect'' @ '': '' @ dq ''Allow'' @ '','', ''      '' @ dq ''Principal'' @ '': {'',
      ''        '' @ dq ''Service'' @ '': '' @ dq ''ec2.amazonaws.com'', ''      },'',
      ''      '' @ dq ''Action'' @ '': '' @ dq ''sts:AssumeRole'', ''    }'', ''  ]'', ''}'']"

definition aws_generateNodePools :: "ext \<Rightarrow> zone_ext \<Rightarrow> awsZoneGenerator \<Rightarrow> gobject gomap res" where
  "aws_generateNodePools X Z g =
     (let zone = ag_name g;
          objs = [(GetRoleKey zone, Typed (getIAMRole g zone nodeAssumeRolePolicy))];
          objs = gset (GetRoleWNAttachmentKey zone)
            (Typed (getIAMRolePolicyAttachment g (zone @ ''-wn'') ''arn:aws:iam::aws:policy/AmazonEKSWorkerNodePolicy'')) objs;
          objs = gset (GetRoleECRROAttachmentKey zone)
            (Typed (getIAMRolePolicyAttachment g (zone @ ''-ecr-ro'') ''arn:aws:iam::aws:policy/AmazonEC2ContainerRegistryReadOnly'')) objs;
          objs = gset (GetRoleSSMAttachmentKey zone)
            (Typed (getIAMRolePolicyAttachment g (zone @ ''-ssm'') ''arn:aws:iam::aws:policy/AmazonSSMManagedInstanceCore'')) objs;
          objs = gset (GetRoleECRProxyAttachmentKey zone)
            (Typed (getIAMRolePolicyAttachmentWithArnRef g (zone @ ''-ecr-proxy'') ''ecr-proxy'')) objs;
          objs = gset (GetAccessentryKey zone) (Typed (getAccessEntry g zone)) objs
      in node_groups_loop X Z g (zo_Pools (zg_zone (ag_zone g))) objs)"

section \<open>Networks of load balancers\<close>

definition subnetsByExternalName :: "awsZoneGenerator \<Rightarrow> subnet_ref gomap" where
  "subnetsByExternalName g =
     fold (\<lambda>subnet subnets. let externalName = gget (sn_Annotations subnet) ''crossplane.io/external-name'' in
       if externalName \<noteq> '''' then gset externalName subnet subnets else subnets) (ag_subnets g) []"

definition resolveSubnets :: "subnet_ref gomap \<Rightarrow> string list \<Rightarrow> subnet_ref list" where
  "resolveSubnets subnets subnetIds = List.map_filter (map_of subnets) subnetIds"

definition getSubnetsBlocks :: "subnet_ref list \<Rightarrow> peer list" where
  "getSubnetsBlocks subnets = List.map_filter (\<lambda>subnet. map_option IPBlock (sn_CidrBlock subnet)) subnets"

fun params_ids_loop :: "ext \<Rightarrow> zone_ext \<Rightarrow> object option list \<Rightarrow> string list gomap \<Rightarrow> string list gomap res" where
  "params_ids_loop X Z [] subnetIds = Inr subnetIds"
| "params_ids_loop X Z (r # rs) subnetIds =
     bindr (deref r) (\<lambda>params. case found (zx_string_slice Z params [''spec'', ''subnets'', ''ids'']) of
         None \<Rightarrow> params_ids_loop X Z rs subnetIds
       | Some ids \<Rightarrow> params_ids_loop X Z rs (gset (get_name X params) ids subnetIds))"

definition getIngressClassParamsSubnetIds :: "ext \<Rightarrow> zone_ext \<Rightarrow> awsZoneGenerator \<Rightarrow> string list gomap res" where
  "getIngressClassParamsSubnetIds X Z g = params_ids_loop X Z (gslice (zg_required (ag_zone g)) ''IngressClassParams'') []"

fun class_blocks_loop :: "string list gomap \<Rightarrow> subnet_ref gomap \<Rightarrow> ingress_class list \<Rightarrow> peer list gomap \<Rightarrow> peer list gomap" where
  "class_blocks_loop ids subnets [] classBlocks = classBlocks"
| "class_blocks_loop ids subnets (c # cs) classBlocks =
     (case cl_Parameters c of
        None \<Rightarrow> class_blocks_loop ids subnets cs classBlocks
      | Some params \<Rightarrow>
          if cp_Kind params \<noteq> ''IngressClassParams'' \<or> cp_APIGroup params \<noteq> Some ''elbv2.k8s.aws''
          then class_blocks_loop ids subnets cs classBlocks
          else let blocks = getSubnetsBlocks (resolveSubnets subnets (gslice ids (cp_Name params))) in
            if length blocks = 0 then class_blocks_loop ids subnets cs classBlocks
            else class_blocks_loop ids subnets cs (gset (cl_Name c) blocks classBlocks))"

definition aws_getIngressClassBlocks :: "ext \<Rightarrow> zone_ext \<Rightarrow> awsZoneGenerator \<Rightarrow> peer list gomap res" where
  "aws_getIngressClassBlocks X Z g =
     bindr (getIngressClassParamsSubnetIds X Z g) (\<lambda>ids.
       Inr (class_blocks_loop ids (subnetsByExternalName g) (zg_ingressClasses (ag_zone g)) []))"

definition identifier_of :: "json \<Rightarrow> string option" where
  "identifier_of subnet =
     (case subnet of
        JObj m \<Rightarrow> (case map_of m ''identifier'' of Some (JStr i) \<Rightarrow> if i \<noteq> '''' then Some i else None | _ \<Rightarrow> None)
      | _ \<Rightarrow> None)"

fun config_ids_loop :: "ext \<Rightarrow> object option list \<Rightarrow> string list gomap \<Rightarrow> string list gomap res" where
  "config_ids_loop X [] subnetIds = Inr subnetIds"
| "config_ids_loop X (r # rs) subnetIds =
     bindr (deref r) (\<lambda>config. case found (nested_slice X config [''spec'', ''loadBalancerSubnets'']) of
         None \<Rightarrow> config_ids_loop X rs subnetIds
       | Some subnets \<Rightarrow> config_ids_loop X rs
           (gset (getNamespacedName (get_namespace X config) (get_name X config)) (List.map_filter identifier_of subnets) subnetIds))"

definition getLoadBalancerConfigurationSubnetIds :: "ext \<Rightarrow> awsZoneGenerator \<Rightarrow> string list gomap res" where
  "getLoadBalancerConfigurationSubnetIds X g =
     config_ids_loop X (gslice (zg_required (ag_zone g)) ''LoadBalancerConfigurations'') []"

definition parameters_ref :: "ext \<Rightarrow> object \<Rightarrow> string \<Rightarrow> string" where
  "parameters_ref X ob field =
     (case found (nested_string X ob [''spec'', ''infrastructure'', ''parametersRef'', field]) of None \<Rightarrow> '''' | Some s \<Rightarrow> s)"

fun gateway_blocks_loop ::
  "ext \<Rightarrow> string list gomap \<Rightarrow> subnet_ref gomap \<Rightarrow> object option list \<Rightarrow> peer list gomap \<Rightarrow> peer list gomap res" where
  "gateway_blocks_loop X ids subnets [] gatewayBlocks = Inr gatewayBlocks"
| "gateway_blocks_loop X ids subnets (r # rs) gatewayBlocks =
     bindr (deref r) (\<lambda>gateway.
       let name = parameters_ref X gateway ''name''; ns = get_namespace X gateway in
       if parameters_ref X gateway ''group'' \<noteq> ''gateway.k8s.aws'' \<or>
          parameters_ref X gateway ''kind'' \<noteq> ''LoadBalancerConfiguration'' \<or> name = ''''
       then gateway_blocks_loop X ids subnets rs gatewayBlocks
       else let blocks = getSubnetsBlocks (resolveSubnets subnets (gslice ids (getNamespacedName ns name))) in
         if length blocks = 0 then gateway_blocks_loop X ids subnets rs gatewayBlocks
         else gateway_blocks_loop X ids subnets rs (gset (getNamespacedName ns (get_name X gateway)) blocks gatewayBlocks))"

definition aws_getGatewayBlocks :: "ext \<Rightarrow> awsZoneGenerator \<Rightarrow> peer list gomap res" where
  "aws_getGatewayBlocks X g =
     bindr (getLoadBalancerConfigurationSubnetIds X g) (\<lambda>ids.
       gateway_blocks_loop X ids (subnetsByExternalName g) (gslice (zg_required (ag_zone g)) ''Gateways'') [])"

section \<open>Policies for ingresses and routes\<close>

text \<open>The annotations of an ingress are a map; their order decides which of two groups comes first.\<close>

definition forward_groups :: "zone_ext \<Rightarrow> string \<times> string \<Rightarrow> albTargetGroup list" where
  "forward_groups Z = (\<lambda>(key, v).
     if \<not> prefix ''alb.ingress.kubernetes.io/actions.'' key then []
     else case zx_alb_action Z v of
         None \<Rightarrow> []
       | Some action \<Rightarrow>
           if aa_Type action \<noteq> ''forward'' then []
           else (case aa_ForwardConfig action of None \<Rightarrow> [] | Some tgs \<Rightarrow> filter (\<lambda>tg. tg_ServiceName tg \<noteq> '''') tgs))"

definition collectAlbActionTargetGroups :: "zone_ext \<Rightarrow> ingress \<Rightarrow> albTargetGroup list" where
  "collectAlbActionTargetGroups Z ingress = concat (map (forward_groups Z) (in_Annotations ingress))"

text \<open>The name or the number of a port; \<open>strconv.Atoi\<close> reads as \<open>ParseInt\<close> does.\<close>

definition albServicePortRef :: "IntOrString \<Rightarrow> (string \<times> int) option" where
  "albServicePortRef p =
     (case p of
        IntVal n \<Rightarrow> if n \<noteq> 0 then Some ('''', n) else None
      | StrVal s \<Rightarrow>
          if s = '''' then None
          else case parse_int64 s of Some n \<Rightarrow> Some ('''', int32 n) | None \<Rightarrow> Some (s, 0))"

text \<open>The backend of a path is read through its service, which is nil when the backend is another resource.\<close>

fun aws_paths_loop :: "string \<Rightarrow> string \<Rightarrow> service_ref list \<Rightarrow> peer list \<Rightarrow> backend_service option list \<Rightarrow> gobject gomap \<Rightarrow> gobject gomap res" where
  "aws_paths_loop ns ingressName services blocks [] objs = Inr objs"
| "aws_paths_loop ns ingressName services blocks (path # paths) objs =
     bindr (deref path) (\<lambda>service.
       aws_paths_loop ns ingressName services blocks paths
         (addTargetNetworkPolicy objs ns ingressName (bs_Name service) (bs_PortName service) (bs_PortNumber service) services blocks))"

fun aws_rules_loop :: "string \<Rightarrow> string \<Rightarrow> service_ref list \<Rightarrow> peer list \<Rightarrow> backend_service option list option list \<Rightarrow> gobject gomap \<Rightarrow> gobject gomap res" where
  "aws_rules_loop ns ingressName services blocks [] objs = Inr objs"
| "aws_rules_loop ns ingressName services blocks (None # rules) objs = aws_rules_loop ns ingressName services blocks rules objs"
| "aws_rules_loop ns ingressName services blocks (Some paths # rules) objs =
     bindr (aws_paths_loop ns ingressName services blocks paths objs) (aws_rules_loop ns ingressName services blocks rules)"

definition alb_policies :: "zone_ext \<Rightarrow> string \<Rightarrow> service_ref list \<Rightarrow> peer list \<Rightarrow> ingress \<Rightarrow> gobject gomap \<Rightarrow> gobject gomap" where
  "alb_policies Z ns services blocks ingress objs =
     fold (\<lambda>tg objs. case albServicePortRef (tg_ServicePort tg) of
         None \<Rightarrow> objs
       | Some (portName, portNumber) \<Rightarrow>
           addTargetNetworkPolicy objs ns (in_Name ingress) (tg_ServiceName tg) portName portNumber services blocks)
       (collectAlbActionTargetGroups Z ingress) objs"

fun aws_ingresses_loop :: "zone_ext \<Rightarrow> peer list gomap \<Rightarrow> string \<Rightarrow> service_ref list \<Rightarrow> ingress list \<Rightarrow> gobject gomap \<Rightarrow> gobject gomap res" where
  "aws_ingresses_loop Z classBlocks ns services [] objs = Inr objs"
| "aws_ingresses_loop Z classBlocks ns services (ingress # ingresses) objs =
     (case in_ClassName ingress of
        None \<Rightarrow> aws_ingresses_loop Z classBlocks ns services ingresses objs
      | Some class_name \<Rightarrow>
          let blocks = gslice classBlocks class_name in
          if length blocks = 0 then aws_ingresses_loop Z classBlocks ns services ingresses objs
          else bindr (aws_rules_loop ns (in_Name ingress) services blocks (in_Rules ingress) objs) (\<lambda>objs.
            aws_ingresses_loop Z classBlocks ns services ingresses (alb_policies Z ns services blocks ingress objs)))"

fun aws_targets_loop ::
  "ext \<Rightarrow> zone_ext \<Rightarrow> required \<Rightarrow> peer list gomap \<Rightarrow> peer list gomap \<Rightarrow> string list \<Rightarrow> gobject gomap \<Rightarrow> gobject gomap res" where
  "aws_targets_loop X Z required classBlocks gatewayBlocks [] objs = Inr objs"
| "aws_targets_loop X Z required classBlocks gatewayBlocks (ns # nss) objs =
     (if ns = '''' then aws_targets_loop X Z required classBlocks gatewayBlocks nss objs
      else bindr (ExtractResources (Some required) (ns @ ''Ingresses'') (zx_ingress Z)) (\<lambda>ingresses.
        bindr (ExtractResources (Some required) (ns @ ''Services'') (zx_service Z)) (\<lambda>services.
        bindr (aws_ingresses_loop Z classBlocks ns services ingresses objs) (\<lambda>objs.
        bindr (routes_loop X Z gatewayBlocks ns services (gslice required (ns @ ''HTTPRoutes'')) objs) (\<lambda>objs.
          aws_targets_loop X Z required classBlocks gatewayBlocks nss objs)))))"

definition aws_generateTargetNetworkPolicies :: "ext \<Rightarrow> zone_ext \<Rightarrow> awsZoneGenerator \<Rightarrow> gobject gomap res" where
  "aws_generateTargetNetworkPolicies X Z g =
     bindr (aws_getIngressClassBlocks X Z g) (\<lambda>classBlocks.
     bindr (aws_getGatewayBlocks X g) (\<lambda>gatewayBlocks.
       aws_targets_loop X Z (zg_required (ag_zone g)) classBlocks gatewayBlocks (zg_uqNamespaces (ag_zone g)) []))"

end
