(* ===== verification/Zone_Store.thy ===== *)
theory Zone_Store
  imports Zone_Aws
begin

text \<open>
  \<open>functions/tenancy/service/zone_secretstore.go\<close>: the secret store of a zone with the role and the policies that
  let it read the secrets of the zone; and \<open>awsZoneGenerator.generate\<close>, which puts all objects of a zone on AWS
  together.
\<close>

section \<open>Names\<close>

definition GetSecretStoreRoleKey :: "string \<Rightarrow> string" where "GetSecretStoreRoleKey zone = ''secretstore-role-'' @ zone"
definition GetSecretStoreRolePolicyKey :: "string \<Rightarrow> string" where "GetSecretStoreRolePolicyKey zone = ''secretstore-policy-'' @ zone"
definition GetSecretStoreServiceAccountKey :: "string \<Rightarrow> string" where
  "GetSecretStoreServiceAccountKey zone = ''secretstore-sa-'' @ zone"
definition GetSecretStoreKey :: "string \<Rightarrow> string" where "GetSecretStoreKey zone = ''secretstore-'' @ zone"
definition GetSecretStoreName :: "string \<Rightarrow> string" where "GetSecretStoreName zone = ''zone-'' @ zone"

section \<open>What is read of the cluster\<close>

definition clusterRegionAndAccount :: "zone_ext \<Rightarrow> awsZoneGenerator \<Rightarrow> (string \<times> string) res" where
  "clusterRegionAndAccount Z g =
     (case ek_Arn (ag_cluster g) of
        None \<Rightarrow> Inl (Error ''cluster status has no arn, required for the zone secret store'')
      | Some arn \<Rightarrow>
          (let parts = split_on (CHR '':'') arn in
           if length parts < 6 \<or> parts ! 3 = '''' \<or> parts ! 4 = ''''
           then Inl (Error (''cannot read region and account from cluster arn '' @ zx_quote Z arn))
           else Inr (parts ! 3, parts ! 4)))"

definition clusterOIDCProvider :: "awsZoneGenerator \<Rightarrow> string res" where
  "clusterOIDCProvider g =
     (let missing = Inl (Error ''cluster status has no oidc issuer, required for the zone secret store'') in
      case ek_Identity (ag_cluster g) of
        (Some issuer # oidcs) # ids \<Rightarrow>
          (let provider = trim_prefix issuer ''https://'' in
           if provider = '''' then Inl (Error ''cluster oidc issuer is empty'') else Inr provider)
      | _ \<Rightarrow> missing)"

section \<open>Policies\<close>

text \<open>The documents with their keys in order, as \<open>json.Marshal\<close> writes maps.\<close>

definition policy_document :: "doc list \<Rightarrow> doc" where
  "policy_document statements = DObj [(''Statement'', DArr statements), (''Version'', DStr ''2012-10-17'')]"

definition string_equals :: "(string \<times> string) list \<Rightarrow> doc" where
  "string_equals conditions = DObj [(''StringEquals'', DObj (map (\<lambda>(k, v). (k, DStr v)) conditions))]"

definition trust_statement :: "string \<Rightarrow> string \<Rightarrow> string \<Rightarrow> string \<Rightarrow> doc" where
  "trust_statement account oidcProvider namespace serviceAccount =
     DObj [(''Action'', DStr ''sts:AssumeRoleWithWebIdentity''),
       (''Condition'', string_equals [(oidcProvider @ '':aud'', ''sts.amazonaws.com''),
          (oidcProvider @ '':sub'', ''system:serviceaccount:'' @ namespace @ '':'' @ serviceAccount)]),
       (''Effect'', DStr ''Allow''),
       (''Principal'', DObj [(''Federated'', DStr (''arn:aws:iam::'' @ account @ '':oidc-provider/'' @ oidcProvider))])]"

definition secretStoreAssumeRolePolicy :: "string \<Rightarrow> string \<Rightarrow> string \<Rightarrow> string \<Rightarrow> string" where
  "secretStoreAssumeRolePolicy account oidcProvider namespace serviceAccount =
     marshal (policy_document [trust_statement account oidcProvider namespace serviceAccount])"

definition permission_statement :: "string \<Rightarrow> string list \<Rightarrow> string \<Rightarrow> string \<times> string \<Rightarrow> doc" where
  "permission_statement sid actions resource condition =
     DObj [(''Action'', DArr (map DStr actions)), (''Condition'', string_equals [condition]), (''Effect'', DStr ''Allow''),
       (''Resource'', DStr resource), (''Sid'', DStr sid)]"

definition permission_statements :: "string \<Rightarrow> string \<Rightarrow> string \<Rightarrow> string \<Rightarrow> doc list" where
  "permission_statements zone region account configKeyArn =
     permission_statement ''ReadZoneSecrets''
       [''secretsmanager:GetSecretValue'', ''secretsmanager:DescribeSecret'', ''secretsmanager:ListSecretVersionIds'',
        ''secretsmanager:GetResourcePolicy'']
       (''arn:aws:secretsmanager:'' @ region @ '':'' @ account @ '':secret:*'') (''aws:ResourceTag/'' @ TenancyZoneAWSTag, zone) #
     (if configKeyArn \<noteq> ''''
      then [permission_statement ''DecryptZoneSecrets'' [''kms:Decrypt''] configKeyArn
              (''kms:ViaService'', ''secretsmanager.'' @ region @ ''.amazonaws.com'')]
      else [])"

definition secretStorePermissionPolicy :: "string \<Rightarrow> string \<Rightarrow> string \<Rightarrow> string \<Rightarrow> string" where
  "secretStorePermissionPolicy zone region account configKeyArn =
     marshal (policy_document (permission_statements zone region account configKeyArn))"

section \<open>Objects\<close>

definition getSecretStoreRolePolicy :: "awsZoneGenerator \<Rightarrow> string \<Rightarrow> string \<Rightarrow> kobject" where
  "getSecretStoreRolePolicy g roleName policy =
     cluster_object g ''iam.aws.upbound.io/v1beta1'' ''RolePolicy'' roleName [] (zg_zoneAnnotations (ag_zone g)) manage_all
       [(''Policy'', VStr policy), (''RoleRef'', reference roleName)] []"

definition getSecretStoreServiceAccount :: "awsZoneGenerator \<Rightarrow> string \<Rightarrow> string \<Rightarrow> string \<Rightarrow> kobject" where
  "getSecretStoreServiceAccount g name namespace roleArn =
     zone_object ''v1'' ''ServiceAccount'' name namespace []
       (gcopy [(''eks.amazonaws.com/role-arn'', roleArn)] (zg_zoneAnnotations (ag_zone g))) []"

definition getSecretStore :: "awsZoneGenerator \<Rightarrow> string \<Rightarrow> string \<Rightarrow> string \<Rightarrow> kobject" where
  "getSecretStore g name namespace region =
     zone_object ''external-secrets.io/v1'' ''ClusterSecretStore'' name '''' [(TenancyZoneLabel, ag_name g)] (zg_zoneAnnotations (ag_zone g))
       [(''Spec'', VObj
         [(''Conditions'', VList [VObj [(''NamespaceSelector'', label_selector [(TenancyZoneLabel, ag_name g)])]]),
          (''Provider'', VObj [(''AWS'', VObj [(''Service'', VStr ''SecretsManager''), (''Region'', VStr region),
             (''Auth'', VObj [(''JWTAuth'', VObj [(''ServiceAccountRef'', namespaced_ref name namespace)])])])])])]"

definition generateSecretStore :: "zone_ext \<Rightarrow> awsZoneGenerator \<Rightarrow> gobject gomap res" where
  "generateSecretStore Z g =
     (let namespace = te_SecretStoreNamespace (ag_env g); zone = ag_name g in
      if namespace = '''' then Inr []
      else bindr (clusterRegionAndAccount Z g) (\<lambda>(region, account).
        bindr (clusterOIDCProvider g) (\<lambda>oidcProvider.
          let name = GetSecretStoreName zone; roleName = zone @ ''-secrets'';
              roleArn = ''arn:aws:iam::'' @ account @ '':role/'' @ roleName
          in Inr [(GetSecretStoreRoleKey zone,
                Typed (getIAMRole g roleName (secretStoreAssumeRolePolicy account oidcProvider namespace name))),
              (GetSecretStoreRolePolicyKey zone,
                Typed (getSecretStoreRolePolicy g roleName (secretStorePermissionPolicy zone region account (te_ConfigKMSKeyArn (ag_env g))))),
              (GetSecretStoreServiceAccountKey zone, Typed (getSecretStoreServiceAccount g name namespace roleArn)),
              (GetSecretStoreKey zone, Typed (getSecretStore g name namespace region))])))"

section \<open>A zone on AWS\<close>

definition aws_generate :: "ext \<Rightarrow> zone_ext \<Rightarrow> awsZoneGenerator \<Rightarrow> gobject gomap res" where
  "aws_generate X Z g =
     bindr (generateCommon Z (ag_zone g)) (\<lambda>objs.
       let objs = gcopy objs (generateLaunchTemplates g) in
       bindr (aws_generateNodePools X Z g) (\<lambda>nodePools.
       bindr (generateSecretStore Z g) (\<lambda>secretStore.
       bindr (aws_generateTargetNetworkPolicies X Z g) (\<lambda>networkPolicies.
         Inr (gcopy (gcopy (gcopy objs nodePools) secretStore) networkPolicies)))))"

end
