(* ===== verification/Zone_Oci.thy ===== *)
theory Zone_Oci
  imports Zone_Namespaces
begin

text \<open>
  \<open>functions/tenancy/service/zone_oci.go\<close>: node pools on Oracle's cloud, made after a template pool, and the
  network policies for its load balancers and in-cluster gateways.
\<close>

section \<open>Reading unstructured objects\<close>

definition nestedString :: "ext \<Rightarrow> object \<Rightarrow> string list \<Rightarrow> string" where
  "nestedString X ob path = (case found (nested_string X ob path) of None \<Rightarrow> '''' | Some s \<Rightarrow> s)"

definition nestedSliceMap :: "ext \<Rightarrow> object \<Rightarrow> string list \<Rightarrow> object" where
  "nestedSliceMap X ob path =
     (case found (nested_slice X ob path) of Some (JObj item # items) \<Rightarrow> item | _ \<Rightarrow> [])"

definition nestedSliceString :: "ext \<Rightarrow> object \<Rightarrow> string \<Rightarrow> string list \<Rightarrow> string" where
  "nestedSliceString X ob key path = (case map_of (nestedSliceMap X ob path) key of Some (JStr s) \<Rightarrow> s | _ \<Rightarrow> '''')"

definition firstRequired :: "required \<Rightarrow> string \<Rightarrow> object option" where
  "firstRequired required key = (case gslice required key of [] \<Rightarrow> None | r # rs \<Rightarrow> r)"

abbreviation provider_status :: "string \<Rightarrow> string list" where "provider_status field \<equiv> [''status'', ''atProvider'', field]"

section \<open>The generator\<close>

record ociZoneGenerator =
  og_zone :: zoneGenerator
  og_cluster :: object
  og_nodeNSGID :: string
  og_dataKeyID :: string
  og_subnetIDs :: "string list"
  og_templatePool :: "object option"

abbreviation og_name :: "ociZoneGenerator \<Rightarrow> string" where "og_name g \<equiv> zone_name (og_zone g)"
abbreviation og_env :: "ociZoneGenerator \<Rightarrow> tenancy_Environment" where "og_env g \<equiv> zg_env (og_zone g)"

text \<open>
  The subnets of the type in the order of their names; subnets of a cluster have different names, so that it
  does not matter how the sort treats equal ones.
\<close>

definition getComputeSubnetIDs :: "ext \<Rightarrow> zoneGenerator \<Rightarrow> string list" where
  "getComputeSubnetIDs X g =
     (let subnets = filter (\<lambda>subnet. gget (get_labels X subnet) ''subnet-type'' = te_ComputeSubnetType (zg_env g))
            (List.map_filter id (gslice (zg_required g) ''Subnets''))
      in filter (\<lambda>i. i \<noteq> '''') (map (\<lambda>subnet. nestedString X subnet (provider_status ''id'')) (sort_key (get_name X) subnets)))"

definition newOCIZoneGenerator :: "ext \<Rightarrow> zoneGenerator \<Rightarrow> ociZoneGenerator res" where
  "newOCIZoneGenerator X g =
     (let required = zg_required g in
      case firstRequired required ''Cluster'' of
        None \<Rightarrow> Inl (Error ''Cluster not found in required resources'')
      | Some cluster \<Rightarrow>
          (case firstRequired required ''NodeSecurityGroup'' of
             None \<Rightarrow> Inl (Error ''NodeSecurityGroup not found in required resources'')
           | Some nsg \<Rightarrow>
               Inr \<lparr>og_zone = g, og_cluster = cluster, og_nodeNSGID = nestedString X nsg (provider_status ''id''),
                    og_dataKeyID = (case firstRequired required ''KMSDataKey'' of
                        None \<Rightarrow> '''' | Some key \<Rightarrow> nestedString X key (provider_status ''id'')),
                    og_subnetIDs = getComputeSubnetIDs X g, og_templatePool = firstRequired required ''TemplateNodePool''\<rparr>))"

section \<open>Pools\<close>

record ociPoolSpec =
  os_shape :: string
  os_ocpus :: "gofloat option"
  os_memoryGB :: "gofloat option"
  os_image :: string
  os_preemptible :: bool
  os_zones :: "string Set"
  os_nsgIDs :: "string list"
  os_minSize :: gofloat
  os_maxSize :: gofloat

definition GetOCINodePoolKey :: "string \<Rightarrow> string" where "GetOCINodePoolKey poolName = ''nodepool-'' @ poolName"

definition default_oci_spec :: ociPoolSpec where
  "default_oci_spec = \<lparr>os_shape = '''', os_ocpus = None, os_memoryGB = None, os_image = '''', os_preemptible = False, os_zones = [],
     os_nsgIDs = [], os_minSize = Fin 1, os_maxSize = Fin (-1)\<rparr>"

fun oci_requirements_loop :: "zone_ext \<Rightarrow> string \<Rightarrow> Requirement list \<Rightarrow> ociPoolSpec \<Rightarrow> ociPoolSpec res" where
  "oci_requirements_loop Z poolName [] spec = Inr spec"
| "oci_requirements_loop Z poolName (r # rs) spec =
     (let size = getIntOrFloat Z (rq_Value r); next = oci_requirements_loop Z poolName rs in
      if rq_Key r = ''instance-type'' then
        (case rq_Values r of
           [shape] \<Rightarrow> next (spec\<lparr>os_shape := shape\<rparr>)
         | _ \<Rightarrow> Inl (Error (''pool '' @ poolName @ '': an OCI node pool takes exactly one instance-type'')))
      else if rq_Key r = ''zone'' then next (spec\<lparr>os_zones := ToSet (rq_Values r)\<rparr>)
      else if rq_Key r = ''capacity-type'' then next (spec\<lparr>os_preemptible := (intstr_String (rq_Value r) = ''SPOT'')\<rparr>)
      else if rq_Key r = ''min-size'' then bindr size (\<lambda>v. next (spec\<lparr>os_minSize := v\<rparr>))
      else if rq_Key r = ''max-size'' then bindr size (\<lambda>v. next (spec\<lparr>os_maxSize := v\<rparr>))
      else if rq_Key r = ''security-groups'' then next (spec\<lparr>os_nsgIDs := os_nsgIDs spec @ rq_Values r\<rparr>)
      else if rq_Key r = ''oci/ocpus'' then bindr size (\<lambda>v. next (spec\<lparr>os_ocpus := Some v\<rparr>))
      else if rq_Key r = ''oci/memory-gb'' then bindr size (\<lambda>v. next (spec\<lparr>os_memoryGB := Some v\<rparr>))
      else if rq_Key r = ''oci/image'' then next (spec\<lparr>os_image := intstr_String (rq_Value r)\<rparr>)
      else Inl (Error (''pool '' @ poolName @ '': requirement '' @ rq_Key r @ '' is not supported on OCI'')))"

definition has_suffix :: "string \<Rightarrow> string \<Rightarrow> bool" where
  "has_suffix s t \<longleftrightarrow> prefix (rev t) (rev s)"

definition parseOCIPool :: "zone_ext \<Rightarrow> Pool \<Rightarrow> ociPoolSpec res" where
  "parseOCIPool Z pool =
     bindr (oci_requirements_loop Z (po_Name pool) (po_Requirements pool) default_oci_spec) (\<lambda>spec.
       if os_shape spec = '''' then Inl (Error (''pool '' @ po_Name pool @ '': instance-type is required on OCI''))
       else if has_suffix (os_shape spec) ''.Flex'' \<and> os_ocpus spec = None
       then Inl (Error (''pool '' @ po_Name pool @ '': flexible shape '' @ os_shape spec @ '' requires oci/ocpus''))
       else Inr (if float_eq (os_maxSize spec) (-1) then spec\<lparr>os_maxSize := os_minSize spec\<rparr> else spec))"

text \<open>A \<open>float64\<close> in an unstructured object; as in \<open>float_val\<close> the values that are no rational numbers stand as texts.\<close>

fun json_float :: "gofloat \<Rightarrow> json" where
  "json_float (Fin x) = JFloat x"
| "json_float f = JStr (FormatFloat f)"

definition getOCINodePoolName :: "string \<Rightarrow> string" where
  "getOCINodePoolName zonePool =
     (if length zonePool \<le> 32 then zonePool
      else let suffix = sha_suffix zonePool in
        strip_end (\<lambda>c. c = CHR ''-'') (take (32 - length suffix - 1) zonePool) @ ''-'' @ suffix)"

text \<open>\<open>strings.Map\<close> works on runes and writes an invalid byte as the replacement character.\<close>

definition ociTagKey :: "string \<Rightarrow> string" where
  "ociTagKey key = map (\<lambda>c. if c = CHR ''.'' \<or> c = CHR ''/'' \<or> c = CHR '' '' then CHR ''-'' else c) (sanitize key)"

definition template_config :: "ext \<Rightarrow> object \<Rightarrow> object" where
  "template_config X templatePool = nestedSliceMap X templatePool (provider_status ''nodeConfigDetails'')"

definition getNodeSource :: "ext \<Rightarrow> object \<Rightarrow> string \<Rightarrow> ociPoolSpec \<Rightarrow> object res" where
  "getNodeSource X templatePool poolName spec =
     (let image = (if os_image spec = '''' then nestedSliceString X templatePool ''imageId'' (provider_status ''nodeSourceDetails'')
            else os_image spec)
      in if image = '''' then Inl (Error (''pool '' @ poolName @ '': template node pool '' @ get_name X templatePool @ '' has no image''))
         else Inr [(''sourceType'', JStr ''IMAGE''), (''imageId'', JStr image), (''bootVolumeSizeInGbs'', JStr ''50'')])"

definition getShapeConfig :: "ociPoolSpec \<Rightarrow> object option" where
  "getShapeConfig spec =
     (if os_ocpus spec = None \<and> os_memoryGB spec = None then None
      else Some ((case os_ocpus spec of None \<Rightarrow> [] | Some v \<Rightarrow> [(''ocpus'', json_float v)]) @
                 (case os_memoryGB spec of None \<Rightarrow> [] | Some v \<Rightarrow> [(''memoryInGbs'', json_float v)])))"

fun domains_loop :: "string Set \<Rightarrow> json list \<Rightarrow> string list \<Rightarrow> string list" where
  "domains_loop zones [] domains = domains"
| "domains_loop zones (JObj p # placements) domains =
     (case map_of p ''availabilityDomain'' of
        Some (JStr domain) \<Rightarrow>
          if domain = '''' \<or> domain \<in> set domains \<or> set_Size zones > 0 \<and> \<not> set_Contains zones domain
          then domains_loop zones placements domains
          else domains_loop zones placements (domains @ [domain])
      | _ \<Rightarrow> domains_loop zones placements domains)"
| "domains_loop zones (v # placements) domains = domains_loop zones placements domains"

definition getAvailabilityDomains :: "ext \<Rightarrow> object \<Rightarrow> ociPoolSpec \<Rightarrow> string list" where
  "getAvailabilityDomains X templatePool spec =
     (let refPlacements = (case map_of (template_config X templatePool) ''placementConfigs'' of Some (JArr ps) \<Rightarrow> ps | _ \<Rightarrow> [])
      in sort (domains_loop (os_zones spec) refPlacements []))"

definition preemption :: json where
  "preemption = JArr [JObj [(''preemptionAction'', JArr [JObj [(''type'', JStr ''TERMINATE''), (''isPreserveBootVolume'', JBool False)]])]]"

text \<open>The \<open>i\<close>-th domain gets the subnet \<open>i\<close> modulo the number of subnets.\<close>

fun placements_loop :: "string list \<Rightarrow> bool \<Rightarrow> nat \<Rightarrow> string list \<Rightarrow> json list" where
  "placements_loop subnetIDs preemptible i [] = []"
| "placements_loop subnetIDs preemptible i (domain # domains) =
     JObj ([(''availabilityDomain'', JStr domain), (''subnetId'', JStr (subnetIDs ! (i mod length subnetIDs)))] @
       (if preemptible then [(''preemptibleNodeConfig'', preemption)] else [])) #
     placements_loop subnetIDs preemptible (Suc i) domains"

definition getPlacements :: "ext \<Rightarrow> ociZoneGenerator \<Rightarrow> object \<Rightarrow> string \<Rightarrow> ociPoolSpec \<Rightarrow> json list res" where
  "getPlacements X g templatePool poolName spec =
     (if length (og_subnetIDs g) = 0
      then Inl (Error (''pool '' @ poolName @ '': no '' @ te_ComputeSubnetType (og_env g) @ '' subnets observed''))
      else let domains = getAvailabilityDomains X templatePool spec in
        if length domains = 0
        then Inl (Error (''pool '' @ poolName @ '': no availability domain of template node pool '' @ get_name X templatePool @
               '' matches the pool''))
        else Inr (placements_loop (og_subnetIDs g) (os_preemptible spec) 0 domains))"

definition getNodeConfig :: "ext \<Rightarrow> ociZoneGenerator \<Rightarrow> object \<Rightarrow> string \<Rightarrow> ociPoolSpec \<Rightarrow> object res" where
  "getNodeConfig X g templatePool poolName spec =
     bindr (getPlacements X g templatePool poolName spec) (\<lambda>placements.
       let nsgIDs = (if og_nodeNSGID g \<noteq> '''' then [og_nodeNSGID g] else []) @ os_nsgIDs spec in
       Inr ([(''nsgIds'', JArr (map JStr nsgIDs)), (''placementConfigs'', JArr placements)] @
            (if og_dataKeyID g \<noteq> '''' then [(''kmsKeyId'', JStr (og_dataKeyID g))] else []) @
            (case map_of (template_config X templatePool) ''nodePoolPodNetworkOptionDetails'' of
               None \<Rightarrow> [] | Some podNetwork \<Rightarrow> [(''nodePoolPodNetworkOptionDetails'', podNetwork)])))"

fun oci_env_tags_loop :: "string option gomap \<Rightarrow> object \<Rightarrow> object" where
  "oci_env_tags_loop [] tags = tags"
| "oci_env_tags_loop ((key, None) # m) tags = oci_env_tags_loop m tags"
| "oci_env_tags_loop ((key, Some v) # m) tags = oci_env_tags_loop m (gset (ociTagKey key) (JStr v) tags)"

fun oci_tags_loop :: "string gomap \<Rightarrow> object \<Rightarrow> object" where
  "oci_tags_loop [] tags = tags"
| "oci_tags_loop ((key, v) # m) tags = oci_tags_loop m (gset (ociTagKey key) (JStr v) tags)"

definition getNodePoolTags :: "ociZoneGenerator \<Rightarrow> string \<Rightarrow> ociPoolSpec \<Rightarrow> object" where
  "getNodePoolTags g zonePool spec =
     (let tags = oci_tags_loop (zone_own_tags (zg_zone (og_zone g))) (oci_env_tags_loop (te_Tags (og_env g)) []);
          tags = gset (ociTagKey TenancyZoneLabel) (JStr (og_name g)) tags;
          tags = gset (ociTagKey zonePoolAnnotation) (JStr zonePool) tags;
          tags = gset ''cluster-autoscaler'' (JStr ''enabled'') tags;
          tags = gset ''minSize'' (JStr (FormatFloat (os_minSize spec))) tags
      in gset ''maxSize'' (JStr (FormatFloat (os_maxSize spec))) tags)"

definition getObservedOCID :: "ext \<Rightarrow> ociZoneGenerator \<Rightarrow> string \<Rightarrow> string" where
  "getObservedOCID X g key =
     (case map_of (zg_observed (og_zone g)) key of
        None \<Rightarrow> ''''
      | Some oc \<Rightarrow> (case oc_resource oc of
            None \<Rightarrow> ''''
          | Some ob \<Rightarrow> (let name = gget (get_annotations X ob) ''crossplane.io/external-name'' in
              if name \<noteq> '''' then name else nestedString X ob (provider_status ''id''))))"

definition getNodePoolAnnotations :: "ext \<Rightarrow> ociZoneGenerator \<Rightarrow> string \<Rightarrow> string \<Rightarrow> object" where
  "getNodePoolAnnotations X g poolName zonePool =
     (let annotations = str_map (getPoolAnnotations (og_zone g) zonePool);
          i = getObservedOCID X g (GetOCINodePoolKey poolName)
      in if i \<noteq> '''' then gset ''crossplane.io/external-name'' (JStr i) annotations else annotations)"

definition toOCINodeLabels :: "string gomap \<Rightarrow> json list" where
  "toOCINodeLabels labels =
     map (\<lambda>key. JObj [(''key'', JStr key), (''value'', JStr (gget labels key))]) (sort (map fst labels))"

definition node_pool_object :: "ext \<Rightarrow> ociZoneGenerator \<Rightarrow> Pool \<Rightarrow> ociPoolSpec \<Rightarrow> object \<Rightarrow> object \<Rightarrow> object" where
  "node_pool_object X g pool spec nodeSource nodeConfig =
     (let zonePool = og_name g @ ''-'' @ po_Name pool;
          cluster = (\<lambda>field. JStr (nestedString X (og_cluster g) (provider_status field)));
          forProvider = [(''name'', JStr (getOCINodePoolName zonePool)), (''clusterId'', cluster ''id''),
            (''compartmentId'', cluster ''compartmentId''), (''kubernetesVersion'', cluster ''kubernetesVersion''),
            (''nodeShape'', JStr (os_shape spec)), (''nodeSourceDetails'', JArr [JObj nodeSource]),
            (''nodeConfigDetails'', JArr [JObj nodeConfig]),
            (''initialNodeLabels'', JArr (toOCINodeLabels (getPoolLabels (og_zone g) zonePool))),
            (''freeformTags'', JObj (getNodePoolTags g zonePool spec))] @
            (case getShapeConfig spec of None \<Rightarrow> [] | Some shapeConfig \<Rightarrow> [(''nodeShapeConfig'', JArr [JObj shapeConfig])])
      in [(''apiVersion'', JStr ''containerengine.oci.upbound.io/v1alpha1''), (''kind'', JStr ''NodePool''),
          (''metadata'', JObj [(''name'', JStr zonePool), (''annotations'', JObj (getNodePoolAnnotations X g (po_Name pool) zonePool))]),
          (''spec'', JObj
            [(''managementPolicies'', JArr [JStr ''Observe'', JStr ''Create'', JStr ''Update'', JStr ''Delete'']),
             (''providerConfigRef'', JObj [(''name'', JStr (te_OCIProvider (og_env g)))]), (''forProvider'', JObj forProvider),
             (''initProvider'', JObj [(''nodeConfigDetails'', JArr [JObj [(''size'', json_float (os_minSize spec))]])])])])"

definition getNodePool :: "ext \<Rightarrow> zone_ext \<Rightarrow> ociZoneGenerator \<Rightarrow> object \<Rightarrow> Pool \<Rightarrow> object option res" where
  "getNodePool X Z g templatePool pool =
     bindr (parseOCIPool Z pool) (\<lambda>spec.
       if float_less (os_maxSize spec) 1 then Inr None
       else bindr (getNodeSource X templatePool (po_Name pool) spec) (\<lambda>nodeSource.
         bindr (getNodeConfig X g templatePool (po_Name pool) spec) (\<lambda>nodeConfig.
           Inr (Some (node_pool_object X g pool spec nodeSource nodeConfig)))))"

fun node_pools_loop :: "ext \<Rightarrow> zone_ext \<Rightarrow> ociZoneGenerator \<Rightarrow> object \<Rightarrow> Pool list \<Rightarrow> gobject gomap \<Rightarrow> gobject gomap res" where
  "node_pools_loop X Z g templatePool [] objs = Inr objs"
| "node_pools_loop X Z g templatePool (pool # pools) objs =
     bindr (getNodePool X Z g templatePool pool) (\<lambda>np. case np of
         None \<Rightarrow> node_pools_loop X Z g templatePool pools objs
       | Some ob \<Rightarrow> node_pools_loop X Z g templatePool pools (gset (GetOCINodePoolKey (po_Name pool)) (Dynamic ob) objs))"

definition oci_generateNodePools :: "ext \<Rightarrow> zone_ext \<Rightarrow> ociZoneGenerator \<Rightarrow> gobject gomap res" where
  "oci_generateNodePools X Z g =
     (let pools = zo_Pools (zg_zone (og_zone g)) in
      if length pools = 0 then Inr []
      else case og_templatePool g of
          None \<Rightarrow> Inl (Error ''NodePool template not found in required resources'')
        | Some templatePool \<Rightarrow> node_pools_loop X Z g templatePool pools [])"

section \<open>Network policies\<close>

text \<open>The subnets of the class parameters, by namespace and name, and the networks of the subnets.\<close>

definition param_subnets :: "ext \<Rightarrow> object option list \<Rightarrow> string gomap" where
  "param_subnets X resources =
     fold (\<lambda>params ids. let i = nestedString X params [''spec'', ''subnetId''] in
       if i \<noteq> '''' then gset (getNamespacedName (get_namespace X params) (get_name X params)) i ids else ids)
     (List.map_filter id resources) []"

definition subnet_networks :: "ext \<Rightarrow> object option list \<Rightarrow> string gomap" where
  "subnet_networks X resources =
     fold (\<lambda>subnet cidrs. let i = nestedString X subnet (provider_status ''id''); cidr = nestedString X subnet (provider_status ''cidrBlock'') in
       if i \<noteq> '''' \<and> cidr \<noteq> '''' then gset i cidr cidrs else cidrs)
     (List.map_filter id resources) []"

text \<open>
  \<open>strings.EqualFold\<close> with an ASCII text: letters of either case are equal, and the two other characters that
  fold to an ASCII letter are the long s and the Kelvin sign.
\<close>

fun fold_case :: "string \<Rightarrow> string" where
  "fold_case (c # d # e # s) =
     (if c = CHR 0xC5 \<and> d = CHR 0xBF then CHR ''s'' # fold_case (e # s)
      else if c = CHR 0xE2 \<and> d = CHR 0x84 \<and> e = CHR 0xAA then CHR ''k'' # fold_case s
      else lower_char c # fold_case (d # e # s))"
| "fold_case [c, d] = (if c = CHR 0xC5 \<and> d = CHR 0xBF then ''s'' else [lower_char c, lower_char d])"
| "fold_case [c] = [lower_char c]"
| "fold_case [] = []"

fun oci_class_blocks_loop :: "string gomap \<Rightarrow> string gomap \<Rightarrow> ingress_class list \<Rightarrow> peer list gomap \<Rightarrow> peer list gomap" where
  "oci_class_blocks_loop ids cidrs [] classBlocks = classBlocks"
| "oci_class_blocks_loop ids cidrs (c # cs) classBlocks =
     (case cl_Parameters c of
        None \<Rightarrow> oci_class_blocks_loop ids cidrs cs classBlocks
      | Some params \<Rightarrow>
          if cp_APIGroup params \<noteq> Some ''ingress.oraclecloud.com'' \<or> fold_case (cp_Kind params) \<noteq> fold_case ''IngressClassParameters''
          then oci_class_blocks_loop ids cidrs cs classBlocks
          else (case cp_Namespace params of
              None \<Rightarrow> oci_class_blocks_loop ids cidrs cs classBlocks
            | Some ns \<Rightarrow>
                (let cidr = gget cidrs (gget ids (getNamespacedName ns (cp_Name params))) in
                 if cidr = '''' then oci_class_blocks_loop ids cidrs cs classBlocks
                 else oci_class_blocks_loop ids cidrs cs (gset (cl_Name c) [IPBlock cidr] classBlocks))))"

definition oci_getIngressClassBlocks :: "ext \<Rightarrow> ociZoneGenerator \<Rightarrow> peer list gomap" where
  "oci_getIngressClassBlocks X g =
     (let required = zg_required (og_zone g) in
      oci_class_blocks_loop (param_subnets X (gslice required ''IngressClassParams'')) (subnet_networks X (gslice required ''Subnets''))
        (zg_ingressClasses (og_zone g)) [])"

text \<open>Gateways run in the cluster: their traffic comes from pods.\<close>

definition oci_getGatewayBlocks :: "ext \<Rightarrow> ociZoneGenerator \<Rightarrow> peer list gomap" where
  "oci_getGatewayBlocks X g =
     fold (\<lambda>gateway blocks. let ns = get_namespace X gateway; name = get_name X gateway in
       gset (getNamespacedName ns name)
         [LabelledPods [(''kubernetes.io/metadata.name'', ns)] (Some [(''gateway.networking.k8s.io/gateway-name'', name)])] blocks)
     (List.map_filter id (gslice (zg_required (og_zone g)) ''Gateways'')) []"

definition oci_rules :: "string \<Rightarrow> service_ref list \<Rightarrow> peer list \<Rightarrow> ingress \<Rightarrow> gobject gomap \<Rightarrow> gobject gomap" where
  "oci_rules ns services blocks ingress objs =
     fold (\<lambda>path objs. case path of
         None \<Rightarrow> objs
       | Some service \<Rightarrow>
           addTargetNetworkPolicy objs ns (in_Name ingress) (bs_Name service) (bs_PortName service) (bs_PortNumber service) services blocks)
     (concat (List.map_filter id (in_Rules ingress))) objs"

fun oci_ingresses_loop :: "peer list gomap \<Rightarrow> string \<Rightarrow> service_ref list \<Rightarrow> ingress list \<Rightarrow> gobject gomap \<Rightarrow> gobject gomap" where
  "oci_ingresses_loop classBlocks ns services [] objs = objs"
| "oci_ingresses_loop classBlocks ns services (ingress # ingresses) objs =
     (case in_ClassName ingress of
        None \<Rightarrow> oci_ingresses_loop classBlocks ns services ingresses objs
      | Some class_name \<Rightarrow>
          let blocks = gslice classBlocks class_name in
          if length blocks = 0 then oci_ingresses_loop classBlocks ns services ingresses objs
          else oci_ingresses_loop classBlocks ns services ingresses (oci_rules ns services blocks ingress objs))"

fun oci_targets_loop ::
  "ext \<Rightarrow> zone_ext \<Rightarrow> required \<Rightarrow> peer list gomap \<Rightarrow> peer list gomap \<Rightarrow> string list \<Rightarrow> gobject gomap \<Rightarrow> gobject gomap res" where
  "oci_targets_loop X Z required classBlocks gatewayBlocks [] objs = Inr objs"
| "oci_targets_loop X Z required classBlocks gatewayBlocks (ns # nss) objs =
     (if ns = '''' then oci_targets_loop X Z required classBlocks gatewayBlocks nss objs
      else bindr (ExtractResources (Some required) (ns @ ''Ingresses'') (zx_ingress Z)) (\<lambda>ingresses.
        bindr (ExtractResources (Some required) (ns @ ''Services'') (zx_service Z)) (\<lambda>services.
        bindr (routes_loop X Z gatewayBlocks ns services (gslice required (ns @ ''HTTPRoutes''))
            (oci_ingresses_loop classBlocks ns services ingresses objs)) (\<lambda>objs.
          oci_targets_loop X Z required classBlocks gatewayBlocks nss objs))))"

definition oci_generateTargetNetworkPolicies :: "ext \<Rightarrow> zone_ext \<Rightarrow> ociZoneGenerator \<Rightarrow> gobject gomap res" where
  "oci_generateTargetNetworkPolicies X Z g =
     oci_targets_loop X Z (zg_required (og_zone g)) (oci_getIngressClassBlocks X g) (oci_getGatewayBlocks X g)
       (zg_uqNamespaces (og_zone g)) []"

definition oci_generate :: "ext \<Rightarrow> zone_ext \<Rightarrow> ociZoneGenerator \<Rightarrow> gobject gomap res" where
  "oci_generate X Z g =
     bindr (generateCommon Z (og_zone g)) (\<lambda>objs.
     bindr (oci_generateNodePools X Z g) (\<lambda>nodePools.
     bindr (oci_generateTargetNetworkPolicies X Z g) (\<lambda>networkPolicies.
       Inr (gcopy (gcopy objs nodePools) networkPolicies))))"

end
