(* ===== verification/Zone_Service.thy ===== *)
theory Zone_Service
  imports Zone_Store Zone_Oci
begin

text \<open>\<open>GenerateZoneObjects\<close> of \<open>functions/tenancy/service/zone.go\<close> and the group interface (\<open>functions/tenancy/group.go\<close>).\<close>

definition GenerateZoneObjects ::
  "ext \<Rightarrow> zone_ext \<Rightarrow> CloudProvider \<Rightarrow> Zone \<Rightarrow> required \<Rightarrow> observed \<Rightarrow> gobject gomap res" where
  "GenerateZoneObjects X Z cloudProvider z required observed =
     bindr (newZoneGenerator X Z z required observed cloudProvider) (\<lambda>generator.
       case cloudProvider of
         CloudProviderOCI \<Rightarrow> bindr (newOCIZoneGenerator X generator) (oci_generate X Z)
       | CloudProviderAWS \<Rightarrow> bindr (newAWSZoneGenerator Z generator) (aws_generate X Z))"

abbreviation "infralibZone \<equiv> ''infralib''"

definition tenancy_SkipGeneration :: "ext \<Rightarrow> object \<Rightarrow> bool" where
  "tenancy_SkipGeneration X composite \<longleftrightarrow> get_kind X composite = XRKindZone \<and> get_name X composite = infralibZone"

definition zone_steps :: "string list list" where
  "zone_steps = [[''namespace-.*'', ''launchtemplate-.*'', ''kyverno-mutate-.*''],
     [''netpol-.*'', ''role-.*'', ''sidecar-.*'', ''kyverno-validate-.*''],
     [''rbacrole-.*'', ''rpa-.*'', ''ae-.*'', ''crb-.*''], [''rb-.*'', ''nodepool-.*'']]"

definition tenancy_GetSequence :: "Zone \<Rightarrow> Sequence" where
  "tenancy_GetSequence z = (if zo_kind z = XRKindZone then NewSequence True zone_steps else empty_sequence)"

section \<open>Required resources\<close>

definition any_object :: "string \<Rightarrow> string \<Rightarrow> string option \<Rightarrow> selector" where
  "any_object kind apiVersion ns = \<lparr>sel_kind = kind, sel_api_version = apiVersion, sel_match = MatchLabels [], sel_namespace = ns\<rparr>"

definition named_object :: "string \<Rightarrow> string \<Rightarrow> string \<Rightarrow> selector" where
  "named_object kind apiVersion name = \<lparr>sel_kind = kind, sel_api_version = apiVersion, sel_match = MatchName name, sel_namespace = None\<rparr>"

definition awsSelectors :: "tenancy_Environment \<Rightarrow> selectors" where
  "awsSelectors env =
     (let resources = [(''VPC'', RequiredClusterVPC (te_VPC env))];
          resources = (if te_DataKMSAlias env \<noteq> ''''
            then gset ''KMSDataAlias'' (named_object ''Alias'' ''kms.aws.upbound.io/v1beta1'' (te_DataKMSAlias env)) resources else resources);
          resources = gset ''NodeSecurityGroup'' (named_object ''SecurityGroup'' ''ec2.aws.upbound.io/v1beta1'' (te_SecurityGroup env)) resources;
          resources = gset ''Cluster'' (named_object ''Cluster'' ''eks.aws.upbound.io/v1beta2'' (te_Cluster env)) resources;
          resources = gset ''Subnets'' (any_object ''Subnet'' ''ec2.aws.upbound.io/v1beta1'' None) resources;
          resources = gset ''IngressClassParams'' (any_object ''IngressClassParams'' ''elbv2.k8s.aws/v1beta1'' None) resources
      in gset ''LoadBalancerConfigurations'' (any_object ''LoadBalancerConfiguration'' ''gateway.k8s.aws/v1beta1'' None) resources)"

definition ociSelectors :: "tenancy_Environment \<Rightarrow> selectors" where
  "ociSelectors env =
     (let engine = ''containerengine.oci.upbound.io/v1alpha1''; networking = ''networking.oci.upbound.io/v1alpha1'';
          resources = [(''Cluster'', named_object ''Cluster'' engine (te_Cluster env)),
            (''NodeSecurityGroup'', named_object ''NetworkSecurityGroup'' networking (te_SecurityGroup env)),
            (''Subnets'', any_object ''Subnet'' networking None)];
          resources = (if te_DataKMSKey env \<noteq> ''''
            then gset ''KMSDataKey'' (named_object ''Key'' ''kms.oci.upbound.io/v1alpha1'' (te_DataKMSKey env)) resources else resources);
          resources = gset ''IngressClassParams'' (any_object ''IngressClassParameters'' ''ingress.oraclecloud.com/v1beta1'' None) resources
      in gset ''TemplateNodePool'' (named_object ''NodePool'' engine ''template'') resources)"

fun namespace_selectors_loop :: "string list \<Rightarrow> selectors \<Rightarrow> selectors" where
  "namespace_selectors_loop [] resources = resources"
| "namespace_selectors_loop (ns # nss) resources =
     (if ns = '''' then namespace_selectors_loop nss resources
      else namespace_selectors_loop nss
        (gset (ns @ ''HTTPRoutes'') (any_object ''HTTPRoute'' ''gateway.networking.k8s.io/v1'' (Some ns))
        (gset (ns @ ''Services'') (any_object ''Service'' ''v1'' (Some ns))
        (gset (ns @ ''Ingresses'') (any_object ''Ingress'' ''networking.k8s.io/v1'' (Some ns)) resources))))"

definition tenancy_GetRequiredResources :: "ext \<Rightarrow> zone_ext \<Rightarrow> CloudProvider \<Rightarrow> object \<Rightarrow> required \<Rightarrow> selectors res" where
  "tenancy_GetRequiredResources X Z cloudProvider composite required =
     (if get_kind X composite \<noteq> XRKindZone then Inr []
      else bindr (zx_zone Z composite) (\<lambda>zone.
        let resources = [(EnvironmentKey, RequiredEnvironmentConfig ''platform-apis-zone''),
              (''Namespaces'', \<lparr>sel_kind = ''Namespace'', sel_api_version = ''v1'',
                 sel_match = MatchLabels [(TenancyZoneLabel, zo_name zone)], sel_namespace = None\<rparr>)]
        in if map_of required EnvironmentKey = None then Inr resources
           else bindr (tenancy_GetEnvironment X Z required) (\<lambda>env.
             bindr (ExtractResources (Some required) ''Namespaces'' (zx_namespace Z)) (\<lambda>namespaces.
             bindr (ValidateFor env cloudProvider) (\<lambda>u.
               let resources = gcopy resources (case cloudProvider of
                       CloudProviderOCI \<Rightarrow> ociSelectors env | CloudProviderAWS \<Rightarrow> awsSelectors env);
                   resources = gset ''IngressClasses'' (any_object ''IngressClass'' ''networking.k8s.io/v1'' None) resources;
                   resources = gset ''Gateways'' (any_object ''Gateway'' ''gateway.networking.k8s.io/v1'' None) resources
               in Inr (namespace_selectors_loop (GetUniqueNamespaces zone namespaces) resources))))))"

section \<open>The group\<close>

definition tenancy_group :: "ext \<Rightarrow> zone_ext \<Rightarrow> CloudProvider \<Rightarrow> (Zone, gobject) GroupService" where
  "tenancy_group X Z cloudProvider = \<lparr>SkipGeneration = tenancy_SkipGeneration X,
     GetResourceHandlers = [(XRKindZone, \<lparr>h_decode = zx_zone Z, h_generate = GenerateZoneObjects X Z cloudProvider\<rparr>)],
     GetSequence = tenancy_GetSequence,
     GetReadyStatus = (\<lambda>ob. None),
     GetRequiredResources = tenancy_GetRequiredResources X Z cloudProvider,
     GetObservedStatus = (\<lambda>ob. Inr []),
     PostProcessStatus = None\<rparr>"

end
