(* ===== verification/Zone_Laws.thy ===== *)
theory Zone_Laws
  imports Zone_Service
begin

text \<open>
  What the generators of a zone produce: maps with one entry per name, the contract of base, and which part of
  the map comes from which part of the code.
\<close>

section \<open>Well-formed maps\<close>

lemma role_bindings_wf: "wf_map objs \<Longrightarrow> wf_map (role_bindings_loop g name a r ms objs)"
  by (induction g name a r ms objs rule: role_bindings_loop.induct) (simp_all add: Let_def)

lemma view_bindings_wf: "wf_map objs \<Longrightarrow> wf_map (view_bindings_loop g name ms objs)"
  by (induction g name ms objs rule: view_bindings_loop.induct) simp_all

lemma namespace_access_wf: "wf_map objs \<Longrightarrow> wf_map (namespace_access g name objs)"
  by (simp add: namespace_access_def Let_def role_bindings_wf view_bindings_wf split: option.split)

lemma generateNamespace_wf: "generateNamespace Z g objs name pool granular = Inr out \<Longrightarrow> wf_map objs \<Longrightarrow> wf_map out"
  by (auto simp: generateNamespace_def Let_def res_simps namespace_access_wf split: if_splits)

lemma spec_namespaces_wf:
  "spec_namespaces_loop Z g granular nss acc = Inr out \<Longrightarrow> wf_map (snd acc) \<Longrightarrow> wf_map (snd out)"
proof (induction Z g granular nss acc rule: spec_namespaces_loop.induct)
  case (2 Z g granular ns nss zoneNs objs)
  then show ?case by (auto simp: res_simps generateNamespace_wf split: if_splits)
qed simp

lemma labelled_namespaces_wf:
  "labelled_namespaces_loop Z g granular zoneNs nss objs = Inr out \<Longrightarrow> wf_map objs \<Longrightarrow> wf_map out"
proof (induction Z g granular zoneNs nss objs rule: labelled_namespaces_loop.induct)
  case (2 Z g granular zoneNs ns nss objs)
  then show ?case by (auto simp: res_simps generateNamespace_wf split: if_splits)
qed simp

lemma generateCommon_wf: "generateCommon Z g = Inr out \<Longrightarrow> wf_map out"
  by (auto simp: generateCommon_def Let_def res_simps split: option.splits)

lemma aws_generate_wf: "aws_generate X Z g = Inr out \<Longrightarrow> wf_map out"
  by (auto simp: aws_generate_def Let_def res_simps generateCommon_wf)

lemma oci_generate_wf: "oci_generate X Z g = Inr out \<Longrightarrow> wf_map out"
  by (auto simp: oci_generate_def res_simps generateCommon_wf)

lemma zone_generate_wf: "GenerateZoneObjects X Z p z required observed = Inr gen \<Longrightarrow> wf_map gen"
  by (cases p) (auto simp: GenerateZoneObjects_def res_simps aws_generate_wf oci_generate_wf)

section \<open>The contract of base\<close>

lemma zone_patterns: "\<forall>ps \<in> set zone_steps. \<forall>p \<in> set ps. pattern_ok p"
  by code_simp

lemma tenancy_patterns: "\<forall>s \<in> set (seq_steps (tenancy_GetSequence z)). \<forall>p \<in> set (step_objects s). pattern_ok p"
  using zone_patterns by (auto simp: tenancy_GetSequence_def NewSequence_def)

interpretation tenancy: group_service "tenancy_group X Z p" "\<lambda>z. True" for X Z p
proof
  show "map_of (GetResourceHandlers (tenancy_group X Z p)) kind = Some h \<Longrightarrow>
      h_generate h obj required observed = Inr gen \<Longrightarrow> wf_map gen" for kind h obj required observed gen
    by (auto simp: tenancy_group_def zone_generate_wf split: if_splits)
  show "\<exists>names. sequence_names (tenancy_group X Z p) obj gen = Inr names" for obj gen
    by (rule sequence_names_ok) (simp add: tenancy_group_def tenancy_patterns)
  show "GetObservedStatus (tenancy_group X Z p) ob = Inr st \<Longrightarrow> wf_map st" for ob st
    by (auto simp: tenancy_group_def)
qed (simp add: tenancy_group_def)

end
