(* ===== verification/Zone_Inventory.thy ===== *)
theory Zone_Inventory
  imports Zone_Laws
begin

text \<open>
  What a zone consists of: a generated map holds only the objects listed here, and each of them under its name.
  The properties of a zone are read off these lists.
\<close>

section \<open>Entries of a map\<close>

definition all_entries :: "(string \<Rightarrow> 'o \<Rightarrow> bool) \<Rightarrow> 'o gomap \<Rightarrow> bool" where
  "all_entries P m \<longleftrightarrow> (\<forall>(n, ob) \<in> set m. P n ob)"

named_theorems entries \<open>maps whose entries all satisfy a predicate\<close>

lemma all_entries_Nil [entries]: "all_entries P []"
  by (simp add: all_entries_def)

lemma all_entries_Cons [entries]: "P n ob \<Longrightarrow> all_entries P m \<Longrightarrow> all_entries P ((n, ob) # m)"
  by (simp add: all_entries_def)

lemma all_entries_gset [entries]: "P n ob \<Longrightarrow> all_entries P m \<Longrightarrow> all_entries P (gset n ob m)"
  unfolding all_entries_def by (induction m) (auto split: if_splits)

lemma all_entries_gcopy [entries]: "all_entries P dst \<Longrightarrow> all_entries P src \<Longrightarrow> all_entries P (gcopy dst src)"
proof (induction src arbitrary: dst)
  case (Cons e src)
  obtain n ob where e: "e = (n, ob)" by (cases e)
  with Cons.prems have "P n ob" "all_entries P src" by (auto simp: all_entries_def)
  with Cons.IH [OF all_entries_gset [OF _ Cons.prems(1)]] show ?case by (simp add: e)
qed simp

lemma all_entries_mono: "all_entries P m \<Longrightarrow> (\<And>n ob. P n ob \<Longrightarrow> Q n ob) \<Longrightarrow> all_entries Q m"
  by (auto simp: all_entries_def)

lemma all_entriesD: "all_entries P m \<Longrightarrow> map_of m n = Some ob \<Longrightarrow> P n ob"
  by (auto simp: all_entries_def dest: map_of_SomeD)

section \<open>Objects that both clouds share\<close>

text \<open>The namespaces of a zone: those of its spec, and those that carry its label and are not terminating.\<close>

definition zone_namespaces :: "zoneGenerator \<Rightarrow> string set" where
  "zone_namespaces g =
     zn_Name ` set (zo_Namespaces (zg_zone g)) \<union> ns_Name ` {ns \<in> set (zg_namespaces g). \<not> ns_Terminating ns}"

definition apps_name :: "zoneGenerator \<Rightarrow> string" where "apps_name g = zone_name g @ ''-apps''"

inductive common_entry :: "zoneGenerator \<Rightarrow> string \<Rightarrow> gobject \<Rightarrow> bool" for g where
  Namespace: "common_entry g (GetNamespaceKey (zn_Name ns)) (Typed (getNamespace g ns))"
| Apps_namespace: "common_entry g (GetNamespaceKey (zn_Name ns)) (Typed (getNamespace g ns\<lparr>k_labels := labels\<rparr>))"
| Network_policy: "ns \<in> zone_namespaces g \<Longrightarrow>
    common_entry g (GetNetworkPolicyKey (zone_name g) ns) (Typed (getNetworkPolicy g ns (granular_policies g)))"
| All_role: "ns \<in> zone_namespaces g \<Longrightarrow> common_entry g (GetRBACRoleAllKey (zone_name g) ns) (Typed (getAllRole g ns))"
| Read_role: "ns \<in> zone_namespaces g \<Longrightarrow> common_entry g (GetRBACRoleReadKey (zone_name g) ns) (Typed (getReadRole g ns))"
| Namespace_role: "ns \<in> zone_namespaces g \<Longrightarrow>
    common_entry g (GetRBACRoleNamespaceKey (zone_name g) ns) (Typed (getNamespaceRole g ns))"
| Apps_all: "common_entry g (GetRBACRoleAllKey (zone_name g) ns) (Typed (getRole g ns (ns @ ''-all'') [apps_rule [''*'']]))"
| Apps_read: "common_entry g (GetRBACRoleReadKey (zone_name g) ns)
    (Typed (getRole g ns (ns @ ''-read'') [apps_rule [''get'', ''watch'', ''list'']]))"
| Binding: "(role, groups) \<in> set (zg_roleMappings g) \<Longrightarrow>
    common_entry g (GetRBKey (zone_name g) ns role)
      (Typed (getRoleBinding g ns (ns @ ''-'' @ role) (ns @ (if role = RoleObserver then ''-read'' else ''-all'')) groups))"
| Maintainer_binding: "(RoleMaintainer, groups) \<in> set (zg_roleMappings g) \<Longrightarrow>
    common_entry g (GetRBKey (zone_name g) ns (RoleMaintainer @ ''-namespace''))
      (Typed (getRoleBinding g ns (ns @ ''-'' @ RoleMaintainer @ ''-namespace'') (ns @ ''-namespace'') groups))"
| View_binding: "(role, groups) \<in> set (zg_roleMappings g) \<Longrightarrow> role \<noteq> RoleObserver \<Longrightarrow>
    common_entry g (GetRBKey (zone_name g) ns (role @ ''-'' @ crossplaneViewClusterRole))
      (Typed (getClusterRoleRoleBinding g ns (ns @ ''-'' @ role @ ''-'' @ crossplaneViewClusterRole) crossplaneViewClusterRole groups))"
| Labels_policy: "common_entry g (GetLabelsMutatingPolicyKey (zone_name g) ns) (Typed (getLabelsMutatingPolicy g ns))"
| Converted: "n \<in> {GetSidecarKey (zone_name g) ns, GetMutatingPolicyKey (zone_name g) ns, GetValidatingPolicyKey (zone_name g) ns} \<Longrightarrow>
    common_entry g n (Dynamic u)"
| Cluster_binding: "getClusterRoleBinding g RoleContributor = Some crb \<Longrightarrow>
    common_entry g (GetClusterRoleBindingKey (zone_name g) RoleContributor) (Typed crb)"
| Project: "common_entry g (GetAppProjectKey (zone_name g)) (Typed (getAppProject g))"

lemma role_names [simp]: "k_name (getRole g ns name rules) = name"
  by (simp add: getRole_def zone_object_def)

lemma named_roles [simp]:
  "k_name (getAllRole g ns) = ns @ ''-all''" "k_name (getReadRole g ns) = ns @ ''-read''" "k_name (getNamespaceRole g ns) = ns @ ''-namespace''"
  by (simp_all add: getAllRole_def getReadRole_def getNamespaceRole_def)

lemma role_bindings_entries:
  "all_entries (common_entry g) objs \<Longrightarrow> set ms \<subseteq> set (zg_roleMappings g) \<Longrightarrow>
   all_entries (common_entry g) (role_bindings_loop g ns (ns @ ''-all'') (ns @ ''-read'') ms objs)"
proof (induction ms arbitrary: objs)
  case (Cons m ms)
  obtain role groups where m: "m = (role, groups)" by (cases m)
  have "common_entry g (GetRBKey (zone_name g) ns role)
      (Typed (getRoleBinding g ns (ns @ ''-'' @ role) (if role = RoleObserver then ns @ ''-read'' else ns @ ''-all'') groups))"
    using Binding [of role groups g ns] Cons.prems(2) m by (simp split: if_splits)
  with Cons show ?case by (simp add: m Let_def all_entries_gset)
qed simp

lemma view_bindings_entries:
  "all_entries (common_entry g) objs \<Longrightarrow> set ms \<subseteq> set (zg_roleMappings g) \<Longrightarrow>
   all_entries (common_entry g) (view_bindings_loop g ns ms objs)"
proof (induction ms arbitrary: objs)
  case (Cons m ms)
  obtain role groups where m: "m = (role, groups)" by (cases m)
  show ?case
  proof (cases "role = RoleObserver")
    case False
    with Cons.prems(2) have "common_entry g (GetRBKey (zone_name g) ns (role @ ''-'' @ crossplaneViewClusterRole))
        (Typed (getClusterRoleRoleBinding g ns (ns @ ''-'' @ role @ ''-'' @ crossplaneViewClusterRole) crossplaneViewClusterRole groups))"
      by (intro View_binding) (auto simp: m)
    with Cons False show ?thesis by (simp add: m all_entries_gset)
  qed (use Cons in \<open>simp add: m\<close>)
qed simp

lemma namespace_access_entries:
  assumes "all_entries (common_entry g) objs" and "ns \<in> zone_namespaces g"
  shows "all_entries (common_entry g) (namespace_access g ns objs)"
proof -
  have bindings: "all_entries (common_entry g)
      (role_bindings_loop g ns (ns @ ''-all'') (ns @ ''-read'') (zg_roleMappings g)
        (gset (GetRBACRoleReadKey (zone_name g) ns) (Typed (getReadRole g ns))
          (gset (GetRBACRoleAllKey (zone_name g) ns) (Typed (getAllRole g ns)) objs)))"
    using assms by (intro role_bindings_entries all_entries_gset All_role Read_role subset_refl) auto
  then show ?thesis
    unfolding namespace_access_def Let_def named_roles
    by (intro view_bindings_entries subset_refl)
      (auto split: option.split intro!: all_entries_gset Namespace_role Maintainer_binding dest: map_of_SomeD simp: assms(2)
        simp del: append_Cons)
qed

lemma generateNamespace_entries:
  assumes "generateNamespace Z g objs ns pool (granular_policies g) = Inr out"
    and "all_entries (common_entry g) objs" and "ns \<in> zone_namespaces g"
  shows "all_entries (common_entry g) out"
proof -
  from assms(1) obtain objs1 m v where
    1: "objs1 = objs \<or> (\<exists>u. objs1 = gset (GetSidecarKey (zone_name g) ns) (Dynamic u) objs)" and
    out: "out = gset (GetValidatingPolicyKey (zone_name g) ns) (Dynamic v)
      (gset (GetLabelsMutatingPolicyKey (zone_name g) ns) (Typed (getLabelsMutatingPolicy g ns))
        (gset (GetMutatingPolicyKey (zone_name g) ns) (Dynamic m)
          (namespace_access g ns (gset (GetNetworkPolicyKey (zone_name g) ns) (Typed (getNetworkPolicy g ns (granular_policies g))) objs1))))"
    by (auto simp: generateNamespace_def Let_def res_simps getSidecar_def withoutPodControllerAutogen_def split: if_splits)
  have "all_entries (common_entry g) objs1"
    using 1 assms(2) by (auto intro!: all_entries_gset Converted)
  then show ?thesis
    unfolding out by (intro all_entries_gset Converted Labels_policy namespace_access_entries Network_policy assms(3)) auto
qed

lemma spec_namespaces_entries:
  "spec_namespaces_loop Z g (granular_policies g) nss acc = Inr out \<Longrightarrow> zn_Name ` set nss \<subseteq> zone_namespaces g \<Longrightarrow>
   all_entries (common_entry g) (snd acc) \<Longrightarrow> all_entries (common_entry g) (snd out)"
proof (induction Z g "granular_policies g" nss acc rule: spec_namespaces_loop.induct)
  case (2 Z g ns nss zoneNs objs)
  show ?case
  proof (cases "set_Contains zoneNs (zn_Name ns)")
    case True
    with 2 show ?thesis by simp
  next
    case False
    with "2.prems"(1) obtain objs1 where
      gen: "generateNamespace Z g (gset (GetNamespaceKey (zn_Name ns)) (Typed (getNamespace g ns)) objs) (zn_Name ns) (zn_Pool ns)
        (granular_policies g) = Inr objs1"
      and run: "spec_namespaces_loop Z g (granular_policies g) nss (set_Add zoneNs (zn_Name ns), objs1) = Inr out"
      by (auto simp: res_simps)
    have "all_entries (common_entry g) objs1"
      by (rule generateNamespace_entries [OF gen]) (use "2.prems" in \<open>auto intro!: all_entries_gset Namespace\<close>)
    with "2.hyps"(2) [OF False gen run] "2.prems"(2) show ?thesis by simp
  qed
qed simp

lemma labelled_namespaces_entries:
  "labelled_namespaces_loop Z g (granular_policies g) zoneNs nss objs = Inr out \<Longrightarrow>
   ns_Name ` {ns \<in> set nss. \<not> ns_Terminating ns} \<subseteq> zone_namespaces g \<Longrightarrow>
   all_entries (common_entry g) objs \<Longrightarrow> all_entries (common_entry g) out"
proof (induction Z g "granular_policies g" zoneNs nss objs rule: labelled_namespaces_loop.induct)
  case (2 Z g zoneNs ns nss objs)
  show ?case
  proof (cases "set_Contains zoneNs (ns_Name ns) \<or> ns_Terminating ns")
    case True
    with 2 show ?thesis by (auto simp: subset_iff)
  next
    case False
    with "2.prems"(1) obtain objs1 where
      gen: "generateNamespace Z g objs (ns_Name ns) (gget (ns_Labels ns) PoolLabel) (granular_policies g) = Inr objs1"
      and run: "labelled_namespaces_loop Z g (granular_policies g) zoneNs nss objs1 = Inr out"
      by (auto simp: res_simps)
    have "all_entries (common_entry g) objs1"
      by (rule generateNamespace_entries [OF gen "2.prems"(3)]) (use False "2.prems"(2) in auto)
    with "2.hyps"(2) [OF False gen run] "2.prems"(2) show ?thesis by auto
  qed
qed simp

lemma apps_entries: "all_entries (common_entry g) (generateAppsNamespace g [] name)"
proof -
  note ns = Apps_namespace [of g "\<lparr>zn_Name = name, zn_Pool = ''''\<rparr>", unfolded ZoneNamespace.simps]
  show ?thesis
    unfolding generateAppsNamespace_def Let_def role_names
    by (intro role_bindings_entries all_entries_gset all_entries_Nil Apps_all Apps_read subset_refl ns)
qed

lemma generateCommon_entries:
  assumes "generateCommon Z g = Inr out"
  shows "all_entries (common_entry g) out"
proof -
  from assms obtain namespaces where n: "generateNamespaces Z g = Inr namespaces"
    and out: "out = gset (GetAppProjectKey (zone_name g)) (Typed (getAppProject g))
      (case getClusterRoleBinding g RoleContributor of None \<Rightarrow> gcopy [] namespaces
       | Some crb \<Rightarrow> gset (GetClusterRoleBindingKey (zone_name g) RoleContributor) (Typed crb) (gcopy [] namespaces))"
    by (auto simp: generateCommon_def Let_def res_simps)
  from n obtain zoneNs objs zoneNs' objs' where start: "all_entries (common_entry g) objs"
    and spec: "spec_namespaces_loop Z g (granular_policies g) (zo_Namespaces (zg_zone g)) (zoneNs, objs) = Inr (zoneNs', objs')"
    and rest: "labelled_namespaces_loop Z g (granular_policies g) zoneNs' (zg_namespaces g) objs' = Inr namespaces"
    by (cases "te_CreateAppsNamespace (zg_env g)")
      (auto simp: generateNamespaces_def Let_def res_simps intro: that apps_entries all_entries_Nil)
  have "all_entries (common_entry g) objs'"
    using spec_namespaces_entries [OF spec] start by (simp add: zone_namespaces_def)
  then have "all_entries (common_entry g) namespaces"
    by (rule labelled_namespaces_entries [OF rest, rotated]) (auto simp: zone_namespaces_def)
  then show ?thesis
    unfolding out by (auto split: option.split intro!: all_entries_gset all_entries_gcopy all_entries_Nil Cluster_binding Project)
qed

end
