(* ===== verification/Zone_Networks.thy ===== *)
theory Zone_Networks
  imports Zone_Inventory
begin

text \<open>
  The network policies of a zone: what the policies for ingresses and routes admit on each cloud, and the whole
  of the objects of a zone on either cloud.
\<close>

section \<open>Policies for services\<close>

text \<open>
  A policy for a service in a namespace, on behalf of an ingress or a route there: it admits peers of that ingress or
  route only.
\<close>

definition target_entry :: "string set \<Rightarrow> (string \<Rightarrow> string \<Rightarrow> peer set) \<Rightarrow> string \<Rightarrow> gobject \<Rightarrow> bool" where
  "target_entry namespaces peers n ob \<longleftrightarrow>
     (\<exists>ns \<in> namespaces. \<exists>i s service port blocks. ns \<noteq> '''' \<and> n = GetTargetNetworkPolicyKey ns i s port \<and>
        ob = Typed (target_policy ns i s service port blocks) \<and> sv_Name service = s \<and>
        port \<in> sv_TargetPort ` set (sv_Ports service) \<and> blocks \<noteq> [] \<and> set blocks \<subseteq> peers ns i)"

text \<open>A map of peers in which every name has peers of its own set only.\<close>

definition blocks_in :: "(string \<Rightarrow> peer set) \<Rightarrow> peer list gomap \<Rightarrow> bool" where
  "blocks_in P = all_entries (\<lambda>n blocks. set blocks \<subseteq> P n)"

lemma blocks_in_slice:
  assumes "blocks_in P m" shows "set (gslice m k) \<subseteq> P k"
proof (cases "map_of m k")
  case (Some blocks)
  with all_entriesD [OF assms [unfolded blocks_in_def] Some] show ?thesis by simp
qed simp

lemma blocks_in_gset: "blocks_in P m \<Longrightarrow> set blocks \<subseteq> P k \<Longrightarrow> blocks_in P (gset k blocks m)"
  by (simp add: blocks_in_def all_entries_gset)

lemma blocks_in_Nil [simp]: "blocks_in P []"
  by (simp add: blocks_in_def all_entries_Nil)

lemma port_loop_target: "port_loop portName portNumber ports = Some tp \<Longrightarrow> tp \<in> sv_TargetPort ` set ports"
  by (induction ports) (auto split: if_splits)

lemma service_loop_found:
  "service_loop s portName portNumber services = Some (service, tp) \<Longrightarrow>
   service \<in> set services \<and> sv_Name service = s \<and> tp \<in> sv_TargetPort ` set (sv_Ports service)"
  by (induction services) (auto split: if_splits dest: port_loop_target)

lemma addTarget_entries:
  assumes "all_entries (target_entry namespaces peers) objs" and "ns \<in> namespaces" and "ns \<noteq> ''''"
    and "blocks \<noteq> []" and "set blocks \<subseteq> peers ns i"
  shows "all_entries (target_entry namespaces peers) (addTargetNetworkPolicy objs ns i s portName portNumber services blocks)"
proof (cases "s = '''' \<or> service_loop s portName portNumber services = None")
  case False
  then obtain service tp where found: "service_loop s portName portNumber services = Some (service, tp)" by auto
  have "target_entry namespaces peers (GetTargetNetworkPolicyKey ns i s tp) (Typed (target_policy ns i s service tp blocks))"
    unfolding target_entry_def using assms(2-5) service_loop_found [OF found] by blast
  with found False assms(1) show ?thesis by (simp add: addTargetNetworkPolicy_def all_entries_gset)
qed (use assms(1) in \<open>auto simp: addTargetNetworkPolicy_def split: option.splits\<close>)

lemma fold_entries:
  "all_entries P objs \<Longrightarrow> (\<And>x objs. x \<in> set xs \<Longrightarrow> all_entries P objs \<Longrightarrow> all_entries P (f x objs)) \<Longrightarrow> all_entries P (fold f xs objs)"
  by (induction xs arbitrary: objs) auto

lemma add_blocks_set: "set (add_blocks bs blocks) = set bs \<union> set blocks"
  by (induction bs arbitrary: blocks) auto

text \<open>The gateways that a route names as its parents, by namespace and name.\<close>

definition parent_gateway :: "string \<Rightarrow> json list \<Rightarrow> string \<Rightarrow> bool" where
  "parent_gateway ns parents key \<longleftrightarrow>
     (\<exists>parent. JObj parent \<in> set parents \<and> getOptionalString parent ''name'' '''' \<noteq> '''' \<and>
        getOptionalString parent ''kind'' ''Gateway'' = ''Gateway'' \<and>
        getOptionalString parent ''group'' ''gateway.networking.k8s.io'' = ''gateway.networking.k8s.io'' \<and>
        key = getNamespacedName (getOptionalString parent ''namespace'' ns) (getOptionalString parent ''name'' ''''))"

lemma parents_loop_in:
  "blocks_in P gatewayBlocks \<Longrightarrow> b \<in> set (parents_loop gatewayBlocks ns parents blocks) \<Longrightarrow>
   b \<in> set blocks \<or> (\<exists>key. parent_gateway ns parents key \<and> b \<in> P key)"
proof (induction parents arbitrary: blocks)
  case (Cons v parents)
  have more: "parent_gateway ns parents key \<Longrightarrow> parent_gateway ns (v # parents) key" for key
    unfolding parent_gateway_def by auto
  show ?case
  proof (cases "parents_loop gatewayBlocks ns (v # parents) blocks = parents_loop gatewayBlocks ns parents blocks")
    case True
    with Cons more show ?thesis by metis
  next
    case False
    then obtain parent where v: "v = JObj parent" by (cases v) auto
    let ?name = "getOptionalString parent ''name'' ''''"
    let ?key = "getNamespacedName (getOptionalString parent ''namespace'' ns) ?name"
    from False v have ok: "?name \<noteq> ''''" "getOptionalString parent ''kind'' ''Gateway'' = ''Gateway''"
      "getOptionalString parent ''group'' ''gateway.networking.k8s.io'' = ''gateway.networking.k8s.io''"
      by (auto simp: Let_def split: if_splits)
    then have key: "parent_gateway ns (v # parents) ?key" unfolding parent_gateway_def v by auto
    have "b \<in> set (parents_loop gatewayBlocks ns parents (add_blocks (gslice gatewayBlocks ?key) blocks))"
      using Cons.prems(2) v ok by (simp add: Let_def)
    from Cons.IH [OF Cons.prems(1) this] show ?thesis
      using blocks_in_slice [OF Cons.prems(1), of ?key] key more by (auto simp: add_blocks_set)
  qed
qed simp

definition route_parent :: "ext \<Rightarrow> object \<Rightarrow> string \<Rightarrow> string \<Rightarrow> bool" where
  "route_parent X route ns key \<longleftrightarrow>
     (\<exists>parents. found (nested_slice X route [''spec'', ''parentRefs'']) = Some parents \<and> parent_gateway ns parents key)"

lemma getRouteBlocks_in:
  "blocks_in P gatewayBlocks \<Longrightarrow> b \<in> set (getRouteBlocks X route gatewayBlocks ns) \<Longrightarrow> \<exists>key. route_parent X route ns key \<and> b \<in> P key"
  using parents_loop_in [of P gatewayBlocks b ns _ "[]"] unfolding getRouteBlocks_def route_parent_def
  by (cases "found (nested_slice X route [''spec'', ''parentRefs''])") auto

lemma routes_entries:
  "routes_loop X Z gatewayBlocks ns services routes objs = Inr out \<Longrightarrow> all_entries (target_entry namespaces peers) objs \<Longrightarrow>
   (\<And>route. Some route \<in> set routes \<Longrightarrow> set (getRouteBlocks X route gatewayBlocks ns) \<subseteq> peers ns (get_name X route)) \<Longrightarrow>
   ns \<in> namespaces \<Longrightarrow> ns \<noteq> '''' \<Longrightarrow> all_entries (target_entry namespaces peers) out"
proof (induction X Z gatewayBlocks ns services routes objs rule: routes_loop.induct)
  case (2 X Z gatewayBlocks ns services r routes objs)
  from "2.prems"(1) obtain route where r: "r = Some route" by (cases r) (auto simp: res_simps)
  show ?case
  proof (cases "getRouteBlocks X route gatewayBlocks ns = []")
    case True
    with 2 r show ?thesis by simp
  next
    case False
    have "set (getRouteBlocks X route gatewayBlocks ns) \<subseteq> peers ns (get_name X route)" using "2.prems"(3) r by simp
    then have "all_entries (target_entry namespaces peers)
      (fold (\<lambda>(name, port) objs. addTargetNetworkPolicy objs ns (get_name X route) name '''' port services (getRouteBlocks X route gatewayBlocks ns))
        (getHTTPRouteBackends X Z route ns) objs)"
      using "2.prems"(2,4,5) False by (auto intro!: fold_entries addTarget_entries)
    with 2 r False show ?thesis by (simp add: Let_def)
  qed
qed simp

text \<open>
  Who may send to the pods behind an ingress or a route of a namespace, by its name: the load balancers of the class of
  such an ingress, and those of a gateway that such a route has as a parent.
\<close>

definition sources_of :: "ext \<Rightarrow> zone_ext \<Rightarrow> required \<Rightarrow> (string \<Rightarrow> peer set) \<Rightarrow> (string \<Rightarrow> peer set) \<Rightarrow> string \<Rightarrow> string \<Rightarrow> peer set" where
  "sources_of X Z required class_peers gateway_peers ns i =
     {peer. \<exists>ingresses ingress c. ExtractResources (Some required) (ns @ ''Ingresses'') (zx_ingress Z) = Inr ingresses \<and>
        ingress \<in> set ingresses \<and> in_Name ingress = i \<and> in_ClassName ingress = Some c \<and> peer \<in> class_peers c} \<union>
     {peer. \<exists>route key. Some route \<in> set (gslice required (ns @ ''HTTPRoutes'')) \<and> get_name X route = i \<and>
        route_parent X route ns key \<and> peer \<in> gateway_peers key}"

lemma ingress_sources:
  assumes "ExtractResources (Some required) (ns @ ''Ingresses'') (zx_ingress Z) = Inr ingresses" and "blocks_in C classBlocks"
    and "ingress \<in> set ingresses" and "in_ClassName ingress = Some c"
  shows "set (gslice classBlocks c) \<subseteq> sources_of X Z required C G ns (in_Name ingress)"
  using assms blocks_in_slice [OF assms(2), of c] unfolding sources_of_def by blast

lemma route_sources:
  assumes "Some route \<in> set (gslice required (ns @ ''HTTPRoutes''))" and "blocks_in G gatewayBlocks"
  shows "set (getRouteBlocks X route gatewayBlocks ns) \<subseteq> sources_of X Z required C G ns (get_name X route)"
  using assms(1) getRouteBlocks_in [OF assms(2)] unfolding sources_of_def by blast

section \<open>Peers on AWS\<close>

text \<open>The network of an observed subnet with the identifier, by which AWS knows it.\<close>

definition subnet_peer :: "subnet_ref list \<Rightarrow> string \<Rightarrow> peer set" where
  "subnet_peer subnets i = {IPBlock cidr | cidr subnet. subnet \<in> set subnets \<and> i \<noteq> '''' \<and>
     gget (sn_Annotations subnet) ''crossplane.io/external-name'' = i \<and> sn_CidrBlock subnet = Some cidr}"

lemma subnetsByExternalName_in:
  "all_entries (\<lambda>i subnet. subnet \<in> set (ag_subnets g) \<and> i \<noteq> '''' \<and>
     gget (sn_Annotations subnet) ''crossplane.io/external-name'' = i) (subnetsByExternalName g)"
  unfolding subnetsByExternalName_def by (rule fold_entries) (auto intro: all_entries_gset all_entries_Nil simp: Let_def)

lemma set_map_filter: "x \<in> set (List.map_filter f xs) \<longleftrightarrow> (\<exists>y \<in> set xs. f y = Some x)"
  by (induction xs) (auto simp: List.map_filter_simps split: option.splits)

lemma resolved_blocks:
  "set (getSubnetsBlocks (resolveSubnets (subnetsByExternalName g) ids)) \<subseteq> \<Union> (subnet_peer (ag_subnets g) ` set ids)"
proof
  fix b assume "b \<in> set (getSubnetsBlocks (resolveSubnets (subnetsByExternalName g) ids))"
  then obtain i subnet where i: "i \<in> set ids" "map_of (subnetsByExternalName g) i = Some subnet"
    and b: "map_option IPBlock (sn_CidrBlock subnet) = Some b"
    unfolding getSubnetsBlocks_def resolveSubnets_def set_map_filter [of b] by (metis set_map_filter)
  from all_entriesD [OF subnetsByExternalName_in i(2)] b have "b \<in> subnet_peer (ag_subnets g) i"
    unfolding subnet_peer_def by auto
  with i(1) show "b \<in> \<Union> (subnet_peer (ag_subnets g) ` set ids)" by blast
qed

text \<open>
  The networks of the load balancers of an ingress class: those of the subnets that the parameters of the class list.
\<close>

definition aws_class_peers :: "ext \<Rightarrow> zone_ext \<Rightarrow> required \<Rightarrow> ingress_class list \<Rightarrow> subnet_ref list \<Rightarrow> string \<Rightarrow> peer set" where
  "aws_class_peers X Z required classes subnets name =
     {peer. \<exists>c params r ids i. c \<in> set classes \<and> cl_Name c = name \<and> cl_Parameters c = Some params \<and>
        cp_Kind params = ''IngressClassParams'' \<and> cp_APIGroup params = Some ''elbv2.k8s.aws'' \<and>
        Some r \<in> set (gslice required ''IngressClassParams'') \<and> get_name X r = cp_Name params \<and>
        found (zx_string_slice Z r [''spec'', ''subnets'', ''ids'']) = Some ids \<and> i \<in> set ids \<and> peer \<in> subnet_peer subnets i}"

lemma params_ids_in:
  "params_ids_loop X Z rs m = Inr out \<Longrightarrow> all_entries P m \<Longrightarrow>
   (\<And>r ids. Some r \<in> set rs \<Longrightarrow> found (zx_string_slice Z r [''spec'', ''subnets'', ''ids'']) = Some ids \<Longrightarrow> P (get_name X r) ids) \<Longrightarrow>
   all_entries P out"
proof (induction X Z rs m rule: params_ids_loop.induct)
  case (2 X Z r rs m)
  from "2.prems"(1) obtain params where r: "r = Some params" by (cases r) (auto simp: res_simps)
  with 2 show ?case by (auto simp: all_entries_gset split: option.splits)
qed simp

lemma class_blocks_in:
  "blocks_in P m \<Longrightarrow>
   (\<And>c params. c \<in> set cs \<Longrightarrow> cl_Parameters c = Some params \<Longrightarrow> cp_Kind params = ''IngressClassParams'' \<Longrightarrow>
      cp_APIGroup params = Some ''elbv2.k8s.aws'' \<Longrightarrow>
      set (getSubnetsBlocks (resolveSubnets subnets (gslice ids (cp_Name params)))) \<subseteq> P (cl_Name c)) \<Longrightarrow>
   blocks_in P (class_blocks_loop ids subnets cs m)"
  by (induction ids subnets cs m rule: class_blocks_loop.induct) (auto simp: Let_def blocks_in_gset split: option.splits)

lemma slice_entries:
  assumes "all_entries P m" and "x \<in> set (gslice m k)" obtains xs where "P k xs" and "x \<in> set xs"
  using assms by (cases "map_of m k") (auto dest: all_entriesD)

lemma aws_class_in:
  assumes "aws_getIngressClassBlocks X Z g = Inr classBlocks"
  shows "blocks_in (aws_class_peers X Z (zg_required (ag_zone g)) (zg_ingressClasses (ag_zone g)) (ag_subnets g)) classBlocks"
proof -
  let ?r = "zg_required (ag_zone g)"
  let ?P = "\<lambda>n ids. \<exists>r. Some r \<in> set (gslice ?r ''IngressClassParams'') \<and> get_name X r = n \<and>
    found (zx_string_slice Z r [''spec'', ''subnets'', ''ids'']) = Some ids"
  from assms obtain ids where ids: "params_ids_loop X Z (gslice ?r ''IngressClassParams'') [] = Inr ids"
    and c: "classBlocks = class_blocks_loop ids (subnetsByExternalName g) (zg_ingressClasses (ag_zone g)) []"
    by (auto simp: aws_getIngressClassBlocks_def getIngressClassParamsSubnetIds_def res_simps)
  have e: "all_entries ?P ids" by (rule params_ids_in [OF ids all_entries_Nil]) blast
  show ?thesis
    unfolding c
  proof (rule class_blocks_in)
    fix c params assume c: "c \<in> set (zg_ingressClasses (ag_zone g))" "cl_Parameters c = Some params"
      "cp_Kind params = ''IngressClassParams''" "cp_APIGroup params = Some ''elbv2.k8s.aws''"
    show "set (getSubnetsBlocks (resolveSubnets (subnetsByExternalName g) (gslice ids (cp_Name params)))) \<subseteq>
        aws_class_peers X Z ?r (zg_ingressClasses (ag_zone g)) (ag_subnets g) (cl_Name c)"
    proof
      fix b assume "b \<in> set (getSubnetsBlocks (resolveSubnets (subnetsByExternalName g) (gslice ids (cp_Name params))))"
      with resolved_blocks obtain i where i: "i \<in> set (gslice ids (cp_Name params))" "b \<in> subnet_peer (ag_subnets g) i" by blast
      from slice_entries [OF e i(1)] obtain xs r where r: "Some r \<in> set (gslice ?r ''IngressClassParams'')" "get_name X r = cp_Name params"
        "found (zx_string_slice Z r [''spec'', ''subnets'', ''ids'']) = Some xs" "i \<in> set xs" by metis
      have "\<exists>c' params' r' ids' i'. c' \<in> set (zg_ingressClasses (ag_zone g)) \<and> cl_Name c' = cl_Name c \<and> cl_Parameters c' = Some params' \<and>
        cp_Kind params' = ''IngressClassParams'' \<and> cp_APIGroup params' = Some ''elbv2.k8s.aws'' \<and>
        Some r' \<in> set (gslice ?r ''IngressClassParams'') \<and> get_name X r' = cp_Name params' \<and>
        found (zx_string_slice Z r' [''spec'', ''subnets'', ''ids'']) = Some ids' \<and> i' \<in> set ids' \<and> b \<in> subnet_peer (ag_subnets g) i'"
        by (rule exI [where x = c], rule exI [where x = params], rule exI [where x = r], rule exI [where x = xs], rule exI [where x = i])
          (intro conjI, rule c, rule refl, rule c, rule c, rule c, rule r, rule r, rule r, rule r, rule i)
      then show "b \<in> aws_class_peers X Z ?r (zg_ingressClasses (ag_zone g)) (ag_subnets g) (cl_Name c)"
        unfolding aws_class_peers_def mem_Collect_eq .
    qed
  qed simp
qed

text \<open>
  The networks of the load balancer of a gateway: those of the subnets in the load balancer configuration that the gateway
  refers to, in its own namespace.
\<close>

definition aws_gateway_peers :: "ext \<Rightarrow> required \<Rightarrow> subnet_ref list \<Rightarrow> string \<Rightarrow> peer set" where
  "aws_gateway_peers X required subnets key =
     {peer. \<exists>gateway config listed entry i. Some gateway \<in> set (gslice required ''Gateways'') \<and>
        getNamespacedName (get_namespace X gateway) (get_name X gateway) = key \<and>
        parameters_ref X gateway ''group'' = ''gateway.k8s.aws'' \<and> parameters_ref X gateway ''kind'' = ''LoadBalancerConfiguration'' \<and>
        Some config \<in> set (gslice required ''LoadBalancerConfigurations'') \<and>
        getNamespacedName (get_namespace X config) (get_name X config) =
          getNamespacedName (get_namespace X gateway) (parameters_ref X gateway ''name'') \<and>
        found (nested_slice X config [''spec'', ''loadBalancerSubnets'']) = Some listed \<and> JObj entry \<in> set listed \<and>
        map_of entry ''identifier'' = Some (JStr i) \<and> peer \<in> subnet_peer subnets i}"

lemma config_ids_in:
  "config_ids_loop X rs m = Inr out \<Longrightarrow> all_entries P m \<Longrightarrow>
   (\<And>r listed. Some r \<in> set rs \<Longrightarrow> found (nested_slice X r [''spec'', ''loadBalancerSubnets'']) = Some listed \<Longrightarrow>
      P (getNamespacedName (get_namespace X r) (get_name X r)) (List.map_filter identifier_of listed)) \<Longrightarrow>
   all_entries P out"
proof (induction X rs m rule: config_ids_loop.induct)
  case (2 X r rs m)
  from "2.prems"(1) obtain config where r: "r = Some config" by (cases r) (auto simp: res_simps)
  with 2 show ?case by (auto simp: all_entries_gset split: option.splits)
qed simp

lemma identifier_in: "i \<in> set (List.map_filter identifier_of listed) \<Longrightarrow> \<exists>entry. JObj entry \<in> set listed \<and> map_of entry ''identifier'' = Some (JStr i)"
proof -
  assume "i \<in> set (List.map_filter identifier_of listed)"
  then obtain v where v: "v \<in> set listed" "identifier_of v = Some i" unfolding set_map_filter by blast
  from v(2) obtain entry where "v = JObj entry" "map_of entry ''identifier'' = Some (JStr i)"
    unfolding identifier_of_def by (cases v) (auto split: json.splits option.splits if_splits)
  with v(1) show ?thesis by blast
qed

lemma gateway_blocks_in:
  "gateway_blocks_loop X ids subnets rs m = Inr out \<Longrightarrow> blocks_in P m \<Longrightarrow>
   (\<And>gateway. Some gateway \<in> set rs \<Longrightarrow> parameters_ref X gateway ''group'' = ''gateway.k8s.aws'' \<Longrightarrow>
      parameters_ref X gateway ''kind'' = ''LoadBalancerConfiguration'' \<Longrightarrow>
      set (getSubnetsBlocks (resolveSubnets subnets (gslice ids (getNamespacedName (get_namespace X gateway) (parameters_ref X gateway ''name'')))))
        \<subseteq> P (getNamespacedName (get_namespace X gateway) (get_name X gateway))) \<Longrightarrow>
   blocks_in P out"
proof (induction X ids subnets rs m rule: gateway_blocks_loop.induct)
  case (2 X ids subnets r rs m)
  from "2.prems"(1) obtain gateway where r: "r = Some gateway" by (cases r) (auto simp: res_simps)
  with 2 show ?case by (auto simp: Let_def blocks_in_gset split: if_splits)
qed simp

lemma aws_gateway_in:
  assumes "aws_getGatewayBlocks X g = Inr gatewayBlocks"
  shows "blocks_in (aws_gateway_peers X (zg_required (ag_zone g)) (ag_subnets g)) gatewayBlocks"
proof -
  let ?r = "zg_required (ag_zone g)"
  let ?P = "\<lambda>n ids. \<exists>config listed. Some config \<in> set (gslice ?r ''LoadBalancerConfigurations'') \<and>
    getNamespacedName (get_namespace X config) (get_name X config) = n \<and>
    found (nested_slice X config [''spec'', ''loadBalancerSubnets'']) = Some listed \<and> ids = List.map_filter identifier_of listed"
  from assms obtain ids where ids: "config_ids_loop X (gslice ?r ''LoadBalancerConfigurations'') [] = Inr ids"
    and run: "gateway_blocks_loop X ids (subnetsByExternalName g) (gslice ?r ''Gateways'') [] = Inr gatewayBlocks"
    by (auto simp: aws_getGatewayBlocks_def getLoadBalancerConfigurationSubnetIds_def res_simps)
  have e: "all_entries ?P ids" by (rule config_ids_in [OF ids all_entries_Nil]) blast
  show ?thesis
  proof (rule gateway_blocks_in [OF run])
    fix gateway assume gw: "Some gateway \<in> set (gslice ?r ''Gateways'')" "parameters_ref X gateway ''group'' = ''gateway.k8s.aws''"
      "parameters_ref X gateway ''kind'' = ''LoadBalancerConfiguration''"
    let ?n = "getNamespacedName (get_namespace X gateway) (parameters_ref X gateway ''name'')"
    show "set (getSubnetsBlocks (resolveSubnets (subnetsByExternalName g) (gslice ids ?n))) \<subseteq>
        aws_gateway_peers X ?r (ag_subnets g) (getNamespacedName (get_namespace X gateway) (get_name X gateway))"
    proof
      fix b assume "b \<in> set (getSubnetsBlocks (resolveSubnets (subnetsByExternalName g) (gslice ids ?n)))"
      with resolved_blocks obtain i where i: "i \<in> set (gslice ids ?n)" "b \<in> subnet_peer (ag_subnets g) i" by blast
      from slice_entries [OF e i(1)] obtain config listed where c: "Some config \<in> set (gslice ?r ''LoadBalancerConfigurations'')"
        "getNamespacedName (get_namespace X config) (get_name X config) = ?n"
        "found (nested_slice X config [''spec'', ''loadBalancerSubnets'']) = Some listed" "i \<in> set (List.map_filter identifier_of listed)"
        by blast
      from identifier_in [OF c(4)] c(1-3) gw i(2)
      show "b \<in> aws_gateway_peers X ?r (ag_subnets g) (getNamespacedName (get_namespace X gateway) (get_name X gateway))"
        unfolding aws_gateway_peers_def by blast
    qed
  qed simp
qed

lemma aws_paths_entries:
  "aws_paths_loop ns i services blocks paths objs = Inr out \<Longrightarrow> all_entries (target_entry N P) objs \<Longrightarrow>
   ns \<in> N \<Longrightarrow> ns \<noteq> '''' \<Longrightarrow> blocks \<noteq> [] \<Longrightarrow> set blocks \<subseteq> P ns i \<Longrightarrow> all_entries (target_entry N P) out"
  by (induction ns i services blocks paths objs rule: aws_paths_loop.induct) (auto simp: res_simps addTarget_entries)

lemma aws_rules_entries:
  "aws_rules_loop ns i services blocks rules objs = Inr out \<Longrightarrow> all_entries (target_entry N P) objs \<Longrightarrow>
   ns \<in> N \<Longrightarrow> ns \<noteq> '''' \<Longrightarrow> blocks \<noteq> [] \<Longrightarrow> set blocks \<subseteq> P ns i \<Longrightarrow> all_entries (target_entry N P) out"
proof (induction ns i services blocks rules objs rule: aws_rules_loop.induct)
  case (3 ns i services blocks paths rules objs)
  then show ?case using aws_paths_entries by (auto simp: res_simps)
qed simp_all

lemma alb_policies_entries:
  "all_entries (target_entry N P) objs \<Longrightarrow> ns \<in> N \<Longrightarrow> ns \<noteq> '''' \<Longrightarrow> blocks \<noteq> [] \<Longrightarrow> set blocks \<subseteq> P ns (in_Name ingress) \<Longrightarrow>
   all_entries (target_entry N P) (alb_policies Z ns services blocks ingress objs)"
  unfolding alb_policies_def by (rule fold_entries) (auto simp: addTarget_entries split: option.splits)

lemma aws_ingresses_entries:
  "aws_ingresses_loop Z classBlocks ns services ingresses objs = Inr out \<Longrightarrow> all_entries (target_entry N P) objs \<Longrightarrow>
   (\<And>ingress c. ingress \<in> set ingresses \<Longrightarrow> in_ClassName ingress = Some c \<Longrightarrow> set (gslice classBlocks c) \<subseteq> P ns (in_Name ingress)) \<Longrightarrow>
   ns \<in> N \<Longrightarrow> ns \<noteq> '''' \<Longrightarrow> all_entries (target_entry N P) out"
proof (induction Z classBlocks ns services ingresses objs rule: aws_ingresses_loop.induct)
  case (2 Z classBlocks ns services ingress ingresses objs)
  show ?case
  proof (cases "in_ClassName ingress = None \<or> gslice classBlocks (the (in_ClassName ingress)) = []")
    case True
    with 2 show ?thesis by (auto simp: Let_def split: option.splits)
  next
    case False
    then obtain c where c: "in_ClassName ingress = Some c" "gslice classBlocks c \<noteq> []" by auto
    with "2.prems"(1) obtain objs1 where
      rules: "aws_rules_loop ns (in_Name ingress) services (gslice classBlocks c) (in_Rules ingress) objs = Inr objs1"
      and run: "aws_ingresses_loop Z classBlocks ns services ingresses
        (alb_policies Z ns services (gslice classBlocks c) ingress objs1) = Inr out"
      by (auto simp: res_simps Let_def)
    have slice: "set (gslice classBlocks c) \<subseteq> P ns (in_Name ingress)" using "2.prems"(3) c(1) by simp
    have "all_entries (target_entry N P) (alb_policies Z ns services (gslice classBlocks c) ingress objs1)"
      by (intro alb_policies_entries aws_rules_entries [OF rules]) (use "2.prems" c(2) slice in simp_all)
    with 2 c rules run show ?thesis by (simp add: Let_def)
  qed
qed simp

lemma aws_targets_entries:
  "aws_targets_loop X Z required classBlocks gatewayBlocks nss objs = Inr out \<Longrightarrow>
   all_entries (target_entry N (sources_of X Z required C G)) objs \<Longrightarrow>
   blocks_in C classBlocks \<Longrightarrow> blocks_in G gatewayBlocks \<Longrightarrow> set nss \<subseteq> N \<Longrightarrow>
   all_entries (target_entry N (sources_of X Z required C G)) out"
proof (induction nss arbitrary: objs)
  case (Cons ns nss)
  show ?case
  proof (cases "ns = ''''")
    case True
    with Cons show ?thesis by simp
  next
    case False
    with Cons.prems(1) obtain ingresses services objs1 objs2 where
      ing: "ExtractResources (Some required) (ns @ ''Ingresses'') (zx_ingress Z) = Inr ingresses" and
      parts: "aws_ingresses_loop Z classBlocks ns services ingresses objs = Inr objs1"
      "routes_loop X Z gatewayBlocks ns services (gslice required (ns @ ''HTTPRoutes'')) objs1 = Inr objs2"
      "aws_targets_loop X Z required classBlocks gatewayBlocks nss objs2 = Inr out"
      by (auto simp: res_simps)
    have N: "ns \<in> N" "set nss \<subseteq> N" using Cons.prems(5) by simp_all
    have "all_entries (target_entry N (sources_of X Z required C G)) objs1"
      by (rule aws_ingresses_entries [OF parts(1) Cons.prems(2) _ N(1) False]) (rule ingress_sources [OF ing Cons.prems(3)])
    then have "all_entries (target_entry N (sources_of X Z required C G)) objs2"
      by (rule routes_entries [OF parts(2) _ _ N(1) False]) (rule route_sources [OF _ Cons.prems(4)])
    from Cons.IH [OF parts(3) this Cons.prems(3,4) N(2)] show ?thesis .
  qed
qed simp

lemma aws_policies_entries:
  assumes "aws_generateTargetNetworkPolicies X Z g = Inr out"
  shows "all_entries (target_entry (set (zg_uqNamespaces (ag_zone g)))
    (sources_of X Z (zg_required (ag_zone g))
      (aws_class_peers X Z (zg_required (ag_zone g)) (zg_ingressClasses (ag_zone g)) (ag_subnets g))
      (aws_gateway_peers X (zg_required (ag_zone g)) (ag_subnets g)))) out"
proof -
  from assms obtain classBlocks gatewayBlocks where c: "aws_getIngressClassBlocks X Z g = Inr classBlocks"
    and gw: "aws_getGatewayBlocks X g = Inr gatewayBlocks"
    and run: "aws_targets_loop X Z (zg_required (ag_zone g)) classBlocks gatewayBlocks (zg_uqNamespaces (ag_zone g)) [] = Inr out"
    by (auto simp: aws_generateTargetNetworkPolicies_def res_simps)
  show ?thesis by (rule aws_targets_entries [OF run all_entries_Nil aws_class_in [OF c] aws_gateway_in [OF gw]]) simp
qed

section \<open>Peers on OCI\<close>

text \<open>
  The network of the load balancers of an ingress class: that of the observed subnet that the parameters of the class name.
\<close>

definition oci_class_peers :: "ext \<Rightarrow> required \<Rightarrow> ingress_class list \<Rightarrow> string \<Rightarrow> peer set" where
  "oci_class_peers X required classes name =
     {IPBlock cidr | cidr. \<exists>c params ns r subnet. c \<in> set classes \<and> cl_Name c = name \<and> cl_Parameters c = Some params \<and>
        cp_APIGroup params = Some ''ingress.oraclecloud.com'' \<and> fold_case (cp_Kind params) = fold_case ''IngressClassParameters'' \<and>
        cp_Namespace params = Some ns \<and> Some r \<in> set (gslice required ''IngressClassParams'') \<and>
        getNamespacedName (get_namespace X r) (get_name X r) = getNamespacedName ns (cp_Name params) \<and>
        Some subnet \<in> set (gslice required ''Subnets'') \<and> nestedString X r [''spec'', ''subnetId''] \<noteq> '''' \<and>
        nestedString X subnet (provider_status ''id'') = nestedString X r [''spec'', ''subnetId''] \<and>
        cidr \<noteq> '''' \<and> nestedString X subnet (provider_status ''cidrBlock'') = cidr}"

text \<open>A gateway runs in the cluster: its traffic comes from its pods.\<close>

definition oci_gateway_peers :: "ext \<Rightarrow> required \<Rightarrow> string \<Rightarrow> peer set" where
  "oci_gateway_peers X required key =
     {LabelledPods [(''kubernetes.io/metadata.name'', get_namespace X gateway)]
        (Some [(''gateway.networking.k8s.io/gateway-name'', get_name X gateway)]) | gateway.
        Some gateway \<in> set (gslice required ''Gateways'') \<and> getNamespacedName (get_namespace X gateway) (get_name X gateway) = key}"

lemma present_in: "x \<in> set (List.map_filter id rs) \<longleftrightarrow> Some x \<in> set rs"
  unfolding set_map_filter by auto

lemma subnet_networks_in:
  "all_entries (\<lambda>i cidr. \<exists>subnet. Some subnet \<in> set rs \<and> i \<noteq> '''' \<and> nestedString X subnet (provider_status ''id'') = i \<and>
     nestedString X subnet (provider_status ''cidrBlock'') = cidr) (subnet_networks X rs)"
  unfolding subnet_networks_def by (rule fold_entries [OF all_entries_Nil]) (auto simp: Let_def present_in intro!: all_entries_gset)

lemma param_subnets_in:
  "all_entries (\<lambda>n i. \<exists>r. Some r \<in> set rs \<and> i \<noteq> '''' \<and> getNamespacedName (get_namespace X r) (get_name X r) = n \<and>
     nestedString X r [''spec'', ''subnetId''] = i) (param_subnets X rs)"
  unfolding param_subnets_def by (rule fold_entries [OF all_entries_Nil]) (auto simp: Let_def present_in intro!: all_entries_gset)

lemma oci_class_blocks_in:
  "blocks_in P m \<Longrightarrow>
   (\<And>c params ns. c \<in> set cs \<Longrightarrow> cl_Parameters c = Some params \<Longrightarrow> cp_APIGroup params = Some ''ingress.oraclecloud.com'' \<Longrightarrow>
      fold_case (cp_Kind params) = fold_case ''IngressClassParameters'' \<Longrightarrow> cp_Namespace params = Some ns \<Longrightarrow>
      gget cidrs (gget ids (getNamespacedName ns (cp_Name params))) \<noteq> '''' \<Longrightarrow>
      IPBlock (gget cidrs (gget ids (getNamespacedName ns (cp_Name params)))) \<in> P (cl_Name c)) \<Longrightarrow>
   blocks_in P (oci_class_blocks_loop ids cidrs cs m)"
proof (induction ids cidrs cs m rule: oci_class_blocks_loop.induct)
  case (2 ids cidrs c cs m)
  then show ?case by (simp add: Let_def blocks_in_gset split: option.splits)
qed simp

lemma gget_entry: "all_entries P m \<Longrightarrow> gget m k \<noteq> '''' \<Longrightarrow> P k (gget m k)"
  by (cases "map_of m k") (auto simp: gget_def dest: all_entriesD)

lemma oci_class_in: "blocks_in (oci_class_peers X (zg_required (og_zone g)) (zg_ingressClasses (og_zone g))) (oci_getIngressClassBlocks X g)"
  unfolding oci_getIngressClassBlocks_def Let_def
proof (rule oci_class_blocks_in)
  let ?r = "zg_required (og_zone g)"
  let ?cidrs = "subnet_networks X (gslice ?r ''Subnets'')" and ?ids = "param_subnets X (gslice ?r ''IngressClassParams'')"
  fix c and params :: class_parameters and ns
  let ?i = "gget ?ids (getNamespacedName ns (cp_Name params))"
  assume c: "c \<in> set (zg_ingressClasses (og_zone g))" "cl_Parameters c = Some params" "cp_APIGroup params = Some ''ingress.oraclecloud.com''"
    "fold_case (cp_Kind params) = fold_case ''IngressClassParameters''" "cp_Namespace params = Some ns"
    and n: "gget ?cidrs ?i \<noteq> ''''"
  from gget_entry [OF subnet_networks_in n] obtain subnet where s: "Some subnet \<in> set (gslice ?r ''Subnets'')" "?i \<noteq> ''''"
    "nestedString X subnet (provider_status ''id'') = ?i" "nestedString X subnet (provider_status ''cidrBlock'') = gget ?cidrs ?i" by blast
  from gget_entry [OF param_subnets_in s(2)] obtain r where r: "Some r \<in> set (gslice ?r ''IngressClassParams'')"
    "getNamespacedName (get_namespace X r) (get_name X r) = getNamespacedName ns (cp_Name params)" "nestedString X r [''spec'', ''subnetId''] = ?i"
    by blast
  have i: "nestedString X r [''spec'', ''subnetId''] \<noteq> ''''"
    "nestedString X subnet (provider_status ''id'') = nestedString X r [''spec'', ''subnetId'']"
    unfolding r(3) using s(2,3) by blast+
  show "IPBlock (gget ?cidrs ?i) \<in> oci_class_peers X ?r (zg_ingressClasses (og_zone g)) (cl_Name c)"
    unfolding oci_class_peers_def
    by (rule CollectI, rule exI [where x = "gget ?cidrs ?i"], rule conjI [OF refl], rule exI [where x = c], rule exI [where x = params],
        rule exI [where x = ns], rule exI [where x = r], rule exI [where x = subnet]) (intro conjI refl c n s r i)
qed simp

lemma oci_gateway_in: "blocks_in (oci_gateway_peers X (zg_required (og_zone g))) (oci_getGatewayBlocks X g)"
  unfolding oci_getGatewayBlocks_def blocks_in_def
  by (rule fold_entries [OF all_entries_Nil])
    (auto simp: Let_def oci_gateway_peers_def present_in intro!: all_entries_gset)

lemma oci_rules_entries:
  "all_entries (target_entry N P) objs \<Longrightarrow> ns \<in> N \<Longrightarrow> ns \<noteq> '''' \<Longrightarrow> blocks \<noteq> [] \<Longrightarrow> set blocks \<subseteq> P ns (in_Name ingress) \<Longrightarrow>
   all_entries (target_entry N P) (oci_rules ns services blocks ingress objs)"
  unfolding oci_rules_def by (rule fold_entries) (auto simp: addTarget_entries split: option.splits)

lemma oci_ingresses_entries:
  "all_entries (target_entry N P) objs \<Longrightarrow>
   (\<And>ingress c. ingress \<in> set ingresses \<Longrightarrow> in_ClassName ingress = Some c \<Longrightarrow> set (gslice classBlocks c) \<subseteq> P ns (in_Name ingress)) \<Longrightarrow>
   ns \<in> N \<Longrightarrow> ns \<noteq> '''' \<Longrightarrow> all_entries (target_entry N P) (oci_ingresses_loop classBlocks ns services ingresses objs)"
proof (induction classBlocks ns services ingresses objs rule: oci_ingresses_loop.induct)
  case (2 classBlocks ns services ingress ingresses objs)
  show ?case
  proof (cases "in_ClassName ingress = None \<or> gslice classBlocks (the (in_ClassName ingress)) = []")
    case True
    with 2 show ?thesis by (auto simp: Let_def split: option.splits)
  next
    case False
    then obtain c where c: "in_ClassName ingress = Some c" "gslice classBlocks c \<noteq> []" by auto
    have "set (gslice classBlocks c) \<subseteq> P ns (in_Name ingress)" using "2.prems"(2) c(1) by simp
    then have "all_entries (target_entry N P) (oci_rules ns services (gslice classBlocks c) ingress objs)"
      by (intro oci_rules_entries) (use "2.prems" c(2) in simp_all)
    with 2 c show ?thesis by (simp add: Let_def)
  qed
qed simp

lemma oci_targets_entries:
  "oci_targets_loop X Z required classBlocks gatewayBlocks nss objs = Inr out \<Longrightarrow>
   all_entries (target_entry N (sources_of X Z required C G)) objs \<Longrightarrow>
   blocks_in C classBlocks \<Longrightarrow> blocks_in G gatewayBlocks \<Longrightarrow> set nss \<subseteq> N \<Longrightarrow>
   all_entries (target_entry N (sources_of X Z required C G)) out"
proof (induction nss arbitrary: objs)
  case (Cons ns nss)
  show ?case
  proof (cases "ns = ''''")
    case True
    with Cons show ?thesis by simp
  next
    case False
    with Cons.prems(1) obtain ingresses services objs2 where
      ing: "ExtractResources (Some required) (ns @ ''Ingresses'') (zx_ingress Z) = Inr ingresses" and
      parts: "routes_loop X Z gatewayBlocks ns services (gslice required (ns @ ''HTTPRoutes''))
        (oci_ingresses_loop classBlocks ns services ingresses objs) = Inr objs2"
      "oci_targets_loop X Z required classBlocks gatewayBlocks nss objs2 = Inr out"
      by (auto simp: res_simps)
    have N: "ns \<in> N" "set nss \<subseteq> N" using Cons.prems(5) by simp_all
    have "all_entries (target_entry N (sources_of X Z required C G)) (oci_ingresses_loop classBlocks ns services ingresses objs)"
      by (rule oci_ingresses_entries [OF Cons.prems(2) _ N(1) False]) (rule ingress_sources [OF ing Cons.prems(3)])
    then have "all_entries (target_entry N (sources_of X Z required C G)) objs2"
      by (rule routes_entries [OF parts(1) _ _ N(1) False]) (rule route_sources [OF _ Cons.prems(4)])
    from Cons.IH [OF parts(2) this Cons.prems(3,4) N(2)] show ?thesis .
  qed
qed simp

lemma oci_policies_entries:
  assumes "oci_generateTargetNetworkPolicies X Z g = Inr out"
  shows "all_entries (target_entry (set (zg_uqNamespaces (og_zone g)))
    (sources_of X Z (zg_required (og_zone g)) (oci_class_peers X (zg_required (og_zone g)) (zg_ingressClasses (og_zone g)))
      (oci_gateway_peers X (zg_required (og_zone g))))) out"
  using oci_targets_entries [OF assms [unfolded oci_generateTargetNetworkPolicies_def] all_entries_Nil oci_class_in oci_gateway_in]
  by simp

end
