(* ===== verification/Zone_Whole.thy ===== *)
theory Zone_Whole
  imports Zone_Networks
begin

text \<open>
  Everything a zone consists of on either cloud: the objects that both clouds share, the policies for its services,
  and the objects of the cloud, which are never roles, bindings or network policies of the cluster.
\<close>

section \<open>Objects of the clouds\<close>

definition cloud_kinds :: "string set" where
  "cloud_kinds = {''ec2.aws.upbound.io/v1beta1'', ''iam.aws.upbound.io/v1beta1'', ''eks.aws.upbound.io/v1beta1'',
     ''external-secrets.io/v1'', ''v1''}"

fun cloud_object :: "gobject \<Rightarrow> bool" where
  "cloud_object (Typed ob) \<longleftrightarrow> k_apiVersion ob \<in> cloud_kinds"
| "cloud_object (Dynamic u) \<longleftrightarrow> True"

abbreviation cloud_entry :: "string \<Rightarrow> gobject \<Rightarrow> bool" where "cloud_entry \<equiv> \<lambda>n. cloud_object"

lemma cloud_objects [simp]:
  "k_apiVersion (cluster_object g apiVersion kind name labels annotations managed forProvider init) = apiVersion"
  by (simp add: cluster_object_def zone_object_def)

lemma cloud_kindsI [simp]:
  "''ec2.aws.upbound.io/v1beta1'' \<in> cloud_kinds" "''iam.aws.upbound.io/v1beta1'' \<in> cloud_kinds"
  "''eks.aws.upbound.io/v1beta1'' \<in> cloud_kinds" "''external-secrets.io/v1'' \<in> cloud_kinds" "''v1'' \<in> cloud_kinds"
  by (simp_all add: cloud_kinds_def)

lemma launch_templates_entries:
  "all_entries cloud_entry objs \<Longrightarrow> all_entries cloud_entry (launch_templates_loop g pools objs)"
  by (induction pools arbitrary: objs) (simp_all add: all_entries_gset launch_template_def Let_def)

lemma getNodeGroup_dynamic: "getNodeGroup X Z g pool version = Inr (Some (key, ng)) \<Longrightarrow> cloud_object ng"
  by (auto simp: getNodeGroup_def Let_def res_simps split: if_splits)

lemma node_groups_entries:
  "node_groups_loop X Z g pools objs = Inr out \<Longrightarrow> all_entries cloud_entry objs \<Longrightarrow> all_entries cloud_entry out"
proof (induction pools arbitrary: objs)
  case (Cons pool pools)
  from Cons.prems(1) obtain version where "observed_version Z g pool = Inr version" by (auto simp: res_simps)
  with Cons show ?case
    by (auto simp: res_simps all_entries_gset dest!: getNodeGroup_dynamic split: option.splits)
qed simp

lemma node_pools_aws_entries: "aws_generateNodePools X Z g = Inr out \<Longrightarrow> all_entries cloud_entry out"
  unfolding aws_generateNodePools_def Let_def
  by (erule node_groups_entries)
    (simp add: all_entries_gset all_entries_Cons all_entries_Nil getIAMRole_def getIAMRolePolicyAttachment_def
      getIAMRolePolicyAttachmentWithArnRef_def role_attachment_def getAccessEntry_def)

lemma secret_store_entries: "generateSecretStore Z g = Inr out \<Longrightarrow> all_entries cloud_entry out"
  by (auto simp: generateSecretStore_def Let_def res_simps all_entries_def getIAMRole_def getSecretStoreRolePolicy_def
      getSecretStoreServiceAccount_def getSecretStore_def zone_object_def split: if_splits)

lemma node_pools_oci_entries: "oci_generateNodePools X Z g = Inr out \<Longrightarrow> all_entries cloud_entry out"
proof -
  have "node_pools_loop X Z g t pools objs = Inr out \<Longrightarrow> all_entries cloud_entry objs \<Longrightarrow> all_entries cloud_entry out" for t pools objs
    by (induction pools arbitrary: objs) (auto simp: res_simps all_entries_gset split: option.splits)
  then show "oci_generateNodePools X Z g = Inr out \<Longrightarrow> all_entries cloud_entry out"
    by (auto simp: oci_generateNodePools_def Let_def all_entries_Nil split: if_splits option.splits)
qed

section \<open>A zone\<close>

text \<open>
  The load balancers that may send to the pods behind an ingress or a route of a namespace, by its name: those of the
  class of the ingress and those of the parents of the route, as the observed subnets, classes and gateways give them.
\<close>

fun class_peers :: "ext \<Rightarrow> zone_ext \<Rightarrow> CloudProvider \<Rightarrow> required \<Rightarrow> string \<Rightarrow> peer set" where
  "class_peers X Z CloudProviderAWS required name =
     (case (ExtractResources (Some required) ''IngressClasses'' (zx_ingress_class Z), ExtractResources (Some required) ''Subnets'' (zx_subnet Z)) of
        (Inr classes, Inr subnets) \<Rightarrow> aws_class_peers X Z required classes subnets name
      | _ \<Rightarrow> {})"
| "class_peers X Z CloudProviderOCI required name =
     (case ExtractResources (Some required) ''IngressClasses'' (zx_ingress_class Z) of
        Inr classes \<Rightarrow> oci_class_peers X required classes name
      | _ \<Rightarrow> {})"

fun gateway_peers :: "ext \<Rightarrow> zone_ext \<Rightarrow> CloudProvider \<Rightarrow> required \<Rightarrow> string \<Rightarrow> peer set" where
  "gateway_peers X Z CloudProviderAWS required key =
     (case ExtractResources (Some required) ''Subnets'' (zx_subnet Z) of
        Inr subnets \<Rightarrow> aws_gateway_peers X required subnets key
      | _ \<Rightarrow> {})"
| "gateway_peers X Z CloudProviderOCI required key = oci_gateway_peers X required key"

definition load_balancers :: "ext \<Rightarrow> zone_ext \<Rightarrow> CloudProvider \<Rightarrow> required \<Rightarrow> string \<Rightarrow> string \<Rightarrow> peer set" where
  "load_balancers X Z p required = sources_of X Z required (class_peers X Z p required) (gateway_peers X Z p required)"

inductive zone_entry :: "ext \<Rightarrow> zone_ext \<Rightarrow> CloudProvider \<Rightarrow> zoneGenerator \<Rightarrow> string \<Rightarrow> gobject \<Rightarrow> bool" for X Z p g where
  Common: "common_entry g n ob \<Longrightarrow> zone_entry X Z p g n ob"
| Cloud: "cloud_object ob \<Longrightarrow> zone_entry X Z p g n ob"
| Target: "target_entry (set (zg_uqNamespaces g)) (load_balancers X Z p (zg_required g)) n ob \<Longrightarrow> zone_entry X Z p g n ob"

lemma class_peers_eq:
  assumes "ExtractResources (Some required) ''IngressClasses'' (zx_ingress_class Z) = Inr classes"
    and "ExtractResources (Some required) ''Subnets'' (zx_subnet Z) = Inr subnets"
  shows "class_peers X Z CloudProviderAWS required = aws_class_peers X Z required classes subnets"
    and "gateway_peers X Z CloudProviderAWS required = aws_gateway_peers X required subnets"
  by (simp_all add: fun_eq_iff assms)

lemma oci_class_peers_eq:
  assumes "ExtractResources (Some required) ''IngressClasses'' (zx_ingress_class Z) = Inr classes"
  shows "class_peers X Z CloudProviderOCI required = oci_class_peers X required classes"
    and "gateway_peers X Z CloudProviderOCI required = oci_gateway_peers X required"
  by (simp_all add: fun_eq_iff assms)

lemma aws_entries:
  assumes g: "newAWSZoneGenerator Z g = Inr ag" and run: "aws_generate X Z ag = Inr out"
    and classes: "ExtractResources (Some (zg_required g)) ''IngressClasses'' (zx_ingress_class Z) = Inr (zg_ingressClasses g)"
  shows "all_entries (zone_entry X Z CloudProviderAWS g) out"
proof -
  from g have ag: "ag_zone ag = g" and subnets: "ExtractResources (Some (zg_required g)) ''Subnets'' (zx_subnet Z) = Inr (ag_subnets ag)"
    by (auto simp: newAWSZoneGenerator_def Let_def res_simps)
  from run obtain common pools store policies where
    parts: "generateCommon Z (ag_zone ag) = Inr common" "aws_generateNodePools X Z ag = Inr pools"
      "generateSecretStore Z ag = Inr store" "aws_generateTargetNetworkPolicies X Z ag = Inr policies"
    and out: "out = gcopy (gcopy (gcopy (gcopy common (generateLaunchTemplates ag)) pools) store) policies"
    by (auto simp: aws_generate_def Let_def res_simps)
  have "all_entries (zone_entry X Z CloudProviderAWS g) common"
    by (rule all_entries_mono [OF generateCommon_entries [OF parts(1), unfolded ag] Common])
  moreover have "all_entries (zone_entry X Z CloudProviderAWS g) policies"
    by (rule all_entries_mono [OF aws_policies_entries [OF parts(4), unfolded ag] Target])
      (simp add: subnets classes load_balancers_def class_peers_eq [OF classes subnets])
  moreover have "all_entries (zone_entry X Z CloudProviderAWS g) m" if "all_entries cloud_entry m" for m
    by (rule all_entries_mono [OF that Cloud])
  ultimately show ?thesis
    unfolding out generateLaunchTemplates_def
    by (intro all_entries_gcopy) (simp_all add: launch_templates_entries all_entries_Nil node_pools_aws_entries [OF parts(2)]
      secret_store_entries [OF parts(3)])
qed

lemma oci_entries:
  assumes g: "newOCIZoneGenerator X g = Inr og" and run: "oci_generate X Z og = Inr out"
    and classes: "ExtractResources (Some (zg_required g)) ''IngressClasses'' (zx_ingress_class Z) = Inr (zg_ingressClasses g)"
  shows "all_entries (zone_entry X Z CloudProviderOCI g) out"
proof -
  from g have og: "og_zone og = g" by (auto simp: newOCIZoneGenerator_def Let_def split: option.splits)
  from run obtain common pools policies where
    parts: "generateCommon Z (og_zone og) = Inr common" "oci_generateNodePools X Z og = Inr pools"
      "oci_generateTargetNetworkPolicies X Z og = Inr policies"
    and out: "out = gcopy (gcopy common pools) policies"
    by (auto simp: oci_generate_def res_simps)
  show ?thesis
    unfolding out
    by (intro all_entries_gcopy all_entries_mono [OF generateCommon_entries [OF parts(1), unfolded og] Common]
        all_entries_mono [OF node_pools_oci_entries [OF parts(2)] Cloud]
        all_entries_mono [OF oci_policies_entries [OF parts(3), unfolded og] Target])
      (simp_all add: load_balancers_def oci_class_peers_eq [OF classes])
qed

text \<open>The generator that \<open>GenerateZoneObjects\<close> builds first.\<close>

lemma newZoneGenerator_parts:
  assumes "newZoneGenerator X Z z required observed p = Inr g"
  shows "zg_zone g = z" "zg_required g = required" "tenancy_GetEnvironment X Z required = Inr (zg_env g)"
    "ValidateFor (zg_env g) p = Inr ()" "ExtractResources (Some required) ''Namespaces'' (zx_namespace Z) = Inr (zg_namespaces g)"
    "zg_uqNamespaces g = GetUniqueNamespaces z (zg_namespaces g)" "zg_roleMappings g = mergeRoleMappings z (zg_env g)"
    "ExtractResources (Some required) ''IngressClasses'' (zx_ingress_class Z) = Inr (zg_ingressClasses g)"
  using assms by (auto simp: newZoneGenerator_def res_simps)

theorem zone_entries:
  assumes "GenerateZoneObjects X Z p z required observed = Inr out"
  obtains g where "newZoneGenerator X Z z required observed p = Inr g" and "all_entries (zone_entry X Z p g) out"
proof -
  from assms obtain g where g: "newZoneGenerator X Z z required observed p = Inr g"
    by (auto simp: GenerateZoneObjects_def res_simps)
  have classes: "ExtractResources (Some (zg_required g)) ''IngressClasses'' (zx_ingress_class Z) = Inr (zg_ingressClasses g)"
    using newZoneGenerator_parts(2,8) [OF g] by simp
  have "all_entries (zone_entry X Z p g) out"
    using assms g aws_entries [OF _ _ classes] oci_entries [OF _ _ classes]
    by (cases p) (auto simp: GenerateZoneObjects_def res_simps)
  with g that show thesis by blast
qed

end
