(* ===== verification/Zone_Demo.thy ===== *)
theory Zone_Demo
  imports Zone_Whole
begin

text \<open>
  A zone on either cloud, its environment, and conversions on which the properties of the tenancy group are
  evaluated: one namespace with an ingress whose class leads to one subnet, and observers.
\<close>

definition demo_zone :: Zone where
  "demo_zone = \<lparr>zo_kind = XRKindZone, zo_name = ''team'', zo_labels = [], zo_annotations = [], zo_ClusterPermissions = False,
     zo_AppProject = Some [''devs''], zo_GranularNamespaceNetworkPolicy = None, zo_Namespaces = [\<lparr>zn_Name = ''web'', zn_Pool = ''''\<rparr>],
     zo_Pools = [], zo_RoleMapping = [\<lparr>rm_RoleRef = RoleObserver, rm_Groups = [''guests'', ''auditors'', ''guests'']\<rparr>]\<rparr>"

definition demo_zone_env :: tenancy_Environment where
  "demo_zone_env = zero_tenancy_Environment\<lparr>te_ArgoCDNamespace := ''argocd'', te_SecurityGroup := ''nodes'', te_Cluster := ''main'',
     te_ComputeSubnetType := ''compute'', te_PodSecurity := ''baseline'', te_NamespaceRole := Some [], te_AWSProvider := ''aws'',
     te_VPC := ''vpc'', te_OCIProvider := ''oci''\<rparr>"

definition demo_service :: service_ref where
  "demo_service = \<lparr>sv_Name = ''shop'', sv_Ports = [\<lparr>sv_PortName = ''http'', sv_Port = 80, sv_TargetPort = StrVal ''http''\<rparr>],
     sv_Selector = [(''app'', ''shop'')]\<rparr>"

definition demo_ingress :: "backend_service option list \<Rightarrow> ingress" where
  "demo_ingress paths = \<lparr>in_Name = ''front'', in_Annotations = [], in_ClassName = Some ''alb'', in_Rules = [None, Some paths]\<rparr>"

definition demo_backend :: backend_service where
  "demo_backend = \<lparr>bs_Name = ''shop'', bs_PortName = '''', bs_PortNumber = 80\<rparr>"

definition demo_class :: "string \<Rightarrow> string \<Rightarrow> ingress_class" where
  "demo_class api kind = \<lparr>cl_Name = ''alb'', cl_Parameters = Some \<lparr>cp_APIGroup = Some api, cp_Kind = kind, cp_Name = ''public'',
     cp_Namespace = Some ''infra''\<rparr>\<rparr>"

definition demo_subnet :: subnet_ref where
  "demo_subnet = \<lparr>sn_Labels = [], sn_Annotations = [(''crossplane.io/external-name'', ''subnet-1'')], sn_ID = Some ''subnet-1'',
     sn_AvailabilityZone = None, sn_CidrBlock = Some ''10.0.1.0/24''\<rparr>"

definition demo_zone_ext :: "ingress_class \<Rightarrow> backend_service option list \<Rightarrow> zone_ext" where
  "demo_zone_ext c paths = \<lparr>zx_zone = (\<lambda>ob. Inr demo_zone), zx_environment = (\<lambda>ob. (demo_zone_env, None)),
     zx_namespace = (\<lambda>ob. Inl (Error ''not of this type'')), zx_ingress_class = (\<lambda>ob. Inr c), zx_ingress = (\<lambda>ob. Inr (demo_ingress paths)),
     zx_service = (\<lambda>ob. Inr demo_service), zx_vpc = (\<lambda>ob. Inr \<lparr>vpc_name = ''main'', vpc_spec_region = Some ''eu-north-1'', vpc_status_region = Some ''eu-north-1''\<rparr>),
     zx_kms_alias = (\<lambda>ob. Inr None), zx_security_group = (\<lambda>ob. Inr (Some ''sg-1'')),
     zx_cluster = (\<lambda>ob. Inr \<lparr>ek_Name = ''main'', ek_Version = None, ek_Arn = None, ek_Identity = []\<rparr>), zx_subnet = (\<lambda>ob. Inr demo_subnet),
     zx_launch_template = (\<lambda>ob. Inr None), zx_alb_action = (\<lambda>s. None), zx_to_unstructured = (\<lambda>ob. Inr []),
     zx_set_string = (\<lambda>ob s path. Inr ob), zx_set_slice = (\<lambda>ob xs path. Inr ob), zx_string_slice = (\<lambda>ob path. Inr (Some [''subnet-1''])),
     zx_int32 = (\<lambda>x. 0), zx_quote = (\<lambda>s. s)\<rparr>"

abbreviation demo_aws :: "backend_service option list \<Rightarrow> zone_ext" where
  "demo_aws paths \<equiv> demo_zone_ext (demo_class ''elbv2.k8s.aws'' ''IngressClassParams'') paths"
abbreviation demo_oci :: zone_ext where
  "demo_oci \<equiv> demo_zone_ext (demo_class ''ingress.oraclecloud.com'' ''IngressClassParameters'') [Some demo_backend]"

definition demo_zone_required :: required where
  "demo_zone_required = [(EnvironmentKey, [Some [(''data'', JObj [(''cluster'', JStr ''main'')])]]), (''Cluster'', [Some []]),
     (''NodeSecurityGroup'', [Some []]), (''VPC'', [Some []]), (''IngressClasses'', [Some []]),
     (''Subnets'', [Some [(''status'', JObj [(''atProvider'', JObj [(''id'', JStr ''subnet-1''), (''cidrBlock'', JStr ''10.0.1.0/24'')])])]]),
     (''IngressClassParams'', [Some [(''metadata'', JObj [(''name'', JStr ''public''), (''namespace'', JStr ''infra'')]),
        (''spec'', JObj [(''subnetId'', JStr ''subnet-1'')])]]),
     (''webIngresses'', [Some []]), (''webServices'', [Some []])]"

definition demo_zone_gen :: zoneGenerator where
  "demo_zone_gen = \<lparr>zg_zone = demo_zone, zg_observed = [], zg_required = demo_zone_required, zg_env = demo_zone_env, zg_namespaces = [],
     zg_ingressClasses = [], zg_zoneAnnotations = [(TenancyZoneLabel, ''team'')], zg_zoneTags = [(TenancyZoneLabel, Some ''team'')],
     zg_egressExclude = [], zg_uqNamespaces = [''web''], zg_roleMappings = [(RoleObserver, [''auditors'', ''guests''])]\<rparr>"

lemma demo_gen_parts:
  "tenancy_GetEnvironment std_ext (demo_zone_ext c paths) demo_zone_required = Inr demo_zone_env"
  "ExtractResources (Some demo_zone_required) ''Namespaces'' (zx_namespace (demo_zone_ext c paths)) = Inr []"
  "ExtractResources (Some demo_zone_required) ''IngressClasses'' (zx_ingress_class (demo_zone_ext c paths)) = Inr [c]"
  "GetUniqueNamespaces demo_zone [] = [''web'']"
  "mergeRoleMappings demo_zone demo_zone_env = [(RoleObserver, [''auditors'', ''guests''])]"
  by code_simp+

lemma demo_gen:
  "newZoneGenerator std_ext (demo_zone_ext c paths) demo_zone demo_zone_required [] p = Inr (demo_zone_gen\<lparr>zg_ingressClasses := [c]\<rparr>)"
proof -
  have "ValidateFor demo_zone_env p = Inr ()"
    by (cases p) (simp_all add: ValidateFor_def demo_zone_env_def)
  moreover have "zo_name demo_zone = ''team''" "te_Tags demo_zone_env = []" "te_GranularEgressExclude demo_zone_env = []"
    by (simp_all add: demo_zone_def demo_zone_env_def zero_tenancy_Environment_def)
  ultimately show ?thesis
    by (simp add: newZoneGenerator_def demo_gen_parts demo_zone_gen_def NewSet_def)
qed

text \<open>The objects that both clouds share: one namespace.\<close>

lemma demo_zone_simps [simp]:
  "zg_zone demo_zone_gen = demo_zone" "zg_env demo_zone_gen = demo_zone_env" "zg_namespaces demo_zone_gen = []"
  "zg_roleMappings demo_zone_gen = [(RoleObserver, [''auditors'', ''guests''])]" "zg_uqNamespaces demo_zone_gen = [''web'']"
  "zg_required demo_zone_gen = demo_zone_required" "zo_name demo_zone = ''team''" "zo_Pools demo_zone = []"
  "zo_Namespaces demo_zone = [\<lparr>zn_Name = ''web'', zn_Pool = ''''\<rparr>]"
  "te_GranularEgress demo_zone_env = False" "te_CreateAppsNamespace demo_zone_env = False"
  by (simp_all add: demo_zone_gen_def demo_zone_def demo_zone_env_def zero_tenancy_Environment_def)

lemma demo_conversions [simp]:
  "zx_to_unstructured (demo_zone_ext c paths) ob = Inr []" "zx_set_slice (demo_zone_ext c paths) u xs path = Inr u"
  by (simp_all add: demo_zone_ext_def)

lemma demo_zone_common:
  fixes c :: ingress_class
  defines "g \<equiv> demo_zone_gen\<lparr>zg_ingressClasses := [c]\<rparr>"
  shows "\<exists>common. generateCommon (demo_zone_ext c paths) g = Inr common \<and> wf_map common \<and>
     map_of common ''netpol-team-web'' = Some (Typed (getNetworkPolicy g ''web'' (granular_policies g))) \<and>
     map_of common ''rb-observer-team-web'' = Some (Typed (getRoleBinding g ''web'' ''web-observer'' ''web-read'' [''auditors'', ''guests'']))"
proof -
  have no: "getClusterRoleBinding g RoleContributor = None" by (simp add: getClusterRoleBinding_def g_def)
  have "set_Contains (NewSet []) ''web'' = False" by code_simp
  with no obtain common where c: "generateCommon (demo_zone_ext c paths) g = Inr common" and
    m: "map_of common ''netpol-team-web'' = Some (Typed (getNetworkPolicy g ''web'' (granular_policies g)))"
       "map_of common ''rb-observer-team-web'' = Some (Typed (getRoleBinding g ''web'' ''web-observer'' ''web-read'' [''auditors'', ''guests'']))"
    by (simp add: generateCommon_def generateNamespaces_def generateNamespace_def namespace_access_def Let_def
        withoutPodControllerAutogen_def g_def gcopy_def GetAppProjectKey_def GetValidatingPolicyKey_def GetLabelsMutatingPolicyKey_def GetMutatingPolicyKey_def
        GetRBKey_def GetRBACRoleReadKey_def GetRBACRoleAllKey_def GetNetworkPolicyKey_def GetNamespaceKey_def)
  then show ?thesis using generateCommon_wf [OF c] by blast
qed

end
