(* ===== verification/Zone_Props.thy ===== *)
theory Zone_Props
  imports Zone_Demo
begin

text \<open>
  Properties of a zone's inputs: the merged role mappings, the resources it asks for, the paths of its JSON
  patches, and the pools of OCI.
\<close>

section \<open>Role mappings\<close>

definition mapped_groups :: "Zone \<Rightarrow> tenancy_Environment \<Rightarrow> string \<Rightarrow> string list" where
  "mapped_groups z env role =
     concat (map rm_Groups (filter (\<lambda>rm. rm_RoleRef rm = role) (zo_RoleMapping z @ te_RoleMapping env)))"

lemma add_mappings_lookup:
  "map_of (add_mappings rms merged) role =
     (if role \<in> rm_RoleRef ` set rms
      then Some (gslice merged role @ concat (map rm_Groups (filter (\<lambda>rm. rm_RoleRef rm = role) rms)))
      else map_of merged role)"
proof (induction rms arbitrary: merged)
  case (Cons rm rms)
  show ?case
  proof (cases "rm_RoleRef rm = role")
    case True
    have "gslice (gset role (gslice merged role @ rm_Groups rm) merged) role = gslice merged role @ rm_Groups rm" by simp
    moreover have "filter (\<lambda>rm. rm_RoleRef rm = role) rms = []" if "role \<notin> rm_RoleRef ` set rms"
      using that by (auto simp: filter_empty_conv)
    ultimately show ?thesis using True by (simp add: Cons.IH)
  next
    case False
    then have "gslice (gset (rm_RoleRef rm) v merged) role = gslice merged role" for v by (simp add: gslice_def)
    with False show ?thesis by (auto simp: Cons.IH)
  qed
qed simp

lemma map_of_keyed: "map_of (map (\<lambda>(k, v). (k, f k v)) m) k = map_option (f k) (map_of m k)"
  by (induction m) auto

lemma unique_groups_list:
  "unique_groups z role groups =
     sorted_list_of_set (set groups \<union> (if role = RoleContributor then set (case zo_AppProject z of None \<Rightarrow> [] | Some cs \<Rightarrow> cs) else {}))"
proof -
  have canonical: "sort (set_ToSlice (ToSet xs)) = sorted_list_of_set (set xs)" for xs :: "string list"
    by (rule sorted_distinct_set_unique) (simp_all add: ToSet_def set_ops.slice set_ops.new)
  show ?thesis
    unfolding unique_groups_def canonical by (auto simp: mergeContributorGroups_def split: option.split)
qed

text \<open>
  C37: the groups of a role. A role that no mapping of the zone or of the environment names has no entry;
  any other role maps to the groups that the mappings give it, each once and in order, and the contributor role
  to the contributor groups of the application project as well. So these groups are bound to nothing when no
  mapping names the contributor role.
\<close>

theorem role_mapping:
  "map_of (mergeRoleMappings z env) role =
     (if role \<in> rm_RoleRef ` set (zo_RoleMapping z @ te_RoleMapping env)
      then Some (sorted_list_of_set (set (mapped_groups z env role) \<union>
        (if role = RoleContributor then set (case zo_AppProject z of None \<Rightarrow> [] | Some groups \<Rightarrow> groups) else {})))
      else None)"
proof -
  let ?zone = "filter (\<lambda>rm. rm_RoleRef rm = role) (zo_RoleMapping z)"
  have first: "gslice (add_mappings (zo_RoleMapping z) []) role = concat (map rm_Groups ?zone)"
    by (cases "role \<in> rm_RoleRef ` set (zo_RoleMapping z)") (auto simp: gslice_def add_mappings_lookup filter_empty_conv)
  have "map_of (add_mappings (te_RoleMapping env) (add_mappings (zo_RoleMapping z) [])) role =
      (if role \<in> rm_RoleRef ` set (zo_RoleMapping z @ te_RoleMapping env) then Some (mapped_groups z env role) else None)"
  proof (cases "role \<in> rm_RoleRef ` set (te_RoleMapping env)")
    case True
    then show ?thesis
      unfolding add_mappings_lookup [of "te_RoleMapping env"] first mapped_groups_def by auto
  next
    case False
    then have "filter (\<lambda>rm. rm_RoleRef rm = role) (te_RoleMapping env) = []" by (auto simp: filter_empty_conv)
    with False show ?thesis by (auto simp: add_mappings_lookup gslice_def mapped_groups_def)
  qed
  then show ?thesis by (simp add: mergeRoleMappings_def map_of_keyed unique_groups_list)
qed

section \<open>Paths of JSON patches\<close>

text \<open>The reading of a reference token of RFC 6901.\<close>

fun pointer_token :: "string \<Rightarrow> string" where
  "pointer_token (c # d # s) =
     (if c = CHR ''~'' \<and> d = CHR ''1'' then CHR ''/'' # pointer_token s
      else if c = CHR ''~'' \<and> d = CHR ''0'' then CHR ''~'' # pointer_token s
      else c # pointer_token (d # s))"
| "pointer_token s = s"

lemma escape_Cons:
  "escapeJSONPointer (c # s) =
     (if c = CHR ''~'' then ''~0'' else if c = CHR ''/'' then ''~1'' else [c]) @ escapeJSONPointer s"
  by (simp add: escapeJSONPointer_def replace_char_def)

lemma pointer_token_Cons: "c \<noteq> CHR ''~'' \<Longrightarrow> pointer_token (c # s) = c # pointer_token s"
  by (cases s) simp_all

text \<open>
  An escaped key is one token of a JSON pointer, and reads back as the key; the label of the zone is written
  out escaped in the policy for services.
\<close>

theorem json_pointer_roundtrip:
  "pointer_token (escapeJSONPointer key) = key \<and> CHR ''/'' \<notin> set (escapeJSONPointer key) \<and>
   escapeJSONPointer TenancyZoneLabel = ''tenancy.entigo.com~1zone''"
proof (intro conjI)
  show "pointer_token (escapeJSONPointer key) = key"
    by (induction key) (simp_all add: escape_Cons pointer_token_Cons escapeJSONPointer_def [of "[]"] replace_char_def)
  show "CHR ''/'' \<notin> set (escapeJSONPointer key)"
    by (induction key) (simp_all add: escape_Cons escapeJSONPointer_def [of "[]"] replace_char_def)
  show "escapeJSONPointer TenancyZoneLabel = ''tenancy.entigo.com~1zone''" by code_simp
qed

section \<open>Required resources\<close>

text \<open>
  Crossplane runs a function again with what the resources it asked for are, until it asks for the same ones:
  the resources after a number of runs, when \<open>fetch\<close> is what the cluster has.
\<close>

definition fetched :: "(selector \<Rightarrow> object option list) \<Rightarrow> selectors \<Rightarrow> required" where
  "fetched fetch = map (\<lambda>(key, s). (key, fetch s))"

fun requirement_rounds ::
  "ext \<Rightarrow> zone_ext \<Rightarrow> CloudProvider \<Rightarrow> object \<Rightarrow> (selector \<Rightarrow> object option list) \<Rightarrow> nat \<Rightarrow> required res" where
  "requirement_rounds X Z p composite fetch 0 = Inr []"
| "requirement_rounds X Z p composite fetch (Suc n) =
     bindr (requirement_rounds X Z p composite fetch n) (\<lambda>required.
     bindr (tenancy_GetRequiredResources X Z p composite required) (\<lambda>s. Inr (fetched fetch s)))"

lemma map_of_fetched: "map_of (fetched fetch s) k = map_option fetch (map_of s k)"
  by (induction s) (auto simp: fetched_def)

text \<open>The function looks only at the environment and at the namespaces it asked for.\<close>

lemma required_depends:
  assumes "map_of r1 EnvironmentKey = map_of r2 EnvironmentKey" and "map_of r1 ''Namespaces'' = map_of r2 ''Namespaces''"
  shows "tenancy_GetRequiredResources X Z p composite r1 = tenancy_GetRequiredResources X Z p composite r2"
proof -
  have "tenancy_GetEnvironment X Z r1 = tenancy_GetEnvironment X Z r2"
    by (simp only: tenancy_GetEnvironment_def GetEnvironment_def gslice_def assms(1))
  moreover have "ExtractResources (Some r1) ''Namespaces'' conv = ExtractResources (Some r2) ''Namespaces'' conv" for conv :: "object \<Rightarrow> namespace_ref res"
    by (simp only: ExtractResources_def gslice_def assms(2) option.case)
  ultimately show ?thesis unfolding tenancy_GetRequiredResources_def assms(1) by (simp only:)
qed

definition base_selectors :: "Zone \<Rightarrow> selectors" where
  "base_selectors zone = [(EnvironmentKey, RequiredEnvironmentConfig ''platform-apis-zone''),
     (''Namespaces'', \<lparr>sel_kind = ''Namespace'', sel_api_version = ''v1'',
        sel_match = MatchLabels [(TenancyZoneLabel, zo_name zone)], sel_namespace = None\<rparr>)]"

lemma suffix_apart: "n @ ''HTTPRoutes'' \<noteq> ''Namespaces''" "n @ ''Services'' \<noteq> ''Namespaces''" "n @ ''Ingresses'' \<noteq> ''Namespaces''"
  "n @ ''HTTPRoutes'' \<noteq> EnvironmentKey" "n @ ''Services'' \<noteq> EnvironmentKey" "n @ ''Ingresses'' \<noteq> EnvironmentKey"
  by (auto dest: arg_cong [where f = "\<lambda>s. take 3 (rev s)"])

lemma namespace_selectors_keep:
  "k = EnvironmentKey \<or> k = ''Namespaces'' \<Longrightarrow> map_of (namespace_selectors_loop nss resources) k = map_of resources k"
  by (induction nss resources rule: namespace_selectors_loop.induct) (auto simp: suffix_apart [symmetric])

lemma cloud_selectors_keep:
  "k = EnvironmentKey \<or> k = ''Namespaces'' \<Longrightarrow> map_of (awsSelectors env) k = None \<and> map_of (ociSelectors env) k = None"
  unfolding awsSelectors_def ociSelectors_def Let_def by (elim disjE) (simp_all del: update.simps split: if_splits)

lemma cloud_selectors_wf: "wf_map (awsSelectors env)" "wf_map (ociSelectors env)"
  unfolding awsSelectors_def ociSelectors_def Let_def by (simp_all del: update.simps)
lemma required_base:
  assumes "tenancy_GetRequiredResources X Z p composite required = Inr s" and "get_kind X composite = XRKindZone"
    and "k = EnvironmentKey \<or> k = ''Namespaces''"
  shows "\<exists>zone. zx_zone Z composite = Inr zone \<and> map_of s k = map_of (base_selectors zone) k"
proof -
  from assms(1,2) obtain zone where zone: "zx_zone Z composite = Inr zone"
    by (auto simp: tenancy_GetRequiredResources_def res_simps)
  show ?thesis
  proof (cases "map_of required EnvironmentKey = None")
    case True
    with assms(1,2) zone have "s = base_selectors zone" by (simp add: tenancy_GetRequiredResources_def base_selectors_def)
    with zone show ?thesis by simp
  next
    case False
    define cloud where "cloud env = (case p of CloudProviderOCI \<Rightarrow> ociSelectors env | CloudProviderAWS \<Rightarrow> awsSelectors env)" for env
    from False assms(1,2) zone obtain env nss ic gw where
      s: "s = namespace_selectors_loop nss (gset ''Gateways'' gw (gset ''IngressClasses'' ic (gcopy (base_selectors zone) (cloud env))))"
      by (auto simp: tenancy_GetRequiredResources_def base_selectors_def cloud_def Let_def res_simps simp del: update.simps)
    have "wf_map (cloud env)" "map_of (cloud env) k = None"
      using cloud_selectors_wf cloud_selectors_keep [OF assms(3)] by (auto simp: cloud_def split: CloudProvider.split)
    with zone assms(3) show ?thesis
      unfolding s namespace_selectors_keep [OF assms(3)]
      by (auto simp: map_of_gcopy_apply simp del: update.simps)
  qed
qed

text \<open>
  C35: the requirements settle. Whatever the cluster answers, two runs are enough: a zone asks from the third run on
  for what it asked for in the second, since what it asks for depends only on the environment and the namespaces,
  which it asks for from the first run on; a failure of the second run is the failure of every later one.
\<close>

theorem requirements_settle:
  "requirement_rounds X Z p composite fetch (n + 2) = requirement_rounds X Z p composite fetch 2"
proof (cases "get_kind X composite = XRKindZone")
  case False
  then have "requirement_rounds X Z p composite fetch m = Inr []" for m
    by (induction m) (simp_all add: tenancy_GetRequiredResources_def fetched_def)
  then show ?thesis by (simp only:)
next
  case kind: True
  let ?run = "\<lambda>r. bindr (tenancy_GetRequiredResources X Z p composite r) (\<lambda>s. Inr (fetched fetch s))"
  have same: "?run (fetched fetch s1) = ?run (fetched fetch s2)"
    if s: "tenancy_GetRequiredResources X Z p composite r1 = Inr s1" "tenancy_GetRequiredResources X Z p composite r2 = Inr s2" for r1 r2 s1 s2
  proof -
    have "map_of (fetched fetch s1) k = map_of (fetched fetch s2) k" if "k = EnvironmentKey \<or> k = ''Namespaces''" for k
      using required_base [OF s(1) kind that] required_base [OF s(2) kind that] by (auto simp: map_of_fetched)
    then show ?thesis using required_depends [of "fetched fetch s1" "fetched fetch s2" X Z p composite] by simp
  qed
  have step: "bindr (?run r) ?run = bindr (bindr (?run r) ?run) ?run" for r
  proof (cases "tenancy_GetRequiredResources X Z p composite r")
    case (Inr s)
    show ?thesis
    proof (cases "tenancy_GetRequiredResources X Z p composite (fetched fetch s)")
      case (Inr s2)
      with same [OF \<open>_ r = Inr s\<close> Inr, symmetric] \<open>_ r = Inr s\<close> show ?thesis by simp
    qed (use Inr in simp)
  qed simp
  show ?thesis
  proof (induction n)
    case (Suc n)
    have "requirement_rounds X Z p composite fetch (Suc n + 2) = bindr (requirement_rounds X Z p composite fetch (n + 2)) ?run"
      by simp
    also have "\<dots> = bindr (requirement_rounds X Z p composite fetch 2) ?run" by (simp only: Suc.IH)
    also have "\<dots> = requirement_rounds X Z p composite fetch 2"
      using step [of "[]"] by (simp add: numeral_2_eq_2)
    finally show ?case .
  qed (simp only: add_0)
qed

section \<open>Pools on OCI\<close>

definition oci_keys :: "string list" where
  "oci_keys = [''instance-type'', ''zone'', ''capacity-type'', ''min-size'', ''max-size'', ''security-groups'', ''oci/ocpus'',
     ''oci/memory-gb'', ''oci/image'']"

lemma oci_requirement:
  assumes "oci_requirements_loop Z name (r # rs) spec = Inr out"
  obtains spec' where "oci_requirements_loop Z name rs spec' = Inr out" and "rq_Key r \<in> set oci_keys"
    and "rq_Key r = ''instance-type'' \<Longrightarrow> length (rq_Values r) = 1"
    and "os_nsgIDs spec' = os_nsgIDs spec @ (if rq_Key r = ''security-groups'' then rq_Values r else [])"
    and "os_ocpus spec' \<noteq> None \<longleftrightarrow> os_ocpus spec \<noteq> None \<or> rq_Key r = ''oci/ocpus''"
  using assms
  by (simp add: Let_def oci_keys_def split: if_splits list.splits; (elim exE conjE)?; force simp: res_simps)

lemma oci_requirements_spec:
  "oci_requirements_loop Z name rs spec = Inr out \<Longrightarrow>
   (\<forall>r \<in> set rs. rq_Key r \<in> set oci_keys \<and> (rq_Key r = ''instance-type'' \<longrightarrow> length (rq_Values r) = 1)) \<and>
   os_nsgIDs out = os_nsgIDs spec @ concat (map (\<lambda>r. if rq_Key r = ''security-groups'' then rq_Values r else []) rs) \<and>
   (os_ocpus out \<noteq> None \<longleftrightarrow> os_ocpus spec \<noteq> None \<or> ''oci/ocpus'' \<in> rq_Key ` set rs)"
proof (induction rs arbitrary: spec)
  case (Cons r rs)
  from Cons.prems show ?case by (rule oci_requirement) (use Cons.IH in auto)
qed simp

text \<open>
  C38: a pool that is accepted is well-formed: only requirements that OCI knows, one shape, the number of processors for
  a flexible shape, the security groups of all its requirements in order, and a maximum that is the
  minimum when none was asked for.
\<close>

theorem oci_pool_type:
  assumes "parseOCIPool Z pool = Inr spec"
  shows "os_shape spec \<noteq> '''' \<and> (has_suffix (os_shape spec) ''.Flex'' \<longrightarrow> os_ocpus spec \<noteq> None) \<and>
     (\<forall>r \<in> set (po_Requirements pool). rq_Key r \<in> set oci_keys \<and> (rq_Key r = ''instance-type'' \<longrightarrow> length (rq_Values r) = 1)) \<and>
     os_nsgIDs spec = concat (map (\<lambda>r. if rq_Key r = ''security-groups'' then rq_Values r else []) (po_Requirements pool)) \<and>
     (os_ocpus spec \<noteq> None \<longleftrightarrow> ''oci/ocpus'' \<in> rq_Key ` set (po_Requirements pool)) \<and>
     (float_eq (os_maxSize spec) (-1) \<longrightarrow> os_maxSize spec = os_minSize spec)"
proof -
  from assms obtain s where s: "oci_requirements_loop Z (po_Name pool) (po_Requirements pool) default_oci_spec = Inr s"
    by (auto simp: parseOCIPool_def res_simps)
  from assms have shape: "os_shape s \<noteq> ''''" "\<not> (has_suffix (os_shape s) ''.Flex'' \<and> os_ocpus s = None)"
    and spec: "spec = (if float_eq (os_maxSize s) (-1) then s\<lparr>os_maxSize := os_minSize s\<rparr> else s)"
    by (simp_all add: parseOCIPool_def s split: if_split_asm)
  from oci_requirements_spec [OF s] shape show ?thesis
    unfolding spec by (simp add: default_oci_spec_def)
qed

definition demo_requirement :: "string \<Rightarrow> string list \<Rightarrow> Requirement" where
  "demo_requirement key values = \<lparr>rq_Key = key, rq_Value = IntVal 2, rq_Values = values\<rparr>"

definition demo_pool :: Pool where
  "demo_pool = \<lparr>po_Name = ''main'', po_Requirements = [demo_requirement ''instance-type'' [''VM.Standard.E4.Flex''],
     demo_requirement ''oci/ocpus'' [], demo_requirement ''security-groups'' [''nsg-1'']]\<rparr>"

definition demo_pool_spec :: ociPoolSpec where
  "demo_pool_spec = default_oci_spec\<lparr>os_shape := ''VM.Standard.E4.Flex'', os_ocpus := Some (Fin 2), os_nsgIDs := [''nsg-1''],
     os_maxSize := Fin 1\<rparr>"

lemma demo_pool_parsed: "parseOCIPool Z demo_pool = Inr demo_pool_spec"
  by (simp add: parseOCIPool_def demo_pool_def demo_requirement_def getIntOrFloat_def default_oci_spec_def demo_pool_spec_def)

theorem oci_pool_type_witness:
  "parseOCIPool demo_oci demo_pool = Inr demo_pool_spec \<and> os_nsgIDs demo_pool_spec = [''nsg-1''] \<and> os_ocpus demo_pool_spec \<noteq> None"
  using oci_pool_type [OF demo_pool_parsed] demo_pool_parsed by (simp add: demo_pool_def demo_requirement_def)

section \<open>Placements on OCI\<close>

text \<open>The domains a pool may use: those of the template, restricted to the zones it names, if it names any.\<close>

definition usable_domain :: "ext \<Rightarrow> object \<Rightarrow> ociPoolSpec \<Rightarrow> string \<Rightarrow> bool" where
  "usable_domain X templatePool spec domain \<longleftrightarrow>
     domain \<noteq> '''' \<and> (os_zones spec = [] \<or> domain \<in> elems (os_zones spec)) \<and>
     (\<exists>placements p. map_of (template_config X templatePool) ''placementConfigs'' = Some (JArr placements) \<and>
        JObj p \<in> set placements \<and> map_of p ''availabilityDomain'' = Some (JStr domain))"

fun json_text :: "json \<Rightarrow> string \<Rightarrow> string option" where
  "json_text (JObj m) key = (case map_of m key of Some (JStr s) \<Rightarrow> Some s | _ \<Rightarrow> None)"
| "json_text v key = None"

lemma set_Contains_elems: "set_Contains s x \<longleftrightarrow> x \<in> elems s"
  by (simp add: set_Contains_def elems_def map_of_eq_None_iff)

lemma domains_loop_spec:
  "distinct domains \<Longrightarrow> distinct (domains_loop zones ps domains) \<and>
   set (domains_loop zones ps domains) = set domains \<union>
     {d. d \<noteq> '''' \<and> (zones = [] \<or> d \<in> elems zones) \<and> (\<exists>p. JObj p \<in> set ps \<and> map_of p ''availabilityDomain'' = Some (JStr d))}"
proof (induction zones ps domains rule: domains_loop.induct)
  case (2 zones p ps domains)
  show ?case
  proof (cases "\<exists>d. map_of p ''availabilityDomain'' = Some (JStr d)")
    case True
    then obtain d where d: "map_of p ''availabilityDomain'' = Some (JStr d)" by auto
    show ?thesis
    proof (cases "d = '''' \<or> d \<in> set domains \<or> set_Size zones > 0 \<and> \<not> set_Contains zones d")
      case skip: True
      with 2 d show ?thesis by (auto simp: set_Size_def set_Contains_elems)
    next
      case False
      with 2 d show ?thesis by (auto simp: set_Size_def set_Contains_elems)
    qed
  next
    case False
    with 2 show ?thesis by (auto split: option.splits json.splits)
  qed
qed auto

lemma placements_nth:
  "i < length domains \<Longrightarrow>
   json_text (placements_loop subnets preemptible k domains ! i) ''availabilityDomain'' = Some (domains ! i) \<and>
   json_text (placements_loop subnets preemptible k domains ! i) ''subnetId'' = Some (subnets ! ((k + i) mod length subnets))"
  by (induction subnets preemptible k domains arbitrary: i rule: placements_loop.induct) (auto simp: nth_Cons' less_Suc_eq_0_disj)

lemma placements_length: "length (placements_loop subnets preemptible k domains) = length domains"
  by (induction subnets preemptible k domains rule: placements_loop.induct) simp_all

text \<open>How often a residue occurs below a bound.\<close>

lemma residue_count: "j < n \<Longrightarrow> card {i. i < m \<and> i mod n = j} = (m + n - 1 - j) div n"
proof (induction m)
  case 0
  then show ?case by simp
next
  case (Suc m)
  have split: "{i. i < Suc m \<and> i mod n = j} = {i. i < m \<and> i mod n = j} \<union> (if m mod n = j then {m} else {})"
    by (auto simp: less_Suc_eq)
  have "card {i. i < Suc m \<and> i mod n = j} = card {i. i < m \<and> i mod n = j} + (if m mod n = j then 1 else 0)"
    unfolding split by (subst card_Un_disjoint) auto
  moreover have "(Suc m + n - 1 - j) div n = (m + n - 1 - j) div n + (if m mod n = j then 1 else 0)"
  proof -
    have k: "Suc m + n - 1 - j = Suc (m + n - 1 - j)" using Suc.prems by simp
    have "Suc (m + n - 1 - j) mod n = 0 \<longleftrightarrow> m mod n = j"
    proof -
      have e: "Suc (m + n - 1 - j) + j = m + n" using Suc.prems by simp
      show ?thesis
      proof
        assume "Suc (m + n - 1 - j) mod n = 0"
        then have "(Suc (m + n - 1 - j) + j) mod n = j mod n" by (metis add_0 mod_add_left_eq)
        then show "m mod n = j" unfolding e using Suc.prems by simp
      next
        assume "m mod n = j"
        then have "m = n * (m div n) + j" by (metis mult_div_mod_eq)
        with e have "Suc (m + n - 1 - j) = n * (m div n + 1)" by (simp add: algebra_simps)
        then show "Suc (m + n - 1 - j) mod n = 0" by (metis mod_mult_self1_is_0)
      qed
    qed
    then show ?thesis unfolding k div_Suc by simp
  qed
  ultimately show ?case using Suc by simp
qed

lemma residue_bounds: "j < n \<Longrightarrow> card {i. i < m \<and> i mod n = j} \<in> {m div n, m div n + 1}" for m n j :: nat
proof -
  assume j: "j < n"
  have "m div n \<le> (m + n - 1 - j) div n" using j by (intro div_le_mono) simp
  moreover have "(m + n - 1 - j) div n \<le> (m + n) div n" by (intro div_le_mono) simp
  moreover have "(m + n) div n = m div n + 1" using j by simp
  ultimately show ?thesis unfolding residue_count [OF j] by (auto simp: le_Suc_eq)
qed

text \<open>
  C36: the placements of a pool: one for each domain it may use, in order, the subnets in turn. No subnet
  is used more often than another by more than one placement, and there is always a placement.
\<close>

theorem oci_placements:
  assumes "getPlacements X g templatePool poolName spec = Inr placements"
  shows "\<exists>domains. sorted domains \<and> distinct domains \<and> domains \<noteq> [] \<and> set domains = {d. usable_domain X templatePool spec d} \<and>
     length placements = length domains \<and>
     (\<forall>i < length domains. json_text (placements ! i) ''availabilityDomain'' = Some (domains ! i) \<and>
        json_text (placements ! i) ''subnetId'' = Some (og_subnetIDs g ! (i mod length (og_subnetIDs g)))) \<and>
     (\<forall>j < length (og_subnetIDs g). card {i. i < length placements \<and> i mod length (og_subnetIDs g) = j} \<in>
        {length placements div length (og_subnetIDs g), length placements div length (og_subnetIDs g) + 1})"
proof -
  let ?ds = "getAvailabilityDomains X templatePool spec"
  from assms have out: "placements = placements_loop (og_subnetIDs g) (os_preemptible spec) 0 ?ds" and ne: "?ds \<noteq> []"
    by (auto simp: getPlacements_def Let_def split: if_splits)
  have "distinct ?ds \<and> set ?ds = {d. usable_domain X templatePool spec d}"
  proof (cases "\<exists>ps. map_of (template_config X templatePool) ''placementConfigs'' = Some (JArr ps)")
    case True
    then show ?thesis by (auto simp: getAvailabilityDomains_def usable_domain_def domains_loop_spec)
  next
    case False
    then have "?ds = []" by (auto simp: getAvailabilityDomains_def split: option.splits json.splits)
    with ne show ?thesis by simp
  qed
  moreover have "sorted ?ds" by (simp add: getAvailabilityDomains_def)
  ultimately show ?thesis
    using ne residue_bounds unfolding out
    by (intro exI [of _ ?ds]) (simp add: placements_length placements_nth [where k = 0, simplified])
qed

definition demo_template :: object where
  "demo_template = [(''status'', JObj [(''atProvider'', JObj [(''nodeConfigDetails'', JArr [JObj [(''placementConfigs'', JArr
     (map (\<lambda>d. JObj [(''availabilityDomain'', JStr d)]) [''AD-3'', ''AD-1'', ''AD-2'', ''AD-1'']))]])])])]"

definition demo_oci_zone :: ociZoneGenerator where
  "demo_oci_zone = \<lparr>og_zone = demo_zone_gen, og_cluster = [], og_nodeNSGID = '''', og_dataKeyID = '''', og_subnetIDs = [''s1'', ''s2''],
     og_templatePool = Some demo_template\<rparr>"

definition demo_placements :: "json list" where
  "demo_placements = map (\<lambda>(d, s). JObj [(''availabilityDomain'', JStr d), (''subnetId'', JStr s)])
     [(''AD-1'', ''s1''), (''AD-2'', ''s2''), (''AD-3'', ''s1'')]"

theorem oci_placements_witness:
  "getPlacements std_ext demo_oci_zone demo_template ''main'' demo_pool_spec = Inr demo_placements \<and>
   (\<exists>domains. sorted domains \<and> distinct domains \<and> set domains = {d. usable_domain std_ext demo_template demo_pool_spec d} \<and> length domains = 3)"
proof -
  have run: "getPlacements std_ext demo_oci_zone demo_template ''main'' demo_pool_spec = Inr demo_placements"
    by code_simp
  moreover have "length demo_placements = 3" by (simp add: demo_placements_def)
  ultimately show ?thesis using oci_placements [OF run] by auto
qed

end
