(* ===== verification/Zone_Access.thy ===== *)
theory Zone_Access
  imports Zone_Demo
begin

text \<open>
  Who may do what in the namespaces of a zone, which traffic its network policies admit, and an ingress that stops the
  generation of a zone.
\<close>

section \<open>Bindings\<close>

text \<open>Rules that let nothing be changed.\<close>

definition read_only :: "kobject \<Rightarrow> bool" where
  "read_only ob \<longleftrightarrow> (\<exists>rules. map_of (k_fields ob) ''Rules'' = Some (VList (map rule_val rules)) \<and>
     (\<forall>r \<in> set rules. set (pr_Verbs r) \<subseteq> {''get'', ''watch'', ''list''}))"

definition rbac_kind :: "string \<Rightarrow> kobject \<Rightarrow> bool" where
  "rbac_kind kind ob \<longleftrightarrow> k_apiVersion ob = ''rbac.authorization.k8s.io/v1'' \<and> k_kind ob = kind"

text \<open>The roles a binding of a role mapping may name in a namespace.\<close>

definition granted_roles :: "string \<Rightarrow> string \<Rightarrow> (string \<times> string) set" where
  "granted_roles role ns =
     (if role = RoleObserver then {(''Role'', ns @ ''-read'')}
      else {(''Role'', ns @ ''-all''), (''ClusterRole'', crossplaneViewClusterRole)} \<union>
        (if role = RoleMaintainer then {(''Role'', ns @ ''-namespace'')} else {}))"

definition binding_of :: "string list gomap \<Rightarrow> kobject \<Rightarrow> bool" where
  "binding_of mappings ob \<longleftrightarrow> (\<exists>role groups kind name. map_of mappings role = Some groups \<and>
     (kind, name) \<in> granted_roles role (k_namespace ob) \<and>
     map_of (k_fields ob) ''Subjects'' = Some (group_subjects groups) \<and> map_of (k_fields ob) ''RoleRef'' = Some (role_ref kind name))"

lemma add_mappings_wf: "wf_map m \<Longrightarrow> wf_map (add_mappings rms m)"
  by (induction rms arbitrary: m) simp_all

lemma mergeRoleMappings_wf: "wf_map (mergeRoleMappings z env)"
proof -
  have "map fst (map (\<lambda>(k, v). (k, f k v)) m) = map fst m" for f :: "string \<Rightarrow> string list \<Rightarrow> string list" and m
    by (induction m) auto
  then show ?thesis unfolding mergeRoleMappings_def wf_map_def using add_mappings_wf [unfolded wf_map_def] by (simp only:) simp
qed

lemma zone_object_simps [simp]:
  "k_apiVersion (zone_object v kind n ns l a fs) = v" "k_kind (zone_object v kind n ns l a fs) = kind"
  "k_name (zone_object v kind n ns l a fs) = n" "k_namespace (zone_object v kind n ns l a fs) = ns"
  "k_fields (zone_object v kind n ns l a fs) = fs"
  by (simp_all add: zone_object_def)

lemmas zone_kinds = getNamespace_def getNetworkPolicy_def getAllRole_def getReadRole_def getNamespaceRole_def getRole_def
  getRoleBinding_def getClusterRoleRoleBinding_def getRoleBindingRef_def getLabelsMutatingPolicy_def mutating_policy_def getAppProject_def
  getClusterRoleBinding_def

lemma binding_ofI:
  "map_of mappings role = Some groups \<Longrightarrow> (kind, name) \<in> granted_roles role ns \<Longrightarrow>
   binding_of mappings (getRoleBindingRef g ns bindingName kind name groups)"
  unfolding binding_of_def by (intro exI conjI) (assumption | simp add: getRoleBindingRef_def)+

lemma common_binding:
  assumes "common_entry g n (Typed ob)" and "k_kind ob = ''RoleBinding''" and wf: "wf_map (zg_roleMappings g)"
  shows "binding_of (zg_roleMappings g) ob"
proof -
  have map: "map_of (zg_roleMappings g) role = Some groups" if "(role, groups) \<in> set (zg_roleMappings g)" for role groups
    using that wf by (simp add: wf_map_def)
  show ?thesis
    using assms(1)
  proof (cases rule: common_entry.cases)
    case (Binding role groups ns)
    have "(''Role'', ns @ (if role = RoleObserver then ''-read'' else ''-all'')) \<in> granted_roles role ns"
      by (simp add: granted_roles_def)
    from binding_ofI [OF map [OF Binding(3)] this] Binding(2) show ?thesis by (simp add: getRoleBinding_def)
  next
    case (Maintainer_binding groups ns)
    have "(''Role'', ns @ ''-namespace'') \<in> granted_roles RoleMaintainer ns"
      by (simp add: granted_roles_def)
    from binding_ofI [OF map [OF Maintainer_binding(3)] this] Maintainer_binding(2) show ?thesis by (simp add: getRoleBinding_def)
  next
    case (View_binding role groups ns)
    have "(''ClusterRole'', crossplaneViewClusterRole) \<in> granted_roles role ns"
      using View_binding(4) by (simp add: granted_roles_def)
    from binding_ofI [OF map [OF View_binding(3)] this] View_binding(2) show ?thesis by (simp add: getClusterRoleRoleBinding_def)
  qed (use assms(2) in \<open>auto simp: zone_kinds Let_def split: if_splits\<close>)
qed

lemma common_read_role:
  assumes "common_entry g n (Typed ob)" and "rbac_kind ''Role'' ob" and "k_name ob = k_namespace ob @ ''-read''"
  shows "read_only ob"
  using assms(1)
proof (cases rule: common_entry.cases)
  case (Read_role ns)
  then show ?thesis
    unfolding read_only_def by (intro exI [of _ "[rbac_rule [''*''] [''*''] [] [''get'', ''watch'', ''list'']]"])
      (simp add: zone_kinds rbac_rule_def)
next
  case (Apps_read ns)
  then show ?thesis
    unfolding read_only_def by (intro exI [of _ "[apps_rule [''get'', ''watch'', ''list'']]"])
      (simp add: zone_kinds rbac_rule_def apps_rule_def)
qed (use assms(2,3) in \<open>auto simp: zone_kinds rbac_kind_def Let_def split: if_splits\<close>)

lemma cloud_no_access:
  "cloud_object (Typed ob) \<Longrightarrow> k_apiVersion ob \<noteq> ''rbac.authorization.k8s.io/v1'' \<and> k_apiVersion ob \<noteq> ''networking.k8s.io/v1''"
  by (auto simp: cloud_kinds_def)

text \<open>
  C32: access follows the role mappings. Every role binding of a zone gives the groups of one role, as the
  mappings of the zone and its environment merge them, one of the roles meant for it: observers get the read role of the
  namespace and nothing else, and only maintainers may change the namespace itself. Every role by the name of a
  read role only reads.
\<close>

theorem zone_role_bindings:
  assumes "GenerateZoneObjects X Z p z required observed = Inr out" and "tenancy_GetEnvironment X Z required = Inr env"
    and "(n, Typed ob) \<in> set out"
  shows "(rbac_kind ''RoleBinding'' ob \<longrightarrow> binding_of (mergeRoleMappings z env) ob) \<and>
     (rbac_kind ''Role'' ob \<and> k_name ob = k_namespace ob @ ''-read'' \<longrightarrow> read_only ob)"
proof -
  from assms(1) obtain g where g: "newZoneGenerator X Z z required observed p = Inr g" and "all_entries (zone_entry X Z p g) out"
    by (rule zone_entries)
  with assms(3) have "zone_entry X Z p g n (Typed ob)" by (auto simp: all_entries_def)
  moreover have maps: "zg_roleMappings g = mergeRoleMappings z env"
    using newZoneGenerator_parts [OF g] assms(2) by simp
  ultimately show ?thesis
  proof (cases rule: zone_entry.cases)
    case Common
    with common_binding [OF Common, unfolded maps, OF _ mergeRoleMappings_wf] common_read_role [OF Common] show ?thesis
      by (auto simp: rbac_kind_def)
  next
    case Cloud
    from cloud_no_access [OF Cloud] show ?thesis by (simp add: rbac_kind_def)
  next
    case Target
    then show ?thesis by (auto simp: target_entry_def target_policy_def rbac_kind_def)
  qed
qed

text \<open>The demonstration zone on OCI.\<close>

lemma demo_oci_gen:
  "\<exists>og. newOCIZoneGenerator std_ext (demo_zone_gen\<lparr>zg_ingressClasses := [c]\<rparr>) = Inr og \<and>
     og_zone og = demo_zone_gen\<lparr>zg_ingressClasses := [c]\<rparr>"
proof -
  have "firstRequired demo_zone_required ''Cluster'' = Some []" "firstRequired demo_zone_required ''NodeSecurityGroup'' = Some []"
    by code_simp+
  then show ?thesis by (simp add: newOCIZoneGenerator_def)
qed

definition demo_target :: kobject where
  "demo_target = target_policy ''web'' ''front'' ''shop'' demo_service (StrVal ''http'') [IPBlock ''10.0.1.0/24'']"

lemma demo_slices:
  "gslice demo_zone_required ''webIngresses'' = [Some []]" "gslice demo_zone_required ''webServices'' = [Some []]"
  "gslice demo_zone_required ''webHTTPRoutes'' = []"
  by code_simp+

lemma demo_converted:
  "zx_ingress (demo_zone_ext c paths) = (\<lambda>ob. Inr (demo_ingress paths))" "zx_service (demo_zone_ext c paths) = (\<lambda>ob. Inr demo_service)"
  by (simp_all only: demo_zone_ext_def zone_ext.simps)

lemma demo_lookups:
  "ExtractResources (Some demo_zone_required) ''webIngresses'' (zx_ingress (demo_zone_ext c paths)) = Inr [demo_ingress paths]"
  "ExtractResources (Some demo_zone_required) ''webServices'' (zx_service (demo_zone_ext c paths)) = Inr [demo_service]"
  unfolding demo_converted by (simp_all add: ExtractResources_def demo_slices)

lemma demo_added:
  "addTargetNetworkPolicy [] ''web'' ''front'' ''shop'' '''' 80 [demo_service] [IPBlock ''10.0.1.0/24''] =
     [(''netpol-web-front-shop-http'', Typed demo_target)]"
  by (simp add: addTargetNetworkPolicy_def demo_target_def GetTargetNetworkPolicyKey_def demo_service_def)

lemma demo_oci_policies:
  assumes "og_zone og = demo_zone_gen\<lparr>zg_ingressClasses := [demo_class ''ingress.oraclecloud.com'' ''IngressClassParameters'']\<rparr>"
  shows "oci_generateTargetNetworkPolicies std_ext demo_oci og = Inr [(''netpol-web-front-shop-http'', Typed demo_target)]"
proof -
  let ?c = "demo_class ''ingress.oraclecloud.com'' ''IngressClassParameters''"
  have "oci_class_blocks_loop (param_subnets std_ext (gslice demo_zone_required ''IngressClassParams''))
      (subnet_networks std_ext (gslice demo_zone_required ''Subnets'')) [?c] [] = [(''alb'', [IPBlock ''10.0.1.0/24''])]"
    by code_simp
  then have "oci_getIngressClassBlocks std_ext og = [(''alb'', [IPBlock ''10.0.1.0/24''])]"
    by (simp add: oci_getIngressClassBlocks_def assms)
  moreover have "oci_targets_loop std_ext demo_oci demo_zone_required [(''alb'', [IPBlock ''10.0.1.0/24''])] b [''web''] [] =
      Inr [(''netpol-web-front-shop-http'', Typed demo_target)]" for b
    by (simp add: demo_lookups demo_slices oci_rules_def demo_ingress_def demo_backend_def demo_added map_filter_def)
  ultimately show ?thesis by (simp add: oci_generateTargetNetworkPolicies_def assms)
qed

lemma demo_oci_run:
  "\<exists>out. GenerateZoneObjects std_ext demo_oci CloudProviderOCI demo_zone demo_zone_required [] = Inr out \<and>
     (''rb-observer-team-web'', Typed (getRoleBinding
        (demo_zone_gen\<lparr>zg_ingressClasses := [demo_class ''ingress.oraclecloud.com'' ''IngressClassParameters'']\<rparr>)
        ''web'' ''web-observer'' ''web-read'' [''auditors'', ''guests''])) \<in> set out \<and>
     (''netpol-web-front-shop-http'', Typed demo_target) \<in> set out"
proof -
  let ?c = "demo_class ''ingress.oraclecloud.com'' ''IngressClassParameters''"
  let ?g = "demo_zone_gen\<lparr>zg_ingressClasses := [?c]\<rparr>"
  obtain og where og: "newOCIZoneGenerator std_ext ?g = Inr og" "og_zone og = ?g" using demo_oci_gen by blast
  obtain common where common: "generateCommon demo_oci ?g = Inr common"
    "map_of common ''rb-observer-team-web'' = Some (Typed (getRoleBinding ?g ''web'' ''web-observer'' ''web-read'' [''auditors'', ''guests'']))"
    using demo_zone_common [of ?c "[Some demo_backend]"] by blast
  have "oci_generateNodePools std_ext demo_oci og = Inr []" by (simp add: oci_generateNodePools_def og)
  with og common have run: "GenerateZoneObjects std_ext demo_oci CloudProviderOCI demo_zone demo_zone_required [] =
      Inr (gset ''netpol-web-front-shop-http'' (Typed demo_target) common)"
    by (simp add: GenerateZoneObjects_def demo_gen oci_generate_def demo_oci_policies)
  have "map_of (gset ''netpol-web-front-shop-http'' (Typed demo_target) common) ''rb-observer-team-web'' =
      Some (Typed (getRoleBinding ?g ''web'' ''web-observer'' ''web-read'' [''auditors'', ''guests'']))"
    "map_of (gset ''netpol-web-front-shop-http'' (Typed demo_target) common) ''netpol-web-front-shop-http'' = Some (Typed demo_target)"
    by (simp_all add: common(2))
  with run show ?thesis by (blast dest: map_of_SomeD)
qed

theorem zone_role_bindings_witness:
  "\<exists>out n ob. GenerateZoneObjects std_ext demo_oci CloudProviderOCI demo_zone demo_zone_required [] = Inr out \<and>
     (n, Typed ob) \<in> set out \<and> rbac_kind ''RoleBinding'' ob \<and> binding_of [(RoleObserver, [''auditors'', ''guests''])] ob"
proof -
  obtain out where out: "GenerateZoneObjects std_ext demo_oci CloudProviderOCI demo_zone demo_zone_required [] = Inr out"
    and entry: "(''rb-observer-team-web'', Typed (getRoleBinding
        (demo_zone_gen\<lparr>zg_ingressClasses := [demo_class ''ingress.oraclecloud.com'' ''IngressClassParameters'']\<rparr>)
        ''web'' ''web-observer'' ''web-read'' [''auditors'', ''guests''])) \<in> set out" (is "(_, Typed ?ob) \<in> _")
    using demo_oci_run by blast
  have k: "rbac_kind ''RoleBinding'' ?ob" by (simp add: rbac_kind_def zone_kinds)
  with zone_role_bindings [OF out demo_gen_parts(1) entry] out entry show ?thesis
    unfolding demo_gen_parts by blast
qed

section \<open>Traffic\<close>

text \<open>
  What a network policy lets into the pods it selects, from its \<open>Ingress\<close> rules: the peers of all rules. A policy
  that does not list \<open>Ingress\<close> among its types restricts no incoming traffic, and a rule without peers admits every
  source; such a policy has no list of peers.
\<close>

fun rule_peers :: "gval \<Rightarrow> gval list option" where
  "rule_peers (VObj r) = (case map_of r ''From'' of Some (VList []) \<Rightarrow> None | Some (VList ps) \<Rightarrow> Some ps | _ \<Rightarrow> None)"
| "rule_peers v = None"

fun all_peers :: "gval list \<Rightarrow> gval list option" where
  "all_peers [] = Some []"
| "all_peers (r # rs) = (case (rule_peers r, all_peers rs) of (Some ps, Some qs) \<Rightarrow> Some (ps @ qs) | _ \<Rightarrow> None)"

definition admitted_sources :: "kobject \<Rightarrow> gval list option" where
  "admitted_sources ob =
     (case map_of (k_fields ob) ''Spec'' of
        Some (VObj spec) \<Rightarrow>
          (case (map_of spec ''PolicyTypes'', map_of spec ''Ingress'') of
             (Some (VList types), Some (VList rules)) \<Rightarrow> if VStr ''Ingress'' \<in> set types then all_peers rules else None
           | _ \<Rightarrow> None)
      | _ \<Rightarrow> None)"

lemma admitted_network_policy:
  "admitted_sources (getNetworkPolicy g ns granular) =
     Some [peer_val (LabelledPods (if granular then [(''kubernetes.io/metadata.name'', ns)] else [(TenancyZoneLabel, zone_name g)]) None)]"
  by (simp add: admitted_sources_def getNetworkPolicy_def Let_def)

lemma admitted_target_policy: "blocks \<noteq> [] \<Longrightarrow> admitted_sources (target_policy ns i s service port blocks) = Some (map peer_val blocks)"
  by (cases blocks) (simp_all add: admitted_sources_def target_policy_def Let_def)

text \<open>
  The names of the two kinds of policies overlap: in a namespace named like its zone, the policy of a service can have the
  name that the isolation policy of another namespace has.
\<close>

lemma policy_names_collide:
  "GetTargetNetworkPolicyKey zone i s port = GetNetworkPolicyKey zone (i @ ''-'' @ s @ ''-'' @ intstr_String port)"
  by (simp add: GetTargetNetworkPolicyKey_def GetNetworkPolicyKey_def)

lemma fold_elems: "elems (fold (\<lambda>x s. if P x then s else set_Add s (f x)) xs s) = f ` {x \<in> set xs. \<not> P x} \<union> elems s"
  by (induction xs arbitrary: s) (auto simp: set_Add_def)

lemma fold_wf: "wf_map s \<Longrightarrow> wf_map (fold (\<lambda>x s. if P x then s else set_Add s (f x)) xs s)"
  by (induction xs arbitrary: s) (auto simp: set_Add_def)

lemma GetUniqueNamespaces_set:
  "set (GetUniqueNamespaces z nss) = zn_Name ` set (zo_Namespaces z) \<union> ns_Name ` {ns \<in> set nss. \<not> ns_Terminating ns}"
  using fold_elems [of ns_Terminating ns_Name nss "NewSet []"] fold_elems [of "\<lambda>x. False" zn_Name "zo_Namespaces z"]
  by (simp add: GetUniqueNamespaces_def Let_def set_ToSlice_def elems_def NewSet_def)

text \<open>
  C31: a zone is isolated. A network policy of a zone is in a namespace of the zone and restricts the traffic into it. Either
  it admits the pods of the zone's namespaces only, or the pods of its own namespace only, or it is for a service behind
  an ingress or a route of the namespace, and admits that one's load balancers only. On AWS these are the networks of the
  subnets listed by the parameters of the class of the ingress, or by the load balancer configuration of a gateway that
  is a parent of the route; on OCI the network of the subnet named by the parameters of the class, or the pods of the
  parent gateway.
\<close>

theorem zone_network_isolation:
  assumes "GenerateZoneObjects X Z p z required observed = Inr out" and "(n, Typed ob) \<in> set out"
    and "k_apiVersion ob = ''networking.k8s.io/v1''" and "k_kind ob = ''NetworkPolicy''"
  shows "\<exists>namespaces. ExtractResources (Some required) ''Namespaces'' (zx_namespace Z) = Inr namespaces \<and>
     k_namespace ob \<in> set (GetUniqueNamespaces z namespaces) \<and>
     (admitted_sources ob = Some [peer_val (LabelledPods [(TenancyZoneLabel, zo_name z)] None)] \<or>
      admitted_sources ob = Some [peer_val (LabelledPods [(''kubernetes.io/metadata.name'', k_namespace ob)] None)] \<or>
      (\<exists>i service port peers. k_name ob = i @ ''-'' @ service @ ''-'' @ intstr_String port \<and>
         admitted_sources ob = Some (map peer_val peers) \<and> peers \<noteq> [] \<and>
         set peers \<subseteq> load_balancers X Z p required (k_namespace ob) i))"
proof -
  from assms(1) obtain g where g: "newZoneGenerator X Z z required observed p = Inr g" and "all_entries (zone_entry X Z p g) out"
    by (rule zone_entries)
  with assms(2) have "zone_entry X Z p g n (Typed ob)" by (auto simp: all_entries_def)
  moreover note parts = newZoneGenerator_parts [OF g]
  ultimately show ?thesis
  proof (cases rule: zone_entry.cases)
    case Common
    then show ?thesis
    proof (cases rule: common_entry.cases)
      case (Network_policy ns)
      have "ns \<in> set (GetUniqueNamespaces z (zg_namespaces g))"
        using Network_policy(3) parts(1) by (simp add: GetUniqueNamespaces_set zone_namespaces_def)
      moreover have "k_namespace ob = ns" using Network_policy(2) by (simp add: zone_kinds Let_def)
      ultimately show ?thesis
        using Network_policy(2) parts(1,5) by (intro exI [of _ "zg_namespaces g"]) (simp add: admitted_network_policy)
    qed (use assms(3,4) in \<open>auto simp: zone_kinds Let_def split: if_splits\<close>)
  next
    case Cloud
    from cloud_no_access [OF Cloud] assms(3) show ?thesis by simp
  next
    case Target
    then obtain ns i s service port blocks where t: "ns \<in> set (zg_uqNamespaces g)" "ob = target_policy ns i s service port blocks"
      "blocks \<noteq> []" "set blocks \<subseteq> load_balancers X Z p required ns i"
      by (auto simp: target_entry_def parts)
    have "k_namespace ob = ns" "k_name ob = i @ ''-'' @ s @ ''-'' @ intstr_String port" by (simp_all add: t(2) target_policy_def)
    moreover have "admitted_sources ob = Some (map peer_val blocks)" unfolding t(2) by (rule admitted_target_policy [OF t(3)])
    moreover have "k_namespace ob \<in> set (GetUniqueNamespaces z (zg_namespaces g))" using t(1) parts(6) \<open>k_namespace ob = ns\<close> by simp
    ultimately show ?thesis using t(3,4) parts(5) by blast
  qed
qed

lemma peer_val_network: "peer_val q = peer_val (IPBlock cidr) \<Longrightarrow> q = IPBlock cidr"
  by (cases q) (auto split: option.splits)

theorem zone_network_isolation_witness:
  "\<exists>out i. GenerateZoneObjects std_ext demo_oci CloudProviderOCI demo_zone demo_zone_required [] = Inr out \<and>
     (''netpol-web-front-shop-http'', Typed demo_target) \<in> set out \<and>
     k_namespace demo_target \<in> set (GetUniqueNamespaces demo_zone []) \<and>
     IPBlock ''10.0.1.0/24'' \<in> load_balancers std_ext demo_oci CloudProviderOCI demo_zone_required ''web'' i"
proof -
  obtain out where out: "GenerateZoneObjects std_ext demo_oci CloudProviderOCI demo_zone demo_zone_required [] = Inr out"
    and entry: "(''netpol-web-front-shop-http'', Typed demo_target) \<in> set out"
    using demo_oci_run by blast
  have k: "k_apiVersion demo_target = ''networking.k8s.io/v1''" "k_kind demo_target = ''NetworkPolicy''"
    "k_namespace demo_target = ''web''"
    by (simp_all add: demo_target_def target_policy_def)
  have a: "admitted_sources demo_target = Some [peer_val (IPBlock ''10.0.1.0/24'')]"
    by (simp add: demo_target_def admitted_target_policy)
  have no: "admitted_sources demo_target \<noteq> Some [peer_val (LabelledPods l None)]" for l
    unfolding a using peer_val_network [of "LabelledPods l None"] by auto
  from zone_network_isolation [OF out entry k(1,2)] no obtain namespaces i peers where
    n: "ExtractResources (Some demo_zone_required) ''Namespaces'' (zx_namespace demo_oci) = Inr namespaces"
      "k_namespace demo_target \<in> set (GetUniqueNamespaces demo_zone namespaces)" and
    m: "admitted_sources demo_target = Some (map peer_val peers)" and
    p: "set peers \<subseteq> load_balancers std_ext demo_oci CloudProviderOCI demo_zone_required (k_namespace demo_target) i"
    by metis
  from m a have "map peer_val peers = [peer_val (IPBlock ''10.0.1.0/24'')]" by simp
  then obtain q where q: "peers = [q]" "peer_val q = peer_val (IPBlock ''10.0.1.0/24'')" by (cases peers) auto
  have "peers = [IPBlock ''10.0.1.0/24'']" using q(1) peer_val_network [OF q(2)] by simp
  moreover have "namespaces = []" using n(1) by (simp add: demo_gen_parts)
  ultimately show ?thesis using out entry n(2) p k(3) by auto
qed

section \<open>An ingress with a resource backend\<close>

lemma paths_fail: "None \<in> set paths \<Longrightarrow> \<exists>e. aws_paths_loop ns i services blocks paths objs = Inl e"
proof (induction paths arbitrary: objs)
  case (Cons path paths)
  then show ?case by (cases path) auto
qed simp

lemma rules_fail:
  "Some paths \<in> set rules \<Longrightarrow> None \<in> set paths \<Longrightarrow> \<exists>e. aws_rules_loop ns i services blocks rules objs = Inl e"
proof (induction ns i services blocks rules objs rule: aws_rules_loop.induct)
  case (3 ns i services blocks ps rules objs)
  show ?case
  proof (cases "aws_paths_loop ns i services blocks ps objs")
    case (Inr objs1)
    with 3 paths_fail [of ps ns i services blocks objs] show ?thesis by auto
  qed simp
qed auto

lemma ingresses_fail:
  "ingress \<in> set ingresses \<Longrightarrow> in_ClassName ingress = Some c \<Longrightarrow> gslice classBlocks c \<noteq> [] \<Longrightarrow> Some paths \<in> set (in_Rules ingress) \<Longrightarrow>
   None \<in> set paths \<Longrightarrow> \<exists>e. aws_ingresses_loop Z classBlocks ns services ingresses objs = Inl e"
proof (induction ingresses arbitrary: objs)
  case (Cons ing ingresses)
  show ?case
  proof (cases "ing = ingress")
    case True
    with rules_fail [OF Cons.prems(4,5), of ns "in_Name ingress" services "gslice classBlocks c" objs] Cons.prems(2,3) show ?thesis
      by (auto simp: Let_def)
  next
    case False
    with Cons have later: "\<exists>e. aws_ingresses_loop Z classBlocks ns services ingresses objs' = Inl e" for objs' by simp
    show ?thesis
    proof (cases "aws_ingresses_loop Z classBlocks ns services (ing # ingresses) objs")
      case (Inr out)
      then have "\<exists>objs'. aws_ingresses_loop Z classBlocks ns services ingresses objs' = Inr out"
        by (auto simp: Let_def res_simps split: option.splits if_splits)
      with later show ?thesis by (metis sum.distinct(1))
    qed simp
  qed
qed simp

lemma targets_fail:
  assumes "ns \<in> set nss" and "ns \<noteq> ''''" and "ExtractResources (Some required) (ns @ ''Ingresses'') (zx_ingress Z) = Inr ingresses"
    and bad: "ingress \<in> set ingresses" "in_ClassName ingress = Some c" "gslice classBlocks c \<noteq> []" "Some paths \<in> set (in_Rules ingress)" "None \<in> set paths"
  shows "\<exists>e. aws_targets_loop X Z required classBlocks gatewayBlocks nss objs = Inl e"
  using assms(1)
proof (induction nss arbitrary: objs)
  case (Cons m nss)
  show ?case
  proof (cases "aws_targets_loop X Z required classBlocks gatewayBlocks (m # nss) objs")
    case (Inr out)
    show ?thesis
    proof (cases "m = ns")
      case True
      with Inr assms(2,3) obtain services objs1 where "aws_ingresses_loop Z classBlocks ns services ingresses objs = Inr objs1"
        by (auto simp: res_simps)
      with ingresses_fail [OF bad] show ?thesis by (metis sum.distinct(1))
    next
      case False
      with Inr have "\<exists>objs'. aws_targets_loop X Z required classBlocks gatewayBlocks nss objs' = Inr out"
        by (auto simp: res_simps split: if_splits)
      with Cons False show ?thesis by (metis set_ConsD sum.distinct(1))
    qed
  qed simp
qed simp

text \<open>
  C34: an ingress whose backend is a resource stops its zone on AWS. When an ingress of one of the zone's namespaces
  uses a class with known networks, and a path of it leads to a resource instead of a service, then no object of the zone
  is generated at all: the name of the service is read without looking whether there is one.
\<close>

theorem resource_backend_fails:
  assumes "newZoneGenerator X Z z required observed CloudProviderAWS = Inr zg" and "newAWSZoneGenerator Z zg = Inr g"
    and "aws_getIngressClassBlocks X Z g = Inr classBlocks"
    and "ns \<in> set (zg_uqNamespaces zg)" and "ns \<noteq> ''''" and "ExtractResources (Some required) (ns @ ''Ingresses'') (zx_ingress Z) = Inr ingresses"
    and "ingress \<in> set ingresses" and "in_ClassName ingress = Some c" and "gslice classBlocks c \<noteq> []"
    and "Some paths \<in> set (in_Rules ingress)" and "None \<in> set paths"
  shows "\<exists>e. GenerateZoneObjects X Z CloudProviderAWS z required observed = Inl e"
proof -
  have ag: "ag_zone g = zg" using assms(2) by (auto simp: newAWSZoneGenerator_def Let_def res_simps)
  have req: "zg_required zg = required" by (rule newZoneGenerator_parts [OF assms(1)])
  have "\<exists>e. aws_generateTargetNetworkPolicies X Z g = Inl e"
  proof (cases "aws_getGatewayBlocks X g")
    case (Inr gatewayBlocks)
    then show ?thesis
      using targets_fail [OF assms(4,5) assms(6-11)] by (simp add: aws_generateTargetNetworkPolicies_def assms(3) ag req)
  qed (simp add: aws_generateTargetNetworkPolicies_def assms(3))
  then have "\<exists>e. aws_generate X Z g = Inl e"
    by (cases "generateCommon Z (ag_zone g)"; cases "aws_generateNodePools X Z g"; cases "generateSecretStore Z g")
      (auto simp: aws_generate_def Let_def)
  then show ?thesis by (auto simp: GenerateZoneObjects_def assms(1,2))
qed

lemma demo_aws_gen:
  "\<exists>g. newAWSZoneGenerator (demo_aws paths) (demo_zone_gen\<lparr>zg_ingressClasses := cs\<rparr>) = Inr g \<and>
     ag_zone g = demo_zone_gen\<lparr>zg_ingressClasses := cs\<rparr> \<and> ag_subnets g = [demo_subnet]"
proof -
  have "gslice demo_zone_required ''VPC'' = [Some []]" "gslice demo_zone_required ''NodeSecurityGroup'' = [Some []]"
    "gslice demo_zone_required ''Cluster'' = [Some []]" "gslice demo_zone_required ''KMSDataAlias'' = []"
    by code_simp+
  moreover have "\<exists>subnet. gslice demo_zone_required ''Subnets'' = [Some subnet]"
    by (simp add: gslice_def demo_zone_required_def)
  ultimately show ?thesis
    by (auto simp: newAWSZoneGenerator_def ExtractRequiredResource_def ExtractOptionalResource_def ExtractResources_def demo_zone_ext_def)
qed

theorem resource_backend_fails_witness:
  "\<exists>e. GenerateZoneObjects std_ext (demo_aws [Some demo_backend, None]) CloudProviderAWS demo_zone demo_zone_required [] = Inl e"
proof -
  let ?Z = "demo_aws [Some demo_backend, None]"
  let ?zg = "demo_zone_gen\<lparr>zg_ingressClasses := [demo_class ''elbv2.k8s.aws'' ''IngressClassParams'']\<rparr>"
  obtain g where g: "newAWSZoneGenerator ?Z ?zg = Inr g" "ag_zone g = ?zg" "ag_subnets g = [demo_subnet]" using demo_aws_gen by blast
  have "\<exists>ps. gslice demo_zone_required ''IngressClassParams'' = [Some ps] \<and> get_name std_ext ps = ''public''"
    by (simp add: gslice_def demo_zone_required_def) code_simp
  then have ids: "params_ids_loop std_ext ?Z (gslice demo_zone_required ''IngressClassParams'') [] = Inr [(''public'', [''subnet-1''])]"
    by (auto simp: demo_zone_ext_def)
  have "subnetsByExternalName g = [(''subnet-1'', demo_subnet)]"
    by (simp add: subnetsByExternalName_def g(3) demo_subnet_def gget_def Let_def)
  with ids have blocks: "aws_getIngressClassBlocks std_ext ?Z g = Inr [(''alb'', [IPBlock ''10.0.1.0/24''])]"
    by (simp add: aws_getIngressClassBlocks_def getIngressClassParamsSubnetIds_def g(2) demo_class_def resolveSubnets_def
        getSubnetsBlocks_def map_filter_def demo_subnet_def)
  have "ExtractResources (Some demo_zone_required) (''web'' @ ''Ingresses'') (zx_ingress ?Z) = Inr [demo_ingress [Some demo_backend, None]]"
    by (simp add: demo_lookups)
  from resource_backend_fails [OF demo_gen g(1) blocks _ _ this] show ?thesis
    by (simp add: demo_ingress_def)
qed

end
