(* ===== verification/Zone_Order.thy ===== *)
theory Zone_Order
  imports Zone_Demo
begin

text \<open>
  The order in which the resources of a zone are created, and the secret store, which is not part of it.
\<close>

definition zone_prefixes :: "string list list" where
  "zone_prefixes = [[''namespace-'', ''launchtemplate-'', ''kyverno-mutate-''], [''netpol-'', ''role-'', ''sidecar-'', ''kyverno-validate-''],
     [''rbacrole-'', ''rpa-'', ''ae-'', ''crb-''], [''rb-'', ''nodepool-'']]"

text \<open>The step of a name.\<close>

definition zone_step :: "nat \<Rightarrow> string \<Rightarrow> bool" where
  "zone_step i n \<longleftrightarrow> i < length zone_prefixes \<and> (\<exists>p \<in> set (zone_prefixes ! i). prefix p n)"

lemma zone_steps_prefixes: "zone_steps = map (map (\<lambda>p. p @ ''.*'')) zone_prefixes"
  by (simp add: zone_steps_def zone_prefixes_def)

lemma zone_prefixes_literal: "\<forall>ps \<in> set zone_prefixes. \<forall>p \<in> set ps. literal p"
  by code_simp

lemma zone_prefixes_apart:
  "\<forall>i \<in> {..<4}. \<forall>j \<in> {..<4}. \<forall>p \<in> set (zone_prefixes ! i). \<forall>q \<in> set (zone_prefixes ! j). prefix p q \<longrightarrow> i = j"
  by code_simp

lemma zone_step_unique:
  assumes "zone_step i n" and "zone_step j n"
  shows "i = j"
proof -
  have l: "length zone_prefixes = 4" by (simp add: zone_prefixes_def)
  from assms obtain p q where pq: "p \<in> set (zone_prefixes ! i)" "prefix p n" "q \<in> set (zone_prefixes ! j)" "prefix q n"
    and ij: "i \<in> {..<4}" "j \<in> {..<4}"
    by (auto simp: zone_step_def l)
  from prefix_same_cases [OF pq(2,4)] show ?thesis
    using zone_prefixes_apart ij pq(1,3) by metis
qed

lemma zone_sequence:
  assumes "zo_kind z = XRKindZone"
  shows "seq_regex (tenancy_GetSequence z)" and "map step_objects (seq_steps (tenancy_GetSequence z)) = zone_steps"
proof -
  have "filter (\<lambda>obs. obs \<noteq> []) zone_steps = zone_steps" by (simp add: zone_steps_def)
  then show "map step_objects (seq_steps (tenancy_GetSequence z)) = zone_steps"
    using assms by (simp add: tenancy_GetSequence_def NewSequence_steps)
  show "seq_regex (tenancy_GetSequence z)" using assms by (simp add: tenancy_GetSequence_def NewSequence_def)
qed

lemma zone_in_step:
  assumes "zo_kind z = XRKindZone" and "CHR 0x0A \<notin> set n"
  shows "in_step (tenancy_GetSequence z) i n \<longleftrightarrow> zone_step i n"
proof -
  have len: "length (seq_steps (tenancy_GetSequence z)) = length zone_prefixes"
    using arg_cong [OF zone_sequence(2) [OF assms(1)], of length] by (simp add: zone_steps_prefixes)
  have step: "step_objects (seq_steps (tenancy_GetSequence z) ! i) = map (\<lambda>p. p @ ''.*'') (zone_prefixes ! i)" if "i < length zone_prefixes"
    using arg_cong [OF zone_sequence(2) [OF assms(1)], of "\<lambda>xs. xs ! i"] that by (simp add: zone_steps_prefixes len)
  have "matches (p @ ''.*'') n \<longleftrightarrow> prefix p n" if "p \<in> set (zone_prefixes ! i)" "i < length zone_prefixes" for p
  proof -
    have "literal p" using zone_prefixes_literal nth_mem [OF that(2)] that(1) by blast
    from matches_prefix [OF this] assms(2) show ?thesis by (auto simp: trim_prefix_def dest: in_set_dropD)
  qed
  then have "(\<exists>p \<in> set (zone_prefixes ! i). matches (p @ ''.*'') n) \<longleftrightarrow> (\<exists>p \<in> set (zone_prefixes ! i). prefix p n)"
    if "i < length zone_prefixes" using that by blast
  then show ?thesis
    by (cases "i < length zone_prefixes") (simp_all add: in_step_def zone_step_def len step zone_sequence(1) [OF assms(1)])
qed

lemma secret_store_no_step: "prefix ''secretstore-'' n \<Longrightarrow> \<not> zone_step i n"
proof
  assume pre: "prefix ''secretstore-'' n" and "zone_step i n"
  then obtain p where p: "p \<in> set (zone_prefixes ! i)" "i \<in> {..<4}" "prefix p n" by (auto simp: zone_step_def zone_prefixes_def)
  have "\<forall>i \<in> {..<4}. \<forall>p \<in> set (zone_prefixes ! i). \<not> prefix p ''secretstore-'' \<and> \<not> prefix ''secretstore-'' p" by code_simp
  with p prefix_same_cases [OF p(3) pre] show False by blast
qed

text \<open>
  C33: the order of a zone. In a run a resource that is not observed yet joins its step only when the generated
  resources of the step before are observed and ready: first namespaces, launch templates and mutating policies, then
  network policies, the node role, sidecars and validating policies, then roles, attachments and the access entry, then
  role bindings and node pools. The secret store stands outside of the order: every successful run has all of it,
  whatever is ready.
\<close>

theorem zone_order:
  assumes "support_by_kind X A S gen" and "iteration ord" and "cache_ok S c" and "zo_kind z = XRKindZone"
    and place: "fst (place_resources X A (tenancy_group Y Z p) ws ord z observed desired gen rt c) = Inr d"
    and "map_of gen n \<noteq> None" and "CHR 0x0A \<notin> set n"
  shows "(prefix ''secretstore-'' n \<longrightarrow> map_of d n \<noteq> None) \<and>
     (\<forall>i m. zone_step (Suc i) n \<and> map_of observed n = None \<and> map_of d n \<noteq> map_of desired n \<and>
        zone_step i m \<and> map_of gen m \<noteq> None \<and> CHR 0x0A \<notin> set m \<longrightarrow>
        (\<exists>oc ob. map_of observed m = Some oc \<and> oc_resource oc = Some ob \<and> GetCrossplaneReadyStatus X ob = ReadyTrue))"
proof (intro conjI allI impI; (elim conjE)?)
  let ?G = "tenancy_group Y Z p"
  have s: "GetSequence ?G z = tenancy_GetSequence z" by (simp add: tenancy_group_def)
  obtain names where names: "sequence_names ?G z gen = Inr names" using tenancy.sequence_compiles by blast
  note in_step = zone_in_step [OF assms(4), folded s]
  show "map_of d n \<noteq> None" if "prefix ''secretstore-'' n"
  proof -
    have "n \<notin> set (names ! i)" if "i < length names" for i
      using step_members [OF names _ assms(6), of i] step_count [OF names] that in_step [OF assms(7)]
        secret_store_no_step [OF \<open>prefix _ n\<close>] by simp
    then have "n \<notin> set (concat names)" by (auto simp: in_set_conv_nth [of _ names])
    then have "planned X ?G observed gen names n" using assms(6) by (simp add: planned_def)
    with place_resources_post [OF assms(1-3), of ?G z observed ws rt desired, unfolded place] names show ?thesis
      by (elim place_postE) (fastforce simp: is_ok_iff)
  qed
  fix i m
  assume a: "zone_step (Suc i) n" "map_of observed n = None" "map_of d n \<noteq> map_of desired n" "zone_step i m"
    "map_of gen m \<noteq> None" "CHR 0x0A \<notin> set m"
  have only: "\<forall>j. in_step (GetSequence ?G z) j n \<longrightarrow> j = Suc i"
    using in_step [OF assms(7)] zone_step_unique [OF _ a(1)] by blast
  have "\<exists>oc ob. map_of observed m = Some oc \<and> oc_resource oc = Some ob \<and> getReadyStatus X ?G ob = ReadyTrue"
    by (rule step_gate [OF assms(1-3) place names _ only a(2,3) _ a(5)]) (simp_all add: in_step assms(7) a)
  then show "\<exists>oc ob. map_of observed m = Some oc \<and> oc_resource oc = Some ob \<and> GetCrossplaneReadyStatus X ob = ReadyTrue"
    by (simp add: getReadyStatus_def tenancy_group_def)
qed

definition demo_zone_objects :: "gobject objects" where
  "demo_zone_objects = \<lparr>as_unstructured = (\<lambda>ob. case ob of Dynamic u \<Rightarrow> Some u | Typed k \<Rightarrow> None), go_type = (\<lambda>ob. TOther),
     gvk_of = (\<lambda>ob. ('''', '''', '''')), to_unstructured = (\<lambda>ob. Inr [])\<rparr>"

definition demo_zone_resources :: "gobject gomap" where
  "demo_zone_resources = map (\<lambda>n. (n, Dynamic (demo_object n []))) [''netpol-team-web'', ''namespace-web'', ''secretstore-team'']"

definition demo_zone_observed :: observed where
  "demo_zone_observed = [(''namespace-web'', \<lparr>oc_resource = Some (demo_object ''Namespace'' [ready_condition]), oc_connection = []\<rparr>)]"

definition demo_zone_place :: "desired res" where
  "demo_zone_place = fst (place_resources std_ext demo_zone_objects (tenancy_group std_ext demo_oci CloudProviderOCI) '''' in_order demo_zone
     demo_zone_observed [] demo_zone_resources no_tags [])"

lemma demo_zone_place_names:
  "(case demo_zone_place of Inr d \<Rightarrow> map fst d | Inl e \<Rightarrow> []) = [''namespace-web'', ''netpol-team-web'', ''secretstore-team'']"
  by code_simp

theorem zone_order_witness:
  "\<exists>d. demo_zone_place = Inr d \<and> map_of d ''secretstore-team'' \<noteq> None \<and> map_of d ''netpol-team-web'' \<noteq> None \<and>
     (\<exists>oc ob. map_of demo_zone_observed ''namespace-web'' = Some oc \<and> oc_resource oc = Some ob \<and>
        GetCrossplaneReadyStatus std_ext ob = ReadyTrue)"
proof -
  obtain d where d: "demo_zone_place = Inr d" and names: "map fst d = [''namespace-web'', ''netpol-team-web'', ''secretstore-team'']"
    using demo_zone_place_names by (simp split: sum.splits)
  have here: "map_of d n \<noteq> None" if "n \<in> {''netpol-team-web'', ''secretstore-team''}" for n
    using that arg_cong [OF names, of set] by (auto simp: map_of_eq_None_iff)
  have support: "support_by_kind std_ext demo_zone_objects (\<lambda>k. True) demo_zone_resources"
    by (simp add: support_by_kind_def demo_zone_resources_def demo_zone_objects_def demo_object_def resolve_field_path_def tags_path_def)
  note order = zone_order [OF support demo_orders(1) cache_ok_Nil _ d [unfolded demo_zone_place_def]]
  have generated: "map_of demo_zone_resources n \<noteq> None" if "n \<in> {''netpol-team-web'', ''secretstore-team'', ''namespace-web''}" for n
    using that by (auto simp: demo_zone_resources_def)
  have k: "zo_kind demo_zone = XRKindZone" by (simp add: demo_zone_def)
  have "zone_step (Suc 0) ''netpol-team-web''" "zone_step 0 ''namespace-web''" by code_simp+
  moreover have "map_of demo_zone_observed ''netpol-team-web'' = None" by (simp add: demo_zone_observed_def)
  moreover note here [of "''netpol-team-web''"] generated [of "''namespace-web''"]
  ultimately have "zone_step (Suc 0) ''netpol-team-web'' \<and> map_of demo_zone_observed ''netpol-team-web'' = None \<and>
      map_of d ''netpol-team-web'' \<noteq> map_of [] ''netpol-team-web'' \<and> zone_step 0 ''namespace-web'' \<and>
      map_of demo_zone_resources ''namespace-web'' \<noteq> None \<and> CHR 0x0A \<notin> set ''namespace-web''" by simp
  note ready = order [OF k generated, of "''netpol-team-web''", THEN conjunct2, rule_format, OF _ _ this]
  have "map_of d ''secretstore-team'' \<noteq> None"
    using order [OF k generated, of "''secretstore-team''", THEN conjunct1] by simp
  moreover have "\<exists>oc ob. map_of demo_zone_observed ''namespace-web'' = Some oc \<and> oc_resource oc = Some ob \<and>
      GetCrossplaneReadyStatus std_ext ob = ReadyTrue"
    by (rule ready) simp_all
  ultimately show ?thesis using d here by blast
qed

end
