(* ===== verification/Spec2Isabelle.thy ===== *)
theory Spec2Isabelle
  imports Artifact_Props Queue_Props Storage_Props Networking_Props Workload_Props Mq_Props
    Base_Rollout Db_Props Db_User_Props Zone_Props Zone_Access Zone_Order
begin

text \<open>
  Verification of the Crossplane composition functions under \<open>src/functions\<close>.

  \<^bold>\<open>The program.\<close> Every group (\<open>artifact\<close>, \<open>queue\<close>, \<open>storage\<close>, \<open>networking\<close>, \<open>workload\<close>, ...) is a gRPC function
  that Crossplane calls once per reconciliation of a composite resource. The call carries the composite, the
  resources observed in the cluster and the extra resources the function asked for before; the answer is the
  desired set of composed resources and the status of the composite. \<open>functions/common/base\<close> implements the
  call once (\<open>Function.RunFunction\<close>) over the interface \<open>GroupService\<close>: the group generates all objects of the
  composite at once, and the base function decides which of them may be created now, marks their readiness,
  injects the tenancy labels and tags, and collects the status.

  \<^bold>\<open>How Go is modelled.\<close> \<open>Go_Prelude\<close> has results (\<open>res\<close>: a returned error or a panic, or a value), maps as
  association lists with \<open>gset\<close>, \<open>gcopy\<close> and \<open>put_all\<close> (the order of the list is one iteration order; claims are
  stated over \<open>map_of\<close>, and where a Go loop over a map is visible the order is a parameter, \<open>order\<close>); \<open>Go_Strings\<close>
  the functions of \<open>strings\<close>, \<open>Go_Regexp\<close> the regular expressions the groups use, \<open>Go_Encoding\<close> JSON text, base64
  and SHA-256, \<open>Go_Float\<close> float32 and float64 with IEEE rounding, \<open>Go_Time\<close> RFC 3339 times, \<open>Go_Random\<close> the passwords
  drawn from a source of random numbers. \<open>Unstructured\<close> has the JSON values and a
  record \<open>ext\<close> of the accessors of the Kubernetes library, whose documented laws are the locales
  \<open>object_access\<close> (what a set leaves) and \<open>object_reads\<close> (reading below a map or a list), interpreted on a concrete
  implementation (\<open>std\<close>). \<open>Kube\<close> has generated objects as the composite
  literals that the code writes, by their Go field names.

  \<^bold>\<open>The base function\<close> (\<open>common/base\<close>). \<open>Base_Tag\<close> is \<open>tag.go\<close> with its process-wide cache, \<open>Base_Group\<close> \<open>group.go\<close>
  (the interface, sequences), \<open>Base_Util\<close> \<open>util.go\<close>, \<open>Base_Fn\<close> \<open>fn.go\<close>. \<open>Base_Plan\<close> states which resources a run
  should place (\<open>planned\<close>, the specification) and proves that the loops of \<open>Base_Fn\<close> place exactly these;
  \<open>Base_Laws\<close> and \<open>Base_Util_Facts\<close> have the facts about tags and names; \<open>Base_Service\<close> the reading of sequences and
  the locale \<open>group_service\<close>, the contract that every group meets; \<open>Base_Demo\<close> a small group to evaluate.
  \<open>Base_Props\<close> and \<open>Base_Run\<close> hold the properties, and \<open>Base_Rollout\<close> follows a sequence of runs: with a provider
  that makes every placed resource ready some day, every step of a sequence is placed some day.

  \<^bold>\<open>The groups.\<close> \<open>X_Types\<close> has the API types and environment of group \<open>X\<close> (\<open>functions/X/apis\<close>), \<open>X_Service\<close> (and
  \<open>Queue_User\<close>) its generators and its implementation of the group interface (\<open>functions/X/service\<close> and
  \<open>functions/X/group.go\<close>), \<open>X_Props\<close> the interpretation of \<open>group_service\<close> for it, a concrete composite and the
  properties. Artifact: ECR repositories and their lifecycle policies. Queue: MSK clusters, topics and Kafka
  users. Storage: S3 buckets with IAM access. Networking: Istio objects of a web access. Workload: Deployments
  and cron jobs. Mq: RabbitMQ brokers with their configurations. \<open>Aws\<close> has what the groups on AWS share (references,
  key and network resources, readiness).

  \<^bold>\<open>The database group.\<close> \<open>Db_Types\<close> has the seven composites, their statuses and the environment; \<open>Db_Rds\<close> the
  generator that PostgreSQL and MariaDB instances share (\<open>instance_common.go\<close>, \<open>pg_instance.go\<close>,
  \<open>mariadb_instance.go\<close>), \<open>Db_Users\<close> the users and databases in an instance (\<open>pg_user.go\<close>, \<open>mariadb_user.go\<close>,
  \<open>pg_database.go\<close>, \<open>mariadb_database.go\<close>), \<open>Db_Valkey\<close> \<open>valkey_instance.go\<close>, \<open>Db_Service\<close> \<open>group.go\<close>. An object of this
  group is an option, since the code can put a nil object into its map. \<open>Db_Laws\<close> interprets \<open>group_service\<close> and
  states the result of the shared generator by name; \<open>Db_Demo\<close> has concrete composites; \<open>Db_Props\<close> and
  \<open>Db_User_Props\<close> the properties: when an instance is replaced, what an incomplete status does to a run, which
  secrets an instance takes over, which roles a user gets, what credentials a Valkey instance publishes. The
  clock that stamps annotations is a parameter: the time of the \<open>k\<close>-th reading.

  \<^bold>\<open>The tenancy group.\<close> \<open>Zone_Types\<close> has the zone, the environment and what is read of other types; \<open>Zone_Common\<close>
  and \<open>Zone_Namespaces\<close> are \<open>service/zone.go\<close> (namespaces with roles, bindings, network and admission policies, the Argo
  CD project, policies for load balancers), \<open>Zone_Aws\<close> \<open>zone_aws.go\<close>, \<open>Zone_Store\<close> \<open>zone_secretstore.go\<close> with \<open>generate\<close> of
  AWS, \<open>Zone_Oci\<close> \<open>zone_oci.go\<close>, and \<open>Zone_Service\<close> \<open>GenerateZoneObjects\<close> with \<open>group.go\<close>. \<open>Go_Number\<close> has the texts of
  floating point numbers that sizes are read from and written to. \<open>Zone_Laws\<close> interprets \<open>group_service\<close>; \<open>Zone_Inventory\<close>,
  \<open>Zone_Networks\<close> and \<open>Zone_Whole\<close> list every object a zone can consist of on either cloud, and the properties about
  access and traffic are read off this list. \<open>Zone_Demo\<close> has a concrete zone; the properties are who may do what, which
  traffic is admitted, an ingress that stops a zone (\<open>Zone_Access\<close>), when requirements settle, the pools and placements
  of OCI (\<open>Zone_Props\<close>), and the order of creation (\<open>Zone_Order\<close>). An object of a zone is typed or, after a conversion of
  the library, unstructured (\<open>gobject\<close>); \<open>zone_ext\<close> holds these conversions, the decoding of ALB annotations, the
  conversion to \<open>int32\<close> of floats out of range and \<open>strconv.Quote\<close>. Subnets of equal names are sorted stably, where Go leaves their order open, and
  floating point values that are no numbers stand as their texts in generated objects.

  \<^bold>\<open>What the lemmas show.\<close> The base function refines the plan, independently of map iteration orders; a resource
  that is not observed waits until the step before it is observed and ready; an observed one is never
  dropped; tenancy zone and workspace are enforced in labels and tags, within the limit of tags; errors and panics become fatal results. For the
  groups: what each generator produces on every input, the order of creation, the safety of IAM documents, ACLs, grants,
  passwords and secret variables, who may reach a broker or a zone, and the round trips of the texts the code writes
  and reads. Properties that read off what generated objects say (ACLs, grants, rules of a security group, peers of a
  policy) compare all of the objects' fields that decide it with a specification over the composite alone.

  \<^bold>\<open>Parameters.\<close> Code outside the repository is a parameter: the accessors (\<open>ext\<close>), the conversion of objects
  (\<open>objects\<close>), the request and response functions of the SDK (\<open>sdk\<close>), and per group a record of the conversions from
  unstructured objects to the typed composites, of random numbers and of library error texts. Recursion is
  structural everywhere; the only bound is that of the names (63, 253 and 58 characters), as in the code.

  \<^bold>\<open>Not modelled.\<close> Logging, flag parsing and the gRPC servers; the generated deep copies; tests and
  compositions, which are not code of the functions.
\<close>

end
